(* ===== verification/Prelude.thy ===== *)
theory Prelude
  imports Main "HOL-Library.Word" "HOL-Library.Monad_Syntax"
begin

text \<open>
  Shared vocabulary of the development: the machine types of the C sources, slices of C arrays,
  and the simplification collections the component theories extend.

  Conventions used throughout.
  \<^item> A C function that can run into undefined behaviour (an out-of-bounds access, a use of a
    freed object, a signed overflow, an over-long shift) returns an \<^typ>\<open>'a option\<close>;
    \<^term>\<open>None\<close> means that the C source gives the call no defined result. A theorem that a call
    is \<^term>\<open>Some x\<close> is therefore also a theorem that it is free of undefined behaviour.
  \<^item> A C \<open>int\<close> return code is an \<^typ>\<open>int\<close>, compared exactly as the source compares it
    (\<open>-1\<close> for failure), so every early return is a branch of the model.
\<close>

named_theorems c_defs \<open>definitions of small C helpers, unfolded in component proofs\<close>

type_synonym u8 = "8 word"
type_synonym u32 = "32 word"
type_synonym u64 = "64 word"

section \<open>Slices of C arrays\<close>

text \<open>
  \<open>c_slice xs off n\<close> is the array \<open>(xs + off)[0 .. n)\<close>; reading past the end of the
  underlying object is undefined.
\<close>

definition c_slice :: "'a list \<Rightarrow> nat \<Rightarrow> nat \<Rightarrow> 'a list option" where
  "c_slice xs off n = (if off + n \<le> length xs then Some (take n (drop off xs)) else None)"

lemma c_slice_eq_Some:
  "c_slice xs off n = Some ys \<longleftrightarrow> off + n \<le> length xs \<and> ys = take n (drop off xs)"
  by (auto simp: c_slice_def)

lemma c_slice_within [simp]: "off + n \<le> length xs \<Longrightarrow> c_slice xs off n = Some (take n (drop off xs))"
  by (simp add: c_slice_def)

lemma c_slice_beyond [simp]: "length xs < off + n \<Longrightarrow> c_slice xs off n = None"
  by (simp add: c_slice_def)

text \<open>Reading one element, undefined outside the array.\<close>

definition nth_opt :: "'a list \<Rightarrow> nat \<Rightarrow> 'a option" where
  "nth_opt xs i = (if i < length xs then Some (xs ! i) else None)"

lemma nth_opt_within [simp]: "i < length xs \<Longrightarrow> nth_opt xs i = Some (xs ! i)"
  by (simp add: nth_opt_def)

lemma nth_opt_beyond [simp]: "length xs \<le> i \<Longrightarrow> nth_opt xs i = None"
  by (simp add: nth_opt_def)

text \<open>Writing one element, undefined outside the array.\<close>

definition upd_opt :: "'a list \<Rightarrow> nat \<Rightarrow> 'a \<Rightarrow> 'a list option" where
  "upd_opt xs i x = (if i < length xs then Some (xs[i := x]) else None)"

lemma upd_opt_within [simp]: "i < length xs \<Longrightarrow> upd_opt xs i x = Some (xs[i := x])"
  by (simp add: upd_opt_def)

lemma upd_opt_beyond [simp]: "length xs \<le> i \<Longrightarrow> upd_opt xs i x = None"
  by (simp add: upd_opt_def)

section \<open>Range checks of signed 64-bit arithmetic\<close>

definition LLONG_MIN :: int where "LLONG_MIN = - (2 ^ 63)"
definition LLONG_MAX :: int where "LLONG_MAX = 2 ^ 63 - 1"

text \<open>The value of a signed 64-bit expression; out of range is a signed overflow, undefined in C.\<close>

definition s64 :: "int \<Rightarrow> int option" where
  "s64 x = (if LLONG_MIN \<le> x \<and> x \<le> LLONG_MAX then Some x else None)"

lemma s64_eq_Some: "s64 x = Some y \<longleftrightarrow> y = x \<and> LLONG_MIN \<le> x \<and> x \<le> LLONG_MAX"
  by (auto simp: s64_def)

lemma s64_within [simp]: "LLONG_MIN \<le> x \<Longrightarrow> x \<le> LLONG_MAX \<Longrightarrow> s64 x = Some x"
  by (simp add: s64_def)

declare option.pred_True [simp]

end
