(* ===== verification/C_Strings.thy ===== *)
theory C_Strings
  imports Prelude
begin

text \<open>
  The functions of the C string library the Redis module calls (\<open>strncmp\<close>, \<open>strcasecmp\<close>,
  \<open>strtoll\<close>), over character lists. A character list stands for the bytes a pointer reads, and
  the byte after its last one is the terminating NUL that both C literals and Redis strings
  carry; like the C functions, these stop at the first NUL of either argument.
\<close>

definition NUL :: char where "NUL = CHR 0x00"

definition c_hd :: "string \<Rightarrow> char" where
  "c_hd s = (case s of [] \<Rightarrow> NUL | x # _ \<Rightarrow> x)"

fun c_strncmp :: "string \<Rightarrow> string \<Rightarrow> nat \<Rightarrow> int" where
  "c_strncmp a b 0 = 0"
| "c_strncmp a b (Suc n) =
     (if c_hd a \<noteq> c_hd b then int (of_char (c_hd a)) - int (of_char (c_hd b))
      else if c_hd a = NUL then 0 else c_strncmp (tl a) (tl b) n)"

definition c_tolower :: "char \<Rightarrow> nat" where
  "c_tolower c = (let n = of_char c in if 65 \<le> n \<and> n \<le> 90 then n + 32 else n)"

text \<open>Without a length bound the recursion is on the strings; past both ends both read NUL.\<close>

fun c_strcasecmp :: "string \<Rightarrow> string \<Rightarrow> int" where
  "c_strcasecmp [] [] = 0"
| "c_strcasecmp (x # a) [] = int (c_tolower x)"
| "c_strcasecmp [] (y # b) = - int (c_tolower y)"
| "c_strcasecmp (x # a) (y # b) =
     (if c_tolower x \<noteq> c_tolower y then int (c_tolower x) - int (c_tolower y)
      else if x = NUL then 0 else c_strcasecmp a b)"

definition c_isspace :: "char \<Rightarrow> bool" where
  "c_isspace c = (let n = of_char c :: nat in n = 32 \<or> (9 \<le> n \<and> n \<le> 13))"

definition c_isdigit :: "char \<Rightarrow> bool" where
  "c_isdigit c = (let n = of_char c :: nat in 48 \<le> n \<and> n \<le> 57)"

definition digits_value :: "string \<Rightarrow> int" where
  "digits_value ds = foldl (\<lambda>v c. 10 * v + (int (of_char c) - 48)) 0 ds"

text \<open>\<open>strtoll(s, NULL, 10)\<close>: white space, an optional sign, digits; out of range saturates.\<close>

definition c_strtoll10 :: "string \<Rightarrow> int" where
  "c_strtoll10 s =
     (let s1 = dropWhile c_isspace s;
          neg = (s1 \<noteq> [] \<and> hd s1 = CHR ''-'');
          s2 = (if s1 \<noteq> [] \<and> (hd s1 = CHR ''-'' \<or> hd s1 = CHR ''+'') then tl s1 else s1);
          v = digits_value (takeWhile c_isdigit s2);
          x = (if neg then - v else v)
      in max LLONG_MIN (min LLONG_MAX x))"

section \<open>Equality decided by \<open>strncmp\<close>\<close>

text \<open>
  Two strings of the same length that hold no NUL compare equal exactly when they are equal.
\<close>

lemma c_strncmp_eq_iff:
  "length a = n \<Longrightarrow> length b = n \<Longrightarrow> NUL \<notin> set a \<Longrightarrow> c_strncmp a b n = 0 \<longleftrightarrow> a = b"
proof (induction n arbitrary: a b)
  case 0
  then show ?case by simp
next
  case (Suc n)
  obtain x a' y b' where ab: "a = x # a'" "b = y # b'"
    using Suc.prems(1,2) by (auto simp: length_Suc_conv)
  show ?case
  proof (cases "x = y")
    case True
    with Suc ab show ?thesis by (auto simp: c_hd_def)
  next
    case False
    then have "int (of_char x) \<noteq> int (of_char y)" by simp
    with False ab show ?thesis by (auto simp: c_hd_def)
  qed
qed

lemma c_strncmp_refl [simp]: "c_strncmp a a n = 0"
  by (induction n arbitrary: a) auto

text \<open>
  A NUL ends the comparison: bytes after it are not looked at.
\<close>

lemma c_strncmp_NUL:
  "NUL \<notin> set p \<Longrightarrow> c_strncmp (p @ NUL # a) (p @ NUL # b) n = 0"
proof (induction p arbitrary: n)
  case Nil
  show ?case by (cases n) (simp_all add: c_hd_def)
next
  case (Cons x p)
  then show ?case by (cases n) (simp_all add: c_hd_def)
qed

lemma c_strtoll10_range: "LLONG_MIN \<le> c_strtoll10 s \<and> c_strtoll10 s \<le> LLONG_MAX"
  by (simp add: c_strtoll10_def Let_def LLONG_MIN_def LLONG_MAX_def)

end
