(* ===== verification/Redis_Module.thy ===== *)
theory Redis_Module
  imports C_Strings
begin

text \<open>
  The interface between the SDL module (\<open>dbaas/redismodule/src/exstrings.c\<close>) and the Redis
  server it is loaded into.

  The server is not part of the repository, so it is a parameter: the record \<open>redis_api\<close> holds
  one field per API function the module calls, over an abstract database \<open>'db\<close> and an abstract
  type \<open>'r\<close> of call replies. What the module itself does through the API is the state
  \<open>rctx\<close>: the replies sent to the client, the commands issued, which reply handles have been
  freed, and whether the global lock is held.
\<close>

section \<open>The server, as a parameter\<close>

record ('db, 'r) redis_api =
  \<comment> \<open>\<open>RedisModule_OpenKey\<close>, \<open>RedisModule_KeyType\<close>, \<open>RedisModule_CloseKey\<close>\<close>
  api_KeyType :: "'db \<Rightarrow> string \<Rightarrow> int"
  \<comment> \<open>\<open>RedisModule_Call\<close>: a reply or \<open>NULL\<close>, and the database after the command\<close>
  api_Call :: "string \<Rightarrow> string list \<Rightarrow> 'db \<Rightarrow> 'r option \<times> 'db"
  api_CallReplyType :: "'r \<Rightarrow> int"
  api_CallReplyStringPtr :: "'r \<Rightarrow> string option"
  api_CallReplyInteger :: "'r \<Rightarrow> int"
  api_CallReplyLength :: "'r \<Rightarrow> nat"
  api_CallReplyArrayElement :: "'r \<Rightarrow> nat \<Rightarrow> 'r option"
  api_CreateStringFromCallReply :: "'r \<Rightarrow> string option"
  \<comment> \<open>\<open>REDISMODULE_OK\<close> and the number stored, or \<open>REDISMODULE_ERR\<close> and nothing stored\<close>
  api_StringToLongLong :: "string \<Rightarrow> int option"
  api_StringFromLongLong :: "int \<Rightarrow> string"
  \<comment> \<open>whether the \<open>n\<close>-th call of \<open>RedisModule_Alloc\<close> returns memory\<close>
  api_AllocOk :: "nat \<Rightarrow> bool"
  \<comment> \<open>what other clients do to the database before the \<open>n\<close>-th acquisition of the lock\<close>
  api_Interfere :: "nat \<Rightarrow> 'db \<Rightarrow> 'db"
  api_PthreadCreateOk :: bool
  \<comment> \<open>what a local variable holds that was never stored to\<close>
  api_Uninit :: "string \<Rightarrow> int"

definition REDISMODULE_OK :: int where "REDISMODULE_OK = 0"
definition REDISMODULE_ERR :: int where "REDISMODULE_ERR = 1"

definition REDISMODULE_KEYTYPE_EMPTY :: int where "REDISMODULE_KEYTYPE_EMPTY = 0"
definition REDISMODULE_KEYTYPE_STRING :: int where "REDISMODULE_KEYTYPE_STRING = 1"

definition REDISMODULE_REPLY_UNKNOWN :: int where "REDISMODULE_REPLY_UNKNOWN = -1"
definition REDISMODULE_REPLY_STRING :: int where "REDISMODULE_REPLY_STRING = 0"
definition REDISMODULE_REPLY_ERROR :: int where "REDISMODULE_REPLY_ERROR = 1"
definition REDISMODULE_REPLY_INTEGER :: int where "REDISMODULE_REPLY_INTEGER = 2"
definition REDISMODULE_REPLY_ARRAY :: int where "REDISMODULE_REPLY_ARRAY = 3"
definition REDISMODULE_REPLY_NULL :: int where "REDISMODULE_REPLY_NULL = 4"

definition REDISMODULE_ERRORMSG_WRONGTYPE :: string where
  "REDISMODULE_ERRORMSG_WRONGTYPE =
     ''WRONGTYPE Operation against a key holding the wrong kind of value''"

section \<open>The module's side of the interface\<close>

text \<open>What the module sends to the client, one constructor per \<open>RedisModule_ReplyWith...\<close>.\<close>

datatype 'r client_reply =
    RError string
  | RWrongArity
  | RNull
  | RLongLong int
  | RCallReply 'r
  | RString string
  | RArrayPostponed
  | RSetArrayLength nat

record nget_args =
  nget_key :: string
  nget_count :: string

datatype block_event = BlockClient | AbortBlock | UnblockClient | SpawnThread nget_args

text \<open>
  A reply handle is a reply with the number of the \<open>RedisModule_Call\<close> that made it; the
  elements of an array reply belong to their parent's handle.
\<close>

record 'r reply_handle =
  hid :: nat
  hval :: 'r

record ('db, 'r) rctx =
  db :: 'db
  replies :: "'r client_reply list"
  \<comment> \<open>commands issued, oldest first, each with the state of the global lock at the call\<close>
  calls :: "(string \<times> string list \<times> bool) list"
  nreplies :: nat
  freed :: "nat list"
  locked :: bool
  nlocks :: nat
  nallocs :: nat
  events :: "block_event list"
  def_count_str :: "string option"
  match_str :: "string option"
  count_str :: "string option"
  zero_str :: "string option"

definition reply_with :: "'r client_reply \<Rightarrow> ('db, 'r) rctx \<Rightarrow> ('db, 'r) rctx" where
  "reply_with x c = c\<lparr>replies := replies c @ [x]\<rparr>"

text \<open>
  \<open>RedisModule_Call\<close>: runs the command on the database and returns a fresh handle, or \<open>NULL\<close>.
\<close>

definition redis_call ::
  "('db, 'r) redis_api \<Rightarrow> string \<Rightarrow> string list \<Rightarrow> ('db, 'r) rctx
     \<Rightarrow> 'r reply_handle option \<times> ('db, 'r) rctx" where
  "redis_call R cmd args c =
     (case api_Call R cmd args (db c) of (r, d) \<Rightarrow>
        (map_option (\<lambda>v. \<lparr>hid = nreplies c, hval = v\<rparr>) r,
         c\<lparr>db := d, calls := calls c @ [(cmd, args, locked c)], nreplies := Suc (nreplies c)\<rparr>))"

text \<open>Reading through a handle whose reply has been freed is undefined.\<close>

definition deref :: "('db, 'r) rctx \<Rightarrow> 'r reply_handle \<Rightarrow> 'r option" where
  "deref c h = (if hid h \<in> set (freed c) then None else Some (hval h))"

text \<open>
  \<open>RedisModule_FreeCallReply\<close>: undefined on \<open>NULL\<close> and on a reply already freed.
\<close>

definition FreeCallReply ::
  "'r reply_handle option \<Rightarrow> ('db, 'r) rctx \<Rightarrow> ('db, 'r) rctx option" where
  "FreeCallReply r c =
     (case r of None \<Rightarrow> None
      | Some h \<Rightarrow> if hid h \<in> set (freed c) then None else Some (c\<lparr>freed := hid h # freed c\<rparr>))"

text \<open>\<open>RedisModule_CallReplyType\<close> answers \<open>REDISMODULE_REPLY_UNKNOWN\<close> on \<open>NULL\<close>.\<close>

definition CallReplyType ::
  "('db, 'r) redis_api \<Rightarrow> ('db, 'r) rctx \<Rightarrow> 'r reply_handle option \<Rightarrow> int option" where
  "CallReplyType R c r =
     (case r of None \<Rightarrow> Some REDISMODULE_REPLY_UNKNOWN
      | Some h \<Rightarrow> map_option (api_CallReplyType R) (deref c h))"

definition ReplyWithCallReply ::
  "'r reply_handle \<Rightarrow> ('db, 'r) rctx \<Rightarrow> ('db, 'r) rctx option" where
  "ReplyWithCallReply h c = map_option (\<lambda>v. reply_with (RCallReply v) c) (deref c h)"

definition redis_alloc :: "('db, 'r) redis_api \<Rightarrow> ('db, 'r) rctx \<Rightarrow> bool \<times> ('db, 'r) rctx" where
  "redis_alloc R c = (api_AllocOk R (nallocs c), c\<lparr>nallocs := Suc (nallocs c)\<rparr>)"

text \<open>
  The global lock. Acquiring it twice or releasing it when it is not held is undefined; between
  a release and the next acquisition other clients run.
\<close>

definition ThreadSafeContextLock ::
  "('db, 'r) redis_api \<Rightarrow> ('db, 'r) rctx \<Rightarrow> ('db, 'r) rctx option" where
  "ThreadSafeContextLock R c =
     (if locked c then None
      else Some (c\<lparr>db := api_Interfere R (nlocks c) (db c), locked := True,
                   nlocks := Suc (nlocks c)\<rparr>))"

definition ThreadSafeContextUnlock :: "('db, 'r) rctx \<Rightarrow> ('db, 'r) rctx option" where
  "ThreadSafeContextUnlock c = (if locked c then Some (c\<lparr>locked := False\<rparr>) else None)"

section \<open>Handles\<close>

text \<open>
  The handles in use are the ones issued and not freed; a fresh handle is never among the freed
  ones while the freed ones all come from earlier calls.
\<close>

definition handles_ok :: "('db, 'r) rctx \<Rightarrow> bool" where
  "handles_ok c \<longleftrightarrow> (\<forall>i \<in> set (freed c). i < nreplies c)"

lemma handles_ok_fresh: "handles_ok c \<Longrightarrow> nreplies c \<notin> set (freed c)"
  by (auto simp: handles_ok_def)

lemma handles_ok_reply [simp]: "handles_ok (reply_with x c) = handles_ok c"
  by (simp add: handles_ok_def reply_with_def)

lemma reply_with_fields [simp]:
  "db (reply_with x c) = db c" "calls (reply_with x c) = calls c"
  "freed (reply_with x c) = freed c" "nreplies (reply_with x c) = nreplies c"
  "locked (reply_with x c) = locked c" "replies (reply_with x c) = replies c @ [x]"
  "nlocks (reply_with x c) = nlocks c" "nallocs (reply_with x c) = nallocs c"
  "events (reply_with x c) = events c"
  "def_count_str (reply_with x c) = def_count_str c" "match_str (reply_with x c) = match_str c"
  "count_str (reply_with x c) = count_str c" "zero_str (reply_with x c) = zero_str c"
  by (simp_all add: reply_with_def)

lemma handles_ok_not_freed: "handles_ok c \<Longrightarrow> nreplies c \<le> i \<Longrightarrow> i \<notin> set (freed c)"
  by (auto simp: handles_ok_def)

text \<open>
  What a successful \<open>RedisModule_Call\<close> leaves, and what releasing its reply does: with these
  two state transformers a command's run is a composition of steps whose fields simplify.
\<close>

definition called :: "string \<Rightarrow> string list \<Rightarrow> 'db \<Rightarrow> ('db, 'r) rctx \<Rightarrow> ('db, 'r) rctx" where
  "called cmd args d c =
     c\<lparr>db := d, calls := calls c @ [(cmd, args, locked c)], nreplies := Suc (nreplies c)\<rparr>"

definition release :: "nat \<Rightarrow> ('db, 'r) rctx \<Rightarrow> ('db, 'r) rctx" where
  "release i c = c\<lparr>freed := i # freed c\<rparr>"

lemma called_fields [simp]:
  "db (called cmd args d c) = d" "replies (called cmd args d c) = replies c"
  "calls (called cmd args d c) = calls c @ [(cmd, args, locked c)]"
  "nreplies (called cmd args d c) = Suc (nreplies c)" "freed (called cmd args d c) = freed c"
  "locked (called cmd args d c) = locked c" "nlocks (called cmd args d c) = nlocks c"
  "nallocs (called cmd args d c) = nallocs c" "events (called cmd args d c) = events c"
  "def_count_str (called cmd args d c) = def_count_str c"
  "match_str (called cmd args d c) = match_str c" "count_str (called cmd args d c) = count_str c"
  "zero_str (called cmd args d c) = zero_str c"
  by (simp_all add: called_def)

lemma release_fields [simp]:
  "db (release i c) = db c" "replies (release i c) = replies c" "calls (release i c) = calls c"
  "nreplies (release i c) = nreplies c" "freed (release i c) = i # freed c"
  "locked (release i c) = locked c" "nlocks (release i c) = nlocks c"
  "nallocs (release i c) = nallocs c" "events (release i c) = events c"
  "def_count_str (release i c) = def_count_str c" "match_str (release i c) = match_str c"
  "count_str (release i c) = count_str c" "zero_str (release i c) = zero_str c"
  by (simp_all add: release_def)

lemma redis_call_Some:
  "api_Call R cmd args (db c) = (Some r, d) \<Longrightarrow>
   redis_call R cmd args c = (Some \<lparr>hid = nreplies c, hval = r\<rparr>, called cmd args d c)"
  by (simp add: redis_call_def called_def)

lemma FreeCallReply_Some:
  "hid h \<notin> set (freed c) \<Longrightarrow> FreeCallReply (Some h) c = Some (release (hid h) c)"
  by (simp add: FreeCallReply_def release_def)

lemma deref_Some: "hid h \<notin> set (freed c) \<Longrightarrow> deref c h = Some (hval h)"
  by (simp add: deref_def)

lemma deref_freed: "hid h \<in> set (freed c) \<Longrightarrow> deref c h = None"
  by (simp add: deref_def)

lemma handles_ok_called [simp]: "handles_ok c \<Longrightarrow> handles_ok (called cmd args d c)"
  by (auto simp: handles_ok_def)

lemma handles_ok_release [simp]:
  "handles_ok (release i c) \<longleftrightarrow> i < nreplies c \<and> handles_ok c"
  by (auto simp: handles_ok_def)

lemmas redis_steps = redis_call_Some FreeCallReply_Some deref_Some CallReplyType_def
  ReplyWithCallReply_def handles_ok_not_freed

section \<open>What the module relies on\<close>

text \<open>
  The documented behaviour of the Redis commands the module composes, over the string values
  \<open>val d k\<close> of a database: GET reads a string key and changes nothing, SET and MSET store,
  UNLINK removes keys and counts those that existed, PUBLISH does not touch the key space. The
  key type tells string keys from missing ones; keys of other types have no string value.
\<close>

fun mset_pairs :: "string list \<Rightarrow> (string \<rightharpoonup> string) \<Rightarrow> (string \<rightharpoonup> string)" where
  "mset_pairs (k # v # xs) m = mset_pairs xs (m(k \<mapsto> v))"
| "mset_pairs xs m = m"

definition get_law :: "('db, 'r) redis_api \<Rightarrow> ('db \<Rightarrow> string \<rightharpoonup> string) \<Rightarrow> bool" where
  "get_law R val \<longleftrightarrow>
     (\<forall>d k. (api_KeyType R d k = REDISMODULE_KEYTYPE_STRING \<longleftrightarrow> val d k \<noteq> None) \<and>
       (api_KeyType R d k \<in> {REDISMODULE_KEYTYPE_STRING, REDISMODULE_KEYTYPE_EMPTY} \<longrightarrow>
         (\<exists>r. api_Call R ''GET'' [k] d = (Some r, d) \<and> api_CallReplyStringPtr R r = val d k \<and>
              api_CallReplyType R r \<noteq> REDISMODULE_REPLY_ERROR)))"

definition set_law :: "('db, 'r) redis_api \<Rightarrow> ('db \<Rightarrow> string \<rightharpoonup> string) \<Rightarrow> bool" where
  "set_law R val \<longleftrightarrow>
     (\<forall>d k v. \<exists>r d'. api_Call R ''SET'' [k, v] d = (Some r, d') \<and>
        api_CallReplyType R r \<noteq> REDISMODULE_REPLY_ERROR \<and> val d' = (val d)(k \<mapsto> v))"

definition mset_law :: "('db, 'r) redis_api \<Rightarrow> ('db \<Rightarrow> string \<rightharpoonup> string) \<Rightarrow> bool" where
  "mset_law R val \<longleftrightarrow>
     (\<forall>d kvs. kvs \<noteq> [] \<and> even (length kvs) \<longrightarrow>
        (\<exists>r d'. api_Call R ''MSET'' kvs d = (Some r, d') \<and>
           api_CallReplyType R r \<noteq> REDISMODULE_REPLY_ERROR \<and> val d' = mset_pairs kvs (val d)))"

definition unlink_law :: "('db, 'r) redis_api \<Rightarrow> ('db \<Rightarrow> string \<rightharpoonup> string) \<Rightarrow> bool" where
  "unlink_law R val \<longleftrightarrow>
     (\<forall>d ks. ks \<noteq> [] \<longrightarrow>
        (\<exists>r d'. api_Call R ''UNLINK'' ks d = (Some r, d') \<and>
           api_CallReplyType R r = REDISMODULE_REPLY_INTEGER \<and>
           api_CallReplyInteger R r =
             int (card {k \<in> set ks. api_KeyType R d k \<noteq> REDISMODULE_KEYTYPE_EMPTY}) \<and>
           val d' = val d |` (- set ks)))"

definition publish_law :: "('db, 'r) redis_api \<Rightarrow> bool" where
  "publish_law R \<longleftrightarrow> (\<forall>d ch msg. \<exists>r. api_Call R ''PUBLISH'' [ch, msg] d = (Some r, d))"

end
