(* ===== verification/Exstrings.thy ===== *)
theory Exstrings
  imports Redis_Module
begin

text \<open>
  The conditional SET / DEL commands and the commands that publish notifications, of
  \<open>dbaas/redismodule/src/exstrings.c\<close>. A command takes the server, its argument vector
  (\<open>argv[0]\<close> is the command name) and the module state, and gives its return code and the
  state after it.
\<close>

section \<open>Helpers\<close>

datatype obj_op = OBJ_OP_NO | OBJ_OP_XX | OBJ_OP_NX | OBJ_OP_IE | OBJ_OP_NE

type_synonym ('db, 'r) outcome = "(int \<times> ('db, 'r) rctx) option"

text \<open>A reply function that ends the command: \<open>return RedisModule_ReplyWith...(ctx, ...)\<close>.\<close>

definition finish :: "'r client_reply \<Rightarrow> ('db, 'r) rctx \<Rightarrow> ('db, 'r) outcome" where
  "finish x c = Some (REDISMODULE_OK, reply_with x c)"

text \<open>
  The macro \<open>ASSERT_NOERROR(r)\<close>: an early return for a \<open>NULL\<close> reply and for an error
  reply; the rest of the calling function is the continuation.
\<close>

definition assert_noerror ::
  "('db, 'r) redis_api \<Rightarrow> 'r reply_handle option \<Rightarrow> ('db, 'r) rctx
     \<Rightarrow> ('r reply_handle \<Rightarrow> ('db, 'r) outcome) \<Rightarrow> ('db, 'r) outcome" where
  "assert_noerror R r c k =
     (case r of None \<Rightarrow> finish (RError ''ERR reply is NULL'') c
      | Some h \<Rightarrow> do {
          t \<leftarrow> CallReplyType R c r;
          if t = REDISMODULE_REPLY_ERROR
          then do { c' \<leftarrow> ReplyWithCallReply h c; Some (REDISMODULE_OK, c') }
          else k h })"

definition getKeyType :: "('db, 'r) redis_api \<Rightarrow> ('db, 'r) rctx \<Rightarrow> string \<Rightarrow> int" where
  "getKeyType R c key_str = api_KeyType R (db c) key_str"

definition replyContentsEqualString ::
  "('db, 'r) redis_api \<Rightarrow> 'r \<Rightarrow> string \<Rightarrow> bool" where
  "replyContentsEqualString R reply expected_value =
     (case api_CallReplyStringPtr R reply of
        None \<Rightarrow> False
      | Some replyval \<Rightarrow> length expected_value = length replyval \<and>
          c_strncmp expected_value replyval (length replyval) = 0)"

text \<open>
  The guard \<open>setStringGenericCommand\<close> and \<open>delStringGenericCommand\<close> write out: whether the
  current value stops the operation.
\<close>

definition old_value_blocks :: "obj_op \<Rightarrow> string \<Rightarrow> string option \<Rightarrow> bool" where
  "old_value_blocks flag oldval curval \<longleftrightarrow>
     (flag = OBJ_OP_IE \<and>
        (case curval of None \<Rightarrow> True
         | Some cur \<Rightarrow> length oldval \<noteq> length cur \<or> c_strncmp oldval cur (length cur) \<noteq> 0))
     \<or> (flag = OBJ_OP_NE \<and>
        (case curval of None \<Rightarrow> False
         | Some cur \<Rightarrow> length oldval = length cur \<and> c_strncmp oldval cur (length cur) = 0))"

section \<open>SETIE, SETNE\<close>

definition setStringGenericCommand ::
  "('db, 'r) redis_api \<Rightarrow> string list \<Rightarrow> obj_op \<Rightarrow> ('db, 'r) rctx \<Rightarrow> ('db, 'r) outcome" where
  "setStringGenericCommand R argv flag c =
     (let argc = length argv in
      if argc < 4 then finish RWrongArity c
      else
        let oldvalstr = argv ! 3;
            type = api_KeyType R (db c) (argv ! 1)
        in
        if type = REDISMODULE_KEYTYPE_EMPTY \<and> flag = OBJ_OP_IE then finish RNull c
        else if type \<noteq> REDISMODULE_KEYTYPE_EMPTY \<and> type \<noteq> REDISMODULE_KEYTYPE_STRING
        then finish (RError REDISMODULE_ERRORMSG_WRONGTYPE) c
        else case redis_call R ''GET'' [argv ! 1] c of (reply, c1) \<Rightarrow>
          assert_noerror R reply c1 (\<lambda>h. do {
            v \<leftarrow> deref c1 h;
            let curval = api_CallReplyStringPtr R v;
            c2 \<leftarrow> FreeCallReply reply c1;
            if old_value_blocks flag oldvalstr curval then finish RNull c2
            else
              let cmdargv = [argv ! i. i \<leftarrow> [1..<argc], i \<noteq> 3] in
              case redis_call R ''SET'' cmdargv c2 of (reply, c3) \<Rightarrow>
                assert_noerror R reply c3 (\<lambda>h. do {
                  c4 \<leftarrow> ReplyWithCallReply h c3;
                  c5 \<leftarrow> FreeCallReply reply c4;
                  Some (REDISMODULE_OK, c5) }) }))"

definition SetIE_RedisCommand ::
  "('db, 'r) redis_api \<Rightarrow> string list \<Rightarrow> ('db, 'r) rctx \<Rightarrow> ('db, 'r) outcome" where
  "SetIE_RedisCommand R argv c = setStringGenericCommand R argv OBJ_OP_IE c"

definition SetNE_RedisCommand ::
  "('db, 'r) redis_api \<Rightarrow> string list \<Rightarrow> ('db, 'r) rctx \<Rightarrow> ('db, 'r) outcome" where
  "SetNE_RedisCommand R argv c = setStringGenericCommand R argv OBJ_OP_NE c"

section \<open>DELIE, DELNE\<close>

definition delStringGenericCommand ::
  "('db, 'r) redis_api \<Rightarrow> string list \<Rightarrow> obj_op \<Rightarrow> ('db, 'r) rctx \<Rightarrow> ('db, 'r) outcome" where
  "delStringGenericCommand R argv flag c =
     (let argc = length argv in
      if argc \<noteq> 3 then finish RWrongArity c
      else
        let oldvalstr = argv ! 2;
            type = api_KeyType R (db c) (argv ! 1)
        in
        if type = REDISMODULE_KEYTYPE_EMPTY then finish (RLongLong 0) c
        else if type \<noteq> REDISMODULE_KEYTYPE_STRING
        then finish (RError REDISMODULE_ERRORMSG_WRONGTYPE) c
        else case redis_call R ''GET'' [argv ! 1] c of (reply, c1) \<Rightarrow>
          assert_noerror R reply c1 (\<lambda>h. do {
            v \<leftarrow> deref c1 h;
            let curval = api_CallReplyStringPtr R v;
            c2 \<leftarrow> FreeCallReply reply c1;
            if old_value_blocks flag oldvalstr curval then finish (RLongLong 0) c2
            else
              case redis_call R ''UNLINK'' [argv ! 1] c2 of (reply, c3) \<Rightarrow>
                assert_noerror R reply c3 (\<lambda>h. do {
                  c4 \<leftarrow> ReplyWithCallReply h c3;
                  c5 \<leftarrow> FreeCallReply reply c4;
                  Some (REDISMODULE_OK, c5) }) }))"

definition DelIE_RedisCommand ::
  "('db, 'r) redis_api \<Rightarrow> string list \<Rightarrow> ('db, 'r) rctx \<Rightarrow> ('db, 'r) outcome" where
  "DelIE_RedisCommand R argv c = delStringGenericCommand R argv OBJ_OP_IE c"

definition DelNE_RedisCommand ::
  "('db, 'r) redis_api \<Rightarrow> string list \<Rightarrow> ('db, 'r) rctx \<Rightarrow> ('db, 'r) outcome" where
  "DelNE_RedisCommand R argv c = delStringGenericCommand R argv OBJ_OP_NE c"

section \<open>Publishing\<close>

text \<open>
  The parameter blocks hold a pointer into \<open>argv\<close> (here the rest of the array from that
  pointer on) and a length that nothing ties to the array.
\<close>

record set_params =
  key_val_pairs :: "string list"
  set_length :: nat

record pub_params =
  channel_msg_pairs :: "string list"
  pub_length :: nat

record del_params =
  del_keys :: "string list"
  del_length :: nat

text \<open>The pointer \<open>argv + off\<close>, defined up to one past the end.\<close>

definition argv_from :: "string list \<Rightarrow> nat \<Rightarrow> string list option" where
  "argv_from argv off = (if off \<le> length argv then Some (drop off argv) else None)"

function multiPub_loop ::
  "('db, 'r) redis_api \<Rightarrow> pub_params \<Rightarrow> nat \<Rightarrow> ('db, 'r) rctx \<Rightarrow> ('db, 'r) rctx option" where
  "multiPub_loop R pubParams i c =
     (if i < pub_length pubParams
      then do {
        args \<leftarrow> c_slice (channel_msg_pairs pubParams) i 2;
        let (reply, c1) = redis_call R ''PUBLISH'' args c;
        c2 \<leftarrow> FreeCallReply reply c1;
        multiPub_loop R pubParams (i + 2) c2 }
      else Some c)"
  by pat_completeness auto
termination
  by (relation "measure (\<lambda>(R, p, i, c). pub_length p - i)") auto

declare multiPub_loop.simps [simp del]

definition multiPubCommand ::
  "('db, 'r) redis_api \<Rightarrow> pub_params \<Rightarrow> ('db, 'r) rctx \<Rightarrow> ('db, 'r) rctx option" where
  "multiPubCommand R pubParams c = multiPub_loop R pubParams 0 c"

definition setPubStringCommon ::
  "('db, 'r) redis_api \<Rightarrow> set_params \<Rightarrow> pub_params \<Rightarrow> ('db, 'r) rctx \<Rightarrow> ('db, 'r) outcome" where
  "setPubStringCommon R setParams pubParams c =
     do {
       args \<leftarrow> c_slice (key_val_pairs setParams) 0 (set_length setParams);
       let (setReply, c1) = redis_call R ''MSET'' args c;
       assert_noerror R setReply c1 (\<lambda>h. do {
         c2 \<leftarrow> multiPubCommand R pubParams c1;
         c3 \<leftarrow> ReplyWithCallReply h c2;
         c4 \<leftarrow> FreeCallReply setReply c3;
         Some (REDISMODULE_OK, c4) }) }"

definition SetPub_RedisCommand ::
  "('db, 'r) redis_api \<Rightarrow> string list \<Rightarrow> ('db, 'r) rctx \<Rightarrow> ('db, 'r) outcome" where
  "SetPub_RedisCommand R argv c =
     (let argc = length argv in
      if argc < 5 \<or> argc mod 2 = 0 then finish RWrongArity c
      else do {
        kv \<leftarrow> argv_from argv 1;
        cm \<leftarrow> argv_from argv (1 + (argc - 3));
        setPubStringCommon R \<lparr>key_val_pairs = kv, set_length = argc - 3\<rparr>
          \<lparr>channel_msg_pairs = cm, pub_length = 2\<rparr> c })"

text \<open>
  \<open>RedisModule_StringToLongLong(s, &var)\<close> with its return code ignored: on failure \<open>var\<close>
  keeps whatever it held.
\<close>

definition read_count :: "('db, 'r) redis_api \<Rightarrow> string \<Rightarrow> string \<Rightarrow> int" where
  "read_count R var s = (case api_StringToLongLong R s of Some n \<Rightarrow> n | None \<Rightarrow> api_Uninit R var)"

definition SetMPub_RedisCommand ::
  "('db, 'r) redis_api \<Rightarrow> string list \<Rightarrow> ('db, 'r) rctx \<Rightarrow> ('db, 'r) outcome" where
  "SetMPub_RedisCommand R argv c =
     (let argc = length argv in
      if argc < 7 \<or> argc mod 2 = 0 then finish RWrongArity c
      else
        let setPairsCount = read_count R ''setPairsCount'' (argv ! 1);
            pubPairsCount = read_count R ''pubPairsCount'' (argv ! 2)
        in
        if setPairsCount < 1 \<or> pubPairsCount < 1
        then finish (RError ''ERR SET_PAIR_COUNT and PUB_PAIR_COUNT must be greater than zero'') c
        else do {
          setLen \<leftarrow> s64 (2 * setPairsCount);
          pubLen \<leftarrow> s64 (2 * pubPairsCount);
          total \<leftarrow> s64 (setLen + pubLen);
          total \<leftarrow> s64 (total + 3);
          if total \<noteq> int argc
          then finish (RError ''ERR SET_PAIR_COUNT or PUB_PAIR_COUNT do not match the total pair count'') c
          else do {
            kv \<leftarrow> argv_from argv 3;
            cm \<leftarrow> argv_from argv (3 + nat setLen);
            setPubStringCommon R \<lparr>key_val_pairs = kv, set_length = nat setLen\<rparr>
              \<lparr>channel_msg_pairs = cm, pub_length = nat pubLen\<rparr> c } })"

definition setIENEPubStringCommon ::
  "('db, 'r) redis_api \<Rightarrow> string list \<Rightarrow> obj_op \<Rightarrow> ('db, 'r) rctx \<Rightarrow> ('db, 'r) outcome" where
  "setIENEPubStringCommon R argv flag c =
     do {
       let argc = length argv;
       kv \<leftarrow> argv_from argv 1;
       cm \<leftarrow> argv_from argv 4;
       let setParams = \<lparr>key_val_pairs = kv, set_length = 2\<rparr>;
       let pubParams = \<lparr>channel_msg_pairs = cm, pub_length = argc - 4\<rparr>;
       key \<leftarrow> nth_opt (key_val_pairs setParams) 0;
       oldvalstr \<leftarrow> nth_opt argv 3;
       let type = getKeyType R c key;
       if flag = OBJ_OP_IE \<and> type = REDISMODULE_KEYTYPE_EMPTY then finish RNull c
       else if type \<noteq> REDISMODULE_KEYTYPE_STRING \<and> type \<noteq> REDISMODULE_KEYTYPE_EMPTY
       then finish (RError REDISMODULE_ERRORMSG_WRONGTYPE) c
       else case redis_call R ''GET'' [key] c of (reply, c1) \<Rightarrow>
         assert_noerror R reply c1 (\<lambda>h. do {
           v \<leftarrow> deref c1 h;
           let is_equal = replyContentsEqualString R v oldvalstr;
           c2 \<leftarrow> FreeCallReply reply c1;
           if (flag = OBJ_OP_IE \<and> \<not> is_equal) \<or> (flag = OBJ_OP_NE \<and> is_equal)
           then finish RNull c2
           else setPubStringCommon R setParams pubParams c2 }) }"

definition SetIEPub_RedisCommand ::
  "('db, 'r) redis_api \<Rightarrow> string list \<Rightarrow> ('db, 'r) rctx \<Rightarrow> ('db, 'r) outcome" where
  "SetIEPub_RedisCommand R argv c =
     (if length argv \<noteq> 6 then finish RWrongArity c
      else setIENEPubStringCommon R argv OBJ_OP_IE c)"

definition SetIEMPub_RedisCommand ::
  "('db, 'r) redis_api \<Rightarrow> string list \<Rightarrow> ('db, 'r) rctx \<Rightarrow> ('db, 'r) outcome" where
  "SetIEMPub_RedisCommand R argv c =
     (if length argv < 6 \<or> length argv mod 2 \<noteq> 0 then finish RWrongArity c
      else setIENEPubStringCommon R argv OBJ_OP_IE c)"

definition SetNEPub_RedisCommand ::
  "('db, 'r) redis_api \<Rightarrow> string list \<Rightarrow> ('db, 'r) rctx \<Rightarrow> ('db, 'r) outcome" where
  "SetNEPub_RedisCommand R argv c =
     (if length argv \<noteq> 6 then finish RWrongArity c
      else setIENEPubStringCommon R argv OBJ_OP_NE c)"

definition setXXNXPubStringCommon ::
  "('db, 'r) redis_api \<Rightarrow> string list \<Rightarrow> obj_op \<Rightarrow> ('db, 'r) rctx \<Rightarrow> ('db, 'r) outcome" where
  "setXXNXPubStringCommon R argv flag c =
     do {
       let argc = length argv;
       kv \<leftarrow> argv_from argv 1;
       cm \<leftarrow> argv_from argv 3;
       let setParams = \<lparr>key_val_pairs = kv, set_length = 2\<rparr>;
       let pubParams = \<lparr>channel_msg_pairs = cm, pub_length = argc - 3\<rparr>;
       key \<leftarrow> nth_opt (key_val_pairs setParams) 0;
       let type = getKeyType R c key;
       if (flag = OBJ_OP_XX \<and> type = REDISMODULE_KEYTYPE_EMPTY) \<or>
          (flag = OBJ_OP_NX \<and> type = REDISMODULE_KEYTYPE_STRING) then finish RNull c
       else if type \<noteq> REDISMODULE_KEYTYPE_STRING \<and> type \<noteq> REDISMODULE_KEYTYPE_EMPTY
       then finish (RError REDISMODULE_ERRORMSG_WRONGTYPE) c
       else setPubStringCommon R setParams pubParams c }"

definition SetNXPub_RedisCommand ::
  "('db, 'r) redis_api \<Rightarrow> string list \<Rightarrow> ('db, 'r) rctx \<Rightarrow> ('db, 'r) outcome" where
  "SetNXPub_RedisCommand R argv c =
     (if length argv \<noteq> 5 then finish RWrongArity c
      else setXXNXPubStringCommon R argv OBJ_OP_NX c)"

definition SetNXMPub_RedisCommand ::
  "('db, 'r) redis_api \<Rightarrow> string list \<Rightarrow> ('db, 'r) rctx \<Rightarrow> ('db, 'r) outcome" where
  "SetNXMPub_RedisCommand R argv c =
     (if length argv < 5 \<or> length argv mod 2 = 0 then finish RWrongArity c
      else setXXNXPubStringCommon R argv OBJ_OP_NX c)"

definition SetXXPub_RedisCommand ::
  "('db, 'r) redis_api \<Rightarrow> string list \<Rightarrow> ('db, 'r) rctx \<Rightarrow> ('db, 'r) outcome" where
  "SetXXPub_RedisCommand R argv c =
     (if length argv \<noteq> 5 then finish RWrongArity c
      else setXXNXPubStringCommon R argv OBJ_OP_XX c)"

definition delPubStringCommon ::
  "('db, 'r) redis_api \<Rightarrow> del_params \<Rightarrow> pub_params \<Rightarrow> ('db, 'r) rctx \<Rightarrow> ('db, 'r) outcome" where
  "delPubStringCommon R delParams pubParams c =
     do {
       args \<leftarrow> c_slice (del_keys delParams) 0 (del_length delParams);
       let (reply, c1) = redis_call R ''UNLINK'' args c;
       assert_noerror R reply c1 (\<lambda>h. do {
         v \<leftarrow> deref c1 h;
         c2 \<leftarrow>
           (if api_CallReplyType R v = REDISMODULE_REPLY_NULL then Some (reply_with RNull c1)
            else if api_CallReplyInteger R v = 0 then ReplyWithCallReply h c1
            else do { c2 \<leftarrow> ReplyWithCallReply h c1; multiPubCommand R pubParams c2 });
         c3 \<leftarrow> FreeCallReply reply c2;
         Some (REDISMODULE_OK, c3) }) }"

definition DelPub_RedisCommand ::
  "('db, 'r) redis_api \<Rightarrow> string list \<Rightarrow> ('db, 'r) rctx \<Rightarrow> ('db, 'r) outcome" where
  "DelPub_RedisCommand R argv c =
     (let argc = length argv in
      if argc < 4 then finish RWrongArity c
      else do {
        ks \<leftarrow> argv_from argv 1;
        cm \<leftarrow> argv_from argv (1 + (argc - 3));
        delPubStringCommon R \<lparr>del_keys = ks, del_length = argc - 3\<rparr>
          \<lparr>channel_msg_pairs = cm, pub_length = 2\<rparr> c })"

definition DelMPub_RedisCommand ::
  "('db, 'r) redis_api \<Rightarrow> string list \<Rightarrow> ('db, 'r) rctx \<Rightarrow> ('db, 'r) outcome" where
  "DelMPub_RedisCommand R argv c =
     (let argc = length argv in
      if argc < 6 then finish RWrongArity c
      else
        let delCount = read_count R ''delCount'' (argv ! 1);
            pubPairsCount = read_count R ''pubPairsCount'' (argv ! 2)
        in
        if delCount < 1 \<or> pubPairsCount < 1
        then finish (RError ''ERR DEL_COUNT and PUB_PAIR_COUNT must be greater than zero'') c
        else do {
          let delLen = delCount;
          pubLen \<leftarrow> s64 (2 * pubPairsCount);
          total \<leftarrow> s64 (delLen + pubLen);
          total \<leftarrow> s64 (total + 3);
          if total \<noteq> int argc
          then finish (RError ''ERR DEL_COUNT or PUB_PAIR_COUNT do not match the total pair count'') c
          else do {
            ks \<leftarrow> argv_from argv 3;
            cm \<leftarrow> argv_from argv (3 + nat delLen);
            delPubStringCommon R \<lparr>del_keys = ks, del_length = nat delLen\<rparr>
              \<lparr>channel_msg_pairs = cm, pub_length = nat pubLen\<rparr> c } })"

definition delIENEPubStringCommon ::
  "('db, 'r) redis_api \<Rightarrow> string list \<Rightarrow> obj_op \<Rightarrow> ('db, 'r) rctx \<Rightarrow> ('db, 'r) outcome" where
  "delIENEPubStringCommon R argv flag c =
     do {
       let argc = length argv;
       ks \<leftarrow> argv_from argv 1;
       cm \<leftarrow> argv_from argv 3;
       let delParams = \<lparr>del_keys = ks, del_length = 1\<rparr>;
       let pubParams = \<lparr>channel_msg_pairs = cm, pub_length = argc - 3\<rparr>;
       key \<leftarrow> nth_opt argv 1;
       oldvalstr \<leftarrow> nth_opt argv 2;
       let type = getKeyType R c key;
       if type = REDISMODULE_KEYTYPE_EMPTY then finish (RLongLong 0) c
       else if type \<noteq> REDISMODULE_KEYTYPE_STRING
       then finish (RError REDISMODULE_ERRORMSG_WRONGTYPE) c
       else case redis_call R ''GET'' [key] c of (reply, c1) \<Rightarrow>
         assert_noerror R reply c1 (\<lambda>h. do {
           v \<leftarrow> deref c1 h;
           let is_equal = replyContentsEqualString R v oldvalstr;
           c2 \<leftarrow> FreeCallReply reply c1;
           if (flag = OBJ_OP_IE \<and> \<not> is_equal) \<or> (flag = OBJ_OP_NE \<and> is_equal)
           then finish (RLongLong 0) c2
           else delPubStringCommon R delParams pubParams c2 }) }"

definition DelIEPub_RedisCommand ::
  "('db, 'r) redis_api \<Rightarrow> string list \<Rightarrow> ('db, 'r) rctx \<Rightarrow> ('db, 'r) outcome" where
  "DelIEPub_RedisCommand R argv c =
     (if length argv \<noteq> 5 then finish RWrongArity c
      else delIENEPubStringCommon R argv OBJ_OP_IE c)"

definition DelIEMPub_RedisCommand ::
  "('db, 'r) redis_api \<Rightarrow> string list \<Rightarrow> ('db, 'r) rctx \<Rightarrow> ('db, 'r) outcome" where
  "DelIEMPub_RedisCommand R argv c =
     (if length argv < 5 \<or> length argv mod 2 = 0 then finish RWrongArity c
      else delIENEPubStringCommon R argv OBJ_OP_IE c)"

definition DelNEPub_RedisCommand ::
  "('db, 'r) redis_api \<Rightarrow> string list \<Rightarrow> ('db, 'r) rctx \<Rightarrow> ('db, 'r) outcome" where
  "DelNEPub_RedisCommand R argv c =
     (if length argv \<noteq> 5 then finish RWrongArity c
      else delIENEPubStringCommon R argv OBJ_OP_NE c)"

end
