(* ===== verification/Exstrings_Scan.thy ===== *)
theory Exstrings_Scan
  imports Exstrings
begin

text \<open>
  The pattern commands of \<open>dbaas/redismodule/src/exstrings.c\<close> (\<open>NGET.ATOMIC\<close>,
  \<open>NGET.NOATOMIC\<close> and its thread, \<open>NDEL.ATOMIC\<close>), which walk the key space with SCAN, and
  the registration of the module's commands.

  The SCAN loops end when the server returns cursor 0, which no part of the module enforces: they
  take a fuel argument, and running out of it is \<^term>\<open>None\<close>. Strings are values here; their
  allocation and release is not modelled, that of call replies is.
\<close>

section \<open>Static strings\<close>

text \<open>\<open>CreateString(NULL, "MATCH", sizeof("MATCH"))\<close> takes the terminating NUL along.\<close>

definition InitStaticVariable ::
  "('db, 'r) redis_api \<Rightarrow> ('db, 'r) rctx \<Rightarrow> ('db, 'r) rctx" where
  "InitStaticVariable R c =
     (let c = (if def_count_str c = None
               then c\<lparr>def_count_str := Some (api_StringFromLongLong R 50)\<rparr> else c);
          c = (if match_str c = None then c\<lparr>match_str := Some (''MATCH'' @ [NUL])\<rparr> else c);
          c = (if count_str c = None then c\<lparr>count_str := Some (''COUNT'' @ [NUL])\<rparr> else c)
      in if zero_str c = None then c\<lparr>zero_str := Some (api_StringFromLongLong R 0)\<rparr> else c)"

datatype exstrings_status =
    EXSTRINGS_STATUS_NO_ERRORS
  | EXSTRINGS_STATUS_ERROR_AND_REPLY_SENT
  | EXSTRINGS_STATUS_NOT_SET

definition readNgetArgs ::
  "('db, 'r) redis_api \<Rightarrow> string list \<Rightarrow> ('db, 'r) rctx
     \<Rightarrow> (nget_args option \<times> exstrings_status \<times> ('db, 'r) rctx) option" where
  "readNgetArgs R argv c =
     (let argc = length argv in
      if argc = 2 then do {
        n \<leftarrow> def_count_str c;
        Some (Some \<lparr>nget_key = argv ! 1, nget_count = n\<rparr>, EXSTRINGS_STATUS_NO_ERRORS, c) }
      else if argc = 4 then
        (if c_strcasecmp (argv ! 2) ''count'' \<noteq> 0
         then Some (None, EXSTRINGS_STATUS_ERROR_AND_REPLY_SENT,
                    reply_with (RError ''-ERR syntax error'') c)
         else case api_StringToLongLong R (argv ! 3) of
             Some number \<Rightarrow>
               if number < 1
               then Some (None, EXSTRINGS_STATUS_ERROR_AND_REPLY_SENT,
                 reply_with (RError ''-ERR value is not an integer or out of range'') c)
               else Some (Some \<lparr>nget_key = argv ! 1, nget_count = argv ! 3\<rparr>,
                          EXSTRINGS_STATUS_NO_ERRORS, c)
           | None \<Rightarrow> Some (None, EXSTRINGS_STATUS_ERROR_AND_REPLY_SENT,
               reply_with (RError ''-ERR value is not an integer or out of range'') c))
      else Some (None, EXSTRINGS_STATUS_ERROR_AND_REPLY_SENT, reply_with RWrongArity c))"

text \<open>\<open>strtoll\<close> of a \<open>NULL\<close> string (the reply is not a string) is undefined.\<close>

definition callReplyLongLong :: "('db, 'r) redis_api \<Rightarrow> 'r \<Rightarrow> int option" where
  "callReplyLongLong R reply = map_option c_strtoll10 (api_CallReplyStringPtr R reply)"

text \<open>
  As the source has it: the last assignment overwrites the status the error branch set.
\<close>

definition forwardIfError ::
  "('db, 'r) redis_api \<Rightarrow> 'r reply_handle option \<Rightarrow> exstrings_status \<Rightarrow> ('db, 'r) rctx
     \<Rightarrow> (exstrings_status \<times> ('db, 'r) rctx) option" where
  "forwardIfError R reply status c =
     do {
       t \<leftarrow> CallReplyType R c reply;
       (status, c) \<leftarrow>
         (if t = REDISMODULE_REPLY_ERROR then
            do {
              h \<leftarrow> reply;
              c \<leftarrow> ReplyWithCallReply h c;
              c \<leftarrow> FreeCallReply reply c;
              Some (EXSTRINGS_STATUS_ERROR_AND_REPLY_SENT, c) }
          else Some (status, c));
       Some (EXSTRINGS_STATUS_NO_ERRORS, c) }"

section \<open>One SCAN step\<close>

record scan_state =
  scan_key :: string
  scan_count :: string
  scan_cursor :: int

text \<open>
  \<open>allocScannedKeys\<close>: whether the block was allocated, and whether its \<open>keys\<close> array was,
  which nobody checks.
\<close>

definition allocScannedKeys ::
  "('db, 'r) redis_api \<Rightarrow> ('db, 'r) rctx \<Rightarrow> (bool \<times> bool) \<times> ('db, 'r) rctx" where
  "allocScannedKeys R c =
     (case redis_alloc R c of (sk, c1) \<Rightarrow>
        if sk then (case redis_alloc R c1 of (keys, c2) \<Rightarrow> ((True, keys), c2))
        else ((False, False), c1))"

fun read_keys :: "('db, 'r) redis_api \<Rightarrow> 'r \<Rightarrow> nat \<Rightarrow> nat \<Rightarrow> string option list option" where
  "read_keys R cr_keys j 0 = Some []"
| "read_keys R cr_keys j (Suc n) =
     do {
       e \<leftarrow> api_CallReplyArrayElement R cr_keys j;
       rest \<leftarrow> read_keys R cr_keys (Suc j) n;
       Some (api_CreateStringFromCallReply R e # rest) }"

text \<open>
  The keys of one page (\<^term>\<open>None\<close>: the \<open>NULL\<close> pointer), the new scan state and status.
\<close>

definition scanSome ::
  "('db, 'r) redis_api \<Rightarrow> scan_state \<Rightarrow> exstrings_status \<Rightarrow> ('db, 'r) rctx
     \<Rightarrow> (string option list option \<times> scan_state \<times> exstrings_status \<times> ('db, 'r) rctx) option" where
  "scanSome R st status c =
     do {
       m \<leftarrow> match_str c;
       n \<leftarrow> count_str c;
       let scanargv = [api_StringFromLongLong R (scan_cursor st), m, scan_key st, n, scan_count st];
       let (reply, c) = redis_call R ''SCAN'' scanargv c;
       (status, c) \<leftarrow> forwardIfError R reply status c;
       if status = EXSTRINGS_STATUS_ERROR_AND_REPLY_SENT then Some (None, st, status, c)
       else do {
         h \<leftarrow> reply;
         v \<leftarrow> deref c h;
         e0 \<leftarrow> api_CallReplyArrayElement R v 0;
         cursor \<leftarrow> callReplyLongLong R e0;
         let st = st\<lparr>scan_cursor := cursor\<rparr>;
         cr_keys \<leftarrow> api_CallReplyArrayElement R v 1;
         let scanned_keys_len = api_CallReplyLength R cr_keys;
         if scanned_keys_len = 0 then do {
           c \<leftarrow> FreeCallReply reply c;
           Some (None, st, EXSTRINGS_STATUS_NO_ERRORS, c) }
         else case allocScannedKeys R c of ((sk, keys_array), c) \<Rightarrow>
           if \<not> sk then do {
             c \<leftarrow> FreeCallReply reply c;
             Some (None, st, EXSTRINGS_STATUS_ERROR_AND_REPLY_SENT,
                   reply_with (RError ''-ERR Out of memory'') c) }
           else if \<not> keys_array then None
           else do {
             keys \<leftarrow> read_keys R cr_keys 0 scanned_keys_len;
             c \<leftarrow> FreeCallReply reply c;
             Some (Some keys, st, EXSTRINGS_STATUS_NO_ERRORS, c) } } }"

section \<open>NGET\<close>

definition unlockThreadsafeContext ::
  "bool \<Rightarrow> ('db, 'r) rctx \<Rightarrow> ('db, 'r) rctx option" where
  "unlockThreadsafeContext using_threadsafe_context c =
     (if using_threadsafe_context then ThreadSafeContextUnlock c else Some c)"

definition lockThreadsafeContext ::
  "('db, 'r) redis_api \<Rightarrow> bool \<Rightarrow> ('db, 'r) rctx \<Rightarrow> ('db, 'r) rctx option" where
  "lockThreadsafeContext R using_threadsafe_context c =
     (if using_threadsafe_context then ThreadSafeContextLock R c else Some c)"

text \<open>The inner loop: a key and its value for every value that is a string.\<close>

fun nget_emit ::
  "('db, 'r) redis_api \<Rightarrow> 'r reply_handle option \<Rightarrow> string list \<Rightarrow> nat \<Rightarrow> nat \<Rightarrow> ('db, 'r) rctx
     \<Rightarrow> (nat \<times> ('db, 'r) rctx) option" where
  "nget_emit R reply [] i replylen c = Some (replylen, c)"
| "nget_emit R reply (k # ks) i replylen c =
     do {
       h \<leftarrow> reply;
       v \<leftarrow> deref c h;
       e \<leftarrow> api_CallReplyArrayElement R v i;
       case api_CreateStringFromCallReply R e of
         None \<Rightarrow> nget_emit R reply ks (Suc i) replylen c
       | Some rms \<Rightarrow> nget_emit R reply ks (Suc i) (replylen + 2)
           (reply_with (RString rms) (reply_with (RString k) c)) }"

fun nget_loop ::
  "('db, 'r) redis_api \<Rightarrow> bool \<Rightarrow> nat \<Rightarrow> scan_state \<Rightarrow> nat \<Rightarrow> ('db, 'r) rctx
     \<Rightarrow> (int \<times> nat \<times> ('db, 'r) rctx) option" where
  "nget_loop R tsc 0 st replylen c = None"
| "nget_loop R tsc (Suc fuel) st replylen c =
     do {
       c \<leftarrow> lockThreadsafeContext R tsc c;
       (scanned_keys, st, status, c) \<leftarrow> scanSome R st EXSTRINGS_STATUS_NOT_SET c;
       if status \<noteq> EXSTRINGS_STATUS_NO_ERRORS then do {
         c \<leftarrow> unlockThreadsafeContext tsc c;
         Some (REDISMODULE_ERR, replylen, c) }
       else case scanned_keys of
         None \<Rightarrow> do {
           c \<leftarrow> unlockThreadsafeContext tsc c;
           if scan_cursor st \<noteq> 0 then nget_loop R tsc fuel st replylen c
           else Some (REDISMODULE_OK, replylen, c) }
       | Some keys \<Rightarrow> do {
           args \<leftarrow> those keys;
           let (reply, c) = redis_call R ''MGET'' args c;
           c \<leftarrow> unlockThreadsafeContext tsc c;
           (status, c) \<leftarrow> forwardIfError R reply EXSTRINGS_STATUS_NOT_SET c;
           if status \<noteq> EXSTRINGS_STATUS_NO_ERRORS then Some (REDISMODULE_ERR, replylen, c)
           else do {
             (replylen, c) \<leftarrow> nget_emit R reply args 0 replylen c;
             c \<leftarrow> FreeCallReply reply c;
             if scan_cursor st \<noteq> 0 then nget_loop R tsc fuel st replylen c
             else Some (REDISMODULE_OK, replylen, c) } } }"

definition Nget_RedisCommand ::
  "('db, 'r) redis_api \<Rightarrow> nat \<Rightarrow> nget_args \<Rightarrow> bool \<Rightarrow> ('db, 'r) rctx \<Rightarrow> ('db, 'r) outcome" where
  "Nget_RedisCommand R fuel nget_args using_threadsafe_context c =
     do {
       let st = \<lparr>scan_key = nget_key nget_args, scan_count = nget_count nget_args, scan_cursor = 0\<rparr>;
       let c = reply_with RArrayPostponed c;
       (ret, replylen, c) \<leftarrow> nget_loop R using_threadsafe_context fuel st 0 c;
       Some (ret, reply_with (RSetArrayLength replylen) c) }"

text \<open>The thread runs with a context of its own, which does not hold the lock.\<close>

definition NGet_NoAtomic_ThreadMain ::
  "('db, 'r) redis_api \<Rightarrow> nat \<Rightarrow> nget_args \<Rightarrow> ('db, 'r) rctx \<Rightarrow> ('db, 'r) rctx option" where
  "NGet_NoAtomic_ThreadMain R fuel nget_args c =
     do {
       (ret, c) \<leftarrow> Nget_RedisCommand R fuel nget_args True (c\<lparr>locked := False\<rparr>);
       Some (c\<lparr>events := events c @ [UnblockClient]\<rparr>) }"

definition NGet_NoAtomic_RedisCommand ::
  "('db, 'r) redis_api \<Rightarrow> string list \<Rightarrow> ('db, 'r) rctx \<Rightarrow> ('db, 'r) outcome" where
  "NGet_NoAtomic_RedisCommand R argv c =
     (case redis_alloc R (InitStaticVariable R c) of (bca, c) \<Rightarrow>
        if \<not> bca then Some (REDISMODULE_ERR, reply_with (RError ''-ERR Out of memory'') c)
        else do {
          (args, status, c) \<leftarrow> readNgetArgs R argv c;
          if status \<noteq> EXSTRINGS_STATUS_NO_ERRORS then Some (REDISMODULE_ERR, c)
          else do {
            nget_args \<leftarrow> args;
            let c = c\<lparr>events := events c @ [BlockClient]\<rparr>;
            if \<not> api_PthreadCreateOk R
            then finish (RError (''-ERR Can'' @ [CHR 0x27] @ ''t start thread''))
                   (c\<lparr>events := events c @ [AbortBlock]\<rparr>)
            else Some (REDISMODULE_OK, c\<lparr>events := events c @ [SpawnThread nget_args]\<rparr>) } })"

definition NGet_Atomic_RedisCommand ::
  "('db, 'r) redis_api \<Rightarrow> nat \<Rightarrow> string list \<Rightarrow> ('db, 'r) rctx \<Rightarrow> ('db, 'r) outcome" where
  "NGet_Atomic_RedisCommand R fuel argv c =
     do {
       (args, status, c) \<leftarrow> readNgetArgs R argv (InitStaticVariable R c);
       if status \<noteq> EXSTRINGS_STATUS_NO_ERRORS then Some (REDISMODULE_ERR, c)
       else do {
         nget_args \<leftarrow> args;
         Nget_RedisCommand R fuel nget_args False c } }"

section \<open>NDEL\<close>

fun ndel_loop ::
  "('db, 'r) redis_api \<Rightarrow> nat \<Rightarrow> scan_state \<Rightarrow> int \<Rightarrow> ('db, 'r) rctx
     \<Rightarrow> (int \<times> int \<times> ('db, 'r) rctx) option" where
  "ndel_loop R 0 st replylen c = None"
| "ndel_loop R (Suc fuel) st replylen c =
     do {
       (scanned_keys, st, status, c) \<leftarrow> scanSome R st EXSTRINGS_STATUS_NOT_SET c;
       if status \<noteq> EXSTRINGS_STATUS_NO_ERRORS then Some (REDISMODULE_ERR, replylen, c)
       else case scanned_keys of
         None \<Rightarrow>
           if scan_cursor st \<noteq> 0 then ndel_loop R fuel st replylen c
           else Some (REDISMODULE_OK, replylen, c)
       | Some keys \<Rightarrow> do {
           args \<leftarrow> those keys;
           let (reply, c) = redis_call R ''UNLINK'' args c;
           (status, c) \<leftarrow> forwardIfError R reply EXSTRINGS_STATUS_NOT_SET c;
           if status \<noteq> EXSTRINGS_STATUS_NO_ERRORS then Some (REDISMODULE_ERR, replylen, c)
           else do {
             h \<leftarrow> reply;
             v \<leftarrow> deref c h;
             replylen \<leftarrow> s64 (replylen + api_CallReplyInteger R v);
             c \<leftarrow> FreeCallReply reply c;
             if scan_cursor st \<noteq> 0 then ndel_loop R fuel st replylen c
             else Some (REDISMODULE_OK, replylen, c) } } }"

definition NDel_Atomic_RedisCommand ::
  "('db, 'r) redis_api \<Rightarrow> nat \<Rightarrow> string list \<Rightarrow> ('db, 'r) rctx \<Rightarrow> ('db, 'r) outcome" where
  "NDel_Atomic_RedisCommand R fuel argv c =
     (let c = InitStaticVariable R c in
      if length argv \<noteq> 2 then finish RWrongArity c
      else do {
        n \<leftarrow> def_count_str c;
        let st = \<lparr>scan_key = argv ! 1, scan_count = n, scan_cursor = 0\<rparr>;
        (ret, replylen, c) \<leftarrow> ndel_loop R fuel st 0 c;
        if ret = REDISMODULE_OK then Some (ret, reply_with (RLongLong replylen) c)
        else Some (ret, c) })"

section \<open>Registration\<close>

text \<open>
  \<open>RedisModule_OnLoad\<close>: the commands in the order they are registered, each with its handler
  and flags. The server may refuse the module or any command; loading stops at the first refusal.
\<close>

definition command_table ::
  "('db, 'r) redis_api \<Rightarrow> nat
     \<Rightarrow> (string \<times> (string list \<Rightarrow> ('db, 'r) rctx \<Rightarrow> ('db, 'r) outcome) \<times> string) list" where
  "command_table R fuel =
     [(''setie'', SetIE_RedisCommand R, ''write deny-oom''),
      (''setne'', SetNE_RedisCommand R, ''write deny-oom''),
      (''delie'', DelIE_RedisCommand R, ''write deny-oom''),
      (''delne'', DelNE_RedisCommand R, ''write deny-oom''),
      (''nget.atomic'', NGet_Atomic_RedisCommand R fuel, ''readonly''),
      (''nget.noatomic'', NGet_NoAtomic_RedisCommand R, ''readonly''),
      (''ndel.atomic'', NDel_Atomic_RedisCommand R fuel, ''write deny-oom''),
      (''msetpub'', SetPub_RedisCommand R, ''write deny-oom''),
      (''msetmpub'', SetMPub_RedisCommand R, ''write deny-oom pubsub''),
      (''setiepub'', SetIEPub_RedisCommand R, ''write deny-oom''),
      (''setiempub'', SetIEMPub_RedisCommand R, ''write deny-oom''),
      (''setnepub'', SetNEPub_RedisCommand R, ''write deny-oom''),
      (''setxxpub'', SetXXPub_RedisCommand R, ''write deny-oom''),
      (''setnxpub'', SetNXPub_RedisCommand R, ''write deny-oom''),
      (''setnxmpub'', SetNXMPub_RedisCommand R, ''write deny-oom''),
      (''delpub'', DelPub_RedisCommand R, ''write deny-oom''),
      (''delmpub'', DelMPub_RedisCommand R, ''write deny-oom pubsub''),
      (''deliepub'', DelIEPub_RedisCommand R, ''write deny-oom''),
      (''deliempub'', DelIEMPub_RedisCommand R, ''write deny-oom''),
      (''delnepub'', DelNEPub_RedisCommand R, ''write deny-oom'')]"

fun register_commands :: "(string \<Rightarrow> string \<Rightarrow> bool) \<Rightarrow> (string \<times> 'h \<times> string) list \<Rightarrow> int \<times> string list" where
  "register_commands accept [] = (REDISMODULE_OK, [])"
| "register_commands accept ((name, handler, flags) # cs) =
     (if \<not> accept name flags then (REDISMODULE_ERR, [])
      else case register_commands accept cs of (rc, names) \<Rightarrow> (rc, name # names))"

definition RedisModule_OnLoad ::
  "('db, 'r) redis_api \<Rightarrow> nat \<Rightarrow> bool \<Rightarrow> (string \<Rightarrow> string \<Rightarrow> bool) \<Rightarrow> int \<times> string list" where
  "RedisModule_OnLoad R fuel init_ok accept =
     (if \<not> init_ok then (REDISMODULE_ERR, []) else register_commands accept (command_table R fuel))"

end
