(* ===== verification/Redis_Reference.thy ===== *)
theory Redis_Reference
  imports Redis_Module
begin

text \<open>
  A small executable server that satisfies the laws of \<open>Redis_Module\<close>, over an association
  list of string keys. Its only use is to show that the hypotheses of the properties can hold:
  witnesses run the module's commands against it.
\<close>

datatype ref_reply = Str string | Err string | Num int | Arr "ref_reply list" | Nil

type_synonym ref_db = "(string \<times> string) list"

fun ref_store :: "string list \<Rightarrow> ref_db \<Rightarrow> ref_db" where
  "ref_store (k # v # xs) d = ref_store xs ((k, v) # d)"
| "ref_store xs d = d"

definition ref_get :: "ref_db \<Rightarrow> string \<Rightarrow> ref_reply" where
  "ref_get d k = (case map_of d k of None \<Rightarrow> Nil | Some v \<Rightarrow> Str v)"

definition ref_unlink :: "string list \<Rightarrow> ref_db \<Rightarrow> ref_reply option \<times> ref_db" where
  "ref_unlink ks d =
     (Some (Num (int (length (filter (\<lambda>k. map_of d k \<noteq> None) (remdups ks))))),
      filter (\<lambda>p. fst p \<notin> set ks) d)"

text \<open>SCAN answers with one page holding every key, whatever the pattern, and cursor 0.\<close>

definition ref_call :: "string \<Rightarrow> string list \<Rightarrow> ref_db \<Rightarrow> ref_reply option \<times> ref_db" where
  "ref_call cmd args d =
     (if cmd = ''GET'' then (Some (ref_get d (hd args)), d)
      else if cmd = ''SET'' \<or> cmd = ''MSET'' then (Some (Str ''OK''), ref_store args d)
      else if cmd = ''UNLINK'' then ref_unlink args d
      else if cmd = ''PUBLISH'' then (Some (Num 0), d)
      else if cmd = ''SCAN'' then
        (Some (Arr [Str ''0'', Arr (map Str (remdups (map fst d)))]), d)
      else if cmd = ''MGET'' then (Some (Arr (map (ref_get d) args)), d)
      else (Some (Err ''ERR unknown command''), d))"

fun ref_type :: "ref_reply \<Rightarrow> int" where
  "ref_type (Str s) = REDISMODULE_REPLY_STRING"
| "ref_type (Err s) = REDISMODULE_REPLY_ERROR"
| "ref_type (Num n) = REDISMODULE_REPLY_INTEGER"
| "ref_type (Arr rs) = REDISMODULE_REPLY_ARRAY"
| "ref_type Nil = REDISMODULE_REPLY_NULL"

fun ref_string :: "ref_reply \<Rightarrow> string option" where
  "ref_string (Str s) = Some s"
| "ref_string (Err s) = Some s"
| "ref_string _ = None"

fun ref_integer :: "ref_reply \<Rightarrow> int" where
  "ref_integer (Num n) = n"
| "ref_integer _ = LLONG_MIN"

fun ref_elements :: "ref_reply \<Rightarrow> ref_reply list" where
  "ref_elements (Arr rs) = rs"
| "ref_elements _ = []"

definition digit_value :: "char \<Rightarrow> int" where
  "digit_value c = int (of_char c) - 48"

definition ref_server :: "(ref_db, ref_reply) redis_api" where
  "ref_server =
     \<lparr>api_KeyType = (\<lambda>d k. if map_of d k = None then REDISMODULE_KEYTYPE_EMPTY
                           else REDISMODULE_KEYTYPE_STRING),
      api_Call = ref_call,
      api_CallReplyType = ref_type,
      api_CallReplyStringPtr = ref_string,
      api_CallReplyInteger = ref_integer,
      api_CallReplyLength = (\<lambda>r. length (ref_elements r)),
      api_CallReplyArrayElement = (\<lambda>r i. nth_opt (ref_elements r) i),
      api_CreateStringFromCallReply = ref_string,
      api_StringToLongLong =
        (\<lambda>s. if s \<noteq> [] \<and> list_all c_isdigit s then Some (digits_value s) else None),
      api_StringFromLongLong = (\<lambda>n. if n = 50 then ''50'' else ''0''),
      api_AllocOk = (\<lambda>_. True),
      api_Interfere = (\<lambda>_ d. d),
      api_PthreadCreateOk = True,
      api_Uninit = (\<lambda>_. 0)\<rparr>"

text \<open>The state a command starts in.\<close>

definition start_ctx :: "'db \<Rightarrow> ('db, 'r) rctx" where
  "start_ctx d =
     \<lparr>db = d, replies = [], calls = [], nreplies = 0, freed = [], locked = True, nlocks = 0,
      nallocs = 0, events = [], def_count_str = None, match_str = None, count_str = None,
      zero_str = None\<rparr>"

lemma start_ctx_fields [simp]:
  "db (start_ctx d) = d" "replies (start_ctx d) = []" "calls (start_ctx d) = []"
  "nreplies (start_ctx d) = 0" "freed (start_ctx d) = []" "locked (start_ctx d)"
  "nlocks (start_ctx d) = 0" "nallocs (start_ctx d) = 0" "events (start_ctx d) = []"
  "def_count_str (start_ctx d) = None" "match_str (start_ctx d) = None"
  "count_str (start_ctx d) = None" "zero_str (start_ctx d) = None"
  by (simp_all add: start_ctx_def)

lemma handles_ok_start [simp]: "handles_ok (start_ctx d)"
  by (simp add: handles_ok_def)

section \<open>The laws hold\<close>

lemma ref_server_fields [simp]:
  "api_KeyType ref_server d k =
     (if map_of d k = None then REDISMODULE_KEYTYPE_EMPTY else REDISMODULE_KEYTYPE_STRING)"
  "api_Call ref_server = ref_call" "api_CallReplyType ref_server = ref_type"
  "api_CallReplyStringPtr ref_server = ref_string"
  "api_CallReplyInteger ref_server = ref_integer"
  "api_CallReplyLength ref_server r = length (ref_elements r)"
  "api_CallReplyArrayElement ref_server r i = nth_opt (ref_elements r) i"
  "api_CreateStringFromCallReply ref_server = ref_string"
  "api_AllocOk ref_server n = True" "api_Interfere ref_server n d = d"
  "api_PthreadCreateOk ref_server = True"
  by (simp_all add: ref_server_def)

lemma ref_get_law: "get_law ref_server map_of"
  by (auto simp: get_law_def ref_call_def ref_get_def REDISMODULE_KEYTYPE_EMPTY_def
      REDISMODULE_KEYTYPE_STRING_def REDISMODULE_REPLY_ERROR_def REDISMODULE_REPLY_STRING_def
      REDISMODULE_REPLY_NULL_def split: option.splits)

lemma ref_set_law: "set_law ref_server map_of"
  by (simp add: set_law_def ref_call_def REDISMODULE_REPLY_ERROR_def REDISMODULE_REPLY_STRING_def)

lemma ref_store_pairs: "map_of (ref_store kvs d) = mset_pairs kvs (map_of d)"
  by (induction kvs d rule: ref_store.induct) (simp_all add: fun_upd_def)

lemma ref_mset_law: "mset_law ref_server map_of"
  by (simp add: mset_law_def ref_call_def ref_store_pairs REDISMODULE_REPLY_ERROR_def
      REDISMODULE_REPLY_STRING_def)

lemma ref_publish_law: "publish_law ref_server"
  by (simp add: publish_law_def ref_call_def)

lemma map_of_filter_keys: "map_of (filter (\<lambda>p. fst p \<notin> A) d) = map_of d |` (- A)"
  by (induction d) (auto simp: restrict_map_def fun_eq_iff)

lemma length_filter_remdups: "length (filter P (remdups ks)) = card {k \<in> set ks. P k}"
  by (metis distinct_card distinct_filter distinct_remdups set_filter set_remdups)

lemma ref_unlink_law: "unlink_law ref_server map_of"
  by (auto simp: unlink_law_def ref_call_def ref_unlink_def map_of_filter_keys
      length_filter_remdups REDISMODULE_KEYTYPE_EMPTY_def REDISMODULE_KEYTYPE_STRING_def
      intro!: arg_cong [where f = card])

end
