(* ===== verification/Exstrings_Properties.thy ===== *)
theory Exstrings_Properties
  imports Exstrings_Scan Redis_Reference
begin

text \<open>
  What the commands of the SDL module guarantee to their callers: compare-and-set and
  compare-and-delete, publication exactly when a write happened and after it, no access outside
  the argument vector, and which replies the pattern commands produce.
\<close>

section \<open>Single steps\<close>

lemmas redis_codes = REDISMODULE_OK_def REDISMODULE_ERR_def REDISMODULE_KEYTYPE_EMPTY_def
  REDISMODULE_KEYTYPE_STRING_def REDISMODULE_REPLY_UNKNOWN_def REDISMODULE_REPLY_STRING_def
  REDISMODULE_REPLY_ERROR_def REDISMODULE_REPLY_INTEGER_def REDISMODULE_REPLY_ARRAY_def
  REDISMODULE_REPLY_NULL_def

lemma keytype_neq [simp]:
  "REDISMODULE_KEYTYPE_EMPTY \<noteq> REDISMODULE_KEYTYPE_STRING"
  "REDISMODULE_KEYTYPE_STRING \<noteq> REDISMODULE_KEYTYPE_EMPTY"
  by (simp_all add: redis_codes)

lemma assert_noerror_ok:
  "hid h \<notin> set (freed c) \<Longrightarrow> api_CallReplyType R (hval h) \<noteq> REDISMODULE_REPLY_ERROR \<Longrightarrow>
   assert_noerror R (Some h) c k = k h"
  by (simp add: assert_noerror_def CallReplyType_def deref_Some)

lemma assert_noerror_error:
  "hid h \<notin> set (freed c) \<Longrightarrow> api_CallReplyType R (hval h) = REDISMODULE_REPLY_ERROR \<Longrightarrow>
   assert_noerror R (Some h) c k = Some (REDISMODULE_OK, reply_with (RCallReply (hval h)) c)"
  by (simp add: assert_noerror_def CallReplyType_def ReplyWithCallReply_def deref_Some)

lemma get_law_type:
  "get_law R val \<Longrightarrow> api_KeyType R d k = REDISMODULE_KEYTYPE_EMPTY \<Longrightarrow> val d k = None"
  unfolding get_law_def by (metis keytype_neq(1))

lemma get_step:
  assumes "get_law R val"
    and "api_KeyType R (db c) k \<in> {REDISMODULE_KEYTYPE_STRING, REDISMODULE_KEYTYPE_EMPTY}"
  obtains r where "redis_call R ''GET'' [k] c =
      (Some \<lparr>hid = nreplies c, hval = r\<rparr>, called ''GET'' [k] (db c) c)"
    and "api_CallReplyStringPtr R r = val (db c) k"
    and "api_CallReplyType R r \<noteq> REDISMODULE_REPLY_ERROR"
proof -
  from assms obtain r where "api_Call R ''GET'' [k] (db c) = (Some r, db c)"
    "api_CallReplyStringPtr R r = val (db c) k" "api_CallReplyType R r \<noteq> REDISMODULE_REPLY_ERROR"
    unfolding get_law_def by blast
  then show thesis by (intro that [of r]) (auto intro: redis_call_Some)
qed

lemma set_step:
  assumes "set_law R val"
  obtains r d' where "redis_call R ''SET'' [k, v] c =
      (Some \<lparr>hid = nreplies c, hval = r\<rparr>, called ''SET'' [k, v] d' c)"
    and "api_CallReplyType R r \<noteq> REDISMODULE_REPLY_ERROR" and "val d' = (val (db c))(k \<mapsto> v)"
proof -
  from assms obtain r d' where "api_Call R ''SET'' [k, v] (db c) = (Some r, d')"
    "api_CallReplyType R r \<noteq> REDISMODULE_REPLY_ERROR" "val d' = (val (db c))(k \<mapsto> v)"
    unfolding set_law_def by blast
  then show thesis by (intro that [of r d']) (auto intro: redis_call_Some)
qed

lemma mset_step:
  assumes "mset_law R val" and "kvs \<noteq> []" and "even (length kvs)"
  obtains r d' where "redis_call R ''MSET'' kvs c =
      (Some \<lparr>hid = nreplies c, hval = r\<rparr>, called ''MSET'' kvs d' c)"
    and "api_CallReplyType R r \<noteq> REDISMODULE_REPLY_ERROR"
    and "val d' = mset_pairs kvs (val (db c))"
proof -
  from assms obtain r d' where "api_Call R ''MSET'' kvs (db c) = (Some r, d')"
    "api_CallReplyType R r \<noteq> REDISMODULE_REPLY_ERROR" "val d' = mset_pairs kvs (val (db c))"
    unfolding mset_law_def by blast
  then show thesis by (intro that [of r d']) (auto intro: redis_call_Some)
qed

lemma unlink_step:
  assumes "unlink_law R val" and "ks \<noteq> []"
  obtains r d' where "redis_call R ''UNLINK'' ks c =
      (Some \<lparr>hid = nreplies c, hval = r\<rparr>, called ''UNLINK'' ks d' c)"
    and "api_CallReplyType R r = REDISMODULE_REPLY_INTEGER"
    and "api_CallReplyInteger R r =
      int (card {k \<in> set ks. api_KeyType R (db c) k \<noteq> REDISMODULE_KEYTYPE_EMPTY})"
    and "val d' = val (db c) |` (- set ks)"
proof -
  from assms obtain r d' where "api_Call R ''UNLINK'' ks (db c) = (Some r, d')"
    "api_CallReplyType R r = REDISMODULE_REPLY_INTEGER" "api_CallReplyInteger R r =
      int (card {k \<in> set ks. api_KeyType R (db c) k \<noteq> REDISMODULE_KEYTYPE_EMPTY})"
    "val d' = val (db c) |` (- set ks)"
    unfolding unlink_law_def by blast
  then show thesis by (intro that [of r d']) (auto intro: redis_call_Some)
qed

text \<open>The guard of the conditional commands is equality of the two strings, where neither
  holds a NUL.\<close>

lemma old_value_blocks_IE:
  "NUL \<notin> set old \<Longrightarrow> old_value_blocks OBJ_OP_IE old cur \<longleftrightarrow> cur \<noteq> Some old"
  by (auto simp: old_value_blocks_def c_strncmp_eq_iff split: option.splits)

lemma old_value_blocks_NE:
  "NUL \<notin> set old \<Longrightarrow> old_value_blocks OBJ_OP_NE old cur \<longleftrightarrow> cur = Some old"
  by (auto simp: old_value_blocks_def c_strncmp_eq_iff split: option.splits)


section \<open>SETIE and SETNE\<close>

lemma setStringGeneric_run:
  assumes laws: "get_law R val" "set_law R val" and ok: "handles_ok c"
    and type: "api_KeyType R (db c) k \<in> {REDISMODULE_KEYTYPE_STRING, REDISMODULE_KEYTYPE_EMPTY}"
    and flag: "flag \<in> {OBJ_OP_IE, OBJ_OP_NE}"
  shows "\<exists>c'. setStringGenericCommand R [cmd, k, new, old] flag c = Some (REDISMODULE_OK, c') \<and>
     (if old_value_blocks flag old (val (db c) k)
      then db c' = db c \<and> replies c' = replies c @ [RNull]
      else val (db c') = (val (db c))(k \<mapsto> new) \<and>
           (\<exists>r. replies c' = replies c @ [RCallReply r]))"
proof (cases "api_KeyType R (db c) k = REDISMODULE_KEYTYPE_EMPTY \<and> flag = OBJ_OP_IE")
  case True
  with laws(1) have "val (db c) k = None" by (simp add: get_law_type)
  with True show ?thesis
    by (simp add: setStringGenericCommand_def finish_def old_value_blocks_def)
next
  case False
  from laws(1) type obtain r where g: "redis_call R ''GET'' [k] c =
      (Some \<lparr>hid = nreplies c, hval = r\<rparr>, called ''GET'' [k] (db c) c)"
    "api_CallReplyStringPtr R r = val (db c) k" "api_CallReplyType R r \<noteq> REDISMODULE_REPLY_ERROR"
    by (rule get_step)
  let ?c2 = "release (nreplies c) (called ''GET'' [k] (db c) c)"
  from laws(2) obtain r' d' where s: "redis_call R ''SET'' [k, new] ?c2 =
      (Some \<lparr>hid = nreplies ?c2, hval = r'\<rparr>, called ''SET'' [k, new] d' ?c2)"
    "api_CallReplyType R r' \<noteq> REDISMODULE_REPLY_ERROR" "val d' = (val (db ?c2))(k \<mapsto> new)"
    by (rule set_step)
  have args: "[[cmd, k, new, old] ! i. i \<leftarrow> [1..<4], i \<noteq> 3] = [k, new]"
    by (simp add: upt_rec)
  show ?thesis
    using False type ok g s args
    by (cases "old_value_blocks flag old (val (db c) k)")
      (auto simp: setStringGenericCommand_def assert_noerror_ok redis_steps finish_def)
qed

text \<open>
  C4. SETIE and SETNE are an atomic compare-and-set. On a string key or a missing one, and with
  an old value free of NUL bytes, \<open>SETIE key new old\<close> stores the new value exactly when the
  current value is the old one, \<open>SETNE key new old\<close> exactly when it is not (a missing key has no
  value); otherwise the reply is null and the database is untouched. Neither runs into undefined
  behaviour.
\<close>

theorem setie_setne_compare_and_set:
  assumes "get_law R val" "set_law R val" and "handles_ok c"
    and "api_KeyType R (db c) k \<in> {REDISMODULE_KEYTYPE_STRING, REDISMODULE_KEYTYPE_EMPTY}"
    and "NUL \<notin> set old"
  shows "(\<exists>c'. SetIE_RedisCommand R [cmd, k, new, old] c = Some (REDISMODULE_OK, c') \<and>
       (if val (db c) k = Some old then val (db c') = (val (db c))(k \<mapsto> new)
        else db c' = db c \<and> replies c' = replies c @ [RNull])) \<and>
     (\<exists>c'. SetNE_RedisCommand R [cmd, k, new, old] c = Some (REDISMODULE_OK, c') \<and>
       (if val (db c) k \<noteq> Some old then val (db c') = (val (db c))(k \<mapsto> new)
        else db c' = db c \<and> replies c' = replies c @ [RNull]))"
  using setStringGeneric_run [OF assms(1-4), of OBJ_OP_IE cmd new old]
    setStringGeneric_run [OF assms(1-4), of OBJ_OP_NE cmd new old]
  by (auto simp: SetIE_RedisCommand_def SetNE_RedisCommand_def old_value_blocks_IE [OF assms(5)]
      old_value_blocks_NE [OF assms(5)])

theorem setie_setne_compare_and_set_witness:
  "\<exists>c'. SetIE_RedisCommand ref_server [''setie'', ''k'', ''new'', ''old'']
      (start_ctx [(''k'', ''old'')]) = Some (REDISMODULE_OK, c') \<and>
    map_of (db c') = (map_of [(''k'', ''old'')])(''k'' \<mapsto> ''new'')"
proof -
  have "NUL \<notin> set ''old''" by (simp add: NUL_def)
  from setie_setne_compare_and_set [OF ref_get_law ref_set_law handles_ok_start _ this,
      of "[(''k'', ''old'')]" "''k''" "''setie''" "''new''"]
  show ?thesis by auto
qed

text \<open>
  C5. The comparison stops at a NUL, although Redis strings are binary: when the current value and
  the given old value agree up to a NUL byte, SETIE takes them for equal exactly if they have the
  same length, whatever follows the NUL, and so overwrites a value the caller did not name; if the
  lengths differ the reply is null and the database is untouched.
\<close>

theorem setie_ignores_bytes_after_NUL:
  assumes "get_law R val" "set_law R val" and "handles_ok c"
    and "val (db c) k = Some (p @ NUL # a)" and "NUL \<notin> set p"
  shows "\<exists>c'. SetIE_RedisCommand R [cmd, k, new, p @ NUL # b] c = Some (REDISMODULE_OK, c') \<and>
     (if length a = length b then val (db c') = (val (db c))(k \<mapsto> new)
      else db c' = db c \<and> replies c' = replies c @ [RNull])"
proof -
  have type: "api_KeyType R (db c) k \<in> {REDISMODULE_KEYTYPE_STRING, REDISMODULE_KEYTYPE_EMPTY}"
    using assms(1,4) unfolding get_law_def by simp
  have "old_value_blocks OBJ_OP_IE (p @ NUL # b) (val (db c) k) \<longleftrightarrow> length a \<noteq> length b"
    using assms(4,5) by (auto simp: old_value_blocks_def c_strncmp_NUL simp del: c_strncmp.simps)
  with setStringGeneric_run [OF assms(1-3) type, of OBJ_OP_IE cmd new "p @ NUL # b"]
  show ?thesis by (auto simp: SetIE_RedisCommand_def)
qed

theorem setie_ignores_bytes_after_NUL_witness:
  "\<exists>c'. SetIE_RedisCommand ref_server [''setie'', ''k'', ''new'', [NUL, CHR ''b'']]
      (start_ctx [(''k'', [NUL, CHR ''a''])]) = Some (REDISMODULE_OK, c') \<and>
    map_of (db c') = (map_of [(''k'', [NUL, CHR ''a''])])(''k'' \<mapsto> ''new'')"
  using setie_ignores_bytes_after_NUL [OF ref_get_law ref_set_law,
      where c = "start_ctx [(''k'', [NUL, CHR ''a''])]" and k = "''k''" and p = "[]" and
      a = "''a''" and b = "''b''" and cmd = "''setie''" and new = "''new''"]
  by simp

section \<open>DELIE and DELNE\<close>

lemma delStringGeneric_run:
  assumes laws: "get_law R val" "unlink_law R val" and ok: "handles_ok c"
    and type: "api_KeyType R (db c) k \<in> {REDISMODULE_KEYTYPE_STRING, REDISMODULE_KEYTYPE_EMPTY}"
    and flag: "flag \<in> {OBJ_OP_IE, OBJ_OP_NE}"
  shows "\<exists>c'. delStringGenericCommand R [cmd, k, old] flag c = Some (REDISMODULE_OK, c') \<and>
     (if val (db c) k = None \<or> old_value_blocks flag old (val (db c) k)
      then db c' = db c \<and> replies c' = replies c @ [RLongLong 0]
      else val (db c') = (val (db c))(k := None) \<and>
           (\<exists>r. replies c' = replies c @ [RCallReply r] \<and> api_CallReplyInteger R r = 1))"
proof (cases "api_KeyType R (db c) k = REDISMODULE_KEYTYPE_EMPTY")
  case True
  with laws(1) have "val (db c) k = None" by (simp add: get_law_type)
  with True show ?thesis by (simp add: delStringGenericCommand_def finish_def)
next
  case False
  with type have str: "api_KeyType R (db c) k = REDISMODULE_KEYTYPE_STRING" by simp
  with laws(1) have some: "val (db c) k \<noteq> None" unfolding get_law_def by blast
  from laws(1) type obtain r where g: "redis_call R ''GET'' [k] c =
      (Some \<lparr>hid = nreplies c, hval = r\<rparr>, called ''GET'' [k] (db c) c)"
    "api_CallReplyStringPtr R r = val (db c) k" "api_CallReplyType R r \<noteq> REDISMODULE_REPLY_ERROR"
    by (rule get_step)
  let ?c2 = "release (nreplies c) (called ''GET'' [k] (db c) c)"
  obtain r' d' where u: "redis_call R ''UNLINK'' [k] ?c2 =
      (Some \<lparr>hid = nreplies ?c2, hval = r'\<rparr>, called ''UNLINK'' [k] d' ?c2)"
    "api_CallReplyType R r' = REDISMODULE_REPLY_INTEGER" "api_CallReplyInteger R r' =
       int (card {x \<in> set [k]. api_KeyType R (db ?c2) x \<noteq> REDISMODULE_KEYTYPE_EMPTY})"
    "val d' = val (db ?c2) |` (- set [k])"
    using unlink_step [OF laws(2), of "[k]" ?c2] by blast
  have one: "{x \<in> set [k]. api_KeyType R (db ?c2) x \<noteq> REDISMODULE_KEYTYPE_EMPTY} = {k}"
    using False by auto
  have res: "val (db c) |` (- {k}) = (val (db c))(k := None)"
    by (simp add: restrict_complement_singleton_eq)
  have noerr: "REDISMODULE_REPLY_INTEGER \<noteq> REDISMODULE_REPLY_ERROR" by (simp add: redis_codes)
  have "api_CallReplyInteger R r' = 1" using u(3) unfolding one by simp
  then show ?thesis
    using str some ok g u(1,2,4) res noerr
    by (cases "old_value_blocks flag old (val (db c) k)")
      (auto simp: delStringGenericCommand_def assert_noerror_ok redis_steps finish_def)
qed

text \<open>
  C6. DELIE and DELNE are the matching compare-and-delete: on a string key or a missing one, and
  with an old value free of NUL bytes, DELIE removes the key exactly when its value is the old one,
  DELNE exactly when it has another value; the reply is the number of keys removed, 0 with the
  database untouched otherwise.
\<close>

theorem delie_delne_compare_and_delete:
  assumes "get_law R val" "unlink_law R val" and "handles_ok c"
    and "api_KeyType R (db c) k \<in> {REDISMODULE_KEYTYPE_STRING, REDISMODULE_KEYTYPE_EMPTY}"
    and "NUL \<notin> set old"
  shows "(\<exists>c'. DelIE_RedisCommand R [cmd, k, old] c = Some (REDISMODULE_OK, c') \<and>
       (if val (db c) k = Some old then val (db c') = (val (db c))(k := None) \<and>
            (\<exists>r. replies c' = replies c @ [RCallReply r] \<and> api_CallReplyInteger R r = 1)
        else db c' = db c \<and> replies c' = replies c @ [RLongLong 0])) \<and>
     (\<exists>c'. DelNE_RedisCommand R [cmd, k, old] c = Some (REDISMODULE_OK, c') \<and>
       (if val (db c) k \<noteq> None \<and> val (db c) k \<noteq> Some old
        then val (db c') = (val (db c))(k := None) \<and>
            (\<exists>r. replies c' = replies c @ [RCallReply r] \<and> api_CallReplyInteger R r = 1)
        else db c' = db c \<and> replies c' = replies c @ [RLongLong 0]))"
  using delStringGeneric_run [OF assms(1-4), of OBJ_OP_IE cmd old]
    delStringGeneric_run [OF assms(1-4), of OBJ_OP_NE cmd old]
  by (auto simp: DelIE_RedisCommand_def DelNE_RedisCommand_def old_value_blocks_IE [OF assms(5)]
      old_value_blocks_NE [OF assms(5)])

theorem delie_delne_compare_and_delete_witness:
  "\<exists>c'. DelIE_RedisCommand ref_server [''delie'', ''k'', ''old'']
      (start_ctx [(''k'', ''old'')]) = Some (REDISMODULE_OK, c') \<and> map_of (db c') ''k'' = None"
proof -
  have "NUL \<notin> set ''old''" by (simp add: NUL_def)
  from delie_delne_compare_and_delete [OF ref_get_law ref_unlink_law handles_ok_start _ this,
      of "[(''k'', ''old'')]" "''k''" "''delie''"]
  show ?thesis by auto
qed

section \<open>Publishing\<close>

text \<open>The PUBLISH commands a parameter block asks for, in order.\<close>

fun publications :: "bool \<Rightarrow> string list \<Rightarrow> (string \<times> string list \<times> bool) list" where
  "publications l (ch # msg # xs) = (''PUBLISH'', [ch, msg], l) # publications l xs"
| "publications l _ = []"

lemma multiPub_loop_run:
  assumes law: "publish_law R"
  shows "handles_ok c \<Longrightarrow> even (pub_length P - i) \<Longrightarrow>
    pub_length P \<le> length (channel_msg_pairs P) \<Longrightarrow>
    \<exists>c'. multiPub_loop R P i c = Some c' \<and> db c' = db c \<and> replies c' = replies c \<and>
      calls c' = calls c @ publications (locked c)
        (drop i (take (pub_length P) (channel_msg_pairs P))) \<and>
      handles_ok c' \<and> nreplies c \<le> nreplies c' \<and>
      (\<forall>j < nreplies c. j \<in> set (freed c') \<longleftrightarrow> j \<in> set (freed c))"
proof (induction "pub_length P - i" arbitrary: i c rule: less_induct)
  case less
  show ?case
  proof (cases "i < pub_length P")
    case False
    with less.prems show ?thesis by (simp add: multiPub_loop.simps [of R P i c])
  next
    case True
    let ?xs = "channel_msg_pairs P"
    from True less.prems have i2: "i + 2 \<le> pub_length P" by presburger
    have args: "c_slice ?xs i 2 = Some [?xs ! i, ?xs ! Suc i]"
      using i2 less.prems(3) by (simp add: take_Suc_conv_app_nth numeral_2_eq_2 Cons_nth_drop_Suc)
    have rest: "drop i (take (pub_length P) ?xs) =
        ?xs ! i # ?xs ! Suc i # drop (i + 2) (take (pub_length P) ?xs)"
      using i2 less.prems(3) by (simp add: Cons_nth_drop_Suc [symmetric])
    from law obtain r where "api_Call R ''PUBLISH'' [?xs ! i, ?xs ! Suc i] (db c) = (Some r, db c)"
      unfolding publish_law_def by blast
    then have call: "redis_call R ''PUBLISH'' [?xs ! i, ?xs ! Suc i] c =
        (Some \<lparr>hid = nreplies c, hval = r\<rparr>, called ''PUBLISH'' [?xs ! i, ?xs ! Suc i] (db c) c)"
      by (rule redis_call_Some)
    let ?c2 = "release (nreplies c) (called ''PUBLISH'' [?xs ! i, ?xs ! Suc i] (db c) c)"
    have "multiPub_loop R P i c = multiPub_loop R P (i + 2) ?c2"
      using True args call less.prems(1)
      by (simp add: multiPub_loop.simps [of R P i c] FreeCallReply_Some handles_ok_not_freed)
    moreover have "pub_length P - (i + 2) < pub_length P - i" "even (pub_length P - (i + 2))"
      using True less.prems(2) i2 by auto
    note less.hyps [OF this(1) _ this(2) less.prems(3), of ?c2]
    ultimately show ?thesis using less.prems(1) rest by force
  qed
qed

lemma multiPubCommand_run:
  assumes "publish_law R" and "handles_ok c" and "even n" and "n \<le> length xs"
  obtains c' where "multiPubCommand R \<lparr>channel_msg_pairs = xs, pub_length = n\<rparr> c = Some c'"
    and "db c' = db c" and "replies c' = replies c"
    and "calls c' = calls c @ publications (locked c) (take n xs)" and "handles_ok c'"
    and "nreplies c \<le> nreplies c'"
    and "\<And>j. j < nreplies c \<Longrightarrow> j \<in> set (freed c') \<longleftrightarrow> j \<in> set (freed c)"
  using multiPub_loop_run [OF assms(1,2), of "\<lparr>channel_msg_pairs = xs, pub_length = n\<rparr>" 0] assms(3,4)
  by (force simp: multiPubCommand_def)

text \<open>
  The common tail of the SET...PUB commands: MSET first, then every publication in order, then
  MSET's reply to the client.
\<close>

lemma setPubStringCommon_run:
  assumes laws: "mset_law R val" "publish_law R" and ok: "handles_ok c"
    and kvs: "0 < n" "even n" "n \<le> length kvs" and cms: "even m" "m \<le> length cms"
  shows "\<exists>c' r. setPubStringCommon R \<lparr>key_val_pairs = kvs, set_length = n\<rparr>
        \<lparr>channel_msg_pairs = cms, pub_length = m\<rparr> c = Some (REDISMODULE_OK, c') \<and>
      val (db c') = mset_pairs (take n kvs) (val (db c)) \<and>
      replies c' = replies c @ [RCallReply r] \<and>
      calls c' = calls c @ (''MSET'', take n kvs, locked c) # publications (locked c) (take m cms)"
proof -
  have "take n kvs \<noteq> []" "even (length (take n kvs))" using kvs by auto
  then obtain r d' where s: "redis_call R ''MSET'' (take n kvs) c =
      (Some \<lparr>hid = nreplies c, hval = r\<rparr>, called ''MSET'' (take n kvs) d' c)"
    "api_CallReplyType R r \<noteq> REDISMODULE_REPLY_ERROR"
    "val d' = mset_pairs (take n kvs) (val (db c))"
    using mset_step [OF laws(1), of "take n kvs" c] by blast
  let ?c1 = "called ''MSET'' (take n kvs) d' c"
  have "handles_ok ?c1" using ok by simp
  from multiPubCommand_run [OF laws(2) this cms] obtain c2 where m:
    "multiPubCommand R \<lparr>channel_msg_pairs = cms, pub_length = m\<rparr> ?c1 = Some c2"
    "db c2 = db ?c1" "replies c2 = replies ?c1"
    "calls c2 = calls ?c1 @ publications (locked ?c1) (take m cms)"
    "\<And>j. j < nreplies ?c1 \<Longrightarrow> j \<in> set (freed c2) \<longleftrightarrow> j \<in> set (freed ?c1)"
    by blast
  have nf: "nreplies c \<notin> set (freed c2)" "nreplies c \<notin> set (freed c)"
    using m(5) [of "nreplies c"] ok by (simp_all add: handles_ok_fresh)
  show ?thesis
    using s m(1-4) nf kvs(3) ok
    by (simp add: setPubStringCommon_def assert_noerror_ok redis_steps)
qed

text \<open>
  C7. MSETMPUB stays inside its arguments and does what its counts say: with numeric counts whose
  total fits, a well-formed call stores exactly the first group of pairs and then publishes
  exactly the second, in order; nothing is published before the store. Every slice is within the
  argument vector (the result is defined).
\<close>

theorem setmpub_partitions_arguments:
  assumes "mset_law R val" "publish_law R" and "handles_ok c"
    and "api_StringToLongLong R s = Some (int n)" "api_StringToLongLong R p = Some (int m)"
    and "1 \<le> n" "1 \<le> m" and "length kvs = 2 * n" "length cms = 2 * m" and "n + m < 2 ^ 60"
  shows "\<exists>c' r. SetMPub_RedisCommand R ([cmd, s, p] @ kvs @ cms) c = Some (REDISMODULE_OK, c') \<and>
      val (db c') = mset_pairs kvs (val (db c)) \<and> replies c' = replies c @ [RCallReply r] \<and>
      calls c' = calls c @ (''MSET'', kvs, locked c) # publications (locked c) cms"
proof -
  let ?argv = "[cmd, s, p] @ kvs @ cms"
  have len: "length ?argv = 3 + 2 * n + 2 * m" using assms(8,9) by simp
  have rc: "read_count R v s = int n" "read_count R v p = int m" for v
    using assms(4,5) by (simp_all add: read_count_def)
  have s64: "s64 (2 * int n) = Some (2 * int n)" "s64 (2 * int m) = Some (2 * int m)"
    "s64 (2 * int n + 2 * int m) = Some (2 * int n + 2 * int m)"
    "s64 (2 * int n + 2 * int m + 3) = Some (2 * int n + 2 * int m + 3)"
    using assms(10) by (simp_all add: s64_def LLONG_MIN_def LLONG_MAX_def)
  have ptr: "argv_from ?argv 3 = Some (kvs @ cms)"
    "argv_from ?argv (3 + 2 * n) = Some cms"
    using assms(8,9) by (simp_all add: argv_from_def numeral_3_eq_3)
  have run: "SetMPub_RedisCommand R ?argv c =
      setPubStringCommon R \<lparr>key_val_pairs = kvs @ cms, set_length = 2 * n\<rparr>
        \<lparr>channel_msg_pairs = cms, pub_length = 2 * m\<rparr> c"
    unfolding SetMPub_RedisCommand_def Let_def len using assms(6,7) rc s64 ptr
    by (simp add: nat_mult_distrib)
  show ?thesis
    using setPubStringCommon_run [OF assms(1-3), of "2 * n" "kvs @ cms" "2 * m" cms] assms(6-9)
    unfolding run by simp
qed

theorem setmpub_partitions_arguments_witness:
  "\<exists>c' r. SetMPub_RedisCommand ref_server
      [''msetmpub'', ''1'', ''1'', ''k'', ''v'', ''ch'', ''msg''] (start_ctx []) =
        Some (REDISMODULE_OK, c') \<and>
      map_of (db c') = [''k'' \<mapsto> ''v''] \<and> replies c' = [RCallReply r] \<and>
      calls c' = [(''MSET'', [''k'', ''v''], True), (''PUBLISH'', [''ch'', ''msg''], True)]"
proof -
  have one: "api_StringToLongLong ref_server ''1'' = Some (int 1)"
    by (simp add: ref_server_def c_isdigit_def Let_def digits_value_def)
  show ?thesis
    using setmpub_partitions_arguments [OF ref_mset_law ref_publish_law handles_ok_start one one,
        of "[''k'', ''v'']" "[''ch'', ''msg'']" "''msetmpub''" "[]"]
    by simp
qed

text \<open>
  The counts are not checked for overflow: with a SET count of \<open>2^62\<close> or more, doubling it
  overflows \<open>long long\<close> before it is compared with the number of arguments, so an argument vector
  of any accepted size has no defined result.
\<close>

theorem setmpub_count_overflow:
  assumes "7 \<le> length argv" "odd (length argv)"
    and "api_StringToLongLong R (argv ! 1) = Some n" "2 ^ 62 \<le> n"
    and "api_StringToLongLong R (argv ! 2) = Some m" "1 \<le> m"
  shows "SetMPub_RedisCommand R argv c = None"
proof -
  have "\<not> (length argv < 7 \<or> length argv mod 2 = 0)" using assms(1,2) by presburger
  moreover have "s64 (2 * n) = None" using assms(4) by (simp add: s64_def LLONG_MAX_def)
  ultimately show ?thesis
    using assms(3-6) by (simp add: SetMPub_RedisCommand_def read_count_def)
qed

theorem setmpub_count_overflow_witness:
  "SetMPub_RedisCommand ref_server
     [''msetmpub'', ''4611686018427387904'', ''1'', ''k'', ''v'', ''ch'', ''msg''] (start_ctx []) = None"
  by (rule setmpub_count_overflow [where n = "2 ^ 62" and m = 1])
    (simp_all add: ref_server_def c_isdigit_def Let_def digits_value_def)




text \<open>
  C10. SETNXMPUB creates and SETXXPUB replaces: on a string key or a missing one, SETNXMPUB stores
  and publishes exactly when the key is missing, SETXXPUB exactly when it is there; in the other
  case the reply is null and no command at all was issued.
\<close>

theorem setnx_setxx_store_conditions:
  assumes laws: "get_law R val" "mset_law R val" "publish_law R" and ok: "handles_ok c"
    and type: "api_KeyType R (db c) k \<in> {REDISMODULE_KEYTYPE_STRING, REDISMODULE_KEYTYPE_EMPTY}"
    and cms: "even (length cms)" "2 \<le> length cms"
  shows "(\<exists>c'. SetNXMPub_RedisCommand R ([cmd, k, new] @ cms) c = Some (REDISMODULE_OK, c') \<and>
       (if val (db c) k = None
        then val (db c') = (val (db c))(k \<mapsto> new) \<and>
          calls c' = calls c @ (''MSET'', [k, new], locked c) # publications (locked c) cms
        else db c' = db c \<and> replies c' = replies c @ [RNull] \<and> calls c' = calls c)) \<and>
     (\<exists>c'. SetXXPub_RedisCommand R [cmd, k, new, ch, msg] c = Some (REDISMODULE_OK, c') \<and>
       (if val (db c) k \<noteq> None
        then val (db c') = (val (db c))(k \<mapsto> new) \<and>
          calls c' = calls c @ [(''MSET'', [k, new], locked c), (''PUBLISH'', [ch, msg], locked c)]
        else db c' = db c \<and> replies c' = replies c @ [RNull] \<and> calls c' = calls c))"
proof -
  have none: "val (db c) k = None \<longleftrightarrow> api_KeyType R (db c) k = REDISMODULE_KEYTYPE_EMPTY"
    using type laws(1) get_law_type [OF laws(1)] unfolding get_law_def
    by (metis empty_iff insert_iff keytype_neq(1))
  have run: "setXXNXPubStringCommon R ([cmd, k, new] @ xs) flag c =
      (if (val (db c) k = None) = (flag = OBJ_OP_XX) then finish RNull c
       else setPubStringCommon R \<lparr>key_val_pairs = [k, new] @ xs, set_length = 2\<rparr>
         \<lparr>channel_msg_pairs = xs, pub_length = length xs\<rparr> c)"
    if "flag \<in> {OBJ_OP_XX, OBJ_OP_NX}" for xs flag
    using type that none
    by (auto simp: setXXNXPubStringCommon_def argv_from_def getKeyType_def)
  have "\<not> (length ([cmd, k, new] @ cms) < 5 \<or> length ([cmd, k, new] @ cms) mod 2 = 0)"
    using cms by simp presburger
  then have nx: "SetNXMPub_RedisCommand R ([cmd, k, new] @ cms) c =
      setXXNXPubStringCommon R ([cmd, k, new] @ cms) OBJ_OP_NX c"
    unfolding SetNXMPub_RedisCommand_def by (rule if_not_P)
  have xx: "SetXXPub_RedisCommand R [cmd, k, new, ch, msg] c =
      setXXNXPubStringCommon R ([cmd, k, new] @ [ch, msg]) OBJ_OP_XX c"
    by (simp add: SetXXPub_RedisCommand_def)
  note sets = setPubStringCommon_run [OF laws(2,3) ok, of 2 "[k, new] @ cms" "length cms" cms]
    setPubStringCommon_run [OF laws(2,3) ok, of 2 "[k, new] @ [ch, msg]" "length [ch, msg]" "[ch, msg]"]
  show ?thesis unfolding nx xx using sets cms
    by (auto simp: run finish_def simp del: append.simps)
qed

theorem setnx_setxx_store_conditions_witness:
  "\<exists>c'. SetNXMPub_RedisCommand ref_server [''setnxmpub'', ''k'', ''v'', ''ch'', ''m'']
      (start_ctx []) = Some (REDISMODULE_OK, c') \<and>
    calls c' = [(''MSET'', [''k'', ''v''], True), (''PUBLISH'', [''ch'', ''m''], True)]"
  using setnx_setxx_store_conditions [OF ref_get_law ref_mset_law ref_publish_law handles_ok_start,
      of "[]" "''k''" "[''ch'', ''m'']" "''setnxmpub''" "''v''"]
  by auto

text \<open>
  The common tail of the DEL...PUB commands: UNLINK, its count to the client, and the
  publications only when the count is not zero.
\<close>

lemma delPubStringCommon_run:
  assumes laws: "unlink_law R val" "publish_law R" and ok: "handles_ok c"
    and ks: "0 < n" "n \<le> length ks" and cms: "even m" "m \<le> length cms"
  shows "\<exists>c' r. delPubStringCommon R \<lparr>del_keys = ks, del_length = n\<rparr>
        \<lparr>channel_msg_pairs = cms, pub_length = m\<rparr> c = Some (REDISMODULE_OK, c') \<and>
      val (db c') = val (db c) |` (- set (take n ks)) \<and>
      replies c' = replies c @ [RCallReply r] \<and> api_CallReplyInteger R r =
        int (card {k \<in> set (take n ks). api_KeyType R (db c) k \<noteq> REDISMODULE_KEYTYPE_EMPTY}) \<and>
      calls c' = calls c @ (''UNLINK'', take n ks, locked c) #
        (if api_CallReplyInteger R r = 0 then [] else publications (locked c) (take m cms))"
proof -
  have "take n ks \<noteq> []" using ks by auto
  then obtain r d' where u: "redis_call R ''UNLINK'' (take n ks) c =
      (Some \<lparr>hid = nreplies c, hval = r\<rparr>, called ''UNLINK'' (take n ks) d' c)"
    "api_CallReplyType R r = REDISMODULE_REPLY_INTEGER" "api_CallReplyInteger R r =
        int (card {k \<in> set (take n ks). api_KeyType R (db c) k \<noteq> REDISMODULE_KEYTYPE_EMPTY})"
    "val d' = val (db c) |` (- set (take n ks))"
    using unlink_step [OF laws(1), of "take n ks" c] by blast
  have codes: "REDISMODULE_REPLY_INTEGER \<noteq> REDISMODULE_REPLY_ERROR"
    "REDISMODULE_REPLY_INTEGER \<noteq> REDISMODULE_REPLY_NULL" by (simp_all add: redis_codes)
  let ?c1 = "reply_with (RCallReply r) (called ''UNLINK'' (take n ks) d' c)"
  have "handles_ok ?c1" using ok by simp
  from multiPubCommand_run [OF laws(2) this cms] obtain c2 where m:
    "multiPubCommand R \<lparr>channel_msg_pairs = cms, pub_length = m\<rparr> ?c1 = Some c2"
    "db c2 = db ?c1" "replies c2 = replies ?c1"
    "calls c2 = calls ?c1 @ publications (locked ?c1) (take m cms)"
    "\<And>j. j < nreplies ?c1 \<Longrightarrow> j \<in> set (freed c2) \<longleftrightarrow> j \<in> set (freed ?c1)"
    by blast
  have nf: "nreplies c \<notin> set (freed c2)" "nreplies c \<notin> set (freed c)"
    using m(5) [of "nreplies c"] ok by (simp_all add: handles_ok_fresh)
  show ?thesis
  proof (cases "api_CallReplyInteger R r = 0")
    case True
    with u(1,2,4) codes nf(2) ks(2) show ?thesis
      by (simp add: delPubStringCommon_def assert_noerror_ok redis_steps u(3) [symmetric])
  next
    case False
    with u(1,2,4) codes nf ks(2) m(1-4) show ?thesis
      by (simp add: delPubStringCommon_def assert_noerror_ok redis_steps u(3) [symmetric])
  qed
qed

text \<open>
  C11. DELMPUB removes exactly the keys its count covers and publishes the pairs after them, in
  order, exactly when at least one of the keys existed; the reply is the number that did.
\<close>

theorem delmpub_publishes_iff_deleted:
  assumes "unlink_law R val" "publish_law R" and "handles_ok c"
    and "api_StringToLongLong R s = Some (int n)" "api_StringToLongLong R p = Some (int m)"
    and "1 \<le> n" "1 \<le> m" and "length ks = n" "length cms = 2 * m" and "n + m < 2 ^ 60"
  shows "\<exists>c' r. DelMPub_RedisCommand R ([cmd, s, p] @ ks @ cms) c = Some (REDISMODULE_OK, c') \<and>
      val (db c') = val (db c) |` (- set ks) \<and> replies c' = replies c @ [RCallReply r] \<and>
      api_CallReplyInteger R r =
        int (card {k \<in> set ks. api_KeyType R (db c) k \<noteq> REDISMODULE_KEYTYPE_EMPTY}) \<and>
      calls c' = calls c @ (''UNLINK'', ks, locked c) #
        (if \<exists>k \<in> set ks. api_KeyType R (db c) k \<noteq> REDISMODULE_KEYTYPE_EMPTY
         then publications (locked c) cms else [])"
proof -
  let ?argv = "[cmd, s, p] @ ks @ cms"
  have len: "length ?argv = 3 + n + 2 * m" using assms(8,9) by simp
  have rc: "read_count R v s = int n" "read_count R v p = int m" for v
    using assms(4,5) by (simp_all add: read_count_def)
  have s64: "s64 (2 * int m) = Some (2 * int m)"
    "s64 (int n + 2 * int m) = Some (int n + 2 * int m)"
    "s64 (int n + 2 * int m + 3) = Some (int n + 2 * int m + 3)"
    using assms(10) by (simp_all add: s64_def LLONG_MIN_def LLONG_MAX_def)
  have ptr: "argv_from ?argv 3 = Some (ks @ cms)" "argv_from ?argv (3 + n) = Some cms"
    using assms(8,9) by (simp_all add: argv_from_def numeral_3_eq_3)
  have run: "DelMPub_RedisCommand R ?argv c =
      delPubStringCommon R \<lparr>del_keys = ks @ cms, del_length = n\<rparr>
        \<lparr>channel_msg_pairs = cms, pub_length = 2 * m\<rparr> c"
    unfolding DelMPub_RedisCommand_def Let_def len using assms(6,7) rc s64 ptr
    by (simp add: nat_mult_distrib)
  have fin: "card {k \<in> set ks. api_KeyType R (db c) k \<noteq> REDISMODULE_KEYTYPE_EMPTY} = 0 \<longleftrightarrow>
      \<not> (\<exists>k \<in> set ks. api_KeyType R (db c) k \<noteq> REDISMODULE_KEYTYPE_EMPTY)"
    by (auto simp: card_eq_0_iff)
  show ?thesis
    using delPubStringCommon_run [OF assms(1-3), of n "ks @ cms" "2 * m" cms] assms(6-9) fin
    unfolding run by auto
qed

theorem delmpub_publishes_iff_deleted_witness:
  "\<exists>c' r. DelMPub_RedisCommand ref_server
      [''delmpub'', ''1'', ''1'', ''k'', ''ch'', ''msg''] (start_ctx []) = Some (REDISMODULE_OK, c') \<and>
      replies c' = [RCallReply r] \<and> calls c' = [(''UNLINK'', [''k''], True)]"
proof -
  have one: "api_StringToLongLong ref_server ''1'' = Some (int 1)"
    by (simp add: ref_server_def c_isdigit_def Let_def digits_value_def)
  show ?thesis
    using delmpub_publishes_iff_deleted [OF ref_unlink_law ref_publish_law handles_ok_start one one,
        of "[''k'']" "[''ch'', ''msg'']" "''delmpub''" "[]"]
    by auto
qed

end
