(* ===== verification/Exstrings_Scan_Properties.thy ===== *)
theory Exstrings_Scan_Properties
  imports Exstrings_Properties
begin

text \<open>
  What NGET and NDEL guarantee under the documented behaviour of SCAN, MGET and UNLINK: the answer
  of the atomic commands and of the background thread, with the lock and the commands issued under
  it; what NGET does when it runs out of memory; and what an error reply of the server does to both.
\<close>

section \<open>Error replies\<close>

lemma forwardIfError_Some:
  "hid h \<notin> set (freed c) \<Longrightarrow> forwardIfError R (Some h) st c = Some (EXSTRINGS_STATUS_NO_ERRORS,
     if api_CallReplyType R (hval h) = REDISMODULE_REPLY_ERROR
     then release (hid h) (reply_with (RCallReply (hval h)) c) else c)"
  by (simp add: forwardIfError_def redis_steps)

lemma scanSome_error:
  assumes "handles_ok c" and "match_str c = Some m" "count_str c = Some n"
    and "api_Call R ''SCAN'' [api_StringFromLongLong R (scan_cursor st), m, scan_key st, n,
           scan_count st] (db c) = (Some r, d)"
    and "api_CallReplyType R r = REDISMODULE_REPLY_ERROR"
  shows "scanSome R st status c = None"
  using assms
  by (simp add: scanSome_def redis_call_Some forwardIfError_Some handles_ok_not_freed deref_freed)

lemma init_static_frame [simp]:
  "db (InitStaticVariable R c) = db c" "replies (InitStaticVariable R c) = replies c"
  "calls (InitStaticVariable R c) = calls c" "locked (InitStaticVariable R c) = locked c"
  "handles_ok (InitStaticVariable R c) = handles_ok c"
  by (simp_all add: InitStaticVariable_def Let_def handles_ok_def)

lemma init_static_strings:
  obtains k m n where "def_count_str (InitStaticVariable R c) = Some k"
    "match_str (InitStaticVariable R c) = Some m" "count_str (InitStaticVariable R c) = Some n"
proof -
  have "def_count_str (InitStaticVariable R c) \<noteq> None" "match_str (InitStaticVariable R c) \<noteq> None"
    "count_str (InitStaticVariable R c) \<noteq> None"
    by (simp_all add: InitStaticVariable_def Let_def)
  then show thesis using that by blast
qed

text \<open>An error reply of SCAN: sent, released, and reported as no error.\<close>

definition scan_error_swallowed ::
  "('db, 'r) redis_api \<Rightarrow> scan_state \<Rightarrow> exstrings_status \<Rightarrow> ('db, 'r) rctx \<Rightarrow> bool" where
  "scan_error_swallowed R st status c \<longleftrightarrow>
     (\<exists>m n h c1 c2. match_str c = Some m \<and> count_str c = Some n \<and>
        redis_call R ''SCAN'' [api_StringFromLongLong R (scan_cursor st), m, scan_key st, n,
          scan_count st] c = (Some h, c1) \<and>
        forwardIfError R (Some h) status c1 = Some (EXSTRINGS_STATUS_NO_ERRORS, c2) \<and>
        replies c2 = replies c @ [RCallReply (hval h)] \<and> deref c2 h = None)"

lemma scan_error_swallowed_run:
  assumes "handles_ok c" and "match_str c = Some m" "count_str c = Some n"
    and "api_Call R ''SCAN'' [api_StringFromLongLong R (scan_cursor st), m, scan_key st, n,
           scan_count st] (db c) = (Some r, d)"
    and "api_CallReplyType R r = REDISMODULE_REPLY_ERROR"
  shows "scan_error_swallowed R st status c"
  using assms
  by (simp add: scan_error_swallowed_def redis_call_Some forwardIfError_Some handles_ok_not_freed
      deref_freed)

text \<open>
  C12. Error replies are not handled. When the server answers SCAN with an error, whatever the
  arguments, then at the first scan step of NGET and NDEL: \<open>forwardIfError\<close> sends the error to
  the client, frees the reply and reports success all the same; \<open>scanSome\<close>, which has the strings
  it needs and no fuel to run out of, goes on to read the freed reply and so has no result; and
  with it \<open>NGET.ATOMIC pattern\<close> and \<open>NDEL.ATOMIC pattern\<close> have none, whatever the fuel.
\<close>
theorem nget_ndel_scan_error_use_after_free:
  assumes "handles_ok c"
    and "\<forall>args. \<exists>r d. api_Call R ''SCAN'' args (db c) = (Some r, d) \<and>
           api_CallReplyType R r = REDISMODULE_REPLY_ERROR"
  shows "scan_error_swallowed R st status (InitStaticVariable R c) \<and>
         scanSome R st status (InitStaticVariable R c) = None \<and>
         NGet_Atomic_RedisCommand R fuel [cmd, pattern] c = None \<and>
         NDel_Atomic_RedisCommand R fuel [cmd, pattern] c = None"
proof -
  obtain k m n where strs: "def_count_str (InitStaticVariable R c) = Some k"
    "match_str (InitStaticVariable R c) = Some m" "count_str (InitStaticVariable R c) = Some n"
    by (rule init_static_strings)
  have err: "scanSome R st status c' = None \<and> scan_error_swallowed R st status c'"
    if h: "handles_ok c'" "match_str c' = Some m" "count_str c' = Some n" "db c' = db c"
    for st status c'
  proof -
    from assms(2) obtain r d where "api_Call R ''SCAN'' [api_StringFromLongLong R (scan_cursor st), m,
        scan_key st, n, scan_count st] (db c') = (Some r, d)"
      "api_CallReplyType R r = REDISMODULE_REPLY_ERROR" unfolding h(4) by blast
    with h show ?thesis by (blast intro: scanSome_error scan_error_swallowed_run)
  qed
  show ?thesis
    using assms(1) strs by (cases fuel)
      (simp_all add: NGet_Atomic_RedisCommand_def readNgetArgs_def Nget_RedisCommand_def
        NDel_Atomic_RedisCommand_def lockThreadsafeContext_def err)
qed

theorem nget_ndel_scan_error_use_after_free_witness:
  "NGet_Atomic_RedisCommand (ref_server\<lparr>api_Call := (\<lambda>cmd args d. (Some (Err ''LOADING''), d))\<rparr>) 5
     [''nget.atomic'', ''*''] (start_ctx []) = None \<and>
   NDel_Atomic_RedisCommand (ref_server\<lparr>api_Call := (\<lambda>cmd args d. (Some (Err ''LOADING''), d))\<rparr>) 5
     [''ndel.atomic'', ''*''] (start_ctx []) = None \<and>
   scan_error_swallowed (ref_server\<lparr>api_Call := (\<lambda>cmd args d. (Some (Err ''LOADING''), d))\<rparr>)
     \<lparr>scan_key = ''*'', scan_count = ''50'', scan_cursor = 0\<rparr> EXSTRINGS_STATUS_NOT_SET
     (InitStaticVariable (ref_server\<lparr>api_Call := (\<lambda>cmd args d. (Some (Err ''LOADING''), d))\<rparr>)
       (start_ctx []))"
  using nget_ndel_scan_error_use_after_free [where R =
      "ref_server\<lparr>api_Call := (\<lambda>cmd args d. (Some (Err ''LOADING''), d))\<rparr>" and
      c = "start_ctx []" and fuel = 5 and pattern = "''*''" and
      st = "\<lparr>scan_key = ''*'', scan_count = ''50'', scan_cursor = 0\<rparr>" and
      status = EXSTRINGS_STATUS_NOT_SET]
  by (simp add: ref_server_def)

section \<open>The answer of NGET\<close>

text \<open>
  The documented behaviour of SCAN on a key space nobody else changes: from cursor \<open>cur\<close> the
  server serves the given pages, each a list of keys with the next cursor, the last page (and no
  other) with cursor 0.
\<close>

definition scan_page ::
  "('db, 'r) redis_api \<Rightarrow> string \<Rightarrow> string \<Rightarrow> scan_state \<Rightarrow> 'db \<Rightarrow> int \<Rightarrow> string list \<Rightarrow> int \<Rightarrow> bool"
where
  "scan_page R m n st d cur keys next \<longleftrightarrow>
     (\<exists>r e0 e1.
        api_Call R ''SCAN'' [api_StringFromLongLong R cur, m, scan_key st, n, scan_count st] d = (Some r, d) \<and>
        api_CallReplyType R r \<noteq> REDISMODULE_REPLY_ERROR \<and>
        api_CallReplyArrayElement R r 0 = Some e0 \<and> callReplyLongLong R e0 = Some next \<and>
        api_CallReplyArrayElement R r 1 = Some e1 \<and> api_CallReplyLength R e1 = length keys \<and>
        (\<forall>i < length keys. \<exists>e. api_CallReplyArrayElement R e1 i = Some e \<and>
           api_CreateStringFromCallReply R e = Some (keys ! i)))"

fun scan_pages ::
  "('db, 'r) redis_api \<Rightarrow> string \<Rightarrow> string \<Rightarrow> scan_state \<Rightarrow> 'db \<Rightarrow> int \<Rightarrow> (string list \<times> int) list \<Rightarrow> bool"
where
  "scan_pages R m n st d cur [] \<longleftrightarrow> False"
| "scan_pages R m n st d cur ((keys, next) # ps) \<longleftrightarrow> scan_page R m n st d cur keys next \<and>
     (if ps = [] then next = 0 else next \<noteq> 0 \<and> scan_pages R m n st d next ps)"

definition mget_law :: "('db, 'r) redis_api \<Rightarrow> ('db \<Rightarrow> string \<rightharpoonup> string) \<Rightarrow> bool" where
  "mget_law R val \<longleftrightarrow>
     (\<forall>d ks. ks \<noteq> [] \<longrightarrow>
        (\<exists>r. api_Call R ''MGET'' ks d = (Some r, d) \<and>
           api_CallReplyType R r \<noteq> REDISMODULE_REPLY_ERROR \<and>
           (\<forall>i < length ks. \<exists>e. api_CallReplyArrayElement R r i = Some e \<and>
              api_CreateStringFromCallReply R e = val d (ks ! i))))"

lemma read_keys_run:
  assumes "\<forall>i < length keys. \<exists>e. api_CallReplyArrayElement R r (j + i) = Some e \<and>
     api_CreateStringFromCallReply R e = Some (keys ! i)"
  shows "read_keys R r j (length keys) = Some (map Some keys)"
  using assms
proof (induction keys arbitrary: j)
  case Nil
  then show ?case by simp
next
  case (Cons k keys)
  from Cons.prems obtain e where e: "api_CallReplyArrayElement R r j = Some e"
    "api_CreateStringFromCallReply R e = Some k" by fastforce
  from Cons.prems have "\<forall>i < length keys. \<exists>e. api_CallReplyArrayElement R r (Suc j + i) = Some e \<and>
     api_CreateStringFromCallReply R e = Some (keys ! i)" by fastforce
  from Cons.IH [OF this] e show ?case by simp
qed

lemma those_map_Some [simp]: "those (map Some xs) = Some xs"
  by (induction xs) simp_all

text \<open>One page of a scan, as \<open>scanSome\<close> sees it: the state it leaves, when it has the memory.\<close>

definition after_scan ::
  "('db, 'r) redis_api \<Rightarrow> string \<Rightarrow> string \<Rightarrow> scan_state \<Rightarrow> string list \<Rightarrow> ('db, 'r) rctx \<Rightarrow> ('db, 'r) rctx"
where
  "after_scan R m n st keys c = release (nreplies c)
     ((called ''SCAN'' [api_StringFromLongLong R (scan_cursor st), m, scan_key st, n, scan_count st]
        (db c) c)\<lparr>nallocs := nallocs c + (if keys = [] then 0 else 2)\<rparr>)"

lemma after_scan_fields [simp]:
  "db (after_scan R m n st keys c) = db c" "locked (after_scan R m n st keys c) = locked c"
  "replies (after_scan R m n st keys c) = replies c" "events (after_scan R m n st keys c) = events c"
  "nlocks (after_scan R m n st keys c) = nlocks c"
  "nallocs (after_scan R m n st keys c) = nallocs c + (if keys = [] then 0 else 2)"
  "match_str (after_scan R m n st keys c) = match_str c"
  "count_str (after_scan R m n st keys c) = count_str c"
  "calls (after_scan R m n st keys c) = calls c @ [(''SCAN'',
     [api_StringFromLongLong R (scan_cursor st), m, scan_key st, n, scan_count st], locked c)]"
  by (simp_all add: after_scan_def)

lemma after_scan_ok: "handles_ok c \<Longrightarrow> handles_ok (after_scan R m n st keys c)"
  by (auto simp: after_scan_def handles_ok_def)

lemma scan_page_call:
  assumes "scan_page R m n st (db c) (scan_cursor st) keys next"
  obtains r e0 e1 where "redis_call R ''SCAN'' [api_StringFromLongLong R (scan_cursor st), m,
      scan_key st, n, scan_count st] c = (Some \<lparr>hid = nreplies c, hval = r\<rparr>, called ''SCAN''
      [api_StringFromLongLong R (scan_cursor st), m, scan_key st, n, scan_count st] (db c) c)"
    "api_CallReplyType R r \<noteq> REDISMODULE_REPLY_ERROR"
    "api_CallReplyArrayElement R r 0 = Some e0" "callReplyLongLong R e0 = Some next"
    "api_CallReplyArrayElement R r 1 = Some e1" "api_CallReplyLength R e1 = length keys"
    "read_keys R e1 0 (length keys) = Some (map Some keys)"
proof -
  from assms obtain r e0 e1 where
    "api_Call R ''SCAN'' [api_StringFromLongLong R (scan_cursor st), m, scan_key st, n,
        scan_count st] (db c) = (Some r, db c)"
    "api_CallReplyType R r \<noteq> REDISMODULE_REPLY_ERROR"
    "api_CallReplyArrayElement R r 0 = Some e0" "callReplyLongLong R e0 = Some next"
    "api_CallReplyArrayElement R r 1 = Some e1" "api_CallReplyLength R e1 = length keys"
    "\<forall>i < length keys. \<exists>e. api_CallReplyArrayElement R e1 i = Some e \<and>
       api_CreateStringFromCallReply R e = Some (keys ! i)"
    unfolding scan_page_def by blast
  then show thesis
    using read_keys_run [of keys R e1 0] by (intro that [of r e0 e1]) (simp_all add: redis_call_Some)
qed

lemma scanSome_page:
  assumes ready: "handles_ok c" "match_str c = Some m" "count_str c = Some n"
    and page: "scan_page R m n st (db c) (scan_cursor st) keys next"
    and allocs: "keys \<noteq> [] \<Longrightarrow> api_AllocOk R (nallocs c) \<and> api_AllocOk R (Suc (nallocs c))"
  shows "scanSome R st status c = Some (if keys = [] then None else Some (map Some keys),
      st\<lparr>scan_cursor := next\<rparr>, EXSTRINGS_STATUS_NO_ERRORS, after_scan R m n st keys c)"
proof -
  from page show ?thesis
    by (rule scan_page_call) (use ready allocs in \<open>simp add: scanSome_def forwardIfError_Some
      redis_steps allocScannedKeys_def redis_alloc_def Let_def after_scan_def\<close>)
qed

lemma scanSome_out_of_memory:
  assumes ready: "handles_ok c" "match_str c = Some m" "count_str c = Some n"
    and page: "scan_page R m n st (db c) (scan_cursor st) keys next"
    and memory: "keys \<noteq> []" "\<not> api_AllocOk R (nallocs c)"
  shows "\<exists>c'. scanSome R st status c = Some (None, st\<lparr>scan_cursor := next\<rparr>,
      EXSTRINGS_STATUS_ERROR_AND_REPLY_SENT, c') \<and> locked c' = locked c \<and> db c' = db c \<and>
    replies c' = replies c @ [RError ''-ERR Out of memory'']"
proof -
  from page show ?thesis
    by (rule scan_page_call) (use ready memory in \<open>simp add: scanSome_def forwardIfError_Some
      redis_steps allocScannedKeys_def redis_alloc_def Let_def\<close>)
qed

definition scan_ready :: "('db, 'r) redis_api \<Rightarrow> string \<Rightarrow> string \<Rightarrow> ('db, 'r) rctx \<Rightarrow> bool" where
  "scan_ready R m n c \<longleftrightarrow> handles_ok c \<and> match_str c = Some m \<and> count_str c = Some n \<and>
     (\<forall>i. api_AllocOk R i)"

lemma scanSome_run:
  assumes ready: "scan_ready R m n c"
    and page: "scan_page R m n st (db c) (scan_cursor st) keys next"
  shows "\<exists>c'. scanSome R st status c = Some (if keys = [] then None else Some (map Some keys),
      st\<lparr>scan_cursor := next\<rparr>, EXSTRINGS_STATUS_NO_ERRORS, c') \<and>
    scan_ready R m n c' \<and> db c' = db c \<and> replies c' = replies c"
  using assms by (auto simp: scan_ready_def scanSome_page after_scan_ok)

lemma scan_page_cursor [simp]:
  "scan_page R m n (st\<lparr>scan_cursor := x\<rparr>) = scan_page R m n st"
  by (simp add: scan_page_def fun_eq_iff)

text \<open>A key with its value, when it has a string value.\<close>

definition key_value :: "(string \<rightharpoonup> string) \<Rightarrow> string \<Rightarrow> string list" where
  "key_value m k = (case m k of None \<Rightarrow> [] | Some v \<Rightarrow> [k, v])"

lemma key_value_cases [simp]:
  "m k = None \<Longrightarrow> key_value m k = []" "m k = Some v \<Longrightarrow> key_value m k = [k, v]"
  by (simp_all add: key_value_def)

lemma nget_emit_run:
  assumes "reply = Some h" and "hid h \<notin> set (freed c)"
    and "\<forall>i < length ks. \<exists>e. api_CallReplyArrayElement R (hval h) (j + i) = Some e \<and>
       api_CreateStringFromCallReply R e = m (ks ! i)"
  shows "\<exists>c'. nget_emit R reply ks j n c =
      Some (n + length (concat (map (key_value m) ks)), c') \<and>
    replies c' = replies c @ map RString (concat (map (key_value m) ks)) \<and> c' = c\<lparr>replies := replies c'\<rparr>"
  using assms
proof (induction ks arbitrary: j n c)
  case Nil
  then show ?case by simp
next
  case (Cons k ks)
  from Cons.prems(3) obtain e where e: "api_CallReplyArrayElement R (hval h) j = Some e"
    "api_CreateStringFromCallReply R e = m k" by fastforce
  let ?c = "case m k of None \<Rightarrow> c | Some v \<Rightarrow> reply_with (RString v) (reply_with (RString k) c)"
  have step: "nget_emit R reply (k # ks) j n c =
      nget_emit R reply ks (Suc j) (n + length (key_value m k)) ?c"
    using e Cons.prems(1,2) by (auto simp: deref_Some key_value_def split: option.splits)
  have "hid h \<notin> set (freed ?c)" using Cons.prems(2) by (simp split: option.splits)
  moreover have "\<forall>i < length ks. \<exists>e. api_CallReplyArrayElement R (hval h) (Suc j + i) = Some e \<and>
       api_CreateStringFromCallReply R e = m (ks ! i)" using Cons.prems(3) by fastforce
  ultimately have "\<exists>c'. nget_emit R reply ks (Suc j) (n + length (key_value m k)) ?c =
      Some (n + length (key_value m k) + length (concat (map (key_value m) ks)), c') \<and>
    replies c' = replies ?c @ map RString (concat (map (key_value m) ks)) \<and> c' = ?c\<lparr>replies := replies c'\<rparr>"
    by (rule Cons.IH [OF Cons.prems(1)])
  then show ?case unfolding step
    by (cases "m k") (auto simp: reply_with_def)
qed

lemma mget_step:
  assumes "mget_law R val" and "ks \<noteq> []"
  obtains r where "redis_call R ''MGET'' ks c =
      (Some \<lparr>hid = nreplies c, hval = r\<rparr>, called ''MGET'' ks (db c) c)"
    and "api_CallReplyType R r \<noteq> REDISMODULE_REPLY_ERROR"
    and "\<forall>i < length ks. \<exists>e. api_CallReplyArrayElement R r i = Some e \<and>
       api_CreateStringFromCallReply R e = val (db c) (ks ! i)"
proof -
  from assms obtain r where "api_Call R ''MGET'' ks (db c) = (Some r, db c)"
    "api_CallReplyType R r \<noteq> REDISMODULE_REPLY_ERROR"
    "\<forall>i < length ks. \<exists>e. api_CallReplyArrayElement R r i = Some e \<and>
       api_CreateStringFromCallReply R e = val (db c) (ks ! i)"
    unfolding mget_law_def by blast
  then show thesis by (intro that [of r]) (auto intro: redis_call_Some)
qed

section \<open>Rounds of the scan\<close>

text \<open>
  A round of NGET sees one state of the database: the thread takes the lock for it, and other
  clients may have run before (\<open>api_Interfere\<close>); the atomic command holds the lock throughout. A
  round is that state, the cursor it scans from, the keys of its page and the next cursor.
\<close>

type_synonym 'db scan_round = "'db \<times> int \<times> string list \<times> int"

definition seen :: "('db, 'r) redis_api \<Rightarrow> bool \<Rightarrow> nat \<Rightarrow> 'db \<Rightarrow> 'db" where
  "seen R tsc j d = (if tsc then api_Interfere R j d else d)"

text \<open>
  The documented behaviour of SCAN while other clients change the key space: each round gets some
  page of the database it sees, and only the last page may have cursor 0.
\<close>

fun served ::
  "('db, 'r) redis_api \<Rightarrow> bool \<Rightarrow> string \<Rightarrow> string \<Rightarrow> scan_state \<Rightarrow> nat \<Rightarrow> 'db \<Rightarrow> int
     \<Rightarrow> 'db scan_round list \<Rightarrow> bool"
where
  "served R tsc m n st j d cur [] \<longleftrightarrow> True"
| "served R tsc m n st j d cur ((d', cur', keys, next) # rs) \<longleftrightarrow>
     d' = seen R tsc j d \<and> cur' = cur \<and> scan_page R m n st d' cur keys next \<and>
     (rs \<noteq> [] \<longrightarrow> next \<noteq> 0) \<and> served R tsc m n st (Suc j) d' next rs"

fun round_answer :: "('db \<Rightarrow> string \<rightharpoonup> string) \<Rightarrow> 'db scan_round \<Rightarrow> string list" where
  "round_answer val (d, cur, keys, next) = concat (map (key_value (val d)) keys)"

fun round_calls ::
  "('db, 'r) redis_api \<Rightarrow> string \<Rightarrow> string \<Rightarrow> scan_state \<Rightarrow> bool \<Rightarrow> 'db scan_round
     \<Rightarrow> (string \<times> string list \<times> bool) list" where
  "round_calls R m n st held (d, cur, keys, next) =
     (''SCAN'', [api_StringFromLongLong R cur, m, scan_key st, n, scan_count st], held) #
     (if keys = [] then [] else [(''MGET'', keys, held)])"

fun round_allocs :: "'db scan_round \<Rightarrow> nat" where
  "round_allocs (d, cur, keys, next) = (if keys = [] then 0 else 2)"

text \<open>What some rounds of the loop have done to the module's state.\<close>

definition rounds_done ::
  "('db, 'r) redis_api \<Rightarrow> ('db \<Rightarrow> string \<rightharpoonup> string) \<Rightarrow> bool \<Rightarrow> string \<Rightarrow> string \<Rightarrow> scan_state
     \<Rightarrow> 'db scan_round list \<Rightarrow> ('db, 'r) rctx \<Rightarrow> ('db, 'r) rctx \<Rightarrow> bool" where
  "rounds_done R val tsc m n st rs c c' \<longleftrightarrow>
     handles_ok c' \<and> match_str c' = Some m \<and> count_str c' = Some n \<and>
     locked c' = locked c \<and> events c' = events c \<and>
     nlocks c' = nlocks c + (if tsc then length rs else 0) \<and>
     nallocs c' = nallocs c + sum_list (map round_allocs rs) \<and>
     db c' = last (db c # map fst rs) \<and>
     calls c' = calls c @ concat (map (round_calls R m n st (tsc \<or> locked c)) rs) \<and>
     replies c' = replies c @ map RString (concat (map (round_answer val) rs))"

lemma rounds_done_trans:
  assumes "rounds_done R val tsc m n st rs c c1" and "rounds_done R val tsc m n st rs' c1 c2"
  shows "rounds_done R val tsc m n st (rs @ rs') c c2"
  using assms by (cases "rs' = []") (simp_all add: rounds_done_def)

lemma rounds_done_cursor [simp]:
  "rounds_done R val tsc m n (st\<lparr>scan_cursor := x\<rparr>) = rounds_done R val tsc m n st"
proof -
  have "round_calls R m n (st\<lparr>scan_cursor := x\<rparr>) = round_calls R m n st"
    by (simp add: fun_eq_iff)
  then show ?thesis by (intro ext) (simp only: rounds_done_def)
qed

lemma served_cursor [simp]:
  "served R tsc m n (st\<lparr>scan_cursor := x\<rparr>) j d cur rs = served R tsc m n st j d cur rs"
  by (induction rs arbitrary: j d cur) auto

lemma served_index:
  "served R False m n st j d cur rs \<Longrightarrow> served R False m n st j' d cur rs"
proof (induction rs arbitrary: j j' d cur)
  case (Cons r rs)
  then show ?case by (cases r) (auto simp: seen_def)
qed simp

definition lock_taken :: "('db, 'r) redis_api \<Rightarrow> bool \<Rightarrow> ('db, 'r) rctx \<Rightarrow> ('db, 'r) rctx" where
  "lock_taken R tsc c =
     (if tsc then c\<lparr>db := seen R True (nlocks c) (db c), locked := True, nlocks := Suc (nlocks c)\<rparr>
      else c)"

lemma lock_taken_fields [simp]:
  "db (lock_taken R tsc c) = seen R tsc (nlocks c) (db c)"
  "locked (lock_taken R tsc c) = (tsc \<or> locked c)" "replies (lock_taken R tsc c) = replies c"
  "calls (lock_taken R tsc c) = calls c" "freed (lock_taken R tsc c) = freed c"
  "nreplies (lock_taken R tsc c) = nreplies c" "events (lock_taken R tsc c) = events c"
  "nallocs (lock_taken R tsc c) = nallocs c" "match_str (lock_taken R tsc c) = match_str c"
  "count_str (lock_taken R tsc c) = count_str c"
  "nlocks (lock_taken R tsc c) = nlocks c + (if tsc then 1 else 0)"
  "handles_ok (lock_taken R tsc c) = handles_ok c"
  by (simp_all add: lock_taken_def seen_def handles_ok_def)

lemma lock_step:
  "(tsc \<Longrightarrow> \<not> locked c) \<Longrightarrow> lockThreadsafeContext R tsc c = Some (lock_taken R tsc c)"
  by (simp add: lockThreadsafeContext_def ThreadSafeContextLock_def lock_taken_def seen_def)

lemma unlock_step:
  "(tsc \<Longrightarrow> locked c) \<Longrightarrow>
   unlockThreadsafeContext tsc c = Some (c\<lparr>locked := (\<not> tsc \<and> locked c)\<rparr>)"
  by (simp add: unlockThreadsafeContext_def ThreadSafeContextUnlock_def)

lemma nget_round_run:
  assumes mget: "mget_law R val"
    and ready: "handles_ok c" "match_str c = Some m" "count_str c = Some n"
    and lock: "tsc \<Longrightarrow> \<not> locked c"
    and page: "scan_page R m n st (seen R tsc (nlocks c) (db c)) (scan_cursor st) keys nxt"
    and allocs: "keys \<noteq> [] \<Longrightarrow> api_AllocOk R (nallocs c) \<and> api_AllocOk R (Suc (nallocs c))"
  defines "r \<equiv> (seen R tsc (nlocks c) (db c), scan_cursor st, keys, nxt)"
  shows "\<exists>c'. nget_loop R tsc (Suc fuel) st k c =
      (if nxt \<noteq> 0
       then nget_loop R tsc fuel (st\<lparr>scan_cursor := nxt\<rparr>) (k + length (round_answer val r)) c'
       else Some (REDISMODULE_OK, k + length (round_answer val r), c')) \<and>
    rounds_done R val tsc m n st [r] c c'"
proof -
  let ?c1 = "lock_taken R tsc c"
  let ?c2 = "after_scan R m n st keys ?c1"
  have scan: "scanSome R st EXSTRINGS_STATUS_NOT_SET ?c1 = Some (if keys = [] then None else
      Some (map Some keys), st\<lparr>scan_cursor := nxt\<rparr>, EXSTRINGS_STATUS_NO_ERRORS, ?c2)"
    using ready page allocs by (intro scanSome_page) simp_all
  have ok2: "handles_ok ?c2" using ready(1) by (simp add: after_scan_ok)
  show ?thesis
  proof (cases "keys = []")
    case True
    let ?c3 = "?c2\<lparr>locked := (\<not> tsc \<and> locked ?c2)\<rparr>"
    have "nget_loop R tsc (Suc fuel) st k c = (if nxt \<noteq> 0
        then nget_loop R tsc fuel (st\<lparr>scan_cursor := nxt\<rparr>) k ?c3 else Some (REDISMODULE_OK, k, ?c3))"
      using True scan lock by (simp add: lock_step unlock_step)
    moreover have "rounds_done R val tsc m n st [r] c ?c3"
      using True ready lock ok2 by (auto simp: rounds_done_def r_def handles_ok_def)
    ultimately show ?thesis using True by (intro exI [of _ ?c3]) (simp add: r_def)
  next
    case False
    let ?d = "seen R tsc (nlocks c) (db c)"
    from mget_step [OF mget False, of ?c2] obtain x where
      call: "redis_call R ''MGET'' keys ?c2 =
        (Some \<lparr>hid = nreplies ?c2, hval = x\<rparr>, called ''MGET'' keys (db ?c2) ?c2)"
      and x: "api_CallReplyType R x \<noteq> REDISMODULE_REPLY_ERROR"
        "\<forall>i < length keys. \<exists>e. api_CallReplyArrayElement R x i = Some e \<and>
           api_CreateStringFromCallReply R e = val ?d (keys ! i)" by auto
    let ?h = "\<lparr>hid = nreplies ?c2, hval = x\<rparr>" and ?c3 = "called ''MGET'' keys (db ?c2) ?c2"
    let ?c4 = "?c3\<lparr>locked := (\<not> tsc \<and> locked ?c3)\<rparr>"
    have fresh: "hid ?h \<notin> set (freed ?c4)" using handles_ok_fresh [OF ok2] by simp
    from nget_emit_run [OF refl fresh, of keys R 0 "val ?d" k] x(2) obtain c5 where
      em: "nget_emit R (Some ?h) keys 0 k ?c4 = Some (k + length (round_answer val r), c5)"
        "replies c5 = replies ?c4 @ map RString (round_answer val r)"
        "c5 = ?c4\<lparr>replies := replies c5\<rparr>" by (auto simp: r_def)
    have fields: "freed c5 = freed ?c4" "db c5 = ?d" "nreplies c5 = nreplies ?c4" "calls c5 = calls ?c4"
      "match_str c5 = match_str c" "count_str c5 = count_str c" "locked c5 = (\<not> tsc \<and> locked ?c3)"
      "nlocks c5 = nlocks ?c4" "nallocs c5 = nallocs ?c4" "events c5 = events c"
      by (subst em(3), simp)+
    have "nget_loop R tsc (Suc fuel) st k c = (if nxt \<noteq> 0
        then nget_loop R tsc fuel (st\<lparr>scan_cursor := nxt\<rparr>) (k + length (round_answer val r))
          (release (nreplies ?c2) c5)
        else Some (REDISMODULE_OK, k + length (round_answer val r), release (nreplies ?c2) c5))"
      using False scan call x(1) lock fresh em(1) fields(1)
      by (simp add: lock_step unlock_step forwardIfError_Some FreeCallReply_Some)
    moreover have "handles_ok (release (nreplies ?c2) c5)"
      using ok2 fields by (auto simp: handles_ok_def)
    then have "rounds_done R val tsc m n st [r] c (release (nreplies ?c2) c5)"
      using False ready lock em(2) fields by (auto simp: rounds_done_def r_def)
    ultimately show ?thesis by blast
  qed
qed

text \<open>Rounds that are followed by another one: the loop goes on from where they end.\<close>

lemma nget_rounds_run:
  assumes mget: "mget_law R val" and lock: "tsc \<Longrightarrow> \<not> locked c"
    and ready: "handles_ok c" "match_str c = Some m" "count_str c = Some n"
    and page: "served R tsc m n st (nlocks c) (db c) (scan_cursor st) (rs @ [r])"
    and allocs: "\<forall>i < sum_list (map round_allocs rs). api_AllocOk R (nallocs c + i)"
  shows "\<exists>c'. nget_loop R tsc (length rs + fuel) st k c = nget_loop R tsc fuel
      (st\<lparr>scan_cursor := fst (snd r)\<rparr>) (k + length (concat (map (round_answer val) rs))) c' \<and>
    rounds_done R val tsc m n st rs c c' \<and> served R tsc m n st (nlocks c') (db c') (fst (snd r)) [r]"
  using assms(2-)
proof (induction rs arbitrary: st k c)
  case Nil
  then show ?case by (cases r) (auto simp: rounds_done_def)
next
  case (Cons q rs)
  obtain d cur keys nxt where q: "q = (d, cur, keys, nxt)" by (cases q)
  from Cons.prems(5) q have page: "d = seen R tsc (nlocks c) (db c)" "cur = scan_cursor st"
    "scan_page R m n st d (scan_cursor st) keys nxt" "nxt \<noteq> 0"
    "served R tsc m n st (Suc (nlocks c)) d nxt (rs @ [r])" by auto
  have mem: "api_AllocOk R (nallocs c) \<and> api_AllocOk R (Suc (nallocs c))" if "keys \<noteq> []"
    using Cons.prems(6) q that by (auto dest: spec [of _ 0] spec [of _ 1])
  from nget_round_run [OF mget Cons.prems(2-4,1) page(3) [unfolded page(1)] mem, of "length rs + fuel" k]
  obtain c1 where step: "nget_loop R tsc (length (q # rs) + fuel) st k c =
      nget_loop R tsc (length rs + fuel) (st\<lparr>scan_cursor := nxt\<rparr>) (k + length (round_answer val q)) c1"
    and c1: "rounds_done R val tsc m n st [q] c c1"
    using page q by auto
  have fields: "handles_ok c1" "match_str c1 = Some m" "count_str c1 = Some n" "locked c1 = locked c"
    "db c1 = d" "nallocs c1 = nallocs c + round_allocs q"
    using c1 by (simp_all add: rounds_done_def q)
  have next_page: "served R tsc m n (st\<lparr>scan_cursor := nxt\<rparr>) (nlocks c1) (db c1)
      (scan_cursor (st\<lparr>scan_cursor := nxt\<rparr>)) (rs @ [r])"
    using page(5) c1 by (cases tsc) (auto simp: rounds_done_def q intro: served_index)
  have "\<forall>i < sum_list (map round_allocs rs). api_AllocOk R (nallocs c1 + i)"
    using Cons.prems(6) fields(6) by (auto simp: add.assoc)
  from Cons.IH [OF _ fields(1-3) next_page this, of "k + length (round_answer val q)"] Cons.prems(1)
    fields(4) obtain c2 where
    "nget_loop R tsc (length rs + fuel) (st\<lparr>scan_cursor := nxt\<rparr>) (k + length (round_answer val q)) c1 =
      nget_loop R tsc fuel (st\<lparr>scan_cursor := fst (snd r)\<rparr>)
        (k + length (round_answer val q) + length (concat (map (round_answer val) rs))) c2"
    "rounds_done R val tsc m n st rs c1 c2"
    "served R tsc m n st (nlocks c2) (db c2) (fst (snd r)) [r]" by auto
  with step rounds_done_trans [OF c1 this(2)] show ?case by (auto simp: add.assoc)
qed

text \<open>A complete scan, the last round with cursor 0.\<close>

lemma nget_loop_complete:
  assumes mget: "mget_law R val" and lock: "tsc \<Longrightarrow> \<not> locked c"
    and ready: "handles_ok c" "match_str c = Some m" "count_str c = Some n"
    and page: "served R tsc m n st (nlocks c) (db c) (scan_cursor st) (rs @ [(d, cur, keys, 0)])"
    and allocs: "\<And>i. api_AllocOk R i" and fuel: "length rs < fuel"
  shows "\<exists>c'. nget_loop R tsc fuel st k c = Some (REDISMODULE_OK,
      k + length (concat (map (round_answer val) (rs @ [(d, cur, keys, 0)]))), c') \<and>
    rounds_done R val tsc m n st (rs @ [(d, cur, keys, 0)]) c c'"
proof -
  from fuel obtain f where f: "fuel = length rs + Suc f" by (metis add_Suc_right less_iff_Suc_add)
  from nget_rounds_run [OF assms(1-6), of "Suc f" k] allocs obtain c1 where
    run: "nget_loop R tsc fuel st k c = nget_loop R tsc (Suc f) (st\<lparr>scan_cursor := cur\<rparr>)
      (k + length (concat (map (round_answer val) rs))) c1"
    and c1: "rounds_done R val tsc m n st rs c c1"
      "served R tsc m n st (nlocks c1) (db c1) cur [(d, cur, keys, 0)]" unfolding f by auto
  have fields: "handles_ok c1" "match_str c1 = Some m" "count_str c1 = Some n" "locked c1 = locked c"
    using c1(1) by (simp_all add: rounds_done_def)
  from c1(2) have page: "scan_page R m n (st\<lparr>scan_cursor := cur\<rparr>) (seen R tsc (nlocks c1) (db c1))
      (scan_cursor (st\<lparr>scan_cursor := cur\<rparr>)) keys 0" and d: "d = seen R tsc (nlocks c1) (db c1)"
    by auto
  from nget_round_run [OF mget fields(1-3) _ page, of f
      "k + length (concat (map (round_answer val) rs))"] lock fields(4) allocs d
  obtain c2 where "nget_loop R tsc (Suc f) (st\<lparr>scan_cursor := cur\<rparr>)
      (k + length (concat (map (round_answer val) rs))) c1 = Some (REDISMODULE_OK,
        k + length (concat (map (round_answer val) rs)) + length (round_answer val (d, cur, keys, 0)), c2)"
    "rounds_done R val tsc m n st [(d, cur, keys, 0)] c1 c2" by auto
  with run rounds_done_trans [OF c1(1) this(2)] show ?thesis by (auto simp: add.assoc)
qed

text \<open>A scan that runs out of memory at a page.\<close>

lemma nget_loop_out_of_memory:
  assumes mget: "mget_law R val" and lock: "tsc \<Longrightarrow> \<not> locked c"
    and ready: "handles_ok c" "match_str c = Some m" "count_str c = Some n"
    and page: "served R tsc m n st (nlocks c) (db c) (scan_cursor st) (rs @ [(d, cur, keys, nxt)])"
    and allocs: "\<forall>i < sum_list (map round_allocs rs). api_AllocOk R (nallocs c + i)"
      "keys \<noteq> []" "\<not> api_AllocOk R (nallocs c + sum_list (map round_allocs rs))"
    and fuel: "length rs < fuel"
  shows "\<exists>c'. nget_loop R tsc fuel st k c = Some (REDISMODULE_ERR,
      k + length (concat (map (round_answer val) rs)), c') \<and> locked c' = locked c \<and> db c' = d \<and>
    replies c' = replies c @ map RString (concat (map (round_answer val) rs)) @
      [RError ''-ERR Out of memory'']"
proof -
  from fuel obtain f where f: "fuel = length rs + Suc f" by (metis add_Suc_right less_iff_Suc_add)
  from nget_rounds_run [OF assms(1-7), of "Suc f" k] obtain c1 where
    run: "nget_loop R tsc fuel st k c = nget_loop R tsc (Suc f) (st\<lparr>scan_cursor := cur\<rparr>)
      (k + length (concat (map (round_answer val) rs))) c1"
    and c1: "rounds_done R val tsc m n st rs c c1"
      "served R tsc m n st (nlocks c1) (db c1) cur [(d, cur, keys, nxt)]" unfolding f by auto
  have fields: "handles_ok c1" "match_str c1 = Some m" "count_str c1 = Some n" "locked c1 = locked c"
    "nallocs c1 = nallocs c + sum_list (map round_allocs rs)"
    using c1(1) by (simp_all add: rounds_done_def)
  let ?c = "lock_taken R tsc c1" and ?st = "st\<lparr>scan_cursor := cur\<rparr>"
  have page1: "scan_page R m n ?st (db ?c) (scan_cursor ?st) keys nxt" and d: "db ?c = d"
    using c1(2) by auto
  from scanSome_out_of_memory [OF _ _ _ page1 allocs(2), of EXSTRINGS_STATUS_NOT_SET] fields allocs(3)
  obtain c2 where "scanSome R ?st EXSTRINGS_STATUS_NOT_SET ?c = Some (None, ?st\<lparr>scan_cursor := nxt\<rparr>,
      EXSTRINGS_STATUS_ERROR_AND_REPLY_SENT, c2)" "locked c2 = locked ?c" "db c2 = db ?c"
    "replies c2 = replies ?c @ [RError ''-ERR Out of memory'']" by auto
  then show ?thesis
    using run c1(1) fields(4) lock d by (auto simp: lock_step unlock_step rounds_done_def)
qed

text \<open>The scan of the atomic command: every round sees the same database.\<close>

fun rounds_of :: "'db \<Rightarrow> int \<Rightarrow> (string list \<times> int) list \<Rightarrow> 'db scan_round list" where
  "rounds_of d cur [] = []"
| "rounds_of d cur ((keys, next) # ps) = (d, cur, keys, next) # rounds_of d next ps"

lemma rounds_of_length [simp]: "length (rounds_of d cur ps) = length ps"
  by (induction d cur ps rule: rounds_of.induct) simp_all

lemma rounds_of_answer:
  "concat (map (round_answer val) (rounds_of d cur ps)) =
   concat (map (key_value (val d)) (concat (map fst ps)))"
  by (induction d cur ps rule: rounds_of.induct) simp_all

lemma scan_pages_served:
  "scan_pages R m n st d cur ps \<Longrightarrow> served R False m n st j d cur (rounds_of d cur ps) \<and>
   (\<exists>rs cur' keys. rounds_of d cur ps = rs @ [(d, cur', keys, 0)])"
proof (induction d cur ps arbitrary: j rule: rounds_of.induct)
  case (2 d cur keys nxt ps)
  show ?case
  proof (cases "ps = []")
    case True
    with "2.prems" show ?thesis by (auto simp: seen_def intro: exI [of _ "[]"])
  next
    case False
    with "2.prems" have more: "scan_page R m n st d cur keys nxt" "nxt \<noteq> 0"
      "scan_pages R m n st d nxt ps" by simp_all
    from "2.IH" [OF more(3), of "Suc j"] obtain rs cur' keys' where
      "served R False m n st (Suc j) d nxt (rounds_of d nxt ps)"
      "rounds_of d nxt ps = rs @ [(d, cur', keys', 0)]" by blast
    with more False show ?thesis
      by (auto simp: seen_def intro!: exI [of _ "(d, cur, keys, nxt) # rs"])
  qed
qed simp

lemma nget_loop_run:
  assumes mget: "mget_law R val" and ready: "scan_ready R m n c"
    and page: "scan_pages R m n st (db c) (scan_cursor st) pages" and fuel: "length pages \<le> fuel"
  shows "\<exists>c'. nget_loop R False fuel st k c = Some (REDISMODULE_OK,
        k + length (concat (map (key_value (val (db c))) (concat (map fst pages)))), c') \<and>
      db c' = db c \<and> replies c' = replies c @
        map RString (concat (map (key_value (val (db c))) (concat (map fst pages))))"
proof -
  from scan_pages_served [OF page, of "nlocks c"] obtain rs cur keys where
    rs: "rounds_of (db c) (scan_cursor st) pages = rs @ [(db c, cur, keys, 0)]"
    and sv: "served R False m n st (nlocks c) (db c) (scan_cursor st) (rs @ [(db c, cur, keys, 0)])"
    by auto
  have "length rs < fuel" using fuel rounds_of_length [of "db c" "scan_cursor st" pages] rs by simp
  note ans = rounds_of_answer [of val "db c" "scan_cursor st" pages, unfolded rs]
  from nget_loop_complete [OF mget _ _ _ _ sv, of fuel k, unfolded ans] ready \<open>length rs < fuel\<close>
  obtain c' where "nget_loop R False fuel st k c = Some (REDISMODULE_OK,
      k + length (concat (map (key_value (val (db c))) (concat (map fst pages)))), c')"
    "rounds_done R val False m n st (rs @ [(db c, cur, keys, 0)]) c c'"
    by (auto simp: scan_ready_def)
  then show ?thesis unfolding rounds_done_def ans by auto
qed

text \<open>
  C15. NGET.ATOMIC answers the question and returns: when the server serves a complete scan (any
  number of pages, empty ones included) and MGET reads values, an NGET with at least as many
  rounds of fuel as there are pages finishes without error, leaves the database alone, and replies
  with every scanned key that has a string value followed by that value, in scan order.
\<close>

theorem nget_atomic_answers:
  assumes "mget_law R val" and "scan_ready R m n (InitStaticVariable R c)"
    and "def_count_str (InitStaticVariable R c) = Some count"
    and "scan_pages R m n \<lparr>scan_key = pattern, scan_count = count, scan_cursor = 0\<rparr> (db c) 0 pages"
    and "length pages \<le> fuel"
  shows "\<exists>c'. NGet_Atomic_RedisCommand R fuel [cmd, pattern] c = Some (REDISMODULE_OK, c') \<and>
    db c' = db c \<and>
    (let kvs = concat (map (key_value (val (db c))) (concat (map fst pages)))
     in replies c' = replies c @ [RArrayPostponed] @ map RString kvs @ [RSetArrayLength (length kvs)])"
proof -
  let ?c0 = "InitStaticVariable R c" and ?st = "\<lparr>scan_key = pattern, scan_count = count, scan_cursor = 0\<rparr>"
  let ?kvs = "concat (map (key_value (val (db c))) (concat (map fst pages)))"
  have c0: "db ?c0 = db c" "replies ?c0 = replies c"
    by (simp_all add: InitStaticVariable_def Let_def)
  have ready: "scan_ready R m n (reply_with RArrayPostponed ?c0)"
    using assms(2) by (simp add: scan_ready_def)
  from nget_loop_run [OF assms(1) ready, of ?st pages fuel 0] assms(4,5) c0 obtain c1 where
    "nget_loop R False fuel ?st 0 (reply_with RArrayPostponed ?c0) =
       Some (REDISMODULE_OK, length ?kvs, c1)" "db c1 = db c"
    "replies c1 = replies c @ [RArrayPostponed] @ map RString ?kvs" by auto
  then show ?thesis
    using assms(3)
    by (simp add: NGet_Atomic_RedisCommand_def readNgetArgs_def Nget_RedisCommand_def Let_def)
qed

lemma ref_page:
  "scan_page ref_server m n st d cur (remdups (map fst d)) 0"
  unfolding scan_page_def
proof (rule exI [of _ "Arr [Str ''0'', Arr (map Str (remdups (map fst d)))]"],
    rule exI [of _ "Str ''0''"], rule exI [of _ "Arr (map Str (remdups (map fst d)))"], intro conjI)
  show "callReplyLongLong ref_server (Str ''0'') = Some 0" by code_simp
qed (simp_all add: ref_call_def redis_codes)

lemma ref_ready:
  "scan_ready ref_server (''MATCH'' @ [NUL]) (''COUNT'' @ [NUL])
     (InitStaticVariable ref_server (start_ctx d))"
  "def_count_str (InitStaticVariable ref_server (start_ctx d)) = Some ''50''"
  by (simp_all add: scan_ready_def InitStaticVariable_def Let_def handles_ok_def ref_server_def)

lemma ref_mget_law: "mget_law ref_server map_of"
  by (auto simp: mget_law_def ref_call_def ref_get_def REDISMODULE_REPLY_ERROR_def
      REDISMODULE_REPLY_ARRAY_def split: option.splits)

theorem nget_atomic_answers_witness:
  "\<exists>c'. NGet_Atomic_RedisCommand ref_server 1 [''nget.atomic'', ''*''] (start_ctx [(''k'', ''v'')]) =
      Some (REDISMODULE_OK, c') \<and>
    replies c' = [RArrayPostponed, RString ''k'', RString ''v'', RSetArrayLength 2]"
proof -
  have "scan_pages ref_server (''MATCH'' @ [NUL]) (''COUNT'' @ [NUL])
      \<lparr>scan_key = ''*'', scan_count = ''50'', scan_cursor = 0\<rparr> [(''k'', ''v'')] 0 [([''k''], 0)]"
    using ref_page [where d = "[(''k'', ''v'')]"] by simp
  then show ?thesis
    using nget_atomic_answers [OF ref_mget_law ref_ready, of "''*''" "[(''k'', ''v'')]"
        "[([''k''], 0)]" 1 "''nget.atomic''"] by auto
qed

section \<open>The background thread, and running out of memory\<close>

text \<open>
  C13. NGET out of memory. The server serves pages and MGET reads values, and NGET, atomic or in the
  thread, with fuel for every page, has answered any number of pages when it cannot allocate the
  block for the keys of the next one. NGET stops there: it has sent the keys and values of the pages
  before it, sends the out-of-memory error as one more element, sets the array's length to the number
  of strings only, so that the array announces one element less than it holds, returns the error
  code, and holds the lock exactly if it did when it was called.
\<close>

theorem nget_out_of_memory:
  assumes "mget_law R val" and "handles_ok c" "match_str c = Some m" "count_str c = Some n"
    and "tsc \<longrightarrow> \<not> locked c"
    and "served R tsc m n \<lparr>scan_key = nget_key args, scan_count = nget_count args, scan_cursor = 0\<rparr>
      (nlocks c) (db c) 0 (rs @ [(d, cur, keys, nxt)])" and "keys \<noteq> []"
    and "\<forall>i < sum_list (map round_allocs rs). api_AllocOk R (nallocs c + i)"
    and "\<not> api_AllocOk R (nallocs c + sum_list (map round_allocs rs))"
    and "length rs < fuel"
  shows "\<exists>c'. Nget_RedisCommand R fuel args tsc c = Some (REDISMODULE_ERR, c') \<and>
    locked c' = locked c \<and> db c' = d \<and>
    (let kvs = concat (map (round_answer val) rs)
     in replies c' = replies c @ [RArrayPostponed] @ map RString kvs @
          [RError ''-ERR Out of memory'', RSetArrayLength (length kvs)])"
proof -
  let ?c = "reply_with RArrayPostponed c"
    and ?st = "\<lparr>scan_key = nget_key args, scan_count = nget_count args, scan_cursor = 0\<rparr>"
  have "served R tsc m n ?st (nlocks ?c) (db ?c) (scan_cursor ?st) (rs @ [(d, cur, keys, nxt)])"
    using assms(6) by simp
  from nget_loop_out_of_memory [OF assms(1) _ _ _ _ this _ assms(7) _ assms(10), of 0] assms
  obtain c' where "nget_loop R tsc fuel ?st 0 ?c =
      Some (REDISMODULE_ERR, length (concat (map (round_answer val) rs)), c')"
    "locked c' = locked c" "db c' = d" "replies c' = replies ?c @
      map RString (concat (map (round_answer val) rs)) @ [RError ''-ERR Out of memory'']" by auto
  then show ?thesis by (simp add: Nget_RedisCommand_def Let_def)
qed

text \<open>
  A server with two pages, whose memory runs out as \<open>mem\<close> says, and whose key \<open>a\<close> is replaced by
  \<open>b\<close> before the second time the thread takes the lock.
\<close>

definition paged_server :: "(nat \<Rightarrow> bool) \<Rightarrow> (ref_db, ref_reply) redis_api" where
  "paged_server mem = ref_server\<lparr>
     api_Call := (\<lambda>cmd args d.
       if cmd = ''SCAN'' then
         (Some (if hd args = ''0'' then Arr [Str ''7'', Arr [Str ''a'']]
                else Arr [Str ''0'', Arr [Str ''b'']]), d)
       else ref_call cmd args d),
     api_StringFromLongLong := (\<lambda>i. if i = 50 then ''50'' else if i = 7 then ''7'' else ''0''),
     api_Interfere := (\<lambda>j d. if j = 1 then [(''b'', ''2'')] else d),
     api_AllocOk := mem\<rparr>"

lemma paged_server_fields [simp]:
  "api_AllocOk (paged_server mem) i = mem i"
  "api_Interfere (paged_server mem) j d = (if j = 1 then [(''b'', ''2'')] else d)"
  "api_CallReplyType (paged_server mem) = ref_type"
  "api_CallReplyStringPtr (paged_server mem) = ref_string"
  "api_CallReplyLength (paged_server mem) r = length (ref_elements r)"
  "api_CallReplyArrayElement (paged_server mem) r i = nth_opt (ref_elements r) i"
  "api_CreateStringFromCallReply (paged_server mem) = ref_string"
  "api_StringFromLongLong (paged_server mem) k =
     (if k = 50 then ''50'' else if k = 7 then ''7'' else ''0'')"
  "api_Call (paged_server mem) cmd args d = (if cmd = ''SCAN'' then
      (Some (if hd args = ''0'' then Arr [Str ''7'', Arr [Str ''a'']]
             else Arr [Str ''0'', Arr [Str ''b'']]), d) else ref_call cmd args d)"
  by (simp_all add: paged_server_def ref_server_def)

lemma paged_mget_law: "mget_law (paged_server mem) map_of"
  by (auto simp: mget_law_def ref_call_def ref_get_def REDISMODULE_REPLY_ERROR_def
      REDISMODULE_REPLY_ARRAY_def split: option.splits)

lemma paged_pages:
  "scan_page (paged_server mem) m n st d 0 [''a''] 7"
  "scan_page (paged_server mem) m n st d 7 [''b''] 0"
proof -
  have "c_strtoll10 ''7'' = 7" "c_strtoll10 ''0'' = 0" by code_simp+
  then show "scan_page (paged_server mem) m n st d 0 [''a''] 7"
    "scan_page (paged_server mem) m n st d 7 [''b''] 0"
    by (auto simp: scan_page_def callReplyLongLong_def redis_codes)
qed

lemma paged_strings:
  "match_str (InitStaticVariable (paged_server mem) (start_ctx d)) = Some (''MATCH'' @ [NUL])"
  "count_str (InitStaticVariable (paged_server mem) (start_ctx d)) = Some (''COUNT'' @ [NUL])"
  "nlocks (InitStaticVariable (paged_server mem) (start_ctx d)) = 0"
  "nallocs (InitStaticVariable (paged_server mem) (start_ctx d)) = 0"
  "events (InitStaticVariable (paged_server mem) (start_ctx d)) = []"
  by (simp_all add: InitStaticVariable_def Let_def)

theorem nget_out_of_memory_witness:
  "\<exists>c'. Nget_RedisCommand (paged_server (\<lambda>i. i < 2)) 2 \<lparr>nget_key = ''*'', nget_count = ''50''\<rparr> False
      (InitStaticVariable (paged_server (\<lambda>i. i < 2)) (start_ctx [(''a'', ''1'')])) =
      Some (REDISMODULE_ERR, c') \<and> locked c' \<and>
    replies c' = [RArrayPostponed, RString ''a'', RString ''1'', RError ''-ERR Out of memory'',
      RSetArrayLength 2]"
  using nget_out_of_memory [OF paged_mget_law [of "\<lambda>i. i < 2"] _ paged_strings(1,2) [of "\<lambda>i. i < 2"],
      where d = "[(''a'', ''1'')]" and tsc = False and
      args = "\<lparr>nget_key = ''*'', nget_count = ''50''\<rparr>" and
      rs = "[([(''a'', ''1'')], 0, [''a''], 7)]" and cur = 7 and keys = "[''b'']" and nxt = 0
      and fuel = 2]
  by (auto simp: paged_strings paged_pages seen_def numeral_2_eq_2)

text \<open>
  C14. The background thread of NGET.NOATOMIC answers and unblocks its client. The server serves a
  complete scan to it, each page from the database as other clients have left it by the time the
  thread takes the lock for that page; MGET reads values; no allocation fails. Then the thread, with
  at least as many rounds of fuel as there are pages, finishes. It takes the lock once per page and
  issues exactly one SCAN, and one MGET for a page with keys, all of them while it holds the lock; it
  ends without the lock; the reply array holds, page by page, every key that had a string value when
  its page was read, followed by that value, and announces their number; and it has unblocked the
  client, once.
\<close>

theorem nget_thread_answers_under_lock:
  assumes "mget_law R val" and "scan_ready R m n c"
    and "st = \<lparr>scan_key = nget_key args, scan_count = nget_count args, scan_cursor = 0\<rparr>"
    and "served R True m n st (nlocks c) (db c) 0 rounds"
    and "rounds = rs @ [(d, cur, keys, 0)]" and "length rounds \<le> fuel"
  shows "\<exists>c'. NGet_NoAtomic_ThreadMain R fuel args c = Some c' \<and>
    \<not> locked c' \<and> nlocks c' = nlocks c + length rounds \<and> db c' = d \<and>
    calls c' = calls c @ concat (map (round_calls R m n st True) rounds) \<and>
    events c' = events c @ [UnblockClient] \<and>
    (let kvs = concat (map (round_answer val) rounds)
     in replies c' = replies c @ [RArrayPostponed] @ map RString kvs @ [RSetArrayLength (length kvs)])"
proof -
  let ?c = "reply_with RArrayPostponed (c\<lparr>locked := False\<rparr>)"
  have served: "served R True m n st (nlocks ?c) (db ?c) (scan_cursor st) (rs @ [(d, cur, keys, 0)])"
    using assms(3-5) by simp
  have ready: "handles_ok ?c" "match_str ?c = Some m" "count_str ?c = Some n" "\<And>i. api_AllocOk R i"
    using assms(2) by (auto simp: scan_ready_def handles_ok_def)
  from nget_loop_complete [OF assms(1) _ ready(1-3) served ready(4), of fuel 0] assms(5,6)
  obtain c' where "nget_loop R True fuel st 0 ?c =
      Some (REDISMODULE_OK, length (concat (map (round_answer val) rounds)), c')"
    "rounds_done R val True m n st rounds ?c c'" by auto
  then show ?thesis using assms(5) unfolding rounds_done_def
    by (simp add: NGet_NoAtomic_ThreadMain_def Nget_RedisCommand_def Let_def assms(3) [symmetric])
qed

theorem nget_thread_answers_under_lock_witness:
  "\<exists>c'. NGet_NoAtomic_ThreadMain (paged_server (\<lambda>_. True)) 2 \<lparr>nget_key = ''*'', nget_count = ''50''\<rparr>
      (InitStaticVariable (paged_server (\<lambda>_. True)) (start_ctx [(''a'', ''1'')])) = Some c' \<and>
    \<not> locked c' \<and> nlocks c' = 2 \<and> events c' = [UnblockClient] \<and>
    map fst (calls c') = [''SCAN'', ''MGET'', ''SCAN'', ''MGET''] \<and>
    replies c' = [RArrayPostponed, RString ''a'', RString ''1'', RString ''b'', RString ''2'',
      RSetArrayLength 4]"
proof -
  let ?c = "InitStaticVariable (paged_server (\<lambda>_. True)) (start_ctx [(''a'', ''1'')])"
  have "scan_ready (paged_server (\<lambda>_. True)) (''MATCH'' @ [NUL]) (''COUNT'' @ [NUL]) ?c"
    by (simp add: scan_ready_def paged_strings)
  moreover have "served (paged_server (\<lambda>_. True)) True (''MATCH'' @ [NUL]) (''COUNT'' @ [NUL])
      \<lparr>scan_key = ''*'', scan_count = ''50'', scan_cursor = 0\<rparr> (nlocks ?c) (db ?c) 0
      [([(''a'', ''1'')], 0, [''a''], 7), ([(''b'', ''2'')], 7, [''b''], 0)]"
    by (simp add: paged_strings paged_pages seen_def)
  ultimately have "\<exists>c'. NGet_NoAtomic_ThreadMain (paged_server (\<lambda>_. True)) 2
      \<lparr>nget_key = ''*'', nget_count = ''50''\<rparr> ?c = Some c' \<and> \<not> locked c' \<and>
    nlocks c' = nlocks ?c + length [([(''a'', ''1'')], 0 :: int, [''a''], 7 :: int), ([(''b'', ''2'')], 7, [''b''], 0)] \<and> db c' = [(''b'', ''2'')] \<and> calls c' = calls ?c @ concat
      (map (round_calls (paged_server (\<lambda>_. True)) (''MATCH'' @ [NUL]) (''COUNT'' @ [NUL])
        \<lparr>scan_key = ''*'', scan_count = ''50'', scan_cursor = 0\<rparr> True)
        [([(''a'', ''1'')], 0, [''a''], 7), ([(''b'', ''2'')], 7, [''b''], 0)]) \<and>
    events c' = events ?c @ [UnblockClient] \<and>
    (let kvs = concat (map (round_answer map_of)
        [([(''a'', ''1'')], 0, [''a''], 7), ([(''b'', ''2'')], 7, [''b''], 0)])
     in replies c' = replies ?c @ [RArrayPostponed] @ map RString kvs @ [RSetArrayLength (length kvs)])"
    by (intro nget_thread_answers_under_lock [OF paged_mget_law, where rounds =
        "[([(''a'', ''1'')], 0, [''a''], 7), ([(''b'', ''2'')], 7, [''b''], 0)]" and
        rs = "[([(''a'', ''1'')], 0, [''a''], 7)]"])
      (simp_all add: paged_strings paged_pages seen_def)
  then show ?thesis by (auto simp: paged_strings eval_nat_numeral)
qed

section \<open>The answer of NDEL\<close>

text \<open>
  The same scan while the module removes the keys of each page before asking for the next, and
  how many keys the server reports as removed along the way.
\<close>

definition after_unlink :: "('db, 'r) redis_api \<Rightarrow> string list \<Rightarrow> 'db \<Rightarrow> 'db" where
  "after_unlink R keys d = (if keys = [] then d else snd (api_Call R ''UNLINK'' keys d))"

definition unlink_count :: "('db, 'r) redis_api \<Rightarrow> string list \<Rightarrow> 'db \<Rightarrow> int" where
  "unlink_count R keys d =
     int (card {k \<in> set keys. api_KeyType R d k \<noteq> REDISMODULE_KEYTYPE_EMPTY})"

fun del_pages ::
  "('db, 'r) redis_api \<Rightarrow> string \<Rightarrow> string \<Rightarrow> scan_state \<Rightarrow> 'db \<Rightarrow> int \<Rightarrow> (string list \<times> int) list \<Rightarrow> bool"
where
  "del_pages R m n st d cur [] \<longleftrightarrow> False"
| "del_pages R m n st d cur ((keys, next) # ps) \<longleftrightarrow> scan_page R m n st d cur keys next \<and>
     (if ps = [] then next = 0
      else next \<noteq> 0 \<and> del_pages R m n st (after_unlink R keys d) next ps)"

fun removed_count :: "('db, 'r) redis_api \<Rightarrow> 'db \<Rightarrow> (string list \<times> int) list \<Rightarrow> int" where
  "removed_count R d [] = 0"
| "removed_count R d ((keys, next) # ps) =
     unlink_count R keys d + removed_count R (after_unlink R keys d) ps"

lemma removed_count_nonneg: "0 \<le> removed_count R d ps"
  by (induction R d ps rule: removed_count.induct) (simp_all add: unlink_count_def)

lemma ndel_page_run:
  assumes law: "unlink_law R val" and ready: "scan_ready R m n c"
    and page: "scan_page R m n st (db c) (scan_cursor st) keys nxt"
    and range: "0 \<le> k" "k + unlink_count R keys (db c) \<le> LLONG_MAX"
  shows "\<exists>c'. ndel_loop R (Suc fuel) st k c =
      (if nxt \<noteq> 0
       then ndel_loop R fuel (st\<lparr>scan_cursor := nxt\<rparr>) (k + unlink_count R keys (db c)) c'
       else Some (REDISMODULE_OK, k + unlink_count R keys (db c), c')) \<and>
    scan_ready R m n c' \<and> db c' = after_unlink R keys (db c) \<and> replies c' = replies c \<and>
    val (db c') = val (db c) |` (- set keys)"
proof -
  from scanSome_run [OF ready page, of EXSTRINGS_STATUS_NOT_SET] obtain c1 where
    scan: "scanSome R st EXSTRINGS_STATUS_NOT_SET c = Some (if keys = [] then None else
        Some (map Some keys), st\<lparr>scan_cursor := nxt\<rparr>, EXSTRINGS_STATUS_NO_ERRORS, c1)"
      "scan_ready R m n c1" "db c1 = db c" "replies c1 = replies c" by blast
  show ?thesis
  proof (cases "keys = []")
    case True
    with scan show ?thesis
      by (intro exI [of _ c1]) (simp add: after_unlink_def unlink_count_def restrict_map_def)
  next
    case False
    from unlink_step [OF law False] obtain r d' where
      call: "redis_call R ''UNLINK'' keys c1 =
        (Some \<lparr>hid = nreplies c1, hval = r\<rparr>, called ''UNLINK'' keys d' c1)"
      and r: "api_CallReplyType R r = REDISMODULE_REPLY_INTEGER"
        "api_CallReplyInteger R r = unlink_count R keys (db c1)" "val d' = val (db c1) |` (- set keys)"
      unfolding unlink_count_def by blast
    have d': "d' = after_unlink R keys (db c)"
      using call False scan(3) unfolding redis_call_def after_unlink_def
      by (auto simp: called_def split: prod.splits)
        (metis called_def called_fields(1) rctx.simps(1) rctx.surjective rctx.update_convs(1))
    have sum: "s64 (k + unlink_count R keys (db c)) = Some (k + unlink_count R keys (db c))"
      using range by (simp add: s64_def LLONG_MIN_def unlink_count_def)
    have codes: "REDISMODULE_REPLY_INTEGER \<noteq> REDISMODULE_REPLY_ERROR" by (simp add: redis_codes)
    show ?thesis
      using False scan call r(1,3) r(2) sum codes d'
      by (intro exI [of _ "release (nreplies c1) (called ''UNLINK'' keys d' c1)"])
        (simp add: forwardIfError_Some redis_steps scan_ready_def)
  qed
qed

lemma ndel_loop_run:
  assumes law: "unlink_law R val"
  shows "scan_ready R m n c \<Longrightarrow> del_pages R m n st (db c) (scan_cursor st) pages \<Longrightarrow>
    length pages \<le> fuel \<Longrightarrow> 0 \<le> k \<Longrightarrow> k + removed_count R (db c) pages \<le> LLONG_MAX \<Longrightarrow>
    \<exists>c'. ndel_loop R fuel st k c =
        Some (REDISMODULE_OK, k + removed_count R (db c) pages, c') \<and> replies c' = replies c \<and>
      val (db c') = val (db c) |` (- set (concat (map fst pages)))"
proof (induction pages arbitrary: fuel st c k)
  case Nil
  then show ?case by simp
next
  case (Cons p ps)
  obtain keys nxt where p: "p = (keys, nxt)" by fastforce
  from Cons.prems(3) obtain f where f: "fuel = Suc f" "length ps \<le> f" by (cases fuel) auto
  let ?u = "unlink_count R keys (db c)"
  from Cons.prems(2) p have page: "scan_page R m n st (db c) (scan_cursor st) keys nxt" and more:
    "if ps = [] then nxt = 0 else nxt \<noteq> 0 \<and> del_pages R m n st (after_unlink R keys (db c)) nxt ps"
    by simp_all
  have range: "k + ?u \<le> LLONG_MAX" "0 \<le> k + ?u"
    using Cons.prems(4,5) p removed_count_nonneg [of R "after_unlink R keys (db c)" ps]
    by (simp_all add: unlink_count_def)
  from ndel_page_run [OF law Cons.prems(1) page Cons.prems(4) range(1), of f] obtain c2 where
    step: "ndel_loop R fuel st k c = (if nxt \<noteq> 0
       then ndel_loop R f (st\<lparr>scan_cursor := nxt\<rparr>) (k + ?u) c2 else Some (REDISMODULE_OK, k + ?u, c2))"
    and c2: "scan_ready R m n c2" "db c2 = after_unlink R keys (db c)" "replies c2 = replies c"
      "val (db c2) = val (db c) |` (- set keys)"
    unfolding f(1) by auto
  show ?case
  proof (cases "ps = []")
    case True
    with step c2 more p show ?thesis by auto
  next
    case False
    have pages: "del_pages R m n (st\<lparr>scan_cursor := nxt\<rparr>) d x qs = del_pages R m n st d x qs"
      for d x qs by (induction qs arbitrary: d x) auto
    from False more have "del_pages R m n (st\<lparr>scan_cursor := nxt\<rparr>) (db c2)
        (scan_cursor (st\<lparr>scan_cursor := nxt\<rparr>)) ps" and nxt: "nxt \<noteq> 0"
      using c2(2) by (simp_all add: pages)
    from Cons.IH [OF c2(1) this(1) f(2) range(2)] Cons.prems(5) p c2(2) obtain c' where
      "ndel_loop R f (st\<lparr>scan_cursor := nxt\<rparr>) (k + ?u) c2 =
        Some (REDISMODULE_OK, k + ?u + removed_count R (db c2) ps, c')" "replies c' = replies c2"
      "val (db c') = val (db c2) |` (- set (concat (map fst ps)))" by (auto simp: add.assoc)
    with step nxt c2 p show ?thesis by (auto simp: Int_def)
  qed
qed

text \<open>
  C16. NDEL.ATOMIC removes what it scans and returns the count: when the server serves a complete
  scan while the pages are being removed, an NDEL with enough fuel finishes, every scanned key is
  gone and nothing else is, and the single reply is the number of keys that existed.
\<close>

theorem ndel_atomic_removes:
  assumes "unlink_law R val" and "scan_ready R m n (InitStaticVariable R c)"
    and "def_count_str (InitStaticVariable R c) = Some count"
    and "del_pages R m n \<lparr>scan_key = pattern, scan_count = count, scan_cursor = 0\<rparr> (db c) 0 pages"
    and "length pages \<le> fuel" and "removed_count R (db c) pages \<le> LLONG_MAX"
  shows "\<exists>c'. NDel_Atomic_RedisCommand R fuel [cmd, pattern] c = Some (REDISMODULE_OK, c') \<and>
    val (db c') = val (db c) |` (- set (concat (map fst pages))) \<and>
    replies c' = replies c @ [RLongLong (removed_count R (db c) pages)]"
proof -
  let ?c0 = "InitStaticVariable R c" and ?st = "\<lparr>scan_key = pattern, scan_count = count, scan_cursor = 0\<rparr>"
  have c0: "db ?c0 = db c" "replies ?c0 = replies c"
    by (simp_all add: InitStaticVariable_def Let_def)
  from ndel_loop_run [OF assms(1,2), of ?st pages fuel 0] assms(4-6) c0 obtain c1 where
    "ndel_loop R fuel ?st 0 ?c0 = Some (REDISMODULE_OK, removed_count R (db c) pages, c1)"
    "replies c1 = replies c" "val (db c1) = val (db c) |` (- set (concat (map fst pages)))" by auto
  then show ?thesis using assms(3) by (simp add: NDel_Atomic_RedisCommand_def Let_def)
qed

theorem ndel_atomic_removes_witness:
  "\<exists>c'. NDel_Atomic_RedisCommand ref_server 1 [''ndel.atomic'', ''*''] (start_ctx [(''k'', ''v'')]) =
      Some (REDISMODULE_OK, c') \<and> map_of (db c') ''k'' = None \<and> replies c' = [RLongLong 1]"
proof -
  have pages: "del_pages ref_server (''MATCH'' @ [NUL]) (''COUNT'' @ [NUL])
      \<lparr>scan_key = ''*'', scan_count = ''50'', scan_cursor = 0\<rparr> [(''k'', ''v'')] 0 [([''k''], 0)]"
    using ref_page [where d = "[(''k'', ''v'')]"] by simp
  have count: "removed_count ref_server [(''k'', ''v'')] [([''k''], 0)] = 1"
  proof -
    have "{k. k = ''k'' \<and> api_KeyType ref_server [(''k'', ''v'')] k \<noteq> REDISMODULE_KEYTYPE_EMPTY} = {''k''}"
      by auto
    then show ?thesis by (simp add: unlink_count_def)
  qed
  show ?thesis
    using ndel_atomic_removes [OF ref_unlink_law ref_ready, of "''*''" "[(''k'', ''v'')]"
        "[([''k''], 0)]" 1 "''ndel.atomic''"] pages count
    by (auto simp: LLONG_MAX_def)
qed

section \<open>Arities\<close>

text \<open>How many arguments (with the command name) each command takes.\<close>

definition arity_ok :: "string \<Rightarrow> nat \<Rightarrow> bool" where
  "arity_ok name argc \<longleftrightarrow>
     (if name \<in> {''setie'', ''setne''} then 4 \<le> argc
      else if name \<in> {''delie'', ''delne''} then argc = 3
      else if name \<in> {''nget.atomic'', ''nget.noatomic''} then argc = 2 \<or> argc = 4
      else if name = ''ndel.atomic'' then argc = 2
      else if name = ''msetpub'' then 5 \<le> argc \<and> odd argc
      else if name = ''msetmpub'' then 7 \<le> argc \<and> odd argc
      else if name \<in> {''setiepub'', ''setnepub''} then argc = 6
      else if name = ''setiempub'' then 6 \<le> argc \<and> even argc
      else if name \<in> {''setxxpub'', ''setnxpub'', ''deliepub'', ''delnepub''} then argc = 5
      else if name \<in> {''setnxmpub'', ''deliempub''} then 5 \<le> argc \<and> odd argc
      else if name = ''delpub'' then 4 \<le> argc
      else name = ''delmpub'' \<and> 6 \<le> argc)"

lemma redis_alloc_frame: "redis_alloc R c = (b, c') \<Longrightarrow> db c' = db c \<and> replies c' = replies c \<and> calls c' = calls c"
  by (auto simp: redis_alloc_def)

text \<open>
  Every registered command checks its arity before it does anything: with a number of
  arguments it does not take, and memory to spare, it sends exactly one wrong-arity reply, issues
  no command and leaves the database alone.
\<close>

theorem commands_reject_wrong_arity:
  assumes "(name, handler, flags) \<in> set (command_table R fuel)" and "\<not> arity_ok name (length argv)"
    and "\<forall>i. api_AllocOk R i"
  shows "\<exists>rc c'. handler argv c = Some (rc, c') \<and> replies c' = replies c @ [RWrongArity] \<and>
    calls c' = calls c \<and> db c' = db c"
  using assms
  by (auto simp: command_table_def arity_ok_def finish_def SetIE_RedisCommand_def
      SetNE_RedisCommand_def setStringGenericCommand_def DelIE_RedisCommand_def
      DelNE_RedisCommand_def delStringGenericCommand_def NGet_Atomic_RedisCommand_def
      readNgetArgs_def NGet_NoAtomic_RedisCommand_def redis_alloc_def NDel_Atomic_RedisCommand_def
      SetPub_RedisCommand_def SetMPub_RedisCommand_def SetIEPub_RedisCommand_def
      SetIEMPub_RedisCommand_def SetNEPub_RedisCommand_def SetXXPub_RedisCommand_def
      SetNXPub_RedisCommand_def SetNXMPub_RedisCommand_def DelPub_RedisCommand_def
      DelMPub_RedisCommand_def DelIEPub_RedisCommand_def DelIEMPub_RedisCommand_def
      DelNEPub_RedisCommand_def even_iff_mod_2_eq_zero odd_iff_mod_2_eq_one Let_def)

theorem commands_reject_wrong_arity_witness:
  "\<exists>rc c'. DelPub_RedisCommand ref_server [''delpub'', ''k''] (start_ctx []) = Some (rc, c') \<and>
    replies c' = [RWrongArity] \<and> calls c' = []"
  using commands_reject_wrong_arity [where R = ref_server and fuel = 1 and name = "''delpub''" and
      handler = "DelPub_RedisCommand ref_server" and flags = "''write deny-oom''" and
      argv = "[''delpub'', ''k'']" and c = "start_ctx []"]
  by (auto simp: command_table_def arity_ok_def)

end
