(* ===== verification/Bit_Lists.thy ===== *)
theory Bit_Lists
  imports Prelude
begin

unbundle bit_operations_syntax

text \<open>
  Bit strings, most significant bit first: the language in which the codec's specifications are
  written. \<open>bits_val\<close> reads a bit string as a number, \<open>val_bits n v\<close> writes the low \<open>n\<close>
  bits of \<open>v\<close>, \<open>bytes_bits\<close> lays bytes out in transmission order,
  and \<open>digits\<close> counts the digits a number takes.
\<close>

named_theorems bit_list_simps \<open>rewriting between numbers, bytes and bit strings\<close>

definition bits_val :: "bool list \<Rightarrow> int" where
  "bits_val bs = horner_sum of_bool 2 (rev bs)"

definition val_bits :: "nat \<Rightarrow> int \<Rightarrow> bool list" where
  "val_bits n v = map (\<lambda>i. bit v (n - Suc i)) [0..<n]"

definition byte_bits :: "u8 \<Rightarrow> bool list" where
  "byte_bits b = map (\<lambda>i. bit b (7 - i)) [0..<8]"

definition bytes_bits :: "u8 list \<Rightarrow> bool list" where
  "bytes_bits bs = concat (map byte_bits bs)"

section \<open>Numbers\<close>

lemma bits_val_Nil [simp]: "bits_val [] = 0"
  by (simp add: bits_val_def)

lemma bits_val_append: "bits_val (xs @ ys) = bits_val xs * 2 ^ length ys + bits_val ys"
  by (simp add: bits_val_def horner_sum_append)

lemma bits_val_single [simp]: "bits_val [b] = of_bool b"
  by (simp add: bits_val_def)

lemma bits_val_nonneg [simp]: "0 \<le> bits_val bs"
  by (induction bs rule: rev_induct) (simp_all add: bits_val_append)

lemma bits_val_not_neg [simp]: "\<not> bits_val bs < 0"
  by (simp add: not_less)

lemma bits_val_less: "bits_val bs < 2 ^ length bs"
  by (induction bs rule: rev_induct) (auto simp: bits_val_append)

lemma bits_val_replicate_False [simp]: "bits_val (replicate n False) = 0"
  by (induction n) (simp_all add: bits_val_append [of "[_]", simplified])

lemma drop_bit_bits_val:
  "length ys = k \<Longrightarrow> drop_bit k (bits_val (xs @ ys)) = bits_val xs"
  using bits_val_less [of ys] by (simp add: drop_bit_eq_div bits_val_append div_add1_eq)

lemma take_bit_bits_val:
  "length ys = k \<Longrightarrow> take_bit k (bits_val (xs @ ys)) = bits_val ys"
  using bits_val_less [of ys] by (simp add: take_bit_eq_mod bits_val_append)

text \<open>Shifting and masking a bit string's value selects a window of it.\<close>

lemma bits_val_window:
  assumes "n \<le> off" and "off \<le> length B"
  shows "take_bit n (drop_bit (length B - off) (bits_val B)) = bits_val (take n (drop (off - n) B))"
proof -
  have "B = take off B @ drop off B" by simp
  then have "drop_bit (length B - off) (bits_val B) = bits_val (take off B)"
    using drop_bit_bits_val [of "drop off B" "length B - off" "take off B"] by simp
  also have "take off B = take (off - n) B @ take n (drop (off - n) B)"
    using assms by (metis le_add_diff_inverse2 take_add)
  finally show ?thesis
    using take_bit_bits_val [of "take n (drop (off - n) B)" n "take (off - n) B"] assms by simp
qed

lemma length_val_bits [simp]: "length (val_bits n v) = n"
  by (simp add: val_bits_def)

lemma val_bits_0 [simp]: "val_bits 0 v = []"
  by (simp add: val_bits_def)

lemma bits_val_val_bits [bit_list_simps]: "bits_val (val_bits n v) = take_bit n v"
proof -
  have "rev (val_bits n v) = map (bit v) [0..<n]"
    by (rule nth_equalityI) (auto simp: val_bits_def rev_nth)
  then show ?thesis by (simp add: bits_val_def horner_sum_bit_eq_take_bit)
qed

lemma bits_val_val_bits_small: "0 \<le> v \<Longrightarrow> v < 2 ^ n \<Longrightarrow> bits_val (val_bits n v) = v"
  by (simp add: bits_val_val_bits take_bit_int_eq_self)

lemma val_bits_split: "val_bits (m + n) v = val_bits m (drop_bit n v) @ val_bits n v"
  by (rule nth_equalityI) (auto simp: val_bits_def nth_append bit_drop_bit_eq add.commute)

lemma val_bits_take_bit [simp]: "val_bits n (take_bit n v) = val_bits n v"
  by (rule nth_equalityI) (auto simp: val_bits_def bit_take_bit_iff)

lemma val_bits_zero: "val_bits n 0 = replicate n False"
  by (rule nth_equalityI) (auto simp: val_bits_def)

lemma val_bits_bits_val: "val_bits (length bs) (bits_val bs) = bs"
proof (induction bs rule: rev_induct)
  case Nil
  then show ?case by simp
next
  case (snoc b bs)
  have low: "val_bits 1 (bits_val (bs @ [b])) = [b]"
    by (simp add: val_bits_def bits_val_append bit_0)
  have "drop_bit 1 (bits_val (bs @ [b])) = bits_val bs" by (rule drop_bit_bits_val) simp
  with val_bits_split [of "length bs" 1 "bits_val (bs @ [b])"] low snoc show ?case by simp
qed

lemma bits_val_inject: "length xs = length ys \<Longrightarrow> bits_val xs = bits_val ys \<Longrightarrow> xs = ys"
  by (metis val_bits_bits_val)

section \<open>Bytes\<close>

lemma length_byte_bits [simp]: "length (byte_bits b) = 8"
  by (simp add: byte_bits_def)

lemma bytes_bits_Nil [simp]: "bytes_bits [] = []"
  by (simp add: bytes_bits_def)

lemma bytes_bits_Cons: "bytes_bits (b # bs) = byte_bits b @ bytes_bits bs"
  by (simp add: bytes_bits_def)

lemma bytes_bits_append [simp]: "bytes_bits (as @ bs) = bytes_bits as @ bytes_bits bs"
  by (simp add: bytes_bits_def)

lemma length_bytes_bits [simp]: "length (bytes_bits bs) = 8 * length bs"
  by (induction bs) (simp_all add: bytes_bits_Cons)

lemma bits_val_byte_bits [bit_list_simps]: "bits_val (byte_bits b) = uint b"
proof -
  have "rev (byte_bits b) = map (bit (uint b)) [0..<8]"
    by (rule nth_equalityI) (auto simp: byte_bits_def rev_nth bit_uint_iff)
  moreover have "take_bit 8 (uint b) = uint b"
    using uint_lt2p [of b] by (simp add: take_bit_int_eq_self)
  ultimately show ?thesis by (simp add: bits_val_def horner_sum_bit_eq_take_bit)
qed

lemma byte_bits_val_bits: "byte_bits b = val_bits 8 (uint b)"
  by (rule nth_equalityI) (auto simp: byte_bits_def val_bits_def bit_uint_iff)

lemma byte_bits_inject [simp]: "byte_bits a = byte_bits b \<longleftrightarrow> a = b"
  by (metis bits_val_byte_bits word_uint_eq_iff)

lemma bytes_bits_inject: "bytes_bits as = bytes_bits bs \<longleftrightarrow> as = bs"
proof (induction as arbitrary: bs)
  case Nil
  show ?case by (cases bs) (simp_all add: bytes_bits_Cons byte_bits_def upt_rec)
next
  case (Cons a as)
  show ?case
  proof (cases bs)
    case Nil
    then show ?thesis by (simp add: bytes_bits_Cons byte_bits_def upt_rec)
  next
    case (Cons b cs)
    then show ?thesis by (simp add: bytes_bits_Cons append_eq_append_conv Cons.IH)
  qed
qed

lemma byte_bits_0: "byte_bits 0 = replicate 8 False"
  by (rule nth_equalityI) (auto simp: byte_bits_def)

text \<open>The byte of a number's low eight bits.\<close>

lemma byte_bits_word_of_int: "byte_bits (word_of_int v) = val_bits 8 v"
  by (rule nth_equalityI) (auto simp: byte_bits_def val_bits_def bit_word_of_int_iff)

lemma nth_bytes_bits:
  "i < 8 * length bs \<Longrightarrow> bytes_bits bs ! i = bit (bs ! (i div 8)) (7 - i mod 8)"
proof (induction bs arbitrary: i)
  case Nil
  then show ?case by simp
next
  case (Cons b bs)
  show ?case
  proof (cases "i < 8")
    case True
    then show ?thesis by (simp add: bytes_bits_Cons nth_append byte_bits_def)
  next
    case False
    then have "i div 8 = Suc ((i - 8) div 8)" "i mod 8 = (i - 8) mod 8" by (auto simp: div_if mod_if)
    with False Cons show ?thesis by (simp add: bytes_bits_Cons nth_append)
  qed
qed

lemma take_bytes_bits: "take (8 * n) (bytes_bits bs) = bytes_bits (take n bs)"
proof (induction bs arbitrary: n)
  case Nil
  then show ?case by simp
next
  case (Cons b bs)
  then show ?case by (cases n) (simp_all add: bytes_bits_Cons)
qed

lemma drop_bytes_bits: "drop (8 * n) (bytes_bits bs) = bytes_bits (drop n bs)"
proof (induction bs arbitrary: n)
  case Nil
  then show ?case by simp
next
  case (Cons b bs)
  then show ?case by (cases n) (simp_all add: bytes_bits_Cons)
qed

text \<open>A big-endian group of bytes as the C sources assemble it from shifts.\<close>

lemma bits_val_two: "bits_val (bytes_bits [a, b]) = push_bit 8 (uint a) + uint b"
  by (simp add: bytes_bits_Cons bits_val_append bits_val_byte_bits push_bit_eq_mult)

lemma bits_val_three:
  "bits_val (bytes_bits [a, b, c]) = push_bit 16 (uint a) + push_bit 8 (uint b) + uint c"
  by (simp add: bytes_bits_Cons bits_val_append bits_val_byte_bits push_bit_eq_mult algebra_simps)

lemma bits_val_four: "bits_val (bytes_bits [a, b, c, d]) =
    push_bit 24 (uint a) + push_bit 16 (uint b) + push_bit 8 (uint c) + uint d"
  by (simp add: bytes_bits_Cons bits_val_append bits_val_byte_bits push_bit_eq_mult algebra_simps)

section \<open>Counting digits\<close>

text \<open>The number of \<open>b\<close>-bit digits of a number, at least one.\<close>

function digits :: "nat \<Rightarrow> int \<Rightarrow> nat" where
  "digits b v = (if b = 0 \<or> v < 2 ^ b then 1 else Suc (digits b (v div 2 ^ b)))"
  by pat_completeness auto
termination
proof (relation "measure (\<lambda>(_, v). nat v)", goal_cases)
  case (2 b v)
  then have "(2::int) ^ 1 \<le> 2 ^ b" by (intro power_increasing) auto
  moreover have "0 < v" using 2 by (meson less_le_trans not_le zero_less_numeral zero_less_power)
  ultimately have "v div 2 ^ b < v" by (intro int_div_less_self) auto
  then show ?case using \<open>0 < v\<close> by simp
qed simp

declare digits.simps [simp del]

lemma digits_bounds:
  "0 < b \<Longrightarrow> 0 \<le> v \<Longrightarrow> v < 2 ^ (b * digits b v) \<and> 1 \<le> digits b v \<and> (digits b v = 1 \<or> 2 ^ (b * (digits b v - 1)) \<le> v)"
proof (induction b v rule: digits.induct)
  case (1 b v)
  show ?case
  proof (cases "v < 2 ^ b")
    case True
    then show ?thesis by (simp add: digits.simps)
  next
    case False
    let ?q = "v div 2 ^ b"
    have q: "0 \<le> ?q" using 1 by (simp add: pos_imp_zdiv_nonneg_iff)
    note IH = 1(1) [OF _ 1(2) q]
    have d: "digits b v = Suc (digits b ?q)" using False 1(2) by (subst digits.simps) auto
    have v: "v = 2 ^ b * ?q + v mod 2 ^ b" by simp
    have m: "0 \<le> v mod 2 ^ b" "v mod 2 ^ b < 2 ^ b" by simp_all
    have IH': "?q < 2 ^ (b * digits b ?q)" "1 \<le> digits b ?q"
        "digits b ?q = 1 \<or> 2 ^ (b * (digits b ?q - 1)) \<le> ?q"
      using IH False 1(2) by auto
    have "2 ^ b * (?q + 1) \<le> 2 ^ b * 2 ^ (b * digits b ?q)"
      using IH'(1) by (intro mult_left_mono) auto
    moreover have "2 ^ b * (?q + 1) = 2 ^ b * ?q + 2 ^ b" by (simp add: distrib_left)
    moreover have "(2::int) ^ (b * digits b v) = 2 ^ b * 2 ^ (b * digits b ?q)" by (simp add: d power_add)
    ultimately have up: "v < 2 ^ (b * digits b v)" using v m(2) by linarith
    have "2 ^ (b * (digits b ?q - 1)) \<le> ?q"
    proof (cases "digits b ?q = 1")
      case True
      have "1 \<le> ?q" using False zdiv_mono1 [of "2 ^ b" v "2 ^ b"] by simp
      with True show ?thesis by simp
    qed (use IH' in auto)
    then have "2 ^ b * 2 ^ (b * (digits b ?q - 1)) \<le> 2 ^ b * ?q" by (intro mult_left_mono) auto
    moreover have "b + b * (digits b ?q - 1) = b * (digits b v - 1)"
      using IH'(2) d by (cases "digits b ?q") simp_all
    then have "(2::int) ^ (b * (digits b v - 1)) = 2 ^ b * 2 ^ (b * (digits b ?q - 1))"
      by (metis power_add)
    ultimately have "2 ^ (b * (digits b v - 1)) \<le> v" using v m(1) by linarith
    with up d show ?thesis by simp
  qed
qed

lemma digits_unique:
  assumes "0 < b" and "0 \<le> v" and "v < 2 ^ (b * k)" and "1 \<le> k" and "k = 1 \<or> 2 ^ (b * (k - 1)) \<le> v"
  shows "digits b v = k"
proof (rule ccontr)
  assume "digits b v \<noteq> k"
  note d = digits_bounds [OF assms(1,2)]
  consider "digits b v < k" | "k < digits b v" using \<open>digits b v \<noteq> k\<close> by linarith
  then show False
  proof cases
    case 1
    then have "(2::int) ^ (b * digits b v) \<le> 2 ^ (b * (k - 1))"
      using d by (intro power_increasing mult_le_mono2) auto
    then show False using d assms(5) 1 by linarith
  next
    case 2
    then have "(2::int) ^ (b * k) \<le> 2 ^ (b * (digits b v - 1))"
      by (intro power_increasing mult_le_mono2) auto
    then show False using d assms(3,4) 2 by linarith
  qed
qed

abbreviation bit_width :: "int \<Rightarrow> nat" where "bit_width \<equiv> digits 1"
abbreviation octet_count :: "int \<Rightarrow> nat" where "octet_count \<equiv> digits 8"

lemma octet_count_pos: "1 \<le> octet_count v"
  by (subst digits.simps) simp

lemma octet_count_le: "0 \<le> v \<Longrightarrow> 1 \<le> n \<Longrightarrow> octet_count v \<le> n \<longleftrightarrow> v < 2 ^ (8 * n)"
proof
  assume "0 \<le> v" "octet_count v \<le> n"
  moreover from this have "(2::int) ^ (8 * octet_count v) \<le> 2 ^ (8 * n)" by (intro power_increasing) auto
  ultimately show "v < 2 ^ (8 * n)" using digits_bounds [of 8 v] by linarith
next
  assume v: "0 \<le> v" "1 \<le> n" "v < 2 ^ (8 * n)"
  show "octet_count v \<le> n"
  proof (rule ccontr)
    assume "\<not> octet_count v \<le> n"
    then have "(2::int) ^ (8 * n) \<le> 2 ^ (8 * (octet_count v - 1))" by (intro power_increasing) auto
    then show False using digits_bounds [of 8 v] v \<open>\<not> octet_count v \<le> n\<close> by linarith
  qed
qed

section \<open>Big-endian octets of a number\<close>

fun be_octets :: "nat \<Rightarrow> int \<Rightarrow> u8 list" where
  "be_octets 0 v = []" |
  "be_octets (Suc k) v = word_of_int (drop_bit (8 * k) v) # be_octets k v"

lemma length_be_octets [simp]: "length (be_octets k v) = k"
  by (induction k) simp_all

lemma octet_join: "push_bit 8 (drop_bit (8 + m) v) OR uint (word_of_int (drop_bit m v) :: u8) = drop_bit m (v :: int)"
proof (rule bit_eqI)
  fix i
  show "bit (push_bit 8 (drop_bit (8 + m) v) OR uint (word_of_int (drop_bit m v) :: u8)) i = bit (drop_bit m v) i"
    by (cases "i < 8") (auto simp: bit_or_iff bit_push_bit_iff bit_drop_bit_eq bit_uint_iff bit_word_of_int_iff
      simp flip: add.assoc)
qed

lemma bytes_bits_be_octets: "bytes_bits (be_octets k v) = val_bits (8 * k) v"
proof (induction k)
  case (Suc k)
  then show ?case
    using val_bits_split [of 8 "8 * k" v] by (simp add: bytes_bits_Cons byte_bits_word_of_int)
qed simp

lemma octet_or: "0 \<le> low \<Longrightarrow> low < 256 \<Longrightarrow> push_bit 8 a OR low = 256 * a + (low::int)"
  using concat_bit_eq [of 8 low a]
  by (simp add: concat_bit_def or.commute add.commute take_bit_int_eq_self push_bit_eq_mult mult.commute)

end
