(* ===== verification/Asn_Bit_Data.thy ===== *)
theory Asn_Bit_Data
  imports Bit_Lists "HOL-Library.Sublist"
begin

unbundle bit_operations_syntax

text \<open>
  The bit stream of the packed encodings (\<open>asn_bit_data.c\<close>, \<open>asn_bit_data.h\<close>): a reader over a
  buffer of bytes and a writer that collects bits in a 32 byte scratch area and hands complete
  bytes to an output callback.

  \<open>pd_buffer\<close> holds the bytes from the reader's current pointer on; the bytes the pointer has
  moved past are never looked at again.  Every reader of the code base is created over one
  contiguous buffer with a null \<open>refill\<close> pointer (the only function that sets it is compiled
  out), so a read beyond the end takes the branch that returns \<open>-1\<close>.
\<close>

section \<open>Reader\<close>

record asn_bit_data =
  pd_buffer :: "u8 list"
  pd_nboff :: nat
  pd_nbits :: nat
  pd_moved :: u64

text \<open>
  \<open>calloc_ok\<close> tells whether the allocation of that many octets (besides the structure) succeeds; the
  null pointer is the inner \<^term>\<open>None\<close>.
\<close>

definition asn_bit_data_new_contiguous ::
  "(nat \<Rightarrow> bool) \<Rightarrow> u8 list \<Rightarrow> nat \<Rightarrow> asn_bit_data option option" where
  "asn_bit_data_new_contiguous calloc_ok data size_bits =
    (let size_bytes = (size_bits + 7) div 8 in
     if \<not> calloc_ok (size_bytes + 1) then Some None
     else Option.bind (c_slice data 0 size_bytes) (\<lambda>bytes.
       Some (Some \<lparr>pd_buffer = bytes @ [0], pd_nboff = 0, pd_nbits = size_bits, pd_moved = 0\<rparr>)))"

text \<open>An undo past the beginning does nothing: the assertion in that branch repeats its guard.\<close>

definition asn_get_undo :: "int \<Rightarrow> asn_bit_data \<Rightarrow> asn_bit_data" where
  "asn_get_undo nbits pd =
    (if int (pd_nboff pd) < nbits then pd
     else pd\<lparr>pd_nboff := nat (int (pd_nboff pd) - nbits),
             pd_moved := pd_moved pd - word_of_int nbits\<rparr>)"

definition pd_normalize :: "asn_bit_data \<Rightarrow> asn_bit_data" where
  "pd_normalize pd =
    (if 8 \<le> pd_nboff pd
     then pd\<lparr>pd_buffer := drop (pd_nboff pd div 8) (pd_buffer pd),
             pd_nbits := pd_nbits pd - 8 * (pd_nboff pd div 8),
             pd_nboff := pd_nboff pd mod 8\<rparr>
     else pd)"

text \<open>The shifted big-endian group that holds the wanted bits, for an end offset up to 31.\<close>

definition pd_accum :: "u8 list \<Rightarrow> nat \<Rightarrow> int \<Rightarrow> int option" where
  "pd_accum buf off nbits =
    (if off \<le> 8 then
       (if nbits = 0 then Some 0
        else Option.bind (nth_opt buf 0) (\<lambda>b0. Some (drop_bit (8 - off) (uint b0))))
     else if off \<le> 16 then
       Option.bind (nth_opt buf 0) (\<lambda>b0. Option.bind (nth_opt buf 1) (\<lambda>b1.
         Some (drop_bit (16 - off) (push_bit 8 (uint b0) + uint b1))))
     else if off \<le> 24 then
       Option.bind (nth_opt buf 0) (\<lambda>b0. Option.bind (nth_opt buf 1) (\<lambda>b1.
         Option.bind (nth_opt buf 2) (\<lambda>b2.
           Some (drop_bit (24 - off) (push_bit 16 (uint b0) + push_bit 8 (uint b1) + uint b2)))))
     else
       Option.bind (nth_opt buf 0) (\<lambda>b0. Option.bind (nth_opt buf 1) (\<lambda>b1.
         Option.bind (nth_opt buf 2) (\<lambda>b2. Option.bind (nth_opt buf 3) (\<lambda>b3.
           Some (drop_bit (32 - off)
             (push_bit 24 (uint b0) + push_bit 16 (uint b1) + push_bit 8 (uint b2) + uint b3)))))))"

lemma pd_normalize_nboff_less: "pd_nboff (pd_normalize pd) < 8"
  by (simp add: pd_normalize_def)

function asn_get_few_bits :: "int \<Rightarrow> asn_bit_data \<Rightarrow> (int \<times> asn_bit_data) option" where
  "asn_get_few_bits nbits pd =
    (if nbits < 0 then Some (- 1, pd)
     else if int (pd_nbits pd) - int (pd_nboff pd) < nbits then Some (- 1, pd)
     else
       let pd = pd_normalize pd;
           pd = pd\<lparr>pd_moved := pd_moved pd + word_of_int nbits,
                   pd_nboff := pd_nboff pd + nat nbits\<rparr>;
           off = pd_nboff pd
       in if off \<le> 31 then
            Option.bind (pd_accum (pd_buffer pd) off nbits)
              (\<lambda>accum. Some (take_bit (nat nbits) accum, pd))
          else if nbits \<le> 31 then
            Option.bind (asn_get_few_bits (nbits - 24) (asn_get_undo nbits pd)) (\<lambda>(high, tpd).
              Option.bind (asn_get_few_bits 24 tpd) (\<lambda>(low, tpd).
                Some (take_bit (nat nbits) (push_bit 24 high OR low), pd)))
          else Some (- 1, asn_get_undo nbits pd))"
  by pat_completeness auto

termination
proof (relation "measure (\<lambda>(n, _). nat n)", goal_cases)
  case 1
  show ?case by simp
next
  case (2 n pd pd1 pd2 off)
  then show ?case using pd_normalize_nboff_less [of pd] by auto
next
  case (3 n pd pd1 pd2 off z x y)
  have "24 < n" using 3 pd_normalize_nboff_less [of pd] by auto
  then show ?case by simp
qed

declare asn_get_few_bits.simps [simp del]

text \<open>
  The bytes of a multi-octet read: whole groups of 24 bits, then the rest left-aligned; with
  \<open>alright\<close> the odd bits come first, right-aligned in a byte of their own.  The bytes stored
  through \<open>dst\<close> are returned, also when the read fails part way.
\<close>

fun get_many_loop :: "nat \<Rightarrow> u8 list \<Rightarrow> asn_bit_data \<Rightarrow> (int \<times> u8 list \<times> asn_bit_data) option" where
  "get_many_loop nbits dst pd =
    (if nbits = 0 then Some (0, dst, pd)
     else if 24 \<le> nbits then
       Option.bind (asn_get_few_bits 24 pd) (\<lambda>(value, pd).
         if value < 0 then Some (- 1, dst, pd)
         else get_many_loop (nbits - 24)
           (dst @ [word_of_int (drop_bit 16 value), word_of_int (drop_bit 8 value),
                   word_of_int value]) pd)
     else
       Option.bind (asn_get_few_bits (int nbits) pd) (\<lambda>(value, pd).
         if value < 0 then Some (- 1, dst, pd)
         else
           let part = nbits mod 8;
               value = (if part \<noteq> 0 then push_bit (8 - part) value else value);
               full = (if part \<noteq> 0 then nbits + (8 - part) else nbits)
           in Some (0, dst
                @ (if part \<noteq> 0 \<and> 24 < full then [word_of_int (drop_bit 24 value)] else [])
                @ (if 16 < full then [word_of_int (drop_bit 16 value)] else [])
                @ (if 8 < full then [word_of_int (drop_bit 8 value)] else [])
                @ [word_of_int value], pd)))"

declare get_many_loop.simps [simp del]

definition asn_get_many_bits ::
  "asn_bit_data \<Rightarrow> bool \<Rightarrow> nat \<Rightarrow> (int \<times> u8 list \<times> asn_bit_data) option" where
  "asn_get_many_bits pd alright nbits =
    (if alright \<and> nbits mod 8 \<noteq> 0 then
       Option.bind (asn_get_few_bits (int (nbits mod 8)) pd) (\<lambda>(value, pd).
         if value < 0 then Some (- 1, [], pd)
         else get_many_loop (nbits - nbits mod 8) [word_of_int value] pd)
     else get_many_loop nbits [] pd)"

section \<open>What a reader has left\<close>

definition pd_rest :: "asn_bit_data \<Rightarrow> bool list" where
  "pd_rest pd = drop (pd_nboff pd) (take (pd_nbits pd) (bytes_bits (pd_buffer pd)))"

definition pd_wf :: "asn_bit_data \<Rightarrow> bool" where
  "pd_wf pd \<longleftrightarrow> pd_nboff pd \<le> pd_nbits pd \<and> pd_nbits pd \<le> 8 * length (pd_buffer pd)"

text \<open>
  \<open>pd_took pd n pd'\<close>: \<open>pd'\<close> is \<open>pd\<close> with exactly \<open>n\<close> more bits consumed; the end of the data stays
  where it is.
\<close>

definition pd_took :: "asn_bit_data \<Rightarrow> nat \<Rightarrow> asn_bit_data \<Rightarrow> bool" where
  "pd_took pd n pd' \<longleftrightarrow>
     pd_wf pd' \<and> n \<le> length (pd_rest pd) \<and> pd_rest pd' = drop n (pd_rest pd) \<and>
     pd_nboff pd' mod 8 = (pd_nboff pd + n) mod 8 \<and>
     pd_moved pd' = pd_moved pd + of_nat n \<and>
     length (pd_buffer pd') \<le> length (pd_buffer pd) \<and>
     8 * length (pd_buffer pd') + pd_nbits pd = 8 * length (pd_buffer pd) + pd_nbits pd'"

named_theorems pd_intros \<open>how the reader's operations move it\<close>

lemma length_pd_rest: "pd_wf pd \<Longrightarrow> length (pd_rest pd) = pd_nbits pd - pd_nboff pd"
  by (simp add: pd_rest_def pd_wf_def)

lemma pd_took_refl: "pd_wf pd \<Longrightarrow> pd_took pd 0 pd"
  by (simp add: pd_took_def)

lemma pd_took_trans:
  assumes "pd_took pd m pd1" and "pd_took pd1 n pd2"
  shows "pd_took pd (m + n) pd2"
proof -
  have "pd_nboff pd2 mod 8 = (pd_nboff pd1 mod 8 + n) mod 8"
    using assms(2) by (simp add: pd_took_def mod_add_left_eq)
  also have "\<dots> = (pd_nboff pd + m + n) mod 8"
    using assms(1) by (simp add: pd_took_def mod_add_left_eq)
  finally show ?thesis using assms by (auto simp: pd_took_def add_ac)
qed

lemma pd_took_wf: "pd_took pd n pd' \<Longrightarrow> pd_wf pd'"
  by (simp add: pd_took_def)

lemma pd_normalize_wf [simp]: "pd_wf pd \<Longrightarrow> pd_wf (pd_normalize pd)"
  by (auto simp: pd_wf_def pd_normalize_def) (simp_all add: minus_mod_eq_mult_div [symmetric])

lemma pd_normalize_moved [simp]: "pd_moved (pd_normalize pd) = pd_moved pd"
  by (simp add: pd_normalize_def)

lemma pd_normalize_rest [simp]: "pd_wf pd \<Longrightarrow> pd_rest (pd_normalize pd) = pd_rest pd"
proof (cases "8 \<le> pd_nboff pd")
  case True
  let ?q = "pd_nboff pd div 8"
  have "pd_rest (pd_normalize pd) =
      drop (pd_nboff pd mod 8) (take (pd_nbits pd - 8 * ?q) (drop (8 * ?q) (bytes_bits (pd_buffer pd))))"
    using True by (simp add: pd_rest_def pd_normalize_def drop_bytes_bits)
  also have "\<dots> = drop (8 * ?q + pd_nboff pd mod 8) (take (pd_nbits pd) (bytes_bits (pd_buffer pd)))"
    by (simp add: drop_take [symmetric] add.commute)
  also have "8 * ?q + pd_nboff pd mod 8 = pd_nboff pd" by simp
  finally show ?thesis by (simp add: pd_rest_def)
qed (simp add: pd_normalize_def)

lemma pd_normalize_end [simp]:
  "pd_wf pd \<Longrightarrow> 8 * length (pd_buffer (pd_normalize pd)) + pd_nbits pd =
    8 * length (pd_buffer pd) + pd_nbits (pd_normalize pd)"
proof -
  assume wf: "pd_wf pd"
  have "8 * (pd_nboff pd div 8) \<le> pd_nboff pd" by simp
  with wf have "8 * (pd_nboff pd div 8) \<le> pd_nbits pd" "8 * (pd_nboff pd div 8) \<le> 8 * length (pd_buffer pd)"
    unfolding pd_wf_def by linarith+
  then show ?thesis by (auto simp: pd_normalize_def diff_mult_distrib2)
qed

lemma pd_normalize_shrinks [simp]: "length (pd_buffer (pd_normalize pd)) \<le> length (pd_buffer pd)"
  by (simp add: pd_normalize_def)

lemma pd_normalize_took [simp]: "pd_wf pd \<Longrightarrow> pd_took pd 0 (pd_normalize pd)"
  by (auto simp: pd_took_def) (simp add: pd_normalize_def)

section \<open>Reads return the next bits\<close>

text \<open>A window of the first \<open>m\<close> bytes, as the shifts of \<open>pd_accum\<close> compute it.\<close>

lemma window_of_bytes:
  assumes "n \<le> off" and "off \<le> 8 * m" and "m \<le> length buf"
  shows "take_bit n (drop_bit (8 * m - off) (bits_val (bytes_bits (take m buf)))) =
    bits_val (take n (drop (off - n) (bytes_bits buf)))"
proof -
  let ?B = "bytes_bits (take m buf)"
  have "take n (drop (off - n) (bytes_bits buf)) = take n (drop (off - n) (take (8 * m) (bytes_bits buf)))"
  proof -
    have "n \<le> 8 * m - (off - n)" using assms by linarith
    then show ?thesis by (simp add: drop_take min_absorb1)
  qed
  then show ?thesis
    using bits_val_window [of n off ?B] assms by (simp add: take_bytes_bits)
qed

lemma pd_accum_window:
  assumes "n \<le> off" and "off \<le> 31" and "off \<le> 8 * length buf"
  shows "\<exists>a. pd_accum buf off (int n) = Some a \<and>
    take_bit n a = bits_val (take n (drop (off - n) (bytes_bits buf)))"
proof -
  consider "n = 0 \<and> off \<le> 8" | "n \<noteq> 0 \<and> off \<le> 8" | "8 < off \<and> off \<le> 16" | "16 < off \<and> off \<le> 24" | "24 < off"
    by linarith
  then show ?thesis
  proof cases
    case 1
    then show ?thesis by (simp add: pd_accum_def)
  next
    case 2
    with assms obtain b0 bs where b: "buf = b0 # bs" by (cases buf) auto
    show ?thesis
      using window_of_bytes [of n off 1 buf] 2 assms
      by (simp add: pd_accum_def b bytes_bits_Cons bits_val_byte_bits)
  next
    case 3
    with assms have "2 \<le> length buf" by simp
    then obtain b0 b1 bs where b: "buf = b0 # b1 # bs"
      by (auto simp: numeral_2_eq_2 Suc_le_length_iff)
    show ?thesis
      using window_of_bytes [of n off 2 buf] 3 assms
      by (simp add: pd_accum_def b bits_val_two numeral_2_eq_2)
  next
    case 4
    with assms have "3 \<le> length buf" by simp
    then obtain b0 b1 b2 bs where b: "buf = b0 # b1 # b2 # bs"
      by (auto simp: numeral_3_eq_3 Suc_le_length_iff)
    show ?thesis
      using window_of_bytes [of n off 3 buf] 4 assms
      by (simp add: pd_accum_def b bits_val_three numeral_2_eq_2 numeral_3_eq_3)
  next
    case 5
    with assms have "Suc (Suc (Suc (Suc 0))) \<le> length buf" by simp
    then obtain b0 b1 b2 b3 bs where b: "buf = b0 # b1 # b2 # b3 # bs"
      by (auto simp: Suc_le_length_iff)
    show ?thesis
      using window_of_bytes [of n off 4 buf] 5 assms
      by (simp add: pd_accum_def b bits_val_four numeral_2_eq_2 numeral_3_eq_3)
  qed
qed

lemma pd_took_advance:
  assumes "pd_wf pd" and "pd_nboff pd < 8" and "n \<le> length (pd_rest pd)"
  shows "pd_took pd n (pd\<lparr>pd_moved := pd_moved pd + word_of_int (int n), pd_nboff := pd_nboff pd + n\<rparr>)"
  using assms by (auto simp: pd_took_def pd_wf_def pd_rest_def add.commute)

lemma take_pd_rest:
  "pd_wf pd \<Longrightarrow> n \<le> length (pd_rest pd) \<Longrightarrow>
    take n (pd_rest pd) = take n (drop (pd_nboff pd) (bytes_bits (pd_buffer pd)))"
  by (auto simp: pd_rest_def pd_wf_def drop_take)

text \<open>
  Reading \<open>n\<close> (at most 31) of the bits that are left returns their value and moves the reader
  over exactly those bits; in particular every access stays inside the buffer.
\<close>

lemma asn_get_few_bits_short:
  assumes wf: "pd_wf pd" and n: "n \<le> length (pd_rest pd)" and off: "pd_nboff pd mod 8 + n \<le> 31"
  shows "\<exists>pd'. asn_get_few_bits (int n) pd = Some (bits_val (take n (pd_rest pd)), pd') \<and>
    pd_took pd n pd' \<and> pd_nboff pd' = pd_nboff pd mod 8 + n"
proof -
  let ?q = "pd_normalize pd"
  let ?pd' = "?q\<lparr>pd_moved := pd_moved ?q + word_of_int (int n), pd_nboff := pd_nboff ?q + n\<rparr>"
  have nboff: "pd_nboff ?q = pd_nboff pd mod 8" by (simp add: pd_normalize_def)
  have wfq: "pd_wf ?q" and rest: "pd_rest ?q = pd_rest pd" using wf by simp_all
  have took: "pd_took ?q n ?pd'"
    using pd_took_advance [of ?q n] wfq rest n pd_normalize_nboff_less by simp
  with pd_normalize_took [OF wf] have "pd_took pd (0 + n) ?pd'" by (rule pd_took_trans)
  moreover have "pd_nboff ?q + n \<le> 8 * length (pd_buffer ?q)"
    using took by (auto simp: pd_took_def pd_wf_def)
  then obtain a where a: "pd_accum (pd_buffer ?q) (pd_nboff ?q + n) (int n) = Some a"
      "take_bit n a = bits_val (take n (drop (pd_nboff ?q) (bytes_bits (pd_buffer ?q))))"
    using pd_accum_window [of n "pd_nboff ?q + n" "pd_buffer ?q"] off nboff by auto
  moreover have "take n (pd_rest ?q) = take n (drop (pd_nboff ?q) (bytes_bits (pd_buffer ?q)))"
    using n rest by (intro take_pd_rest [OF wfq]) simp
  ultimately show ?thesis
    using n length_pd_rest [OF wf] wf off nboff rest
    by (subst asn_get_few_bits.simps) (auto simp: pd_wf_def Let_def)
qed

lemma pd_undo_advance:
  "asn_get_undo (int n) (pd\<lparr>pd_moved := pd_moved pd + word_of_int (int n), pd_nboff := pd_nboff pd + n\<rparr>) = pd"
  by (simp add: asn_get_undo_def)

lemma bits_val_two_reads:
  assumes "24 \<le> n" and "n \<le> length bs"
  shows "push_bit 24 (bits_val (take (n - 24) bs)) OR bits_val (take 24 (drop (n - 24) bs)) =
    bits_val (take n bs)"
proof -
  have l: "length (take 24 (drop (n - 24) bs)) = 24" using assms by simp
  have "take n bs = take (n - 24) bs @ take 24 (drop (n - 24) bs)"
    using assms by (metis le_add_diff_inverse2 take_add)
  moreover have "take_bit 24 (bits_val (take 24 (drop (n - 24) bs))) = bits_val (take 24 (drop (n - 24) bs))"
    using bits_val_less [of "take 24 (drop (n - 24) bs)"] l by (simp add: take_bit_int_eq_self)
  then have "push_bit 24 x OR bits_val (take 24 (drop (n - 24) bs)) =
      push_bit 24 x + bits_val (take 24 (drop (n - 24) bs))" for x
    using concat_bit_eq [of 24 "bits_val (take 24 (drop (n - 24) bs))" x]
    by (simp add: concat_bit_def or.commute add.commute)
  ultimately show ?thesis using l by (simp add: bits_val_append push_bit_eq_mult)
qed

lemma asn_get_few_bits_ok:
  assumes wf: "pd_wf pd" and n: "n \<le> length (pd_rest pd)" and "n \<le> 31"
  shows "\<exists>pd'. asn_get_few_bits (int n) pd = Some (bits_val (take n (pd_rest pd)), pd') \<and> pd_took pd n pd'"
proof (cases "pd_nboff pd mod 8 + n \<le> 31")
  case True
  then show ?thesis using asn_get_few_bits_short [OF wf n] by blast
next
  case False
  then have n24: "24 < n" using pd_normalize_nboff_less [of pd] by simp
  let ?q = "pd_normalize pd"
  let ?pd' = "?q\<lparr>pd_moved := pd_moved ?q + word_of_int (int n), pd_nboff := pd_nboff ?q + n\<rparr>"
  have nboff: "pd_nboff ?q = pd_nboff pd mod 8" by (simp add: pd_normalize_def)
  have wfq: "pd_wf ?q" and rest: "pd_rest ?q = pd_rest pd" using wf by simp_all
  have took: "pd_took ?q n ?pd'"
    using pd_took_advance [of ?q n] wfq rest n pd_normalize_nboff_less by simp
  have took': "pd_took pd n ?pd'"
    using pd_took_trans [OF pd_normalize_took [OF wf] took] by simp
  have bound: "pd_nboff ?q mod 8 + (n - 24) \<le> 31"
    using \<open>n \<le> 31\<close> pd_normalize_nboff_less [of pd] by linarith
  have le: "n - 24 \<le> length (pd_rest ?q)" using n rest by simp
  obtain q1 where q1: "asn_get_few_bits (int (n - 24)) ?q =
      Some (bits_val (take (n - 24) (pd_rest pd)), q1)" "pd_took ?q (n - 24) q1"
      "pd_nboff q1 = pd_nboff ?q mod 8 + (n - 24)"
    using asn_get_few_bits_short [OF wfq le bound] rest by auto
  have q1': "pd_rest q1 = drop (n - 24) (pd_rest pd)" "pd_wf q1"
    using q1(2) rest by (simp_all add: pd_took_def)
  have le24: "24 \<le> length (pd_rest q1)" using q1'(1) n n24 by simp
  have b24: "pd_nboff q1 mod 8 + 24 \<le> 31" by presburger
  obtain q2 where q2: "asn_get_few_bits (int 24) q1 =
      Some (bits_val (take 24 (drop (n - 24) (pd_rest pd))), q2)"
    using asn_get_few_bits_short [OF q1'(2) le24 b24] q1'(1) by auto
  have "take_bit n (bits_val (take n (pd_rest pd))) = bits_val (take n (pd_rest pd))"
    using bits_val_less [of "take n (pd_rest pd)"] n by (simp add: take_bit_int_eq_self)
  moreover have enough: "\<not> int (pd_nbits pd) - int (pd_nboff pd) < int n"
    using wf n length_pd_rest [OF wf] unfolding pd_wf_def by linarith
  have "asn_get_few_bits (int n) pd = Some (take_bit n (push_bit 24
      (bits_val (take (n - 24) (pd_rest pd))) OR bits_val (take 24 (drop (n - 24) (pd_rest pd)))), ?pd')"
    using False n24 enough n \<open>n \<le> 31\<close> nboff q1(1) q2 pd_undo_advance [of n ?q]
    by (subst asn_get_few_bits.simps) (simp add: Let_def of_nat_diff)
  ultimately show ?thesis
    using took' bits_val_two_reads [of n "pd_rest pd"] n n24 by auto
qed

lemma asn_get_few_bits_eof:
  assumes "pd_wf pd" and "length (pd_rest pd) < n"
  shows "asn_get_few_bits (int n) pd = Some (- 1, pd)"
  using assms length_pd_rest [of pd] by (subst asn_get_few_bits.simps) (auto simp: pd_wf_def)

text \<open>Every read of up to 31 bits either yields the next bits or reports the end of the data.\<close>

lemma asn_get_few_bits_cases:
  assumes "pd_wf pd" and "n \<le> 31"
  obtains (got) pd' where "n \<le> length (pd_rest pd)" "pd_took pd n pd'"
      "asn_get_few_bits (int n) pd = Some (bits_val (take n (pd_rest pd)), pd')"
  | (eof) "length (pd_rest pd) < n" "asn_get_few_bits (int n) pd = Some (- 1, pd)"
  using asn_get_few_bits_ok [of pd n] asn_get_few_bits_eof [of pd n] assms by (meson not_le)

lemma asn_get_few_bits_wide:
  assumes "pd_wf pd" and "31 < n"
  shows "\<exists>pd'. asn_get_few_bits (int n) pd = Some (- 1, pd') \<and> pd_took pd 0 pd'"
proof (cases "length (pd_rest pd) < n")
  case True
  then show ?thesis using assms asn_get_few_bits_eof pd_took_refl by blast
next
  case False
  then have "asn_get_few_bits (int n) pd = Some (- 1, pd_normalize pd)"
    using assms length_pd_rest [of pd] pd_undo_advance [of n "pd_normalize pd"]
    by (subst asn_get_few_bits.simps) (simp add: Let_def)
  then show ?thesis using assms pd_normalize_took by blast
qed

section \<open>Multi-octet reads\<close>

lemma bytes_bits_single: "bytes_bits [word_of_int v] = val_bits 8 v"
  by (simp add: bytes_bits_Cons byte_bits_word_of_int)

lemma bytes_bits_double: "bytes_bits [word_of_int (drop_bit 8 v), word_of_int v] = val_bits 16 v"
  using val_bits_split [of 8 8 v] by (simp add: bytes_bits_Cons byte_bits_word_of_int)

lemma bytes_bits_triple:
  "bytes_bits [word_of_int (drop_bit 16 v), word_of_int (drop_bit 8 v), word_of_int v] = val_bits 24 v"
  using val_bits_split [of 8 16 v] val_bits_split [of 8 8 v]
  by (simp add: bytes_bits_Cons byte_bits_word_of_int)

lemmas bytes_bits_groups = bytes_bits_single bytes_bits_double bytes_bits_triple

definition odd_pad :: "nat \<Rightarrow> bool list" where
  "odd_pad n = (if n mod 8 = 0 then [] else replicate (8 - n mod 8) False)"

lemma odd_pad_mult [simp]: "odd_pad (8 * k) = []"
  by (simp add: odd_pad_def)

lemma odd_pad_add24: "24 \<le> n \<Longrightarrow> odd_pad (n - 24) = odd_pad n"
  using mod_mult_self1 [of "n - 24" 3 8] by (simp add: odd_pad_def)

lemma get_many_tail:
  assumes "0 < n" and "n < 24" and "length bs = n" and vl: "val = bits_val bs"
    and eqs: "part = n mod 8" "v = (if part \<noteq> 0 then push_bit (8 - part) val else val)"
    "full = (if part \<noteq> 0 then n + (8 - part) else n)"
  shows "bytes_bits ((if part \<noteq> 0 \<and> 24 < full then [word_of_int (drop_bit 24 v)] else [])
      @ (if 16 < full then [word_of_int (drop_bit 16 v)] else [])
      @ (if 8 < full then [word_of_int (drop_bit 8 v)] else [])
      @ [word_of_int v]) = bs @ odd_pad n"
proof -
  let ?B = "bs @ odd_pad n"
  have v: "v = bits_val ?B" and len: "length ?B = full"
    using assms by (auto simp: odd_pad_def bits_val_append push_bit_eq_mult)
  have "full = 8 \<or> full = 16 \<or> full = 24"
    using assms(1,2) eqs(1,3) by (auto split: if_splits) presburger+
  moreover have "val_bits full v = ?B" using val_bits_bits_val [of ?B] v len by simp
  ultimately show ?thesis by (auto simp: bytes_bits_groups simp del: bytes_bits_append)
qed

lemma get_many_loop_ok:
  "pd_wf pd \<Longrightarrow> n \<le> length (pd_rest pd) \<Longrightarrow>
    \<exists>ds pd'. get_many_loop n dst pd = Some (0, dst @ ds, pd') \<and> pd_took pd n pd' \<and>
      bytes_bits ds = take n (pd_rest pd) @ odd_pad n"
proof (induction n arbitrary: dst pd rule: less_induct)
  case (less n)
  consider "n = 0" | "24 \<le> n" | "0 < n" "n < 24" by linarith
  then show ?case
  proof cases
    case 1
    then show ?thesis using less.prems by (simp add: get_many_loop.simps pd_took_refl odd_pad_def)
  next
    case 2
    let ?v = "bits_val (take 24 (pd_rest pd))"
    let ?g = "[word_of_int (drop_bit 16 ?v), word_of_int (drop_bit 8 ?v), word_of_int ?v] :: u8 list"
    obtain pd1 where get: "asn_get_few_bits 24 pd = Some (?v, pd1)" and took: "pd_took pd 24 pd1"
      using asn_get_few_bits_ok [of pd 24] less.prems 2 by auto
    have rest1: "pd_rest pd1 = drop 24 (pd_rest pd)" "pd_wf pd1" using took by (simp_all add: pd_took_def)
    moreover have "n - 24 \<le> length (pd_rest pd1)" using rest1 less.prems by simp
    ultimately obtain ds pd' where ds: "get_many_loop (n - 24) (dst @ ?g) pd1 = Some (0, (dst @ ?g) @ ds, pd')"
        "pd_took pd1 (n - 24) pd'" "bytes_bits ds = take (n - 24) (pd_rest pd1) @ odd_pad (n - 24)"
      using less.IH [of "n - 24" pd1 "dst @ ?g"] 2 by auto
    have "val_bits 24 ?v = take 24 (pd_rest pd)"
      using val_bits_bits_val [of "take 24 (pd_rest pd)"] 2 less.prems by simp
    moreover have "take n (pd_rest pd) = take 24 (pd_rest pd) @ take (n - 24) (pd_rest pd1)"
      using 2 rest1 by (metis le_add_diff_inverse take_add)
    ultimately have "bytes_bits (?g @ ds) = take n (pd_rest pd) @ odd_pad n"
      unfolding bytes_bits_append bytes_bits_triple ds(3) by (simp add: odd_pad_add24 2)
    moreover have "get_many_loop n dst pd = Some (0, dst @ (?g @ ds), pd')"
      using 2 get ds(1) by (subst get_many_loop.simps) simp
    moreover have "pd_took pd n pd'" using pd_took_trans [OF took ds(2)] 2 by simp
    ultimately show ?thesis by blast
  next
    case 3
    obtain pd1 where get: "asn_get_few_bits (int n) pd = Some (bits_val (take n (pd_rest pd)), pd1)"
      and took: "pd_took pd n pd1"
      using asn_get_few_bits_ok [of pd n] less.prems 3 by auto
    from get_many_tail [OF 3 _ refl refl refl refl, of "take n (pd_rest pd)"] less.prems
    show ?thesis using 3 get took by (subst get_many_loop.simps) (auto simp: Let_def)
  qed
qed

lemma get_many_loop_eof:
  "pd_wf pd \<Longrightarrow> length (pd_rest pd) < n \<Longrightarrow> \<exists>ds pd'. get_many_loop n dst pd = Some (- 1, ds, pd')"
proof (induction n arbitrary: dst pd rule: less_induct)
  case (less n)
  show ?case
  proof (cases "24 \<le> n \<and> 24 \<le> length (pd_rest pd)")
    case True
    obtain pd1 v where get: "asn_get_few_bits 24 pd = Some (v, pd1)" "0 \<le> v" and took: "pd_took pd 24 pd1"
      using asn_get_few_bits_ok [of pd 24] less.prems True by auto
    then show ?thesis
      using less.IH [of "n - 24" pd1] less.prems True
      by (subst get_many_loop.simps) (auto simp: pd_took_def)
  next
    case False
    then show ?thesis
      using asn_get_few_bits_eof [of pd 24] asn_get_few_bits_eof [of pd n] less.prems
      by (subst get_many_loop.simps) auto
  qed
qed

lemma asn_get_many_bits_ok:
  assumes "pd_wf pd" and "n \<le> length (pd_rest pd)"
  shows "\<exists>ds pd'. asn_get_many_bits pd False n = Some (0, ds, pd') \<and> pd_took pd n pd' \<and>
      bytes_bits ds = take n (pd_rest pd) @ odd_pad n"
  using get_many_loop_ok [OF assms, of "[]"] by (simp add: asn_get_many_bits_def)

lemma asn_get_many_bits_eof:
  assumes "pd_wf pd" and "length (pd_rest pd) < n"
  shows "\<exists>ds pd'. asn_get_many_bits pd False n = Some (- 1, ds, pd')"
  using get_many_loop_eof [OF assms, of "[]"] by (simp add: asn_get_many_bits_def)

section \<open>Reading what is known to come next\<close>

text \<open>
  \<open>gets pd bs v res\<close>: the result of a get operation on \<open>pd\<close> is the value \<open>v\<close>, with exactly
  the bits \<open>bs\<close> consumed.
\<close>

definition gets :: "asn_bit_data \<Rightarrow> bool list \<Rightarrow> 'v \<Rightarrow> ('v \<times> asn_bit_data) option \<Rightarrow> bool" where
  "gets pd bs v res \<longleftrightarrow> (\<exists>pd'. res = Some (v, pd') \<and> pd_took pd (length bs) pd')"

text \<open>\<open>pd_at pd bs\<close>: the reader is well formed and \<open>bs\<close> comes next.\<close>

definition pd_at :: "asn_bit_data \<Rightarrow> bool list \<Rightarrow> bool" where
  "pd_at pd bs \<longleftrightarrow> pd_wf pd \<and> prefix bs (pd_rest pd)"

lemma pd_at_wf: "pd_at pd bs \<Longrightarrow> pd_wf pd"
  by (simp add: pd_at_def)

lemma pd_at_prefix: "pd_at pd (as @ bs) \<Longrightarrow> pd_at pd as"
  by (auto simp: pd_at_def dest: append_prefixD)

lemma pd_at_took: "pd_at pd (as @ bs) \<Longrightarrow> pd_took pd (length as) pd' \<Longrightarrow> pd_at pd' bs"
  by (auto simp: pd_at_def pd_took_def prefix_def)

lemma pd_took_phase: "pd_took pd n pd' \<Longrightarrow> pd_nboff pd' mod 8 = (pd_nboff pd + n) mod 8"
  by (simp add: pd_took_def)

lemma gets_nothing: "pd_wf pd \<Longrightarrow> gets pd [] v (Some (v, pd))"
  by (simp add: gets_def pd_took_refl)

lemma gets_then:
  assumes "gets pd as v res" and "\<And>pd1. pd_took pd (length as) pd1 \<Longrightarrow> gets pd1 bs w (f (v, pd1))"
  shows "gets pd (as @ bs) w (Option.bind res f)"
  using assms pd_took_trans by (fastforce simp: gets_def)

lemma gets_few:
  assumes "pd_at pd (val_bits n v)" and "n \<le> 31" and "0 \<le> v" and "v < 2 ^ n"
  shows "gets pd (val_bits n v) v (asn_get_few_bits (int n) pd)"
proof -
  obtain r where r: "pd_rest pd = val_bits n v @ r" "pd_wf pd"
    using assms(1) by (auto simp: pd_at_def prefix_def)
  then show ?thesis
    using asn_get_few_bits_ok [of pd n] assms
    by (auto simp: gets_def bits_val_val_bits_small)
qed

lemma gets_few_bits:
  assumes "pd_at pd bs" and "length bs = n" and "n \<le> 31"
  shows "gets pd bs (bits_val bs) (asn_get_few_bits (int n) pd)"
  using gets_few [of pd n "bits_val bs"] assms bits_val_less [of bs] val_bits_bits_val [of bs] by auto

lemma gets_many:
  assumes "pd_at pd (bytes_bits ds)" and "n = 8 * length ds"
  shows "\<exists>pd'. asn_get_many_bits pd False n = Some (0, ds, pd') \<and> pd_took pd n pd'"
proof -
  obtain r where r: "pd_rest pd = bytes_bits ds @ r" "pd_wf pd"
    using assms(1) by (auto simp: pd_at_def prefix_def)
  then show ?thesis
    using asn_get_many_bits_ok [of pd n] assms(2) by (auto simp: bytes_bits_inject)
qed

section \<open>Reading arbitrary data\<close>

text \<open>
  \<open>reads pd P res\<close>: the result of a get operation is defined, the reader stays well formed and has
  only moved forward, and the returned value satisfies \<open>P\<close>.
\<close>

definition reads :: "asn_bit_data \<Rightarrow> ('v \<Rightarrow> bool) \<Rightarrow> ('v \<times> asn_bit_data) option \<Rightarrow> bool" where
  "reads pd P res \<longleftrightarrow> (\<exists>v pd' n. res = Some (v, pd') \<and> pd_took pd n pd' \<and> P v)"

lemma reads_return: "pd_wf pd \<Longrightarrow> P v \<Longrightarrow> reads pd P (Some (v, pd))"
  unfolding reads_def using pd_took_refl by blast

lemma reads_then:
  assumes "reads pd P res" and "\<And>v pd1. pd_wf pd1 \<Longrightarrow> P v \<Longrightarrow> reads pd1 Q (f (v, pd1))"
  shows "reads pd Q (Option.bind res f)"
proof -
  obtain v pd1 n where r: "res = Some (v, pd1)" "pd_took pd n pd1" "P v" using assms(1) by (auto simp: reads_def)
  then have "reads pd1 Q (f (v, pd1))" using assms(2) pd_took_wf by blast
  then show ?thesis using r pd_took_trans unfolding reads_def by fastforce
qed

lemma reads_mono: "reads pd P res \<Longrightarrow> (\<And>v. P v \<Longrightarrow> Q v) \<Longrightarrow> reads pd Q res"
  by (auto simp: reads_def)

lemma reads_few:
  assumes wf: "pd_wf pd"
  shows "reads pd (\<lambda>v. v = - 1 \<or> 0 \<le> nbits \<and> nbits \<le> 31 \<and> 0 \<le> v \<and> v < 2 ^ nat nbits) (asn_get_few_bits nbits pd)"
proof (cases "nbits < 0")
  case True
  then show ?thesis using wf by (subst asn_get_few_bits.simps) (simp add: reads_return)
next
  case nonneg: False
  then obtain n where n: "nbits = int n" by (metis nonneg_int_cases not_less)
  show ?thesis
  proof (cases "n \<le> 31")
    case True
    with wf show ?thesis
    proof (cases rule: asn_get_few_bits_cases)
      case (got pd')
      then show ?thesis
        using True bits_val_less [of "take n (pd_rest pd)"] unfolding n reads_def by auto
    next
      case eof
      then show ?thesis unfolding n by (simp add: reads_return wf)
    qed
  next
    case False
    then show ?thesis using asn_get_few_bits_wide [OF wf, of n] unfolding n reads_def by fastforce
  qed
qed

end
