(* ===== verification/Asn_Bit_Outp.thy ===== *)
theory Asn_Bit_Outp
  imports Bit_Lists
begin

unbundle bit_operations_syntax

text \<open>
  The bit writer of \<open>asn_bit_data.c\<close>.  Bits are collected in a scratch area of 32 bytes; complete
  bytes go to the callback \<open>po_output\<close> with its key.  \<open>po_buffer\<close> is the offset of the current
  byte in the scratch area (\<^term>\<open>None\<close> for the null pointer the flush code allows for).

  The locale \<open>byte_sink\<close> is the writer's contract with its callback: bytes it accepts are appended
  to what it holds, and it refuses bytes only when they would not fit.
\<close>

record 'k asn_bit_outp =
  po_buffer :: "nat option"
  po_nboff :: nat
  po_nbits :: nat
  po_tmpspace :: "u8 list"
  po_output :: "u8 list \<Rightarrow> 'k \<Rightarrow> int \<times> 'k"
  po_op_key :: 'k
  po_flushed_bytes :: nat

definition po_normalize :: "'k asn_bit_outp \<Rightarrow> 'k asn_bit_outp option" where
  "po_normalize po =
    (if 8 \<le> po_nboff po
     then Option.bind (po_buffer po) (\<lambda>k. Some (po\<lparr>
       po_buffer := Some (k + po_nboff po div 8),
       po_nbits := po_nbits po - 8 * (po_nboff po div 8),
       po_nboff := po_nboff po mod 8\<rparr>))
     else Some po)"

text \<open>Hand the complete bytes to the callback and restart at the beginning of the scratch area.\<close>

definition po_flush_complete :: "'k asn_bit_outp \<Rightarrow> (int \<times> 'k asn_bit_outp) option" where
  "po_flush_complete po =
    (let k = (case po_buffer po of None \<Rightarrow> 0 | Some k \<Rightarrow> k) in
     Option.bind (c_slice (po_tmpspace po) 0 k) (\<lambda>complete.
       let (r, key) = po_output po complete (po_op_key po);
           po = po\<lparr>po_buffer := Some k, po_op_key := key\<rparr>
       in if r < 0 then Some (- 1, po)
          else Option.bind
            (if po_nboff po \<noteq> 0
             then Option.bind (nth_opt (po_tmpspace po) k) (\<lambda>b. Some ((po_tmpspace po)[0 := b]))
             else Some (po_tmpspace po))
            (\<lambda>tmp. Some (0, po\<lparr>po_tmpspace := tmp, po_buffer := Some 0, po_nbits := 8 * 32,
               po_flushed_bytes := po_flushed_bytes po + k\<rparr>))))"

text \<open>Store the bits, the current byte's meaningful high bits kept.\<close>

definition po_store :: "'k asn_bit_outp \<Rightarrow> nat \<Rightarrow> u32 \<Rightarrow> 'k asn_bit_outp option" where
  "po_store po off bits =
    Option.bind (po_buffer po) (\<lambda>k.
    Option.bind (nth_opt (po_tmpspace po) k) (\<lambda>b0.
      let buf = po_tmpspace po;
          old = b0 AND NOT (mask (8 - po_nboff po));
          po = po\<lparr>po_nboff := off\<rparr>
      in
      if off \<le> 8 then
        let bits = push_bit (8 - off) bits in
        Some (po\<lparr>po_tmpspace := buf[k := old OR ucast bits]\<rparr>)
      else if off \<le> 16 then
        let bits = push_bit (16 - off) bits in
        if length buf \<le> k + 1 then None else
        Some (po\<lparr>po_tmpspace := buf[k := old OR ucast (drop_bit 8 bits), k + 1 := ucast bits]\<rparr>)
      else if off \<le> 24 then
        let bits = push_bit (24 - off) bits in
        if length buf \<le> k + 2 then None else
        Some (po\<lparr>po_tmpspace := buf[k := old OR ucast (drop_bit 16 bits),
          k + 1 := ucast (drop_bit 8 bits), k + 2 := ucast bits]\<rparr>)
      else
        let bits = push_bit (32 - off) bits in
        if length buf \<le> k + 3 then None else
        Some (po\<lparr>po_tmpspace := buf[k := old OR ucast (drop_bit 24 bits),
          k + 1 := ucast (drop_bit 16 bits), k + 2 := ucast (drop_bit 8 bits),
          k + 3 := ucast bits]\<rparr>)))"

lemma po_normalize_nboff: "po_normalize po = Some po' \<Longrightarrow> po_nboff po' < 8"
  by (auto simp: po_normalize_def bind_eq_Some_conv split: if_splits)

lemma po_flush_complete_nboff: "po_flush_complete po = Some (r, po') \<Longrightarrow> po_nboff po' = po_nboff po"
  by (auto simp: po_flush_complete_def Let_def split: Option.bind_splits if_splits prod.splits)

function asn_put_few_bits ::
  "'k asn_bit_outp \<Rightarrow> u32 \<Rightarrow> int \<Rightarrow> (int \<times> 'k asn_bit_outp) option" where
  "asn_put_few_bits po bits obits =
    (if obits \<le> 0 \<or> 32 \<le> obits then Some (if obits = 0 then 0 else - 1, po)
     else Option.bind (po_normalize po) (\<lambda>po.
       Option.bind (if po_nbits po < po_nboff po + nat obits then po_flush_complete po
                    else Some (0, po)) (\<lambda>(r, po).
         if r < 0 then Some (- 1, po)
         else
           let off = po_nboff po + nat obits;
               bits = take_bit (nat obits) bits
           in if off \<le> 31 then Option.bind (po_store po off bits) (\<lambda>po. Some (0, po))
              else Option.bind (asn_put_few_bits po (drop_bit (nat (obits - 24)) bits) 24) (\<lambda>(r, po).
                if r \<noteq> 0 then Some (- 1, po)
                else Option.bind (asn_put_few_bits po bits (obits - 24)) (\<lambda>(r, po).
                  Some (if r \<noteq> 0 then - 1 else 0, po))))))"
  by pat_completeness auto

termination
proof (relation "measure (\<lambda>(_, _, n). nat n)", goal_cases)
  case 1
  show ?case by simp
next
  case (2 po bits obits po1 z r po2 off bits')
  then have "po_nboff po2 < 8"
    by (auto split: if_splits dest!: po_normalize_nboff po_flush_complete_nboff)
  with 2 show ?case by auto
next
  case (3 po bits obits po1 z r po2 off bits' z' r' po3)
  then have "po_nboff po2 < 8"
    by (auto split: if_splits dest!: po_normalize_nboff po_flush_complete_nboff)
  with 3 have "24 < obits" by auto
  then show ?case by simp
qed

declare asn_put_few_bits.simps [simp del]

fun asn_put_many_bits ::
  "'k asn_bit_outp \<Rightarrow> u8 list \<Rightarrow> nat \<Rightarrow> (int \<times> 'k asn_bit_outp) option" where
  "asn_put_many_bits po src nbits =
    (if nbits = 0 then Some (0, po)
     else if 24 \<le> nbits then
       Option.bind (nth_opt src 0) (\<lambda>s0. Option.bind (nth_opt src 1) (\<lambda>s1.
       Option.bind (nth_opt src 2) (\<lambda>s2.
         let val = push_bit 16 (ucast s0) OR push_bit 8 (ucast s1) OR ucast s2 in
         Option.bind (asn_put_few_bits po val 24) (\<lambda>(r, po).
           if r \<noteq> 0 then Some (- 1, po)
           else asn_put_many_bits po (drop 3 src) (nbits - 24)))))
     else
       Option.bind (nth_opt src 0) (\<lambda>s0.
       Option.bind (if 8 < nbits then Option.bind (nth_opt src 1) (\<lambda>s1.
                      Some (push_bit 8 (ucast s0) OR ucast s1))
                    else Some (ucast s0)) (\<lambda>val.
       Option.bind (if 16 < nbits then Option.bind (nth_opt src 2) (\<lambda>s2.
                      Some (push_bit 8 val OR ucast s2))
                    else Some val) (\<lambda>val.
         let val = (if nbits mod 8 \<noteq> 0 then drop_bit (8 - nbits mod 8) val else val) in
         Option.bind (asn_put_few_bits po val (int nbits)) (\<lambda>(r, po).
           Some (if r \<noteq> 0 then - 1 else 0, po))))))"

declare asn_put_many_bits.simps [simp del]

definition asn_put_aligned_flush :: "'k asn_bit_outp \<Rightarrow> (int \<times> 'k asn_bit_outp) option" where
  "asn_put_aligned_flush po =
    (let unused_bits = (8 - po_nboff po mod 8) mod 8;
         complete_bytes = (case po_buffer po of None \<Rightarrow> 0 | Some k \<Rightarrow> k) + (po_nboff po + 7) div 8
     in Option.bind
       (if unused_bits \<noteq> 0 then
          Option.bind (po_buffer po) (\<lambda>k.
          Option.bind (nth_opt (po_tmpspace po) (k + po_nboff po div 8)) (\<lambda>b.
            Some ((po_tmpspace po)[k + po_nboff po div 8 := b AND NOT (mask unused_bits)])))
        else Some (po_tmpspace po)) (\<lambda>tmp.
       Option.bind (c_slice tmp 0 complete_bytes) (\<lambda>complete.
         let (r, key) = po_output po complete (po_op_key po);
             po = po\<lparr>po_tmpspace := tmp, po_op_key := key\<rparr>
         in if r < 0 then Some (- 1, po)
            else Some (0, po\<lparr>po_buffer := Some 0, po_nboff := 0, po_nbits := 8 * 32,
              po_flushed_bytes := po_flushed_bytes po + complete_bytes\<rparr>))))"

section \<open>What a writer holds\<close>

definition po_wf :: "'k asn_bit_outp \<Rightarrow> bool" where
  "po_wf po \<longleftrightarrow> (case po_buffer po of None \<Rightarrow> False
     | Some k \<Rightarrow> 8 * k + po_nbits po = 256 \<and> po_nboff po \<le> po_nbits po) \<and> length (po_tmpspace po) = 32"

definition po_stored :: "'k asn_bit_outp \<Rightarrow> bool list" where
  "po_stored po = take (8 * the (po_buffer po) + po_nboff po) (bytes_bits (po_tmpspace po))"

text \<open>A view of a callback's state: the bytes accepted so far and how many fit in all.\<close>

type_synonym 'k sink_view = "'k \<Rightarrow> u8 list \<times> nat"

definition po_bits :: "'k sink_view \<Rightarrow> 'k asn_bit_outp \<Rightarrow> bool list" where
  "po_bits view po = bytes_bits (fst (view (po_op_key po))) @ po_stored po"

text \<open>\<open>emits V po bs po'\<close>: \<open>po'\<close> is \<open>po\<close> with exactly the bits \<open>bs\<close> appended.\<close>

definition emits :: "'k sink_view \<Rightarrow> 'k asn_bit_outp \<Rightarrow> bool list \<Rightarrow> 'k asn_bit_outp \<Rightarrow> bool" where
  "emits view po bs po' \<longleftrightarrow>
     po_wf po' \<and> po_output po' = po_output po \<and> po_bits view po' = po_bits view po @ bs \<and>
     snd (view (po_op_key po')) = snd (view (po_op_key po)) \<and>
     po_flushed_bytes po' + length (fst (view (po_op_key po))) =
       po_flushed_bytes po + length (fst (view (po_op_key po')))"

text \<open>
  \<open>puts V po bs res\<close>: the result of a put operation is defined, and either appends \<open>bs\<close> and
  returns 0, or returns \<open>-1\<close> because the bits do not fit into the callback's capacity.
\<close>

definition overflows :: "'k sink_view \<Rightarrow> 'k asn_bit_outp \<Rightarrow> bool list \<Rightarrow> bool" where
  "overflows view po bs \<longleftrightarrow> 8 * snd (view (po_op_key po)) < length (po_bits view po) + length bs"

definition puts ::
  "'k sink_view \<Rightarrow> 'k asn_bit_outp \<Rightarrow> bool list \<Rightarrow> (int \<times> 'k asn_bit_outp) option \<Rightarrow> bool" where
  "puts view po bs res \<longleftrightarrow> (\<exists>r po'. res = Some (r, po') \<and>
     (r = 0 \<and> emits view po bs po' \<or> r = - 1 \<and> overflows view po bs))"

lemma emits_refl: "po_wf po \<Longrightarrow> emits C po [] po"
  by (simp add: emits_def)

lemma emits_trans: "emits C po as po1 \<Longrightarrow> emits C po1 bs po2 \<Longrightarrow> emits C po (as @ bs) po2"
  by (auto simp: emits_def)

lemma emits_wf: "emits C po bs po' \<Longrightarrow> po_wf po'"
  by (simp add: emits_def)

lemma emits_output: "emits C po bs po' \<Longrightarrow> po_output po' = po_output po"
  by (simp add: emits_def)

lemma length_po_stored: "po_wf po \<Longrightarrow> length (po_stored po) = 8 * the (po_buffer po) + po_nboff po"
  by (auto simp: po_stored_def po_wf_def split: option.splits)

text \<open>The bits written so far and the write position are aligned alike.\<close>

lemma po_phase: "po_wf po \<Longrightarrow> length (po_bits C po) mod 8 = po_nboff po mod 8"
  by (simp add: po_bits_def length_po_stored mod_add_eq [symmetric])

section \<open>Storing bits\<close>

lemma byte_bits_ucast: "byte_bits (ucast (w :: u32)) = val_bits 8 (uint w)"
  by (rule nth_equalityI) (auto simp: byte_bits_def val_bits_def bit_ucast_iff bit_uint_iff)

lemma byte_bits_merge:
  assumes "take_bit (8 - p) w = w" and "p < 8"
  shows "byte_bits (b AND NOT (mask (8 - p)) OR ucast (w :: u32)) =
    take p (byte_bits b) @ drop p (val_bits 8 (uint w))"
proof (rule nth_equalityI)
  fix i assume i: "i < length (byte_bits (b AND NOT (mask (8 - p)) OR ucast w))"
  have low: "bit w j \<Longrightarrow> j < 8 - p" for j
    using assms(1) by (metis bit_take_bit_iff)
  have "i < p \<Longrightarrow> \<not> bit w (7 - i)" using low [of "7 - i"] assms(2) by auto
  then show "byte_bits (b AND NOT (mask (8 - p)) OR ucast w) ! i =
    (take p (byte_bits b) @ drop p (val_bits 8 (uint w))) ! i"
    using i assms(2)
    by (auto simp: byte_bits_def val_bits_def nth_append bit_or_iff bit_and_iff bit_not_iff
      bit_mask_iff bit_ucast_iff bit_uint_iff)
qed (use assms in simp)

lemma uint_push_bit_fits:
  assumes "take_bit n w = (w :: u32)" and "n + s \<le> 32"
  shows "uint (push_bit s w) = push_bit s (uint w)"
proof -
  have "uint w = take_bit n (uint w)" using assms(1) by (metis unsigned_take_bit_eq)
  then have "uint w < 2 ^ n" by (metis take_bit_int_less_exp)
  then have "push_bit s (uint w) < 2 ^ (n + s)" by (simp add: push_bit_eq_mult power_add)
  also have "\<dots> \<le> 2 ^ 32" using assms(2) by (intro power_increasing) auto
  finally have "take_bit 32 (push_bit s (uint w)) = push_bit s (uint w)"
    by (simp add: take_bit_int_eq_self push_bit_nonnegative_int_iff)
  then show ?thesis by (simp add: unsigned_push_bit_eq)
qed

text \<open>The shifted word, as the bits of \<open>m\<close> bytes: \<open>p\<close> empty bits, the value, empty bits.\<close>

lemma val_bits_shifted:
  assumes "take_bit n w = (w :: u32)" and "p + n \<le> 8 * m" and "m \<le> 4"
  shows "val_bits (8 * m) (uint (push_bit (8 * m - (p + n)) w)) =
    replicate p False @ val_bits n (uint w) @ replicate (8 * m - (p + n)) False"
proof -
  let ?s = "8 * m - (p + n)"
  let ?bs = "replicate p False @ val_bits n (uint w) @ replicate ?s False"
  have "uint w = take_bit n (uint w)" using assms(1) by (metis unsigned_take_bit_eq)
  then have "bits_val ?bs = push_bit ?s (uint w)"
    by (simp add: bits_val_append bits_val_val_bits push_bit_eq_mult)
  also have "\<dots> = uint (push_bit ?s w)"
    using assms by (intro uint_push_bit_fits [symmetric]) auto
  finally have "bits_val ?bs = uint (push_bit ?s w)" .
  moreover have "length ?bs = 8 * m" using assms by simp
  ultimately show ?thesis by (metis val_bits_bits_val)
qed

lemma uint_drop_bit: "uint (drop_bit n (w :: u32)) = drop_bit n (uint w)"
  by (rule bit_eqI) (auto simp: bit_simps)

lemma take_bit_high_byte:
  assumes "take_bit n (w :: u32) = w" and "p + n \<le> 8 * m" and "m \<le> 4" and "0 < m" and "p < 8"
    and "v = drop_bit (8 * (m - 1)) (push_bit (8 * m - (p + n)) w)"
  shows "take_bit (8 - p) v = v"
proof (rule bit_eqI)
  fix i
  have "bit w j \<Longrightarrow> j < n" for j using assms(1) by (metis bit_take_bit_iff)
  then show "bit (take_bit (8 - p) v) i = bit v i"
    using assms by (fastforce simp: bit_take_bit_iff bit_drop_bit_eq bit_push_bit_iff)
qed

text \<open>The stored group of bytes: the meaningful old bits, then the new bits.\<close>

lemma stored_group:
  assumes w: "take_bit n (w :: u32) = w" and "p < 8" and m: "p + n \<le> 8 * m" "m \<le> 4" "0 < m"
    and v: "v = push_bit (8 * m - (p + n)) w"
    and first: "first = b AND NOT (mask (8 - p)) OR ucast (drop_bit (8 * (m - 1)) v)"
    and others: "bytes_bits others = val_bits (8 * (m - 1)) (uint v)"
  shows "take (p + n) (bytes_bits (first # others)) = take p (byte_bits b) @ val_bits n (uint w)"
proof -
  have "byte_bits first = take p (byte_bits b) @ drop p (val_bits 8 (drop_bit (8 * (m - 1)) (uint v)))"
    unfolding first using take_bit_high_byte [OF w m(1,2,3) \<open>p < 8\<close>] v \<open>p < 8\<close>
    by (subst byte_bits_merge) (simp_all add: uint_drop_bit)
  moreover have "val_bits (8 * m) (uint v) =
      val_bits 8 (drop_bit (8 * (m - 1)) (uint v)) @ val_bits (8 * (m - 1)) (uint v)"
    using val_bits_split [of 8 "8 * (m - 1)" "uint v"] \<open>0 < m\<close> by (cases m) auto
  ultimately have "bytes_bits (first # others) =
      take p (byte_bits b) @ drop p (val_bits (8 * m) (uint v))"
    using others \<open>p < 8\<close> by (simp add: bytes_bits_Cons)
  also have "\<dots> = take p (byte_bits b) @ val_bits n (uint w) @ replicate (8 * m - (p + n)) False"
    using val_bits_shifted [OF w m(1,2)] v by simp
  finally show ?thesis using \<open>p < 8\<close> by simp
qed

text \<open>What a store leaves unchanged.\<close>

definition po_same :: "'k asn_bit_outp \<Rightarrow> 'k asn_bit_outp \<Rightarrow> bool" where
  "po_same po po' \<longleftrightarrow> po_output po' = po_output po \<and> po_op_key po' = po_op_key po \<and>
    po_flushed_bytes po' = po_flushed_bytes po"

lemma po_stored_split:
  assumes "po_buffer po = Some (length P)" and "po_tmpspace po = P @ W @ S"
    and "po_nboff po \<le> 8 * length W"
  shows "po_stored po = bytes_bits P @ take (po_nboff po) (bytes_bits W)"
  using assms by (simp add: po_stored_def)

lemma po_store_group:
  assumes "po_buffer po = Some (length P)" and T: "po_tmpspace po = P @ (b0 # old) @ S"
    and "po_nboff po < 8" and wf: "po_wf po"
    and "po_nboff po + n \<le> 8 * length (b0 # old)" "length (b0 # old) = m" "m \<le> 4"
    and "length others = length old"
    and w: "take_bit n (w :: u32) = w"
    and v: "v = push_bit (8 * m - (po_nboff po + n)) w"
    and first: "first = b0 AND NOT (mask (8 - po_nboff po)) OR ucast (drop_bit (8 * (m - 1)) v)"
    and others: "bytes_bits others = val_bits (8 * (m - 1)) (uint v)"
    and po': "po' = po\<lparr>po_nboff := po_nboff po + n, po_tmpspace := P @ (first # others) @ S\<rparr>"
    and room: "po_nboff po + n \<le> po_nbits po"
  shows "po_wf po' \<and> po_same po po' \<and> po_stored po' = po_stored po @ val_bits n (uint w)"
proof -
  have m: "po_nboff po + n \<le> 8 * m" "0 < m" using assms(5,6) by auto
  have "po_stored po' = bytes_bits P @ take (po_nboff po + n) (bytes_bits (first # others))"
    using assms by (subst po_stored_split [where P = P and W = "first # others" and S = S]) auto
  also have "\<dots> = bytes_bits P @ take (po_nboff po) (byte_bits b0) @ val_bits n (uint w)"
    using stored_group [OF w \<open>po_nboff po < 8\<close> m(1) \<open>m \<le> 4\<close> m(2) v first others] by simp
  also have "\<dots> = po_stored po @ val_bits n (uint w)"
    using po_stored_split [of po P "b0 # old" S] assms(1,3) T by (simp add: bytes_bits_Cons)
  finally show ?thesis
    using wf room po' T assms(1,8) by (auto simp: po_wf_def po_same_def)
qed

lemma split_at_length: "k + m \<le> length T \<Longrightarrow> \<exists>P W S. T = P @ W @ S \<and> length P = k \<and> length W = m"
  by (rule exI [of _ "take k T"], rule exI [of _ "take m (drop k T)"],
      rule exI [of _ "drop m (drop k T)"]) (simp only: append_take_drop_id, simp)

lemma bytes_bits_ucasts:
  "bytes_bits [ucast (v :: u32)] = val_bits 8 (uint v)"
  "bytes_bits [ucast (drop_bit 8 v), ucast (v :: u32)] = val_bits 16 (uint v)"
  "bytes_bits [ucast (drop_bit 16 v), ucast (drop_bit 8 v), ucast (v :: u32)] = val_bits 24 (uint v)"
  using val_bits_split [of 8 8 "uint v"] val_bits_split [of 8 16 "uint v"]
  by (simp_all add: bytes_bits_Cons byte_bits_ucast uint_drop_bit)

lemma po_store_ok:
  assumes wf: "po_wf po" and "po_nboff po < 8" and w: "take_bit n w = w"
    and "po_nboff po + n \<le> 31" and room: "po_nboff po + n \<le> po_nbits po" and "0 < n"
  shows "\<exists>po'. po_store po (po_nboff po + n) w = Some po' \<and> po_wf po' \<and> po_same po po' \<and>
    po_stored po' = po_stored po @ val_bits n (uint w)"
proof -
  let ?off = "po_nboff po + n"
  obtain k where k: "po_buffer po = Some k" "8 * k + po_nbits po = 256" "length (po_tmpspace po) = 32"
    using wf by (auto simp: po_wf_def split: option.splits)
  define m where "m = (?off + 7) div 8"
  have m: "?off \<le> 8 * m" "m \<le> 4" "0 < m" "k + m \<le> 32" "8 * (m - 1) < ?off"
    using assms(4,6) room k(2) unfolding m_def by linarith+
  obtain P W S where T: "po_tmpspace po = P @ W @ S" "length P = k" "length W = m"
    using split_at_length [of k m "po_tmpspace po"] m(4) k(3) by auto
  obtain b0 old where W: "W = b0 # old" using T(3) m(3) by (cases W) auto
  note group = po_store_group [OF k(1) [folded T(2)] T(1) [unfolded W] assms(2) wf _ _ m(2) _ w refl refl _ refl room]
  have len: "length (b0 # old) = m" using T(3) W by simp
  have b: "nth_opt (po_tmpspace po) k = Some b0" using T W by (simp add: nth_opt_def nth_append)
  consider "m = 1" | "m = 2" | "m = 3" | "m = 4" using m by linarith
  then show ?thesis
  proof cases
    case 1
    then show ?thesis using group [of "[]"] len m b k T W
      by (auto simp: po_store_def list_update_append Let_def)
  next
    case 2
    then obtain b1 where old: "old = [b1]" using len by (auto simp: length_Suc_conv)
    show ?thesis using group [of "[_]"] 2 len m b k T W old
      by (auto simp: po_store_def list_update_append Let_def bytes_bits_ucasts)
  next
    case 3
    then obtain b1 b2 where old: "old = [b1, b2]" using len by (auto simp: length_Suc_conv numeral_3_eq_3)
    show ?thesis using group [of "[_, _]"] 3 len m b k T W old
      by (auto simp: po_store_def list_update_append Let_def bytes_bits_ucasts)
  next
    case 4
    then have "length old = Suc (Suc (Suc 0))" using len by simp
    then obtain b1 b2 b3 where old: "old = [b1, b2, b3]" by (auto simp: length_Suc_conv)
    show ?thesis using group [of "[_, _, _]"] 4 len m b k T W old
      by (auto simp: po_store_def list_update_append Let_def bytes_bits_ucasts)
  qed
qed

section \<open>Words assembled from bytes\<close>

lemma val_bits_or_one: "val_bits 8 (uint (ucast (a :: u8) :: u32)) = byte_bits a"
  by (rule nth_equalityI) (auto simp: byte_bits_def val_bits_def bit_uint_iff bit_ucast_iff)

lemma val_bits_bytes:
  "val_bits 16 (uint (v :: u32)) = byte_bits (ucast (drop_bit 8 v)) @ byte_bits (ucast v)"
  "val_bits 24 (uint v) =
    byte_bits (ucast (drop_bit 16 v)) @ byte_bits (ucast (drop_bit 8 v)) @ byte_bits (ucast v)"
  using bytes_bits_ucasts [of v] by (simp_all add: bytes_bits_Cons)

lemma val_bits_or_two:
  "val_bits 16 (uint (push_bit 8 (ucast (a :: u8)) OR ucast (b :: u8) :: u32)) = byte_bits a @ byte_bits b"
  unfolding val_bits_bytes byte_bits_inject append_eq_append_conv
  by (intro arg_cong2 [where f = "(@)"] arg_cong [where f = byte_bits] bit_word_eqI)
     (auto simp: bit_simps dest: bit_imp_le_length)

lemma val_bits_or_three:
  "val_bits 24 (uint (push_bit 16 (ucast a) OR push_bit 8 (ucast b) OR ucast (c :: u8) :: u32)) =
    bytes_bits [a, b, c]"
  unfolding val_bits_bytes bytes_bits_Cons bytes_bits_Nil append_Nil2
  by (intro arg_cong2 [where f = "(@)"] arg_cong [where f = byte_bits] bit_word_eqI)
     (auto simp: bit_simps dest: bit_imp_le_length)

lemma val_bits_or_nested:
  "val_bits 24 (uint (push_bit 8 (push_bit 8 (ucast (a :: u8)) OR ucast (b :: u8)) OR ucast (c :: u8) :: u32)) =
    byte_bits a @ byte_bits b @ byte_bits c"
  unfolding val_bits_bytes
  by (intro arg_cong2 [where f = "(@)"] arg_cong [where f = byte_bits] bit_word_eqI)
     (auto simp: bit_simps dest: bit_imp_le_length)

text \<open>Dropping the unused low bits of a group of \<open>m\<close> bytes leaves its first \<open>n\<close> bits.\<close>

lemma take_val_bits_group:
  assumes "n \<le> 8 * m" and "8 * m < n + 8"
  shows "take n (val_bits (8 * m) (uint (v :: u32))) =
    val_bits n (uint (if n mod 8 \<noteq> 0 then drop_bit (8 - n mod 8) v else v))"
proof -
  obtain q r where n: "n = 8 * q + r" "r < 8"
    by (metis mod_less_divisor mult_div_mod_eq zero_less_numeral)
  have "m = (if r = 0 then q else q + 1)"
  proof (cases "r = 0")
    case True
    then have "m = q" using assms n by linarith
    with True show ?thesis by simp
  next
    case False
    then have "m = q + 1" using assms n by linarith
    with False show ?thesis by simp
  qed
  moreover have "n mod 8 = r" using n by simp
  ultimately have "8 * m = n + (if n mod 8 \<noteq> 0 then 8 - n mod 8 else 0)" using n by auto
  then show ?thesis
    using val_bits_split [of n "8 - n mod 8" "uint v"] by (auto simp: uint_drop_bit)
qed

section \<open>The writer over a callback that keeps its contract\<close>

lemma emits_overflows: "emits V po as po1 \<Longrightarrow> overflows V po1 bs \<Longrightarrow> overflows V po (as @ bs)"
  by (simp add: emits_def overflows_def)

lemma overflows_append: "overflows V po as \<Longrightarrow> overflows V po (as @ bs)"
  by (simp add: overflows_def)

lemma puts_nothing: "po_wf po \<Longrightarrow> puts V po [] (Some (0, po))"
  by (simp add: puts_def emits_refl)

text \<open>The source's chains \<open>if(put(...)) return -1; ...\<close>.\<close>

lemma puts_then:
  assumes "puts V po as res" and "\<And>po1. emits V po as po1 \<Longrightarrow> puts V po1 bs (f po1)"
  shows "puts V po (as @ bs) (Option.bind res (\<lambda>(r, po). if r \<noteq> 0 then Some (- 1, po) else f po))"
proof -
  from assms(1) obtain r po1 where res: "res = Some (r, po1)"
      "r = 0 \<and> emits V po as po1 \<or> r = - 1 \<and> overflows V po as"
    by (auto simp: puts_def)
  then show ?thesis
    using assms(2) [of po1]
    by (auto simp: puts_def overflows_append intro: emits_trans emits_overflows)
qed

lemma puts_after: "emits V po as po1 \<Longrightarrow> puts V po1 bs res \<Longrightarrow> puts V po (as @ bs) res"
  by (auto simp: puts_def intro: emits_trans emits_overflows)

lemma puts_last:
  assumes "puts V po bs res"
  shows "puts V po bs (Option.bind res (\<lambda>(r, po). Some (if r \<noteq> 0 then - 1 else 0, po)))"
  using assms by (auto simp: puts_def)

locale byte_sink =
  fixes consume :: "u8 list \<Rightarrow> 'k \<Rightarrow> int \<times> 'k"
    and view :: "'k sink_view"
  assumes accepts: "consume bs key = (r, key') \<Longrightarrow> 0 \<le> r \<Longrightarrow>
      fst (view key') = fst (view key) @ bs \<and> snd (view key') = snd (view key)"
    and refuses: "consume bs key = (r, key') \<Longrightarrow> r < 0 \<Longrightarrow>
      snd (view key) < length (fst (view key)) + length bs"
begin

lemma flush_complete:
  assumes wf: "po_wf po" and out: "po_output po = consume" and "po_nboff po < 8"
  shows "\<exists>r po'. po_flush_complete po = Some (r, po') \<and>
    (r = 0 \<and> emits view po [] po' \<and> po_nboff po' = po_nboff po \<and> po_nbits po' = 256 \<or>
     r = - 1 \<and> overflows view po [])"
proof -
  obtain k where k: "po_buffer po = Some k" "8 * k + po_nbits po = 256" "po_nboff po \<le> po_nbits po"
      "length (po_tmpspace po) = 32"
    using wf by (auto simp: po_wf_def split: option.splits)
  obtain r key where call: "consume (take k (po_tmpspace po)) (po_op_key po) = (r, key)"
    by (cases "consume (take k (po_tmpspace po)) (po_op_key po)")
  have len: "length (po_stored po) = 8 * k + po_nboff po" using length_po_stored [OF wf] k(1) by simp
  show ?thesis
  proof (cases "r < 0")
    case True
    then have "overflows view po []"
      using refuses [OF call] k len by (auto simp: overflows_def po_bits_def)
    with True show ?thesis using k call out by (auto simp: po_flush_complete_def)
  next
    case False
    let ?T = "po_tmpspace po"
    let ?T' = "if po_nboff po \<noteq> 0 then ?T[0 := ?T ! k] else ?T"
    let ?po' = "po\<lparr>po_buffer := Some 0, po_op_key := key, po_tmpspace := ?T', po_nbits := 8 * 32,
      po_flushed_bytes := po_flushed_bytes po + k\<rparr>"
    have "po_nboff po \<noteq> 0 \<Longrightarrow> k < 32" using k by linarith
    then have eq: "po_flush_complete po = Some (0, ?po')"
      using False k call out by (auto simp: po_flush_complete_def Let_def)
    have acc: "fst (view key) = fst (view (po_op_key po)) @ take k ?T"
        "snd (view key) = snd (view (po_op_key po))"
      using accepts [OF call] False by auto
    have "take (8 * k + po_nboff po) (bytes_bits ?T) =
        bytes_bits (take k ?T) @ take (po_nboff po) (bytes_bits (drop k ?T))"
      by (simp add: take_add take_bytes_bits drop_bytes_bits)
    also have "take (po_nboff po) (bytes_bits (drop k ?T)) = take (po_nboff po) (bytes_bits ?T')"
    proof (cases "po_nboff po = 0")
      case False
      then have "k < 32" using k by linarith
      then obtain b S c S' where d: "drop k ?T = b # S" "?T = c # S'" "?T ! k = b"
        using k(4) by (metis Cons_nth_drop_Suc length_0_conv neq_Nil_conv zero_neq_numeral)
      then show ?thesis using False \<open>po_nboff po < 8\<close> by (simp add: bytes_bits_Cons)
    qed simp
    finally have "po_stored po = bytes_bits (take k ?T) @ po_stored ?po'"
      using k(1) by (simp add: po_stored_def)
    then have "emits view po [] ?po'"
      using acc k wf \<open>po_nboff po < 8\<close> by (auto simp: emits_def po_bits_def po_wf_def)
    with eq show ?thesis by auto
  qed
qed

lemma normalize:
  assumes wf: "po_wf po" and out: "po_output po = consume"
  shows "\<exists>po'. po_normalize po = Some po' \<and> emits view po [] po' \<and> po_nboff po' < 8"
proof -
  obtain k where k: "po_buffer po = Some k" "8 * k + po_nbits po = 256" "po_nboff po \<le> po_nbits po"
      "length (po_tmpspace po) = 32"
    using wf by (auto simp: po_wf_def split: option.splits)
  have split: "8 * (po_nboff po div 8) + po_nboff po mod 8 = po_nboff po" by simp
  moreover have "po_nboff po mod 8 \<le> po_nbits po - 8 * (po_nboff po div 8)"
    using k(3) split by linarith
  ultimately show ?thesis
    using k emits_refl [OF wf]
    by (auto simp: po_normalize_def emits_def po_bits_def po_stored_def po_wf_def algebra_simps)
qed

text \<open>Make room: afterwards the current byte is partial and \<open>n\<close> more bits fit.\<close>

lemma make_room:
  assumes wf: "po_wf po" and out: "po_output po = consume" and n: "n \<le> 31"
  shows "\<exists>r po'. Option.bind (po_normalize po) (\<lambda>po. if po_nbits po < po_nboff po + n
        then po_flush_complete po else Some (0, po)) = Some (r, po') \<and>
    (r = 0 \<and> emits view po [] po' \<and> po_nboff po' < 8 \<and> po_nboff po' + n \<le> po_nbits po' \<or>
     r = - 1 \<and> overflows view po [])"
proof -
  obtain po1 where po1: "po_normalize po = Some po1" "emits view po [] po1" "po_nboff po1 < 8"
    using normalize [OF wf out] by blast
  have out1: "po_output po1 = consume" using po1(2) out by (simp add: emits_def)
  show ?thesis
  proof (cases "po_nbits po1 < po_nboff po1 + n")
    case False
    then show ?thesis using po1 by simp
  next
    case True
    obtain r po2 where "po_flush_complete po1 = Some (r, po2)"
        "r = 0 \<and> emits view po1 [] po2 \<and> po_nboff po2 = po_nboff po1 \<and> po_nbits po2 = 256 \<or>
         r = - 1 \<and> overflows view po1 []"
      using flush_complete [OF emits_wf [OF po1(2)] out1 po1(3)] by blast
    then show ?thesis
      using True po1 n emits_trans [OF po1(2), of "[]" po2] emits_overflows [OF po1(2), of "[]"] by auto
  qed
qed

lemma store_emits:
  assumes wf: "po_wf po" and "po_nboff po < 8" and "take_bit n w = w"
    and "po_nboff po + n \<le> 31" and "po_nboff po + n \<le> po_nbits po" and "0 < n"
  shows "\<exists>po'. po_store po (po_nboff po + n) w = Some po' \<and> emits view po (val_bits n (uint w)) po'"
  using po_store_ok [OF assms] by (auto simp: emits_def po_bits_def po_same_def)

text \<open>A put of up to 31 bits that does not straddle five bytes.\<close>

lemma put_few_short:
  assumes wf: "po_wf po" and out: "po_output po = consume" and n: "0 < n" "n \<le> 24"
  shows "puts view po (val_bits n (uint bits)) (asn_put_few_bits po bits (int n))"
proof -
  obtain po1 r po2 where po1: "po_normalize po = Some po1" and res: "(if po_nbits po1 < po_nboff po1 + n
      then po_flush_complete po1 else Some (0, po1)) = Some (r, po2)"
      "r = 0 \<and> emits view po [] po2 \<and> po_nboff po2 < 8 \<and> po_nboff po2 + n \<le> po_nbits po2 \<or>
       r = - 1 \<and> overflows view po []"
    using make_room [OF wf out, of n] n by (auto simp: bind_eq_Some_conv)
  show ?thesis
  proof (cases "r = 0")
    case False
    then show ?thesis using po1 res n overflows_append [of view po "[]"]
      by (subst asn_put_few_bits.simps) (auto simp: puts_def)
  next
    case True
    with res(2) have po2: "emits view po [] po2" "po_nboff po2 < 8" "po_nboff po2 + n \<le> po_nbits po2" by auto
    have off: "po_nboff po2 + n \<le> 31" using po2(2) n by simp
    obtain po3 where "po_store po2 (po_nboff po2 + n) (take_bit n bits) = Some po3"
        "emits view po2 (val_bits n (uint (take_bit n bits))) po3"
      using store_emits [OF emits_wf [OF po2(1)] po2(2) _ off po2(3) n(1), of "take_bit n bits"] by auto
    then show ?thesis using po1 res(1) True n off emits_trans [OF po2(1)]
      by (subst asn_put_few_bits.simps) (auto simp: puts_def unsigned_take_bit_eq)
  qed
qed

lemma put_few_straddle:
  assumes wf: "po_wf po" and out: "po_output po = consume" and n: "24 < n" "n \<le> 31"
    and w: "w = take_bit n bits"
  shows "puts view po (val_bits n (uint bits))
    (Option.bind (asn_put_few_bits po (drop_bit (n - 24) w) 24) (\<lambda>(r, po).
       if r \<noteq> 0 then Some (- 1, po)
       else Option.bind (asn_put_few_bits po w (int (n - 24))) (\<lambda>(r, po).
         Some (if r \<noteq> 0 then - 1 else 0, po))))"
proof -
  let ?high = "val_bits 24 (uint (drop_bit (n - 24) w))"
  let ?low = "\<lambda>po. Option.bind (asn_put_few_bits po w (int (n - 24))) (\<lambda>(r, po).
    Some (if r \<noteq> 0 then - 1 else 0, po))"
  have "val_bits n (uint bits) = val_bits n (uint w)" by (simp add: w unsigned_take_bit_eq)
  also have "\<dots> = ?high @ val_bits (n - 24) (uint w)"
    using val_bits_split [of 24 "n - 24" "uint w"] n by (simp add: uint_drop_bit)
  finally have split: "val_bits n (uint bits) = ?high @ val_bits (n - 24) (uint w)" .
  have high: "puts view po ?high (asn_put_few_bits po (drop_bit (n - 24) w) 24)"
    using put_few_short [OF wf out, of 24 "drop_bit (n - 24) w"] by simp
  have low: "puts view po3 (val_bits (n - 24) (uint w)) (?low po3)" if "emits view po ?high po3" for po3
    using that out n by (intro puts_last put_few_short) (auto simp: emits_def)
  show ?thesis unfolding split by (rule puts_then [OF high low])
qed

lemma put_few:
  assumes wf: "po_wf po" and out: "po_output po = consume" and n: "n \<le> 31"
  shows "puts view po (val_bits n (uint bits)) (asn_put_few_bits po bits (int n))"
proof (cases "n \<le> 24")
  case True
  then show ?thesis
    using put_few_short [OF wf out] puts_nothing [OF wf]
    by (cases "n = 0") (auto simp: asn_put_few_bits.simps)
next
  case False
  obtain po1 r po2 where po1: "po_normalize po = Some po1" and res: "(if po_nbits po1 < po_nboff po1 + n
      then po_flush_complete po1 else Some (0, po1)) = Some (r, po2)"
      "r = 0 \<and> emits view po [] po2 \<and> po_nboff po2 < 8 \<and> po_nboff po2 + n \<le> po_nbits po2 \<or>
       r = - 1 \<and> overflows view po []"
    using make_room [OF wf out, of n] n by (auto simp: bind_eq_Some_conv)
  show ?thesis
  proof (cases "r = 0")
    case False
    then show ?thesis using po1 res n \<open>\<not> n \<le> 24\<close> overflows_append [of view po "[]"]
      by (subst asn_put_few_bits.simps) (auto simp: puts_def)
  next
    case True
    with res(2) have po2: "emits view po [] po2" "po_nboff po2 < 8" "po_nboff po2 + n \<le> po_nbits po2" by auto
    let ?w = "take_bit n bits"
    have wf2: "po_wf po2" and out2: "po_output po2 = consume" using po2(1) out by (simp_all add: emits_def)
    let ?rest = "if po_nboff po2 + n \<le> 31 then Option.bind (po_store po2 (po_nboff po2 + n) ?w) (\<lambda>po. Some (0, po))
       else Option.bind (asn_put_few_bits po2 (drop_bit (n - 24) ?w) 24) (\<lambda>(r, po).
         if r \<noteq> 0 then Some (- 1, po)
         else Option.bind (asn_put_few_bits po ?w (int (n - 24))) (\<lambda>(r, po). Some (if r \<noteq> 0 then - 1 else 0, po)))"
    have "puts view po2 (val_bits n (uint bits)) ?rest"
    proof (cases "po_nboff po2 + n \<le> 31")
      case True
      obtain po3 where "po_store po2 (po_nboff po2 + n) ?w = Some po3"
          "emits view po2 (val_bits n (uint ?w)) po3"
        using store_emits [OF wf2 po2(2) _ True po2(3), of ?w] False by auto
      with True show ?thesis by (auto simp: puts_def unsigned_take_bit_eq)
    next
      case straddle: False
      show ?thesis
        unfolding if_not_P [OF straddle] using False n by (intro put_few_straddle wf2 out2) auto
    qed
    with po2(1) have "puts view po ([] @ val_bits n (uint bits)) ?rest" by (rule puts_after)
    moreover have i: "int (n - 24) = int n - 24" "nat (int n - 24) = n - 24" using False by linarith+
    have "asn_put_few_bits po bits (int n) = ?rest"
      using po1 res(1) True n False
      by (subst asn_put_few_bits.simps) (simp add: Let_def i cong: if_cong)
    ultimately show ?thesis by simp
  qed
qed

lemma put_many:
  "po_wf po \<Longrightarrow> po_output po = consume \<Longrightarrow> n \<le> 8 * length src \<Longrightarrow>
    puts view po (take n (bytes_bits src)) (asn_put_many_bits po src n)"
proof (induction n arbitrary: po src rule: less_induct)
  case (less n)
  consider "n = 0" | "24 \<le> n" | "0 < n" "n < 24" by linarith
  then show ?case
  proof cases
    case 1
    then show ?thesis using less.prems by (simp add: asn_put_many_bits.simps puts_nothing)
  next
    case 2
    then have "3 \<le> length src" using less.prems by simp
    then obtain a b c src' where src: "src = a # b # c # src'"
      by (auto simp: numeral_3_eq_3 Suc_le_length_iff)
    let ?v = "push_bit 16 (ucast a) OR push_bit 8 (ucast b) OR ucast c :: u32"
    have v: "val_bits 24 (uint ?v) = bytes_bits [a, b, c]" by (rule val_bits_or_three)
    have "puts view po (val_bits 24 (uint ?v)) (asn_put_few_bits po ?v (int 24))"
      using put_few [OF less.prems(1,2), of 24] by simp
    moreover have "puts view po1 (take (n - 24) (bytes_bits src')) (asn_put_many_bits po1 src' (n - 24))"
      if "emits view po (val_bits 24 (uint ?v)) po1" for po1
      using that less.prems 2 src by (intro less.IH) (auto simp: emits_def)
    ultimately have "puts view po (val_bits 24 (uint ?v) @ take (n - 24) (bytes_bits src'))
        (Option.bind (asn_put_few_bits po ?v (int 24)) (\<lambda>(r, po).
          if r \<noteq> 0 then Some (- 1, po) else asn_put_many_bits po src' (n - 24)))"
      by (rule puts_then)
    moreover have "take n (bytes_bits src) = val_bits 24 (uint ?v) @ take (n - 24) (bytes_bits src')"
      using 2 unfolding v src by (simp add: bytes_bits_Cons)
    ultimately show ?thesis
      using 2 unfolding src by (subst asn_put_many_bits.simps) (simp add: nth_opt_def cong: if_cong)
  next
    case 3
    then have "length src \<noteq> 0" using less.prems by auto
    then obtain a as where src: "src = a # as" by (cases src) auto
    let ?tail = "\<lambda>v. Option.bind (asn_put_few_bits po (if n mod 8 \<noteq> 0 then drop_bit (8 - n mod 8) v else v) (int n))
      (\<lambda>(r, po). Some (if r \<noteq> 0 then - 1 else 0, po))"
    have tail: "puts view po (take n (val_bits (8 * m) (uint v))) (?tail v)"
      if "n \<le> 8 * m" "8 * m < n + 8" for v m
    proof -
      let ?w = "if n mod 8 \<noteq> 0 then drop_bit (8 - n mod 8) v else v"
      have "take n (val_bits (8 * m) (uint v)) = val_bits n (uint ?w)"
        using that by (rule take_val_bits_group)
      then show ?thesis using put_few [OF less.prems(1,2), of n ?w] 3 puts_last by fastforce
    qed
    consider "n \<le> 8" | "8 < n" "n \<le> 16" | "16 < n" by linarith
    then show ?thesis
    proof cases
      case a: 1
      then show ?thesis using tail [of 1 "ucast a"] 3 src
        by (subst asn_put_many_bits.simps) (simp add: val_bits_or_one bytes_bits_Cons)
    next
      case b: 2
      then obtain b bs where as: "as = b # bs" using less.prems src by (cases as) auto
      show ?thesis using tail [of 2 "push_bit 8 (ucast a) OR ucast b"] 3 src b as
        by (subst asn_put_many_bits.simps) (simp add: val_bits_or_two bytes_bits_Cons nth_opt_def)
    next
      case c: 3
      then obtain b c bs where as: "as = b # c # bs"
        using less.prems src by (cases as; cases "tl as") auto
      let ?v = "push_bit 8 (push_bit 8 (ucast a) OR ucast b) OR ucast c :: u32"
      have "puts view po (take n (byte_bits a @ byte_bits b @ byte_bits c)) (?tail ?v)"
        using tail [of 3 ?v] 3 c val_bits_or_nested [of a b c] by simp
      moreover have "asn_put_many_bits po src n = ?tail ?v"
        using 3 c unfolding src as by (subst asn_put_many_bits.simps) (simp add: nth_opt_def)
      moreover have "take n (bytes_bits src) = take n (byte_bits a @ byte_bits b @ byte_bits c)"
        using 3 unfolding src as by (simp add: bytes_bits_Cons)
      ultimately show ?thesis by (simp only:)
    qed
  qed
qed

end

end
