(* ===== verification/Per_Encoder.thy ===== *)
theory Per_Encoder
  imports Asn_Bit_Outp
begin

unbundle bit_operations_syntax

text \<open>
  The callbacks that consume encoded bytes (\<open>per_encoder.c\<close>, \<open>aper_encoder.c\<close>,
  \<open>asn_application.c\<close>) and the top of the aligned encoder (\<open>aper_encoder.c\<close>): the writer is set
  up over a callback, the type's encoder runs, the last partial byte is flushed.

  A buffer that the caller provides is the list of bytes stored in it so far together with the
  room that is left.  The type's encoder is a function pointer of its descriptor and therefore an
  argument.  \<open>REALLOC\<close> is the C library's; whether it succeeds for a size is an argument too.
\<close>

section \<open>Callbacks\<close>

definition ignore_output :: "u8 list \<Rightarrow> 'k \<Rightarrow> int \<times> 'k" where
  "ignore_output data app_key = (0, app_key)"

record enc_to_buf_arg =
  eb_stored :: "u8 list"
  eb_left :: nat

definition encode_to_buffer_cb :: "u8 list \<Rightarrow> enc_to_buf_arg \<Rightarrow> int \<times> enc_to_buf_arg" where
  "encode_to_buffer_cb data arg =
    (if eb_left arg < length data then (- 1, arg)
     else (0, arg\<lparr>eb_stored := eb_stored arg @ data, eb_left := eb_left arg - length data\<rparr>))"

text \<open>The growing buffer; \<open>ed_buffer\<close> is the allocated block's meaningful prefix.\<close>

record enc_dyn_arg =
  ed_buffer :: "u8 list"
  ed_length :: nat
  ed_allocated :: nat

function grow4 :: "nat \<Rightarrow> nat \<Rightarrow> nat" where
  "grow4 new_size need =
    (let new_size = 4 * new_size in
     if new_size = 0 then 0 else if new_size \<le> need then grow4 new_size need else new_size)"
  by pat_completeness auto
termination by (relation "measure (\<lambda>(n, need). need - n)") auto

declare grow4.simps [simp del]

definition encode_dyn_cb :: "(nat \<Rightarrow> bool) \<Rightarrow> u8 list \<Rightarrow> enc_dyn_arg \<Rightarrow> int \<times> enc_dyn_arg" where
  "encode_dyn_cb realloc_ok data arg =
    (let need = ed_length arg + length data;
         store = (\<lambda>arg. (0, arg\<lparr>ed_buffer := take (ed_length arg) (ed_buffer arg) @ data,
                               ed_length := ed_length arg + length data\<rparr>))
     in
     if ed_allocated arg \<le> need then
       let new_size = grow4 (if ed_allocated arg \<noteq> 0 then ed_allocated arg else 8) need in
       if realloc_ok new_size then store (arg\<lparr>ed_allocated := new_size\<rparr>)
       else (- 1, \<lparr>ed_buffer = [], ed_length = 0, ed_allocated = 0\<rparr>)
     else store arg)"

text \<open>The callback that keeps counting after the end of the buffer; writes outside have no result.\<close>

record overrun_encoder_key =
  ov_buffer :: "u8 list"
  ov_buffer_size :: nat
  ov_computed_size :: nat

definition store_at :: "u8 list \<Rightarrow> nat \<Rightarrow> u8 list \<Rightarrow> u8 list option" where
  "store_at buf off data =
    (if off + length data \<le> length buf then Some (take off buf @ data @ drop (off + length data) buf)
     else None)"

definition overrun_encoder_cb :: "u8 list \<Rightarrow> overrun_encoder_key \<Rightarrow> (int \<times> overrun_encoder_key) option" where
  "overrun_encoder_cb data key =
    Option.bind
      (if ov_buffer_size key < ov_computed_size key + length data
       then Some (key\<lparr>ov_buffer_size := 0\<rparr>)
       else Option.bind (store_at (ov_buffer key) (ov_computed_size key) data)
         (\<lambda>buf. Some (key\<lparr>ov_buffer := buf\<rparr>)))
      (\<lambda>key. Some (0, key\<lparr>ov_computed_size := ov_computed_size key + length data\<rparr>))"

text \<open>The growing buffer of the application interface, a null buffer once allocation failed.\<close>

record dynamic_encoder_key =
  dy_buffer :: "u8 list option"
  dy_buffer_size :: nat
  dy_computed_size :: nat

function grow2 :: "nat \<Rightarrow> nat \<Rightarrow> nat" where
  "grow2 new_size need =
    (let new_size = 2 * new_size in
     if new_size = 0 then 0 else if new_size \<le> need then grow2 new_size need else new_size)"
  by pat_completeness auto
termination by (relation "measure (\<lambda>(n, need). need - n)") auto

declare grow2.simps [simp del]

text \<open>\<open>realloc_fill n\<close> are the indeterminate bytes a grown block of \<open>n\<close> more bytes ends with.\<close>

definition dynamic_encoder_cb ::
  "(nat \<Rightarrow> bool) \<Rightarrow> (nat \<Rightarrow> u8 list) \<Rightarrow> u8 list \<Rightarrow> dynamic_encoder_key \<Rightarrow> (int \<times> dynamic_encoder_key) option" where
  "dynamic_encoder_cb realloc_ok realloc_fill data key =
    (let need = dy_computed_size key + length data;
         count = (\<lambda>key. Some (0, key\<lparr>dy_computed_size := need\<rparr>));
         copy = (\<lambda>buf key. Option.bind (store_at buf (dy_computed_size key) data)
           (\<lambda>buf. count (key\<lparr>dy_buffer := Some buf\<rparr>)))
     in
     case dy_buffer key of
       None \<Rightarrow> count key
     | Some buf \<Rightarrow>
         if dy_buffer_size key \<le> need then
           let new_size = grow2 (dy_buffer_size key) need in
           if realloc_ok new_size
           then copy (buf @ realloc_fill (new_size - length buf)) (key\<lparr>dy_buffer_size := new_size\<rparr>)
           else count (key\<lparr>dy_buffer := None, dy_buffer_size := 0\<rparr>)
         else copy buf key)"

text \<open>The wrappers that remember a failure of the caller's callback and count bytes.\<close>

record 'k callback_failure_catch_key =
  cf_callback_key :: 'k
  cf_callback_failed :: bool

definition callback_failure_catch_cb ::
  "(u8 list \<Rightarrow> 'k \<Rightarrow> int \<times> 'k) \<Rightarrow> u8 list \<Rightarrow> 'k callback_failure_catch_key \<Rightarrow>
    int \<times> 'k callback_failure_catch_key" where
  "callback_failure_catch_cb callback data key =
    (let (ret, k) = callback data (cf_callback_key key);
         key = key\<lparr>cf_callback_key := k\<rparr>
     in (ret, if ret < 0 then key\<lparr>cf_callback_failed := True\<rparr> else key))"

record 'k callback_count_bytes_key =
  cc_callback_key :: 'k
  cc_computed_size :: nat

definition callback_count_bytes_cb ::
  "(u8 list \<Rightarrow> 'k \<Rightarrow> int \<times> 'k) \<Rightarrow> u8 list \<Rightarrow> 'k callback_count_bytes_key \<Rightarrow>
    int \<times> 'k callback_count_bytes_key" where
  "callback_count_bytes_cb callback data key =
    (let (ret, k) = callback data (cc_callback_key key);
         key = key\<lparr>cc_callback_key := k\<rparr>
     in (ret, if 0 \<le> ret then key\<lparr>cc_computed_size := cc_computed_size key + length data\<rparr> else key))"

section \<open>The top of the encoder\<close>

type_synonym 'k per_type_encoder = "'k asn_bit_outp \<Rightarrow> (int \<times> 'k asn_bit_outp) option"

text \<open>Flush the partially filled buffer.\<close>

definition aper_encode_flush_outp :: "'k asn_bit_outp \<Rightarrow> (int \<times> 'k asn_bit_outp) option" where
  "aper_encode_flush_outp po =
    (if po_nboff po = 0 \<and> po_buffer po = Some 0 then Some (0, po)
     else Option.bind (po_buffer po) (\<lambda>k.
       let buf = k + po_nboff po div 8; part = po_nboff po mod 8 in
       Option.bind
         (if part \<noteq> 0
          then Option.bind (nth_opt (po_tmpspace po) buf) (\<lambda>b.
            Some ((po_tmpspace po)[buf := b AND push_bit (8 - part) 0xff], buf + 1))
          else Some (po_tmpspace po, buf)) (\<lambda>(tmp, buf).
       Option.bind (c_slice tmp 0 buf) (\<lambda>out.
         let (r, key) = po_output po out (po_op_key po)
         in Some (r, po\<lparr>po_tmpspace := tmp, po_op_key := key\<rparr>)))))"

definition aper_start :: "(u8 list \<Rightarrow> 'k \<Rightarrow> int \<times> 'k) option \<Rightarrow> 'k \<Rightarrow> u8 list \<Rightarrow> 'k asn_bit_outp" where
  "aper_start cb app_key tmp =
    \<lparr>po_buffer = Some 0, po_nboff = 0, po_nbits = 8 * 32, po_tmpspace = tmp,
     po_output = (case cb of None \<Rightarrow> ignore_output | Some f \<Rightarrow> f), po_op_key = app_key,
     po_flushed_bytes = 0\<rparr>"

text \<open>
  The number of bits encoded, \<open>-1\<close> on failure, with the callback's final state.  \<open>tmp\<close> is the
  scratch area's indeterminate initial contents.
\<close>

definition aper_encode ::
  "u8 list \<Rightarrow> 'k per_type_encoder option \<Rightarrow> (u8 list \<Rightarrow> 'k \<Rightarrow> int \<times> 'k) option \<Rightarrow> 'k \<Rightarrow> (int \<times> 'k) option" where
  "aper_encode tmp aper_encoder cb app_key =
    (case aper_encoder of None \<Rightarrow> Some (- 1, app_key)
     | Some encoder \<Rightarrow>
         Option.bind (encoder (aper_start cb app_key tmp)) (\<lambda>(encoded, po).
           if encoded \<noteq> - 1 then
             Option.bind (po_buffer po) (\<lambda>k.
               let encoded = int (8 * po_flushed_bytes po + (8 * k + po_nboff po)) in
               Option.bind (aper_encode_flush_outp po) (\<lambda>(r, po).
                 Some (if r \<noteq> 0 then - 1 else encoded, po_op_key po)))
           else Some (encoded, po_op_key po)))"

definition aper_encode_to_buffer ::
  "u8 list \<Rightarrow> enc_to_buf_arg per_type_encoder option \<Rightarrow> nat \<Rightarrow> (int \<times> enc_to_buf_arg) option" where
  "aper_encode_to_buffer tmp aper_encoder buffer_size =
    aper_encode tmp aper_encoder (Some encode_to_buffer_cb) \<lparr>eb_stored = [], eb_left = buffer_size\<rparr>"

text \<open>The size of the new buffer and the buffer itself; an empty encoding becomes one zero byte.\<close>

definition aper_encode_to_new_buffer ::
  "(nat \<Rightarrow> bool) \<Rightarrow> bool \<Rightarrow> u8 list \<Rightarrow> enc_dyn_arg per_type_encoder option \<Rightarrow> (int \<times> u8 list option) option" where
  "aper_encode_to_new_buffer realloc_ok malloc1_ok tmp aper_encoder =
    Option.bind (aper_encode tmp aper_encoder (Some (encode_dyn_cb realloc_ok))
        \<lparr>ed_buffer = [], ed_length = 0, ed_allocated = 0\<rparr>) (\<lambda>(encoded, key).
      if encoded = - 1 then Some (- 1, None)
      else if encoded = 0 then Some (if malloc1_ok then (1, Some [0]) else (- 1, None))
      else Some ((encoded + 7) div 8, Some (ed_buffer key)))"

section \<open>The callbacks keep the writer's contract\<close>

definition buffer_view :: "enc_to_buf_arg sink_view" where
  "buffer_view arg = (eb_stored arg, length (eb_stored arg) + eb_left arg)"

interpretation buffer: byte_sink encode_to_buffer_cb buffer_view
  by unfold_locales (auto simp: encode_to_buffer_cb_def buffer_view_def split: if_splits)

definition dyn_view :: "enc_dyn_arg sink_view" where
  "dyn_view arg = (take (ed_length arg) (ed_buffer arg), 0)"

interpretation dyn: byte_sink "encode_dyn_cb (\<lambda>_. True)" dyn_view
  by unfold_locales (auto simp: encode_dyn_cb_def dyn_view_def Let_def split: if_splits)

section \<open>What a complete encoding leaves in the callback\<close>

lemma byte_bits_keep_high:
  "part < 8 \<Longrightarrow> byte_bits (b AND push_bit (8 - part) 0xff) = take part (byte_bits b) @ replicate (8 - part) False"
proof (rule nth_equalityI)
  fix i assume "part < 8" "i < length (byte_bits (b AND push_bit (8 - part) 0xff))"
  moreover have "bit (0xff :: u8) j" if "j < 8" for j
    using that bit_mask_iff [of 8 j, where ?'a = u8] by (simp add: mask_numeral)
  ultimately show "byte_bits (b AND push_bit (8 - part) 0xff) ! i =
      (take part (byte_bits b) @ replicate (8 - part) False) ! i"
    by (auto simp: byte_bits_def nth_append bit_and_iff bit_push_bit_iff)
qed auto

definition octet_pad :: "nat \<Rightarrow> bool list" where
  "octet_pad n = replicate ((8 - n mod 8) mod 8) False"

lemma octet_pad_add_mult [simp]: "octet_pad (8 * k + n) = octet_pad n"
  by (simp add: octet_pad_def)

lemma flushed_group:
  assumes "length T = 32" and "8 * k + nboff \<le> 256" and "n = 8 * k + nboff"
    and buf: "buf = k + nboff div 8" and part: "part = nboff mod 8"
  shows "\<exists>tmp out. (if part \<noteq> 0 then Option.bind (nth_opt T buf) (\<lambda>b.
            Some (T[buf := b AND push_bit (8 - part) 0xff], buf + 1)) else Some (T, buf)) = Some (tmp, out) \<and>
          length tmp = 32 \<and> out \<le> 32 \<and> bytes_bits (take out tmp) = take n (bytes_bits T) @ octet_pad n"
proof -
  have "nboff = 8 * (nboff div 8) + part" using part by simp
  then have n: "n = 8 * buf + part" "part < 8" using assms by simp_all
  show ?thesis
  proof (cases "part = 0")
    case True
    then have n8: "n = 8 * buf" "buf \<le> 32" using assms n by simp_all
    then have "octet_pad n = []" by (simp add: octet_pad_def)
    then show ?thesis using True assms(1) n8 by (simp add: take_bytes_bits)
  next
    case False
    then have "buf < 32" using n assms by linarith
    then have "take (buf + 1) (T[buf := c]) = take buf T @ [c]" for c
      using assms(1) by (simp add: take_Suc_conv_app_nth)
    moreover have "take n (bytes_bits T) = bytes_bits (take buf T) @ take part (byte_bits (T ! buf))"
    proof -
      have "drop buf T = T ! buf # drop (Suc buf) T" using \<open>buf < 32\<close> assms(1) by (simp add: Cons_nth_drop_Suc)
      then have "take part (drop (8 * buf) (bytes_bits T)) = take part (byte_bits (T ! buf))"
        using n(2) by (simp add: drop_bytes_bits bytes_bits_Cons)
      then show ?thesis unfolding n(1) take_add take_bytes_bits by simp
    qed
    moreover have "octet_pad n = replicate (8 - part) False"
      using False n by (simp add: octet_pad_def)
    ultimately show ?thesis
      using False n \<open>buf < 32\<close> assms(1) byte_bits_keep_high [of part "T ! buf"]
      by (simp add: bytes_bits_Cons)
  qed
qed

context byte_sink
begin

lemma flush_outp:
  assumes wf: "po_wf po" and out: "po_output po = consume"
  shows "\<exists>r po'. aper_encode_flush_outp po = Some (r, po') \<and>
    (0 \<le> r \<and> bytes_bits (fst (view (po_op_key po'))) =
        po_bits view po @ octet_pad (length (po_bits view po)) \<and>
       snd (view (po_op_key po')) = snd (view (po_op_key po)) \<or>
     r < 0 \<and> 8 * snd (view (po_op_key po)) < length (po_bits view po))"
proof (cases "po_nboff po = 0 \<and> po_buffer po = Some 0")
  case True
  then show ?thesis
    by (auto simp: aper_encode_flush_outp_def po_bits_def po_stored_def octet_pad_def)
next
  case False
  let ?T = "po_tmpspace po"
  obtain k where k: "po_buffer po = Some k" "8 * k + po_nbits po = 256" "po_nboff po \<le> po_nbits po"
      "length ?T = 32"
    using wf by (auto simp: po_wf_def split: option.splits)
  let ?n = "8 * k + po_nboff po"
  let ?C = "fst (view (po_op_key po))"
  obtain tmp n where g: "(if po_nboff po mod 8 \<noteq> 0 then Option.bind (nth_opt ?T (k + po_nboff po div 8)) (\<lambda>b.
        Some (?T[k + po_nboff po div 8 := b AND push_bit (8 - po_nboff po mod 8) 0xff], k + po_nboff po div 8 + 1))
        else Some (?T, k + po_nboff po div 8)) = Some (tmp, n)"
      "length tmp = 32" "n \<le> 32" "bytes_bits (take n tmp) = take ?n (bytes_bits ?T) @ octet_pad ?n"
    using flushed_group [OF k(4) _ refl refl refl, of k "po_nboff po"] k by fastforce
  obtain r key where call: "consume (take n tmp) (po_op_key po) = (r, key)"
    by (cases "consume (take n tmp) (po_op_key po)")
  have eq: "aper_encode_flush_outp po = Some (r, po\<lparr>po_tmpspace := tmp, po_op_key := key\<rparr>)"
    using False k(1) g call out by (auto simp: aper_encode_flush_outp_def Let_def)
  have bits: "po_bits view po = bytes_bits ?C @ take ?n (bytes_bits ?T)"
    using k(1) by (simp add: po_bits_def po_stored_def)
  have len: "length (po_bits view po) = 8 * length ?C + ?n"
    using k by (simp add: bits)
  show ?thesis
  proof (cases "r < 0")
    case True
    have "8 * n = ?n + length (octet_pad ?n)"
      using arg_cong [OF g(4), of length] g(2,3) k by simp
    moreover have "length (octet_pad ?n) \<le> 7" by (simp add: octet_pad_def less_Suc_eq_le [symmetric])
    ultimately have "8 * snd (view (po_op_key po)) < length (po_bits view po)"
      using refuses [OF call True] g(2,3) len by simp
    then show ?thesis using eq True by auto
  next
    case False
    then have acc: "fst (view key) = ?C @ take n tmp" "snd (view key) = snd (view (po_op_key po))"
      using accepts [OF call] by simp_all
    from acc(1) have "bytes_bits (fst (view key)) = po_bits view po @ octet_pad ?n"
      by (simp add: bits g(4))
    moreover have "octet_pad ?n = octet_pad (length (po_bits view po))" unfolding len by simp
    ultimately show ?thesis using eq False acc(2) by auto
  qed
qed

end

section \<open>The contract of a type's encoder\<close>

text \<open>
  \<open>encodes V out enc bits\<close>: from every well-formed writer over the callback \<open>out\<close>, the encoder
  appends \<open>bits ph\<close>, where \<open>ph\<close> is the phase it starts at, or fails because they do not fit.
\<close>

definition encodes :: "'k sink_view \<Rightarrow> (u8 list \<Rightarrow> 'k \<Rightarrow> int \<times> 'k) \<Rightarrow> 'k per_type_encoder \<Rightarrow>
    (nat \<Rightarrow> bool list) \<Rightarrow> bool" where
  "encodes V out enc bits \<longleftrightarrow> (\<forall>po. po_wf po \<and> po_output po = out \<longrightarrow>
     (\<exists>n po'. enc po = Some (n, po') \<and>
       (n \<noteq> - 1 \<and> emits V po (bits (po_nboff po mod 8)) po' \<or>
        n = - 1 \<and> overflows V po (bits (po_nboff po mod 8)))))"

text \<open>Callbacks that signal success by zero only.\<close>

locale strict_sink = byte_sink +
  assumes returns: "consume bs key = (r, key') \<Longrightarrow> r \<le> 0"
begin

lemma flush_outp_strict:
  assumes wf: "po_wf po" and out: "po_output po = consume"
  shows "\<exists>r po'. aper_encode_flush_outp po = Some (r, po') \<and>
    (r = 0 \<and> bytes_bits (fst (view (po_op_key po'))) =
        po_bits view po @ octet_pad (length (po_bits view po)) \<and>
       snd (view (po_op_key po')) = snd (view (po_op_key po)) \<or>
     r < 0 \<and> 8 * snd (view (po_op_key po)) < length (po_bits view po))"
proof -
  have "r \<le> 0" if "aper_encode_flush_outp po = Some (r, po')" for r po'
    using that returns out
    by (auto simp: aper_encode_flush_outp_def Let_def split: Option.bind_splits if_splits prod.splits)
  then show ?thesis using flush_outp [OF wf out] by (metis order_antisym)
qed

lemma aper_start_wf: "length tmp = 32 \<Longrightarrow> po_wf (aper_start (Some consume) key tmp)"
  by (simp add: aper_start_def po_wf_def)

text \<open>
  A complete encoding: the callback receives exactly the encoder's bits, filled up with zero bits
  to an octet, and the number of bits is returned; or the bits did not fit.
\<close>

lemma aper_encode_complete:
  assumes enc: "encodes view consume enc bits" and tmp: "length tmp = 32"
  shows "\<exists>r key'. aper_encode tmp (Some enc) (Some consume) key = Some (r, key') \<and>
    (r = int (length (bits 0)) \<and>
       bytes_bits (fst (view key')) = bytes_bits (fst (view key)) @ bits 0 @ octet_pad (length (bits 0)) \<and>
       snd (view key') = snd (view key) \<or>
     r = - 1 \<and> 8 * snd (view key) < 8 * length (fst (view key)) + length (bits 0))"
proof -
  let ?po = "aper_start (Some consume) key tmp"
  have start: "po_wf ?po" "po_output ?po = consume" "po_bits view ?po = bytes_bits (fst (view key))"
      "po_op_key ?po = key" "po_flushed_bytes ?po = 0" "po_nboff ?po = 0"
    using aper_start_wf [OF tmp] by (simp_all add: aper_start_def po_bits_def po_stored_def)
  obtain n po1 where n: "enc ?po = Some (n, po1)"
      "n \<noteq> - 1 \<and> emits view ?po (bits 0) po1 \<or> n = - 1 \<and> overflows view ?po (bits 0)"
    using enc start(1,2,6) by (auto simp: encodes_def)
  show ?thesis
  proof (cases "n = - 1")
    case True
    then show ?thesis using n start
      by (auto simp: aper_encode_def overflows_def)
  next
    case False
    with n have e: "emits view ?po (bits 0) po1" by simp
    then have p1: "po_wf po1" "po_output po1 = consume" "po_bits view po1 = bytes_bits (fst (view key)) @ bits 0"
        "snd (view (po_op_key po1)) = snd (view key)"
        "po_flushed_bytes po1 + length (fst (view key)) = length (fst (view (po_op_key po1)))"
      using start by (simp_all add: emits_def)
    obtain k where k: "po_buffer po1 = Some k" using p1(1) by (auto simp: po_wf_def split: option.splits)
    obtain r po2 where flush: "aper_encode_flush_outp po1 = Some (r, po2)"
        "r = 0 \<and> bytes_bits (fst (view (po_op_key po2))) =
           po_bits view po1 @ octet_pad (length (po_bits view po1)) \<and>
           snd (view (po_op_key po2)) = snd (view (po_op_key po1)) \<or>
         r < 0 \<and> 8 * snd (view (po_op_key po1)) < length (po_bits view po1)"
      using flush_outp_strict [OF p1(1,2)] by blast
    have "length (po_bits view po1) = 8 * length (fst (view (po_op_key po1))) + (8 * k + po_nboff po1)"
      using length_po_stored [OF p1(1)] k by (simp add: po_bits_def)
    then have count: "8 * po_flushed_bytes po1 + (8 * k + po_nboff po1) = length (bits 0)"
      using p1(3,5) by simp
    have res: "aper_encode tmp (Some enc) (Some consume) key =
        Some (if r \<noteq> 0 then - 1 else int (length (bits 0)), po_op_key po2)"
      using n(1) False k flush(1) count by (simp add: aper_encode_def)
    have "octet_pad (8 * length (fst (view key)) + length (bits 0)) = octet_pad (length (bits 0))"
      by simp
    then show ?thesis using res flush(2) p1(3,4) by (auto split: if_splits)
  qed
qed

end

interpretation buffer: strict_sink encode_to_buffer_cb buffer_view
  by unfold_locales (auto simp: encode_to_buffer_cb_def split: if_splits)

interpretation dyn: strict_sink "encode_dyn_cb (\<lambda>_. True)" dyn_view
  by unfold_locales (auto simp: encode_dyn_cb_def Let_def split: if_splits)

end
