(* ===== verification/Aper_Support.thy ===== *)
theory Aper_Support
  imports Asn_Bit_Data Per_Encoder
begin

unbundle bit_operations_syntax

text \<open>
  Primitive fields of the aligned packed encoding (\<open>aper_support.c\<close>): octet alignment, length
  determinants, normally small lengths and numbers, and constrained whole numbers (X.691 10.5 to
  10.9), as the code reads and writes them.
\<close>

section \<open>Reading\<close>

definition aper_get_align :: "asn_bit_data \<Rightarrow> (int \<times> asn_bit_data) option" where
  "aper_get_align pd =
    (if pd_nboff pd mod 8 \<noteq> 0 then asn_get_few_bits (8 - int (pd_nboff pd mod 8)) pd
     else Some (0, pd))"

text \<open>The loop that finds the width of the bit field, from 8 bits down to 1.\<close>

fun bitfield_size :: "int \<Rightarrow> nat \<Rightarrow> nat" where
  "bitfield_size m n =
    (if 2 \<le> n then (if m AND push_bit (n - 1) 1 \<noteq> 0 then n else bitfield_size m (n - 1)) else n)"

declare bitfield_size.simps [simp del]

text \<open>
  The loops that count octets, one type of shift each: on the reading side, and for the value
  on the writing side, the power is a \<open>long\<close>, and a shift by 64 has no result; for the range on
  the writing side it is an \<open>int\<close>, and already a shift by 32 has none.
\<close>

function octets_long :: "nat \<Rightarrow> int \<Rightarrow> nat option" where
  "octets_long n v =
    (if 64 \<le> 8 * n then None
     else if v < push_bit (8 * n) 1 then Some n
     else octets_long (n + 1) v)"
  by pat_completeness auto
termination by (relation "measure (\<lambda>(n, _). 8 - n)") auto

function octets_int :: "nat \<Rightarrow> int \<Rightarrow> nat option" where
  "octets_int n v =
    (if 31 \<le> 8 * n then None
     else if v < push_bit (8 * n) 1 then Some n
     else octets_int (n + 1) v)"
  by pat_completeness auto
termination by (relation "measure (\<lambda>(n, _). 4 - n)") auto

declare octets_long.simps [simp del] octets_int.simps [simp del]

lemma octets_long_le: "octets_long n v = Some k \<Longrightarrow> n \<le> k \<and> k \<le> 7"
  by (induction n v rule: octets_long.induct) (subst (asm) octets_long.simps, auto split: if_splits)

lemma octets_int_le: "octets_int n v = Some k \<Longrightarrow> n \<le> k \<and> k \<le> 3"
  by (induction n v rule: octets_int.induct) (subst (asm) octets_int.simps, auto split: if_splits)

function aper_get_constrained_whole_number ::
  "asn_bit_data \<Rightarrow> int \<Rightarrow> int \<Rightarrow> (int \<times> asn_bit_data) option" where
  "aper_get_constrained_whole_number pd lb ub =
    (if ub < lb then None else
     Option.bind (s64 (ub - lb)) (\<lambda>d. Option.bind (s64 (d + 1)) (\<lambda>range.
     let checked = (\<lambda>(v, pd). if v < 0 \<or> range \<le> v then Some (- 1, pd) else Some (v + lb, pd))
     in
     if range = 1 then Some (lb, pd)
     else if range \<le> 255 then
       Option.bind (asn_get_few_bits (int (bitfield_size (range - 1) 8)) pd) checked
     else if range = 256 then
       Option.bind (aper_get_align pd) (\<lambda>(r, pd). if r < 0 then Some (- 1, pd)
         else Option.bind (asn_get_few_bits 8 pd) checked)
     else if range \<le> 65536 then
       Option.bind (aper_get_align pd) (\<lambda>(r, pd). if r < 0 then Some (- 1, pd)
         else Option.bind (asn_get_few_bits 16 pd) checked)
     else
       Option.bind (octets_long 3 (range - 1)) (\<lambda>range_len.
       Option.bind (aper_get_constrained_whole_number pd 1 (int range_len)) (\<lambda>(value_len, pd).
         if value_len = - 1 then Some (- 1, pd)
         else if 4 < value_len then Some (- 1, pd)
         else Option.bind (aper_get_align pd) (\<lambda>(r, pd). if r < 0 then Some (- 1, pd)
           else Option.bind (asn_get_few_bits (value_len * 8) pd) checked))))))"
  by pat_completeness auto

termination
proof (relation "measure (\<lambda>(_, lb, ub). if 65536 < ub - lb + 1 then 1 else 0)", goal_cases)
  case 1
  show ?case by simp
next
  case (2 pd lb ub d range checked range_len)
  then have "range_len \<le> 7" using octets_long_le by blast
  with 2 show ?case by (auto simp: s64_eq_Some)
qed

declare aper_get_constrained_whole_number.simps [simp del]

definition aper_get_length ::
  "asn_bit_data \<Rightarrow> int \<Rightarrow> int \<Rightarrow> int \<Rightarrow> ((int \<times> bool) \<times> asn_bit_data) option" where
  "aper_get_length pd lb ub ebits =
    (let constrained = (0 \<le> lb \<and> 0 \<le> ub);
         once = (\<lambda>(v, pd). Some ((v, False), pd))
     in
     if constrained \<and> ub < 65536 then
       Option.bind (aper_get_constrained_whole_number pd lb ub) once
     else Option.bind (aper_get_align pd) (\<lambda>(r, pd).
       if r < 0 then Some ((- 1, False), pd)
       else if 0 \<le> ebits then Option.bind (asn_get_few_bits ebits pd) once
       else Option.bind (asn_get_few_bits 8 pd) (\<lambda>(val, pd).
         if val < 0 then Some ((- 1, False), pd)
         else if val AND 128 = 0 then Some ((val AND 0x7F, False), pd)
         else if val AND 64 = 0 then
           Option.bind (asn_get_few_bits 8 pd) (\<lambda>(low, pd).
             let val = push_bit 8 (val AND 63) OR low in
             if val < 0 then Some ((- 1, False), pd) else Some ((val, False), pd))
         else
           let val = val AND 63 in
           if val < 1 \<or> 4 < val then Some ((- 1, False), pd)
           else Some ((16384 * val, True), pd))))"

definition aper_get_nslength :: "asn_bit_data \<Rightarrow> (int \<times> asn_bit_data) option" where
  "aper_get_nslength pd =
    Option.bind (asn_get_few_bits 1 pd) (\<lambda>(b, pd).
      if b = 0 then
        Option.bind (asn_get_few_bits 6 pd) (\<lambda>(l, pd).
          if l + 1 \<le> 0 then Some (- 1, pd) else Some (l + 1, pd))
      else
        Option.bind (aper_get_length pd (- 1) (- 1) (- 1)) (\<lambda>((len, repeat), pd).
          if 0 \<le> len \<and> \<not> repeat then Some (len, pd) else Some (- 1, pd)))"

definition aper_get_nsnnwn :: "asn_bit_data \<Rightarrow> (int \<times> asn_bit_data) option" where
  "aper_get_nsnnwn pd =
    Option.bind (asn_get_few_bits 1 pd) (\<lambda>(b, pd).
      if b = - 1 then Some (- 1, pd)
      else if b = 0 then asn_get_few_bits 6 pd
      else Option.bind (aper_get_align pd) (\<lambda>(r, pd).
        if r < 0 then Some (- 1, pd)
        else Option.bind (asn_get_few_bits 1 pd) (\<lambda>(b, pd).
          if b = - 1 then Some (- 1, pd)
          else if b = 1 then Some (- 1, pd)
          else Option.bind (asn_get_few_bits 7 pd) (\<lambda>(len, pd).
            if 4 < len then Some (- 1, pd) else asn_get_few_bits (len * 8) pd))))"

section \<open>Writing\<close>

definition aper_put_align :: "'k asn_bit_outp \<Rightarrow> (int \<times> 'k asn_bit_outp) option" where
  "aper_put_align po =
    (if po_nboff po mod 8 \<noteq> 0 then
       Option.bind (asn_put_few_bits po 0 (8 - int (po_nboff po mod 8))) (\<lambda>(r, po).
         Some (if r \<noteq> 0 then - 1 else 0, po))
     else Some (0, po))"

function aper_put_constrained_whole_number ::
  "'k asn_bit_outp \<Rightarrow> int \<Rightarrow> int \<Rightarrow> int \<Rightarrow> (int \<times> 'k asn_bit_outp) option" where
  "aper_put_constrained_whole_number po lb ub number =
    (if ub < lb then None else
     Option.bind (s64 (ub - lb)) (\<lambda>d. Option.bind (s64 (d + 1)) (\<lambda>range.
     Option.bind (s64 (number - lb)) (\<lambda>val.
     let aligned = (\<lambda>po n. Option.bind (aper_put_align po) (\<lambda>(r, po).
       if r \<noteq> 0 then Some (- 1, po) else asn_put_few_bits po (word_of_int val) n))
     in
     if number < lb \<or> ub < number then Some (- 1, po)
     else if range = 1 then Some (0, po)
     else if range \<le> 255 then
       asn_put_few_bits po (word_of_int val) (int (bitfield_size (range - 1) 8))
     else if range = 256 then aligned po 8
     else if range \<le> 65536 then aligned po 16
     else
       Option.bind (octets_int 3 (range - 1)) (\<lambda>range_len.
       Option.bind (octets_long 1 val) (\<lambda>value_len.
       Option.bind (aper_put_constrained_whole_number po 1 (int range_len) (int value_len)) (\<lambda>(r, po).
         if r \<noteq> 0 then Some (- 1, po)
         else aligned po (int value_len * 8))))))))"
  by pat_completeness auto

termination
proof (relation "measure (\<lambda>(_, lb, ub, _). if 65536 < ub - lb + 1 then 1 else 0)", goal_cases)
  case 1
  show ?case by simp
next
  case (2 po lb ub number d range val aligned range_len value_len)
  then have "range_len \<le> 3" using octets_int_le by blast
  with 2 show ?case by (auto simp: s64_eq_Some)
qed

declare aper_put_constrained_whole_number.simps [simp del]

text \<open>The conversion of a \<open>size_t\<close> expression to \<open>long\<close>.\<close>

definition to_long :: "int \<Rightarrow> int" where
  "to_long x = sint (word_of_int x :: u64)"

text \<open>The number of units whose length was written, whether a final zero length is needed.\<close>

definition aper_put_length ::
  "'k asn_bit_outp \<Rightarrow> int \<Rightarrow> int \<Rightarrow> nat \<Rightarrow> ((int \<times> bool) \<times> 'k asn_bit_outp) option" where
  "aper_put_length po lb ub n =
    (let constrained = (0 \<le> lb \<and> 0 \<le> ub);
         result = (\<lambda>ok eom. \<lambda>(r, po). Some ((if r \<noteq> 0 then - 1 else ok, eom), po))
     in
     if constrained \<and> ub < 65536 then
       Option.bind (aper_put_constrained_whole_number po lb ub (to_long (int n + lb)))
         (result (int n) False)
     else Option.bind (aper_put_align po) (\<lambda>(r, po).
       if r < 0 then Some ((- 1, False), po)
       else if n \<le> 127 then
         Option.bind (asn_put_few_bits po (of_nat n) 8) (result (int n) False)
       else if n < 16384 then
         Option.bind (asn_put_few_bits po (of_nat n OR 0x8000) 16) (result (int n) False)
       else
         let eom = (n mod 16384 = 0);
             blocks = n div 16384;
             eom = (if 4 < blocks then False else eom);
             blocks = (if 4 < blocks then 4 else blocks)
         in Option.bind (asn_put_few_bits po (0xC0 OR of_nat blocks) 8)
              (result (int (blocks * 16384)) eom)))"

definition aper_put_nslength :: "'k asn_bit_outp \<Rightarrow> nat \<Rightarrow> (int \<times> 'k asn_bit_outp) option" where
  "aper_put_nslength po len =
    (if len \<le> 64 then
       if len = 0 then Some (- 1, po)
       else Option.bind (asn_put_few_bits po (of_nat (len - 1)) 7) (\<lambda>(r, po).
         Some (if r \<noteq> 0 then - 1 else 0, po))
     else Option.bind (aper_put_length po (- 1) (- 1) len) (\<lambda>((n, _), po).
       Some (if n \<noteq> int len then - 1 else 0, po)))"

definition aper_put_nsnnwn :: "'k asn_bit_outp \<Rightarrow> int \<Rightarrow> (int \<times> 'k asn_bit_outp) option" where
  "aper_put_nsnnwn po number =
    (let put = (\<lambda>po v n k. Option.bind (asn_put_few_bits po (word_of_int v) n) (\<lambda>(r, po).
       if r \<noteq> 0 then Some (- 1, po) else k po));
         align = (\<lambda>po k. Option.bind (aper_put_align po) (\<lambda>(r, po).
       if r < 0 then Some (- 1, po) else k po))
     in
     if number \<le> 63 then put po 0 1 (\<lambda>po. asn_put_few_bits po (word_of_int number) 6)
     else put po 1 1 (\<lambda>po.
       Option.bind (if number < 256 then Some 1 else if number < 65536 then Some 2
                    else octets_int 3 number) (\<lambda>len.
         align po (\<lambda>po.
           if len \<le> 127 then
             put po 0 1 (\<lambda>po. put po (int len) 7 (\<lambda>po.
               align po (\<lambda>po. asn_put_few_bits po (word_of_int number) (8 * int len))))
           else Some (- 1, po)))))"

end
