(* ===== verification/Aper_Support_Laws.thy ===== *)
theory Aper_Support_Laws
  imports Aper_Support
begin

unbundle bit_operations_syntax

text \<open>
  What the primitive fields look like on the wire, and that the code of \<open>Aper_Support\<close> writes and
  reads exactly that: the encodings of X.691 as functions from values to bit strings, one lemma
  per routine and direction.  The writing lemmas are proved for every callback that keeps the
  contract \<open>byte_sink\<close>.
\<close>

lemma bit_top:
  assumes "0 \<le> v" and "v < 2 ^ Suc n"
  shows "bit v n \<longleftrightarrow> 2 ^ n \<le> (v::int)"
proof -
  have "v div 2 ^ n < 2"
  proof (rule ccontr)
    assume "\<not> v div 2 ^ n < 2"
    then have "2 ^ n * 2 \<le> 2 ^ n * (v div 2 ^ n)" by (intro mult_left_mono) auto
    also have "\<dots> \<le> v"
    proof -
      have "0 \<le> v mod 2 ^ n" by simp
      with mult_div_mod_eq [of "2 ^ n" v] show ?thesis by linarith
    qed
    finally show False using assms by simp
  qed
  moreover have "0 \<le> v div 2 ^ n" using assms by (simp add: pos_imp_zdiv_nonneg_iff)
  moreover have "2 ^ n \<le> v \<longleftrightarrow> 1 \<le> v div 2 ^ n" 
    using pos_imp_zdiv_pos_iff [of "2 ^ n" v] by auto
  ultimately have "v div 2 ^ n = (if 2 ^ n \<le> v then 1 else 0)" 
    by (auto split: if_splits)
  then show ?thesis by (simp add: bit_iff_odd split: if_splits)
qed

text \<open>The source's loops find these numbers.\<close>

lemma bitfield_size_width:
  "0 \<le> m \<Longrightarrow> m < 2 ^ n \<Longrightarrow> 1 \<le> n \<Longrightarrow> bitfield_size m n = bit_width m"
proof (induction m n rule: bitfield_size.induct)
  case (1 m n)
  show ?case
  proof (cases "2 \<le> n")
    case False
    then have "n = 1" using 1 by simp
    then show ?thesis using 1 by (simp add: bitfield_size.simps digits.simps)
  next
    case True
    then obtain k where n: "n = Suc k" "1 \<le> k" by (cases n) auto
    have "m AND push_bit (n - 1) 1 \<noteq> 0 \<longleftrightarrow> 2 ^ k \<le> m"
      using bit_top [of m k] 1 n by (simp add: push_bit_eq_mult and_exp_eq_0_iff_not_bit)
    then show ?thesis
      using 1 n True digits_unique [of 1 m n]
      by (subst bitfield_size.simps) auto
  qed
qed

lemma octets_long_count:
  "0 \<le> v \<Longrightarrow> v < 2 ^ 56 \<Longrightarrow> 1 \<le> n \<Longrightarrow> n \<le> 7 \<Longrightarrow> octets_long n v = Some (max n (octet_count v))"
proof (induction n v rule: octets_long.induct)
  case (1 n v)
  show ?case
  proof (cases "v < 2 ^ (8 * n)")
    case True
    then show ?thesis
      using 1 octet_count_le [of v n] by (subst octets_long.simps) (simp add: push_bit_eq_mult max_def)
  next
    case False
    then have "n < octet_count v" using 1 octet_count_le [of v n] by linarith
    moreover have "octet_count v \<le> 7" using 1 octet_count_le [of v 7] by simp
    ultimately show ?thesis
      using 1 False by (subst octets_long.simps) (simp add: push_bit_eq_mult max_def)
  qed
qed

lemma octets_int_count:
  "0 \<le> v \<Longrightarrow> v < 2 ^ 24 \<Longrightarrow> 1 \<le> n \<Longrightarrow> n \<le> 3 \<Longrightarrow> octets_int n v = Some (max n (octet_count v))"
proof (induction n v rule: octets_int.induct)
  case (1 n v)
  show ?case
  proof (cases "v < 2 ^ (8 * n)")
    case True
    then show ?thesis
      using 1 octet_count_le [of v n] by (subst octets_int.simps) (simp add: push_bit_eq_mult max_def)
  next
    case False
    then have "n < octet_count v" using 1 octet_count_le [of v n] by linarith
    moreover have "octet_count v \<le> 3" using 1 octet_count_le [of v 3] by simp
    ultimately show ?thesis
      using 1 False by (subst octets_int.simps) (simp add: push_bit_eq_mult max_def)
  qed
qed

text \<open>From \<open>2 ^ 24\<close> on the loop over an \<open>int\<close> shifts too far.\<close>

lemma octets_int_undefined: "2 ^ 24 \<le> v \<Longrightarrow> octets_int 3 v = None"
  by (subst octets_int.simps, simp add: push_bit_eq_mult, subst octets_int.simps) simp

section \<open>Encodings\<close>

definition align_pad :: "nat \<Rightarrow> bool list" where
  "align_pad ph = replicate ((8 - ph mod 8) mod 8) False"

text \<open>A constrained whole number (X.691 10.5) at phase \<open>ph\<close> of an octet.\<close>

definition cwn_bits :: "nat \<Rightarrow> int \<Rightarrow> int \<Rightarrow> int \<Rightarrow> bool list" where
  "cwn_bits ph lb ub x =
    (let range = ub - lb + 1; v = x - lb in
     if range = 1 then []
     else if range \<le> 255 then val_bits (bit_width (range - 1)) v
     else if range = 256 then align_pad ph @ val_bits 8 v
     else if range \<le> 65536 then align_pad ph @ val_bits 16 v
     else let head = val_bits (bit_width (int (octet_count (range - 1)) - 1)) (int (octet_count v) - 1)
          in head @ align_pad (ph + length head) @ val_bits (8 * octet_count v) v)"

text \<open>The first length determinant of \<open>n\<close> units, and how many units it announces.\<close>

definition length_bits :: "nat \<Rightarrow> bool list" where
  "length_bits n =
    (if n \<le> 127 then False # val_bits 7 (int n)
     else if n < 16384 then True # False # val_bits 14 (int n)
     else True # True # val_bits 6 (int (min 4 (n div 16384))))"

definition length_units :: "nat \<Rightarrow> nat" where
  "length_units n = (if n < 16384 then n else 16384 * min 4 (n div 16384))"

definition nsnnwn_bits :: "nat \<Rightarrow> int \<Rightarrow> bool list" where
  "nsnnwn_bits ph x =
    (if x \<le> 63 then False # val_bits 6 x
     else True # align_pad (ph + 1) @ val_bits 8 (int (octet_count x)) @ val_bits (8 * octet_count x) x)"

lemma length_align_pad [simp]: "length (align_pad ph) = (8 - ph mod 8) mod 8"
  by (simp add: align_pad_def)

lemma align_pad_mod [simp]: "align_pad (ph mod 8) = align_pad ph"
  by (simp add: align_pad_def)

lemma align_pad_0 [simp]: "ph mod 8 = 0 \<Longrightarrow> align_pad ph = []"
  by (simp add: align_pad_def)

lemma align_pad_aligns: "(ph + (8 - ph mod 8) mod 8) mod 8 = (0::nat)"
proof -
  obtain q r where ph: "ph = 8 * q + r" "r < 8"
    by (metis mod_less_divisor mult_div_mod_eq zero_less_numeral)
  then have "ph mod 8 = r" by simp
  moreover have "r \<noteq> 0 \<Longrightarrow> ph + (8 - r) = 8 * (q + 1)" using ph by simp
  moreover have "r \<noteq> 0 \<Longrightarrow> (8 - r) mod 8 = 8 - r" by simp
  ultimately show ?thesis using ph by (cases "r = 0") (simp, metis mod_mult_self1_is_0)
qed

section \<open>Reading an encoding\<close>

lemma gets_align:
  assumes "pd_at pd (align_pad (pd_nboff pd))"
  shows "gets pd (align_pad (pd_nboff pd)) 0 (aper_get_align pd)"
proof (cases "pd_nboff pd mod 8 = 0")
  case True
  then show ?thesis using assms by (simp add: aper_get_align_def gets_nothing pd_at_def)
next
  case False
  then have n: "(8 - pd_nboff pd mod 8) mod 8 = 8 - pd_nboff pd mod 8" by simp
  have "gets pd (align_pad (pd_nboff pd)) (bits_val (align_pad (pd_nboff pd)))
      (asn_get_few_bits (int (8 - pd_nboff pd mod 8)) pd)"
    using assms n by (intro gets_few_bits) auto
  moreover have "int (8 - pd_nboff pd mod 8) = 8 - int (pd_nboff pd mod 8)" by (simp add: of_nat_diff less_imp_le)
  moreover have "bits_val (align_pad (pd_nboff pd)) = 0" by (simp add: align_pad_def)
  ultimately show ?thesis using False unfolding aper_get_align_def by simp
qed

lemma gets_aligned:
  assumes "pd_at pd (align_pad (pd_nboff pd) @ bs)"
    and "\<And>pd1. pd_at pd1 bs \<Longrightarrow> pd_nboff pd1 mod 8 = 0 \<Longrightarrow> gets pd1 bs v (k pd1)"
  shows "gets pd (align_pad (pd_nboff pd) @ bs) v
    (Option.bind (aper_get_align pd) (\<lambda>(r, pd). if r < 0 then Some (w, pd) else k pd))"
proof (rule gets_then [OF gets_align])
  show "pd_at pd (align_pad (pd_nboff pd))" using assms(1) by (rule pd_at_prefix)
  fix pd1 assume took: "pd_took pd (length (align_pad (pd_nboff pd))) pd1"
  then have "pd_nboff pd1 mod 8 = 0" using pd_took_phase align_pad_aligns by simp
  with assms took show "gets pd1 bs v (case (0, pd1) of (r, pd) \<Rightarrow> if r < (0::int) then Some (w, pd) else k pd)"
    using pd_at_took by auto
qed

lemma gets_checked:
  assumes "pd_at pd (val_bits n v)" and "n \<le> 31" and "0 \<le> v" and "v < 2 ^ n" and "v < rng"
  shows "gets pd (val_bits n v) (v + lb) (Option.bind (asn_get_few_bits (int n) pd)
    (\<lambda>(v, pd). if v < 0 \<or> rng \<le> v then Some (- 1, pd) else Some (v + lb, pd)))"
  using gets_few [OF assms(1-4)] assms(3,5) by (auto simp: gets_def)

lemma bit_width_octet: "0 \<le> m \<Longrightarrow> m < 2 ^ 8 \<Longrightarrow> bitfield_size m 8 = bit_width m \<and> m < 2 ^ bit_width m \<and> bit_width m \<le> 8"
proof -
  assume m: "0 \<le> m" "m < 2 ^ 8"
  have "bit_width m \<le> 8"
  proof (rule ccontr)
    assume "\<not> bit_width m \<le> 8"
    then have "(2::int) ^ 8 \<le> 2 ^ (1 * (bit_width m - 1))" by (intro power_increasing) auto
    then show False using digits_bounds [of 1 m] m \<open>\<not> bit_width m \<le> 8\<close> by auto
  qed
  then show ?thesis using m bitfield_size_width [of m 8] digits_bounds [of 1 m] by simp
qed

lemma s64_bind [simp]: "LLONG_MIN \<le> x \<Longrightarrow> x \<le> LLONG_MAX \<Longrightarrow> Option.bind (s64 x) f = f x"
  by simp

text \<open>The bounds of a type are \<open>long\<close> values whose range is a \<open>long\<close>.\<close>

definition long_range :: "int \<Rightarrow> int \<Rightarrow> bool" where
  "long_range lb ub \<longleftrightarrow> lb \<le> ub \<and> ub - lb + 1 \<le> LLONG_MAX"

lemma long_rangeD:
  assumes "long_range lb ub"
  shows "Option.bind (s64 (ub - lb)) f = f (ub - lb)"
    and "Option.bind (s64 (ub - lb + 1)) f = f (ub - lb + 1)"
    and "lb \<le> x \<Longrightarrow> x \<le> ub \<Longrightarrow> Option.bind (s64 (x - lb)) g = g (x - lb)"
  using assms by (simp_all add: long_range_def LLONG_MIN_def LLONG_MAX_def)

lemma gets_cwn_small:
  assumes "pd_at pd (cwn_bits (pd_nboff pd) lb ub x)" and r: "long_range lb ub" and "ub - lb < 65536"
    and x: "lb \<le> x" "x \<le> ub"
  shows "gets pd (cwn_bits (pd_nboff pd) lb ub x) x (aper_get_constrained_whole_number pd lb ub)"
proof -
  let ?range = "ub - lb + 1" and ?v = "x - lb"
  have v: "0 \<le> ?v" "?v < ?range" "lb \<le> ub" using x by auto
  consider "?range = 1" | "2 \<le> ?range" "?range \<le> 255" | "?range = 256" | "256 < ?range" "?range \<le> 65536"
    using v assms(3) by linarith
  then show ?thesis
  proof cases
    case 1
    then show ?thesis using assms
      by (subst aper_get_constrained_whole_number.simps)
        (auto simp: cwn_bits_def gets_nothing pd_at_def s64_def LLONG_MIN_def LLONG_MAX_def)
  next
    case 2
    let ?w = "bit_width (?range - 1)"
    have w: "bitfield_size (?range - 1) 8 = ?w" "?range - 1 < 2 ^ ?w" "?w \<le> 8"
      using bit_width_octet [of "?range - 1"] 2 by auto
    have at: "pd_at pd (val_bits ?w ?v)" using assms(1) 2 by (simp add: cwn_bits_def)
    have "?v < 2 ^ ?w" using w(2) v(2) by linarith
    then have "gets pd (val_bits ?w ?v) (?v + lb) (Option.bind (asn_get_few_bits (int ?w) pd)
        (\<lambda>(v, pd). if v < 0 \<or> ?range \<le> v then Some (- 1, pd) else Some (v + lb, pd)))"
      using at w(3) v by (intro gets_checked) auto
    then show ?thesis
      using 2 v w(1) by (subst aper_get_constrained_whole_number.simps)
        (simp add: cwn_bits_def long_rangeD [OF r] Let_def)
  next
    case 3
    have at: "pd_at pd (align_pad (pd_nboff pd) @ val_bits 8 ?v)" using assms(1) 3 by (simp add: cwn_bits_def)
    have "gets pd (align_pad (pd_nboff pd) @ val_bits 8 ?v) (?v + lb)
       (Option.bind (aper_get_align pd) (\<lambda>(r, pd). if r < 0 then Some (- 1, pd)
         else Option.bind (asn_get_few_bits (int 8) pd)
           (\<lambda>(v, pd). if v < 0 \<or> ?range \<le> v then Some (- 1, pd) else Some (v + lb, pd))))"
      using v 3 by (intro gets_aligned [OF at] gets_checked) auto
    then show ?thesis
      using 3 v by (subst aper_get_constrained_whole_number.simps)
        (simp add: cwn_bits_def s64_def LLONG_MIN_def LLONG_MAX_def cong: if_cong)
  next
    case 4
    have at: "pd_at pd (align_pad (pd_nboff pd) @ val_bits 16 ?v)" using assms(1) 4 by (simp add: cwn_bits_def)
    have "gets pd (align_pad (pd_nboff pd) @ val_bits 16 ?v) (?v + lb)
       (Option.bind (aper_get_align pd) (\<lambda>(r, pd). if r < 0 then Some (- 1, pd)
         else Option.bind (asn_get_few_bits (int 16) pd)
           (\<lambda>(v, pd). if v < 0 \<or> ?range \<le> v then Some (- 1, pd) else Some (v + lb, pd))))"
      using v 4 by (intro gets_aligned [OF at] gets_checked) auto
    then show ?thesis
      using 4 v by (subst aper_get_constrained_whole_number.simps)
        (simp add: cwn_bits_def long_rangeD [OF r] Let_def cong: if_cong)
  qed
qed

text \<open>A range beyond 65536 is read as an octet count, alignment and that many octets.\<close>

lemma cwn_head:
  assumes "65536 \<le> r" and "r < 2 ^ 24"
  shows "octet_count r = 3" and "1 \<le> c \<Longrightarrow> cwn_bits ph 1 3 c = val_bits (bit_width 2) (c - 1)"
  using assms digits_unique [of 8 r 3] by (simp_all add: cwn_bits_def)

lemma gets_cwn:
  assumes at: "pd_at pd (cwn_bits (pd_nboff pd) lb ub x)" and r: "long_range lb ub" and "ub - lb < 2 ^ 24"
    and x: "lb \<le> x" "x \<le> ub"
  shows "gets pd (cwn_bits (pd_nboff pd) lb ub x) x (aper_get_constrained_whole_number pd lb ub)"
proof (cases "ub - lb < 65536")
  case True
  then show ?thesis using gets_cwn_small assms by blast
next
  case False
  let ?range = "ub - lb + 1" and ?v = "x - lb"
  let ?c = "octet_count ?v"
  have v: "0 \<le> ?v" "?v < 2 ^ 24" "?v < ?range" using x assms(3) by auto
  have c: "1 \<le> ?c" "?c \<le> 3" "?v < 2 ^ (8 * ?c)"
    using octet_count_pos octet_count_le [of ?v 3] octet_count_le [of ?v ?c] v by auto
  have oc: "octet_count (?range - 1) = 3" using cwn_head [of "?range - 1"] False assms(3) by simp
  let ?head = "cwn_bits (pd_nboff pd) 1 3 (int ?c)"
  let ?body = "align_pad (pd_nboff pd + length ?head) @ val_bits (8 * ?c) ?v"
  have bits: "cwn_bits (pd_nboff pd) lb ub x = ?head @ ?body"
    using False c(1) cwn_head(2) [of "?range - 1" "int ?c"] assms(3) oc
    by (simp add: cwn_bits_def [of _ lb ub] Let_def)
  have octets: "int ?c * 8 = int (8 * ?c)" by simp
  have head: "gets pd ?head (int ?c) (aper_get_constrained_whole_number pd 1 3)"
    using at c by (intro gets_cwn_small) (auto simp: bits long_range_def LLONG_MAX_def dest: pd_at_prefix)
  let ?rest = "\<lambda>(value_len, pd). if value_len = - 1 then Some (- 1, pd)
      else if 4 < value_len then Some (- 1, pd)
      else Option.bind (aper_get_align pd) (\<lambda>(r, pd). if r < 0 then Some (- 1, pd)
        else Option.bind (asn_get_few_bits (value_len * 8) pd)
          (\<lambda>(v, pd). if v < 0 \<or> ?range \<le> v then Some (- 1, pd) else Some (v + lb, pd)))"
  have "gets pd (?head @ ?body) x (Option.bind (aper_get_constrained_whole_number pd 1 3) ?rest)"
  proof (rule gets_then [OF head])
    fix pd1 assume took: "pd_took pd (length ?head) pd1"
    then have at1: "pd_at pd1 ?body" using at pd_at_took unfolding bits by blast
    have "align_pad (pd_nboff pd + length ?head) = align_pad (pd_nboff pd1)"
      using pd_took_phase [OF took] by (metis align_pad_mod)
    moreover have "gets pd1 (align_pad (pd_nboff pd1) @ val_bits (8 * ?c) ?v) (?v + lb)
       (Option.bind (aper_get_align pd1) (\<lambda>(r, pd). if r < 0 then Some (- 1, pd)
        else Option.bind (asn_get_few_bits (int ?c * 8) pd)
          (\<lambda>(v, pd). if v < 0 \<or> ?range \<le> v then Some (- 1, pd) else Some (v + lb, pd))))"
      if "pd_at pd1 (align_pad (pd_nboff pd1) @ val_bits (8 * ?c) ?v)"
      unfolding octets using v c by (intro gets_aligned [OF that] gets_checked) auto
    ultimately show "gets pd1 ?body x (?rest (int ?c, pd1))"
      using at1 c by simp
  qed
  moreover have "aper_get_constrained_whole_number pd lb ub =
      Option.bind (aper_get_constrained_whole_number pd 1 3) ?rest"
    using False v octets_long_count [of "?range - 1" 3] assms(3) oc r
    by (subst aper_get_constrained_whole_number.simps)
      (simp add: long_rangeD [OF r] Let_def long_range_def cong: if_cong)
  ultimately show ?thesis unfolding bits by simp
qed

lemma length_length_bits: "length (length_bits n) = (if n \<le> 127 then 8 else if n < 16384 then 16 else 8)"
  by (simp add: length_bits_def)

lemma val_bits_Cons: "val_bits (Suc n) v = bit v n # val_bits n v"
proof -
  have "val_bits 1 (drop_bit n v) = [bit v n]" by (simp add: val_bits_def bit_drop_bit_eq)
  then show ?thesis using val_bits_split [of 1 n v] by simp
qed

lemma val_bits_8: "val_bits 8 v = bit v 7 # bit v 6 # val_bits 6 v"
  using val_bits_Cons [of 7 v] val_bits_Cons [of 6 v] by simp

lemma length_bits_8: "n \<le> 127 \<Longrightarrow> length_bits n = val_bits 8 (int n)"
  using bit_top [of "int n" 7] val_bits_Cons [of 7 "int n"] by (simp add: length_bits_def)

lemma length_bits_16: "127 < n \<Longrightarrow> n < 16384 \<Longrightarrow> length_bits n = val_bits 16 (int n + 0x8000)"
proof -
  assume n: "127 < n" "n < 16384"
  have "bits_val (length_bits n) = int n + 0x8000"
    using n by (simp add: length_bits_def bits_val_append [of "[_]", simplified]
      bits_val_val_bits_small)
  moreover have "length (length_bits n) = 16" using n by (simp add: length_bits_def)
  ultimately show ?thesis by (metis val_bits_bits_val)
qed

lemma length_bits_frag:
  "16384 \<le> n \<Longrightarrow> length_bits n = val_bits 8 (0xC0 + int (min 4 (n div 16384)))"
proof -
  assume n: "16384 \<le> n"
  have "bits_val (length_bits n) = 0xC0 + int (min 4 (n div 16384))"
    using n by (simp add: length_bits_def bits_val_append [of "[_]", simplified]
      bits_val_val_bits_small)
  moreover have "length (length_bits n) = 8" using n by (simp add: length_bits_def)
  ultimately show ?thesis by (metis val_bits_bits_val)
qed

text \<open>The octet tests of the length determinant.\<close>

lemma octet_and:
  fixes v :: int
  shows "v AND 63 = v mod 64" and "v AND 127 = v mod 128" and "v AND 255 = v mod 256"
  by (simp_all add: take_bit_eq_mod [of 6, simplified, symmetric] take_bit_eq_mod [of 7, simplified, symmetric]
    take_bit_eq_mod [of 8, simplified, symmetric] take_bit_eq_mask mask_eq_exp_minus_1)

lemma octet_and_128: "0 \<le> v \<Longrightarrow> v < 256 \<Longrightarrow> v AND 128 = 0 \<longleftrightarrow> v < (128::int)"
  using and_exp_eq_0_iff_not_bit [of v 7] bit_top [of v 7] by auto

lemma octet_and_64: "v AND 64 = 0 \<longleftrightarrow> v mod 128 < (64::int)"
proof -
  have "bit v 6 \<longleftrightarrow> bit (take_bit 7 v) 6" by (simp add: bit_take_bit_iff)
  also have "\<dots> \<longleftrightarrow> 64 \<le> take_bit 7 v" using bit_top [of "take_bit 7 v" 6] by (simp add: take_bit_eq_mod)
  finally show ?thesis using and_exp_eq_0_iff_not_bit [of v 6] by (auto simp: take_bit_eq_mod)
qed

lemma frag_octet: "1 \<le> m \<Longrightarrow> m \<le> 4 \<Longrightarrow> (192 + m) mod 64 = m \<and> 64 \<le> (192 + m) mod (128::int)"
  using mod_mult_self1 [of m 3 64] mod_mult_self1 [of "64 + m" 1 128] by (simp add: add.commute)

text \<open>The unconstrained form of a length determinant, once the reader is where it starts.\<close>

definition length_body :: "asn_bit_data \<Rightarrow> ((int \<times> bool) \<times> asn_bit_data) option" where
  "length_body = (\<lambda>pd. Option.bind (asn_get_few_bits 8 pd) (\<lambda>(val, pd).
         if val < 0 then Some ((- 1, False), pd)
         else if val AND 128 = 0 then Some ((val AND 0x7F, False), pd)
         else if val AND 64 = 0 then
           Option.bind (asn_get_few_bits 8 pd) (\<lambda>(low, pd).
             let val = push_bit 8 (val AND 63) OR low in
             if val < 0 then Some ((- 1, False), pd) else Some ((val, False), pd))
         else
           let val = val AND 63 in
           if val < 1 \<or> 4 < val then Some ((- 1, False), pd)
           else Some ((16384 * val, True), pd)))"

lemma gets_length_body:
  assumes at1: "pd_at pd1 (length_bits n)"
  shows "gets pd1 (length_bits n) (int (length_units n), 16384 \<le> n) (length_body pd1)"
proof -
  have first: "gets pd1 (val_bits 8 v) v (asn_get_few_bits 8 pd1)"
    if "pd_at pd1 (val_bits 8 v)" "0 \<le> v" "v < 256" for pd1 v
    using gets_few [of pd1 8 v] that by simp
  consider "n \<le> 127" | "127 < n" "n < 16384" | "16384 \<le> n" by linarith
  then show ?thesis
  proof cases
    case 1
    then show ?thesis
      using first [of pd1 "int n"] at1
      by (auto simp: length_body_def length_bits_8 length_units_def gets_def octet_and octet_and_128)
  next
    case 2
    let ?h = "128 + int n div 256" and ?l = "int n mod 256"
    have hl: "?h * 256 + ?l = int n + 0x8000" "0 \<le> ?h" "?h < 192" "128 \<le> ?h" "0 \<le> ?l" "?l < 256"
      using 2 by auto
    have dm: "(int n + 32768) div 256 = ?h" "(int n + 32768) mod 256 = ?l"
      using div_mult_self1 [of 256 "int n" 128] mod_mult_self1 [of "int n" 128 256] by simp_all
    have bits: "length_bits n = val_bits 8 ?h @ val_bits 8 ?l"
      using val_bits_split [of 8 8 "int n + 0x8000"] 2
        val_bits_take_bit [of 8 "int n + 0x8000"]
      by (simp add: length_bits_16 drop_bit_eq_div take_bit_eq_mod dm)
    have "gets pd1 (val_bits 8 ?h @ val_bits 8 ?l) (int (length_units n), 16384 \<le> n) (length_body pd1)"
      unfolding length_body_def
    proof (rule gets_then [OF first])
      show "pd_at pd1 (val_bits 8 ?h)" using at1 unfolding bits by (rule pd_at_prefix)
      fix pd2 assume "pd_took pd1 (length (val_bits 8 ?h)) pd2"
      then have at2: "pd_at pd2 (val_bits 8 ?l)" using at1 pd_at_took unfolding bits by blast
      have "?h mod 64 = int n div 256" "?h mod 128 < 64"
        using 2 mod_mult_self1 [of "int n div 256" 2 64] mod_mult_self1 [of "int n div 256" 1 128]
        by (simp_all add: add.commute)
      moreover have "push_bit 8 (int n div 256) OR ?l = int n" by (simp add: octet_or)
      ultimately show "gets pd2 (val_bits 8 ?l) (int (length_units n), 16384 \<le> n)
        (case (?h, pd2) of (val, pd) \<Rightarrow>
          if val < 0 then Some ((- 1, False), pd)
          else if val AND 128 = 0 then Some ((val AND 0x7F, False), pd)
          else if val AND 64 = 0 then
            Option.bind (asn_get_few_bits 8 pd) (\<lambda>(low, pd).
              let val = push_bit 8 (val AND 63) OR low in
              if val < 0 then Some ((- 1, False), pd) else Some ((val, False), pd))
          else
            let val = val AND 63 in
            if val < 1 \<or> 4 < val then Some ((- 1, False), pd)
            else Some ((16384 * val, True), pd))"
        using first [OF at2 hl(5,6)] hl 2
        by (auto simp: gets_def octet_and octet_and_64 octet_and_128 length_units_def)
    qed (use hl in auto)
    then show ?thesis unfolding bits .
  next
    case 3
    define m where "m = int (min 4 (n div 16384))"
    have m: "1 \<le> m" "m \<le> 4" using 3 by (auto simp: m_def min_def le_div_geq)
    have bits: "length_bits n = val_bits 8 (0xC0 + m)" using length_bits_frag [OF 3] by (simp add: m_def)
    have units: "int (length_units n) = 16384 * m" using 3 by (simp add: length_units_def m_def)
    obtain pd2 where get: "asn_get_few_bits 8 pd1 = Some (0xC0 + m, pd2)" "pd_took pd1 8 pd2"
      using first [of pd1 "0xC0 + m"] at1 m by (auto simp: bits gets_def)
    have "(0xC0 + m) AND 128 \<noteq> 0" "(0xC0 + m) AND 64 \<noteq> 0" "(0xC0 + m) AND 63 = m"
      using m frag_octet [OF m] by (simp_all add: octet_and octet_and_64 octet_and_128)
    then have "length_body pd1 = Some ((16384 * m, True), pd2)" using get(1) m by (simp add: length_body_def)
    then show ?thesis using get(2) 3 unfolding gets_def units bits by simp
  qed
qed

lemma gets_length:
  assumes at: "pd_at pd (align_pad (pd_nboff pd) @ length_bits n)"
    and "\<not> (0 \<le> lb \<and> 0 \<le> ub \<and> ub < 65536)" and "ebits < 0"
  shows "gets pd (align_pad (pd_nboff pd) @ length_bits n) (int (length_units n), 16384 \<le> n)
    (aper_get_length pd lb ub ebits)"
  using gets_aligned [OF at gets_length_body] assms(2,3)
  by (auto simp: aper_get_length_def length_body_def not_le [symmetric] cong: if_cong)

text \<open>Normally small numbers: up to 63 in seven bits, otherwise an octet count and octets.\<close>

lemma gets_bit:
  assumes "pd_at pd [b]"
  shows "gets pd [b] (of_bool b) (asn_get_few_bits 1 pd)"
  using gets_few_bits [of pd "[b]" 1] assms by simp

lemma gets_nsnnwn:
  assumes at: "pd_at pd (nsnnwn_bits (pd_nboff pd) x)" and x: "0 \<le> x" "x < 2 ^ 24"
  shows "gets pd (nsnnwn_bits (pd_nboff pd) x) x (aper_get_nsnnwn pd)"
proof (cases "x \<le> 63")
  case True
  have at': "pd_at pd ([False] @ val_bits 6 x)" using at True by (simp add: nsnnwn_bits_def)
  have "gets pd ([False] @ val_bits 6 x) x (aper_get_nsnnwn pd)"
    unfolding aper_get_nsnnwn_def
  proof (rule gets_then [OF gets_bit])
    show "pd_at pd [False]" using at' by (rule pd_at_prefix)
    fix pd1 assume "pd_took pd (length [False]) pd1"
    with at' have "pd_at pd1 (val_bits 6 x)" by (rule pd_at_took)
    from gets_few [OF this] True x
    show "gets pd1 (val_bits 6 x) x (case (of_bool False :: int, pd1) of (b, pd) \<Rightarrow>
      if b = - 1 then Some (- 1, pd) else if b = 0 then asn_get_few_bits 6 pd
      else Option.bind (aper_get_align pd) (\<lambda>(r, pd). if r < 0 then Some (- 1, pd)
        else Option.bind (asn_get_few_bits 1 pd) (\<lambda>(b, pd). if b = - 1 then Some (- 1, pd)
          else if b = 1 then Some (- 1, pd)
          else Option.bind (asn_get_few_bits 7 pd) (\<lambda>(len, pd).
            if 4 < len then Some (- 1, pd) else asn_get_few_bits (len * 8) pd))))"
      by simp
  qed
  then show ?thesis using True by (simp add: nsnnwn_bits_def)
next
  case False
  let ?c = "octet_count x"
  have c: "1 \<le> ?c" "?c \<le> 3" "x < 2 ^ (8 * ?c)"
    using octet_count_pos octet_count_le [of x 3] octet_count_le [of x ?c] x by auto
  have octets: "int ?c * 8 = int (8 * ?c)" by simp
  have b8: "val_bits 8 (int ?c) = False # val_bits 7 (int ?c)"
    using val_bits_Cons [of 7 "int ?c"] bit_top [of "int ?c" 7] c by simp
  let ?pad = "align_pad (pd_nboff pd + 1)"
  let ?body = "[False] @ val_bits 7 (int ?c) @ val_bits (8 * ?c) x"
  have bits: "nsnnwn_bits (pd_nboff pd) x = [True] @ ?pad @ ?body"
    using False by (simp add: nsnnwn_bits_def b8)
  let ?last = "\<lambda>(len, pd). if (4::int) < len then Some (- 1, pd) else asn_get_few_bits (len * 8) pd"
  let ?short = "\<lambda>(b, pd). if b = - 1 then Some (- 1, pd) else if b = (1::int) then Some (- 1, pd)
    else Option.bind (asn_get_few_bits 7 pd) ?last"
  have last: "gets pd3 (val_bits (8 * ?c) x) x (?last (int ?c, pd3))" if "pd_at pd3 (val_bits (8 * ?c) x)" for pd3
    using gets_few [OF that] x c by (simp add: octets)
  have mid: "gets pd2 (val_bits 7 (int ?c) @ val_bits (8 * ?c) x) x (?short (0, pd2))"
    if at2: "pd_at pd2 (val_bits 7 (int ?c) @ val_bits (8 * ?c) x)" for pd2
  proof -
    have "gets pd2 (val_bits 7 (int ?c)) (int ?c) (asn_get_few_bits 7 pd2)"
      using gets_few [of pd2 7 "int ?c"] pd_at_prefix [OF at2] c by simp
    from gets_then [OF this last [OF pd_at_took [OF at2]]] show ?thesis by simp
  qed
  have tail: "gets pd1 ?body x (Option.bind (asn_get_few_bits 1 pd1) ?short)" if at1: "pd_at pd1 ?body" for pd1
  proof -
    have "gets pd1 [False] 0 (asn_get_few_bits 1 pd1)" using gets_bit [OF pd_at_prefix [OF at1]] by simp
    from gets_then [OF this mid [OF pd_at_took [OF at1]]] show ?thesis by simp
  qed
  have "gets pd ([True] @ ?pad @ ?body) x (aper_get_nsnnwn pd)"
    unfolding aper_get_nsnnwn_def
  proof (rule gets_then [OF gets_bit])
    show "pd_at pd [True]" using at unfolding bits by (rule pd_at_prefix)
    fix pd1 assume took: "pd_took pd (length [True]) pd1"
    then have at1: "pd_at pd1 (?pad @ ?body)" using at pd_at_took unfolding bits by blast
    have pad: "?pad = align_pad (pd_nboff pd1)" using pd_took_phase [OF took] by (metis align_pad_mod length_Cons list.size(3) One_nat_def)
    have "gets pd1 (?pad @ ?body) x (Option.bind (aper_get_align pd1) (\<lambda>(r, pd). if r < 0 then Some (- 1, pd)
        else Option.bind (asn_get_few_bits 1 pd) ?short))"
      using at1 tail unfolding pad by (intro gets_aligned) auto
    then show "gets pd1 (?pad @ ?body) x (case (of_bool True :: int, pd1) of (b, pd) \<Rightarrow>
      if b = - 1 then Some (- 1, pd) else if b = 0 then asn_get_few_bits 6 pd
      else Option.bind (aper_get_align pd) (\<lambda>(r, pd). if r < 0 then Some (- 1, pd)
        else Option.bind (asn_get_few_bits 1 pd) ?short))"
      by simp
  qed
  then show ?thesis unfolding bits .
qed

section \<open>Reading arbitrary data\<close>

lemma reads_align: "pd_wf pd \<Longrightarrow> reads pd (\<lambda>v. - 1 \<le> v) (aper_get_align pd)"
  unfolding aper_get_align_def
  by (auto intro: reads_return reads_mono [OF reads_few])

lemma reads_checked:
  assumes "pd_wf pd"
  shows "reads pd (\<lambda>v. v = - 1 \<or> lb \<le> v \<and> v < rng + lb) (Option.bind (asn_get_few_bits n pd)
    (\<lambda>(v, pd). if v < 0 \<or> rng \<le> v then Some (- 1, pd) else Some (v + lb, pd)))"
  by (rule reads_then [OF reads_few [OF assms]]) (auto intro: reads_return)

lemma reads_aligned:
  assumes "pd_wf pd" and "P e" and "\<And>pd1. pd_wf pd1 \<Longrightarrow> reads pd1 P (k pd1)"
  shows "reads pd P (Option.bind (aper_get_align pd) (\<lambda>(r, pd). if r < 0 then Some (e, pd) else k pd))"
  by (rule reads_then [OF reads_align]) (auto intro: reads_return assms)

lemma reads_cwn_small:
  assumes wf: "pd_wf pd" and r: "long_range lb ub" and small: "ub - lb < 65536"
  shows "reads pd (\<lambda>v. v = - 1 \<or> lb \<le> v \<and> v \<le> ub) (aper_get_constrained_whole_number pd lb ub)"
proof -
  let ?P = "\<lambda>v. v = - 1 \<or> lb \<le> v \<and> v \<le> ub"
  let ?checked = "\<lambda>(v, pd). if v < 0 \<or> ub - lb + 1 \<le> v then Some (- 1, pd) else Some (v + lb, pd)"
  have get: "reads pd1 ?P (Option.bind (asn_get_few_bits n pd1) ?checked)" if "pd_wf pd1" for pd1 n
    by (rule reads_mono [OF reads_checked [OF that]]) auto
  have "aper_get_constrained_whole_number pd lb ub =
    (if ub - lb + 1 = 1 then Some (lb, pd)
     else if ub - lb + 1 \<le> 255 then
       Option.bind (asn_get_few_bits (int (bitfield_size (ub - lb + 1 - 1) 8)) pd) ?checked
     else if ub - lb + 1 = 256 then Option.bind (aper_get_align pd) (\<lambda>(r, pd). if r < 0 then Some (- 1, pd)
         else Option.bind (asn_get_few_bits 8 pd) ?checked)
     else Option.bind (aper_get_align pd) (\<lambda>(r, pd). if r < 0 then Some (- 1, pd)
         else Option.bind (asn_get_few_bits 16 pd) ?checked))"
    using small r by (subst aper_get_constrained_whole_number.simps)
      (simp only: long_rangeD [OF r] Let_def, simp add: long_range_def)
  moreover have "?P lb" using r by (simp add: long_range_def)
  ultimately show ?thesis using wf get
    by (auto intro!: reads_return reads_aligned simp del: diff_add_cancel)
qed

lemma reads_cwn:
  assumes wf: "pd_wf pd" and r: "long_range lb ub" and "ub - lb < 2 ^ 56"
  shows "reads pd (\<lambda>v. v = - 1 \<or> lb \<le> v \<and> v \<le> ub) (aper_get_constrained_whole_number pd lb ub)"
proof (cases "ub - lb < 65536")
  case True
  then show ?thesis using reads_cwn_small assms by blast
next
  case False
  let ?P = "\<lambda>v. v = - 1 \<or> lb \<le> v \<and> v \<le> ub"
  let ?checked = "\<lambda>(v, pd). if v < 0 \<or> ub - lb + 1 \<le> v then Some (- 1, pd) else Some (v + lb, pd)"
  have get: "reads pd1 ?P (Option.bind (asn_get_few_bits n pd1) ?checked)" if "pd_wf pd1" for pd1 n
    by (rule reads_mono [OF reads_checked [OF that]]) auto
  obtain len where len: "octets_long 3 (ub - lb) = Some len" "3 \<le> len" "len \<le> 7"
    using octets_long_count [of "ub - lb" 3] octets_long_le False assms(3) by force
  have "reads pd (\<lambda>v. v = - 1 \<or> 1 \<le> v \<and> v \<le> int len) (aper_get_constrained_whole_number pd 1 (int len))"
    using wf len by (intro reads_cwn_small) (auto simp: long_range_def LLONG_MAX_def)
  then have "reads pd ?P (Option.bind (aper_get_constrained_whole_number pd 1 (int len)) (\<lambda>(value_len, pd).
         if value_len = - 1 then Some (- 1, pd)
         else if 4 < value_len then Some (- 1, pd)
         else Option.bind (aper_get_align pd) (\<lambda>(r, pd). if r < 0 then Some (- 1, pd)
           else Option.bind (asn_get_few_bits (value_len * 8) pd) ?checked)))"
    by (rule reads_then) (auto intro!: reads_return reads_aligned get)
  then show ?thesis
    using False len r by (subst aper_get_constrained_whole_number.simps)
      (simp only: long_rangeD [OF r] Let_def, simp add: long_range_def)
qed

lemma cwn_bits_mod [simp]: "cwn_bits (ph mod 8) lb ub x = cwn_bits ph lb ub x"
  by (simp add: cwn_bits_def Let_def) (metis align_pad_mod mod_add_left_eq)

lemma nsnnwn_bits_mod [simp]: "nsnnwn_bits (ph mod 8) x = nsnnwn_bits ph x"
  by (simp add: nsnnwn_bits_def) (metis align_pad_mod mod_Suc_eq)

section \<open>Writing an encoding\<close>

lemma val_bits_u32 [simp]: "n \<le> 32 \<Longrightarrow> val_bits n (uint (word_of_int v :: u32)) = val_bits n v"
  using val_bits_take_bit [of n "take_bit 32 v"] val_bits_take_bit [of n v]
  by (simp add: unsigned_of_int min_def)

lemma val_bits_u32_nat [simp]: "n \<le> 32 \<Longrightarrow> val_bits n (uint (of_nat k :: u32)) = val_bits n (int k)"
  using val_bits_u32 [of n "int k"] by simp

lemma puts_few_returns: "puts V po bs res \<Longrightarrow> res = Some (r, po') \<Longrightarrow> r = 0 \<or> r = - 1"
  by (auto simp: puts_def)

context byte_sink
begin

lemma puts_word:
  assumes "po_wf po" and "po_output po = consume" and "n \<le> 31"
  shows "puts view po (val_bits n v) (asn_put_few_bits po (word_of_int v) (int n))"
  using put_few [OF assms, of "word_of_int v"] assms(3) by simp

lemma puts_align:
  assumes wf: "po_wf po" and out: "po_output po = consume"
  shows "puts view po (align_pad (po_nboff po)) (aper_put_align po)"
proof (cases "po_nboff po mod 8 = 0")
  case True
  then show ?thesis using wf by (simp add: aper_put_align_def puts_nothing)
next
  case False
  let ?n = "8 - po_nboff po mod 8"
  have "align_pad (po_nboff po) = val_bits ?n 0" using False by (simp add: align_pad_def val_bits_zero)
  moreover have "int ?n = 8 - int (po_nboff po mod 8)" by (simp add: of_nat_diff less_imp_le)
  moreover have "puts view po (val_bits ?n 0) (Option.bind (asn_put_few_bits po 0 (int ?n))
      (\<lambda>(r, po). Some (if r \<noteq> 0 then - 1 else 0, po)))"
    using puts_word [OF wf out, of ?n 0] by (intro puts_last) simp
  ultimately show ?thesis using False by (simp add: aper_put_align_def)
qed

text \<open>After alignment the write position is a multiple of eight.\<close>

lemma emits_phase: "po_wf po \<Longrightarrow> emits view po bs po' \<Longrightarrow> po_nboff po' mod 8 = (po_nboff po + length bs) mod 8"
proof -
  assume wf: "po_wf po" and e: "emits view po bs po'"
  have "po_nboff po' mod 8 = (length (po_bits view po) + length bs) mod 8"
    using po_phase [of po' view] e by (simp add: emits_def)
  also have "\<dots> = (po_nboff po + length bs) mod 8"
    using po_phase [OF wf, of view] by (metis mod_add_left_eq)
  finally show ?thesis .
qed

lemma puts_aligned:
  assumes wf: "po_wf po" and out: "po_output po = consume"
    and k: "\<And>po1. po_wf po1 \<Longrightarrow> po_output po1 = consume \<Longrightarrow> po_nboff po1 mod 8 = 0 \<Longrightarrow> puts view po1 bs (k po1)"
  shows "puts view po (align_pad (po_nboff po) @ bs)
    (Option.bind (aper_put_align po) (\<lambda>(r, po). if r \<noteq> 0 then Some (- 1, po) else k po))"
proof (rule puts_then [OF puts_align [OF wf out]])
  fix po1 assume e: "emits view po (align_pad (po_nboff po)) po1"
  then show "puts view po1 bs (k po1)"
    using emits_phase [OF wf e] align_pad_aligns out by (intro k) (auto simp: emits_def)
qed

lemma puts_cwn_small:
  assumes wf: "po_wf po" and out: "po_output po = consume" and r: "long_range lb ub" and "ub - lb < 65536"
    and x: "lb \<le> x" "x \<le> ub"
  shows "puts view po (cwn_bits (po_nboff po) lb ub x) (aper_put_constrained_whole_number po lb ub x)"
proof -
  let ?range = "ub - lb + 1" and ?v = "x - lb"
  have v: "0 \<le> ?v" "?v < ?range" "lb \<le> ub" "\<not> x < lb" "\<not> ub < x" using x by auto
  consider "?range = 1" | "2 \<le> ?range" "?range \<le> 255" | "?range = 256" | "256 < ?range" "?range \<le> 65536"
    using v assms(4) by linarith
  then show ?thesis
  proof cases
    case 1
    then show ?thesis using v wf
      by (subst aper_put_constrained_whole_number.simps)
        (auto simp: cwn_bits_def s64_def LLONG_MIN_def LLONG_MAX_def puts_nothing)
  next
    case 2
    let ?w = "bit_width (?range - 1)"
    have "bitfield_size (?range - 1) 8 = ?w" "?w \<le> 8" using bit_width_octet [of "?range - 1"] 2 by auto
    then show ?thesis
      using 2 v puts_word [OF wf out, of ?w ?v] by (subst aper_put_constrained_whole_number.simps)
        (simp add: cwn_bits_def long_rangeD [OF r] Let_def cong: if_cong)
  next
    case 3
    have "puts view po (align_pad (po_nboff po) @ val_bits 8 ?v) (Option.bind (aper_put_align po)
        (\<lambda>(r, po). if r \<noteq> 0 then Some (- 1, po) else asn_put_few_bits po (word_of_int ?v) (int 8)))"
      by (intro puts_aligned wf out puts_word) auto
    then show ?thesis
      using 3 v r by (subst aper_put_constrained_whole_number.simps)
        (simp add: cwn_bits_def s64_def LLONG_MIN_def LLONG_MAX_def cong: if_cong)
  next
    case 4
    have "puts view po (align_pad (po_nboff po) @ val_bits 16 ?v) (Option.bind (aper_put_align po)
        (\<lambda>(r, po). if r \<noteq> 0 then Some (- 1, po) else asn_put_few_bits po (word_of_int ?v) (int 16)))"
      by (intro puts_aligned wf out puts_word) auto
    then show ?thesis
      using 4 v by (subst aper_put_constrained_whole_number.simps)
        (simp add: cwn_bits_def long_rangeD [OF r] Let_def cong: if_cong)
  qed
qed

lemma puts_cwn:
  assumes wf: "po_wf po" and out: "po_output po = consume" and r: "long_range lb ub" and "ub - lb < 2 ^ 24"
    and x: "lb \<le> x" "x \<le> ub"
  shows "puts view po (cwn_bits (po_nboff po) lb ub x) (aper_put_constrained_whole_number po lb ub x)"
proof (cases "ub - lb < 65536")
  case True
  then show ?thesis using puts_cwn_small assms by blast
next
  case False
  let ?range = "ub - lb + 1" and ?v = "x - lb"
  let ?c = "octet_count ?v"
  have v: "0 \<le> ?v" "?v < 2 ^ 24" "\<not> x < lb" "\<not> ub < x" using x assms(4) by auto
  have c: "1 \<le> ?c" "?c \<le> 3" using octet_count_pos octet_count_le [of ?v 3] v by auto
  have oc: "octet_count (?range - 1) = 3" using cwn_head [of "?range - 1"] False assms(4) by simp
  let ?head = "cwn_bits (po_nboff po) 1 3 (int ?c)"
  let ?body = "align_pad (po_nboff po + length ?head) @ val_bits (8 * ?c) ?v"
  let ?k = "\<lambda>po. Option.bind (aper_put_align po) (\<lambda>(r, po). if r \<noteq> 0 then Some (- 1, po)
    else asn_put_few_bits po (word_of_int ?v) (int ?c * 8))"
  have bits: "cwn_bits (po_nboff po) lb ub x = ?head @ ?body"
    using False c(1) cwn_head(2) [of "?range - 1" "int ?c"] assms(4) oc
    by (simp add: cwn_bits_def [of _ lb ub] Let_def)
  have octets: "int ?c * 8 = int (8 * ?c)" by simp
  have "puts view po ?head (aper_put_constrained_whole_number po 1 3 (int ?c))"
    using c by (intro puts_cwn_small wf out) (auto simp: long_range_def LLONG_MAX_def)
  then have "puts view po (?head @ ?body)
    (Option.bind (aper_put_constrained_whole_number po 1 3 (int ?c)) (\<lambda>(r, po). if r \<noteq> 0 then Some (- 1, po) else ?k po))"
  proof (rule puts_then)
    fix po1 assume e: "emits view po ?head po1"
    then have p1: "po_wf po1" "po_output po1 = consume" using out by (auto simp: emits_def)
    have "align_pad (po_nboff po + length ?head) = align_pad (po_nboff po1)"
      using emits_phase [OF wf e] by (metis align_pad_mod)
    moreover have "puts view po1 (align_pad (po_nboff po1) @ val_bits (8 * ?c) ?v) (?k po1)"
      unfolding octets using c by (intro puts_aligned p1 puts_word) auto
    ultimately show "puts view po1 ?body (?k po1)" by simp
  qed
  moreover have "aper_put_constrained_whole_number po lb ub x =
    Option.bind (aper_put_constrained_whole_number po 1 3 (int ?c)) (\<lambda>(r, po). if r \<noteq> 0 then Some (- 1, po) else ?k po)"
    using False v x octets_int_count [of "?range - 1" 3] octets_long_count [of ?v 1] assms(4) oc c r
    by (subst aper_put_constrained_whole_number.simps)
      (simp add: long_rangeD [OF r] Let_def long_range_def max_def cong: if_cong)
  ultimately show ?thesis unfolding bits by simp
qed

end

text \<open>A length determinant put returns the units it announced instead of zero.\<close>

definition need_eom :: "nat \<Rightarrow> bool" where
  "need_eom n \<longleftrightarrow> 16384 \<le> n \<and> n mod 16384 = 0 \<and> n div 16384 \<le> 4"

definition puts_len :: "'k sink_view \<Rightarrow> 'k asn_bit_outp \<Rightarrow> bool list \<Rightarrow> nat \<Rightarrow>
    ((int \<times> bool) \<times> 'k asn_bit_outp) option \<Rightarrow> bool" where
  "puts_len V po bs n res \<longleftrightarrow> (\<exists>r eom po'. res = Some ((r, eom), po') \<and>
     (r = int (length_units n) \<and> eom = need_eom n \<and> emits V po bs po' \<or> r = - 1 \<and> overflows V po bs))"

lemma puts_len_of:
  assumes "puts V po bs res"
  shows "puts_len V po bs n (Option.bind res (\<lambda>(r, po).
    Some ((if r \<noteq> 0 then - 1 else int (length_units n), need_eom n), po)))"
  using assms by (auto simp: puts_def puts_len_def)

lemma word_of_int_or: "word_of_int a OR word_of_int b = (word_of_int (a OR b) :: u32)"
  by (rule bit_word_eqI) (auto simp: bit_or_iff bit_word_of_int_iff)

context byte_sink
begin

lemma puts_length_body:
  assumes wf: "po_wf po" and out: "po_output po = consume"
  shows "puts_len view po (length_bits n) n
    (if n \<le> 127 then Option.bind (asn_put_few_bits po (of_nat n) 8) (\<lambda>(r, po). Some ((if r \<noteq> 0 then - 1 else int n, False), po))
     else if n < 16384 then
       Option.bind (asn_put_few_bits po (of_nat n OR 0x8000) 16) (\<lambda>(r, po). Some ((if r \<noteq> 0 then - 1 else int n, False), po))
     else
       let eom = (n mod 16384 = 0);
           blocks = n div 16384;
           eom = (if 4 < blocks then False else eom);
           blocks = (if 4 < blocks then 4 else blocks)
       in Option.bind (asn_put_few_bits po (0xC0 OR of_nat blocks) 8)
            (\<lambda>(r, po). Some ((if r \<noteq> 0 then - 1 else int (blocks * 16384), eom), po)))"
proof -
  consider "n \<le> 127" | "127 < n" "n < 16384" | "16384 \<le> n" by linarith
  then show ?thesis
  proof cases
    case 1
    have "puts view po (val_bits 8 (int n)) (asn_put_few_bits po (of_nat n) (int 8))"
      using puts_word [OF wf out, of 8 "int n"] by simp
    from puts_len_of [OF this, of n] show ?thesis
      using 1 by (simp add: length_bits_8 length_units_def need_eom_def cong: if_cong)
  next
    case 2
    have w: "of_nat n OR 0x8000 = (word_of_int (int n + 0x8000) :: u32)"
    proof -
      have "of_nat n OR 0x8000 = (word_of_int (int n OR 0x8000) :: u32)"
      proof -
        have "word_of_int (int n) OR word_of_int 0x8000 = (word_of_int (int n OR 0x8000) :: u32)"
          by (rule word_of_int_or)
        then show ?thesis by simp
      qed
      also have "int n OR 0x8000 = int n + 0x8000"
      proof -
        have "take_bit 15 (int n) = int n" using 2 by (simp add: take_bit_int_eq_self)
        then show ?thesis using concat_bit_eq [of 15 "int n" 1] by (simp add: concat_bit_def)
      qed
      finally show ?thesis .
    qed
    have "puts view po (val_bits 16 (int n + 0x8000)) (asn_put_few_bits po (of_nat n OR 0x8000) (int 16))"
      unfolding w by (intro puts_word wf out) simp
    from puts_len_of [OF this, of n] show ?thesis
      using 2 by (simp add: length_bits_16 length_units_def need_eom_def cong: if_cong)
  next
    case 3
    define m where "m = min 4 (n div 16384)"
    have m: "m \<le> 4" by (simp add: m_def)
    have w: "0xC0 OR of_nat m = (word_of_int (0xC0 + int m) :: u32)"
    proof -
      have "m = 0 \<or> m = 1 \<or> m = 2 \<or> m = 3 \<or> m = 4" using m by linarith
      then show ?thesis by auto
    qed
    have "puts view po (val_bits 8 (0xC0 + int m)) (asn_put_few_bits po (0xC0 OR of_nat m) (int 8))"
      unfolding w by (intro puts_word wf out) simp
    from puts_len_of [OF this, of n] have "puts_len view po (length_bits n) n
        (Option.bind (asn_put_few_bits po (0xC0 OR of_nat m) (int 8))
          (\<lambda>(r, po). Some ((if r \<noteq> 0 then - 1 else int (length_units n), need_eom n), po)))"
      using length_bits_frag [OF 3] by (simp add: m_def)
    moreover have "(if 4 < n div 16384 then 4 else n div 16384) = m" by (auto simp: m_def)
    moreover have "(if 4 < n div 16384 then False else n mod 16384 = 0) = need_eom n"
      using 3 by (auto simp: need_eom_def)
    moreover have "length_units n = m * 16384" using 3 by (simp add: length_units_def m_def)
    moreover have "\<not> n \<le> 127" "\<not> n < 16384" using 3 by auto
    ultimately show ?thesis unfolding Let_def by (simp split del: if_split cong: if_cong)
  qed
qed

lemma puts_length:
  assumes wf: "po_wf po" and out: "po_output po = consume"
    and unconstrained: "\<not> (0 \<le> lb \<and> 0 \<le> ub \<and> ub < 65536)"
  shows "puts_len view po (align_pad (po_nboff po) @ length_bits n) n (aper_put_length po lb ub n)"
proof -
  obtain r po1 where al: "aper_put_align po = Some (r, po1)"
      "r = 0 \<and> emits view po (align_pad (po_nboff po)) po1 \<or> r = - 1 \<and> overflows view po (align_pad (po_nboff po))"
    using puts_align [OF wf out] by (auto simp: puts_def)
  show ?thesis
  proof (cases "r = 0")
    case False
    then show ?thesis using al unconstrained
      by (auto simp: puts_len_def aper_put_length_def Let_def overflows_append)
  next
    case True
    with al(2) have e: "emits view po (align_pad (po_nboff po)) po1" by simp
    then have p1: "po_wf po1" "po_output po1 = consume" using out by (auto simp: emits_def)
    have "aper_put_length po lb ub n = (if n \<le> 127 then Option.bind (asn_put_few_bits po1 (of_nat n) 8) (\<lambda>(r, po). Some ((if r \<noteq> 0 then - 1 else int n, False), po))
     else if n < 16384 then
       Option.bind (asn_put_few_bits po1 (of_nat n OR 0x8000) 16) (\<lambda>(r, po). Some ((if r \<noteq> 0 then - 1 else int n, False), po))
     else
       let eom = (n mod 16384 = 0);
           blocks = n div 16384;
           eom = (if 4 < blocks then False else eom);
           blocks = (if 4 < blocks then 4 else blocks)
       in Option.bind (asn_put_few_bits po1 (0xC0 OR of_nat blocks) 8)
            (\<lambda>(r, po). Some ((if r \<noteq> 0 then - 1 else int (blocks * 16384), eom), po)))"
      using al(1) True unconstrained by (auto simp: aper_put_length_def Let_def cong: if_cong)
    with puts_length_body [OF p1, of n] show ?thesis
      using emits_trans [OF e] emits_overflows [OF e] by (auto simp: puts_len_def)
  qed
qed

end

lemma aper_put_align_result: "aper_put_align po = Some (r, po') \<Longrightarrow> r = 0 \<or> r = - 1"
  by (auto simp: aper_put_align_def split: if_splits Option.bind_splits)

context byte_sink
begin

lemma puts_bit:
  assumes "po_wf po" and "po_output po = consume"
  shows "puts view po [False] (asn_put_few_bits po 0 1)" and "puts view po [True] (asn_put_few_bits po 1 1)"
  using puts_word [OF assms, of 1 0] puts_word [OF assms, of 1 1] by (simp_all add: val_bits_def)

lemma puts_nsnnwn:
  assumes wf: "po_wf po" and out: "po_output po = consume" and x: "0 \<le> x" "x < 2 ^ 24"
  shows "puts view po (nsnnwn_bits (po_nboff po) x) (aper_put_nsnnwn po x)"
proof (cases "x \<le> 63")
  case True
  have "puts view po ([False] @ val_bits 6 x) (Option.bind (asn_put_few_bits po 0 1)
      (\<lambda>(r, po). if r \<noteq> 0 then Some (- 1, po) else asn_put_few_bits po (word_of_int x) (int 6)))"
    using puts_bit(1) [OF wf out]
    by (rule puts_then) (intro puts_word, auto simp: emits_def out)
  then show ?thesis using True by (simp add: aper_put_nsnnwn_def nsnnwn_bits_def cong: if_cong)
next
  case False
  let ?c = "octet_count x"
  have c: "1 \<le> ?c" "?c \<le> 3" using octet_count_pos octet_count_le [of x 3] x by auto
  have count: "(if x < 256 then Some 1 else if x < 65536 then Some 2 else octets_int 3 x) = Some ?c"
    using octets_int_count [of x 3] x c octet_count_le [of x 1] octet_count_le [of x 2] x(1) False
    by auto
  let ?last = "\<lambda>po. Option.bind (aper_put_align po) (\<lambda>(r, po). if r < 0 then Some (- 1, po)
    else asn_put_few_bits po (word_of_int x) (8 * int ?c))"
  let ?mid = "\<lambda>po. Option.bind (asn_put_few_bits po (word_of_int (int ?c)) 7) (\<lambda>(r, po).
    if r \<noteq> 0 then Some (- 1, po) else ?last po)"
  let ?head = "\<lambda>po. Option.bind (asn_put_few_bits po 0 1) (\<lambda>(r, po). if r \<noteq> 0 then Some (- 1, po) else ?mid po)"
  have octets: "8 * int ?c = int (8 * ?c)" by simp
  have last: "puts view po3 (val_bits (8 * ?c) x) (?last po3)"
    if p: "po_wf po3" "po_output po3 = consume" "po_nboff po3 mod 8 = 0" for po3
    unfolding octets using p c puts_word [OF p(1,2), of "8 * ?c" x] by (simp add: aper_put_align_def)
  have head: "puts view po1 ([False] @ val_bits 7 (int ?c) @ val_bits (8 * ?c) x) (?head po1)"
    if p: "po_wf po1" "po_output po1 = consume" "po_nboff po1 mod 8 = 0" for po1
  proof (rule puts_then [OF puts_bit(1) [OF p(1,2)]])
    fix po2 assume e2: "emits view po1 [False] po2"
    then have p2: "po_wf po2" "po_output po2 = consume" using p by (auto simp: emits_def)
    have "puts view po2 (val_bits 7 (int ?c)) (asn_put_few_bits po2 (word_of_int (int ?c)) 7)"
      using puts_word [OF p2, of 7 "int ?c"] by simp
    then show "puts view po2 (val_bits 7 (int ?c) @ val_bits (8 * ?c) x) (?mid po2)"
    proof (rule puts_then)
      fix po3 assume e3: "emits view po2 (val_bits 7 (int ?c)) po3"
      have "po_nboff po3 mod 8 = (po_nboff po2 mod 8 + 7) mod 8"
        using emits_phase [OF p2(1) e3] by (simp add: mod_add_left_eq)
      also have "\<dots> = ((po_nboff po1 + 1) mod 8 + 7) mod 8" using emits_phase [OF p(1) e2] by simp
      also have "\<dots> = (po_nboff po1 + 8) mod 8" by (subst mod_add_left_eq) simp
      finally have "po_nboff po3 mod 8 = 0" using p(3) by simp
      then show "puts view po3 (val_bits (8 * ?c) x) (?last po3)"
        using e3 p2 by (intro last) (auto simp: emits_def)
    qed
  qed
  have b8: "val_bits 8 (int ?c) = False # val_bits 7 (int ?c)"
    using val_bits_Cons [of 7 "int ?c"] bit_top [of "int ?c" 7] c by simp
  have "puts view po ([True] @ align_pad (po_nboff po + 1) @ [False] @ val_bits 7 (int ?c) @ val_bits (8 * ?c) x)
      (Option.bind (asn_put_few_bits po 1 1) (\<lambda>(r, po). if r \<noteq> 0 then Some (- 1, po)
        else Option.bind (aper_put_align po) (\<lambda>(r, po). if r \<noteq> 0 then Some (- 1, po) else ?head po)))"
  proof (rule puts_then [OF puts_bit(2) [OF wf out]])
    fix po1 assume e: "emits view po [True] po1"
    then have "align_pad (po_nboff po + 1) = align_pad (po_nboff po1)"
      using emits_phase [OF wf e] by (metis align_pad_mod length_Cons list.size(3) One_nat_def)
    then show "puts view po1 (align_pad (po_nboff po + 1) @ [False] @ val_bits 7 (int ?c) @ val_bits (8 * ?c) x)
        (Option.bind (aper_put_align po1) (\<lambda>(r, po). if r \<noteq> 0 then Some (- 1, po) else ?head po))"
      using e out head by (simp only:) (intro puts_aligned, auto simp: emits_def)
  qed
  moreover have "aper_put_nsnnwn po x = (Option.bind (asn_put_few_bits po 1 1) (\<lambda>(r, po). if r \<noteq> 0 then Some (- 1, po)
        else Option.bind (aper_put_align po) (\<lambda>(r, po). if r < 0 then Some (- 1, po) else ?head po)))"
    using False count c by (simp add: aper_put_nsnnwn_def Let_def cong: if_cong)
  moreover have strict: "Option.bind (aper_put_align p) (\<lambda>(r, po). if r < 0 then Some (- 1, po) else ?head po) =
      Option.bind (aper_put_align p) (\<lambda>(r, po). if r \<noteq> 0 then Some (- 1, po) else ?head po)" for p
    by (cases "aper_put_align p") (auto dest: aper_put_align_result)
  ultimately show ?thesis
    using False unfolding strict by (simp add: nsnnwn_bits_def b8)
qed

end

text \<open>A normally small length up to 64 takes seven bits, the first of them zero.\<close>

lemma gets_nslength_small:
  assumes at: "pd_at pd (False # val_bits 6 v)" and v: "0 \<le> v" "v < 64"
  shows "gets pd (False # val_bits 6 v) (v + 1) (aper_get_nslength pd)"
proof -
  have at': "pd_at pd ([False] @ val_bits 6 v)" using at by simp
  have "gets pd ([False] @ val_bits 6 v) (v + 1) (aper_get_nslength pd)"
    unfolding aper_get_nslength_def
  proof (rule gets_then [OF gets_bit])
    show "pd_at pd [False]" using at' by (rule pd_at_prefix)
    fix pd1 assume "pd_took pd (length [False]) pd1"
    with at' have at1: "pd_at pd1 (val_bits 6 v)" by (rule pd_at_took)
    have "gets pd1 (val_bits 6 v) v (asn_get_few_bits 6 pd1)" using gets_few [OF at1] v by simp
    then obtain pd2 where "asn_get_few_bits 6 pd1 = Some (v, pd2)" "pd_took pd1 6 pd2" by (auto simp: gets_def)
    then show "gets pd1 (val_bits 6 v) (v + 1) (case (of_bool False :: int, pd1) of (b, pd) \<Rightarrow>
      if b = 0 then Option.bind (asn_get_few_bits 6 pd) (\<lambda>(l, pd).
          if l + 1 \<le> 0 then Some (- 1, pd) else Some (l + 1, pd))
      else Option.bind (aper_get_length pd (- 1) (- 1) (- 1)) (\<lambda>((len, repeat), pd).
          if 0 \<le> len \<and> \<not> repeat then Some (len, pd) else Some (- 1, pd)))"
      using v by (simp add: gets_def)
  qed
  then show ?thesis by simp
qed

lemma val_bits_7_small: "0 \<le> v \<Longrightarrow> v < 64 \<Longrightarrow> val_bits 7 v = False # val_bits 6 v"
  using val_bits_Cons [of 6 v] bit_top [of v 6] by simp

context byte_sink
begin

lemma puts_nslength_small:
  assumes wf: "po_wf po" and out: "po_output po = consume" and len: "1 \<le> len" "len \<le> 64"
  shows "puts view po (False # val_bits 6 (int len - 1)) (aper_put_nslength po len)"
proof -
  have "puts view po (val_bits 7 (int (len - 1))) (asn_put_few_bits po (of_nat (len - 1)) 7)"
    using puts_word [OF wf out, of 7 "int (len - 1)"] by simp
  from puts_last [OF this] show ?thesis
    using len val_bits_7_small [of "int len - 1"] by (simp add: aper_put_nslength_def of_nat_diff)
qed

text \<open>Beyond 64 the length determinant is written without the one bit that announces it.\<close>

lemma puts_nslength_large:
  assumes wf: "po_wf po" and out: "po_output po = consume" and len: "64 < len" "len < 16384"
  shows "puts view po (align_pad (po_nboff po) @ length_bits len) (aper_put_nslength po len)"
proof -
  have "puts_len view po (align_pad (po_nboff po) @ length_bits len) len (aper_put_length po (- 1) (- 1) len)"
    by (intro puts_length wf out) simp
  then show ?thesis
    using len by (auto simp: puts_len_def puts_def aper_put_nslength_def length_units_def)
qed

end

text \<open>
  With a range above \<open>2 ^ 24\<close> the writer's loop over an \<open>int\<close> power has no defined result,
  whatever the value; the reader accepts such ranges.
\<close>

lemma put_cwn_undefined:
  assumes "long_range lb ub" and "2 ^ 24 \<le> ub - lb" and "lb \<le> x" and "x \<le> ub"
  shows "aper_put_constrained_whole_number po lb ub x = None"
  using assms octets_int_undefined [of "ub - lb"]
  by (subst aper_put_constrained_whole_number.simps)
    (simp add: long_rangeD [OF assms(1)] Let_def long_range_def)

end
