(* ===== verification/Uper_Support.thy ===== *)
theory Uper_Support
  imports Aper_Support_Laws
begin

unbundle bit_operations_syntax

text \<open>
  Primitive fields of the unaligned packed encoding (\<open>uper_support.c\<close>): length determinants,
  normally small lengths and numbers, constrained whole numbers of up to 64 bits, and the
  rebasing of signed values to unsigned offsets.  \<open>uintmax_t\<close> is \<^typ>\<open>u64\<close>, \<open>intmax_t\<close> an integer
  of 64 bits whose overflow is undefined; a failed \<open>assert\<close> has no result.
\<close>

section \<open>Reading\<close>

definition uper_get_length ::
  "asn_bit_data \<Rightarrow> int \<Rightarrow> nat \<Rightarrow> ((int \<times> bool) \<times> asn_bit_data) option" where
  "uper_get_length pd ebits lower_bound =
    (if 0 \<le> ebits \<and> ebits \<le> 16 then
       Option.bind (asn_get_few_bits ebits pd) (\<lambda>(val, pd).
         Some ((if 0 \<le> val then val + int lower_bound else val, False), pd))
     else Option.bind (asn_get_few_bits 8 pd) (\<lambda>(val, pd).
       if val AND 0x80 = 0 then Some ((val AND 0x7F, False), pd)
       else if val AND 0x40 = 0 then
         Option.bind (asn_get_few_bits 8 pd) (\<lambda>(low, pd).
           Some ((push_bit 8 (val AND 0x3f) OR low, False), pd))
       else if val < 0 then Some ((- 1, False), pd)
       else
         let val = val AND 0x3f in
         if val < 1 \<or> 4 < val then Some ((- 1, False), pd)
         else Some ((16384 * val, True), pd)))"

definition uper_get_nslength :: "asn_bit_data \<Rightarrow> (int \<times> asn_bit_data) option" where
  "uper_get_nslength pd =
    Option.bind (asn_get_few_bits 1 pd) (\<lambda>(b, pd).
      if b = 0 then
        Option.bind (asn_get_few_bits 6 pd) (\<lambda>(l, pd).
          if l + 1 \<le> 0 then Some (- 1, pd) else Some (l + 1, pd))
      else
        Option.bind (uper_get_length pd (- 1) 0) (\<lambda>((len, repeat), pd).
          if 0 \<le> len \<and> \<not> repeat then Some (len, pd) else Some (- 1, pd)))"

definition uper_get_nsnnwn :: "asn_bit_data \<Rightarrow> (int \<times> asn_bit_data) option" where
  "uper_get_nsnnwn pd =
    Option.bind (asn_get_few_bits 7 pd) (\<lambda>(val, pd).
      if val AND 64 \<noteq> 0 then
        Option.bind (asn_get_few_bits 2 pd) (\<lambda>(two, pd).
          let val = push_bit 2 (val AND 63) OR two in
          if val AND 128 \<noteq> 0 then Some (- 1, pd)
          else if val = 0 then Some (0, pd)
          else if 3 \<le> val then Some (- 1, pd)
          else asn_get_few_bits (8 * val) pd)
      else Some (val, pd))"

text \<open>The code, and the value stored through \<open>out_value\<close> when it is zero.\<close>

function uper_get_constrained_whole_number ::
  "asn_bit_data \<Rightarrow> int \<Rightarrow> ((int \<times> u64) \<times> asn_bit_data) option" where
  "uper_get_constrained_whole_number pd nbits =
    (if nbits \<le> 31 then
       Option.bind (asn_get_few_bits nbits pd) (\<lambda>(half, pd).
         if half < 0 then Some ((- 1, 0), pd) else Some ((0, word_of_int half), pd))
     else if 64 < nbits then Some ((- 1, 0), pd)
     else Option.bind (asn_get_few_bits 31 pd) (\<lambda>(half, pd).
       if half < 0 then Some ((- 1, 0), pd)
       else Option.bind (uper_get_constrained_whole_number pd (nbits - 31)) (\<lambda>((r, lhalf), pd).
         if r \<noteq> 0 then Some ((- 1, 0), pd)
         else Some ((0, push_bit (nat (nbits - 31)) (word_of_int half) OR lhalf), pd))))"
  by pat_completeness auto
termination by (relation "measure (\<lambda>(_, n). nat n)") auto

declare uper_get_constrained_whole_number.simps [simp del]

section \<open>Writing\<close>

definition uper_put_nsnnwn :: "'k asn_bit_outp \<Rightarrow> int \<Rightarrow> (int \<times> 'k asn_bit_outp) option" where
  "uper_put_nsnnwn po n =
    (if n \<le> 63 then
       if n < 0 then Some (- 1, po) else asn_put_few_bits po (word_of_int n) 7
     else
       let with_bytes = (\<lambda>bytes. Option.bind (asn_put_few_bits po (word_of_int bytes) 8) (\<lambda>(r, po).
         if r \<noteq> 0 then Some (- 1, po) else asn_put_few_bits po (word_of_int n) (8 * bytes)))
       in
       if n < 256 then with_bytes 1
       else if n < 65536 then with_bytes 2
       else if n < 256 * 65536 then with_bytes 3
       else Some (- 1, po))"

function uper_put_constrained_whole_number_u ::
  "'k asn_bit_outp \<Rightarrow> u64 \<Rightarrow> int \<Rightarrow> (int \<times> 'k asn_bit_outp) option" where
  "uper_put_constrained_whole_number_u po v nbits =
    (if nbits \<le> 31 then asn_put_few_bits po (ucast v) nbits
     else Option.bind (uper_put_constrained_whole_number_u po (drop_bit 31 v) (nbits - 31)) (\<lambda>(r, po).
       if r \<noteq> 0 then Some (- 1, po) else asn_put_few_bits po (ucast v) 31))"
  by pat_completeness auto
termination by (relation "measure (\<lambda>(_, _, n). nat n)") auto

declare uper_put_constrained_whole_number_u.simps [simp del]

definition uper_put_length :: "'k asn_bit_outp \<Rightarrow> nat \<Rightarrow> ((int \<times> bool) \<times> 'k asn_bit_outp) option" where
  "uper_put_length po len =
    (let result = (\<lambda>ok eom. \<lambda>(r, po). Some ((if r \<noteq> 0 then - 1 else ok, eom), po)) in
     if len \<le> 127 then
       Option.bind (asn_put_few_bits po (of_nat len) 8) (result (int len) False)
     else if len < 16384 then
       Option.bind (asn_put_few_bits po (of_nat len OR 0x8000) 16) (result (int len) False)
     else
       let eom = (len mod 16384 = 0);
           blocks = len div 16384;
           eom = (if 4 < blocks then False else eom);
           blocks = (if 4 < blocks then 4 else blocks)
       in Option.bind (asn_put_few_bits po (0xC0 OR of_nat blocks) 8)
            (result (int (blocks * 16384)) eom))"

definition uper_put_nslength :: "'k asn_bit_outp \<Rightarrow> nat \<Rightarrow> (int \<times> 'k asn_bit_outp) option" where
  "uper_put_nslength po len =
    (if len \<le> 64 then
       if len = 0 then Some (- 1, po)
       else Option.bind (asn_put_few_bits po (of_nat (len - 1)) 7) (\<lambda>(r, po).
         Some (if r \<noteq> 0 then - 1 else 0, po))
     else Option.bind (uper_put_length po len) (\<lambda>((n, eom), po).
       Some (if n \<noteq> int len \<or> eom then - 1 else 0, po)))"

section \<open>Rebasing\<close>

definition INTMAX_MAX :: int where "INTMAX_MAX = 2 ^ 63 - 1"

text \<open>The number of values above the lower bound; a lower bound above the upper one fails.\<close>

definition per__imax_range :: "int \<Rightarrow> int \<Rightarrow> (int \<times> u64) option" where
  "per__imax_range lb ub =
    (if (ub < 0) = (lb < 0) then
       Option.bind (s64 (ub - lb)) (\<lambda>d. Some (0, word_of_int d))
     else if lb < 0 then
       Option.bind (s64 (lb + 1)) (\<lambda>l. Option.bind (s64 (- l)) (\<lambda>l.
         Some (0, 1 + (word_of_int ub + word_of_int l))))
     else None)"

definition per_imax_range_rebase :: "int \<Rightarrow> int \<Rightarrow> int \<Rightarrow> (int \<times> u64) option" where
  "per_imax_range_rebase v lb ub =
    (if ub < lb then None
     else if v < lb \<or> ub < v then Some (- 1, 0)
     else Option.bind (per__imax_range lb ub) (\<lambda>(rc, range).
       if rc < 0 then Some (- 1, 0)
       else if (v < 0) = (lb < 0) then
         Option.bind (s64 (v - lb)) (\<lambda>d. Some (0, word_of_int d))
       else if v < 0 then
         Option.bind (s64 (v + 1)) (\<lambda>w. Option.bind (s64 (- w)) (\<lambda>w.
           let rebased = 1 + word_of_int w + word_of_int lb in
           if rebased \<le> range then Some (0, rebased) else None))
       else if lb < 0 then
         Option.bind (s64 (lb + 1)) (\<lambda>l. Option.bind (s64 (- l)) (\<lambda>l.
           let rebased = 1 + word_of_int l + word_of_int v in
           if rebased \<le> range then Some (0, rebased) else None))
       else None))"

definition per_long_range_rebase :: "int \<Rightarrow> int \<Rightarrow> int \<Rightarrow> (int \<times> u64) option" where
  "per_long_range_rebase v lb ub = per_imax_range_rebase v lb ub"

definition per_imax_range_unrebase :: "u64 \<Rightarrow> int \<Rightarrow> int \<Rightarrow> (int \<times> int) option" where
  "per_imax_range_unrebase inp lb ub =
    Option.bind (per__imax_range lb ub) (\<lambda>(rc, range).
      if rc \<noteq> 0 then Some (- 1, 0)
      else if range < inp then Some (- 1, 0)
      else if uint inp \<le> INTMAX_MAX then
        Option.bind (s64 (uint inp + lb)) (\<lambda>x. Some (0, x))
      else
        Option.bind (s64 (lb + INTMAX_MAX)) (\<lambda>a. Option.bind (s64 (a + 1)) (\<lambda>a.
          Option.bind (s64 (a + to_long (uint (inp - word_of_int INTMAX_MAX - 1)))) (\<lambda>x. Some (0, x)))))"

definition per_long_range_unrebase :: "u64 \<Rightarrow> int \<Rightarrow> int \<Rightarrow> (int \<times> int) option" where
  "per_long_range_unrebase inp lb ub = per_imax_range_unrebase inp lb ub"

end
