(* ===== verification/Uper_Support_Laws.thy ===== *)
theory Uper_Support_Laws
  imports Uper_Support
begin

unbundle bit_operations_syntax

text \<open>
  What the unaligned fields look like on the wire, and that the routines of \<open>Uper_Support\<close> write and
  read it: one lemma per routine and direction.
\<close>

section \<open>Rebasing\<close>

text \<open>Signed 64-bit bounds.\<close>

definition imax_bounds :: "int \<Rightarrow> int \<Rightarrow> bool" where
  "imax_bounds lb ub \<longleftrightarrow> LLONG_MIN \<le> lb \<and> lb \<le> ub \<and> ub \<le> LLONG_MAX"

lemma per__imax_range_value:
  assumes "imax_bounds lb ub"
  shows "per__imax_range lb ub = Some (0, word_of_int (ub - lb))"
proof (cases "(ub < 0) = (lb < 0)")
  case True
  then show ?thesis
    using assms by (auto simp: per__imax_range_def imax_bounds_def LLONG_MIN_def LLONG_MAX_def s64_def)
next
  case False
  then have "lb < 0" "0 \<le> ub" using assms by (auto simp: imax_bounds_def)
  moreover have "1 + (word_of_int ub + word_of_int (- lb - 1)) = (word_of_int (ub - lb) :: u64)"
    by (simp add: algebra_simps)
  ultimately show ?thesis
    using assms by (simp add: per__imax_range_def imax_bounds_def LLONG_MIN_def LLONG_MAX_def s64_def)
qed

lemma uint_offset:
  assumes "imax_bounds lb ub" and "lb \<le> v" and "v \<le> ub"
  shows "uint (word_of_int (v - lb) :: u64) = v - lb"
proof -
  have "0 \<le> v - lb" "v - lb < 2 ^ 64"
    using assms by (simp_all add: imax_bounds_def LLONG_MIN_def LLONG_MAX_def)
  then show ?thesis unfolding unsigned_of_int by (simp add: take_bit_int_eq_self)
qed

lemma rebase_value:
  assumes b: "imax_bounds lb ub" and v: "lb \<le> v" "v \<le> ub"
  shows "per_imax_range_rebase v lb ub = Some (0, word_of_int (v - lb))"
proof -
  have ranges: "LLONG_MIN \<le> lb" "ub \<le> LLONG_MAX" "\<not> ub < lb" "\<not> v < lb" "\<not> ub < v"
    using b v by (auto simp: imax_bounds_def)
  have le: "word_of_int (v - lb) \<le> (word_of_int (ub - lb) :: u64)"
    using uint_offset [OF b v] uint_offset [OF b _ order_refl] b v
    by (simp add: word_le_def imax_bounds_def)
  consider "(v < 0) = (lb < 0)" | "lb < 0" "0 \<le> v" using v by linarith
  then show ?thesis
  proof cases
    case 1
    then have "LLONG_MIN \<le> v - lb" "v - lb \<le> LLONG_MAX"
      using ranges v by (cases "v < 0"; simp add: LLONG_MIN_def LLONG_MAX_def)+
    then show ?thesis
      using 1 ranges per__imax_range_value [OF b] by (simp add: per_imax_range_rebase_def)
  next
    case 2
    have sum: "1 + word_of_int (- lb - 1) + word_of_int v = (word_of_int (v - lb) :: u64)"
      by (simp add: algebra_simps)
    show ?thesis
      using 2 ranges per__imax_range_value [OF b] le sum
      by (simp add: per_imax_range_rebase_def s64_def LLONG_MIN_def LLONG_MAX_def Let_def)
  qed
qed

lemma unrebase_value:
  assumes b: "imax_bounds lb ub" and v: "lb \<le> v" "v \<le> ub"
  shows "per_imax_range_unrebase (word_of_int (v - lb)) lb ub = Some (0, v)"
proof -
  let ?w = "word_of_int (v - lb) :: u64"
  have u: "uint ?w = v - lb" by (rule uint_offset [OF assms])
  have le: "\<not> word_of_int (ub - lb) < ?w"
    using u uint_offset [OF b _ order_refl] b v by (simp add: word_less_def imax_bounds_def)
  show ?thesis
  proof (cases "uint ?w \<le> INTMAX_MAX")
    case True
    then show ?thesis
      using u le per__imax_range_value [OF b] b v
      by (simp add: per_imax_range_unrebase_def s64_def imax_bounds_def)
  next
    case False
    then have "2 ^ 63 \<le> v - lb" using u by (simp add: INTMAX_MAX_def)
    moreover have "v - lb < 2 ^ 64" using b v by (simp add: imax_bounds_def LLONG_MIN_def LLONG_MAX_def)
    ultimately have small: "- (2 ^ 63) \<le> v - lb - 2 ^ 63" "v - lb - 2 ^ 63 < 2 ^ 63" by simp_all
    have w: "?w - word_of_int INTMAX_MAX - 1 = word_of_int (v - lb - 2 ^ 63)"
      by (simp add: INTMAX_MAX_def algebra_simps)
    have "to_long (uint (?w - word_of_int INTMAX_MAX - 1)) = sint (?w - word_of_int INTMAX_MAX - 1)"
      by (simp add: to_long_def)
    also have "\<dots> = v - lb - 2 ^ 63"
      unfolding w sint_sbintrunc' using small by (simp add: signed_take_bit_int_eq_self)
    finally have "to_long (uint (?w - word_of_int INTMAX_MAX - 1)) = v - lb - 2 ^ 63" .
    then show ?thesis
      using False u le per__imax_range_value [OF b] b v
      by (simp add: per_imax_range_unrebase_def s64_def imax_bounds_def INTMAX_MAX_def
        LLONG_MIN_def LLONG_MAX_def)
  qed
qed

lemma unrebase_rejects:
  assumes b: "imax_bounds lb ub" and "ub - lb < uint inp"
  shows "per_imax_range_unrebase inp lb ub = Some (- 1, 0)"
  using assms uint_offset [OF b _ order_refl] per__imax_range_value [OF b]
  by (simp add: per_imax_range_unrebase_def word_less_def imax_bounds_def)

section \<open>Length determinants\<close>

lemma asn_get_few_bits_octet:
  assumes "pd_wf pd"
  obtains v pd' where "asn_get_few_bits 8 pd = Some (v, pd')" "pd_wf pd'" "v = - 1 \<or> 0 \<le> v \<and> v < 256"
  using reads_few [OF assms, of 8] pd_took_wf by (fastforce simp: reads_def)

text \<open>On every reader the code is the unconstrained form that the aligned variant also reads.\<close>

lemma uper_get_length_body:
  assumes "pd_wf pd" and "ebits < 0 \<or> 16 < ebits"
  shows "uper_get_length pd ebits lb = length_body pd"
proof -
  obtain v pd1 where v: "asn_get_few_bits 8 pd = Some (v, pd1)" "pd_wf pd1" "v = - 1 \<or> 0 \<le> v \<and> v < 256"
    using asn_get_few_bits_octet [OF assms(1)] .
  obtain w pd2 where w: "asn_get_few_bits 8 pd1 = Some (w, pd2)" "w = - 1 \<or> 0 \<le> w \<and> w < 256"
    using asn_get_few_bits_octet [OF v(2)] by metis
  have "push_bit 8 (v AND 63) OR w < 0 \<longleftrightarrow> w = - 1" and "w = - 1 \<Longrightarrow> push_bit 8 (v AND 63) OR w = - 1"
    using w(2) by auto
  then show ?thesis
    using v w(1) assms(2) by (auto simp: uper_get_length_def length_body_def Let_def)
qed

lemma gets_uper_length:
  assumes "pd_at pd (length_bits n)" and "ebits < 0 \<or> 16 < ebits"
  shows "gets pd (length_bits n) (int (length_units n), 16384 \<le> n) (uper_get_length pd ebits lb)"
  using gets_length_body [OF assms(1)] uper_get_length_body [OF pd_at_wf [OF assms(1)] assms(2)] by simp

section \<open>Whole numbers of a given width\<close>

lemma gets_uper_cwn:
  "pd_at pd (val_bits n v) \<Longrightarrow> n \<le> 64 \<Longrightarrow>
    gets pd (val_bits n v) (0, word_of_int (take_bit n v)) (uper_get_constrained_whole_number pd (int n))"
proof (induction n arbitrary: pd v rule: less_induct)
  case (less n)
  show ?case
  proof (cases "n \<le> 31")
    case True
    have "gets pd (val_bits n v) (take_bit n v) (asn_get_few_bits (int n) pd)"
      using gets_few [of pd n "take_bit n v"] less.prems(1) True by simp
    then show ?thesis
      using True by (subst uper_get_constrained_whole_number.simps) (auto simp: gets_def not_le [symmetric])
  next
    case False
    let ?m = "n - 31"
    have split: "val_bits n v = val_bits 31 (drop_bit ?m v) @ val_bits ?m v"
      using val_bits_split [of 31 ?m v] False by simp
    let ?half = "take_bit 31 (drop_bit ?m v)"
    have m: "int n - 31 = int ?m" "nat (int ?m) = ?m" using False by simp_all
    have val: "push_bit ?m (word_of_int ?half) OR word_of_int (take_bit ?m v) = (word_of_int (take_bit n v) :: u64)"
    proof (rule bit_word_eqI)
      fix i assume "i < LENGTH(64)"
      then show "bit (push_bit ?m (word_of_int ?half) OR word_of_int (take_bit ?m v) :: u64) i =
          bit (word_of_int (take_bit n v) :: u64) i"
        using False less.prems(2)
        by (auto simp: bit_or_iff bit_push_bit_iff bit_word_of_int_iff bit_take_bit_iff bit_drop_bit_eq)
    qed
    have at: "pd_at pd (val_bits 31 ?half @ val_bits ?m v)" using less.prems(1) split by simp
    have first: "gets pd (val_bits 31 ?half) ?half (asn_get_few_bits 31 pd)"
      using gets_few [of pd 31 ?half] pd_at_prefix [OF at] take_bit_int_less_exp [of 31 "drop_bit ?m v"] by simp
    let ?second = "\<lambda>(half, pd). if half < 0 then Some ((- 1, 0), pd)
      else Option.bind (uper_get_constrained_whole_number pd (int ?m)) (\<lambda>((r, lhalf), pd).
         if r \<noteq> 0 then Some ((- 1, 0), pd)
         else Some ((0, push_bit ?m (word_of_int half) OR lhalf), pd))"
    have second: "gets pd1 (val_bits ?m v) (0, word_of_int (take_bit n v)) (?second (?half, pd1))"
      if "pd_took pd (length (val_bits 31 ?half)) pd1" for pd1
    proof -
      have "gets pd1 (val_bits ?m v) (0, word_of_int (take_bit ?m v)) (uper_get_constrained_whole_number pd1 (int ?m))"
        using pd_at_took [OF at that] False less.prems(2) by (intro less.IH) auto
      then show ?thesis using val by (auto simp: gets_def)
    qed
    have "uper_get_constrained_whole_number pd (int n) = Option.bind (asn_get_few_bits 31 pd) ?second"
    proof -
      have "\<not> int n \<le> 31" "\<not> 64 < int n" using False less.prems(2) by simp_all
      then show ?thesis by (subst uper_get_constrained_whole_number.simps) (simp only: if_not_P m if_False)
    qed
    then show ?thesis using gets_then [OF first second] split by simp
  qed
qed

lemma uper_get_cwn_wide: "64 < n \<Longrightarrow> uper_get_constrained_whole_number pd n = Some ((- 1, 0), pd)"
  by (subst uper_get_constrained_whole_number.simps) simp

section \<open>Writing\<close>

context byte_sink
begin

lemma puts_uper_length:
  "po_wf po \<Longrightarrow> po_output po = consume \<Longrightarrow> puts_len view po (length_bits n) n (uper_put_length po n)"
  using puts_length_body [of po n] by (simp add: uper_put_length_def Let_def cong: if_cong)

lemma puts_uper_cwn:
  "po_wf po \<Longrightarrow> po_output po = consume \<Longrightarrow>
    puts view po (val_bits n (uint v)) (uper_put_constrained_whole_number_u po v (int n))"
proof (induction n arbitrary: po v rule: less_induct)
  case (less n)
  have low: "val_bits k (uint (ucast v :: u32)) = val_bits k (uint v)" if "k \<le> 31" for k
    using that by (intro nth_equalityI) (auto simp: val_bits_def bit_uint_iff bit_ucast_iff)
  show ?case
  proof (cases "n \<le> 31")
    case True
    then show ?thesis
      using put_few [OF less.prems True, of "ucast v"] low
      by (subst uper_put_constrained_whole_number_u.simps) simp
  next
    case False
    let ?m = "n - 31"
    have m: "int n - 31 = int ?m" "31 + ?m = n" "?m + 31 = n" using False by simp_all
    have "uint (drop_bit 31 v) = drop_bit 31 (uint v)" by (rule bit_eqI) (auto simp: bit_simps)
    then have split: "val_bits n (uint v) = val_bits ?m (uint (drop_bit 31 v)) @ val_bits 31 (uint v)"
      using val_bits_split [of ?m 31 "uint v"] m by simp
    have high: "puts view po (val_bits ?m (uint (drop_bit 31 v)))
        (uper_put_constrained_whole_number_u po (drop_bit 31 v) (int ?m))"
      using less.prems False by (intro less.IH) auto
    have "puts view po1 (val_bits 31 (uint v)) (asn_put_few_bits po1 (ucast v) 31)"
      if "emits view po (val_bits ?m (uint (drop_bit 31 v))) po1" for po1
      using put_few [of po1 31 "ucast v"] that low less.prems by (auto simp: emits_def)
    note body = puts_then [OF high this]
    have "\<not> int n \<le> 31" using False by simp
    then show ?thesis
      unfolding split using body
      by (subst uper_put_constrained_whole_number_u.simps) (simp only: if_not_P m(1) if_False)
  qed
qed

end

end
