(* ===== verification/Bit_Stream_Properties.thy ===== *)
theory Bit_Stream_Properties
  imports Asn_Bit_Data Per_Encoder
begin

text \<open>
  The properties of the bit stream and of the top of the encoder: reads are safe on arbitrary
  data, what is written is read back, and a complete encoding arrives in the caller's buffer.
\<close>

text \<open>The writer a fresh encoding starts with, over a buffer of \<open>n\<close> bytes.\<close>

definition fresh_writer :: "nat \<Rightarrow> enc_to_buf_arg asn_bit_outp" where
  "fresh_writer n = aper_start (Some encode_to_buffer_cb) \<lparr>eb_stored = [], eb_left = n\<rparr> (replicate 32 0)"

lemma fresh_writer_simps [simp]:
  "po_wf (fresh_writer n)" "po_output (fresh_writer n) = encode_to_buffer_cb"
  "po_nboff (fresh_writer n) = 0" "po_bits buffer_view (fresh_writer n) = []"
  "overflows buffer_view (fresh_writer n) bs \<longleftrightarrow> 8 * n < length bs"
  by (simp_all add: fresh_writer_def aper_start_def po_wf_def po_bits_def po_stored_def buffer_view_def
    overflows_def)

section \<open>Reads on arbitrary data\<close>

text \<open>
  C18. Reading any number of bits, from any well-formed position of any data, is free of
  out-of-bounds accesses: it returns either \<open>-1\<close>, consuming nothing, or exactly the value of the
  next bits, consuming exactly those; and it succeeds whenever at most 31 bits are asked for and
  that many are left.
\<close>
theorem asn_get_few_bits_safe:
  assumes "pd_wf pd"
  shows "\<exists>v pd'. asn_get_few_bits nbits pd = Some (v, pd') \<and> pd_wf pd' \<and>
    (if 0 \<le> nbits \<and> nbits \<le> 31 \<and> nat nbits \<le> length (pd_rest pd)
     then v = bits_val (take (nat nbits) (pd_rest pd)) \<and> pd_rest pd' = drop (nat nbits) (pd_rest pd) \<and>
       pd_moved pd' = pd_moved pd + of_nat (nat nbits)
     else v = - 1 \<and> pd_rest pd' = pd_rest pd \<and> pd_moved pd' = pd_moved pd)"
proof (cases "nbits < 0")
  case True
  then show ?thesis using assms by (simp add: asn_get_few_bits.simps)
next
  case False
  then obtain n where n: "nbits = int n" by (metis nonneg_int_cases not_less)
  consider "n \<le> 31" "n \<le> length (pd_rest pd)" | "length (pd_rest pd) < n" | "31 < n" by linarith
  then show ?thesis
  proof cases
    case 1
    then show ?thesis using asn_get_few_bits_ok [OF assms, of n] by (auto simp: n pd_took_def)
  next
    case 2
    then show ?thesis using asn_get_few_bits_eof [OF assms, of n] assms by (auto simp: n)
  next
    case 3
    then show ?thesis using asn_get_few_bits_wide [OF assms, of n] by (auto simp: n pd_took_def)
  qed
qed

lemma asn_get_few_bits_safe_witness:
  "\<exists>v pd'. asn_get_few_bits 5 \<lparr>pd_buffer = [0xA5, 1], pd_nboff = 3, pd_nbits = 16, pd_moved = 0\<rparr> =
    Some (v, pd') \<and> pd_wf pd' \<and> v = 5"
proof -
  let ?pd = "\<lparr>pd_buffer = [0xA5, 1], pd_nboff = 3, pd_nbits = 16, pd_moved = 0\<rparr>"
  have wf: "pd_wf ?pd" by (simp add: pd_wf_def)
  have rest: "take 5 (pd_rest ?pd) = [False, False, True, False, True]" "5 \<le> length (pd_rest ?pd)"
    by (simp_all add: pd_rest_def bytes_bits_Cons byte_bits_def upt_rec)
  then have "bits_val (take (nat 5) (pd_rest ?pd)) = 5" by (simp add: bits_val_def)
  then show ?thesis using asn_get_few_bits_safe [OF wf, of 5] rest by auto
qed

section \<open>Round trips\<close>

lemma odd_pad_octet_pad: "odd_pad n = octet_pad n"
  by (simp add: odd_pad_def octet_pad_def)

text \<open>
  A number of up to 31 bits that is written to a buffer with enough room is appended as its
  low bits, most significant first, and every reader at which those bits come next reads back
  the number and moves past exactly those bits.
\<close>
theorem asn_few_bits_roundtrip:
  assumes "po_wf po" and "po_output po = encode_to_buffer_cb" and "n \<le> 31"
    and "\<not> overflows buffer_view po (val_bits n (uint bits))"
  shows "\<exists>po'. asn_put_few_bits po bits (int n) = Some (0, po') \<and>
    emits buffer_view po (val_bits n (uint bits)) po' \<and>
    (\<forall>pd. pd_at pd (val_bits n (uint bits)) \<longrightarrow>
       gets pd (val_bits n (uint bits)) (take_bit n (uint bits)) (asn_get_few_bits (int n) pd))"
proof -
  have "puts buffer_view po (val_bits n (uint bits)) (asn_put_few_bits po bits (int n))"
    using assms(1-3) by (rule buffer.put_few)
  moreover have "gets pd (val_bits n (uint bits)) (take_bit n (uint bits)) (asn_get_few_bits (int n) pd)"
    if "pd_at pd (val_bits n (uint bits))" for pd
    using gets_few_bits [OF that _ assms(3)] by (simp add: bits_val_val_bits)
  ultimately show ?thesis using assms(4) by (auto simp: puts_def)
qed

lemma asn_few_bits_roundtrip_witness:
  "\<exists>po'. asn_put_few_bits (fresh_writer 1) 0x15 5 = Some (0, po') \<and>
    emits buffer_view (fresh_writer 1) (val_bits 5 0x15) po'"
  using asn_few_bits_roundtrip [of "fresh_writer 1" 5 "0x15"] by auto

text \<open>
  C20. A string of any number of bits, taken from the front of some octets and written to a buffer
  with enough room, is appended unchanged, across every refill of the writer's scratch area, and every reader at which those bits come next
  reads them back as octets, the last one filled up with zero bits on the right, and moves past
  exactly those bits.
\<close>
theorem asn_many_bits_roundtrip:
  assumes "po_wf po" and "po_output po = encode_to_buffer_cb" and "n \<le> 8 * length src"
    and "\<not> overflows buffer_view po (take n (bytes_bits src))"
  shows "\<exists>po'. asn_put_many_bits po src n = Some (0, po') \<and>
    emits buffer_view po (take n (bytes_bits src)) po' \<and>
    (\<forall>pd. pd_at pd (take n (bytes_bits src)) \<longrightarrow>
      (\<exists>ds pd'. asn_get_many_bits pd False n = Some (0, ds, pd') \<and> pd_took pd n pd' \<and>
        bytes_bits ds = take n (bytes_bits src) @ octet_pad n))"
proof -
  have put: "puts buffer_view po (take n (bytes_bits src)) (asn_put_many_bits po src n)"
    using assms(1-3) by (rule buffer.put_many)
  have "\<exists>ds pd'. asn_get_many_bits pd False n = Some (0, ds, pd') \<and> pd_took pd n pd' \<and>
      bytes_bits ds = take n (bytes_bits src) @ octet_pad n" if at: "pd_at pd (take n (bytes_bits src))" for pd
  proof -
    obtain r where r: "pd_wf pd" "pd_rest pd = take n (bytes_bits src) @ r"
      using at by (auto simp: pd_at_def prefix_def)
    then have "n \<le> length (pd_rest pd)" "take n (pd_rest pd) = take n (bytes_bits src)"
      using assms(3) by simp_all
    then show ?thesis using asn_get_many_bits_ok [OF r(1), of n] by (simp add: odd_pad_octet_pad)
  qed
  with put show ?thesis using assms(4) by (auto simp: puts_def)
qed

lemma asn_many_bits_roundtrip_witness:
  "\<exists>po'. asn_put_many_bits (fresh_writer 64) (replicate 50 7) 397 = Some (0, po') \<and>
    emits buffer_view (fresh_writer 64) (take 397 (bytes_bits (replicate 50 7))) po'"
  using asn_many_bits_roundtrip [of "fresh_writer 64" 397 "replicate 50 7"] by auto

section \<open>Complete encodings\<close>

text \<open>
  C21. An encoding with a caller's buffer: if the type's encoder appends its bits and they fit into
  the buffer's \<open>room\<close> octets, the buffer receives exactly these bits, filled up with zero bits to
  whole octets, and the returned number is the number of bits; if they do not fit, and only then,
  \<open>-1\<close> is returned.
\<close>
theorem aper_encode_to_buffer_complete:
  assumes "encodes buffer_view encode_to_buffer_cb enc bits" and "length tmp = 32"
  shows "\<exists>r key. aper_encode_to_buffer tmp (Some enc) room = Some (r, key) \<and>
    (if length (bits 0) \<le> 8 * room
     then r = int (length (bits 0)) \<and> length (eb_stored key) + eb_left key = room \<and>
       bytes_bits (eb_stored key) = bits 0 @ octet_pad (length (bits 0))
     else r = - 1)"
proof -
  obtain r key where run: "aper_encode_to_buffer tmp (Some enc) room = Some (r, key)" and
    res: "r = int (length (bits 0)) \<and> length (eb_stored key) + eb_left key = room \<and>
       bytes_bits (eb_stored key) = bits 0 @ octet_pad (length (bits 0)) \<or>
     r = - 1 \<and> 8 * room < length (bits 0)"
    using buffer.aper_encode_complete [OF assms, of "\<lparr>eb_stored = [], eb_left = room\<rparr>"]
    by (auto simp: aper_encode_to_buffer_def buffer_view_def)
  have "length (bits 0) \<le> 8 * room"
    if "bytes_bits (eb_stored key) = bits 0 @ octet_pad (length (bits 0))"
      "length (eb_stored key) + eb_left key = room"
    using arg_cong [OF that(1), of length] that(2) by simp
  with res have "if length (bits 0) \<le> 8 * room
     then r = int (length (bits 0)) \<and> length (eb_stored key) + eb_left key = room \<and>
       bytes_bits (eb_stored key) = bits 0 @ octet_pad (length (bits 0))
     else r = - 1" by auto
  with run show ?thesis by blast
qed

lemma encodes_few:
  assumes "n \<le> 31"
  shows "encodes buffer_view encode_to_buffer_cb (\<lambda>po. asn_put_few_bits po bits (int n)) (\<lambda>_. val_bits n (uint bits))"
  using buffer.put_few [of _ n bits] assms by (fastforce simp: encodes_def puts_def)

lemma aper_encode_to_buffer_complete_witness:
  "\<exists>key. aper_encode_to_buffer (replicate 32 0) (Some (\<lambda>po. asn_put_few_bits po 5 (int 11))) 3 = Some (11, key) \<and>
    bytes_bits (eb_stored key) = val_bits 11 5 @ octet_pad 11"
  using aper_encode_to_buffer_complete [OF encodes_few [of 11 5], of "replicate 32 0" 3] by auto

end
