(* ===== verification/Aper_Support_Properties.thy ===== *)
theory Aper_Support_Properties
  imports Aper_Support_Laws Bit_Stream_Properties
begin

text \<open>
  The properties of the primitive fields of the aligned encoding, for a writer over the caller's
  buffer (\<open>encode_to_buffer_cb\<close>, through the interpretation \<open>buffer\<close> of \<open>byte_sink\<close>) and for
  every reader at which the written bits come next, at the same phase of an octet.
\<close>

text \<open>
  C22. A constrained whole number whose range has at most \<open>2 ^ 24\<close> values is written as X.691
  10.5 prescribes, in each of the four cases, and read back as the same number.
\<close>
theorem aper_constrained_whole_number_roundtrip:
  assumes "po_wf po" and "po_output po = encode_to_buffer_cb"
    and "long_range lb ub" and "ub - lb < 2 ^ 24" and "lb \<le> x" and "x \<le> ub"
    and "\<not> overflows buffer_view po (cwn_bits (po_nboff po) lb ub x)"
  shows "\<exists>po'. aper_put_constrained_whole_number po lb ub x = Some (0, po') \<and>
    emits buffer_view po (cwn_bits (po_nboff po) lb ub x) po' \<and>
    (\<forall>pd. pd_at pd (cwn_bits (po_nboff po) lb ub x) \<and> pd_nboff pd mod 8 = po_nboff po mod 8 \<longrightarrow>
       gets pd (cwn_bits (po_nboff po) lb ub x) x (aper_get_constrained_whole_number pd lb ub))"
proof -
  have "gets pd (cwn_bits (po_nboff po) lb ub x) x (aper_get_constrained_whole_number pd lb ub)"
    if "pd_at pd (cwn_bits (po_nboff po) lb ub x)" and "pd_nboff pd mod 8 = po_nboff po mod 8" for pd
    using that assms(3-6) gets_cwn [of pd lb ub x] by (metis cwn_bits_mod)
  then show ?thesis using buffer.puts_cwn [OF assms(1-6)] assms(7) by (auto simp: puts_def)
qed

lemma aper_constrained_whole_number_roundtrip_witness:
  "\<exists>po'. aper_put_constrained_whole_number (fresh_writer 8) 0 1000000 70000 = Some (0, po') \<and>
    emits buffer_view (fresh_writer 8) (cwn_bits 0 0 1000000 70000) po'"
proof -
  have "\<not> overflows buffer_view (fresh_writer 8) (cwn_bits 0 0 1000000 70000)"
    using digits_unique [of 8 70000 3] cwn_head [of 1000000] digits_unique [of 1 2 2]
    by (simp add: cwn_bits_def)
  then show ?thesis
    using aper_constrained_whole_number_roundtrip [of "fresh_writer 8" 0 1000000 70000]
    by (auto simp: long_range_def LLONG_MAX_def)
qed

text \<open>
  With a range of more than \<open>2 ^ 24\<close> values the writer has no defined result for any number
  of the range: it looks for the octets of the range with powers of an \<open>int\<close>, and the next one
  is a shift by 32.  The reader uses a \<open>long\<close> there.
\<close>
theorem aper_put_constrained_whole_number_undefined:
  assumes "long_range lb ub" and "2 ^ 24 \<le> ub - lb" and "lb \<le> x" and "x \<le> ub"
  shows "aper_put_constrained_whole_number po lb ub x = None"
  using assms by (rule put_cwn_undefined)

lemma aper_put_constrained_whole_number_undefined_witness:
  "aper_put_constrained_whole_number (fresh_writer 8) 0 (2 ^ 32 - 1) 5 = None"
  using aper_put_constrained_whole_number_undefined [of 0 "2 ^ 32 - 1" 5 "fresh_writer 8"]
  by (simp add: long_range_def LLONG_MAX_def)

text \<open>
  C24. Reading a constrained whole number from arbitrary data, for bounds whose number of values is
  a \<open>long\<close> and that are less than \<open>2 ^ 56\<close> apart (the reader counts the octets of a wider range with
  a shift by 64), is free of undefined behaviour and can only return \<open>-1\<close> or a number within the
  bounds; the reader only moves forward.
\<close>
theorem aper_get_constrained_whole_number_in_range:
  assumes "pd_wf pd" and "long_range lb ub" and "ub - lb < 2 ^ 56"
  shows "\<exists>v pd' n. aper_get_constrained_whole_number pd lb ub = Some (v, pd') \<and> pd_took pd n pd' \<and>
    (v = - 1 \<or> lb \<le> v \<and> v \<le> ub)"
  using reads_cwn [OF assms] by (auto simp: reads_def)

lemma aper_get_constrained_whole_number_in_range_witness:
  "\<exists>v pd' n. aper_get_constrained_whole_number \<lparr>pd_buffer = [0xFF, 0xFF], pd_nboff = 1, pd_nbits = 16, pd_moved = 0\<rparr> 0 100 =
      Some (v, pd') \<and> (v = - 1 \<or> 0 \<le> v \<and> v \<le> 100)"
  using aper_get_constrained_whole_number_in_range
    [of "\<lparr>pd_buffer = [0xFF, 0xFF], pd_nboff = 1, pd_nbits = 16, pd_moved = 0\<rparr>" 0 100]
  by (auto simp: pd_wf_def long_range_def LLONG_MAX_def)

text \<open>
  An unconstrained length determinant, preceded by octet alignment: for every number of units
  the writer announces as many as one determinant can (all below 16384, else up to four blocks of
  16384), tells the caller how many these are and whether a final zero length is needed, and the
  reader obtains the same count together with the continuation flag.
\<close>
theorem aper_length_roundtrip:
  assumes "po_wf po" and "po_output po = encode_to_buffer_cb"
    and "\<not> overflows buffer_view po (align_pad (po_nboff po) @ length_bits n)"
  shows "\<exists>po'. aper_put_length po (- 1) (- 1) n = Some ((int (length_units n), need_eom n), po') \<and>
    emits buffer_view po (align_pad (po_nboff po) @ length_bits n) po' \<and>
    (\<forall>pd. pd_at pd (align_pad (po_nboff po) @ length_bits n) \<and> pd_nboff pd mod 8 = po_nboff po mod 8 \<longrightarrow>
       gets pd (align_pad (po_nboff po) @ length_bits n) (int (length_units n), 16384 \<le> n)
         (aper_get_length pd (- 1) (- 1) (- 1)))"
proof -
  have "gets pd (align_pad (po_nboff po) @ length_bits n) (int (length_units n), 16384 \<le> n)
      (aper_get_length pd (- 1) (- 1) (- 1))"
    if "pd_at pd (align_pad (po_nboff po) @ length_bits n)" and "pd_nboff pd mod 8 = po_nboff po mod 8" for pd
    using that gets_length [of pd n "- 1" "- 1" "- 1"] by simp (metis align_pad_mod)
  moreover have "puts_len buffer_view po (align_pad (po_nboff po) @ length_bits n) n
      (aper_put_length po (- 1) (- 1) n)"
    using assms(1,2) by (intro buffer.puts_length) auto
  ultimately show ?thesis using assms(3) by (auto simp: puts_len_def)
qed

lemma aper_length_roundtrip_witness:
  "\<exists>po'. aper_put_length (fresh_writer 4) (- 1) (- 1) 300 = Some ((300, False), po') \<and>
    emits buffer_view (fresh_writer 4) (length_bits 300) po'"
  using aper_length_roundtrip [of "fresh_writer 4" 300]
  by (auto simp: length_length_bits length_units_def need_eom_def)

text \<open>
  A normally small non-negative number below \<open>2 ^ 24\<close> is written in seven bits up to 63, and
  as a one bit, an octet count and that many octets above, and is read back as written.
\<close>
theorem aper_nsnnwn_roundtrip:
  assumes "po_wf po" and "po_output po = encode_to_buffer_cb" and "0 \<le> x" and "x < 2 ^ 24"
    and "\<not> overflows buffer_view po (nsnnwn_bits (po_nboff po) x)"
  shows "\<exists>po'. aper_put_nsnnwn po x = Some (0, po') \<and>
    emits buffer_view po (nsnnwn_bits (po_nboff po) x) po' \<and>
    (\<forall>pd. pd_at pd (nsnnwn_bits (po_nboff po) x) \<and> pd_nboff pd mod 8 = po_nboff po mod 8 \<longrightarrow>
       gets pd (nsnnwn_bits (po_nboff po) x) x (aper_get_nsnnwn pd))"
proof -
  have "gets pd (nsnnwn_bits (po_nboff po) x) x (aper_get_nsnnwn pd)"
    if "pd_at pd (nsnnwn_bits (po_nboff po) x)" and "pd_nboff pd mod 8 = po_nboff po mod 8" for pd
    using that assms(3,4) gets_nsnnwn [of pd x] by (metis nsnnwn_bits_mod)
  then show ?thesis using buffer.puts_nsnnwn [OF assms(1-4)] assms(5) by (auto simp: puts_def)
qed

lemma aper_nsnnwn_roundtrip_witness:
  "\<exists>po'. aper_put_nsnnwn (fresh_writer 8) 63 = Some (0, po') \<and>
    emits buffer_view (fresh_writer 8) (False # val_bits 6 63) po'"
  using aper_nsnnwn_roundtrip [of "fresh_writer 8" 63] by (auto simp: nsnnwn_bits_def)

text \<open>
  A normally small length up to 64 is read back as written.
\<close>
theorem aper_nslength_roundtrip:
  assumes "po_wf po" and "po_output po = encode_to_buffer_cb" and "1 \<le> len" and "len \<le> 64"
    and "\<not> overflows buffer_view po (val_bits 7 (int len - 1))"
  shows "\<exists>po'. aper_put_nslength po len = Some (0, po') \<and>
    emits buffer_view po (val_bits 7 (int len - 1)) po' \<and>
    (\<forall>pd. pd_at pd (val_bits 7 (int len - 1)) \<longrightarrow>
       gets pd (val_bits 7 (int len - 1)) (int len) (aper_get_nslength pd))"
proof -
  have bits: "val_bits 7 (int len - 1) = False # val_bits 6 (int len - 1)"
    using assms(3,4) by (intro val_bits_7_small) auto
  have "gets pd (val_bits 7 (int len - 1)) (int len) (aper_get_nslength pd)"
    if "pd_at pd (val_bits 7 (int len - 1))" for pd
    using gets_nslength_small [of pd "int len - 1"] that assms(3,4) unfolding bits by simp
  then show ?thesis
    using buffer.puts_nslength_small [OF assms(1-4)] assms(5) unfolding bits by (auto simp: puts_def)
qed

lemma aper_nslength_roundtrip_witness:
  "\<exists>po'. aper_put_nslength (fresh_writer 1) 64 = Some (0, po') \<and>
    emits buffer_view (fresh_writer 1) (val_bits 7 63) po'"
  using aper_nslength_roundtrip [of "fresh_writer 1" 64] by auto

text \<open>
  C26. A length from 65 to 127 at an octet boundary is written without the bit that announces the
  long form: the writer reports success, and the matching reader takes the first seven bits for a
  small length and returns another one, which leaves it inside the octet.
\<close>
theorem aper_nslength_long_form_misread:
  assumes "po_wf po" and "po_output po = encode_to_buffer_cb" and "po_nboff po mod 8 = 0"
    and "64 < len" and "len \<le> 127" and "\<not> overflows buffer_view po (val_bits 8 (int len))"
  shows "(\<exists>po'. aper_put_nslength po len = Some (0, po') \<and>
      emits buffer_view po (val_bits 8 (int len)) po') \<and>
    (\<forall>pd. pd_at pd (val_bits 8 (int len)) \<longrightarrow>
      (\<exists>bs. gets pd bs (int len div 2 + 1) (aper_get_nslength pd) \<and> length bs = 7) \<and>
      int len div 2 + 1 \<noteq> int len)"
proof -
  let ?v = "int len div 2"
  have v: "0 \<le> ?v" "?v < 64" "?v + 1 \<noteq> int len" using assms(4,5) by auto
  have bits: "val_bits 8 (int len) = (False # val_bits 6 ?v) @ val_bits 1 (int len)"
    using val_bits_split [of 7 1 "int len"] val_bits_7_small [OF v(1,2)] by (simp add: drop_bit_eq_div)
  have "\<exists>bs. gets pd bs (?v + 1) (aper_get_nslength pd) \<and> length bs = 7"
    if "pd_at pd (val_bits 8 (int len))" for pd
    using gets_nslength_small [OF pd_at_prefix [OF that [unfolded bits]] v(1,2)]
    by (rule exI [where x = "False # val_bits 6 ?v", OF conjI]) simp
  moreover have "puts buffer_view po (val_bits 8 (int len)) (aper_put_nslength po len)"
    using buffer.puts_nslength_large [OF assms(1,2,4)] assms(3,5) length_bits_8 [of len] by simp
  ultimately show ?thesis using v(3) assms(6) by (auto simp: puts_def)
qed

lemma aper_nslength_long_form_misread_witness:
  "\<exists>po'. aper_put_nslength (fresh_writer 1) 100 = Some (0, po') \<and>
    emits buffer_view (fresh_writer 1) (val_bits 8 100) po'"
  using aper_nslength_long_form_misread [of "fresh_writer 1" 100] by auto

end
