(* ===== verification/Uper_Support_Properties.thy ===== *)
theory Uper_Support_Properties
  imports Uper_Support_Laws Aper_Support_Properties
begin

unbundle bit_operations_syntax

text \<open>
  The properties of the primitive fields of the unaligned encoding: signed integers survive
  rebasing, writing, reading and unrebasing; the two variants share their length determinants; and
  a normally small number beyond 63 does not survive.
\<close>

text \<open>
  C27. A signed integer between 64-bit bounds is carried by any field of up to 64 bits that is wide
  enough for its range: rebasing, writing the offset, reading it and unrebasing give it back, with
  no overflow on the way, even where the range exceeds a signed number.
\<close>
theorem uper_integer_roundtrip:
  assumes "imax_bounds lb ub" and "lb \<le> v" and "v \<le> ub" and "ub - lb < 2 ^ n" and "n \<le> 64"
    and "po_wf po" and "po_output po = encode_to_buffer_cb"
    and "\<not> overflows buffer_view po (val_bits n (v - lb))"
  shows "\<exists>off po'. per_imax_range_rebase v lb ub = Some (0, off) \<and>
    uper_put_constrained_whole_number_u po off (int n) = Some (0, po') \<and>
    emits buffer_view po (val_bits n (v - lb)) po' \<and>
    (\<forall>pd. pd_at pd (val_bits n (v - lb)) \<longrightarrow>
      gets pd (val_bits n (v - lb)) (0, off) (uper_get_constrained_whole_number pd (int n))) \<and>
    per_imax_range_unrebase off lb ub = Some (0, v)"
proof -
  let ?off = "word_of_int (v - lb) :: u64"
  have off: "uint ?off = v - lb" using uint_offset assms(1-3) .
  have small: "take_bit n (v - lb) = v - lb" using assms(2-4) by (simp add: take_bit_int_eq_self)
  have "puts buffer_view po (val_bits n (v - lb)) (uper_put_constrained_whole_number_u po ?off (int n))"
    using buffer.puts_uper_cwn [OF assms(6,7), of n ?off] by (simp only: off)
  then obtain po' where "uper_put_constrained_whole_number_u po ?off (int n) = Some (0, po')"
      "emits buffer_view po (val_bits n (v - lb)) po'"
    using assms(8) by (auto simp: puts_def)
  moreover have "gets pd (val_bits n (v - lb)) (0, ?off) (uper_get_constrained_whole_number pd (int n))"
    if "pd_at pd (val_bits n (v - lb))" for pd
    using gets_uper_cwn [OF that assms(5)] by (simp only: small)
  ultimately show ?thesis using rebase_value [OF assms(1-3)] unrebase_value [OF assms(1-3)] by blast
qed

lemma uper_integer_roundtrip_witness:
  "\<exists>off po'. per_imax_range_rebase (2 ^ 63 - 1) (- (2 ^ 63)) (2 ^ 63 - 1) = Some (0, off) \<and>
    uper_put_constrained_whole_number_u (fresh_writer 8) off 64 = Some (0, po') \<and>
    per_imax_range_unrebase off (- (2 ^ 63)) (2 ^ 63 - 1) = Some (0, 2 ^ 63 - 1)"
  using uper_integer_roundtrip [of "- (2 ^ 63)" "2 ^ 63 - 1" "2 ^ 63 - 1" 64 "fresh_writer 8"]
  by (auto simp: imax_bounds_def LLONG_MIN_def LLONG_MAX_def)

text \<open>
  Unrebasing an offset that was read from the wire is defined for every 64-bit value: it gives
  the lower bound plus the offset, and rejects every offset beyond the range, so no decoded number
  leaves its bounds.
\<close>
theorem per_imax_range_unrebase_in_bounds:
  assumes "imax_bounds lb ub"
  shows "per_imax_range_unrebase inp lb ub =
    Some (if uint inp \<le> ub - lb then (0, lb + uint inp) else (- 1, 0))"
proof (cases "uint inp \<le> ub - lb")
  case True
  then show ?thesis using unrebase_value [OF assms, of "lb + uint inp"] by simp
next
  case False
  then show ?thesis using unrebase_rejects [OF assms, of inp] by simp
qed

lemma per_imax_range_unrebase_in_bounds_witness:
  "per_imax_range_unrebase 7 (- 3) 4 = Some (0, 4) \<and> per_imax_range_unrebase 8 (- 3) 4 = Some (- 1, 0)"
  using per_imax_range_unrebase_in_bounds [of "- 3" 4 7] per_imax_range_unrebase_in_bounds [of "- 3" 4 8]
  by (simp add: imax_bounds_def LLONG_MIN_def LLONG_MAX_def)

text \<open>
  C29. At an octet boundary the unaligned and the aligned variant of an unconstrained length
  determinant are the same function, for every reader, every writer and every length.
\<close>
theorem uper_aper_length_agree:
  assumes "pd_wf pd" and "pd_nboff pd mod 8 = 0" and "po_nboff po mod 8 = 0"
  shows "uper_get_length pd (- 1) lb = aper_get_length pd (- 1) (- 1) (- 1) \<and>
    uper_put_length po n = aper_put_length po (- 1) (- 1) n"
proof
  have "aper_get_length pd (- 1) (- 1) (- 1) = length_body pd"
    using assms(2) by (simp add: aper_get_length_def length_body_def aper_get_align_def cong: if_cong)
  then show "uper_get_length pd (- 1) lb = aper_get_length pd (- 1) (- 1) (- 1)"
    using uper_get_length_body [OF assms(1)] by simp
  show "uper_put_length po n = aper_put_length po (- 1) (- 1) n"
    using assms(3) by (simp add: uper_put_length_def aper_put_length_def aper_put_align_def Let_def cong: if_cong)
qed

lemma uper_aper_length_agree_witness:
  "uper_put_length (fresh_writer 4) 300 = aper_put_length (fresh_writer 4) (- 1) (- 1) 300"
  using uper_aper_length_agree [of "\<lparr>pd_buffer = [], pd_nboff = 0, pd_nbits = 0, pd_moved = 0\<rparr>" "fresh_writer 4" 0 300]
  by (simp add: pd_wf_def)

text \<open>The bits that the code writes for a normally small number.\<close>

definition uper_nsnnwn_bits :: "int \<Rightarrow> bool list" where
  "uper_nsnnwn_bits x =
    (if x \<le> 63 then val_bits 7 x else val_bits 8 (int (octet_count x)) @ val_bits (8 * octet_count x) x)"

lemma puts_uper_nsnnwn:
  assumes "po_wf po" and "po_output po = encode_to_buffer_cb" and x: "0 \<le> x" "x < 2 ^ 24"
  shows "puts buffer_view po (uper_nsnnwn_bits x) (uper_put_nsnnwn po x)"
proof (cases "x \<le> 63")
  case True
  then show ?thesis
    using buffer.puts_word [OF assms(1,2), of 7 x] x by (simp add: uper_put_nsnnwn_def uper_nsnnwn_bits_def)
next
  case False
  let ?c = "octet_count x"
  have c: "?c \<le> 3" using octet_count_le [of x 3] x by simp
  let ?rest = "\<lambda>(r, po). if r \<noteq> 0 then Some (- 1, po) else asn_put_few_bits po (word_of_int x) (8 * int ?c)"
  have "puts buffer_view po (val_bits 8 (int ?c)) (asn_put_few_bits po (word_of_int (int ?c)) 8)"
    using buffer.puts_word [OF assms(1,2), of 8 "int ?c"] by simp
  moreover have "puts buffer_view po1 (val_bits (8 * ?c) x) (asn_put_few_bits po1 (word_of_int x) (8 * int ?c))"
    if "emits buffer_view po (val_bits 8 (int ?c)) po1" for po1
    using buffer.puts_word [of po1 "8 * ?c" x] that assms(2) c by (auto simp: emits_def)
  ultimately have "puts buffer_view po (uper_nsnnwn_bits x)
      (Option.bind (asn_put_few_bits po (word_of_int (int ?c)) 8) ?rest)"
    using False by (simp add: uper_nsnnwn_bits_def puts_then)
  moreover have "uper_put_nsnnwn po x = Option.bind (asn_put_few_bits po (word_of_int (int ?c)) 8) ?rest"
  proof -
    consider "x < 256" | "256 \<le> x" "x < 65536" | "65536 \<le> x" by linarith
    then show ?thesis
    proof cases
      case 1
      then have "?c = 1" using False by (intro digits_unique) auto
      then show ?thesis using 1 False by (simp add: uper_put_nsnnwn_def cong: if_cong)
    next
      case 2
      then have "?c = 2" by (intro digits_unique) auto
      then show ?thesis using 2 by (simp add: uper_put_nsnnwn_def cong: if_cong)
    next
      case 3
      then have "?c = 3" using x by (intro digits_unique) auto
      then show ?thesis using 3 x by (simp add: uper_put_nsnnwn_def cong: if_cong)
    qed
  qed
  ultimately show ?thesis by simp
qed

lemma gets_uper_nsnnwn_first:
  assumes "pd_at pd (val_bits 7 v)" and "0 \<le> v" and "v < 64"
  shows "gets pd (val_bits 7 v) v (uper_get_nsnnwn pd)"
proof -
  have "v AND 64 = 0" using octet_and_64 [of v] assms(2,3) by simp
  then show ?thesis
    using gets_few [of pd 7 v] assms by (auto simp: gets_def uper_get_nsnnwn_def)
qed

text \<open>
  C30. A normally small number up to 63, written to a buffer with enough room, is read back as
  written. A larger one below \<open>2 ^ 24\<close> is
  written as an octet count and octets without the bit that announces this form: the writer reports
  success, and the reader takes the first seven bits of the count for the number and returns 0 or 1.
\<close>
theorem uper_nsnnwn_only_small_numbers:
  assumes "po_wf po" and "po_output po = encode_to_buffer_cb" and "0 \<le> x" and "x < 2 ^ 24"
    and "\<not> overflows buffer_view po (uper_nsnnwn_bits x)"
  shows "(\<exists>po'. uper_put_nsnnwn po x = Some (0, po') \<and> emits buffer_view po (uper_nsnnwn_bits x) po') \<and>
    (\<forall>pd. pd_at pd (uper_nsnnwn_bits x) \<longrightarrow>
      (\<exists>v. gets pd (take 7 (uper_nsnnwn_bits x)) v (uper_get_nsnnwn pd) \<and>
        (if x \<le> 63 then v = x else v \<in> {0, 1})))"
proof (cases "x \<le> 63")
  case True
  then show ?thesis
    using puts_uper_nsnnwn [OF assms(1-4)] assms(3,5) gets_uper_nsnnwn_first [of _ x]
    by (auto simp: puts_def uper_nsnnwn_bits_def)
next
  case False
  let ?h = "drop_bit 1 (int (octet_count x))"
  have "octet_count x \<le> 3" using octet_count_le [of x 3] assms(3,4) by simp
  then have h: "0 \<le> ?h" "?h \<le> 1" by (auto simp: drop_bit_eq_div)
  have bits: "uper_nsnnwn_bits x =
      val_bits 7 ?h @ val_bits 1 (int (octet_count x)) @ val_bits (8 * octet_count x) x"
    using False val_bits_split [of 7 1 "int (octet_count x)"] by (simp add: uper_nsnnwn_bits_def)
  have "gets pd (val_bits 7 ?h) ?h (uper_get_nsnnwn pd)" if "pd_at pd (uper_nsnnwn_bits x)" for pd
    using gets_uper_nsnnwn_first [OF pd_at_prefix [OF that [unfolded bits]]] h by simp
  moreover have "take 7 (uper_nsnnwn_bits x) = val_bits 7 ?h" by (simp add: bits)
  moreover have "?h \<in> {0, 1}" using h by (simp only: insert_iff empty_iff) linarith
  ultimately have "\<forall>pd. pd_at pd (uper_nsnnwn_bits x) \<longrightarrow>
      (\<exists>v. gets pd (take 7 (uper_nsnnwn_bits x)) v (uper_get_nsnnwn pd) \<and> v \<in> {0, 1})"
    by (metis (no_types))
  then show ?thesis using False puts_uper_nsnnwn [OF assms(1-4)] assms(5) by (auto simp: puts_def)
qed

lemma uper_nsnnwn_only_small_numbers_witness:
  "\<exists>po'. uper_put_nsnnwn (fresh_writer 2) 200 = Some (0, po') \<and>
    emits buffer_view (fresh_writer 2) (val_bits 8 1 @ val_bits 8 200) po'"
proof -
  have "octet_count 200 = 1" by (rule digits_unique) auto
  then show ?thesis
    using uper_nsnnwn_only_small_numbers [of "fresh_writer 2" 200] by (auto simp: uper_nsnnwn_bits_def)
qed

end
