(* ===== verification/Ber_Tlv.thy ===== *)
theory Ber_Tlv
  imports Prelude
begin

unbundle bit_operations_syntax

text \<open>
  Tags and lengths of the basic encoding rules (\<open>ber_tlv_tag.c\<close>, \<open>ber_tlv_length.c\<close>).

  A parsing function gets the object its pointer points into, from the pointer on, and the number
  \<open>sz\<close> of octets it may look at; an access outside the object has no result. Its return value
  is one of the source's three kinds: \<open>0\<close> (more data expected), \<open>-1\<close> (fatal) and the number of
  octets used, together with what it stores through its output parameter. A serialising function
  gets and returns the contents of the caller's buffer. \<open>size_t\<close> counts are natural numbers; the
  lengths \<open>ber_tlv_len_t\<close> are signed 64-bit numbers whose overflow is undefined.
\<close>

datatype 'a fetched = More | Fatal | Used nat 'a

section \<open>Tags\<close>

definition BER_TAG_CLASS :: "u32 \<Rightarrow> u32" where "BER_TAG_CLASS tag = tag AND 3"
definition BER_TAG_VALUE :: "u32 \<Rightarrow> u32" where "BER_TAG_VALUE tag = drop_bit 2 tag"
definition BER_TLV_CONSTRUCTED :: "u8 \<Rightarrow> bool" where "BER_TLV_CONSTRUCTED b \<longleftrightarrow> b AND 0x20 \<noteq> 0"

function fetch_tag_loop :: "u8 list \<Rightarrow> nat \<Rightarrow> u32 \<Rightarrow> u32 \<Rightarrow> nat \<Rightarrow> u32 fetched option" where
  "fetch_tag_loop ptr sz tclass val skipped =
    (if skipped \<le> sz then
       Option.bind (nth_opt ptr (skipped - 1)) (\<lambda>oct.
         if oct AND 0x80 \<noteq> 0 then
           let val = push_bit 7 val OR ucast (oct AND 0x7F) in
           if drop_bit (8 * 4 - 9) val \<noteq> 0 then Some Fatal
           else fetch_tag_loop ptr sz tclass val (skipped + 1)
         else
           let val = push_bit 7 val OR ucast oct in
           Some (Used skipped (push_bit 2 val OR tclass)))
     else Some More)"
  by pat_completeness auto
termination by (relation "measure (\<lambda>(_, sz, _, _, skipped). sz + 1 - skipped)") auto

declare fetch_tag_loop.simps [simp del]

definition ber_fetch_tag :: "u8 list \<Rightarrow> nat \<Rightarrow> u32 fetched option" where
  "ber_fetch_tag ptr sz =
    (if sz = 0 then Some More
     else Option.bind (nth_opt ptr 0) (\<lambda>oct.
       let val = ucast oct :: u32; tclass = drop_bit 6 val; val = val AND 0x1F in
       if val \<noteq> 0x1F then Some (Used 1 (push_bit 2 val OR tclass))
       else fetch_tag_loop ptr sz tclass 0 2))"

text \<open>The text of a tag; \<open>snprintf\<close> returns its length and stores what fits, with a NUL.\<close>

fun decimal :: "nat \<Rightarrow> string" where
  "decimal n = (if n < 10 then [char_of (48 + n)] else decimal (n div 10) @ [char_of (48 + n mod 10)])"

declare decimal.simps [simp del]

definition ber_tlv_tag_text :: "u32 \<Rightarrow> string" where
  "ber_tlv_tag_text tag =
    ''['' @ (if tag AND 3 = 0 then ''UNIVERSAL '' else if tag AND 3 = 1 then ''APPLICATION ''
            else if tag AND 3 = 2 then '''' else ''PRIVATE '') @ decimal (unat (drop_bit 2 tag)) @ '']''"

definition ber_tlv_tag_snprint :: "u32 \<Rightarrow> nat \<Rightarrow> int \<times> string" where
  "ber_tlv_tag_snprint tag sz =
    (let type = ber_tlv_tag_text tag in
     (int (length type), if sz = 0 then [] else take (sz - 1) type @ [CHR 0x00]))"

text \<open>The file receives the text; the buffer has the size of \<open>[APPLICATION ]\<close>, its NUL and 32.\<close>

definition ber_tlv_tag_fwrite :: "u32 \<Rightarrow> string \<Rightarrow> int \<times> string" where
  "ber_tlv_tag_fwrite tag file =
    (let (ret, buf) = ber_tlv_tag_snprint tag 46 in
     if 46 \<le> ret \<or> ret < 2 then (- 1, file) else (ret, file @ take (nat ret) buf))"

text \<open>How many groups of seven bits the value takes, and the shift after the last one.\<close>

function tag_groups :: "u32 \<Rightarrow> nat \<Rightarrow> nat \<Rightarrow> nat \<times> nat" where
  "tag_groups tval required_size i =
    (if i < 32 then
       if drop_bit i tval \<noteq> 0 then tag_groups tval (required_size + 1) (i + 7) else (required_size, i)
     else (required_size, i))"
  by pat_completeness auto
termination by (relation "measure (\<lambda>(_, _, i). 32 - i)") auto

declare tag_groups.simps [simp del]

text \<open>Filling \<open>n\<close> octets with the high bit set; the last shift count is never used.\<close>

fun fill_groups :: "u8 list \<Rightarrow> nat \<Rightarrow> u32 \<Rightarrow> nat \<Rightarrow> nat \<Rightarrow> u8 list option" where
  "fill_groups buf off tval i 0 = Some buf" |
  "fill_groups buf off tval i (Suc n) =
    Option.bind (upd_opt buf off (0x80 OR (ucast (drop_bit i tval) AND 0x7F))) (\<lambda>buf.
      fill_groups buf (off + 1) tval (i - 7) n)"

definition ber_tlv_tag_serialize :: "u32 \<Rightarrow> u8 list \<Rightarrow> nat \<Rightarrow> (nat \<times> u8 list) option" where
  "ber_tlv_tag_serialize tag buf sz =
    (let tclass = BER_TAG_CLASS tag; tval = BER_TAG_VALUE tag in
     if tval \<le> 30 then
       if sz \<noteq> 0 then
         Option.bind (upd_opt buf 0 (ucast (push_bit 6 tclass OR tval))) (\<lambda>buf. Some (1, buf))
       else Some (1, buf)
     else Option.bind
       (if sz \<noteq> 0 then
          Option.bind (upd_opt buf 0 (ucast (push_bit 6 tclass OR 0x1F))) (\<lambda>buf. Some (buf, 1, sz - 1))
        else Some (buf, 0, sz)) (\<lambda>(buf, off, sz).
       let (required_size, i) = tag_groups tval 1 7 in
       if sz < required_size then Some (required_size + 1, buf)
       else Option.bind (fill_groups buf off tval (i - 7) (required_size - 1)) (\<lambda>buf.
         Option.bind (upd_opt buf (off + (required_size - 1)) (ucast tval AND 0x7F)) (\<lambda>buf.
           Some (required_size + 1, buf)))))"

section \<open>Lengths\<close>

text \<open>\<open>RSIZE_MAX\<close> is half of \<open>SIZE_MAX\<close> and \<open>RSSIZE_MAX\<close> half of that.\<close>

definition RSSIZE_MAX :: int where "RSSIZE_MAX = 2 ^ 62 - 1"

fun fetch_length_loop :: "u8 list \<Rightarrow> nat \<Rightarrow> nat \<Rightarrow> int \<Rightarrow> nat \<Rightarrow> int fetched option" where
  "fetch_length_loop ptr sz 0 len skipped =
    (if len < 0 \<or> RSSIZE_MAX < len then Some Fatal else Some (Used skipped len))" |
  "fetch_length_loop ptr sz (Suc oct) len skipped =
    (if skipped + 1 \<le> sz then
       if drop_bit (8 * 8 - (8 + 1)) len = 0 then
         Option.bind (nth_opt ptr skipped) (\<lambda>b.
           fetch_length_loop ptr sz oct (push_bit 8 len OR uint b) (skipped + 1))
       else Some Fatal
     else Some More)"

text \<open>The length is \<open>-1\<close> where it is indefinite.\<close>

definition ber_fetch_length :: "bool \<Rightarrow> u8 list \<Rightarrow> nat \<Rightarrow> int fetched option" where
  "ber_fetch_length is_constructed ptr sz =
    (if sz = 0 then Some More
     else Option.bind (nth_opt ptr 0) (\<lambda>oct.
       if oct AND 0x80 = 0 then Some (Used 1 (uint oct))
       else if is_constructed \<and> oct = 0x80 then Some (Used 1 (- 1))
       else if oct = 0xFF then Some Fatal
       else fetch_length_loop ptr sz (unat (oct AND 0x7F)) 0 1))"


text \<open>
  Skipping length and value. The stack check compares addresses of the machine's stack: whether it
  fails at a nesting depth is the parameter \<open>overflow\<close>. The content of an indefinite form is a
  sequence of elements that ends with two zero octets.
\<close>

lemma fetch_length_loop_used: "fetch_length_loop ptr sz oct len skipped = Some (Used n v) \<Longrightarrow> skipped \<le> n"
proof (induction ptr sz oct len skipped rule: fetch_length_loop.induct)
  case (2 ptr sz oct len skipped)
  then show ?case by (fastforce split: if_splits Option.bind_splits)
qed (auto split: if_splits)

lemma ber_fetch_length_used: "ber_fetch_length c ptr sz = Some (Used n v) \<Longrightarrow> 0 < n \<and> 0 < sz \<and> ptr \<noteq> []"
  by (auto simp: ber_fetch_length_def nth_opt_def dest: fetch_length_loop_used
      split: if_splits Option.bind_splits)

lemma fetch_tag_loop_used: "fetch_tag_loop ptr sz tclass val skipped = Some (Used n v) \<Longrightarrow> skipped \<le> n"
proof (induction ptr sz tclass val skipped rule: fetch_tag_loop.induct)
  case (1 ptr sz tclass val skipped)
  then show ?case
    by (fastforce simp: Let_def fetch_tag_loop.simps [of ptr sz tclass val skipped]
        split: if_splits Option.bind_splits)
qed

lemma ber_fetch_tag_used: "ber_fetch_tag ptr sz = Some (Used n v) \<Longrightarrow> 0 < n \<and> 0 < sz \<and> ptr \<noteq> []"
  by (auto simp: ber_fetch_tag_def Let_def nth_opt_def dest: fetch_tag_loop_used
      split: if_splits Option.bind_splits)

function ber_skip_length :: "(nat \<Rightarrow> bool) \<Rightarrow> nat \<Rightarrow> bool \<Rightarrow> u8 list \<Rightarrow> nat \<Rightarrow> unit fetched option"
  and skip_indefinite :: "(nat \<Rightarrow> bool) \<Rightarrow> nat \<Rightarrow> nat \<Rightarrow> u8 list \<Rightarrow> nat \<Rightarrow> unit fetched option" where
  "ber_skip_length overflow depth is_constructed ptr sz =
    (if overflow depth then Some Fatal
     else Option.bind (ber_fetch_length is_constructed ptr sz) (\<lambda>res.
       case res of More \<Rightarrow> Some More | Fatal \<Rightarrow> Some Fatal
       | Used ll vlen \<Rightarrow>
           if 0 \<le> vlen then
             Option.bind (s64 (int ll + vlen)) (\<lambda>skip.
               if int sz < skip then Some More else Some (Used (nat skip) ()))
           else skip_indefinite overflow depth ll (drop ll ptr) (sz - ll)))" |
  "skip_indefinite overflow depth skip ptr sz =
    Option.bind (ber_fetch_tag ptr sz) (\<lambda>res.
      case res of More \<Rightarrow> Some More | Fatal \<Rightarrow> Some Fatal
      | Used tlen tag \<Rightarrow>
          Option.bind (nth_opt ptr 0) (\<lambda>first.
          Option.bind (ber_skip_length overflow (depth + 1) (BER_TLV_CONSTRUCTED first)
              (drop tlen ptr) (sz - tlen)) (\<lambda>res.
            case res of More \<Rightarrow> Some More | Fatal \<Rightarrow> Some Fatal
            | Used ll u \<Rightarrow>
                Option.bind (if first = 0 then Option.bind (nth_opt ptr 1) (\<lambda>second. Some (second = 0))
                             else Some False) (\<lambda>eoc.
                if eoc then Some (Used (skip + (tlen + ll)) ())
                else skip_indefinite overflow depth (skip + (tlen + ll))
                       (drop (tlen + ll) ptr) (sz - (tlen + ll))))))"
  by pat_completeness auto
termination
  by (relation "measure (case_sum (\<lambda>(_, _, _, ptr, _). length ptr) (\<lambda>(_, _, _, ptr, _). length ptr))")
    (auto dest!: ber_fetch_tag_used ber_fetch_length_used)

declare ber_skip_length.simps [simp del] skip_indefinite.simps [simp del]

text \<open>How many octets the length takes, and the shift after the last one.\<close>

function length_octets :: "int \<Rightarrow> nat \<Rightarrow> nat \<Rightarrow> nat \<times> nat" where
  "length_octets len required_size i =
    (if i < 8 * 8 then
       if drop_bit i len \<noteq> 0 then length_octets len (required_size + 1) (i + 8) else (required_size, i)
     else (required_size, i))"
  by pat_completeness auto
termination by (relation "measure (\<lambda>(_, _, i). 64 - i)") auto

declare length_octets.simps [simp del]

fun fill_octets :: "u8 list \<Rightarrow> nat \<Rightarrow> int \<Rightarrow> nat \<Rightarrow> nat \<Rightarrow> u8 list option" where
  "fill_octets buf off len i 0 = Some buf" |
  "fill_octets buf off len i (Suc n) =
    Option.bind (upd_opt buf off (word_of_int (drop_bit i len))) (\<lambda>buf.
      fill_octets buf (off + 1) len (i - 8) n)"

definition der_tlv_length_serialize :: "int \<Rightarrow> u8 list \<Rightarrow> nat \<Rightarrow> (nat \<times> u8 list) option" where
  "der_tlv_length_serialize len buf sz =
    (if len \<le> 127 then
       if sz \<noteq> 0 then Option.bind (upd_opt buf 0 (word_of_int len)) (\<lambda>buf. Some (1, buf))
       else Some (1, buf)
     else
       let (required_size, i) = length_octets len 1 8 in
       if sz \<le> required_size then Some (required_size + 1, buf)
       else Option.bind (upd_opt buf 0 (0x80 OR of_nat required_size)) (\<lambda>buf.
         Option.bind (fill_octets buf 1 len (i - 8) required_size) (\<lambda>buf.
           Some (required_size + 1, buf))))"

end
