(* ===== verification/Ber_Tlv_Laws.thy ===== *)
theory Ber_Tlv_Laws
  imports Ber_Tlv Bit_Lists
begin

unbundle bit_operations_syntax

text \<open>
  The octets of a tag and of a length as X.690 defines them, that the serialisers write exactly
  these and that the parsers read them back; elements of the indefinite form; and that the parsers
  stay inside their input.
\<close>

section \<open>Writing a run of octets\<close>

text \<open>\<open>overlay buf off ds\<close>: the buffer with \<open>ds\<close> stored from \<open>off\<close> on.\<close>

definition overlay :: "'a list \<Rightarrow> nat \<Rightarrow> 'a list \<Rightarrow> 'a list" where
  "overlay buf off ds = take off buf @ ds @ drop (off + length ds) buf"

lemma overlay_Nil [simp]: "overlay buf off [] = buf"
  by (simp add: overlay_def)

lemma length_overlay [simp]: "off + length ds \<le> length buf \<Longrightarrow> length (overlay buf off ds) = length buf"
  by (simp add: overlay_def)

lemma overlay_Cons:
  "off + length ds < length buf \<Longrightarrow> overlay (buf[off := d]) (Suc off) ds = overlay buf off (d # ds)"
  by (simp add: overlay_def take_Suc_conv_app_nth upd_conv_take_nth_drop add.commute)

lemma overlay_snoc:
  "off + length ds < length buf \<Longrightarrow> (overlay buf off ds)[off + length ds := d] = overlay buf off (ds @ [d])"
proof -
  assume n: "off + length ds < length buf"
  then have "drop (off + length ds) buf = buf ! (off + length ds) # drop (Suc (off + length ds)) buf"
    by (simp add: Cons_nth_drop_Suc)
  with n show ?thesis by (simp add: overlay_def list_update_append)
qed

section \<open>Tags\<close>

text \<open>\<open>k + 1\<close> groups of seven bits, the high bit set in all but the last.\<close>

fun septets :: "nat \<Rightarrow> u32 \<Rightarrow> u8 list" where
  "septets 0 v = [ucast v AND 0x7F]" |
  "septets (Suc k) v = (0x80 OR (ucast (drop_bit (7 * Suc k) v) AND 0x7F)) # septets k v"

lemma length_septets [simp]: "length (septets k v) = Suc k"
  by (induction k) simp_all

lemma septets_not_Nil [simp]: "septets k v \<noteq> []"
  by (cases k) simp_all

definition tag_extra :: "u32 \<Rightarrow> nat" where
  "tag_extra v = (if v < 2 ^ 7 then 0 else if v < 2 ^ 14 then 1 else if v < 2 ^ 21 then 2
     else if v < 2 ^ 28 then 3 else 4)"

definition tag_bytes :: "u32 \<Rightarrow> u8 list" where
  "tag_bytes tag = (let v = drop_bit 2 tag; c = tag AND 3 in
    if v \<le> 30 then [ucast (push_bit 6 c OR v)]
    else ucast (push_bit 6 c OR 0x1F) # septets (tag_extra v) v)"

lemma drop_bit_zero_iff:
  assumes "n < 32"
  shows "drop_bit n (v :: u32) = 0 \<longleftrightarrow> v < 2 ^ n"
proof -
  have "drop_bit n v = 0 \<longleftrightarrow> unat (drop_bit n v) = 0" by (simp add: unat_eq_0)
  also have "\<dots> \<longleftrightarrow> unat v < 2 ^ n"
    unfolding unat_drop_bit_eq by (simp add: drop_bit_eq_div div_eq_0_iff)
  also have "\<dots> \<longleftrightarrow> int (unat v) < 2 ^ n" by (simp flip: of_nat_less_iff [where 'a = int])
  also have "\<dots> \<longleftrightarrow> v < 2 ^ n" using assms word_2p_lem [of n v] by (simp add: word_size)
  finally show ?thesis .
qed

lemma tag_groups_step:
  "i < 32 \<Longrightarrow> tag_groups v r i = (if v < 2 ^ i then (r, i) else tag_groups v (Suc r) (i + 7))"
  by (subst tag_groups.simps) (simp add: drop_bit_zero_iff)

lemma tag_groups_stop: "tag_groups v r 35 = (r, 35)"
  by (subst tag_groups.simps) simp

lemma tag_groups_extra: "tag_groups v 1 7 = (Suc (tag_extra v), 7 * Suc (tag_extra v))"
  unfolding tag_extra_def
  by (simp add: tag_groups_step tag_groups_stop cong: if_cong)

lemmas tag_groups_count = tag_groups_extra tag_groups_extra [unfolded One_nat_def]

lemma fill_groups_overlay:
  "off + k \<le> length buf \<Longrightarrow>
    fill_groups buf off v (7 * k) k = Some (overlay buf off (butlast (septets k v)))"
proof (induction k arbitrary: buf off)
  case (Suc k)
  then show ?case by (simp add: overlay_Cons)
qed simp

lemma septets_last: "septets k v = butlast (septets k v) @ [ucast v AND 0x7F]"
  by (induction k) simp_all


text \<open>The serialiser writes the octets of the tag when they fit, and always returns their number.\<close>

lemma tag_bytes_length: "length (tag_bytes tag) = (if drop_bit 2 tag \<le> 30 then 1 else tag_extra (drop_bit 2 tag) + 2)"
  by (simp add: tag_bytes_def Let_def)

lemma ber_tlv_tag_serialize_ok:
  assumes "length (tag_bytes tag) \<le> sz" and "sz \<le> length buf"
  shows "ber_tlv_tag_serialize tag buf sz = Some (length (tag_bytes tag), overlay buf 0 (tag_bytes tag))"
proof (cases "drop_bit 2 tag \<le> 30")
  case True
  then show ?thesis
    using assms by (cases buf) (simp_all add: ber_tlv_tag_serialize_def BER_TAG_CLASS_def BER_TAG_VALUE_def Let_def
      tag_bytes_def overlay_def)
next
  case False
  let ?v = "drop_bit 2 tag"
  let ?k = "tag_extra ?v"
  let ?b = "ucast (push_bit 6 (tag AND 3) OR 0x1F) :: u8"
  have len: "?k + 2 \<le> length buf" "\<not> sz - 1 < ?k + 1" "sz \<noteq> 0" "buf \<noteq> []" using assms False by (auto simp: tag_bytes_length)
  have "fill_groups (buf[0 := ?b]) 1 ?v (7 * ?k) ?k = Some (overlay (buf[0 := ?b]) 1 (butlast (septets ?k ?v)))"
    using len by (intro fill_groups_overlay) simp
  moreover have "(overlay (buf[0 := ?b]) 1 (butlast (septets ?k ?v)))[1 + ?k := ucast ?v AND 0x7F] =
      overlay (buf[0 := ?b]) 1 (septets ?k ?v)"
    using overlay_snoc [of 1 "butlast (septets ?k ?v)" "buf[0 := ?b]" "ucast ?v AND 0x7F"] len
      septets_last [of ?k ?v] by simp
  moreover have "overlay (buf[0 := ?b]) 1 (septets ?k ?v) = overlay buf 0 (tag_bytes tag)"
    using overlay_Cons [of 0 "septets ?k ?v" buf ?b] len False by (simp add: tag_bytes_def Let_def)
  ultimately show ?thesis
    using False len
    by (simp add: ber_tlv_tag_serialize_def BER_TAG_CLASS_def BER_TAG_VALUE_def Let_def tag_groups_count tag_bytes_length)
qed

lemma ber_tlv_tag_serialize_short:
  assumes "sz < length (tag_bytes tag)" and "sz \<le> length buf"
  shows "\<exists>buf'. ber_tlv_tag_serialize tag buf sz = Some (length (tag_bytes tag), buf') \<and> drop sz buf' = drop sz buf"
proof -
  consider "drop_bit 2 tag \<le> 30" "sz = 0" | "\<not> drop_bit 2 tag \<le> 30" "sz = 0"
    | "\<not> drop_bit 2 tag \<le> 30" "sz \<noteq> 0" "buf \<noteq> []" "sz - 1 < tag_extra (drop_bit 2 tag) + 1"
    using assms by (cases "drop_bit 2 tag \<le> 30"; cases "sz = 0"; cases "buf = []") (auto simp: tag_bytes_length)
  then show ?thesis
    by cases (simp_all add: ber_tlv_tag_serialize_def BER_TAG_CLASS_def BER_TAG_VALUE_def Let_def tag_groups_count
      tag_bytes_length)
qed

text \<open>A tag's first octet with the bit of the constructed form added.\<close>

fun constructed :: "bool \<Rightarrow> u8 list \<Rightarrow> u8 list" where
  "constructed c [] = []" |
  "constructed c (b # bs) = (if c then b OR 0x20 else b) # bs"

lemma octet_group:
  fixes x :: u8
  shows "(0x80 OR (x AND 0x7F)) AND 0x80 \<noteq> 0" and "(0x80 OR (x AND 0x7F)) AND 0x7F = x AND 0x7F"
    and "(x AND 0x7F) AND 0x80 = 0" and "(x AND 0x7F) AND 0x7F = x AND 0x7F"
  by (simp_all add: and.assoc bit.conj_disj_distrib2)

lemma drop_Cons_nth_opt: "drop n xs = d # rest \<Longrightarrow> nth_opt xs n = Some d \<and> drop (Suc n) xs = rest"
proof -
  assume d: "drop n xs = d # rest"
  then have n: "n < length xs" by (cases "n < length xs") auto
  with d show ?thesis by (simp add: Cons_nth_drop_Suc [OF n, symmetric])
qed

lemma group_join: "push_bit 7 (drop_bit (7 + m) v) OR ucast ((ucast (drop_bit m v) :: u8) AND 0x7F) = drop_bit m (v :: u32)"
proof (rule bit_word_eqI)
  fix n assume "n < LENGTH(32)"
  have m: "(0x7F :: u8) = mask 7" by (simp add: mask_eq_exp_minus_1)
  show "bit (push_bit 7 (drop_bit (7 + m) v) OR ucast ((ucast (drop_bit m v) :: u8) AND 0x7F)) n =
      bit (drop_bit m v) n"
    unfolding m using \<open>n < LENGTH(32)\<close>
    by (cases "n < 7") (auto simp: bit_or_iff bit_push_bit_iff bit_drop_bit_eq bit_ucast_iff bit_and_iff bit_mask_iff)
qed

lemma fetch_tag_septets:
  "v < 2 ^ 30 \<Longrightarrow> k \<le> 4 \<Longrightarrow> 1 \<le> s \<Longrightarrow> drop (s - 1) ptr = septets k v @ rest \<Longrightarrow> s + k \<le> sz \<Longrightarrow>
    fetch_tag_loop ptr sz c (drop_bit (7 * Suc k) v) s = Some (Used (s + k) (push_bit 2 v OR c))"
proof (induction k arbitrary: s)
  case 0
  then have "nth_opt ptr (s - 1) = Some (ucast v AND 0x7F)" using drop_Cons_nth_opt [of "s - 1" ptr] by simp
  then show ?case
    using 0 group_join [of 0 v] by (subst fetch_tag_loop.simps) (simp add: octet_group Let_def)
next
  case (Suc k)
  let ?x = "ucast (drop_bit (7 * Suc k) v) :: u8"
  have "drop (s - 1) ptr = (0x80 OR (?x AND 0x7F)) # septets k v @ rest" using Suc.prems(4) by simp
  then have oct: "nth_opt ptr (s - 1) = Some (0x80 OR (?x AND 0x7F))" and tail: "drop s ptr = septets k v @ rest"
    using drop_Cons_nth_opt [of "s - 1" ptr] Suc.prems(3) by auto
  have join: "push_bit 7 (drop_bit (7 * Suc (Suc k)) v) OR ucast (?x AND 0x7F) = drop_bit (7 * Suc k) v"
    using group_join [of "7 * Suc k" v] by simp
  have "drop_bit (23 + 7 * Suc k) v = drop_bit (7 * k) (drop_bit 30 v)" by (simp add: add.commute)
  also have "drop_bit 30 v = 0" using Suc.prems(1) drop_bit_zero_iff [of 30 v] by simp
  finally have small: "drop_bit (23 + 7 * Suc k) v = 0" by simp
  have "fetch_tag_loop ptr sz c (drop_bit (7 * Suc k) v) (s + 1) = Some (Used (s + 1 + k) (push_bit 2 v OR c))"
    using Suc.prems tail by (intro Suc.IH) auto
  then show ?case
    using Suc.prems(5) by (subst fetch_tag_loop.simps) (simp add: oct [unfolded One_nat_def] octet_group join small Let_def mult_Suc_right [of 8]
      del: mult_Suc_right)
qed


text \<open>The simplifier turns a bit of a word numeral into a bit of an integer numeral.\<close>

lemma octet_masks:
  "bit (3 :: int) n \<longleftrightarrow> n < 2" "bit (31 :: int) n \<longleftrightarrow> n < 5" "bit (32 :: int) n \<longleftrightarrow> n = 5"
  "bit (192 :: int) n \<longleftrightarrow> n = 6 \<or> n = 7"
proof -
  have "(3 :: int) = mask 2" "(31 :: int) = mask 5" "(32 :: int) = push_bit 5 1" "(192 :: int) = push_bit 6 (mask 2)"
    by (simp_all add: mask_eq_exp_minus_1 push_bit_eq_mult)
  then show "bit (3 :: int) n \<longleftrightarrow> n < 2" "bit (31 :: int) n \<longleftrightarrow> n < 5" "bit (32 :: int) n \<longleftrightarrow> n = 5"
      "bit (192 :: int) n \<longleftrightarrow> n = 6 \<or> n = 7"
    by (auto simp only: bit_mask_iff bit_push_bit_iff bit_1_iff) auto
qed

lemma first_octet:
  fixes v t :: u32
  assumes "v < 2 ^ 5"
  defines "x \<equiv> ucast (push_bit 6 (t AND 3) OR v) :: u8"
  shows "drop_bit 6 (ucast (if c then x OR 0x20 else x) :: u32) = t AND 3"
    and "ucast (if c then x OR 0x20 else x) AND 0x1F = v"
proof -
  have low: "bit v n \<Longrightarrow> n < 5" for n
  proof (rule ccontr)
    assume b: "bit v n" "\<not> n < 5"
    then have "bit (drop_bit 5 v) (n - 5)" by (simp add: bit_drop_bit_eq)
    moreover have "drop_bit 5 v = 0" using assms(1) drop_bit_zero_iff [of 5 v] by simp
    ultimately show False by simp
  qed
  show "drop_bit 6 (ucast (if c then x OR 0x20 else x) :: u32) = t AND 3"
    unfolding x_def
    by (rule bit_word_eqI) (auto simp: bit_simps octet_masks dest: low)
  show "ucast (if c then x OR 0x20 else x) AND 0x1F = v"
    unfolding x_def
    by (rule bit_word_eqI) (auto simp: bit_simps octet_masks dest: low)
qed

lemma tag_split: "push_bit 2 (drop_bit 2 tag) OR (tag AND 3) = (tag :: u32)"
proof (rule bit_word_eqI)
  fix n assume "n < LENGTH(32)"
  then show "bit (push_bit 2 (drop_bit 2 tag) OR (tag AND 3)) n = bit tag n"
    by (cases "n < 2") (auto simp: bit_or_iff bit_push_bit_iff bit_drop_bit_eq bit_and_iff octet_masks
      simp flip: add_2_eq_Suc)
qed

lemma ber_fetch_tag_first:
  assumes "drop_bit 6 (ucast b) = c" and "ucast b AND 0x1F = v" and "0 < sz"
  shows "ber_fetch_tag (b # bs) sz =
    (if v \<noteq> 0x1F then Some (Used 1 (push_bit 2 v OR c)) else fetch_tag_loop (b # bs) sz c 0 2)"
  using assms by (simp add: ber_fetch_tag_def Let_def)

lemma tag_extra_bound:
  assumes "v < 2 ^ 30"
  shows "tag_extra v \<le> 4" and "drop_bit (7 * Suc (tag_extra v)) v = 0"
proof -
  show "tag_extra v \<le> 4" by (simp add: tag_extra_def)
  have "drop_bit 35 v = 0" by (rule bit_word_eqI) (auto simp: bit_simps dest: bit_imp_le_length)
  then show "drop_bit (7 * Suc (tag_extra v)) v = 0"
    using drop_bit_zero_iff [of 7 v] drop_bit_zero_iff [of 14 v] drop_bit_zero_iff [of 21 v]
      drop_bit_zero_iff [of 28 v]
    by (simp add: tag_extra_def)
qed

lemma ber_fetch_tag_ok:
  assumes "length (tag_bytes tag) \<le> sz"
  shows "ber_fetch_tag (constructed c (tag_bytes tag) @ rest) sz = Some (Used (length (tag_bytes tag)) tag)"
proof (cases "drop_bit 2 tag \<le> 30")
  case True
  then have v: "drop_bit 2 tag < 2 ^ 5" "drop_bit 2 tag \<noteq> 31" by (auto simp: word_le_nat_alt word_less_nat_alt)
  let ?x = "ucast (push_bit 6 (tag AND 3) OR drop_bit 2 tag) :: u8"
  note first = first_octet [OF v(1), where t = tag and c = c]
  have "constructed c (tag_bytes tag) @ rest = (if c then ?x OR 0x20 else ?x) # rest"
    using True by (simp add: tag_bytes_def Let_def)
  moreover have "length (tag_bytes tag) = 1" using True by (simp add: tag_bytes_length)
  ultimately show ?thesis
    using assms ber_fetch_tag_first [OF first, of sz rest] v(2) tag_split [of tag] by simp
next
  case False
  let ?v = "drop_bit 2 tag"
  let ?k = "tag_extra ?v"
  let ?x = "ucast (push_bit 6 (tag AND 3) OR 0x1F) :: u8"
  let ?ptr = "(if c then ?x OR 0x20 else ?x) # septets ?k ?v @ rest"
  have "drop_bit 30 ?v = 0" by (rule bit_word_eqI) (auto simp: bit_simps dest: bit_imp_le_length)
  then have v30: "?v < 2 ^ 30" using drop_bit_zero_iff [of 30 ?v] by simp
  note k = tag_extra_bound [OF v30]
  have ptr: "constructed c (tag_bytes tag) @ rest = ?ptr" using False by (simp add: tag_bytes_def Let_def)
  have len: "length (tag_bytes tag) = 2 + ?k" using False by (simp add: tag_bytes_length)
  have "fetch_tag_loop ?ptr sz (tag AND 3) (drop_bit (7 * Suc ?k) ?v) 2 =
      Some (Used (2 + ?k) (push_bit 2 ?v OR (tag AND 3)))"
    using assms v30 k(1) len by (intro fetch_tag_septets) auto
  then have loop: "fetch_tag_loop ?ptr sz (tag AND 3) 0 2 = Some (Used (2 + ?k) tag)"
    unfolding k(2) tag_split .
  have "(31 :: u32) < 2 ^ 5" by simp
  note first = first_octet [OF this, where t = tag and c = c]
  show ?thesis
    unfolding ptr len using assms ber_fetch_tag_first [OF first, of sz "septets ?k ?v @ rest"] loop len by simp
qed


lemma constructed_bit:
  assumes "constructed c (tag_bytes tag) = b # bs"
  shows "BER_TLV_CONSTRUCTED b = c"
proof -
  have "BER_TLV_CONSTRUCTED x \<longleftrightarrow> bit x 5" for x :: u8
    using and_exp_eq_0_iff_not_bit [of x 5] by (simp add: BER_TLV_CONSTRUCTED_def)
  moreover have "\<not> bit v 5" if "v \<le> 31" for v :: u32
  proof -
    have "drop_bit 5 v = 0" using that drop_bit_zero_iff [of 5 v] by (simp add: word_le_nat_alt word_less_nat_alt)
    then have "\<not> bit (drop_bit 5 v) 0" by simp
    then show ?thesis by (simp add: bit_drop_bit_eq)
  qed
  then have "\<not> bit (ucast (push_bit 6 (tag AND 3) OR v) :: u8) 5" if "v \<le> 31" for v :: u32
    using that by (simp add: bit_ucast_iff bit_or_iff bit_and_iff bit_push_bit_iff octet_masks)
  moreover have "bit ((x :: u8) OR 0x20) 5" for x by (simp add: bit_or_iff octet_masks)
  moreover have "b = (if c then hd (tag_bytes tag) OR 0x20 else hd (tag_bytes tag))"
    using assms by (cases "tag_bytes tag") auto
  moreover have "\<exists>v. v \<le> 31 \<and> hd (tag_bytes tag) = ucast (push_bit 6 (tag AND 3) OR v)"
  proof (cases "drop_bit 2 tag \<le> 30")
    case True
    then show ?thesis
      by (intro exI [of _ "drop_bit 2 tag"]) (simp add: tag_bytes_def Let_def word_le_nat_alt)
  qed (auto simp: tag_bytes_def Let_def intro: exI [of _ 31])
  ultimately show ?thesis by auto
qed

section \<open>Lengths\<close>

definition der_length :: "int \<Rightarrow> u8 list" where
  "der_length n =
    (if n \<le> 127 then [word_of_int n] else (0x80 OR of_nat (octet_count n)) # be_octets (octet_count n) n)"

lemma length_octets_count:
  "i = 8 * r \<Longrightarrow> 1 \<le> r \<Longrightarrow> r \<le> 8 \<Longrightarrow> 0 \<le> len \<Longrightarrow> len < 2 ^ 64 \<Longrightarrow> r = 1 \<or> 2 ^ (8 * (r - 1)) \<le> len \<Longrightarrow>
    length_octets len r i = (octet_count len, 8 * octet_count len)"
proof (induction len r i rule: length_octets.induct)
  case (1 len r i)
  show ?case
  proof (cases "i < 64 \<and> drop_bit i len \<noteq> 0")
    case True
    have "2 ^ (8 * r) \<le> len"
    proof (rule ccontr)
      assume "\<not> 2 ^ (8 * r) \<le> len"
      then have "drop_bit i len = 0" using 1 by (simp add: drop_bit_eq_div)
      with True show False by simp
    qed
    moreover have "r + 1 \<le> 8" using 1(2,4) True by simp
    ultimately have "length_octets len (r + 1) (i + 8) = (octet_count len, 8 * octet_count len)"
      using True 1(2,3,5,6) by (intro 1(1)) (simp_all add: not_le)
    then show ?thesis using True by (subst length_octets.simps) simp
  next
    case False
    have "len < 2 ^ (8 * r)"
    proof (cases "i < 64")
      case True
      then have "len = take_bit (8 * r) len" using False bits_ident [of i len] 1(2) by simp
      then show ?thesis by (metis take_bit_int_less_exp)
    next
      case ge: False
      then have "r = 8" using 1 by simp
      then show ?thesis using 1 by simp
    qed
    then have "octet_count len = r" using 1 by (intro digits_unique) auto
    then show ?thesis using False 1 by (subst length_octets.simps) auto
  qed
qed

lemma fill_octets_overlay:
  "off + k \<le> length buf \<Longrightarrow> fill_octets buf off v (8 * k - 8) k = Some (overlay buf off (be_octets k v))"
proof (induction k arbitrary: buf off)
  case (Suc k)
  then show ?case by (simp add: overlay_Cons)
qed simp


lemma der_length_length: "length (der_length n) = (if n \<le> 127 then 1 else octet_count n + 1)"
  by (simp add: der_length_def)

lemma der_tlv_length_serialize_ok:
  assumes "0 \<le> n" and "n < 2 ^ 63" and "length (der_length n) \<le> sz" and "sz \<le> length buf"
  shows "der_tlv_length_serialize n buf sz = Some (length (der_length n), overlay buf 0 (der_length n))"
proof (cases "n \<le> 127")
  case True
  then show ?thesis using assms by (cases buf) (simp_all add: der_tlv_length_serialize_def der_length_def overlay_def)
next
  case False
  let ?k = "octet_count n"
  let ?b = "0x80 OR of_nat ?k :: u8"
  have loop: "length_octets n 1 8 = (?k, 8 * ?k)"
    using assms(1,2) by (intro length_octets_count) auto
  have len: "?k + 1 \<le> length buf" "?k < sz" "buf \<noteq> []" using assms False by (auto simp: der_length_length)
  have "fill_octets (buf[0 := ?b]) 1 n (8 * ?k - 8) ?k = Some (overlay (buf[0 := ?b]) 1 (be_octets ?k n))"
    using len by (intro fill_octets_overlay) simp
  moreover have "overlay (buf[0 := ?b]) 1 (be_octets ?k n) = overlay buf 0 (der_length n)"
    using overlay_Cons [of 0 "be_octets ?k n" buf ?b] len False by (simp add: der_length_def)
  ultimately show ?thesis
    using False len loop by (simp add: der_tlv_length_serialize_def der_length_length)
qed

lemma der_tlv_length_serialize_short:
  assumes "0 \<le> n" and "n < 2 ^ 63" and "sz < length (der_length n)" and "sz \<le> length buf"
  shows "der_tlv_length_serialize n buf sz = Some (length (der_length n), buf)"
proof -
  have "length_octets n 1 8 = (octet_count n, 8 * octet_count n)"
    using assms(1,2) by (intro length_octets_count) auto
  then show ?thesis using assms by (auto simp: der_tlv_length_serialize_def der_length_length split: if_splits)
qed

lemma fetch_length_octets:
  "0 \<le> v \<Longrightarrow> v \<le> RSSIZE_MAX \<Longrightarrow> drop s ptr = be_octets k v @ rest \<Longrightarrow> s + k \<le> sz \<Longrightarrow>
    fetch_length_loop ptr sz k (drop_bit (8 * k) v) s = Some (Used (s + k) v)"
proof (induction k arbitrary: s)
  case 0
  then show ?case by simp
next
  case (Suc k)
  define m where "m = 8 * k"
  have m': "8 * Suc k = 8 + m" by (simp add: m_def)
  have cons: "drop s ptr = word_of_int (drop_bit m v) # be_octets k v @ rest" using Suc.prems(3) by (simp add: m_def)
  have "drop_bit (55 + (8 + m)) v = drop_bit m (drop_bit 63 v)" by (simp add: add.commute)
  also have "drop_bit 63 v = 0" using Suc.prems(1,2) by (simp add: drop_bit_eq_div RSSIZE_MAX_def)
  finally have small: "drop_bit 55 (drop_bit (8 + m) v) = 0" by simp
  have "fetch_length_loop ptr sz k (drop_bit m v) (s + 1) = Some (Used (s + 1 + k) v)"
    unfolding m_def using Suc.prems drop_Cons_nth_opt [OF cons] by (intro Suc.IH) auto
  then show ?case
    unfolding m' using Suc.prems(4) small drop_Cons_nth_opt [OF cons] octet_join [of m v] by simp
qed

lemma ber_fetch_length_ok:
  assumes "0 \<le> n" and "n \<le> RSSIZE_MAX" and "length (der_length n) \<le> sz"
  shows "ber_fetch_length c (der_length n @ rest) sz = Some (Used (length (der_length n)) n)"
proof (cases "n \<le> 127")
  case True
  then have "uint (word_of_int n :: u8) = n" using assms(1) by (simp add: unsigned_of_int take_bit_int_eq_self)
  moreover have "word_of_int n AND (0x80 :: u8) = 0"
  proof -
    have "\<not> bit n 7" using assms(1) True by (simp add: bit_iff_odd)
    then show ?thesis using and_exp_eq_0_iff_not_bit [of "word_of_int n :: u8" 7] by (simp add: bit_word_of_int_iff)
  qed
  ultimately show ?thesis
    using assms True by (auto simp: ber_fetch_length_def der_length_def)
next
  case False
  let ?k = "octet_count n"
  have k: "1 \<le> ?k" "?k \<le> 8" using octet_count_le [of n 8] octet_count_pos [of n] assms(1,2) by (auto simp: RSSIZE_MAX_def)
  let ?b = "0x80 OR of_nat ?k :: u8"
  have b: "?b AND 0x80 \<noteq> 0" "?b \<noteq> 0x80" "?b \<noteq> 0xFF" "unat (?b AND 0x7F) = ?k"
  proof -
    have "?k = 1 \<or> ?k = 2 \<or> ?k = 3 \<or> ?k = 4 \<or> ?k = 5 \<or> ?k = 6 \<or> ?k = 7 \<or> ?k = 8" using k by linarith
    then show "?b AND 0x80 \<noteq> 0" "?b \<noteq> 0x80" "?b \<noteq> 0xFF" "unat (?b AND 0x7F) = ?k" by auto
  qed
  have "drop_bit (8 * ?k) n = 0" using digits_bounds [of 8 n] assms(1) by (simp add: drop_bit_eq_div)
  then have "fetch_length_loop (?b # be_octets ?k n @ rest) sz ?k 0 1 = Some (Used (1 + ?k) n)"
    using fetch_length_octets [of n 1 "?b # be_octets ?k n @ rest" ?k rest sz] assms False by (simp add: der_length_length)
  then show ?thesis
    using assms False b by (auto simp: ber_fetch_length_def der_length_def)
qed


section \<open>Parsing arbitrary octets\<close>

text \<open>\<open>within sz res\<close>: the parser has a result and uses at least one and at most \<open>sz\<close> octets.\<close>

definition within :: "nat \<Rightarrow> 'a fetched option \<Rightarrow> bool" where
  "within sz res \<longleftrightarrow> (\<exists>r. res = Some r \<and> (\<forall>n v. r = Used n v \<longrightarrow> 0 < n \<and> n \<le> sz))"

lemma withinE:
  assumes "within sz res"
  obtains "res = Some More" | "res = Some Fatal" | n v where "res = Some (Used n v)" "0 < n" "n \<le> sz"
proof -
  from assms obtain r where r: "res = Some r" "\<And>n v. r = Used n v \<Longrightarrow> 0 < n \<and> n \<le> sz" by (auto simp: within_def)
  then show thesis using that by (cases r) auto
qed

lemma within_simps [simp]:
  "within sz (Some More)" "within sz (Some Fatal)" "within sz (Some (Used n v)) \<longleftrightarrow> 0 < n \<and> n \<le> sz" "\<not> within sz None"
  by (auto simp: within_def)

lemma within_fetch_tag_loop:
  "sz \<le> length ptr \<Longrightarrow> 1 \<le> s \<Longrightarrow> within sz (fetch_tag_loop ptr sz c v s)"
proof (induction ptr sz c v s rule: fetch_tag_loop.induct)
  case (1 ptr sz c v s)
  show ?case
  proof (cases "s \<le> sz")
    case True
    then have nth: "nth_opt ptr (s - 1) = Some (ptr ! (s - 1))" using 1(2,3) by simp
    show ?thesis
      using True 1(3) 1(1) [OF True nth] 1(2)
      by (subst fetch_tag_loop.simps) (simp add: nth [simplified] Let_def)
  qed (subst fetch_tag_loop.simps, simp)
qed

lemma within_fetch_tag: "sz \<le> length ptr \<Longrightarrow> within sz (ber_fetch_tag ptr sz)"
  by (cases ptr) (auto simp: ber_fetch_tag_def Let_def intro: within_fetch_tag_loop)

text \<open>A parsed length is a length that its type can hold, and at most 127 octets announce it.\<close>

lemma fetch_length_loop_sane:
  "sz \<le> length ptr \<Longrightarrow> 1 \<le> s \<Longrightarrow> 0 \<le> v \<Longrightarrow>
    (\<exists>r. fetch_length_loop ptr sz k v s = Some r \<and>
      (\<forall>n w. r = Used n w \<longrightarrow> n = s + k \<and> n \<le> max s sz \<and> 0 \<le> w \<and> w \<le> RSSIZE_MAX))"
proof (induction ptr sz k v s rule: fetch_length_loop.induct)
  case (2 ptr sz k v s)
  show ?case
  proof (cases "s + 1 \<le> sz \<and> drop_bit 55 v = 0")
    case True
    have "nth_opt ptr s = Some (ptr ! s)" using True 2(2) by simp
    moreover have "0 \<le> push_bit 8 v OR uint (ptr ! s)" using 2(4) by simp
    ultimately show ?thesis using 2(1) [of "ptr ! s"] True 2(2) by fastforce
  qed auto
qed auto

lemma ber_fetch_length_sane:
  assumes "sz \<le> length ptr"
  shows "within sz (ber_fetch_length c ptr sz)"
    and "ber_fetch_length c ptr sz = Some (Used n v) \<Longrightarrow> n \<le> 128 \<and> v \<le> RSSIZE_MAX \<and> (v < 0 \<longrightarrow> c)"
proof -
  have "\<exists>r. ber_fetch_length c ptr sz = Some r \<and>
    (\<forall>n v. r = Used n v \<longrightarrow> 0 < n \<and> n \<le> sz \<and> n \<le> 128 \<and> v \<le> RSSIZE_MAX \<and> (v < 0 \<longrightarrow> c))"
  proof (cases "sz = 0")
    case False
    then obtain b bs where ptr: "ptr = b # bs" using assms by (cases ptr) auto
    let ?k = "unat (b AND 0x7F)"
    have "b AND 0x7F \<le> 0x7F" by (rule word_and_le1)
    then have k: "?k \<le> 127" by (simp add: word_le_nat_alt)
    have "uint b \<le> RSSIZE_MAX" using uint_lt2p [of b] by (simp add: RSSIZE_MAX_def)
    then show ?thesis
      using fetch_length_loop_sane [OF assms, of 1 0 ?k] False ptr k
      by (fastforce simp: ber_fetch_length_def RSSIZE_MAX_def)
  qed (simp add: ber_fetch_length_def)
  then show "within sz (ber_fetch_length c ptr sz)"
    and "ber_fetch_length c ptr sz = Some (Used n v) \<Longrightarrow> n \<le> 128 \<and> v \<le> RSSIZE_MAX \<and> (v < 0 \<longrightarrow> c)"
    by (auto simp: within_def)
qed


lemma within_skip:
  "sz \<le> length ptr \<Longrightarrow> within sz (ber_skip_length ov d c ptr sz)"
  "sz \<le> length ptr \<Longrightarrow> within (skip + sz) (skip_indefinite ov d skip ptr sz)"
proof (induction ov d c ptr sz and ov d skip ptr sz rule: ber_skip_length_skip_indefinite.induct)
  case (1 ov d c ptr sz)
  show ?case
  proof (cases "ov d")
    case True
    then show ?thesis by (subst ber_skip_length.simps) simp
  next
    case False
    note fetch = ber_fetch_length_sane [OF 1(2), of c]
    from fetch(1) show ?thesis
    proof (cases rule: withinE)
      case (3 ll v)
      show ?thesis
      proof (cases "0 \<le> v")
        case True
        have "s64 (int ll + v) = Some (int ll + v)"
          using fetch(2) [OF 3(1)] True by (intro s64_within) (simp_all add: LLONG_MIN_def LLONG_MAX_def RSSIZE_MAX_def)
        then show ?thesis using False 3 True by (subst ber_skip_length.simps) auto
      next
        case indef: False
        have "within (ll + (sz - ll)) (skip_indefinite ov d ll (drop ll ptr) (sz - ll))"
          using 1(1) [OF False 3(1) refl indef] 1(2) by simp
        then show ?thesis using False 3 indef by (subst ber_skip_length.simps) simp
      qed
    qed (use False in \<open>(subst ber_skip_length.simps, simp)+\<close>)
  qed
next
  case (2 ov d skip ptr sz)
  from within_fetch_tag [OF 2(3)] show ?case
  proof (cases rule: withinE)
    case (3 tn tag)
    then obtain b bs where ptr: "ptr = b # bs" using 2(3) by (cases ptr) auto
    have nth: "nth_opt ptr 0 = Some b" by (simp add: ptr)
    have "within (sz - tn) (ber_skip_length ov (d + 1) (BER_TLV_CONSTRUCTED b) (drop tn ptr) (sz - tn))"
      using 2(1) [OF 3(1) refl nth] 2(3) by simp
    then show ?thesis
    proof (cases rule: withinE)
      case inner: (3 ll u)
      define eoc where "eoc = (b = 0 \<and> ptr ! 1 = 0)"
      have eoc: "(if b = 0 then Option.bind (nth_opt ptr 1) (\<lambda>second. Some (second = 0)) else Some False) = Some eoc"
        using inner 3 2(3) by (simp add: eoc_def)
      have rec: "within (skip + (tn + ll) + (sz - (tn + ll)))
          (skip_indefinite ov d (skip + (tn + ll)) (drop (tn + ll) ptr) (sz - (tn + ll)))" if "\<not> eoc"
        using 2(2) [OF 3(1) refl nth inner(1) refl eoc that] 2(3) by simp
      have "tn + ll \<le> sz" using inner 3 by simp
      then show ?thesis
        using 3 inner eoc nth rec
        by (subst skip_indefinite.simps) (simp split: if_split)
    qed (use 3 nth in \<open>(subst skip_indefinite.simps, simp)+\<close>)
  qed (subst skip_indefinite.simps, simp)+
qed

section \<open>Well-formed elements\<close>

text \<open>
  The length and value of an element whose indefinite forms nest at most \<open>d\<close> deep, and sequences
  of elements of which none is the end mark.
\<close>

inductive ber_lv :: "bool \<Rightarrow> nat \<Rightarrow> u8 list \<Rightarrow> bool" and ber_elements :: "nat \<Rightarrow> u8 list \<Rightarrow> bool" where
  definite: "int (length v) \<le> RSSIZE_MAX \<Longrightarrow> ber_lv c d (der_length (int (length v)) @ v)" |
  indefinite: "ber_elements d es \<Longrightarrow> ber_lv True (Suc d) (0x80 # es @ [0, 0])" |
  no_element: "ber_elements d []" |
  element: "ber_lv c d lv \<Longrightarrow> ber_elements d es \<Longrightarrow> take 2 (constructed c (tag_bytes tag) @ lv) \<noteq> [0, 0] \<Longrightarrow>
    ber_elements d (constructed c (tag_bytes tag) @ lv @ es)"

inductive_cases ber_elementsE: "ber_elements d es"
inductive_simps ber_elements_Nil [simp]: "ber_elements d []"

lemma constructed_tag_Cons:
  obtains b bs where "constructed c (tag_bytes tag) = b # bs" "BER_TLV_CONSTRUCTED b = c"
    "length (constructed c (tag_bytes tag)) = length (tag_bytes tag)"
proof -
  have "tag_bytes tag \<noteq> []" by (simp add: tag_bytes_def Let_def)
  then obtain x xs where "tag_bytes tag = x # xs" by (cases "tag_bytes tag") auto
  then show thesis using that constructed_bit [of c tag] by simp
qed

lemma ber_lv_not_Nil: "ber_lv c d lv \<Longrightarrow> lv \<noteq> []"
  by (auto elim: ber_lv.cases simp: der_length_def)

lemma skip_end_mark:
  assumes "\<not> ov (k + 1)" and "2 \<le> sz"
  shows "skip_indefinite ov k s (0 # 0 # rest) sz = Some (Used (s + 2) ())"
proof -
  have "ber_fetch_tag (0 # 0 # rest) sz = Some (Used 1 0)" using assms(2) by (simp add: ber_fetch_tag_def)
  moreover have "ber_skip_length ov (k + 1) False (0 # rest) (sz - 1) = Some (Used 1 ())"
    using assms by (subst ber_skip_length.simps) (simp add: ber_fetch_length_def LLONG_MIN_def LLONG_MAX_def)
  ultimately show ?thesis by (subst skip_indefinite.simps) (simp add: BER_TLV_CONSTRUCTED_def)
qed

lemma skip_well_formed:
  "ber_lv c d bs \<Longrightarrow> (\<And>j. j \<le> d \<Longrightarrow> \<not> ov (k + j)) \<Longrightarrow> length bs \<le> sz \<Longrightarrow>
    ber_skip_length ov k c (bs @ rest) sz = Some (Used (length bs) ())"
  "ber_elements d es \<Longrightarrow> (\<And>j. j \<le> Suc d \<Longrightarrow> \<not> ov (k + j)) \<Longrightarrow> length es + 2 \<le> sz \<Longrightarrow>
    skip_indefinite ov k s (es @ [0, 0] @ rest) sz = Some (Used (s + length es + 2) ())"
proof (induction c d bs and d es arbitrary: k sz rest and k sz s rest rule: ber_lv_ber_elements.inducts)
  case (definite v c d)
  let ?n = "int (length v)"
  have "\<not> ov k" using definite(2) [of 0] by simp
  moreover have "ber_fetch_length c (der_length ?n @ v @ rest) sz = Some (Used (length (der_length ?n)) ?n)"
    using definite by (intro ber_fetch_length_ok) auto
  moreover have "length (der_length ?n) \<le> 9"
    using octet_count_le [of ?n 8] definite(1) by (auto simp: der_length_length RSSIZE_MAX_def)
  ultimately show ?case
    using definite(1,3) by (subst ber_skip_length.simps) (auto simp: LLONG_MIN_def LLONG_MAX_def RSSIZE_MAX_def)
next
  case (indefinite d es)
  have "\<not> ov k" using indefinite(3) [of 0] by simp
  moreover have "ber_fetch_length True (0x80 # es @ [0, 0] @ rest) sz = Some (Used 1 (- 1))"
    using indefinite(4) by (auto simp: ber_fetch_length_def)
  moreover have "skip_indefinite ov k 1 (es @ [0, 0] @ rest) (sz - 1) = Some (Used (1 + length es + 2) ())"
    using indefinite(3,4) by (intro indefinite.IH) auto
  ultimately show ?case by (subst ber_skip_length.simps) simp
next
  case (no_element d)
  have "\<not> ov (k + 1)" using no_element(1) [of 1] by simp
  with no_element(2) show ?case by (simp add: skip_end_mark)
next
  case (element c d lv es tag)
  let ?tail = "lv @ es @ [0, 0] @ rest"
  let ?tn = "length (tag_bytes tag)"
  obtain b bs where b: "constructed c (tag_bytes tag) = b # bs" "BER_TLV_CONSTRUCTED b = c"
      "length (constructed c (tag_bytes tag)) = ?tn"
    by (rule constructed_tag_Cons)
  have tn: "length bs + 1 = ?tn" using b by simp
  have lv: "0 < length lv" using ber_lv_not_Nil [OF element(1)] by simp
  have sz: "?tn + length lv + length es + 2 \<le> sz" using element.prems(2) b by simp
  have fetch: "ber_fetch_tag (b # bs @ ?tail) sz = Some (Used ?tn tag)"
    using ber_fetch_tag_ok [of tag sz c ?tail] sz b(1) by simp
  have inner: "ber_skip_length ov (k + 1) c ?tail (sz - ?tn) = Some (Used (length lv) ())"
  proof (rule element.IH(1))
    show "\<And>j. j \<le> d \<Longrightarrow> \<not> ov (k + 1 + j)" using element.prems(1) by (metis add.assoc add.commute plus_1_eq_Suc Suc_le_mono)
  qed (use sz in simp)
  have rec: "skip_indefinite ov k (s + (?tn + length lv)) (es @ [0, 0] @ rest) (sz - (?tn + length lv)) =
      Some (Used (s + (?tn + length lv) + length es + 2) ())"
    using element.prems(1) sz by (intro element.IH(2)) auto
  have eoc: "(bs @ ?tail) ! 0 \<noteq> 0" if "b = 0"
  proof -
    have "take 2 ((b # bs) @ lv) = [b, (bs @ lv) ! 0]" using lv by (cases bs; cases lv) auto
    then have "(bs @ lv) ! 0 \<noteq> 0" using element(3) that b(1) by simp
    then show ?thesis using lv by (cases bs; cases lv) auto
  qed
  have drop: "drop ?tn (b # bs @ ?tail) = ?tail" "drop (?tn + length lv) (b # bs @ ?tail) = es @ [0, 0] @ rest"
    using tn by (simp_all flip: tn)
  show ?case
    unfolding b(1) using fetch inner rec eoc drop b(2)
    by (subst skip_indefinite.simps) (cases "b = 0"; simp add: add_ac flip: tn)
qed

end
