(* ===== verification/Ber_Tlv_Properties.thy ===== *)
theory Ber_Tlv_Properties
  imports Ber_Tlv_Laws
begin

text \<open>
  The properties of tags and lengths in the basic encoding rules: what is serialised is parsed
  back, the parsers are safe on every input, and a well-formed element is skipped exactly.
\<close>

lemma overlay_0: "overlay buf 0 ds = ds @ drop (length ds) buf"
  by (simp add: overlay_def)

text \<open>The number of octets of a tag: one, or one and a group of seven bits of the value in each.\<close>

definition tag_octets :: "u32 \<Rightarrow> nat" where
  "tag_octets tag = (let v = BER_TAG_VALUE tag in
     if v \<le> 30 then 1 else if v < 2 ^ 7 then 2 else if v < 2 ^ 14 then 3
     else if v < 2 ^ 21 then 4 else if v < 2 ^ 28 then 5 else 6)"

lemma tag_octets_length: "length (tag_bytes tag) = tag_octets tag"
  by (simp add: tag_bytes_length tag_octets_def tag_extra_def BER_TAG_VALUE_def Let_def)

text \<open>
  C31. The serialiser of tags returns the number of octets a tag takes, whatever size within the
  buffer it is given: one for a value up to 30, else one more than the value's groups of seven bits. When they
  fit it stores them at the front of the buffer and changes nothing behind them, and the parser,
  given any number of octets that includes them, obtains the same tag and their number; when they
  do not fit, nothing is written behind the given size.
\<close>
theorem ber_tag_roundtrip:
  assumes "sz \<le> length buf"
  shows "\<exists>buf'. ber_tlv_tag_serialize tag buf sz = Some (tag_octets tag, buf') \<and>
    (if tag_octets tag \<le> sz then drop (tag_octets tag) buf' = drop (tag_octets tag) buf \<and>
       (\<forall>sz'. tag_octets tag \<le> sz' \<longrightarrow> ber_fetch_tag buf' sz' = Some (Used (tag_octets tag) tag))
     else drop sz buf' = drop sz buf)"
proof -
  let ?n = "length (tag_bytes tag)"
  have plain: "constructed False (tag_bytes tag) = tag_bytes tag" by (cases "tag_bytes tag") simp_all
  show ?thesis unfolding tag_octets_length [symmetric]
  proof (cases "?n \<le> sz")
    case True
    then show "\<exists>buf'. ber_tlv_tag_serialize tag buf sz = Some (?n, buf') \<and>
      (if ?n \<le> sz then drop ?n buf' = drop ?n buf \<and>
         (\<forall>sz'. ?n \<le> sz' \<longrightarrow> ber_fetch_tag buf' sz' = Some (Used ?n tag))
       else drop sz buf' = drop sz buf)"
      using ber_tlv_tag_serialize_ok [OF True assms] ber_fetch_tag_ok [of tag _ False "drop ?n buf"] plain assms
      by (auto simp: overlay_0)
  next
    case False
    then show "\<exists>buf'. ber_tlv_tag_serialize tag buf sz = Some (?n, buf') \<and>
      (if ?n \<le> sz then drop ?n buf' = drop ?n buf \<and>
         (\<forall>sz'. ?n \<le> sz' \<longrightarrow> ber_fetch_tag buf' sz' = Some (Used ?n tag))
       else drop sz buf' = drop sz buf)"
      using ber_tlv_tag_serialize_short [of sz tag buf] assms by (auto simp: not_le)
  qed
qed

lemma ber_tag_roundtrip_witness:
  "\<exists>buf'. ber_tlv_tag_serialize 0x1FE [0, 0, 0, 0] 3 = Some (2, buf') \<and>
    ber_fetch_tag buf' 2 = Some (Used 2 0x1FE)"
  using ber_tag_roundtrip [of 3 "[0, 0, 0, 0]" "0x1FE"] by (auto simp: tag_octets_def BER_TAG_VALUE_def)

text \<open>
  The serialiser of lengths stores a length of up to \<open>2 ^ 62 - 1\<close> in its shortest form, if that
  fits, and otherwise leaves the buffer alone; it returns the number of octets in both cases. The
  parser obtains the same length from them, in primitive and in constructed elements.
\<close>
theorem ber_length_roundtrip:
  assumes "0 \<le> len" and "len \<le> RSSIZE_MAX" and "sz \<le> length buf"
  shows "\<exists>n buf'. der_tlv_length_serialize len buf sz = Some (n, buf') \<and> 1 \<le> n \<and> n \<le> 9 \<and>
    (if n \<le> sz then drop n buf' = drop n buf \<and>
       (\<forall>c sz'. n \<le> sz' \<longrightarrow> ber_fetch_length c buf' sz' = Some (Used n len))
     else buf' = buf)"
proof -
  let ?n = "length (der_length len)"
  have "octet_count len \<le> 8" using octet_count_le [of len 8] assms(1,2) by (simp add: RSSIZE_MAX_def)
  then have n: "1 \<le> ?n" "?n \<le> 9" by (simp_all add: der_length_length)
  have small: "len < 2 ^ 63" using assms(2) by (simp add: RSSIZE_MAX_def)
  show ?thesis
  proof (cases "?n \<le> sz")
    case True
    then show ?thesis
      using der_tlv_length_serialize_ok [OF assms(1) small True assms(3)]
        ber_fetch_length_ok [OF assms(1,2), of _ _ "drop ?n buf"] n
      by (auto simp: overlay_0)
  next
    case False
    then show ?thesis using der_tlv_length_serialize_short [OF assms(1) small _ assms(3)] n by (auto simp: not_le)
  qed
qed

lemma ber_length_roundtrip_witness:
  "\<exists>n buf'. der_tlv_length_serialize 300 [0, 0, 0, 0] 4 = Some (n, buf') \<and> n \<le> 9"
  using ber_length_roundtrip [of 300 4 "[0, 0, 0, 0]"] by (auto simp: RSSIZE_MAX_def)

text \<open>
  C32. Fetching a tag, fetching a length and skipping a length with its value end on every input,
  read no octet outside it, overflow nothing, and report a number of octets that is positive and
  within the input, or that more is needed, or a fatal error, for every behaviour of the stack
  check and every nesting of indefinite forms.
\<close>
theorem ber_parsers_safe:
  assumes "sz \<le> length ptr"
  shows "within sz (ber_fetch_tag ptr sz) \<and> within sz (ber_fetch_length c ptr sz) \<and>
    within sz (ber_skip_length ov d c ptr sz)"
  using within_fetch_tag [OF assms] ber_fetch_length_sane(1) [OF assms] within_skip(1) [OF assms] by blast

lemma ber_parsers_safe_witness:
  "within 3 (ber_skip_length (\<lambda>_. False) 0 True [0x80, 0x30, 0x80] 3)"
  using ber_parsers_safe [of 3 "[0x80, 0x30, 0x80]" True "\<lambda>_. False" 0] by simp

text \<open>
  C33. Skipping passes exactly over the length and value of a well-formed element: over a definite
  length and as many octets, and over an indefinite form with any sequence of tagged elements, which
  may be indefinite themselves, and its end mark, as long as the stack check allows the nesting.
\<close>
theorem ber_skip_well_formed:
  assumes "ber_lv c d bs" and "\<And>j. j \<le> d \<Longrightarrow> \<not> ov (k + j)" and "length bs \<le> sz"
  shows "ber_skip_length ov k c (bs @ rest) sz = Some (Used (length bs) ())"
  using skip_well_formed(1) [OF assms(1) _ assms(3)] assms(2) by blast

lemma ber_skip_well_formed_witness:
  "ber_skip_length (\<lambda>k. 3 < k) 0 True [0x80, 0x02, 0x01, 0x05, 0x00, 0x00, 0xAA] 7 = Some (Used 6 ())"
proof -
  have "ber_lv False 0 (der_length (int (length [5 :: u8])) @ [5])" by (rule definite) (simp add: RSSIZE_MAX_def)
  then have "ber_elements 0 (constructed False (tag_bytes 8) @ (der_length (int (length [5 :: u8])) @ [5]) @ [])"
    by (rule element) (simp_all add: tag_bytes_def Let_def)
  then have "ber_elements 0 [0x02, 0x01, 0x05]" by (simp add: tag_bytes_def Let_def der_length_def)
  then have "ber_lv True (Suc 0) (0x80 # [0x02, 0x01, 0x05] @ [0, 0])" by (rule indefinite)
  from ber_skip_well_formed [OF this, of "\<lambda>k. 3 < k" 0 7 "[0xAA]"] show ?thesis by simp
qed

end
