(* ===== verification/Asn_Integer.thy ===== *)
theory Asn_Integer
  imports Bit_Lists
begin

unbundle bit_operations_syntax

text \<open>
  The type \<open>INTEGER_t\<close> (\<open>INTEGER.c\<close>): conversions between native numbers and octet strings in
  two's complement, parsing of decimal numbers, comparison and copying.

  An \<open>INTEGER_t\<close> is its buffer, \<^term>\<open>None\<close> where the pointer is null, whose length is the field
  \<open>size\<close>; a pointer to one is an option again. The functions that set \<open>errno\<close> return it in the left
  summand; the right summand is what they store on success. \<open>intmax_t\<close> and \<open>long\<close> are signed numbers
  of 64 bits, \<open>uintmax_t\<close> is \<^typ>\<open>u64\<close>.
\<close>

type_synonym INTEGER_t = "u8 list option"

datatype errno = EINVAL | ERANGE | ENOMEM

section \<open>Enumerations\<close>

text \<open>
  The table is sorted by value, and \<open>bsearch\<close> finds the entry of a value. Its length is the field
  \<open>map_count\<close>; the packed encodings use no other field.
\<close>

record asn_INTEGER_enum_map =
  nat_value :: int
  enum_name :: string

record asn_INTEGER_specifics =
  value2enum :: "asn_INTEGER_enum_map list"
  extension :: int
  field_unsigned :: bool

definition INTEGER_compar_value2enum :: "int \<Rightarrow> asn_INTEGER_enum_map \<Rightarrow> int" where
  "INTEGER_compar_value2enum a el =
    (let b = nat_value el in if a < b then - 1 else if a = b then 0 else 1)"

definition INTEGER_map_value2enum :: "asn_INTEGER_specifics option \<Rightarrow> int \<Rightarrow> asn_INTEGER_enum_map option" where
  "INTEGER_map_value2enum specs v =
    (case specs of None \<Rightarrow> None | Some sp \<Rightarrow> find (\<lambda>el. INTEGER_compar_value2enum v el = 0) (value2enum sp))"

section \<open>From octets to native numbers\<close>

text \<open>The first octet is read for the sign before the loop.\<close>

definition asn__integer_convert :: "u8 list \<Rightarrow> int option" where
  "asn__integer_convert b =
    Option.bind (nth_opt b 0) (\<lambda>first.
      let value = (if drop_bit 7 first \<noteq> 0 then - 1 else 0) :: u64 in
      Some (sint (foldl (\<lambda>v b. push_bit 8 v OR ucast b) value b)))"

text \<open>Leading octets that repeat the sign, up to the last octet.\<close>

fun skip_insignificant :: "u8 list \<Rightarrow> u8 list" where
  "skip_insignificant (x # y # b) =
    (if x = 0x00 \<and> y AND 0x80 = 0 \<or> x = 0xFF \<and> y AND 0x80 \<noteq> 0 then skip_insignificant (y # b)
     else x # y # b)" |
  "skip_insignificant b = b"

definition asn_INTEGER2imax :: "INTEGER_t option \<Rightarrow> (errno + int) option" where
  "asn_INTEGER2imax iptr =
    (case iptr of None \<Rightarrow> Some (Inl EINVAL) | Some None \<Rightarrow> Some (Inl EINVAL)
     | Some (Some b) \<Rightarrow>
         let b = (if 8 < length b then skip_insignificant b else b) in
         if 8 < length b then Some (Inl ERANGE)
         else if length b = 0 then Some (Inr 0)
         else Option.bind (asn__integer_convert b) (\<lambda>v. Some (Inr v)))"

text \<open>Octets before the last eight have to be zero.\<close>

fun drop_zeros :: "u8 list \<Rightarrow> u8 list option" where
  "drop_zeros [] = Some []" |
  "drop_zeros (x # b) = (if 8 < length (x # b) then if x \<noteq> 0 then None else drop_zeros b else Some (x # b))"

definition asn_INTEGER2umax :: "INTEGER_t option \<Rightarrow> errno + u64" where
  "asn_INTEGER2umax iptr =
    (case iptr of None \<Rightarrow> Inl EINVAL | Some None \<Rightarrow> Inl EINVAL
     | Some (Some b) \<Rightarrow>
         (case drop_zeros b of None \<Rightarrow> Inl ERANGE
          | Some b \<Rightarrow> Inr (foldl (\<lambda>v b. push_bit 8 v OR ucast b) 0 b)))"

definition asn_INTEGER2long :: "INTEGER_t option \<Rightarrow> (errno + int) option" where
  "asn_INTEGER2long iptr =
    Option.bind (asn_INTEGER2imax iptr) (\<lambda>res.
      case res of Inl e \<Rightarrow> Some (Inl e)
      | Inr v \<Rightarrow> if v < LLONG_MIN \<or> LLONG_MAX < v then Some (Inl ERANGE) else Some (Inr v))"

definition asn_INTEGER2ulong :: "INTEGER_t option \<Rightarrow> errno + u64" where
  "asn_INTEGER2ulong iptr =
    (case asn_INTEGER2umax iptr of Inl e \<Rightarrow> Inl e | Inr v \<Rightarrow> if - 1 < v then Inl ERANGE else Inr v)"

definition asn_INTEGER2int64 :: "INTEGER_t option \<Rightarrow> (errno + int) option" where
  "asn_INTEGER2int64 st =
    Option.bind (asn_INTEGER2imax st) (\<lambda>res.
      case res of Inl e \<Rightarrow> Some (Inl e)
      | Inr v \<Rightarrow> if v < LLONG_MIN \<or> LLONG_MAX < v then Some (Inl ERANGE) else Some (Inr v))"

definition asn_INTEGER2uint64 :: "INTEGER_t option \<Rightarrow> errno + u64" where
  "asn_INTEGER2uint64 st =
    (case asn_INTEGER2umax st of Inl e \<Rightarrow> Inl e | Inr v \<Rightarrow> if - 1 < v then Inl ERANGE else Inr v)"

section \<open>From native numbers to octets\<close>

text \<open>
  The octets are read out of the native number from the most significant one on, whatever the
  byte order of the machine. \<open>malloc_ok\<close> tells whether the allocation succeeds; the result is the
  new contents of the structure.
\<close>

definition asn_imax2INTEGER :: "bool \<Rightarrow> INTEGER_t option \<Rightarrow> int \<Rightarrow> errno + INTEGER_t" where
  "asn_imax2INTEGER malloc_ok st v =
    (case st of None \<Rightarrow> Inl EINVAL
     | Some _ \<Rightarrow>
         if \<not> malloc_ok then Inl ENOMEM
         else Inr (Some (skip_insignificant (be_octets 8 v))))"

definition asn_umax2INTEGER :: "bool \<Rightarrow> INTEGER_t option \<Rightarrow> u64 \<Rightarrow> (errno + INTEGER_t) option" where
  "asn_umax2INTEGER malloc_ok st v =
    (if v \<le> drop_bit 1 (- 1) then Some (asn_imax2INTEGER malloc_ok st (sint v))
     else if \<not> malloc_ok then Some (Inl ENOMEM)
     else Option.bind st (\<lambda>_. Some (Inr (Some (0 # be_octets 8 (uint v))))))"

definition asn_long2INTEGER :: "bool \<Rightarrow> INTEGER_t option \<Rightarrow> int \<Rightarrow> errno + INTEGER_t" where
  "asn_long2INTEGER malloc_ok st v = asn_imax2INTEGER malloc_ok st v"

definition asn_ulong2INTEGER :: "bool \<Rightarrow> INTEGER_t option \<Rightarrow> u64 \<Rightarrow> errno + INTEGER_t" where
  "asn_ulong2INTEGER malloc_ok st v = asn_imax2INTEGER malloc_ok st (sint v)"

definition asn_int642INTEGER :: "bool \<Rightarrow> INTEGER_t option \<Rightarrow> int \<Rightarrow> errno + INTEGER_t" where
  "asn_int642INTEGER malloc_ok st v =
    (case st of None \<Rightarrow> Inl EINVAL
     | Some _ \<Rightarrow>
         if \<not> malloc_ok then Inl ENOMEM
         else Inr (Some (skip_insignificant (be_octets 8 v))))"

definition asn_uint642INTEGER :: "bool \<Rightarrow> INTEGER_t option \<Rightarrow> u64 \<Rightarrow> (errno + INTEGER_t) option" where
  "asn_uint642INTEGER malloc_ok st v =
    (if uint v \<le> LLONG_MAX then Some (asn_int642INTEGER malloc_ok st (sint v))
     else if \<not> malloc_ok then Some (Inl ENOMEM)
     else Option.bind st (\<lambda>_. Some (Inr (Some (0 # be_octets 8 (uint v))))))"

section \<open>Comparison and copying\<close>

text \<open>The sign of \<open>memcmp\<close> on blocks of the same size, and the product with it.\<close>

fun memcmp_sign :: "u8 list \<Rightarrow> u8 list \<Rightarrow> int" where
  "memcmp_sign (x # a) (y # b) = (if x < y then - 1 else if y < x then 1 else memcmp_sign a b)" |
  "memcmp_sign _ _ = 0"

definition octet_sign :: "u8 \<Rightarrow> int" where
  "octet_sign b = (if b AND 0x80 \<noteq> 0 then - 1 else 1)"

definition INTEGER_size :: "INTEGER_t \<Rightarrow> nat" where
  "INTEGER_size st = (case st of None \<Rightarrow> 0 | Some b \<Rightarrow> length b)"

text \<open>A null buffer or an empty one has no first octet.\<close>

definition INTEGER_first :: "INTEGER_t \<Rightarrow> u8 option" where
  "INTEGER_first st = Option.bind st (\<lambda>b. nth_opt b 0)"

definition INTEGER_compare :: "INTEGER_t option \<Rightarrow> INTEGER_t option \<Rightarrow> int option" where
  "INTEGER_compare aptr bptr =
    (case (aptr, bptr) of
       (Some a, Some b) \<Rightarrow>
         if INTEGER_size a \<noteq> 0 \<and> INTEGER_size b \<noteq> 0 then
           Option.bind (INTEGER_first a) (\<lambda>a0. Option.bind (INTEGER_first b) (\<lambda>b0.
             let sign_a = octet_sign a0; sign_b = octet_sign b0 in
             if sign_a < sign_b then Some (- 1)
             else if sign_b < sign_a then Some 1
             else if INTEGER_size a < INTEGER_size b then Some (- 1 * sign_a)
             else if INTEGER_size b < INTEGER_size a then Some (1 * sign_b)
             else Option.bind a (\<lambda>abuf. Option.bind b (\<lambda>bbuf. Some (sign_a * memcmp_sign abuf bbuf)))))
         else if INTEGER_size a \<noteq> 0 then
           Option.bind (INTEGER_first a) (\<lambda>a0. Some (1 * octet_sign a0))
         else if INTEGER_size b \<noteq> 0 then
           Option.bind (INTEGER_first a) (\<lambda>a0. Some (- 1 * octet_sign a0))
         else Some 0
     | (None, None) \<Rightarrow> Some 0
     | (None, Some b) \<Rightarrow> Some (- 1)
     | (Some a, None) \<Rightarrow> Some 1)"

text \<open>The return code and the target; the allocations are of the structure and of its buffer.\<close>

definition INTEGER_copy ::
  "bool \<Rightarrow> bool \<Rightarrow> INTEGER_t option \<Rightarrow> INTEGER_t option \<Rightarrow> int \<times> INTEGER_t option" where
  "INTEGER_copy calloc_ok malloc_ok aptr bptr =
    (case bptr of None \<Rightarrow> (0, None)
     | Some b \<Rightarrow>
         (case (case aptr of None \<Rightarrow> if calloc_ok then Some None else None | Some a \<Rightarrow> Some a) of
            None \<Rightarrow> (- 1, None)
          | Some a \<Rightarrow>
              if INTEGER_size b \<noteq> 0 then
                if \<not> malloc_ok then (- 1, Some a) else (0, Some b)
              else (0, Some None)))"

end
