(* ===== verification/Integer_Uper.thy ===== *)
theory Integer_Uper
  imports Uper_Support_Laws Asn_Integer
begin

unbundle bit_operations_syntax

text \<open>
  \<open>INTEGER\<close> in the unaligned packed encoding (\<open>INTEGER_uper.c\<close>), with the constraints that the
  generated type descriptors carry (\<open>per_support.h\<close>).

  A decoder gets the target of its pointer, \<^term>\<open>None\<close> for a null pointer, and returns the code,
  the new target and the reader; the number of octets consumed is 0 in every branch. \<open>alloc\<close> tells
  which allocations succeed: number 0 is the structure, 1 its first buffer, 2 the one of a
  conversion, and from 3 on those of the loop, in order. \<open>fresh n\<close> is what a new block of \<open>n\<close> octets
  holds. An encoder returns the field \<open>encoded\<close>, \<open>-1\<close> for a failure.
\<close>

datatype asn_dec_rval_code = RC_OK | RC_WMORE | RC_FAIL

record asn_per_constraint =
  flags :: int
  range_bits :: int
  effective_bits :: int
  lower_bound :: int
  upper_bound :: int

definition APC_UNCONSTRAINED :: int where "APC_UNCONSTRAINED = 0"
definition APC_SEMI_CONSTRAINED :: int where "APC_SEMI_CONSTRAINED = 1"
definition APC_CONSTRAINED :: int where "APC_CONSTRAINED = 2"
definition APC_EXTENSIBLE :: int where "APC_EXTENSIBLE = 4"

text \<open>The specifics of the type, if any, say that its values are unsigned.\<close>

definition is_unsigned :: "asn_INTEGER_specifics option \<Rightarrow> bool" where
  "is_unsigned specs \<longleftrightarrow> (case specs of None \<Rightarrow> False | Some s \<Rightarrow> field_unsigned s)"

section \<open>Decoding\<close>

type_synonym integer_decoded = "(asn_dec_rval_code \<times> INTEGER_t option \<times> asn_bit_data) option"

text \<open>
  Fragments of a length and as many octets, behind the octets that are already there. Each pass
  reads on; a value \<^term>\<open>None\<close> would also stand for a loop that does not end.
\<close>

partial_function (option) uper_get_fragments ::
  "(nat \<Rightarrow> bool) \<Rightarrow> nat \<Rightarrow> INTEGER_t \<Rightarrow> asn_bit_data \<Rightarrow> (asn_dec_rval_code \<times> INTEGER_t \<times> asn_bit_data) option" where
  "uper_get_fragments alloc k st pd =
    Option.bind (uper_get_length pd (- 1) 0) (\<lambda>((len, repeat), pd).
      if len < 0 then Some (RC_WMORE, st, pd)
      else if \<not> alloc k then Some (RC_FAIL, st, pd)
      else
        let buf = (case st of None \<Rightarrow> [] | Some b \<Rightarrow> b) in
        Option.bind (asn_get_many_bits pd False (8 * nat len)) (\<lambda>(ret, octets, pd).
          if ret < 0 then Some (RC_WMORE, Some buf, pd)
          else if repeat then uper_get_fragments alloc (k + 1) (Some (buf @ octets)) pd
          else Some (RC_OK, Some (buf @ octets), pd)))"

text \<open>What the decoder does with the constraint that applies and the freed structure.\<close>

definition decode_uper_value ::
  "(nat \<Rightarrow> bool) \<Rightarrow> (nat \<Rightarrow> u8 list) \<Rightarrow> asn_INTEGER_specifics option \<Rightarrow> asn_per_constraint option \<Rightarrow>
    asn_bit_data \<Rightarrow> integer_decoded" where
  "decode_uper_value alloc fresh specs ct pd =
    (let first = (\<lambda>st. \<lambda>cont. if alloc 1 then cont (Some st) else Some (RC_FAIL, Some None, pd));
         buffer = (\<lambda>cont. case ct of None \<Rightarrow> cont None
           | Some c \<Rightarrow>
               if flags c AND APC_SEMI_CONSTRAINED \<noteq> 0 then first [0] cont
               else if flags c AND APC_CONSTRAINED \<noteq> 0 \<and> 0 \<le> range_bits c
               then first (fresh (nat ((range_bits c + 7) div 8))) cont
               else cont None);
         fragments = (\<lambda>st. Option.bind (uper_get_fragments alloc 3 st pd) (\<lambda>(code, st, pd).
           if code \<noteq> RC_OK then Some (code, Some st, pd)
           else case ct of None \<Rightarrow> Some (RC_OK, Some st, pd)
           | Some c \<Rightarrow>
               if lower_bound c \<noteq> 0 then
                 Option.bind (asn_INTEGER2long (Some st)) (\<lambda>res.
                   case res of Inl _ \<Rightarrow> Some (RC_FAIL, Some st, pd)
                   | Inr v \<Rightarrow> Option.bind (s64 (v + lower_bound c)) (\<lambda>v.
                       case asn_imax2INTEGER (alloc 2) (Some st) v of
                         Inl _ \<Rightarrow> Some (RC_FAIL, Some st, pd)
                       | Inr st \<Rightarrow> Some (RC_OK, Some st, pd)))
               else Some (RC_OK, Some st, pd)))
     in
     buffer (\<lambda>st.
       case ct of None \<Rightarrow> fragments st
       | Some c \<Rightarrow>
           if flags c \<noteq> APC_UNCONSTRAINED \<and> 0 \<le> range_bits c then
             if 64 < range_bits c then Some (RC_FAIL, Some st, pd)
             else Option.bind (uper_get_constrained_whole_number pd (range_bits c)) (\<lambda>((r, uvalue), pd).
               if r \<noteq> 0 then Some (RC_WMORE, Some st, pd)
               else if is_unsigned specs then
                 Option.bind (asn_umax2INTEGER (alloc 2) (Some st) (uvalue + word_of_int (lower_bound c))) (\<lambda>res.
                   case res of Inl _ \<Rightarrow> Some (RC_FAIL, Some st, pd) | Inr st \<Rightarrow> Some (RC_OK, Some st, pd))
               else
                 Option.bind (per_imax_range_unrebase uvalue (lower_bound c) (upper_bound c)) (\<lambda>(r, svalue).
                   if r \<noteq> 0 then Some (RC_FAIL, Some st, pd)
                   else case asn_imax2INTEGER (alloc 2) (Some st) svalue of
                     Inl _ \<Rightarrow> Some (RC_FAIL, Some st, pd) | Inr st \<Rightarrow> Some (RC_OK, Some st, pd)))
           else fragments st))"

definition INTEGER_decode_uper ::
  "(nat \<Rightarrow> bool) \<Rightarrow> (nat \<Rightarrow> u8 list) \<Rightarrow> asn_INTEGER_specifics option \<Rightarrow> asn_per_constraint option \<Rightarrow>
    asn_per_constraint option \<Rightarrow> INTEGER_t option \<Rightarrow> asn_bit_data \<Rightarrow> integer_decoded" where
  "INTEGER_decode_uper alloc fresh specs td_constraints constraints sptr pd =
    (case (case sptr of None \<Rightarrow> if alloc 0 then Some None else None | Some st \<Rightarrow> Some st) of
       None \<Rightarrow> Some (RC_FAIL, None, pd)
     | Some st \<Rightarrow>
         case (case constraints of None \<Rightarrow> td_constraints | Some c \<Rightarrow> Some c) of
           None \<Rightarrow> decode_uper_value alloc fresh specs None pd
         | Some c \<Rightarrow>
             if flags c AND APC_EXTENSIBLE \<noteq> 0 then
               Option.bind (asn_get_few_bits 1 pd) (\<lambda>(inext, pd).
                 if inext < 0 then Some (RC_WMORE, Some st, pd)
                 else decode_uper_value alloc fresh specs (if inext \<noteq> 0 then None else Some c) pd)
             else decode_uper_value alloc fresh specs (Some c) pd)"

section \<open>Encoding\<close>

lemma uper_put_length_progress:
  "uper_put_length po n = Some ((m, eom), po') \<Longrightarrow> 0 < n \<Longrightarrow> m < 0 \<or> 0 < nat m"
  by (auto simp: uper_put_length_def Let_def split: if_splits Option.bind_splits)

function uper_put_fragments :: "'k asn_bit_outp \<Rightarrow> u8 list \<Rightarrow> (int \<times> 'k asn_bit_outp) option" where
  "uper_put_fragments po buf =
    (if buf = [] then Some (0, po)
     else Option.bind (uper_put_length po (length buf)) (\<lambda>((may_encode, need_eom), po).
       if may_encode < 0 then Some (- 1, po)
       else Option.bind (asn_put_many_bits po buf (8 * nat may_encode)) (\<lambda>(r, po).
         if r \<noteq> 0 then Some (- 1, po)
         else Option.bind (if need_eom then Option.bind (uper_put_length po 0) (\<lambda>((r, _), po). Some (r \<noteq> 0, po))
                           else Some (False, po)) (\<lambda>(failed, po).
           if failed then Some (- 1, po) else uper_put_fragments po (drop (nat may_encode) buf)))))"
  by pat_completeness auto
termination
  by (relation "measure (\<lambda>(_, buf). length buf)") (use uper_put_length_progress in fastforce)+

declare uper_put_fragments.simps [simp del]

text \<open>The number, as what the unions of the code hold, and whether it is outside the root.\<close>

definition uper_root_check ::
  "asn_INTEGER_specifics option \<Rightarrow> asn_per_constraint \<Rightarrow> INTEGER_t \<Rightarrow> (errno + (int + u64) \<times> bool) option" where
  "uper_root_check specs c st =
    (if is_unsigned specs then
       case asn_INTEGER2umax (Some st) of Inl e \<Rightarrow> Some (Inl e)
       | Inr u \<Rightarrow> Some (Inr (Inr u,
           if flags c AND APC_SEMI_CONSTRAINED \<noteq> 0 then u < word_of_int (lower_bound c)
           else 0 \<le> range_bits c \<and> (u < word_of_int (lower_bound c) \<or> word_of_int (upper_bound c) < u)))
     else Option.bind (asn_INTEGER2imax (Some st)) (\<lambda>res.
       case res of Inl e \<Rightarrow> Some (Inl e)
       | Inr s \<Rightarrow> Some (Inr (Inl s,
           if flags c AND APC_SEMI_CONSTRAINED \<noteq> 0 then s < lower_bound c
           else 0 \<le> range_bits c \<and> (s < lower_bound c \<or> upper_bound c < s)))))"

definition encode_uper_value ::
  "asn_per_constraint option \<Rightarrow> u8 list \<Rightarrow> (int + u64) \<Rightarrow> 'k asn_bit_outp \<Rightarrow> (int \<times> 'k asn_bit_outp) option" where
  "encode_uper_value ct buf number po =
    (case ct of None \<Rightarrow> uper_put_fragments po buf
     | Some c \<Rightarrow>
         if 0 \<le> range_bits c then
           Option.bind
             (case number of
                Inr u \<Rightarrow>
                  if word_of_int (upper_bound c) < (word_of_int (lower_bound c) :: u64) \<or>
                    u < word_of_int (lower_bound c) \<or> word_of_int (upper_bound c) < u
                  then Some (- 1, 0) else Some (0, u - word_of_int (lower_bound c))
              | Inl s \<Rightarrow> per_imax_range_rebase s (lower_bound c) (upper_bound c)) (\<lambda>(r, v).
             if r \<noteq> 0 then Some (- 1, po)
             else Option.bind (uper_put_constrained_whole_number_u po v (range_bits c)) (\<lambda>(r, po).
               Some (if r \<noteq> 0 then - 1 else 0, po)))
         else if lower_bound c \<noteq> 0 then Some (- 1, po)
         else uper_put_fragments po buf)"

definition INTEGER_encode_uper ::
  "asn_INTEGER_specifics option \<Rightarrow> asn_per_constraint option \<Rightarrow> asn_per_constraint option \<Rightarrow>
    INTEGER_t option \<Rightarrow> 'k per_type_encoder" where
  "INTEGER_encode_uper specs td_constraints constraints sptr po =
    (case Option.bind sptr id of None \<Rightarrow> Some (- 1, po)
     | Some buf \<Rightarrow>
         if buf = [] then Some (- 1, po)
         else case (case constraints of None \<Rightarrow> td_constraints | Some c \<Rightarrow> Some c) of
           None \<Rightarrow> encode_uper_value None buf (Inl 0) po
         | Some c \<Rightarrow>
             Option.bind (uper_root_check specs c (Some buf)) (\<lambda>res.
               case res of Inl _ \<Rightarrow> Some (- 1, po)
               | Inr (number, inext) \<Rightarrow>
                   if flags c AND APC_EXTENSIBLE \<noteq> 0 then
                     Option.bind (asn_put_few_bits po (of_bool inext) 1) (\<lambda>(r, po).
                       if r \<noteq> 0 then Some (- 1, po)
                       else encode_uper_value (if inext then None else Some c) buf number po)
                   else if inext then Some (- 1, po)
                   else encode_uper_value (Some c) buf number po))"

end
