(* ===== verification/Integer_Aper.thy ===== *)
theory Integer_Aper
  imports Integer_Uper
begin

unbundle bit_operations_syntax

text \<open>
  \<open>INTEGER\<close> in the aligned packed encoding (\<open>INTEGER_aper.c\<close>). Targets, allocations, results and
  constraints are those of \<open>Integer_Uper\<close>.
\<close>

section \<open>Loops over the width of a field\<close>

text \<open>The octets of the range, as both directions compute them, and the bits of a count of octets.\<close>

definition max_range_bytes :: "int \<Rightarrow> int" where
  "max_range_bytes rb = drop_bit 3 rb + (if 0 < rb mod 8 then 1 else 0)"

function length_width :: "int \<Rightarrow> nat \<Rightarrow> nat option" where
  "length_width bytes i =
    (if 31 \<le> i then None
     else if bytes \<le> push_bit i 1 then Some i
     else length_width bytes (i + 1))"
  by pat_completeness auto
termination by (relation "measure (\<lambda>(_, i). 31 - i)") auto

text \<open>The highest octet that is not zero, from octet 7 down to 0.\<close>

fun top_octet :: "int \<Rightarrow> nat \<Rightarrow> nat" where
  "top_octet v 0 = 0" |
  "top_octet v (Suc j) = (if drop_bit (8 * Suc j) v \<noteq> 0 then Suc j else top_octet v j)"

declare length_width.simps [simp del]

section \<open>Decoding\<close>

text \<open>
  The octets of a number, most significant first: \<^term>\<open>None\<close> inside the pair for a read that
  fails.
\<close>

fun aper_get_octets :: "nat \<Rightarrow> int \<Rightarrow> asn_bit_data \<Rightarrow> (int option \<times> asn_bit_data) option" where
  "aper_get_octets 0 v pd = Some (Some v, pd)" |
  "aper_get_octets (Suc n) v pd =
    Option.bind (asn_get_few_bits 8 pd) (\<lambda>(buf, pd).
      if buf < 0 then Some (None, pd)
      else if 64 \<le> 8 * n then None
      else Option.bind (s64 (push_bit (8 * n) buf)) (\<lambda>d. Option.bind (s64 (v + d)) (\<lambda>v.
        aper_get_octets n v pd)))"

text \<open>An offset whose range has the given number of bits, or the code of a failure.\<close>

definition aper_get_offset :: "int \<Rightarrow> asn_bit_data \<Rightarrow> ((asn_dec_rval_code + int) \<times> asn_bit_data) option" where
  "aper_get_offset rb pd =
    (let starved = (\<lambda>(v, pd). Some (if v < 0 then Inl RC_WMORE else Inr v, pd));
         aligned = (\<lambda>n. Option.bind (aper_get_align pd) (\<lambda>(r, pd).
           if r < 0 then Some (Inl RC_FAIL, pd) else Option.bind (asn_get_few_bits n pd) starved))
     in
     if 16 < rb then
       Option.bind (length_width (max_range_bytes rb) 1) (\<lambda>i.
       Option.bind (asn_get_few_bits (int i) pd) (\<lambda>(len, pd).
         if len < 0 then Some (Inl RC_FAIL, pd)
         else Option.bind (aper_get_align pd) (\<lambda>(r, pd).
           if r \<noteq> 0 then Some (Inl RC_FAIL, pd)
           else Option.bind (aper_get_octets (nat (len + 1)) 0 pd) (\<lambda>(v, pd).
             Some (case v of None \<Rightarrow> Inl RC_FAIL | Some v \<Rightarrow> Inr v, pd)))))
     else if rb < 8 then Option.bind (asn_get_few_bits rb pd) starved
     else if rb = 8 then aligned rb
     else aligned 16)"

partial_function (option) aper_get_fragments ::
  "(nat \<Rightarrow> bool) \<Rightarrow> nat \<Rightarrow> INTEGER_t \<Rightarrow> asn_bit_data \<Rightarrow> (asn_dec_rval_code \<times> INTEGER_t \<times> asn_bit_data) option" where
  "aper_get_fragments alloc k st pd =
    Option.bind (aper_get_length pd (- 1) (- 1) (- 1)) (\<lambda>((len, repeat), pd).
      if len < 0 then Some (RC_WMORE, st, pd)
      else if \<not> alloc k then Some (RC_FAIL, st, pd)
      else
        let buf = (case st of None \<Rightarrow> [] | Some b \<Rightarrow> b) in
        Option.bind (asn_get_many_bits pd False (8 * nat len)) (\<lambda>(ret, octets, pd).
          if ret < 0 then Some (RC_WMORE, Some buf, pd)
          else if repeat then aper_get_fragments alloc (k + 1) (Some (buf @ octets)) pd
          else Some (RC_OK, Some (buf @ octets), pd)))"

text \<open>The number with the lower bound added, stored in the structure.\<close>

definition decode_aper_bounded ::
  "(nat \<Rightarrow> bool) \<Rightarrow> asn_INTEGER_specifics option \<Rightarrow> asn_per_constraint \<Rightarrow> INTEGER_t \<Rightarrow> asn_bit_data \<Rightarrow> integer_decoded" where
  "decode_aper_bounded alloc specs c st pd =
    (if range_bits c < 0 then Some (RC_FAIL, Some st, pd)
     else Option.bind (aper_get_offset (range_bits c) pd) (\<lambda>(res, pd).
       case res of Inl code \<Rightarrow> Some (code, Some st, pd)
       | Inr v \<Rightarrow> Option.bind (s64 (v + lower_bound c)) (\<lambda>v.
           Option.bind (if is_unsigned specs then asn_umax2INTEGER (alloc 2) (Some st) (word_of_int v)
                        else Some (asn_imax2INTEGER (alloc 2) (Some st) v)) (\<lambda>res.
             case res of Inl _ \<Rightarrow> Some (RC_FAIL, Some st, pd) | Inr st \<Rightarrow> Some (RC_OK, Some st, pd)))))"

text \<open>Any number of octets, and the lower bound, if there is one, added to what they stand for.\<close>

definition decode_aper_unbounded ::
  "(nat \<Rightarrow> bool) \<Rightarrow> asn_per_constraint option \<Rightarrow> INTEGER_t \<Rightarrow> asn_bit_data \<Rightarrow> integer_decoded" where
  "decode_aper_unbounded alloc ct st pd =
    Option.bind (aper_get_fragments alloc 3 st pd) (\<lambda>(code, st, pd).
      if code \<noteq> RC_OK then Some (code, Some st, pd)
      else case ct of None \<Rightarrow> Some (RC_OK, Some st, pd)
      | Some c \<Rightarrow>
          if lower_bound c \<noteq> 0 then
            Option.bind (asn_INTEGER2long (Some st)) (\<lambda>res.
              case res of Inl _ \<Rightarrow> Some (RC_FAIL, Some st, pd)
              | Inr v \<Rightarrow> Option.bind (s64 (v + lower_bound c)) (\<lambda>v.
                  case asn_long2INTEGER (alloc 2) (Some st) v of
                    Inl _ \<Rightarrow> Some (RC_FAIL, Some st, pd)
                  | Inr st \<Rightarrow> Some (RC_OK, Some st, pd)))
          else Some (RC_OK, Some st, pd))"

definition decode_aper_value ::
  "(nat \<Rightarrow> bool) \<Rightarrow> (nat \<Rightarrow> u8 list) \<Rightarrow> asn_INTEGER_specifics option \<Rightarrow> asn_per_constraint option \<Rightarrow>
    asn_bit_data \<Rightarrow> integer_decoded" where
  "decode_aper_value alloc fresh specs ct pd =
    (let first = (\<lambda>st. \<lambda>cont. if alloc 1 then cont (Some st) else Some (RC_FAIL, Some None, pd));
         buffer = (\<lambda>cont. case ct of None \<Rightarrow> cont None
           | Some c \<Rightarrow>
               if flags c AND APC_SEMI_CONSTRAINED \<noteq> 0 then first [0] cont
               else if flags c AND APC_CONSTRAINED \<noteq> 0 \<and> 0 \<le> range_bits c
               then first (fresh (nat ((range_bits c + 7) div 8))) cont
               else cont None)
     in
     buffer (\<lambda>st.
       case ct of None \<Rightarrow> decode_aper_unbounded alloc ct st pd
       | Some c \<Rightarrow>
           if flags c \<noteq> APC_UNCONSTRAINED then decode_aper_bounded alloc specs c st pd
           else decode_aper_unbounded alloc ct st pd))"

definition INTEGER_decode_aper ::
  "(nat \<Rightarrow> bool) \<Rightarrow> (nat \<Rightarrow> u8 list) \<Rightarrow> asn_INTEGER_specifics option \<Rightarrow> asn_per_constraint option \<Rightarrow>
    asn_per_constraint option \<Rightarrow> INTEGER_t option \<Rightarrow> asn_bit_data \<Rightarrow> integer_decoded" where
  "INTEGER_decode_aper alloc fresh specs td_constraints constraints sptr pd =
    (case (case sptr of None \<Rightarrow> if alloc 0 then Some None else None | Some st \<Rightarrow> Some st) of
       None \<Rightarrow> Some (RC_FAIL, None, pd)
     | Some st \<Rightarrow>
         case (case constraints of None \<Rightarrow> td_constraints | Some c \<Rightarrow> Some c) of
           None \<Rightarrow> decode_aper_value alloc fresh specs None pd
         | Some c \<Rightarrow>
             if flags c AND APC_EXTENSIBLE \<noteq> 0 then
               Option.bind (asn_get_few_bits 1 pd) (\<lambda>(inext, pd).
                 if inext < 0 then Some (RC_WMORE, Some st, pd)
                 else decode_aper_value alloc fresh specs (if inext \<noteq> 0 then None else Some c) pd)
             else decode_aper_value alloc fresh specs (Some c) pd)"

section \<open>Encoding\<close>

lemma aper_put_length_progress:
  "aper_put_length po (- 1) (- 1) n = Some ((m, eom), po') \<Longrightarrow> 0 < n \<Longrightarrow> m < 0 \<or> 0 < nat m"
  by (auto simp: aper_put_length_def Let_def split: if_splits Option.bind_splits)

function aper_put_fragments :: "'k asn_bit_outp \<Rightarrow> u8 list \<Rightarrow> (int \<times> 'k asn_bit_outp) option" where
  "aper_put_fragments po buf =
    (if buf = [] then Some (0, po)
     else Option.bind (aper_put_length po (- 1) (- 1) (length buf)) (\<lambda>((may_encode, need_eom), po).
       if may_encode < 0 then Some (- 1, po)
       else Option.bind (asn_put_many_bits po buf (8 * nat may_encode)) (\<lambda>(r, po).
         if r \<noteq> 0 then Some (- 1, po)
         else Option.bind (if need_eom then Option.bind (aper_put_length po (- 1) (- 1) 0) (\<lambda>((r, _), po). Some (r < 0, po))
                           else Some (False, po)) (\<lambda>(failed, po).
           if failed then Some (- 1, po) else aper_put_fragments po (drop (nat may_encode) buf)))))"
  by pat_completeness auto
termination
  by (relation "measure (\<lambda>(_, buf). length buf)") (use aper_put_length_progress in fastforce)+

declare aper_put_fragments.simps [simp del]

text \<open>The number as an \<open>intmax_t\<close>, and whether it is outside the root.\<close>

definition aper_root_check ::
  "asn_INTEGER_specifics option \<Rightarrow> asn_per_constraint \<Rightarrow> INTEGER_t \<Rightarrow> (errno + int \<times> bool) option" where
  "aper_root_check specs c st =
    (if is_unsigned specs then
       case asn_INTEGER2umax (Some st) of Inl e \<Rightarrow> Some (Inl e)
       | Inr u \<Rightarrow> Some (Inr (sint u,
           if flags c AND APC_SEMI_CONSTRAINED \<noteq> 0 then u < word_of_int (lower_bound c)
           else 0 \<le> range_bits c \<and> (u < word_of_int (lower_bound c) \<or> word_of_int (upper_bound c) < u)))
     else Option.bind (asn_INTEGER2imax (Some st)) (\<lambda>res.
       case res of Inl e \<Rightarrow> Some (Inl e)
       | Inr s \<Rightarrow> Some (Inr (s,
           if flags c AND APC_SEMI_CONSTRAINED \<noteq> 0 then s < lower_bound c
           else 0 \<le> range_bits c \<and> (s < lower_bound c \<or> upper_bound c < s)))))"

text \<open>The octets of an offset, from octet \<open>j\<close> down, each in a call of its own.\<close>

fun aper_put_octets :: "'k asn_bit_outp \<Rightarrow> int \<Rightarrow> nat \<Rightarrow> (int \<times> 'k asn_bit_outp) option" where
  "aper_put_octets po v j =
    Option.bind (asn_put_few_bits po (word_of_int (drop_bit (8 * j) v AND 0xFF)) 8) (\<lambda>(r, po).
      if r \<noteq> 0 then Some (- 1, po)
      else case j of 0 \<Rightarrow> Some (0, po) | Suc j \<Rightarrow> aper_put_octets po v j)"

declare aper_put_octets.simps [simp del]

text \<open>
  The offset of a value within its bounds. The range is converted to an \<open>int\<close>, which keeps its low
  32 bits.
\<close>

definition aper_put_offset :: "'k asn_bit_outp \<Rightarrow> asn_per_constraint \<Rightarrow> int \<Rightarrow> (int \<times> 'k asn_bit_outp) option" where
  "aper_put_offset po c v =
    Option.bind (s64 (v - lower_bound c)) (\<lambda>off.
    Option.bind (s64 (upper_bound c - lower_bound c)) (\<lambda>d. Option.bind (s64 (d + 1)) (\<lambda>range.
    let range = sint (word_of_int range :: u32);
        v64 = off;
        put = (\<lambda>po n. Option.bind (asn_put_few_bits po (word_of_int off) n) (\<lambda>(r, po).
          Some (if r \<noteq> 0 then - 1 else 0, po)));
        aligned = (\<lambda>po k. Option.bind (aper_put_align po) (\<lambda>(r, po). if r < 0 then Some (- 1, po) else k po))
    in
    if range_bits c < 8 \<or> range_bits c = 8 \<and> range < 256 then put po (range_bits c)
    else if range_bits c = 8 then aligned po (\<lambda>po. put po (range_bits c))
    else if range_bits c \<le> 16 then aligned po (\<lambda>po. put po 16)
    else
      Option.bind (length_width (max_range_bytes (range_bits c)) 1) (\<lambda>i.
        let j = top_octet v64 7 in
        Option.bind (asn_put_few_bits po (of_nat j) (int i)) (\<lambda>(r, po).
          if r \<noteq> 0 then Some (- 1, po)
          else aligned po (\<lambda>po. aper_put_octets po v64 j))))))"

definition encode_aper_value ::
  "asn_per_constraint option \<Rightarrow> u8 list \<Rightarrow> int \<Rightarrow> 'k asn_bit_outp \<Rightarrow> (int \<times> 'k asn_bit_outp) option" where
  "encode_aper_value ct buf v po =
    (case ct of None \<Rightarrow> aper_put_fragments po buf
     | Some c \<Rightarrow>
         if 0 \<le> range_bits c then aper_put_offset po c v
         else if lower_bound c \<noteq> 0 then Some (- 1, po)
         else aper_put_fragments po buf)"

definition INTEGER_encode_aper ::
  "asn_INTEGER_specifics option \<Rightarrow> asn_per_constraint option \<Rightarrow> asn_per_constraint option \<Rightarrow>
    INTEGER_t option \<Rightarrow> 'k per_type_encoder" where
  "INTEGER_encode_aper specs td_constraints constraints sptr po =
    (case Option.bind sptr id of None \<Rightarrow> Some (- 1, po)
     | Some buf \<Rightarrow>
         if buf = [] then Some (- 1, po)
         else case (case constraints of None \<Rightarrow> td_constraints | Some c \<Rightarrow> Some c) of
           None \<Rightarrow> encode_aper_value None buf 0 po
         | Some c \<Rightarrow>
             Option.bind (aper_root_check specs c (Some buf)) (\<lambda>res.
               case res of Inl _ \<Rightarrow> Some (- 1, po)
               | Inr (v, inext) \<Rightarrow>
                   if flags c AND APC_EXTENSIBLE \<noteq> 0 then
                     Option.bind (asn_put_few_bits po (of_bool inext) 1) (\<lambda>(r, po).
                       if r \<noteq> 0 then Some (- 1, po)
                       else encode_aper_value (if inext then None else Some c) buf v po)
                   else if inext then Some (- 1, po)
                   else encode_aper_value (Some c) buf v po))"

end
