(* ===== verification/Per_Decoder.thy ===== *)
theory Per_Decoder
  imports Integer_Aper
begin

unbundle bit_operations_syntax

text \<open>
  The top of the packed decoders and encoders (\<open>aper_decoder.c\<close>, \<open>uper_decoder.c\<close>,
  \<open>uper_encoder.c\<close>) and open types, the fields of a message that carry a complete encoding of
  their own (\<open>aper_opentype.c\<close>, \<open>uper_opentype.c\<close>, \<open>per_opentype.c\<close>).

  A type's decoder is a function pointer of its descriptor and therefore an argument, as its
  encoder is: from the target of the pointer, \<^term>\<open>None\<close> for a null pointer, and a reader it
  returns the code and the number of octets consumed, the new target and the reader. The codec
  context only bounds the stack of the decoders.
\<close>

type_synonym asn_dec_rval = "asn_dec_rval_code \<times> nat"
type_synonym 'v per_type_decoder = "'v option \<Rightarrow> asn_bit_data \<Rightarrow> (asn_dec_rval \<times> 'v option \<times> asn_bit_data) option"

section \<open>Complete encodings\<close>

text \<open>
  The buffer is the octets of the data. What the pointer has moved and the offset have to agree
  with what the reader counted: an assertion.
\<close>

definition aper_decode ::
  "'v per_type_decoder option \<Rightarrow> 'v option \<Rightarrow> u8 list \<Rightarrow> int \<Rightarrow> int \<Rightarrow> (asn_dec_rval \<times> 'v option) option" where
  "aper_decode decoder sptr buffer skip_bits unused_bits =
    (let size = length buffer;
         pd = \<lparr>pd_buffer = buffer, pd_nboff = nat skip_bits, pd_nbits = 8 * size - nat unused_bits, pd_moved = 0\<rparr>
     in
     if skip_bits < 0 \<or> 7 < skip_bits \<or> unused_bits < 0 \<or> 7 < unused_bits \<or> 0 < unused_bits \<and> size = 0
     then Some ((RC_FAIL, 0), sptr)
     else if pd_nbits pd < pd_nboff pd then Some ((RC_FAIL, 0), sptr)
     else case decoder of None \<Rightarrow> Some ((RC_FAIL, 0), sptr)
     | Some decode \<Rightarrow>
         Option.bind (decode sptr pd) (\<lambda>((code, _), v, pd).
           if code = RC_OK then
             let consumed = word_of_int (8 * (int size - int (length (pd_buffer pd))) + int (pd_nboff pd) - skip_bits) :: u64
             in if consumed \<noteq> pd_moved pd then None else Some ((RC_OK, unat consumed), v)
           else Some ((code, 0), v)))"

definition aper_decode_complete ::
  "'v per_type_decoder option \<Rightarrow> 'v option \<Rightarrow> u8 list \<Rightarrow> (asn_dec_rval \<times> 'v option) option" where
  "aper_decode_complete decoder sptr buffer =
    Option.bind (aper_decode decoder sptr buffer 0 0) (\<lambda>((code, consumed), v).
      if consumed \<noteq> 0 then Some ((code, (consumed + 7) div 8), v)
      else if code = RC_OK then
        (case buffer of [] \<Rightarrow> Some ((RC_WMORE, 0), v)
         | b # _ \<Rightarrow> Some (if b = 0 then (RC_OK, 1) else (RC_FAIL, 0), v))
      else Some ((code, consumed), v))"

text \<open>The functions of the unaligned variant have the same bodies; only the type's decoder differs.\<close>

definition uper_decode ::
  "'v per_type_decoder option \<Rightarrow> 'v option \<Rightarrow> u8 list \<Rightarrow> int \<Rightarrow> int \<Rightarrow> (asn_dec_rval \<times> 'v option) option" where
  "uper_decode = aper_decode"

definition uper_decode_complete ::
  "'v per_type_decoder option \<Rightarrow> 'v option \<Rightarrow> u8 list \<Rightarrow> (asn_dec_rval \<times> 'v option) option" where
  "uper_decode_complete = aper_decode_complete"

text \<open>So have the encoders: their flush calls an output that is never null.\<close>

definition uper_encode_flush_outp :: "'k asn_bit_outp \<Rightarrow> (int \<times> 'k asn_bit_outp) option" where
  "uper_encode_flush_outp = aper_encode_flush_outp"

definition uper_encode ::
  "u8 list \<Rightarrow> 'k per_type_encoder option \<Rightarrow> (u8 list \<Rightarrow> 'k \<Rightarrow> int \<times> 'k) option \<Rightarrow> 'k \<Rightarrow> (int \<times> 'k) option" where
  "uper_encode = aper_encode"

definition uper_encode_to_buffer ::
  "u8 list \<Rightarrow> enc_to_buf_arg per_type_encoder option \<Rightarrow> nat \<Rightarrow> (int \<times> enc_to_buf_arg) option" where
  "uper_encode_to_buffer = aper_encode_to_buffer"

definition uper_encode_to_new_buffer ::
  "(nat \<Rightarrow> bool) \<Rightarrow> bool \<Rightarrow> u8 list \<Rightarrow> enc_dyn_arg per_type_encoder option \<Rightarrow> (int \<times> u8 list option) option" where
  "uper_encode_to_new_buffer = aper_encode_to_new_buffer"

section \<open>Writing open types\<close>

text \<open>
  The value is encoded into a new buffer, whose octets are written in fragments: the loop is the
  one of \<open>INTEGER\<close>. \<open>realloc_ok\<close>, \<open>malloc1_ok\<close> and \<open>tmp\<close> are those of the encoder.
\<close>

definition aper_open_type_put ::
  "(nat \<Rightarrow> bool) \<Rightarrow> bool \<Rightarrow> u8 list \<Rightarrow> enc_dyn_arg per_type_encoder option \<Rightarrow> 'k per_type_encoder" where
  "aper_open_type_put realloc_ok malloc1_ok tmp encoder po =
    Option.bind (aper_encode_to_new_buffer realloc_ok malloc1_ok tmp encoder) (\<lambda>(size, buf).
      if size \<le> 0 then Some (- 1, po)
      else Option.bind buf (\<lambda>buf. Option.bind (c_slice buf 0 (nat size)) (aper_put_fragments po)))"

definition uper_open_type_put ::
  "(nat \<Rightarrow> bool) \<Rightarrow> bool \<Rightarrow> u8 list \<Rightarrow> enc_dyn_arg per_type_encoder option \<Rightarrow> 'k per_type_encoder" where
  "uper_open_type_put realloc_ok malloc1_ok tmp encoder po =
    Option.bind (uper_encode_to_new_buffer realloc_ok malloc1_ok tmp encoder) (\<lambda>(size, buf).
      if size \<le> 0 then Some (- 1, po)
      else Option.bind buf (\<lambda>buf. Option.bind (c_slice buf 0 (nat size)) (uper_put_fragments po)))"

section \<open>Reading open types\<close>

text \<open>
  The octets of all fragments, in a block of \<open>cap\<close> octets that grows when it has to; a write past
  its end has no result.
\<close>

definition open_type_chunk ::
  "(nat \<Rightarrow> bool) \<Rightarrow> u8 list \<Rightarrow> nat \<Rightarrow> int \<Rightarrow> asn_bit_data \<Rightarrow>
    (asn_dec_rval_code \<times> (u8 list \<times> nat) \<times> asn_bit_data) option" where
  "open_type_chunk realloc_ok buf cap chunk pd =
    (if chunk < 0 then Some (RC_WMORE, ([], 0), pd)
     else
       let need = length buf + nat chunk;
           new_cap = (if cap < need then nat chunk + 4 * cap else cap)
       in
       if cap < need \<and> \<not> realloc_ok new_cap then Some (RC_FAIL, ([], 0), pd)
       else if new_cap < need then None
       else Option.bind (asn_get_many_bits pd False (8 * nat chunk)) (\<lambda>(r, octets, pd).
         Some (if r \<noteq> 0 then (RC_WMORE, ([], 0), pd) else (RC_OK, (buf @ octets, new_cap), pd))))"

partial_function (option) aper_open_chunks ::
  "(nat \<Rightarrow> bool) \<Rightarrow> u8 list \<Rightarrow> nat \<Rightarrow> asn_bit_data \<Rightarrow> (asn_dec_rval_code \<times> u8 list \<times> asn_bit_data) option" where
  "aper_open_chunks realloc_ok buf cap pd =
    Option.bind (aper_get_length pd (- 1) (- 1) (- 1)) (\<lambda>((chunk, repeat), pd).
      Option.bind (open_type_chunk realloc_ok buf cap chunk pd) (\<lambda>(code, (buf, cap), pd).
        if code = RC_OK \<and> repeat then aper_open_chunks realloc_ok buf cap pd
        else Some (code, buf, pd)))"

declare aper_open_chunks.simps [code]

partial_function (option) uper_open_chunks ::
  "(nat \<Rightarrow> bool) \<Rightarrow> u8 list \<Rightarrow> nat \<Rightarrow> asn_bit_data \<Rightarrow> (asn_dec_rval_code \<times> u8 list \<times> asn_bit_data) option" where
  "uper_open_chunks realloc_ok buf cap pd =
    Option.bind (uper_get_length pd (- 1) 0) (\<lambda>((chunk, repeat), pd).
      Option.bind (open_type_chunk realloc_ok buf cap chunk pd) (\<lambda>(code, (buf, cap), pd).
        if code = RC_OK \<and> repeat then uper_open_chunks realloc_ok buf cap pd
        else Some (code, buf, pd)))"

declare uper_open_chunks.simps [code]

text \<open>
  The octets are decoded on their own. Up to seven bits may be left, or an octet of padding where
  the value takes no bits; padding that is not zero is no error.
\<close>

definition open_type_decode :: "'v per_type_decoder \<Rightarrow> 'v option \<Rightarrow> u8 list \<Rightarrow> (asn_dec_rval \<times> 'v option) option" where
  "open_type_decode decode sptr buf =
    Option.bind (decode sptr \<lparr>pd_buffer = buf, pd_nboff = 0, pd_nbits = 8 * length buf, pd_moved = 0\<rparr>)
      (\<lambda>((code, consumed), v, spd).
        if code = RC_OK then
          let padding = (int (pd_nbits spd) - int (pd_nboff spd)) mod 2 ^ 64;
              check = (0 < padding \<and> padding < 8 \<or>
                pd_nboff spd = 0 \<and> pd_nbits spd = 8 \<and> length (pd_buffer spd) = length buf)
          in Option.bind (if check then Option.bind (asn_get_few_bits padding spd) (\<lambda>(p, _). Some (p = 0))
                          else Some False) (\<lambda>cool.
               Some (if cool then (RC_OK, consumed) else if 8 \<le> padding then (RC_FAIL, 0) else (RC_OK, consumed), v))
        else Some ((RC_FAIL, consumed), v))"

definition aper_open_type_get :: "(nat \<Rightarrow> bool) \<Rightarrow> 'v per_type_decoder \<Rightarrow> 'v per_type_decoder" where
  "aper_open_type_get realloc_ok decode sptr pd =
    Option.bind (aper_open_chunks realloc_ok [] 0 pd) (\<lambda>(code, buf, pd).
      if code \<noteq> RC_OK then Some ((code, 0), sptr, pd)
      else Option.bind (open_type_decode decode sptr buf) (\<lambda>(rv, v). Some (rv, v, pd)))"

definition uper_open_type_get :: "(nat \<Rightarrow> bool) \<Rightarrow> 'v per_type_decoder \<Rightarrow> 'v per_type_decoder" where
  "uper_open_type_get realloc_ok decode sptr pd =
    Option.bind (uper_open_chunks realloc_ok [] 0 pd) (\<lambda>(code, buf, pd).
      if code \<noteq> RC_OK then Some ((code, 0), sptr, pd)
      else Option.bind (open_type_decode decode sptr buf) (\<lambda>(rv, v). Some (rv, v, pd)))"

text \<open>Skipping decodes the octets with a decoder that takes every bit and stores nothing.\<close>

partial_function (option) suck_bits :: "asn_bit_data \<Rightarrow> asn_bit_data option" where
  "suck_bits pd = Option.bind (asn_get_few_bits 1 pd) (\<lambda>(b, pd). if 0 \<le> b then suck_bits pd else Some pd)"

declare suck_bits.simps [code]

definition uper_sot_suck :: "unit per_type_decoder" where
  "uper_sot_suck sptr pd = Option.bind (suck_bits pd) (\<lambda>pd. Some ((RC_OK, unat (pd_moved pd)), sptr, pd))"

definition aper_open_type_skip :: "(nat \<Rightarrow> bool) \<Rightarrow> asn_bit_data \<Rightarrow> (int \<times> asn_bit_data) option" where
  "aper_open_type_skip realloc_ok pd =
    Option.bind (aper_open_type_get realloc_ok uper_sot_suck None pd) (\<lambda>((code, _), _, pd).
      Some (if code \<noteq> RC_OK then - 1 else 0, pd))"

definition uper_open_type_skip :: "(nat \<Rightarrow> bool) \<Rightarrow> asn_bit_data \<Rightarrow> (int \<times> asn_bit_data) option" where
  "uper_open_type_skip realloc_ok pd =
    Option.bind (uper_open_type_get realloc_ok uper_sot_suck None pd) (\<lambda>((code, _), _, pd).
      Some (if code \<noteq> RC_OK then - 1 else 0, pd))"

end
