(* ===== verification/Per_Primitive.thy ===== *)
theory Per_Primitive
  imports Per_Decoder
begin

unbundle bit_operations_syntax

text \<open>
  The primitive types of messages in the packed encodings: \<open>BOOLEAN\<close>, \<open>NULL\<close>, and the native
  representations of \<open>INTEGER\<close> and \<open>ENUMERATED\<close> as a \<open>long\<close>. A decoder takes whether its own
  allocation succeeds, and what a new block holds where the code does not clear it.
\<close>

text \<open>The target of a decoder: the one it is given, or a new one.\<close>

definition target :: "bool \<Rightarrow> 'v \<Rightarrow> 'v option \<Rightarrow> 'v option" where
  "target alloc new sptr = (case sptr of None \<Rightarrow> if alloc then Some new else None | Some v \<Rightarrow> Some v)"

section \<open>BOOLEAN and NULL\<close>

definition BOOLEAN_decode_aper :: "bool \<Rightarrow> u32 \<Rightarrow> u32 per_type_decoder" where
  "BOOLEAN_decode_aper alloc fresh sptr pd =
    (case target alloc fresh sptr of None \<Rightarrow> Some ((RC_FAIL, 0), None, pd)
     | Some st \<Rightarrow> Option.bind (asn_get_few_bits 1 pd) (\<lambda>(b, pd).
         Some (if b = 1 then ((RC_OK, 1), Some 1, pd)
               else if b = 0 then ((RC_OK, 1), Some 0, pd)
               else ((RC_WMORE, 0), Some st, pd))))"

definition BOOLEAN_encode_aper :: "u32 option \<Rightarrow> 'k per_type_encoder" where
  "BOOLEAN_encode_aper sptr po =
    (case sptr of None \<Rightarrow> Some (- 1, po)
     | Some st \<Rightarrow> Option.bind (asn_put_few_bits po (if st \<noteq> 0 then 1 else 0) 1) (\<lambda>(r, po).
         Some (if r \<noteq> 0 then - 1 else 0, po)))"

definition NULL_decode_aper :: "bool \<Rightarrow> int per_type_decoder" where
  "NULL_decode_aper alloc sptr pd =
    (case target alloc 0 sptr of None \<Rightarrow> Some ((RC_FAIL, 0), None, pd)
     | Some st \<Rightarrow> Some ((RC_OK, 0), Some st, pd))"

definition NULL_encode_aper :: "int option \<Rightarrow> 'k per_type_encoder" where
  "NULL_encode_aper sptr po = Some (0, po)"

text \<open>Nothing in these types depends on the alignment: the unaligned functions have the same bodies.\<close>

definition BOOLEAN_decode_uper :: "bool \<Rightarrow> u32 \<Rightarrow> u32 per_type_decoder" where
  "BOOLEAN_decode_uper = BOOLEAN_decode_aper"

definition BOOLEAN_encode_uper :: "u32 option \<Rightarrow> 'k per_type_encoder" where
  "BOOLEAN_encode_uper = BOOLEAN_encode_aper"

definition NULL_decode_uper :: "bool \<Rightarrow> int per_type_decoder" where
  "NULL_decode_uper = NULL_decode_aper"

definition NULL_encode_uper :: "int option \<Rightarrow> 'k per_type_encoder" where
  "NULL_encode_uper = NULL_encode_aper"

section \<open>NativeInteger\<close>

text \<open>The number of a temporary structure, as a \<open>long\<close>.\<close>

definition native_of_INTEGER :: "asn_INTEGER_specifics option \<Rightarrow> INTEGER_t \<Rightarrow> (errno + int) option" where
  "native_of_INTEGER specs st =
    (if is_unsigned specs then Some (case asn_INTEGER2ulong (Some st) of Inl e \<Rightarrow> Inl e | Inr u \<Rightarrow> Inr (sint u))
     else asn_INTEGER2long (Some st))"

definition INTEGER_of_native :: "bool \<Rightarrow> asn_INTEGER_specifics option \<Rightarrow> int \<Rightarrow> errno + INTEGER_t" where
  "INTEGER_of_native malloc_ok specs native =
    (if is_unsigned specs then asn_ulong2INTEGER malloc_ok (Some None) (word_of_int native)
     else asn_long2INTEGER malloc_ok (Some None) native)"

text \<open>After the decoder of \<open>INTEGER\<close>; the temporary structure is always there.\<close>

definition store_native ::
  "asn_INTEGER_specifics option \<Rightarrow> int \<Rightarrow> integer_decoded \<Rightarrow> (asn_dec_rval \<times> int option \<times> asn_bit_data) option" where
  "store_native specs native decoded =
    Option.bind decoded (\<lambda>(code, tmpint, pd).
      if code = RC_OK then
        Option.bind tmpint (\<lambda>st. Option.bind (native_of_INTEGER specs st) (\<lambda>res.
          Some (case res of Inl _ \<Rightarrow> ((RC_FAIL, 0), Some native, pd) | Inr v \<Rightarrow> ((RC_OK, 0), Some v, pd))))
      else Some ((code, 0), Some native, pd))"

definition NativeInteger_decode_aper ::
  "bool \<Rightarrow> (nat \<Rightarrow> bool) \<Rightarrow> (nat \<Rightarrow> u8 list) \<Rightarrow> asn_INTEGER_specifics option \<Rightarrow> asn_per_constraint option \<Rightarrow>
    asn_per_constraint option \<Rightarrow> int per_type_decoder" where
  "NativeInteger_decode_aper alloc_native alloc fresh specs td_constraints constraints sptr pd =
    (case target alloc_native 0 sptr of None \<Rightarrow> Some ((RC_FAIL, 0), None, pd)
     | Some native \<Rightarrow>
         store_native specs native (INTEGER_decode_aper alloc fresh specs td_constraints constraints (Some None) pd))"

definition NativeInteger_decode_uper ::
  "bool \<Rightarrow> (nat \<Rightarrow> bool) \<Rightarrow> (nat \<Rightarrow> u8 list) \<Rightarrow> asn_INTEGER_specifics option \<Rightarrow> asn_per_constraint option \<Rightarrow>
    asn_per_constraint option \<Rightarrow> int per_type_decoder" where
  "NativeInteger_decode_uper alloc_native alloc fresh specs td_constraints constraints sptr pd =
    (case target alloc_native 0 sptr of None \<Rightarrow> Some ((RC_FAIL, 0), None, pd)
     | Some native \<Rightarrow>
         store_native specs native (INTEGER_decode_uper alloc fresh specs td_constraints constraints (Some None) pd))"

definition NativeInteger_encode_aper ::
  "bool \<Rightarrow> asn_INTEGER_specifics option \<Rightarrow> asn_per_constraint option \<Rightarrow> asn_per_constraint option \<Rightarrow>
    int option \<Rightarrow> 'k per_type_encoder" where
  "NativeInteger_encode_aper malloc_ok specs td_constraints constraints sptr po =
    (case sptr of None \<Rightarrow> Some (- 1, po)
     | Some native \<Rightarrow>
         (case INTEGER_of_native malloc_ok specs native of Inl _ \<Rightarrow> Some (- 1, po)
          | Inr st \<Rightarrow> INTEGER_encode_aper specs td_constraints constraints (Some st) po))"

definition NativeInteger_encode_uper ::
  "bool \<Rightarrow> asn_INTEGER_specifics option \<Rightarrow> asn_per_constraint option \<Rightarrow> asn_per_constraint option \<Rightarrow>
    int option \<Rightarrow> 'k per_type_encoder" where
  "NativeInteger_encode_uper malloc_ok specs td_constraints constraints sptr po =
    (case sptr of None \<Rightarrow> Some (- 1, po)
     | Some native \<Rightarrow>
         (case INTEGER_of_native malloc_ok specs native of Inl _ \<Rightarrow> Some (- 1, po)
          | Inr st \<Rightarrow> INTEGER_encode_uper specs td_constraints constraints (Some st) po))"

section \<open>NativeEnumerated\<close>

definition NativeEnumerated_compar_value2enum :: "asn_INTEGER_enum_map \<Rightarrow> asn_INTEGER_enum_map \<Rightarrow> int" where
  "NativeEnumerated_compar_value2enum a b =
    (if nat_value a = nat_value b then 0 else if nat_value a < nat_value b then - 1 else 1)"

text \<open>The position at which \<open>bsearch\<close> finds a value in the sorted table.\<close>

fun enum_index :: "asn_INTEGER_enum_map \<Rightarrow> asn_INTEGER_enum_map list \<Rightarrow> nat option" where
  "enum_index key [] = None" |
  "enum_index key (el # els) =
    (if NativeEnumerated_compar_value2enum key el = 0 then Some 0 else map_option Suc (enum_index key els))"

text \<open>The entry at an index of the table, the values of the root, and the constraint that applies.\<close>

definition enum_entry :: "asn_INTEGER_specifics \<Rightarrow> int \<Rightarrow> int option" where
  "enum_entry specs i =
    (if i < 0 then None else Option.bind (nth_opt (value2enum specs) (nat i)) (\<lambda>el. Some (nat_value el)))"

definition root_count :: "asn_INTEGER_specifics \<Rightarrow> int" where
  "root_count specs = (if extension specs \<noteq> 0 then extension specs - 1 else int (length (value2enum specs)))"

definition enum_constraint :: "asn_per_constraint option \<Rightarrow> asn_per_constraint option \<Rightarrow> asn_per_constraint option" where
  "enum_constraint td_constraints constraints = (case constraints of None \<Rightarrow> td_constraints | Some c \<Rightarrow> Some c)"

text \<open>An index of the root, or the code of a failure.\<close>

definition enum_get_root :: "asn_INTEGER_specifics \<Rightarrow> asn_per_constraint \<Rightarrow> asn_bit_data \<Rightarrow>
    ((asn_dec_rval_code + int) \<times> asn_bit_data) option" where
  "enum_get_root specs c pd =
    Option.bind (asn_get_few_bits (range_bits c) pd) (\<lambda>(v, pd).
      Some (if v < 0 then Inl RC_WMORE else if root_count specs \<le> v then Inl RC_FAIL else Inr v, pd))"

text \<open>The bit that tells whether the value is in the extension, and what follows.\<close>

definition enum_decode ::
  "bool \<Rightarrow> asn_INTEGER_specifics option \<Rightarrow> asn_per_constraint option \<Rightarrow>
    (asn_INTEGER_specifics \<Rightarrow> asn_per_constraint option \<Rightarrow> asn_bit_data \<Rightarrow> ((asn_dec_rval_code + int) \<times> asn_bit_data) option) \<Rightarrow>
    int per_type_decoder" where
  "enum_decode alloc specs ct cont sptr pd =
    (case (ct, specs) of
       (Some c, Some sp) \<Rightarrow>
         (case target alloc 0 sptr of None \<Rightarrow> Some ((RC_FAIL, 0), None, pd)
          | Some native \<Rightarrow>
              Option.bind
                (if flags c AND APC_EXTENSIBLE \<noteq> 0 then
                   Option.bind (asn_get_few_bits 1 pd) (\<lambda>(inext, pd).
                     Some (if inext < 0 then Inl RC_WMORE else Inr (if inext \<noteq> 0 then None else Some c), pd))
                 else Some (Inr (Some c), pd)) (\<lambda>(ct, pd).
              Option.bind (case ct of Inl code \<Rightarrow> Some (Inl code, pd) | Inr ct \<Rightarrow> cont sp ct pd) (\<lambda>(res, pd).
                Some (case res of Inl code \<Rightarrow> ((code, 0), Some native, pd) | Inr v \<Rightarrow> ((RC_OK, 0), Some v, pd)))))
     | _ \<Rightarrow> Some ((RC_FAIL, 0), sptr, pd))"

text \<open>
  In the aligned variant a type with 256 values or more is preceded by padding, and an unknown
  value of the extension stands for the first one of the table.
\<close>

definition enum_get_aper :: "asn_INTEGER_specifics \<Rightarrow> asn_per_constraint option \<Rightarrow> asn_bit_data \<Rightarrow>
    ((asn_dec_rval_code + int) \<times> asn_bit_data) option" where
  "enum_get_aper specs ct pd =
    (let entry = (\<lambda>v pd. Option.bind (enum_entry specs v) (\<lambda>n. Some (Inr n, pd)));
         padding = (8 - uint (pd_moved pd) mod 8) mod 8;
         extended = (\<lambda>pd.
           if extension specs = 0 then Some (Inl RC_FAIL, pd)
           else Option.bind (aper_get_nsnnwn pd) (\<lambda>(v, pd).
             if v < 0 then Some (Inl RC_WMORE, pd)
             else
               let v = v + (extension specs - 1) in
               if int (length (value2enum specs)) \<le> v then entry 0 pd else entry v pd))
     in
     case ct of None \<Rightarrow> extended pd
     | Some c \<Rightarrow>
         Option.bind (if 255 \<le> upper_bound c \<and> 0 < padding
                      then Option.bind (asn_get_few_bits padding pd) (\<lambda>(_, pd). Some pd) else Some pd) (\<lambda>pd.
           if 0 \<le> range_bits c then
             Option.bind (enum_get_root specs c pd) (\<lambda>(res, pd).
               case res of Inl code \<Rightarrow> Some (Inl code, pd) | Inr v \<Rightarrow> entry v pd)
           else extended pd))"

definition enum_get_uper :: "asn_INTEGER_specifics \<Rightarrow> asn_per_constraint option \<Rightarrow> asn_bit_data \<Rightarrow>
    ((asn_dec_rval_code + int) \<times> asn_bit_data) option" where
  "enum_get_uper specs ct pd =
    (let entry = (\<lambda>v pd. Option.bind (enum_entry specs v) (\<lambda>n. Some (Inr n, pd)));
         extended = (\<lambda>pd.
           if extension specs = 0 then Some (Inl RC_FAIL, pd)
           else Option.bind (uper_get_nsnnwn pd) (\<lambda>(v, pd).
             if v < 0 then Some (Inl RC_WMORE, pd)
             else
               let v = v + (extension specs - 1) in
               if int (length (value2enum specs)) \<le> v then Some (Inl RC_FAIL, pd) else entry v pd))
     in
     case ct of None \<Rightarrow> extended pd
     | Some c \<Rightarrow>
         if 0 \<le> range_bits c then
           Option.bind (enum_get_root specs c pd) (\<lambda>(res, pd).
             case res of Inl code \<Rightarrow> Some (Inl code, pd) | Inr v \<Rightarrow> entry v pd)
         else extended pd)"

definition NativeEnumerated_decode_aper ::
  "bool \<Rightarrow> asn_INTEGER_specifics option \<Rightarrow> asn_per_constraint option \<Rightarrow> asn_per_constraint option \<Rightarrow>
    int per_type_decoder" where
  "NativeEnumerated_decode_aper alloc specs td_constraints constraints =
    enum_decode alloc specs (enum_constraint td_constraints constraints) enum_get_aper"

definition NativeEnumerated_decode_uper ::
  "bool \<Rightarrow> asn_INTEGER_specifics option \<Rightarrow> asn_per_constraint option \<Rightarrow> asn_per_constraint option \<Rightarrow>
    int per_type_decoder" where
  "NativeEnumerated_decode_uper alloc specs td_constraints constraints =
    enum_decode alloc specs (enum_constraint td_constraints constraints) enum_get_uper"

text \<open>
  Writing the index of a value: the extension bit, then the bits of the range, or a normally small
  number beyond the root.
\<close>

definition enum_put ::
  "('k asn_bit_outp \<Rightarrow> int \<Rightarrow> (int \<times> 'k asn_bit_outp) option) \<Rightarrow> asn_INTEGER_specifics \<Rightarrow> asn_per_constraint \<Rightarrow>
    int \<Rightarrow> 'k per_type_encoder" where
  "enum_put put_nsnnwn specs c v po =
    (let inext = (0 \<le> range_bits c \<and> root_count specs \<le> v);
         result = (\<lambda>(r, po). Some (if r \<noteq> 0 then - 1 else 0, po));
         body = (\<lambda>in_root po.
           if in_root \<and> 0 \<le> range_bits c then
             Option.bind (asn_put_few_bits po (word_of_int v) (range_bits c)) result
           else if extension specs = 0 then Some (- 1, po)
           else Option.bind (put_nsnnwn po (v - (if inext then extension specs - 1 else 0))) result)
     in
     if flags c AND APC_EXTENSIBLE \<noteq> 0 then
       Option.bind (asn_put_few_bits po (of_bool inext) 1) (\<lambda>(r, po).
         if r \<noteq> 0 then Some (- 1, po) else body (\<not> inext) po)
     else if inext then Some (- 1, po)
     else body True po)"

definition NativeEnumerated_encode_aper ::
  "asn_INTEGER_specifics option \<Rightarrow> asn_per_constraint option \<Rightarrow> asn_per_constraint option \<Rightarrow> int option \<Rightarrow>
    'k per_type_encoder" where
  "NativeEnumerated_encode_aper specs td_constraints constraints sptr po =
    (case (sptr, specs, enum_constraint td_constraints constraints) of
       (Some native, Some sp, Some c) \<Rightarrow>
         if native < 0 then Some (- 1, po)
         else (case enum_index \<lparr>nat_value = native, enum_name = []\<rparr> (value2enum sp) of None \<Rightarrow> Some (- 1, po)
               | Some i \<Rightarrow> enum_put aper_put_nsnnwn sp c (int i) po)
     | _ \<Rightarrow> Some (- 1, po))"

definition NativeEnumerated_encode_uper ::
  "asn_INTEGER_specifics option \<Rightarrow> asn_per_constraint option \<Rightarrow> asn_per_constraint option \<Rightarrow> int option \<Rightarrow>
    'k per_type_encoder" where
  "NativeEnumerated_encode_uper specs td_constraints constraints sptr po =
    (case (sptr, specs, enum_constraint td_constraints constraints) of
       (Some native, Some sp, Some c) \<Rightarrow>
         (case enum_index \<lparr>nat_value = native, enum_name = []\<rparr> (value2enum sp) of None \<Rightarrow> Some (- 1, po)
          | Some i \<Rightarrow> enum_put uper_put_nsnnwn sp c (int i) po)
     | _ \<Rightarrow> Some (- 1, po))"

end
