(* ===== verification/E2ap_Tables.thy ===== *)
theory E2ap_Tables
  imports Per_Primitive
begin

unbundle bit_operations_syntax

text \<open>
  The generated tables of the enumerations and numbers of E2AP: the constraint on the value, the
  names with their numbers in ascending order, and the specifics that the codecs read.
\<close>

section \<open>Enumerations\<close>

definition asn_PER_type_Criticality_constr :: asn_per_constraint where
  "asn_PER_type_Criticality_constr =
    \<lparr>flags = APC_CONSTRAINED, range_bits = 2, effective_bits = 2, lower_bound = 0, upper_bound = 2\<rparr>"

definition asn_MAP_Criticality_value2enum :: "asn_INTEGER_enum_map list" where
  "asn_MAP_Criticality_value2enum =
    [\<lparr>nat_value = 0, enum_name = ''reject''\<rparr>,
     \<lparr>nat_value = 1, enum_name = ''ignore''\<rparr>,
     \<lparr>nat_value = 2, enum_name = ''notify''\<rparr>]"

definition asn_SPC_Criticality_specs :: asn_INTEGER_specifics where
  "asn_SPC_Criticality_specs = \<lparr>value2enum = asn_MAP_Criticality_value2enum, extension = 0, field_unsigned = False\<rparr>"

definition asn_PER_type_Presence_constr :: asn_per_constraint where
  "asn_PER_type_Presence_constr =
    \<lparr>flags = APC_CONSTRAINED, range_bits = 2, effective_bits = 2, lower_bound = 0, upper_bound = 2\<rparr>"

definition asn_MAP_Presence_value2enum :: "asn_INTEGER_enum_map list" where
  "asn_MAP_Presence_value2enum =
    [\<lparr>nat_value = 0, enum_name = ''optional''\<rparr>,
     \<lparr>nat_value = 1, enum_name = ''conditional''\<rparr>,
     \<lparr>nat_value = 2, enum_name = ''mandatory''\<rparr>]"

definition asn_SPC_Presence_specs :: asn_INTEGER_specifics where
  "asn_SPC_Presence_specs = \<lparr>value2enum = asn_MAP_Presence_value2enum, extension = 0, field_unsigned = False\<rparr>"

definition asn_PER_type_TriggeringMessage_constr :: asn_per_constraint where
  "asn_PER_type_TriggeringMessage_constr =
    \<lparr>flags = APC_CONSTRAINED, range_bits = 2, effective_bits = 2, lower_bound = 0, upper_bound = 2\<rparr>"

definition asn_MAP_TriggeringMessage_value2enum :: "asn_INTEGER_enum_map list" where
  "asn_MAP_TriggeringMessage_value2enum =
    [\<lparr>nat_value = 0, enum_name = ''initiating-message''\<rparr>,
     \<lparr>nat_value = 1, enum_name = ''successful-outcome''\<rparr>,
     \<lparr>nat_value = 2, enum_name = ''unsuccessfull-outcome''\<rparr>]"

definition asn_SPC_TriggeringMessage_specs :: asn_INTEGER_specifics where
  "asn_SPC_TriggeringMessage_specs = \<lparr>value2enum = asn_MAP_TriggeringMessage_value2enum, extension = 0, field_unsigned = False\<rparr>"

definition asn_PER_type_TypeOfError_constr :: asn_per_constraint where
  "asn_PER_type_TypeOfError_constr =
    \<lparr>flags = APC_CONSTRAINED OR APC_EXTENSIBLE, range_bits = 1, effective_bits = 1, lower_bound = 0, upper_bound = 1\<rparr>"

definition asn_MAP_TypeOfError_value2enum :: "asn_INTEGER_enum_map list" where
  "asn_MAP_TypeOfError_value2enum =
    [\<lparr>nat_value = 0, enum_name = ''not-understood''\<rparr>,
     \<lparr>nat_value = 1, enum_name = ''missing''\<rparr>]"

definition asn_SPC_TypeOfError_specs :: asn_INTEGER_specifics where
  "asn_SPC_TypeOfError_specs = \<lparr>value2enum = asn_MAP_TypeOfError_value2enum, extension = 3, field_unsigned = False\<rparr>"

definition asn_PER_type_CauseMisc_constr :: asn_per_constraint where
  "asn_PER_type_CauseMisc_constr =
    \<lparr>flags = APC_CONSTRAINED OR APC_EXTENSIBLE, range_bits = 2, effective_bits = 2, lower_bound = 0, upper_bound = 3\<rparr>"

definition asn_MAP_CauseMisc_value2enum :: "asn_INTEGER_enum_map list" where
  "asn_MAP_CauseMisc_value2enum =
    [\<lparr>nat_value = 0, enum_name = ''control-processing-overload''\<rparr>,
     \<lparr>nat_value = 1, enum_name = ''hardware-failure''\<rparr>,
     \<lparr>nat_value = 2, enum_name = ''om-intervention''\<rparr>,
     \<lparr>nat_value = 3, enum_name = ''unspecified''\<rparr>]"

definition asn_SPC_CauseMisc_specs :: asn_INTEGER_specifics where
  "asn_SPC_CauseMisc_specs = \<lparr>value2enum = asn_MAP_CauseMisc_value2enum, extension = 5, field_unsigned = False\<rparr>"

definition asn_PER_type_CauseProtocol_constr :: asn_per_constraint where
  "asn_PER_type_CauseProtocol_constr =
    \<lparr>flags = APC_CONSTRAINED OR APC_EXTENSIBLE, range_bits = 3, effective_bits = 3, lower_bound = 0, upper_bound = 6\<rparr>"

definition asn_MAP_CauseProtocol_value2enum :: "asn_INTEGER_enum_map list" where
  "asn_MAP_CauseProtocol_value2enum =
    [\<lparr>nat_value = 0, enum_name = ''transfer-syntax-error''\<rparr>,
     \<lparr>nat_value = 1, enum_name = ''abstract-syntax-error-reject''\<rparr>,
     \<lparr>nat_value = 2, enum_name = ''abstract-syntax-error-ignore-and-notify''\<rparr>,
     \<lparr>nat_value = 3, enum_name = ''message-not-compatible-with-receiver-state''\<rparr>,
     \<lparr>nat_value = 4, enum_name = ''semantic-error''\<rparr>,
     \<lparr>nat_value = 5, enum_name = ''abstract-syntax-error-falsely-constructed-message''\<rparr>,
     \<lparr>nat_value = 6, enum_name = ''unspecified''\<rparr>]"

definition asn_SPC_CauseProtocol_specs :: asn_INTEGER_specifics where
  "asn_SPC_CauseProtocol_specs = \<lparr>value2enum = asn_MAP_CauseProtocol_value2enum, extension = 8, field_unsigned = False\<rparr>"

definition asn_PER_type_CauseRIC_constr :: asn_per_constraint where
  "asn_PER_type_CauseRIC_constr =
    \<lparr>flags = APC_CONSTRAINED OR APC_EXTENSIBLE, range_bits = 4, effective_bits = 4, lower_bound = 0, upper_bound = 10\<rparr>"

definition asn_MAP_CauseRIC_value2enum :: "asn_INTEGER_enum_map list" where
  "asn_MAP_CauseRIC_value2enum =
    [\<lparr>nat_value = 0, enum_name = ''ran-function-id-Invalid''\<rparr>,
     \<lparr>nat_value = 1, enum_name = ''action-not-supported''\<rparr>,
     \<lparr>nat_value = 2, enum_name = ''excessive-actions''\<rparr>,
     \<lparr>nat_value = 3, enum_name = ''duplicate-action''\<rparr>,
     \<lparr>nat_value = 4, enum_name = ''duplicate-event''\<rparr>,
     \<lparr>nat_value = 5, enum_name = ''function-resource-limit''\<rparr>,
     \<lparr>nat_value = 6, enum_name = ''request-id-unknown''\<rparr>,
     \<lparr>nat_value = 7, enum_name = ''inconsistent-action-subsequent-action-sequence''\<rparr>,
     \<lparr>nat_value = 8, enum_name = ''control-message-invalid''\<rparr>,
     \<lparr>nat_value = 9, enum_name = ''call-process-id-invalid''\<rparr>,
     \<lparr>nat_value = 10, enum_name = ''unspecified''\<rparr>]"

definition asn_SPC_CauseRIC_specs :: asn_INTEGER_specifics where
  "asn_SPC_CauseRIC_specs = \<lparr>value2enum = asn_MAP_CauseRIC_value2enum, extension = 12, field_unsigned = False\<rparr>"

definition asn_PER_type_CauseRICservice_constr :: asn_per_constraint where
  "asn_PER_type_CauseRICservice_constr =
    \<lparr>flags = APC_CONSTRAINED OR APC_EXTENSIBLE, range_bits = 2, effective_bits = 2, lower_bound = 0, upper_bound = 2\<rparr>"

definition asn_MAP_CauseRICservice_value2enum :: "asn_INTEGER_enum_map list" where
  "asn_MAP_CauseRICservice_value2enum =
    [\<lparr>nat_value = 0, enum_name = ''function-not-required''\<rparr>,
     \<lparr>nat_value = 1, enum_name = ''excessive-functions''\<rparr>,
     \<lparr>nat_value = 2, enum_name = ''ric-resource-limit''\<rparr>]"

definition asn_SPC_CauseRICservice_specs :: asn_INTEGER_specifics where
  "asn_SPC_CauseRICservice_specs = \<lparr>value2enum = asn_MAP_CauseRICservice_value2enum, extension = 4, field_unsigned = False\<rparr>"

definition asn_PER_type_CauseTransport_constr :: asn_per_constraint where
  "asn_PER_type_CauseTransport_constr =
    \<lparr>flags = APC_CONSTRAINED OR APC_EXTENSIBLE, range_bits = 1, effective_bits = 1, lower_bound = 0, upper_bound = 1\<rparr>"

definition asn_MAP_CauseTransport_value2enum :: "asn_INTEGER_enum_map list" where
  "asn_MAP_CauseTransport_value2enum =
    [\<lparr>nat_value = 0, enum_name = ''unspecified''\<rparr>,
     \<lparr>nat_value = 1, enum_name = ''transport-resource-unavailable''\<rparr>]"

definition asn_SPC_CauseTransport_specs :: asn_INTEGER_specifics where
  "asn_SPC_CauseTransport_specs = \<lparr>value2enum = asn_MAP_CauseTransport_value2enum, extension = 3, field_unsigned = False\<rparr>"

definition asn_PER_type_RICactionType_constr :: asn_per_constraint where
  "asn_PER_type_RICactionType_constr =
    \<lparr>flags = APC_CONSTRAINED OR APC_EXTENSIBLE, range_bits = 2, effective_bits = 2, lower_bound = 0, upper_bound = 2\<rparr>"

definition asn_MAP_RICactionType_value2enum :: "asn_INTEGER_enum_map list" where
  "asn_MAP_RICactionType_value2enum =
    [\<lparr>nat_value = 0, enum_name = ''report''\<rparr>,
     \<lparr>nat_value = 1, enum_name = ''insert''\<rparr>,
     \<lparr>nat_value = 2, enum_name = ''policy''\<rparr>]"

definition asn_SPC_RICactionType_specs :: asn_INTEGER_specifics where
  "asn_SPC_RICactionType_specs = \<lparr>value2enum = asn_MAP_RICactionType_value2enum, extension = 4, field_unsigned = False\<rparr>"

definition asn_PER_type_RICsubsequentActionType_constr :: asn_per_constraint where
  "asn_PER_type_RICsubsequentActionType_constr =
    \<lparr>flags = APC_CONSTRAINED OR APC_EXTENSIBLE, range_bits = 1, effective_bits = 1, lower_bound = 0, upper_bound = 1\<rparr>"

definition asn_MAP_RICsubsequentActionType_value2enum :: "asn_INTEGER_enum_map list" where
  "asn_MAP_RICsubsequentActionType_value2enum =
    [\<lparr>nat_value = 0, enum_name = ''continue''\<rparr>,
     \<lparr>nat_value = 1, enum_name = ''wait''\<rparr>]"

definition asn_SPC_RICsubsequentActionType_specs :: asn_INTEGER_specifics where
  "asn_SPC_RICsubsequentActionType_specs = \<lparr>value2enum = asn_MAP_RICsubsequentActionType_value2enum, extension = 3, field_unsigned = False\<rparr>"

definition asn_PER_type_RICtimeToWait_constr :: asn_per_constraint where
  "asn_PER_type_RICtimeToWait_constr =
    \<lparr>flags = APC_CONSTRAINED OR APC_EXTENSIBLE, range_bits = 5, effective_bits = 5, lower_bound = 0, upper_bound = 17\<rparr>"

definition asn_MAP_RICtimeToWait_value2enum :: "asn_INTEGER_enum_map list" where
  "asn_MAP_RICtimeToWait_value2enum =
    [\<lparr>nat_value = 0, enum_name = ''zero''\<rparr>,
     \<lparr>nat_value = 1, enum_name = ''w1ms''\<rparr>,
     \<lparr>nat_value = 2, enum_name = ''w2ms''\<rparr>,
     \<lparr>nat_value = 3, enum_name = ''w5ms''\<rparr>,
     \<lparr>nat_value = 4, enum_name = ''w10ms''\<rparr>,
     \<lparr>nat_value = 5, enum_name = ''w20ms''\<rparr>,
     \<lparr>nat_value = 6, enum_name = ''w30ms''\<rparr>,
     \<lparr>nat_value = 7, enum_name = ''w40ms''\<rparr>,
     \<lparr>nat_value = 8, enum_name = ''w50ms''\<rparr>,
     \<lparr>nat_value = 9, enum_name = ''w100ms''\<rparr>,
     \<lparr>nat_value = 10, enum_name = ''w200ms''\<rparr>,
     \<lparr>nat_value = 11, enum_name = ''w500ms''\<rparr>,
     \<lparr>nat_value = 12, enum_name = ''w1s''\<rparr>,
     \<lparr>nat_value = 13, enum_name = ''w2s''\<rparr>,
     \<lparr>nat_value = 14, enum_name = ''w5s''\<rparr>,
     \<lparr>nat_value = 15, enum_name = ''w10s''\<rparr>,
     \<lparr>nat_value = 16, enum_name = ''w20s''\<rparr>,
     \<lparr>nat_value = 17, enum_name = ''w60s''\<rparr>]"

definition asn_SPC_RICtimeToWait_specs :: asn_INTEGER_specifics where
  "asn_SPC_RICtimeToWait_specs = \<lparr>value2enum = asn_MAP_RICtimeToWait_value2enum, extension = 19, field_unsigned = False\<rparr>"

definition asn_PER_type_TimeToWait_constr :: asn_per_constraint where
  "asn_PER_type_TimeToWait_constr =
    \<lparr>flags = APC_CONSTRAINED OR APC_EXTENSIBLE, range_bits = 3, effective_bits = 3, lower_bound = 0, upper_bound = 5\<rparr>"

definition asn_MAP_TimeToWait_value2enum :: "asn_INTEGER_enum_map list" where
  "asn_MAP_TimeToWait_value2enum =
    [\<lparr>nat_value = 0, enum_name = ''v1s''\<rparr>,
     \<lparr>nat_value = 1, enum_name = ''v2s''\<rparr>,
     \<lparr>nat_value = 2, enum_name = ''v5s''\<rparr>,
     \<lparr>nat_value = 3, enum_name = ''v10s''\<rparr>,
     \<lparr>nat_value = 4, enum_name = ''v20s''\<rparr>,
     \<lparr>nat_value = 5, enum_name = ''v60s''\<rparr>]"

definition asn_SPC_TimeToWait_specs :: asn_INTEGER_specifics where
  "asn_SPC_TimeToWait_specs = \<lparr>value2enum = asn_MAP_TimeToWait_value2enum, extension = 7, field_unsigned = False\<rparr>"

definition asn_PER_type_RICindicationType_constr :: asn_per_constraint where
  "asn_PER_type_RICindicationType_constr =
    \<lparr>flags = APC_CONSTRAINED OR APC_EXTENSIBLE, range_bits = 1, effective_bits = 1, lower_bound = 0, upper_bound = 1\<rparr>"

definition asn_MAP_RICindicationType_value2enum :: "asn_INTEGER_enum_map list" where
  "asn_MAP_RICindicationType_value2enum =
    [\<lparr>nat_value = 0, enum_name = ''report''\<rparr>,
     \<lparr>nat_value = 1, enum_name = ''insert''\<rparr>]"

definition asn_SPC_RICindicationType_specs :: asn_INTEGER_specifics where
  "asn_SPC_RICindicationType_specs = \<lparr>value2enum = asn_MAP_RICindicationType_value2enum, extension = 3, field_unsigned = False\<rparr>"

definition asn_PER_type_RICcontrolAckRequest_constr :: asn_per_constraint where
  "asn_PER_type_RICcontrolAckRequest_constr =
    \<lparr>flags = APC_CONSTRAINED OR APC_EXTENSIBLE, range_bits = 2, effective_bits = 2, lower_bound = 0, upper_bound = 2\<rparr>"

definition asn_MAP_RICcontrolAckRequest_value2enum :: "asn_INTEGER_enum_map list" where
  "asn_MAP_RICcontrolAckRequest_value2enum =
    [\<lparr>nat_value = 0, enum_name = ''noAck''\<rparr>,
     \<lparr>nat_value = 1, enum_name = ''ack''\<rparr>,
     \<lparr>nat_value = 2, enum_name = ''nAck''\<rparr>]"

definition asn_SPC_RICcontrolAckRequest_specs :: asn_INTEGER_specifics where
  "asn_SPC_RICcontrolAckRequest_specs = \<lparr>value2enum = asn_MAP_RICcontrolAckRequest_value2enum, extension = 4, field_unsigned = False\<rparr>"

definition asn_PER_type_RICcontrolStatus_constr :: asn_per_constraint where
  "asn_PER_type_RICcontrolStatus_constr =
    \<lparr>flags = APC_CONSTRAINED OR APC_EXTENSIBLE, range_bits = 2, effective_bits = 2, lower_bound = 0, upper_bound = 2\<rparr>"

definition asn_MAP_RICcontrolStatus_value2enum :: "asn_INTEGER_enum_map list" where
  "asn_MAP_RICcontrolStatus_value2enum =
    [\<lparr>nat_value = 0, enum_name = ''success''\<rparr>,
     \<lparr>nat_value = 1, enum_name = ''rejected''\<rparr>,
     \<lparr>nat_value = 2, enum_name = ''failed''\<rparr>]"

definition asn_SPC_RICcontrolStatus_specs :: asn_INTEGER_specifics where
  "asn_SPC_RICcontrolStatus_specs = \<lparr>value2enum = asn_MAP_RICcontrolStatus_value2enum, extension = 4, field_unsigned = False\<rparr>"

definition asn_PER_type_TNLusage_constr :: asn_per_constraint where
  "asn_PER_type_TNLusage_constr =
    \<lparr>flags = APC_CONSTRAINED OR APC_EXTENSIBLE, range_bits = 2, effective_bits = 2, lower_bound = 0, upper_bound = 2\<rparr>"

definition asn_MAP_TNLusage_value2enum :: "asn_INTEGER_enum_map list" where
  "asn_MAP_TNLusage_value2enum =
    [\<lparr>nat_value = 0, enum_name = ''ric-service''\<rparr>,
     \<lparr>nat_value = 1, enum_name = ''support-function''\<rparr>,
     \<lparr>nat_value = 2, enum_name = ''both''\<rparr>]"

definition asn_SPC_TNLusage_specs :: asn_INTEGER_specifics where
  "asn_SPC_TNLusage_specs = \<lparr>value2enum = asn_MAP_TNLusage_value2enum, extension = 4, field_unsigned = False\<rparr>"

definition asn_PER_type_E2nodeComponentType_constr :: asn_per_constraint where
  "asn_PER_type_E2nodeComponentType_constr =
    \<lparr>flags = APC_CONSTRAINED OR APC_EXTENSIBLE, range_bits = 3, effective_bits = 3, lower_bound = 0, upper_bound = 5\<rparr>"

definition asn_MAP_E2nodeComponentType_value2enum :: "asn_INTEGER_enum_map list" where
  "asn_MAP_E2nodeComponentType_value2enum =
    [\<lparr>nat_value = 0, enum_name = ''gNB''\<rparr>,
     \<lparr>nat_value = 1, enum_name = ''gNB-CU-UP''\<rparr>,
     \<lparr>nat_value = 2, enum_name = ''gNB-DU''\<rparr>,
     \<lparr>nat_value = 3, enum_name = ''en-gNB''\<rparr>,
     \<lparr>nat_value = 4, enum_name = ''eNB''\<rparr>,
     \<lparr>nat_value = 5, enum_name = ''ng-eNB''\<rparr>]"

definition asn_SPC_E2nodeComponentType_specs :: asn_INTEGER_specifics where
  "asn_SPC_E2nodeComponentType_specs = \<lparr>value2enum = asn_MAP_E2nodeComponentType_value2enum, extension = 7, field_unsigned = False\<rparr>"

section \<open>Numbers\<close>

definition asn_PER_type_ProcedureCode_constr :: asn_per_constraint where
  "asn_PER_type_ProcedureCode_constr =
    \<lparr>flags = APC_CONSTRAINED, range_bits = 8, effective_bits = 8, lower_bound = 0, upper_bound = 255\<rparr>"

definition asn_PER_type_ProtocolIE_ID_constr :: asn_per_constraint where
  "asn_PER_type_ProtocolIE_ID_constr =
    \<lparr>flags = APC_CONSTRAINED, range_bits = 16, effective_bits = 16, lower_bound = 0, upper_bound = 65535\<rparr>"

definition asn_PER_type_RANfunctionID_constr :: asn_per_constraint where
  "asn_PER_type_RANfunctionID_constr =
    \<lparr>flags = APC_CONSTRAINED, range_bits = 12, effective_bits = 12, lower_bound = 0, upper_bound = 4095\<rparr>"

definition asn_PER_type_RANfunctionRevision_constr :: asn_per_constraint where
  "asn_PER_type_RANfunctionRevision_constr =
    \<lparr>flags = APC_CONSTRAINED, range_bits = 12, effective_bits = 12, lower_bound = 0, upper_bound = 4095\<rparr>"

definition asn_PER_type_RICactionID_constr :: asn_per_constraint where
  "asn_PER_type_RICactionID_constr =
    \<lparr>flags = APC_CONSTRAINED, range_bits = 8, effective_bits = 8, lower_bound = 0, upper_bound = 255\<rparr>"

definition asn_PER_type_RICindicationSN_constr :: asn_per_constraint where
  "asn_PER_type_RICindicationSN_constr =
    \<lparr>flags = APC_CONSTRAINED, range_bits = 16, effective_bits = 16, lower_bound = 0, upper_bound = 65535\<rparr>"

section \<open>All of them\<close>

definition e2ap_enumerations :: "(asn_INTEGER_specifics \<times> asn_per_constraint) list" where
  "e2ap_enumerations =
    [(asn_SPC_Criticality_specs, asn_PER_type_Criticality_constr),
     (asn_SPC_Presence_specs, asn_PER_type_Presence_constr),
     (asn_SPC_TriggeringMessage_specs, asn_PER_type_TriggeringMessage_constr),
     (asn_SPC_TypeOfError_specs, asn_PER_type_TypeOfError_constr),
     (asn_SPC_CauseMisc_specs, asn_PER_type_CauseMisc_constr),
     (asn_SPC_CauseProtocol_specs, asn_PER_type_CauseProtocol_constr),
     (asn_SPC_CauseRIC_specs, asn_PER_type_CauseRIC_constr),
     (asn_SPC_CauseRICservice_specs, asn_PER_type_CauseRICservice_constr),
     (asn_SPC_CauseTransport_specs, asn_PER_type_CauseTransport_constr),
     (asn_SPC_RICactionType_specs, asn_PER_type_RICactionType_constr),
     (asn_SPC_RICsubsequentActionType_specs, asn_PER_type_RICsubsequentActionType_constr),
     (asn_SPC_RICtimeToWait_specs, asn_PER_type_RICtimeToWait_constr),
     (asn_SPC_TimeToWait_specs, asn_PER_type_TimeToWait_constr),
     (asn_SPC_RICindicationType_specs, asn_PER_type_RICindicationType_constr),
     (asn_SPC_RICcontrolAckRequest_specs, asn_PER_type_RICcontrolAckRequest_constr),
     (asn_SPC_RICcontrolStatus_specs, asn_PER_type_RICcontrolStatus_constr),
     (asn_SPC_TNLusage_specs, asn_PER_type_TNLusage_constr),
     (asn_SPC_E2nodeComponentType_specs, asn_PER_type_E2nodeComponentType_constr)]"

definition e2ap_numbers :: "asn_per_constraint list" where
  "e2ap_numbers =
    [asn_PER_type_ProcedureCode_constr,
     asn_PER_type_ProtocolIE_ID_constr,
     asn_PER_type_RANfunctionID_constr,
     asn_PER_type_RANfunctionRevision_constr,
     asn_PER_type_RICactionID_constr,
     asn_PER_type_RICindicationSN_constr]"

lemmas e2ap_constraints =
  asn_PER_type_Criticality_constr_def
  asn_PER_type_Presence_constr_def
  asn_PER_type_TriggeringMessage_constr_def
  asn_PER_type_TypeOfError_constr_def
  asn_PER_type_CauseMisc_constr_def
  asn_PER_type_CauseProtocol_constr_def
  asn_PER_type_CauseRIC_constr_def
  asn_PER_type_CauseRICservice_constr_def
  asn_PER_type_CauseTransport_constr_def
  asn_PER_type_RICactionType_constr_def
  asn_PER_type_RICsubsequentActionType_constr_def
  asn_PER_type_RICtimeToWait_constr_def
  asn_PER_type_TimeToWait_constr_def
  asn_PER_type_RICindicationType_constr_def
  asn_PER_type_RICcontrolAckRequest_constr_def
  asn_PER_type_RICcontrolStatus_constr_def
  asn_PER_type_TNLusage_constr_def
  asn_PER_type_E2nodeComponentType_constr_def
  asn_PER_type_ProcedureCode_constr_def
  asn_PER_type_ProtocolIE_ID_constr_def
  asn_PER_type_RANfunctionID_constr_def
  asn_PER_type_RANfunctionRevision_constr_def
  asn_PER_type_RICactionID_constr_def
  asn_PER_type_RICindicationSN_constr_def

lemmas e2ap_specifics =
  asn_SPC_Criticality_specs_def asn_MAP_Criticality_value2enum_def
  asn_SPC_Presence_specs_def asn_MAP_Presence_value2enum_def
  asn_SPC_TriggeringMessage_specs_def asn_MAP_TriggeringMessage_value2enum_def
  asn_SPC_TypeOfError_specs_def asn_MAP_TypeOfError_value2enum_def
  asn_SPC_CauseMisc_specs_def asn_MAP_CauseMisc_value2enum_def
  asn_SPC_CauseProtocol_specs_def asn_MAP_CauseProtocol_value2enum_def
  asn_SPC_CauseRIC_specs_def asn_MAP_CauseRIC_value2enum_def
  asn_SPC_CauseRICservice_specs_def asn_MAP_CauseRICservice_value2enum_def
  asn_SPC_CauseTransport_specs_def asn_MAP_CauseTransport_value2enum_def
  asn_SPC_RICactionType_specs_def asn_MAP_RICactionType_value2enum_def
  asn_SPC_RICsubsequentActionType_specs_def asn_MAP_RICsubsequentActionType_value2enum_def
  asn_SPC_RICtimeToWait_specs_def asn_MAP_RICtimeToWait_value2enum_def
  asn_SPC_TimeToWait_specs_def asn_MAP_TimeToWait_value2enum_def
  asn_SPC_RICindicationType_specs_def asn_MAP_RICindicationType_value2enum_def
  asn_SPC_RICcontrolAckRequest_specs_def asn_MAP_RICcontrolAckRequest_value2enum_def
  asn_SPC_RICcontrolStatus_specs_def asn_MAP_RICcontrolStatus_value2enum_def
  asn_SPC_TNLusage_specs_def asn_MAP_TNLusage_value2enum_def
  asn_SPC_E2nodeComponentType_specs_def asn_MAP_E2nodeComponentType_value2enum_def

end
