(* ===== verification/Constr_Types.thy ===== *)
theory Constr_Types
  imports Per_Primitive
begin

unbundle bit_operations_syntax

text \<open>
  What the constructed types share: the structures that values are kept in, the descriptors that
  drive the codecs, and open types whose contents another member selects (\<open>OPEN_TYPE_aper.c\<close>).
\<close>

section \<open>Values\<close>

text \<open>
  The structures of the target language. A member of \<open>Fields\<close> is a pointer that may be null, or
  stored in place and then always there. \<open>Choice\<close> has the index of the member that is present,
  counted from one, and the member itself; zero with no member is the union as \<open>CALLOC\<close> delivers it.
\<close>

datatype asn_value =
    Native int
  | Boolean u32
  | Octets "u8 list"
  | Fields "asn_value option list"
  | Choice nat "asn_value option"
  | Elements "asn_value list"

text \<open>The constraints on the value and on the size.\<close>

record asn_per_constraints =
  on_value :: asn_per_constraint
  on_size :: asn_per_constraint

section \<open>Descriptors\<close>

text \<open>
  A member of a constructed type, over the descriptors of its type. The selector of an open type
  looks at the structure so far and gives the index of the alternative, zero for none; the type
  it selects is the one of this alternative.
\<close>

datatype 't asn_TYPE_member = asn_TYPE_member
  (atf_pointer: bool)
  (atf_open_type: bool)
  (optional: nat)
  (memb_type: 't)
  (type_selector: "(asn_value option list \<Rightarrow> nat) option")
  (memb_constraints: "asn_per_constraints option")
  (default_value_cmp: "(asn_value option \<Rightarrow> int) option")
  (default_value_set: "(asn_value option \<Rightarrow> int \<times> asn_value option) option")

text \<open>
  A descriptor with its operations: what zeroed memory reads as in the structure of the type, the
  aligned decoder and encoder, both over the constraints that their caller passes, and the
  members. Every encoder writes through the callback of the growing buffer.
\<close>

datatype asn_codec = asn_codec
  (zeroed: asn_value)
  (aper_decoder: "asn_per_constraints option \<Rightarrow> asn_value per_type_decoder")
  (aper_encoder: "asn_per_constraints option \<Rightarrow> asn_value option \<Rightarrow> enc_dyn_arg per_type_encoder")
  (elements: "asn_codec asn_TYPE_member list")

text \<open>
  What the codecs cannot decide: the stack check, allocations by their size, and what memory that is
  not cleared holds, a temporary on the stack and new blocks.
\<close>

record env =
  stack_ok :: bool
  struct_ok :: bool
  alloc_ok :: "nat \<Rightarrow> bool"
  scratch :: "u8 list"
  garbage :: "nat \<Rightarrow> u8 list"

text \<open>A member as \<open>CALLOC\<close> delivers it, and the content of a member of a structure.\<close>

definition blank :: "asn_codec asn_TYPE_member \<Rightarrow> asn_value option" where
  "blank elm = (if atf_pointer elm then None else Some (zeroed (memb_type elm)))"

definition field :: "asn_codec asn_TYPE_member \<Rightarrow> asn_value option list \<Rightarrow> nat \<Rightarrow> asn_value option option" where
  "field elm st edx =
    Option.bind (nth_opt st edx) (\<lambda>m. if atf_pointer elm \<or> m \<noteq> None then Some m else None)"

section \<open>CHOICE structures\<close>

text \<open>A present member is reset before another one is set.\<close>

definition CHOICE_variant_get_presence :: "asn_value \<Rightarrow> nat option" where
  "CHOICE_variant_get_presence v = (case v of Choice p _ \<Rightarrow> Some p | _ \<Rightarrow> None)"

definition CHOICE_variant_set_presence :: "asn_codec \<Rightarrow> asn_value option \<Rightarrow> nat \<Rightarrow> (int \<times> asn_value option) option" where
  "CHOICE_variant_set_presence td sptr present =
    (case sptr of None \<Rightarrow> Some (- 1, None)
     | Some (Choice p m) \<Rightarrow>
         if length (elements td) < present then Some (- 1, sptr)
         else if present = p then Some (0, sptr)
         else if p \<noteq> 0 then
           (if length (elements td) < p then None else Some (0, Some (Choice present None)))
         else Some (0, Some (Choice present m))
     | _ \<Rightarrow> None)"

section \<open>Open types that another member selects\<close>

definition OPEN_TYPE_aper_is_unknown_type :: "asn_value option list \<Rightarrow> 't asn_TYPE_member \<Rightarrow> bool" where
  "OPEN_TYPE_aper_is_unknown_type st elm =
    (case type_selector elm of None \<Rightarrow> True | Some select \<Rightarrow> select st = 0)"

text \<open>
  The octets of an unknown type are read and dropped, at most 2560 in a fragment and more than 256
  in a block of their own. The result of the read is not looked at.
\<close>

partial_function (option) OPEN_TYPE_aper_unknown_type_discard_bytes ::
  "(nat \<Rightarrow> bool) \<Rightarrow> asn_bit_data \<Rightarrow> (asn_dec_rval \<times> asn_bit_data) option" where
  "OPEN_TYPE_aper_unknown_type_discard_bytes alloc pd =
    Option.bind (aper_get_length pd (- 1) (- 1) (- 1)) (\<lambda>((bytes, repeat), pd).
      if 2560 < bytes then Some ((RC_FAIL, 0), pd)
      else if 256 < bytes \<and> \<not> alloc (nat bytes) then Some ((RC_FAIL, 0), pd)
      else Option.bind (if bytes < 0 then Some (- 1, [], pd) else asn_get_many_bits pd False (8 * nat bytes)) (\<lambda>(_, _, pd).
        if repeat then OPEN_TYPE_aper_unknown_type_discard_bytes alloc pd else Some ((RC_OK, 0), pd)))"

declare OPEN_TYPE_aper_unknown_type_discard_bytes.simps [code]

text \<open>
  The member is a union in place. It is reset, the selected alternative is decoded from the octets
  of the open type into the memory of the union (zeros, unless there is something behind presence
  0, which the reset leaves), and it is reset again when that fails.
\<close>

definition OPEN_TYPE_aper_get ::
  "env \<Rightarrow> asn_value option list \<Rightarrow> asn_codec asn_TYPE_member \<Rightarrow> asn_value per_type_decoder" where
  "OPEN_TYPE_aper_get env st elm m pd =
    (if \<not> atf_open_type elm then Some ((RC_FAIL, 0), m, pd)
     else case type_selector elm of None \<Rightarrow> Some ((RC_FAIL, 0), m, pd)
     | Some select \<Rightarrow>
         let index = select st in
         if index = 0 then Some ((RC_FAIL, 0), m, pd)
         else if atf_pointer elm then None
         else Option.bind (CHOICE_variant_set_presence (memb_type elm) m 0) (\<lambda>(r, m).
           if r \<noteq> 0 then Some ((RC_FAIL, 0), m, pd)
           else Option.bind (nth_opt (elements (memb_type elm)) (index - 1)) (\<lambda>alt.
             if atf_pointer alt then None
             else Option.bind (aper_open_type_get (alloc_ok env)
                 (aper_decoder (memb_type alt) (memb_constraints alt))
                 (Some (case m of Some (Choice _ (Some w)) \<Rightarrow> w | _ \<Rightarrow> zeroed (memb_type alt))) pd)
               (\<lambda>((code, consumed), v, pd).
                 Some (if code = RC_OK then ((code, consumed), Some (Choice index v), pd)
                       else ((code, consumed), Some (Choice 0 None), pd))))))"

definition OPEN_TYPE_encode_aper ::
  "env \<Rightarrow> asn_codec asn_TYPE_member list \<Rightarrow> asn_value option \<Rightarrow> enc_dyn_arg per_type_encoder" where
  "OPEN_TYPE_encode_aper env elms sptr po =
    (case sptr of
       Some (Choice present m) \<Rightarrow>
         if present = 0 \<or> length elms < present then Some (- 1, po)
         else Option.bind (nth_opt elms (present - 1)) (\<lambda>elm.
           case m of
             None \<Rightarrow> if atf_pointer elm then Some (- 1, po) else None
           | Some v \<Rightarrow>
               Option.bind (aper_open_type_put (alloc_ok env) (struct_ok env) (scratch env)
                   (Some (aper_encoder (memb_type elm) (memb_constraints elm) (Some v))) po) (\<lambda>(r, po).
                 Some (if r < 0 then - 1 else 0, po)))
     | _ \<Rightarrow> None)"

end
