(* ===== verification/Constr_Sequence.thy ===== *)
theory Constr_Sequence
  imports Constr_Types
begin

unbundle bit_operations_syntax

text \<open>
  SEQUENCE in the aligned packed encoding (\<open>constr_SEQUENCE_aper.c\<close>). The loops over the members
  carry the structure, the bits that tell which members are present, and the stream; they return
  either the result that ends the decoder early or nothing.
\<close>

section \<open>Specifics\<close>

record asn_SEQUENCE_specifics =
  oms :: "nat list"
  roms_count :: nat
  aoms_count :: nat
  first_extension :: int

definition in_extension_group :: "asn_SEQUENCE_specifics \<Rightarrow> nat \<Rightarrow> bool" where
  "in_extension_group specs edx \<longleftrightarrow> 0 \<le> first_extension specs \<and> first_extension specs \<le> int edx"

text \<open>A reader of a bitmap, and the reader of no bits.\<close>

definition bitmap_reader :: "u8 list \<Rightarrow> nat \<Rightarrow> asn_bit_data" where
  "bitmap_reader buf n = \<lparr>pd_buffer = buf, pd_nboff = 0, pd_nbits = n, pd_moved = 0\<rparr>"

section \<open>Decoding\<close>

type_synonym fields_decoded = "(asn_dec_rval option \<times> asn_value option list \<times> asn_bit_data) option"

text \<open>A member that is there: the result, whether it ends the decoder, and the new member.\<close>

definition SEQUENCE_get_member ::
  "env \<Rightarrow> asn_value option list \<Rightarrow> asn_codec asn_TYPE_member \<Rightarrow> asn_value option \<Rightarrow> asn_bit_data \<Rightarrow>
    (asn_dec_rval option \<times> asn_value option \<times> asn_bit_data) option" where
  "SEQUENCE_get_member env st elm m pd =
    (let result = (\<lambda>(rv, m, pd). Some (if fst rv \<noteq> RC_OK then Some rv else None, m, pd)) in
     if atf_open_type elm then
       if OPEN_TYPE_aper_is_unknown_type st elm then
         Option.bind (OPEN_TYPE_aper_unknown_type_discard_bytes (alloc_ok env) pd) (\<lambda>(rv, pd). Some (Some rv, m, pd))
       else Option.bind (OPEN_TYPE_aper_get env st elm m pd) result
     else Option.bind (aper_decoder (memb_type elm) (memb_constraints elm) m pd) result)"

fun SEQUENCE_get_root ::
  "env \<Rightarrow> asn_SEQUENCE_specifics \<Rightarrow> asn_codec asn_TYPE_member list \<Rightarrow> nat \<Rightarrow> asn_value option list \<Rightarrow>
    asn_bit_data \<Rightarrow> asn_bit_data \<Rightarrow> fields_decoded" where
  "SEQUENCE_get_root env specs [] edx st opmd pd = Some (None, st, pd)" |
  "SEQUENCE_get_root env specs (elm # elms) edx st opmd pd =
    (if in_extension_group specs edx then SEQUENCE_get_root env specs elms (edx + 1) st opmd pd
     else Option.bind (field elm st edx) (\<lambda>m.
       Option.bind (if optional elm \<noteq> 0 then asn_get_few_bits 1 opmd else Some (1, opmd)) (\<lambda>(present, opmd).
         if present = 0 then
           (case default_value_set elm of None \<Rightarrow> SEQUENCE_get_root env specs elms (edx + 1) st opmd pd
            | Some dfl \<Rightarrow>
                let (r, m) = dfl m in
                if r \<noteq> 0 then Some (Some (RC_FAIL, 0), st[edx := m], pd)
                else SEQUENCE_get_root env specs elms (edx + 1) (st[edx := m]) opmd pd)
         else Option.bind (SEQUENCE_get_member env st elm m pd) (\<lambda>(rv, m, pd).
           if rv \<noteq> None then Some (rv, st[edx := m], pd)
           else SEQUENCE_get_root env specs elms (edx + 1) (st[edx := m]) opmd pd))))"

text \<open>The members of the extension whose bit is set, until the bits end.\<close>

fun SEQUENCE_get_additions ::
  "env \<Rightarrow> asn_SEQUENCE_specifics \<Rightarrow> asn_codec asn_TYPE_member list \<Rightarrow> nat \<Rightarrow> asn_value option list \<Rightarrow>
    asn_bit_data \<Rightarrow> asn_bit_data \<Rightarrow> (asn_dec_rval option \<times> asn_value option list \<times> asn_bit_data \<times> asn_bit_data) option" where
  "SEQUENCE_get_additions env specs [] edx st epmd pd = Some (None, st, epmd, pd)" |
  "SEQUENCE_get_additions env specs (elm # elms) edx st epmd pd =
    (if \<not> in_extension_group specs edx then SEQUENCE_get_additions env specs elms (edx + 1) st epmd pd
     else Option.bind (field elm st edx) (\<lambda>m. Option.bind (asn_get_few_bits 1 epmd) (\<lambda>(present, epmd).
       if present < 0 then Some (None, st, epmd, pd)
       else if present = 0 then SEQUENCE_get_additions env specs elms (edx + 1) st epmd pd
       else Option.bind (aper_open_type_get (alloc_ok env) (aper_decoder (memb_type elm) (memb_constraints elm)) m pd)
         (\<lambda>(rv, m, pd).
           if fst rv \<noteq> RC_OK then Some (Some rv, st[edx := m], epmd, pd)
           else SEQUENCE_get_additions env specs elms (edx + 1) (st[edx := m]) epmd pd))))"

text \<open>
  Additions this version does not have are skipped: the loop passes over clear bits and ends after
  the first one that is set.
\<close>

partial_function (option) SEQUENCE_skip_overflow ::
  "(nat \<Rightarrow> bool) \<Rightarrow> asn_bit_data \<Rightarrow> asn_bit_data \<Rightarrow> (bool \<times> asn_bit_data) option" where
  "SEQUENCE_skip_overflow alloc epmd pd =
    Option.bind (asn_get_few_bits 1 epmd) (\<lambda>(b, epmd).
      if b = - 1 then Some (True, pd)
      else if b = 0 then SEQUENCE_skip_overflow alloc epmd pd
      else Option.bind (aper_open_type_skip alloc pd) (\<lambda>(r, pd). Some (r = 0, pd)))"

declare SEQUENCE_skip_overflow.simps [code]

fun SEQUENCE_fill_defaults ::
  "asn_codec asn_TYPE_member list \<Rightarrow> nat list \<Rightarrow> asn_value option list \<Rightarrow> (bool \<times> asn_value option list) option" where
  "SEQUENCE_fill_defaults elms [] st = Some (True, st)" |
  "SEQUENCE_fill_defaults elms (edx # rest) st =
    Option.bind (nth_opt elms edx) (\<lambda>elm. Option.bind (nth_opt st edx) (\<lambda>m.
      case default_value_set elm of None \<Rightarrow> SEQUENCE_fill_defaults elms rest st
      | Some dfl \<Rightarrow>
          if \<not> atf_pointer elm \<or> m \<noteq> None then SEQUENCE_fill_defaults elms rest st
          else let (r, m) = dfl m in
            if r \<noteq> 0 then Some (False, st[edx := m]) else SEQUENCE_fill_defaults elms rest (st[edx := m])))"

text \<open>Everything behind the root of a structure that has additions.\<close>

definition SEQUENCE_get_extensions ::
  "env \<Rightarrow> asn_SEQUENCE_specifics \<Rightarrow> asn_codec asn_TYPE_member list \<Rightarrow> asn_value option list \<Rightarrow> asn_bit_data \<Rightarrow>
    fields_decoded" where
  "SEQUENCE_get_extensions env specs elms st pd =
    (let starved = (\<lambda>pd. Some (Some (RC_WMORE, 0), st, pd)) in
     Option.bind (aper_get_nslength pd) (\<lambda>(bmlength, pd).
       if bmlength < 0 then starved pd
       else if \<not> alloc_ok env (nat ((bmlength + 15) div 8)) then starved pd
       else Option.bind (asn_get_many_bits pd False (nat bmlength)) (\<lambda>(r, epres, pd).
         if r \<noteq> 0 then starved pd
         else Option.bind (aper_get_align pd) (\<lambda>(r, pd).
           if r < 0 then starved pd
           else
             let first = nat (first_extension specs) in
             Option.bind (SEQUENCE_get_additions env specs (drop first elms) first st (bitmap_reader epres (nat bmlength)) pd)
               (\<lambda>(rv, st, epmd, pd).
                 if rv \<noteq> None then Some (rv, st, pd)
                 else Option.bind (SEQUENCE_skip_overflow (alloc_ok env) epmd pd) (\<lambda>(ok, pd).
                   Some (if ok then None else Some (RC_WMORE, 0), st, pd)))))))"

definition SEQUENCE_decode_aper ::
  "env \<Rightarrow> asn_SEQUENCE_specifics \<Rightarrow> asn_codec asn_TYPE_member list \<Rightarrow> asn_value per_type_decoder" where
  "SEQUENCE_decode_aper env specs elms sptr pd =
    (if \<not> stack_ok env then Some ((RC_FAIL, 0), sptr, pd)
     else case target (struct_ok env) (Fields (map blank elms)) sptr of
       None \<Rightarrow> Some ((RC_FAIL, 0), None, pd)
     | Some (Fields st) \<Rightarrow>
         let stop = (\<lambda>rv st pd. Some (rv, Some (Fields st), pd)) in
         Option.bind (if first_extension specs < 0 then Some (0, pd) else asn_get_few_bits 1 pd) (\<lambda>(extpresent, pd).
         if extpresent < 0 then stop (RC_WMORE, 0) st pd
         else if roms_count specs \<noteq> 0 \<and> \<not> alloc_ok env ((roms_count specs + 7) div 8 + 1) then stop (RC_FAIL, 0) st pd
         else Option.bind (if roms_count specs \<noteq> 0 then asn_get_many_bits pd False (roms_count specs) else Some (0, [], pd))
           (\<lambda>(r, opres, pd).
         if r \<noteq> 0 then stop (RC_WMORE, 0) st pd
         else Option.bind (SEQUENCE_get_root env specs elms 0 st (bitmap_reader opres (roms_count specs)) pd)
           (\<lambda>(rv, st, pd).
         case rv of Some rv \<Rightarrow> stop rv st pd
         | None \<Rightarrow>
             Option.bind (if extpresent \<noteq> 0 then SEQUENCE_get_extensions env specs elms st pd else Some (None, st, pd))
               (\<lambda>(rv, st, pd).
             case rv of Some rv \<Rightarrow> stop rv st pd
             | None \<Rightarrow>
                 Option.bind (SEQUENCE_fill_defaults elms [roms_count specs ..< roms_count specs + aoms_count specs] st)
                   (\<lambda>(ok, st). stop (if ok then RC_OK else RC_FAIL, 0) st pd)))))
     | Some _ \<Rightarrow> None)"

section \<open>Encoding\<close>

text \<open>
  The additions: with neither flag they are counted, with the first their bits are written, with
  the second those that are there are written as open types.
\<close>

fun handle_additions ::
  "env \<Rightarrow> bool \<Rightarrow> bool \<Rightarrow> asn_SEQUENCE_specifics \<Rightarrow> asn_codec asn_TYPE_member list \<Rightarrow> nat \<Rightarrow> asn_value option list \<Rightarrow>
    int \<Rightarrow> int \<Rightarrow> enc_dyn_arg per_type_encoder" where
  "handle_additions env po1 po2 specs [] edx st exts_present exts_count po =
    Some (if exts_present \<noteq> 0 then exts_count else 0, po)" |
  "handle_additions env po1 po2 specs (elm # elms) edx st exts_present exts_count po =
    (if \<not> in_extension_group specs edx then handle_additions env po1 po2 specs elms (edx + 1) st exts_present exts_count po
     else Option.bind (field elm st edx) (\<lambda>m.
       let present = m \<noteq> None in
       Option.bind (if po1 then asn_put_few_bits po (of_bool present) 1 else Some (0, po)) (\<lambda>(r, po).
       if r \<noteq> 0 then Some (- 1, po)
       else Option.bind (if po2 \<and> present
           then aper_open_type_put (alloc_ok env) (struct_ok env) (scratch env)
             (Some (aper_encoder (memb_type elm) (memb_constraints elm) m)) po
           else Some (0, po)) (\<lambda>(r, po).
       if r \<noteq> 0 then Some (- 1, po)
       else handle_additions env po1 po2 specs elms (edx + 1) st (exts_present + of_bool present) (exts_count + 1) po))))"

definition SEQUENCE_handle_extensions_aper ::
  "env \<Rightarrow> bool \<Rightarrow> bool \<Rightarrow> asn_SEQUENCE_specifics \<Rightarrow> asn_codec asn_TYPE_member list \<Rightarrow> asn_value option list \<Rightarrow>
    enc_dyn_arg per_type_encoder" where
  "SEQUENCE_handle_extensions_aper env po1 po2 specs elms st po =
    (if first_extension specs < 0 then Some (0, po)
     else let first = nat (first_extension specs) in
       handle_additions env po1 po2 specs (drop first elms) first st 0 0 po)"

text \<open>The bits of the optional members of the root; a default value counts as absent.\<close>

fun SEQUENCE_put_presence ::
  "asn_codec asn_TYPE_member list \<Rightarrow> nat list \<Rightarrow> asn_value option list \<Rightarrow> enc_dyn_arg per_type_encoder" where
  "SEQUENCE_put_presence elms [] st po = Some (0, po)" |
  "SEQUENCE_put_presence elms (edx # rest) st po =
    Option.bind (nth_opt elms edx) (\<lambda>elm. Option.bind (field elm st edx) (\<lambda>m.
      let present = (m \<noteq> None \<and> (case default_value_cmp elm of None \<Rightarrow> True | Some cmp \<Rightarrow> cmp m \<noteq> 0)) in
      Option.bind (asn_put_few_bits po (of_bool present) 1) (\<lambda>(r, po).
        if r \<noteq> 0 then Some (- 1, po) else SEQUENCE_put_presence elms rest st po)))"

fun SEQUENCE_put_root ::
  "asn_SEQUENCE_specifics \<Rightarrow> asn_codec asn_TYPE_member list \<Rightarrow> nat \<Rightarrow> asn_value option list \<Rightarrow>
    enc_dyn_arg per_type_encoder" where
  "SEQUENCE_put_root specs [] edx st po = Some (0, po)" |
  "SEQUENCE_put_root specs (elm # elms) edx st po =
    (if in_extension_group specs edx then Some (0, po)
     else Option.bind (field elm st edx) (\<lambda>m.
       if m = None then
         (if optional elm \<noteq> 0 then SEQUENCE_put_root specs elms (edx + 1) st po else Some (- 1, po))
       else if (case default_value_cmp elm of None \<Rightarrow> False | Some cmp \<Rightarrow> cmp m = 0)
       then SEQUENCE_put_root specs elms (edx + 1) st po
       else Option.bind (aper_encoder (memb_type elm) (memb_constraints elm) m po) (\<lambda>(r, po).
         if r = - 1 then Some (- 1, po) else SEQUENCE_put_root specs elms (edx + 1) st po)))"

definition SEQUENCE_encode_aper ::
  "env \<Rightarrow> asn_SEQUENCE_specifics \<Rightarrow> asn_codec asn_TYPE_member list \<Rightarrow> asn_value option \<Rightarrow> enc_dyn_arg per_type_encoder" where
  "SEQUENCE_encode_aper env specs elms sptr po =
    (case sptr of None \<Rightarrow> Some (- 1, po)
     | Some (Fields st) \<Rightarrow>
         let handle = (\<lambda>po1 po2. SEQUENCE_handle_extensions_aper env po1 po2 specs elms st) in
         Option.bind (if first_extension specs < 0 then Some (0, 0, po)
           else Option.bind (handle False False po) (\<lambda>(n, po).
             if n < 0 then Some (n, - 1, po)
             else Option.bind (asn_put_few_bits po (if n \<noteq> 0 then 1 else 0) 1) (\<lambda>(r, po). Some (n, r, po)))) (\<lambda>(n_extensions, r, po).
         if r \<noteq> 0 then Some (- 1, po)
         else Option.bind (SEQUENCE_put_presence elms (take (roms_count specs) (oms specs)) st po) (\<lambda>(r, po).
         if r \<noteq> 0 then Some (- 1, po)
         else Option.bind (SEQUENCE_put_root specs elms 0 st po) (\<lambda>(r, po).
         if r = - 1 then Some (- 1, po)
         else if n_extensions = 0 then Some (0, po)
         else Option.bind (aper_put_nslength po (nat n_extensions)) (\<lambda>(r, po).
         if r \<noteq> 0 then Some (- 1, po)
         else Option.bind (handle True False po) (\<lambda>(n, po).
         if n \<noteq> n_extensions then Some (- 1, po)
         else Option.bind (handle False True po) (\<lambda>(n, po).
           Some (if n \<noteq> n_extensions then - 1 else 0, po)))))))
     | Some _ \<Rightarrow> None)"

end
