(* ===== verification/Constr_Choice.thy ===== *)
theory Constr_Choice
  imports Constr_Types
begin

unbundle bit_operations_syntax

text \<open>
  CHOICE in the aligned packed encoding (\<open>constr_CHOICE_aper.c\<close>).
\<close>

record asn_CHOICE_specifics =
  tag2el_count :: nat
  to_canonical_order :: "nat list option"
  from_canonical_order :: "nat list option"
  ext_start :: int

text \<open>The constraint on the value, the caller's before the type's own.\<close>

definition value_constraint :: "asn_per_constraints option \<Rightarrow> asn_per_constraints option \<Rightarrow> asn_per_constraint option" where
  "value_constraint td_constraints constraints =
    (case constraints of Some c \<Rightarrow> Some (on_value c) | None \<Rightarrow> map_option on_value td_constraints)"

definition in_range :: "asn_per_constraint option \<Rightarrow> bool" where
  "in_range ct = (case ct of None \<Rightarrow> False | Some c \<Rightarrow> 0 \<le> range_bits c)"

text \<open>A position in the other order, where the type has one.\<close>

definition reorder :: "nat list option \<Rightarrow> nat \<Rightarrow> nat option" where
  "reorder order i = (case order of None \<Rightarrow> Some i | Some xs \<Rightarrow> nth_opt xs i)"

section \<open>Decoding\<close>

text \<open>
  The index of the member: the bit of the extension, then the bits of the range or a normally small
  number. The result is the code of a failure, or the constraint that is left and the index.
\<close>

definition CHOICE_get_extension_index ::
  "asn_CHOICE_specifics \<Rightarrow> nat \<Rightarrow> int \<Rightarrow> asn_bit_data \<Rightarrow> ((asn_dec_rval_code + int) \<times> asn_bit_data) option" where
  "CHOICE_get_extension_index specs count value pd =
    (if ext_start specs = - 1 then Some (Inl RC_FAIL, pd)
     else if ext_start specs mod 2 ^ 32 < int (tag2el_count specs) then
       Option.bind (aper_get_nsnnwn pd) (\<lambda>(v, pd). Some
         (if v < 0 then Inl RC_WMORE
          else if int count \<le> v + ext_start specs then Inl RC_FAIL
          else Inr (v + ext_start specs), pd))
     else Some (Inr value, pd))"

definition CHOICE_get_index ::
  "asn_CHOICE_specifics \<Rightarrow> nat \<Rightarrow> asn_per_constraint option \<Rightarrow> asn_bit_data \<Rightarrow>
    ((asn_dec_rval_code + asn_per_constraint option \<times> int) \<times> asn_bit_data) option" where
  "CHOICE_get_index specs count ct pd =
    Option.bind (case ct of
        None \<Rightarrow> Some (Inr (None, 0), pd)
      | Some c \<Rightarrow>
          if flags c AND APC_EXTENSIBLE \<noteq> 0 then
            Option.bind (asn_get_few_bits 1 pd) (\<lambda>(v, pd). Some
              (if v < 0 then Inl RC_WMORE
               else if int count \<le> v then Inl RC_FAIL
               else Inr (if v \<noteq> 0 then None else Some c, v), pd))
          else Some (Inr (Some c, 0), pd)) (\<lambda>(res, pd).
    case res of Inl code \<Rightarrow> Some (Inl code, pd)
    | Inr (ct, value) \<Rightarrow>
        Option.bind (case ct of
            Some c \<Rightarrow>
              if 0 \<le> range_bits c then
                Option.bind (asn_get_few_bits (range_bits c) pd) (\<lambda>(v, pd). Some
                  (if v < 0 then Inl RC_WMORE else if upper_bound c < v then Inl RC_FAIL else Inr v, pd))
              else CHOICE_get_extension_index specs count value pd
          | None \<Rightarrow> CHOICE_get_extension_index specs count value pd) (\<lambda>(res, pd).
        Some (case res of Inl code \<Rightarrow> Inl code | Inr v \<Rightarrow> Inr (ct, v), pd)))"

text \<open>
  The member is decoded where it is in the union, directly or out of an open type. A union that
  holds another member has no result.
\<close>

definition CHOICE_decode_aper ::
  "env \<Rightarrow> asn_CHOICE_specifics \<Rightarrow> asn_per_constraints option \<Rightarrow> asn_codec asn_TYPE_member list \<Rightarrow>
    asn_per_constraints option \<Rightarrow> asn_value per_type_decoder" where
  "CHOICE_decode_aper env specs td_constraints elms constraints sptr pd =
    (if \<not> stack_ok env then Some ((RC_FAIL, 0), sptr, pd)
     else case target (struct_ok env) (Choice 0 None) sptr of
       None \<Rightarrow> Some ((RC_FAIL, 0), None, pd)
     | Some (Choice p m) \<Rightarrow>
         Option.bind (CHOICE_get_index specs (length elms) (value_constraint td_constraints constraints) pd) (\<lambda>(res, pd).
           case res of Inl code \<Rightarrow> Some ((code, 0), Some (Choice p m), pd)
           | Inr (ct, value) \<Rightarrow>
               if value < 0 then None
               else Option.bind (reorder (from_canonical_order specs) (nat value)) (\<lambda>i.
               Option.bind (nth_opt elms i) (\<lambda>elm.
               if p \<noteq> 0 \<and> p \<noteq> Suc i then None
               else
                 let memb = (if p = 0 then blank elm else m);
                     decode = aper_decoder (memb_type elm) (memb_constraints elm)
                 in Option.bind (if in_range ct then decode memb pd else aper_open_type_get (alloc_ok env) decode memb pd)
                   (\<lambda>(rv, memb, pd). Some (rv, Some (Choice (Suc i) memb), pd)))))
     | Some _ \<Rightarrow> None)"

section \<open>Encoding\<close>

definition CHOICE_put_extension ::
  "env \<Rightarrow> asn_CHOICE_specifics \<Rightarrow> nat \<Rightarrow> enc_dyn_arg per_type_encoder \<Rightarrow> enc_dyn_arg per_type_encoder" where
  "CHOICE_put_extension env specs i encode po =
    (if ext_start specs = - 1 then Some (- 1, po)
     else Option.bind (aper_put_nsnnwn po (int i - ext_start specs)) (\<lambda>(r, po).
       if r \<noteq> 0 then Some (- 1, po)
       else Option.bind (aper_open_type_put (alloc_ok env) (struct_ok env) (scratch env) (Some encode) po) (\<lambda>(r, po).
         Some (if r \<noteq> 0 then - 1 else 0, po))))"

text \<open>
  The index in the canonical order is also the one by which the member is looked up.
\<close>

definition CHOICE_encode_aper ::
  "env \<Rightarrow> asn_CHOICE_specifics \<Rightarrow> asn_per_constraints option \<Rightarrow> asn_codec asn_TYPE_member list \<Rightarrow>
    asn_per_constraints option \<Rightarrow> asn_value option \<Rightarrow> enc_dyn_arg per_type_encoder" where
  "CHOICE_encode_aper env specs td_constraints elms constraints sptr po =
    (case sptr of None \<Rightarrow> Some (- 1, po)
     | Some (Choice p m) \<Rightarrow>
         if p = 0 \<or> length elms < p then Some (- 1, po)
         else Option.bind (reorder (to_canonical_order specs) (p - 1)) (\<lambda>i.
           let ct = value_constraint td_constraints constraints;
               outside = (case ct of None \<Rightarrow> False
                 | Some c \<Rightarrow> 0 \<le> range_bits c \<and> (int i < lower_bound c \<or> upper_bound c < int i));
               extensible = (case ct of None \<Rightarrow> False | Some c \<Rightarrow> flags c AND APC_EXTENSIBLE \<noteq> 0);
               ct' = (if outside then None else ct)
           in
           if outside \<and> \<not> extensible then Some (- 1, po)
           else Option.bind (if extensible then asn_put_few_bits po (of_bool outside) 1 else Some (0, po)) (\<lambda>(r, po).
           if r \<noteq> 0 then Some (- 1, po)
           else Option.bind (nth_opt elms i) (\<lambda>elm.
           case m of
             None \<Rightarrow> if atf_pointer elm then Some (- 1, po) else None
           | Some v \<Rightarrow>
               let encode = aper_encoder (memb_type elm) (memb_constraints elm) (Some v) in
               (case ct' of
                  Some c \<Rightarrow>
                    if 0 \<le> range_bits c then
                      Option.bind (asn_put_few_bits po (of_nat i) (range_bits c)) (\<lambda>(r, po).
                        if r \<noteq> 0 then Some (- 1, po) else encode po)
                    else CHOICE_put_extension env specs i encode po
                | None \<Rightarrow> CHOICE_put_extension env specs i encode po))))
     | Some _ \<Rightarrow> None)"

end
