(* ===== verification/Constr_Sequence_Of.thy ===== *)
theory Constr_Sequence_Of
  imports Constr_Types Integer_Aper
begin

unbundle bit_operations_syntax

text \<open>
  SEQUENCE OF in the aligned packed encoding: its encoder (\<open>constr_SEQUENCE_OF_aper.c\<close>), and the
  decoder that it shares with SET OF (\<open>constr_SET_OF_aper.c\<close>).
\<close>

text \<open>The constraint on the size, the caller's before the type's own.\<close>

definition size_constraint :: "asn_per_constraints option \<Rightarrow> asn_per_constraints option \<Rightarrow> asn_per_constraint option" where
  "size_constraint td_constraints constraints =
    (case constraints of Some c \<Rightarrow> Some (on_size c) | None \<Rightarrow> map_option on_size td_constraints)"

text \<open>
  \<open>asn_set_add\<close>: a null pointer is refused. The array has room for four entries at first and doubles
  when it is full: the lists here are made by this function alone, so their capacity is known from
  their length. The capacity is a signed integer.
\<close>

definition set_is_full :: "nat \<Rightarrow> bool" where
  "set_is_full n \<longleftrightarrow> n = 0 \<or> 4 \<le> n \<and> int n AND (int n - 1) = 0"

definition asn_set_add ::
  "(nat \<Rightarrow> bool) \<Rightarrow> asn_value list \<Rightarrow> asn_value option \<Rightarrow> (int \<times> asn_value list) option" where
  "asn_set_add alloc vs ptr =
    (case ptr of None \<Rightarrow> Some (- 1, vs)
     | Some v \<Rightarrow>
         if set_is_full (length vs) then
           (if 2 ^ 30 \<le> length vs then None
            else if alloc (8 * (if vs = [] then 4 else 2 * length vs)) then Some (0, vs @ [v])
            else Some (- 1, vs))
         else Some (0, vs @ [v]))"

section \<open>Decoding\<close>

text \<open>A number of elements, each in a block of its own.\<close>

fun SET_OF_get_elements ::
  "env \<Rightarrow> asn_codec asn_TYPE_member \<Rightarrow> nat \<Rightarrow> asn_value list \<Rightarrow> asn_bit_data \<Rightarrow>
    (asn_dec_rval option \<times> asn_value list \<times> asn_bit_data) option" where
  "SET_OF_get_elements env elm 0 vs pd = Some (None, vs, pd)" |
  "SET_OF_get_elements env elm (Suc n) vs pd =
    Option.bind (aper_decoder (memb_type elm) (memb_constraints elm) None pd) (\<lambda>(rv, ptr, pd).
      if fst rv \<noteq> RC_OK then Some (Some rv, vs, pd)
      else Option.bind (asn_set_add (alloc_ok env) vs ptr) (\<lambda>(r, vs).
        if r \<noteq> 0 then Some (Some (RC_FAIL, snd rv), vs, pd) else SET_OF_get_elements env elm n vs pd))"

text \<open>The loop over fragments; \<open>nelems\<close> is negative where a length has to be read first.\<close>

partial_function (option) SET_OF_get_fragments ::
  "env \<Rightarrow> asn_codec asn_TYPE_member \<Rightarrow> asn_per_constraint option \<Rightarrow> int \<Rightarrow> asn_value list \<Rightarrow> asn_bit_data \<Rightarrow>
    (asn_dec_rval \<times> asn_value list \<times> asn_bit_data) option" where
  "SET_OF_get_fragments env elm ct nelems vs pd =
    Option.bind (if 0 \<le> nelems then Some ((nelems, False), pd)
        else case ct of
          None \<Rightarrow> aper_get_length pd (- 1) (- 1) (- 1)
        | Some c \<Rightarrow> aper_get_length pd (lower_bound c) (upper_bound c) (effective_bits c)) (\<lambda>((nelems, repeat), pd).
      if nelems < 0 then Some ((RC_WMORE, 0), vs, pd)
      else Option.bind (SET_OF_get_elements env elm (nat nelems) vs pd) (\<lambda>(rv, vs, pd).
        case rv of Some rv \<Rightarrow> Some (rv, vs, pd)
        | None \<Rightarrow> if repeat then SET_OF_get_fragments env elm ct (- 1) vs pd else Some ((RC_OK, 0), vs, pd)))"

declare SET_OF_get_fragments.simps [code]

definition SET_OF_decode_aper ::
  "env \<Rightarrow> asn_per_constraints option \<Rightarrow> asn_codec asn_TYPE_member \<Rightarrow> asn_per_constraints option \<Rightarrow> asn_value per_type_decoder" where
  "SET_OF_decode_aper env td_constraints elm constraints sptr pd =
    (if \<not> stack_ok env then Some ((RC_FAIL, 0), sptr, pd)
     else case target (struct_ok env) (Elements []) sptr of
       None \<Rightarrow> Some ((RC_FAIL, 0), None, pd)
     | Some (Elements vs) \<Rightarrow>
         Option.bind (case size_constraint td_constraints constraints of
             None \<Rightarrow> Some (Inr None, pd)
           | Some c \<Rightarrow>
               if flags c AND APC_EXTENSIBLE \<noteq> 0 then
                 Option.bind (asn_get_few_bits 1 pd) (\<lambda>(v, pd). Some
                   (if v < 0 then Inl RC_WMORE else Inr (if v \<noteq> 0 then None else Some c), pd))
               else Some (Inr (Some c), pd)) (\<lambda>(res, pd).
           case res of Inl code \<Rightarrow> Some ((code, 0), Some (Elements vs), pd)
           | Inr ct \<Rightarrow>
               let nelems = (case ct of None \<Rightarrow> - 1
                 | Some c \<Rightarrow> if 1 \<le> upper_bound c \<and> upper_bound c \<le> 65535 \<and> upper_bound c = lower_bound c
                            then upper_bound c else - 1)
               in Option.bind (SET_OF_get_fragments env elm ct nelems vs pd) (\<lambda>(rv, vs, pd).
                 Some (rv, Some (Elements vs), pd)))
     | Some _ \<Rightarrow> None)"

section \<open>Encoding\<close>

fun SEQUENCE_OF_put_elements ::
  "asn_codec asn_TYPE_member \<Rightarrow> asn_value list \<Rightarrow> enc_dyn_arg per_type_encoder" where
  "SEQUENCE_OF_put_elements elm [] po = Some (0, po)" |
  "SEQUENCE_OF_put_elements elm (v # vs) po =
    Option.bind (aper_encoder (memb_type elm) (memb_constraints elm) (Some v) po) (\<lambda>(r, po).
      if r = - 1 then Some (- 1, po) else SEQUENCE_OF_put_elements elm vs po)"

text \<open>Fragments of elements, at least one, and an empty one where the code asks for it.\<close>

function SEQUENCE_OF_put_fragments ::
  "asn_codec asn_TYPE_member \<Rightarrow> asn_value list \<Rightarrow> enc_dyn_arg per_type_encoder" where
  "SEQUENCE_OF_put_fragments elm vs po =
    Option.bind (aper_put_length po (- 1) (- 1) (length vs)) (\<lambda>((may_encode, need_eom), po).
      if may_encode < 0 then Some (- 1, po)
      else Option.bind (SEQUENCE_OF_put_elements elm (take (nat may_encode) vs) po) (\<lambda>(r, po).
        if r \<noteq> 0 then Some (- 1, po)
        else Option.bind (if need_eom then Option.bind (aper_put_length po (- 1) (- 1) 0) (\<lambda>((r, _), po). Some (r < 0, po))
                          else Some (False, po)) (\<lambda>(failed, po).
          if failed then Some (- 1, po)
          else if drop (nat may_encode) vs = [] then Some (0, po)
          else SEQUENCE_OF_put_fragments elm (drop (nat may_encode) vs) po)))"
  by pat_completeness auto
termination
  by (relation "measure (\<lambda>(_, vs, _). length vs)") (use aper_put_length_progress in fastforce)+

declare SEQUENCE_OF_put_fragments.simps [simp del]

definition SEQUENCE_OF_encode_aper ::
  "asn_per_constraints option \<Rightarrow> asn_codec asn_TYPE_member \<Rightarrow> asn_per_constraints option \<Rightarrow> asn_value option \<Rightarrow>
    enc_dyn_arg per_type_encoder" where
  "SEQUENCE_OF_encode_aper td_constraints elm constraints sptr po =
    (case sptr of None \<Rightarrow> Some (- 1, po)
     | Some (Elements vs) \<Rightarrow>
         let count = int (length vs);
             ct = size_constraint td_constraints constraints;
             not_in_root = (case ct of None \<Rightarrow> False | Some c \<Rightarrow> count < lower_bound c \<or> upper_bound c < count);
             extensible = (case ct of None \<Rightarrow> False | Some c \<Rightarrow> flags c AND APC_EXTENSIBLE \<noteq> 0);
             counted = (\<lambda>c po.
               if lower_bound c = upper_bound c \<and> upper_bound c < 65536 then Some (0 :: int, po)
               else Option.bind (aper_put_length po (lower_bound c) (upper_bound c) (nat (count - lower_bound c)))
                 (\<lambda>((r, _), po). Some (if r < 0 then - 1 else 0, po)))
         in Option.bind (if extensible then asn_put_few_bits po (of_bool not_in_root) 1 else Some (0, po)) (\<lambda>(r, po).
           if r \<noteq> 0 then Some (- 1, po)
           else if not_in_root \<and> \<not> extensible \<and> 0 \<le> effective_bits (the ct) then Some (- 1, po)
           else case (if extensible \<and> not_in_root then None else ct) of
             None \<Rightarrow> SEQUENCE_OF_put_fragments elm vs po
           | Some c \<Rightarrow>
               if 0 \<le> effective_bits c then
                 Option.bind (counted c po) (\<lambda>(r, po).
                   if r \<noteq> 0 then Some (- 1, po) else SEQUENCE_OF_put_elements elm vs po)
               else SEQUENCE_OF_put_fragments elm vs po)
     | Some _ \<Rightarrow> None)"

end
