(* ===== verification/Constr_Codecs.thy ===== *)
theory Constr_Codecs
  imports Constr_Sequence Constr_Choice Constr_Sequence_Of
begin

unbundle bit_operations_syntax

text \<open>
  The operations of the types behind one interface, as the tables \<open>asn_OP_*\<close> of the runtime make
  them: every descriptor has a decoder and an encoder over the constraints of the caller, and a
  member is decoded through them.
\<close>

section \<open>Values of one kind\<close>

text \<open>
  A codec of one kind of value, on the structures of all kinds. A structure of another kind is memory
  read at the wrong type.
\<close>

definition lift_decoder :: "(asn_value \<Rightarrow> 'v option) \<Rightarrow> ('v \<Rightarrow> asn_value) \<Rightarrow> 'v per_type_decoder \<Rightarrow> asn_value per_type_decoder" where
  "lift_decoder prj mk decode sptr pd =
    Option.bind (case sptr of None \<Rightarrow> Some None | Some v \<Rightarrow> map_option Some (prj v)) (\<lambda>sptr.
      Option.bind (decode sptr pd) (\<lambda>(rv, res, pd). Some (rv, map_option mk res, pd)))"

definition lift_encoder :: "(asn_value \<Rightarrow> 'v option) \<Rightarrow> ('v option \<Rightarrow> 'k per_type_encoder) \<Rightarrow> asn_value option \<Rightarrow> 'k per_type_encoder" where
  "lift_encoder prj encode sptr po =
    Option.bind (case sptr of None \<Rightarrow> Some None | Some v \<Rightarrow> map_option Some (prj v)) (\<lambda>sptr. encode sptr po)"

definition native :: "asn_value \<Rightarrow> int option" where
  "native v = (case v of Native n \<Rightarrow> Some n | _ \<Rightarrow> None)"

section \<open>The tables of operations\<close>

definition asn_OP_NativeInteger :: "env \<Rightarrow> asn_INTEGER_specifics option \<Rightarrow> asn_per_constraints option \<Rightarrow> asn_codec" where
  "asn_OP_NativeInteger env specs td_constraints = asn_codec (Native 0)
    (\<lambda>cs. lift_decoder native Native (NativeInteger_decode_aper (struct_ok env) (alloc_ok env) (garbage env) specs
       (map_option on_value td_constraints) (map_option on_value cs)))
    (\<lambda>cs. lift_encoder native (NativeInteger_encode_aper (struct_ok env) specs
       (map_option on_value td_constraints) (map_option on_value cs))) []"

definition asn_OP_NativeEnumerated :: "env \<Rightarrow> asn_INTEGER_specifics \<Rightarrow> asn_per_constraints option \<Rightarrow> asn_codec" where
  "asn_OP_NativeEnumerated env specs td_constraints = asn_codec (Native 0)
    (\<lambda>cs. lift_decoder native Native (NativeEnumerated_decode_aper (struct_ok env) (Some specs)
       (map_option on_value td_constraints) (map_option on_value cs)))
    (\<lambda>cs. lift_encoder native (NativeEnumerated_encode_aper (Some specs)
       (map_option on_value td_constraints) (map_option on_value cs))) []"

definition asn_OP_SEQUENCE :: "env \<Rightarrow> asn_SEQUENCE_specifics \<Rightarrow> asn_codec asn_TYPE_member list \<Rightarrow> asn_codec" where
  "asn_OP_SEQUENCE env specs elms = asn_codec (Fields (map blank elms))
    (\<lambda>_. SEQUENCE_decode_aper env specs elms) (\<lambda>_. SEQUENCE_encode_aper env specs elms) elms"

definition asn_OP_SEQUENCE_OF :: "env \<Rightarrow> asn_per_constraints option \<Rightarrow> asn_codec asn_TYPE_member \<Rightarrow> asn_codec" where
  "asn_OP_SEQUENCE_OF env td_constraints elm = asn_codec (Elements [])
    (SET_OF_decode_aper env td_constraints elm) (SEQUENCE_OF_encode_aper td_constraints elm) [elm]"

definition asn_OP_CHOICE ::
  "env \<Rightarrow> asn_CHOICE_specifics \<Rightarrow> asn_per_constraints option \<Rightarrow> asn_codec asn_TYPE_member list \<Rightarrow> asn_codec" where
  "asn_OP_CHOICE env specs td_constraints elms = asn_codec (Choice 0 None)
    (CHOICE_decode_aper env specs td_constraints elms) (CHOICE_encode_aper env specs td_constraints elms) elms"

text \<open>An open type has no decoder of its own: the pointer is null.\<close>

definition asn_OP_OPEN_TYPE :: "env \<Rightarrow> asn_codec asn_TYPE_member list \<Rightarrow> asn_codec" where
  "asn_OP_OPEN_TYPE env elms = asn_codec (Choice 0 None) (\<lambda>_ _ _. None) (\<lambda>_. OPEN_TYPE_encode_aper env elms) elms"

section \<open>Members\<close>

text \<open>A member without the flags of a pointer or an open type, and a pointer to an optional member.\<close>

definition member_noflags :: "'t \<Rightarrow> asn_per_constraints option \<Rightarrow> 't asn_TYPE_member" where
  "member_noflags t cs = asn_TYPE_member False False 0 t None cs None None"

definition member_pointer :: "nat \<Rightarrow> 't \<Rightarrow> asn_per_constraints option \<Rightarrow> 't asn_TYPE_member" where
  "member_pointer opt t cs = asn_TYPE_member True False opt t None cs None None"

text \<open>The constraints of a type that constrains its value only, or its size only.\<close>

definition unconstrained_part :: asn_per_constraint where
  "unconstrained_part = \<lparr>flags = APC_UNCONSTRAINED, range_bits = - 1, effective_bits = - 1, lower_bound = 0, upper_bound = 0\<rparr>"

definition unconstrained :: asn_per_constraints where
  "unconstrained = \<lparr>on_value = unconstrained_part, on_size = unconstrained_part\<rparr>"

definition value_only :: "asn_per_constraint \<Rightarrow> asn_per_constraints" where
  "value_only c = \<lparr>on_value = c, on_size = unconstrained_part\<rparr>"

definition size_only :: "asn_per_constraint \<Rightarrow> asn_per_constraints" where
  "size_only c = \<lparr>on_value = unconstrained_part, on_size = c\<rparr>"

section \<open>Information object classes\<close>

text \<open>
  A row of an object set: the number that identifies the object, its criticality, its presence where
  the class has one, and which of the columns of types are defined.
\<close>

record asn_ioc_object =
  object_id :: int
  object_criticality :: int
  object_presence :: "int option"
  object_types :: "bool list"

text \<open>Two columns of a set: the number, and whether the column that is asked for is defined.\<close>

definition type_column :: "nat \<Rightarrow> asn_ioc_object list \<Rightarrow> (int \<times> bool) list" where
  "type_column k objs = map (\<lambda>r. (object_id r, object_types r ! k)) objs"

definition criticality_column :: "asn_ioc_object list \<Rightarrow> (int \<times> bool) list" where
  "criticality_column objs = map (\<lambda>r. (object_id r, True)) objs"

text \<open>
  The selectors that the generator writes are one function of two columns: they count the rows that
  are defined, and return the count at the first one whose number is that of the structure, or zero.
\<close>

definition NativeInteger_compare :: "asn_INTEGER_specifics option \<Rightarrow> int option \<Rightarrow> int option \<Rightarrow> int" where
  "NativeInteger_compare specs aptr bptr =
    (case (aptr, bptr) of
       (Some a, Some b) \<Rightarrow>
         if is_unsigned specs then
           (let a = word_of_int a :: u64; b = word_of_int b in if a < b then - 1 else if b < a then 1 else 0)
         else (if a < b then - 1 else if b < a then 1 else 0)
     | (None, _) \<Rightarrow> - 1
     | _ \<Rightarrow> 1)"

fun select_row :: "(int \<times> bool) list \<Rightarrow> nat \<Rightarrow> int \<Rightarrow> nat" where
  "select_row [] presence_index v = 0" |
  "select_row ((cell, defined) # rows) presence_index v =
    (if \<not> defined then select_row rows presence_index v
     else if NativeInteger_compare None (Some v) (Some cell) = 0 then presence_index + 1
     else select_row rows (presence_index + 1) v)"

text \<open>The identifying value is the first member of the structure.\<close>

definition select_type :: "(int \<times> bool) list \<Rightarrow> asn_value option list \<Rightarrow> nat" where
  "select_type rows st = (case st of Some (Native v) # _ \<Rightarrow> select_row rows 0 v | _ \<Rightarrow> 0)"

text \<open>
  The generated structures over an object set have one shape: the number, the criticality, and the
  value as an open type, with a selector for each of the last two.
\<close>

definition class_fields ::
  "asn_codec \<Rightarrow> asn_per_constraints option \<Rightarrow> asn_codec \<Rightarrow> asn_per_constraints option \<Rightarrow> (asn_value option list \<Rightarrow> nat) \<Rightarrow>
    asn_codec \<Rightarrow> asn_per_constraints option \<Rightarrow> (asn_value option list \<Rightarrow> nat) \<Rightarrow> asn_codec asn_TYPE_member list" where
  "class_fields id_type id_constr criticality criticality_constr select_criticality val val_constr select_value =
    [member_noflags id_type id_constr,
     asn_TYPE_member False False 0 criticality (Some select_criticality) criticality_constr None None,
     asn_TYPE_member False True 0 val (Some select_value) val_constr None None]"

end
