(* ===== verification/E2ap_Messages.thy ===== *)
theory E2ap_Messages
  imports E2ap_Tables Constr_Codecs
begin

unbundle bit_operations_syntax

text \<open>
  The generated tables of the messages of E2AP, from the types of the fields up to the PDU: the
  constraints, the members, the specifics, the object sets with their selectors, and the
  descriptors. The values of a message are the numbers of the tables; a descriptor takes the
  environment of the codecs, and \<open>others\<close>, by name, the descriptors of the messages and fields
  that have no model here.
\<close>

definition asn_DEF_ProcedureCode :: "env \<Rightarrow> asn_codec" where
  "asn_DEF_ProcedureCode env = asn_OP_NativeInteger env None (Some (value_only asn_PER_type_ProcedureCode_constr))"

definition asn_DEF_Criticality :: "env \<Rightarrow> asn_codec" where
  "asn_DEF_Criticality env = asn_OP_NativeEnumerated env asn_SPC_Criticality_specs (Some (value_only asn_PER_type_Criticality_constr))"

definition asn_PER_memb_procedureCode_constr :: asn_per_constraint where
  "asn_PER_memb_procedureCode_constr =
    \<lparr>flags = APC_CONSTRAINED, range_bits = 8, effective_bits = 8, lower_bound = 0, upper_bound = 255\<rparr>"

definition asn_PER_memb_criticality_constr :: asn_per_constraint where
  "asn_PER_memb_criticality_constr =
    \<lparr>flags = APC_CONSTRAINED, range_bits = 2, effective_bits = 2, lower_bound = 0, upper_bound = 2\<rparr>"

definition asn_IOS_E2AP_ELEMENTARY_PROCEDURES :: "asn_ioc_object list" where
  "asn_IOS_E2AP_ELEMENTARY_PROCEDURES =
    [\<lparr>object_id = 8, object_criticality = 0, object_presence = None, object_types = [True, True, True]\<rparr>,
     \<lparr>object_id = 9, object_criticality = 0, object_presence = None, object_types = [True, True, True]\<rparr>,
     \<lparr>object_id = 7, object_criticality = 0, object_presence = None, object_types = [True, True, True]\<rparr>,
     \<lparr>object_id = 4, object_criticality = 0, object_presence = None, object_types = [True, True, True]\<rparr>,
     \<lparr>object_id = 1, object_criticality = 0, object_presence = None, object_types = [True, True, True]\<rparr>,
     \<lparr>object_id = 10, object_criticality = 0, object_presence = None, object_types = [True, True, True]\<rparr>,
     \<lparr>object_id = 11, object_criticality = 0, object_presence = None, object_types = [True, True, True]\<rparr>,
     \<lparr>object_id = 3, object_criticality = 0, object_presence = None, object_types = [True, True, False]\<rparr>,
     \<lparr>object_id = 12, object_criticality = 0, object_presence = None, object_types = [True, True, True]\<rparr>,
     \<lparr>object_id = 13, object_criticality = 0, object_presence = None, object_types = [True, True, True]\<rparr>,
     \<lparr>object_id = 14, object_criticality = 0, object_presence = None, object_types = [True, True, True]\<rparr>,
     \<lparr>object_id = 15, object_criticality = 0, object_presence = None, object_types = [True, True, True]\<rparr>,
     \<lparr>object_id = 5, object_criticality = 1, object_presence = None, object_types = [True, False, False]\<rparr>,
     \<lparr>object_id = 6, object_criticality = 1, object_presence = None, object_types = [True, False, False]\<rparr>,
     \<lparr>object_id = 2, object_criticality = 1, object_presence = None, object_types = [True, False, False]\<rparr>]"

definition asn_DEF_ProtocolIE_ID :: "env \<Rightarrow> asn_codec" where
  "asn_DEF_ProtocolIE_ID env = asn_OP_NativeInteger env None (Some (value_only asn_PER_type_ProtocolIE_ID_constr))"

definition asn_PER_memb_id_constr :: asn_per_constraint where
  "asn_PER_memb_id_constr =
    \<lparr>flags = APC_CONSTRAINED, range_bits = 16, effective_bits = 16, lower_bound = 0, upper_bound = 65535\<rparr>"

definition asn_IOS_RICsubscriptionRequest_IEs :: "asn_ioc_object list" where
  "asn_IOS_RICsubscriptionRequest_IEs =
    [\<lparr>object_id = 29, object_criticality = 0, object_presence = Some 2, object_types = [True]\<rparr>,
     \<lparr>object_id = 5, object_criticality = 0, object_presence = Some 2, object_types = [True]\<rparr>,
     \<lparr>object_id = 30, object_criticality = 0, object_presence = Some 2, object_types = [True]\<rparr>]"

definition asn_DEF_NativeInteger :: "env \<Rightarrow> asn_codec" where
  "asn_DEF_NativeInteger env = asn_OP_NativeInteger env None None"

definition asn_PER_memb_RICrequestID_ricRequestorID_constr :: asn_per_constraint where
  "asn_PER_memb_RICrequestID_ricRequestorID_constr =
    \<lparr>flags = APC_CONSTRAINED, range_bits = 16, effective_bits = 16, lower_bound = 0, upper_bound = 65535\<rparr>"

definition asn_PER_memb_RICrequestID_ricInstanceID_constr :: asn_per_constraint where
  "asn_PER_memb_RICrequestID_ricInstanceID_constr =
    \<lparr>flags = APC_CONSTRAINED, range_bits = 16, effective_bits = 16, lower_bound = 0, upper_bound = 65535\<rparr>"

definition asn_MBR_RICrequestID :: "env \<Rightarrow> asn_codec asn_TYPE_member list" where
  "asn_MBR_RICrequestID env =
    [member_noflags (asn_DEF_NativeInteger env) (Some (value_only asn_PER_memb_RICrequestID_ricRequestorID_constr)),
     member_noflags (asn_DEF_NativeInteger env) (Some (value_only asn_PER_memb_RICrequestID_ricInstanceID_constr))]"

definition asn_SPC_RICrequestID_specs :: asn_SEQUENCE_specifics where
  "asn_SPC_RICrequestID_specs = \<lparr>oms = [], roms_count = 0, aoms_count = 0, first_extension = 2\<rparr>"

definition asn_DEF_RICrequestID :: "env \<Rightarrow> asn_codec" where
  "asn_DEF_RICrequestID env = asn_OP_SEQUENCE env asn_SPC_RICrequestID_specs (asn_MBR_RICrequestID env)"

definition asn_DEF_RANfunctionID :: "env \<Rightarrow> asn_codec" where
  "asn_DEF_RANfunctionID env = asn_OP_NativeInteger env None (Some (value_only asn_PER_type_RANfunctionID_constr))"

definition asn_MBR_RICsubscriptionRequest_IEs__value :: "(string \<Rightarrow> asn_codec) \<Rightarrow> env \<Rightarrow> asn_codec asn_TYPE_member list" where
  "asn_MBR_RICsubscriptionRequest_IEs__value others env =
    [member_noflags (asn_DEF_RICrequestID env) None,
     member_noflags (asn_DEF_RANfunctionID env) None,
     member_noflags (others ''RICsubscriptionDetails'') None]"

definition asn_DEF_RICsubscriptionRequest_IEs__value :: "(string \<Rightarrow> asn_codec) \<Rightarrow> env \<Rightarrow> asn_codec" where
  "asn_DEF_RICsubscriptionRequest_IEs__value others env = asn_OP_OPEN_TYPE env (asn_MBR_RICsubscriptionRequest_IEs__value others env)"

definition asn_SPC_RICsubscriptionRequest_IEs_specs :: asn_SEQUENCE_specifics where
  "asn_SPC_RICsubscriptionRequest_IEs_specs = \<lparr>oms = [], roms_count = 0, aoms_count = 0, first_extension = - 1\<rparr>"

definition select_RICsubscriptionRequest_IEs_value_type :: "asn_value option list \<Rightarrow> nat" where
  "select_RICsubscriptionRequest_IEs_value_type = select_type (type_column 0 asn_IOS_RICsubscriptionRequest_IEs)"

definition select_RICsubscriptionRequest_IEs_criticality_type :: "asn_value option list \<Rightarrow> nat" where
  "select_RICsubscriptionRequest_IEs_criticality_type = select_type (criticality_column asn_IOS_RICsubscriptionRequest_IEs)"

definition asn_MBR_RICsubscriptionRequest_IEs :: "(string \<Rightarrow> asn_codec) \<Rightarrow> env \<Rightarrow> asn_codec asn_TYPE_member list" where
  "asn_MBR_RICsubscriptionRequest_IEs others env = class_fields (asn_DEF_ProtocolIE_ID env) (Some (value_only asn_PER_memb_id_constr)) (asn_DEF_Criticality env) (Some (value_only asn_PER_memb_criticality_constr)) select_RICsubscriptionRequest_IEs_criticality_type
    (asn_DEF_RICsubscriptionRequest_IEs__value others env) (Some unconstrained) select_RICsubscriptionRequest_IEs_value_type"

definition asn_DEF_RICsubscriptionRequest_IEs :: "(string \<Rightarrow> asn_codec) \<Rightarrow> env \<Rightarrow> asn_codec" where
  "asn_DEF_RICsubscriptionRequest_IEs others env = asn_OP_SEQUENCE env asn_SPC_RICsubscriptionRequest_IEs_specs (asn_MBR_RICsubscriptionRequest_IEs others env)"

definition asn_PER_type_ProtocolIE_Container_1479P0_constr :: asn_per_constraint where
  "asn_PER_type_ProtocolIE_Container_1479P0_constr =
    \<lparr>flags = APC_CONSTRAINED, range_bits = 16, effective_bits = 16, lower_bound = 0, upper_bound = 65535\<rparr>"

definition asn_MBR_ProtocolIE_Container_1479P0 :: "(string \<Rightarrow> asn_codec) \<Rightarrow> env \<Rightarrow> asn_codec asn_TYPE_member" where
  "asn_MBR_ProtocolIE_Container_1479P0 others env = member_pointer 0 (asn_DEF_RICsubscriptionRequest_IEs others env) None"

definition asn_DEF_ProtocolIE_Container_1479P0 :: "(string \<Rightarrow> asn_codec) \<Rightarrow> env \<Rightarrow> asn_codec" where
  "asn_DEF_ProtocolIE_Container_1479P0 others env = asn_OP_SEQUENCE_OF env (Some (size_only asn_PER_type_ProtocolIE_Container_1479P0_constr)) (asn_MBR_ProtocolIE_Container_1479P0 others env)"

definition asn_MBR_RICsubscriptionRequest :: "(string \<Rightarrow> asn_codec) \<Rightarrow> env \<Rightarrow> asn_codec asn_TYPE_member list" where
  "asn_MBR_RICsubscriptionRequest others env =
    [member_noflags (asn_DEF_ProtocolIE_Container_1479P0 others env) None]"

definition asn_SPC_RICsubscriptionRequest_specs :: asn_SEQUENCE_specifics where
  "asn_SPC_RICsubscriptionRequest_specs = \<lparr>oms = [], roms_count = 0, aoms_count = 0, first_extension = 1\<rparr>"

definition asn_DEF_RICsubscriptionRequest :: "(string \<Rightarrow> asn_codec) \<Rightarrow> env \<Rightarrow> asn_codec" where
  "asn_DEF_RICsubscriptionRequest others env = asn_OP_SEQUENCE env asn_SPC_RICsubscriptionRequest_specs (asn_MBR_RICsubscriptionRequest others env)"

definition asn_IOS_RICsubscriptionDeleteRequest_IEs :: "asn_ioc_object list" where
  "asn_IOS_RICsubscriptionDeleteRequest_IEs =
    [\<lparr>object_id = 29, object_criticality = 0, object_presence = Some 2, object_types = [True]\<rparr>,
     \<lparr>object_id = 5, object_criticality = 0, object_presence = Some 2, object_types = [True]\<rparr>]"

definition asn_MBR_RICsubscriptionDeleteRequest_IEs__value :: "env \<Rightarrow> asn_codec asn_TYPE_member list" where
  "asn_MBR_RICsubscriptionDeleteRequest_IEs__value env =
    [member_noflags (asn_DEF_RICrequestID env) None,
     member_noflags (asn_DEF_RANfunctionID env) None]"

definition asn_DEF_RICsubscriptionDeleteRequest_IEs__value :: "env \<Rightarrow> asn_codec" where
  "asn_DEF_RICsubscriptionDeleteRequest_IEs__value env = asn_OP_OPEN_TYPE env (asn_MBR_RICsubscriptionDeleteRequest_IEs__value env)"

definition asn_SPC_RICsubscriptionDeleteRequest_IEs_specs :: asn_SEQUENCE_specifics where
  "asn_SPC_RICsubscriptionDeleteRequest_IEs_specs = \<lparr>oms = [], roms_count = 0, aoms_count = 0, first_extension = - 1\<rparr>"

definition select_RICsubscriptionDeleteRequest_IEs_value_type :: "asn_value option list \<Rightarrow> nat" where
  "select_RICsubscriptionDeleteRequest_IEs_value_type = select_type (type_column 0 asn_IOS_RICsubscriptionDeleteRequest_IEs)"

definition select_RICsubscriptionDeleteRequest_IEs_criticality_type :: "asn_value option list \<Rightarrow> nat" where
  "select_RICsubscriptionDeleteRequest_IEs_criticality_type = select_type (criticality_column asn_IOS_RICsubscriptionDeleteRequest_IEs)"

definition asn_MBR_RICsubscriptionDeleteRequest_IEs :: "env \<Rightarrow> asn_codec asn_TYPE_member list" where
  "asn_MBR_RICsubscriptionDeleteRequest_IEs env = class_fields (asn_DEF_ProtocolIE_ID env) (Some (value_only asn_PER_memb_id_constr)) (asn_DEF_Criticality env) (Some (value_only asn_PER_memb_criticality_constr)) select_RICsubscriptionDeleteRequest_IEs_criticality_type
    (asn_DEF_RICsubscriptionDeleteRequest_IEs__value env) (Some unconstrained) select_RICsubscriptionDeleteRequest_IEs_value_type"

definition asn_DEF_RICsubscriptionDeleteRequest_IEs :: "env \<Rightarrow> asn_codec" where
  "asn_DEF_RICsubscriptionDeleteRequest_IEs env = asn_OP_SEQUENCE env asn_SPC_RICsubscriptionDeleteRequest_IEs_specs (asn_MBR_RICsubscriptionDeleteRequest_IEs env)"

definition asn_PER_type_ProtocolIE_Container_1479P5_constr :: asn_per_constraint where
  "asn_PER_type_ProtocolIE_Container_1479P5_constr =
    \<lparr>flags = APC_CONSTRAINED, range_bits = 16, effective_bits = 16, lower_bound = 0, upper_bound = 65535\<rparr>"

definition asn_MBR_ProtocolIE_Container_1479P5 :: "env \<Rightarrow> asn_codec asn_TYPE_member" where
  "asn_MBR_ProtocolIE_Container_1479P5 env = member_pointer 0 (asn_DEF_RICsubscriptionDeleteRequest_IEs env) None"

definition asn_DEF_ProtocolIE_Container_1479P5 :: "env \<Rightarrow> asn_codec" where
  "asn_DEF_ProtocolIE_Container_1479P5 env = asn_OP_SEQUENCE_OF env (Some (size_only asn_PER_type_ProtocolIE_Container_1479P5_constr)) (asn_MBR_ProtocolIE_Container_1479P5 env)"

definition asn_MBR_RICsubscriptionDeleteRequest :: "env \<Rightarrow> asn_codec asn_TYPE_member list" where
  "asn_MBR_RICsubscriptionDeleteRequest env =
    [member_noflags (asn_DEF_ProtocolIE_Container_1479P5 env) None]"

definition asn_SPC_RICsubscriptionDeleteRequest_specs :: asn_SEQUENCE_specifics where
  "asn_SPC_RICsubscriptionDeleteRequest_specs = \<lparr>oms = [], roms_count = 0, aoms_count = 0, first_extension = 1\<rparr>"

definition asn_DEF_RICsubscriptionDeleteRequest :: "env \<Rightarrow> asn_codec" where
  "asn_DEF_RICsubscriptionDeleteRequest env = asn_OP_SEQUENCE env asn_SPC_RICsubscriptionDeleteRequest_specs (asn_MBR_RICsubscriptionDeleteRequest env)"

definition asn_IOS_RICserviceUpdate_IEs :: "asn_ioc_object list" where
  "asn_IOS_RICserviceUpdate_IEs =
    [\<lparr>object_id = 10, object_criticality = 0, object_presence = Some 0, object_types = [True]\<rparr>,
     \<lparr>object_id = 12, object_criticality = 0, object_presence = Some 0, object_types = [True]\<rparr>,
     \<lparr>object_id = 11, object_criticality = 0, object_presence = Some 0, object_types = [True]\<rparr>]"

definition asn_IOS_RANfunction_ItemIEs :: "asn_ioc_object list" where
  "asn_IOS_RANfunction_ItemIEs =
    [\<lparr>object_id = 8, object_criticality = 1, object_presence = Some 2, object_types = [True]\<rparr>]"

definition asn_MBR_ProtocolIE_SingleContainer_1481P8__value :: "(string \<Rightarrow> asn_codec) \<Rightarrow> env \<Rightarrow> asn_codec asn_TYPE_member list" where
  "asn_MBR_ProtocolIE_SingleContainer_1481P8__value others env =
    [member_noflags (others ''RANfunction_Item'') None]"

definition asn_DEF_ProtocolIE_SingleContainer_1481P8__value :: "(string \<Rightarrow> asn_codec) \<Rightarrow> env \<Rightarrow> asn_codec" where
  "asn_DEF_ProtocolIE_SingleContainer_1481P8__value others env = asn_OP_OPEN_TYPE env (asn_MBR_ProtocolIE_SingleContainer_1481P8__value others env)"

definition asn_SPC_ProtocolIE_SingleContainer_1481P8_specs :: asn_SEQUENCE_specifics where
  "asn_SPC_ProtocolIE_SingleContainer_1481P8_specs = \<lparr>oms = [], roms_count = 0, aoms_count = 0, first_extension = - 1\<rparr>"

definition select_ProtocolIE_SingleContainer_1481P8_value_type :: "asn_value option list \<Rightarrow> nat" where
  "select_ProtocolIE_SingleContainer_1481P8_value_type = select_type (type_column 0 asn_IOS_RANfunction_ItemIEs)"

definition select_ProtocolIE_SingleContainer_1481P8_criticality_type :: "asn_value option list \<Rightarrow> nat" where
  "select_ProtocolIE_SingleContainer_1481P8_criticality_type = select_type (criticality_column asn_IOS_RANfunction_ItemIEs)"

definition asn_MBR_ProtocolIE_SingleContainer_1481P8 :: "(string \<Rightarrow> asn_codec) \<Rightarrow> env \<Rightarrow> asn_codec asn_TYPE_member list" where
  "asn_MBR_ProtocolIE_SingleContainer_1481P8 others env = class_fields (asn_DEF_ProtocolIE_ID env) (Some (value_only asn_PER_memb_id_constr)) (asn_DEF_Criticality env) (Some (value_only asn_PER_memb_criticality_constr)) select_ProtocolIE_SingleContainer_1481P8_criticality_type
    (asn_DEF_ProtocolIE_SingleContainer_1481P8__value others env) (Some unconstrained) select_ProtocolIE_SingleContainer_1481P8_value_type"

definition asn_DEF_ProtocolIE_SingleContainer_1481P8 :: "(string \<Rightarrow> asn_codec) \<Rightarrow> env \<Rightarrow> asn_codec" where
  "asn_DEF_ProtocolIE_SingleContainer_1481P8 others env = asn_OP_SEQUENCE env asn_SPC_ProtocolIE_SingleContainer_1481P8_specs (asn_MBR_ProtocolIE_SingleContainer_1481P8 others env)"

definition asn_PER_type_RANfunctions_List_constr :: asn_per_constraint where
  "asn_PER_type_RANfunctions_List_constr =
    \<lparr>flags = APC_CONSTRAINED, range_bits = 9, effective_bits = 9, lower_bound = 0, upper_bound = 256\<rparr>"

definition asn_MBR_RANfunctions_List :: "(string \<Rightarrow> asn_codec) \<Rightarrow> env \<Rightarrow> asn_codec asn_TYPE_member" where
  "asn_MBR_RANfunctions_List others env = member_pointer 0 (asn_DEF_ProtocolIE_SingleContainer_1481P8 others env) None"

definition asn_DEF_RANfunctions_List :: "(string \<Rightarrow> asn_codec) \<Rightarrow> env \<Rightarrow> asn_codec" where
  "asn_DEF_RANfunctions_List others env = asn_OP_SEQUENCE_OF env (Some (size_only asn_PER_type_RANfunctions_List_constr)) (asn_MBR_RANfunctions_List others env)"

definition asn_IOS_RANfunctionID_ItemIEs :: "asn_ioc_object list" where
  "asn_IOS_RANfunctionID_ItemIEs =
    [\<lparr>object_id = 6, object_criticality = 1, object_presence = Some 2, object_types = [True]\<rparr>]"

definition asn_DEF_RANfunctionRevision :: "env \<Rightarrow> asn_codec" where
  "asn_DEF_RANfunctionRevision env = asn_OP_NativeInteger env None (Some (value_only asn_PER_type_RANfunctionRevision_constr))"

definition asn_MBR_RANfunctionID_Item :: "env \<Rightarrow> asn_codec asn_TYPE_member list" where
  "asn_MBR_RANfunctionID_Item env =
    [member_noflags (asn_DEF_RANfunctionID env) None,
     member_noflags (asn_DEF_RANfunctionRevision env) None]"

definition asn_SPC_RANfunctionID_Item_specs :: asn_SEQUENCE_specifics where
  "asn_SPC_RANfunctionID_Item_specs = \<lparr>oms = [], roms_count = 0, aoms_count = 0, first_extension = 2\<rparr>"

definition asn_DEF_RANfunctionID_Item :: "env \<Rightarrow> asn_codec" where
  "asn_DEF_RANfunctionID_Item env = asn_OP_SEQUENCE env asn_SPC_RANfunctionID_Item_specs (asn_MBR_RANfunctionID_Item env)"

definition asn_MBR_ProtocolIE_SingleContainer_1481P9__value :: "env \<Rightarrow> asn_codec asn_TYPE_member list" where
  "asn_MBR_ProtocolIE_SingleContainer_1481P9__value env =
    [member_noflags (asn_DEF_RANfunctionID_Item env) None]"

definition asn_DEF_ProtocolIE_SingleContainer_1481P9__value :: "env \<Rightarrow> asn_codec" where
  "asn_DEF_ProtocolIE_SingleContainer_1481P9__value env = asn_OP_OPEN_TYPE env (asn_MBR_ProtocolIE_SingleContainer_1481P9__value env)"

definition asn_SPC_ProtocolIE_SingleContainer_1481P9_specs :: asn_SEQUENCE_specifics where
  "asn_SPC_ProtocolIE_SingleContainer_1481P9_specs = \<lparr>oms = [], roms_count = 0, aoms_count = 0, first_extension = - 1\<rparr>"

definition select_ProtocolIE_SingleContainer_1481P9_value_type :: "asn_value option list \<Rightarrow> nat" where
  "select_ProtocolIE_SingleContainer_1481P9_value_type = select_type (type_column 0 asn_IOS_RANfunctionID_ItemIEs)"

definition select_ProtocolIE_SingleContainer_1481P9_criticality_type :: "asn_value option list \<Rightarrow> nat" where
  "select_ProtocolIE_SingleContainer_1481P9_criticality_type = select_type (criticality_column asn_IOS_RANfunctionID_ItemIEs)"

definition asn_MBR_ProtocolIE_SingleContainer_1481P9 :: "env \<Rightarrow> asn_codec asn_TYPE_member list" where
  "asn_MBR_ProtocolIE_SingleContainer_1481P9 env = class_fields (asn_DEF_ProtocolIE_ID env) (Some (value_only asn_PER_memb_id_constr)) (asn_DEF_Criticality env) (Some (value_only asn_PER_memb_criticality_constr)) select_ProtocolIE_SingleContainer_1481P9_criticality_type
    (asn_DEF_ProtocolIE_SingleContainer_1481P9__value env) (Some unconstrained) select_ProtocolIE_SingleContainer_1481P9_value_type"

definition asn_DEF_ProtocolIE_SingleContainer_1481P9 :: "env \<Rightarrow> asn_codec" where
  "asn_DEF_ProtocolIE_SingleContainer_1481P9 env = asn_OP_SEQUENCE env asn_SPC_ProtocolIE_SingleContainer_1481P9_specs (asn_MBR_ProtocolIE_SingleContainer_1481P9 env)"

definition asn_PER_type_RANfunctionsID_List_constr :: asn_per_constraint where
  "asn_PER_type_RANfunctionsID_List_constr =
    \<lparr>flags = APC_CONSTRAINED, range_bits = 9, effective_bits = 9, lower_bound = 0, upper_bound = 256\<rparr>"

definition asn_MBR_RANfunctionsID_List :: "env \<Rightarrow> asn_codec asn_TYPE_member" where
  "asn_MBR_RANfunctionsID_List env = member_pointer 0 (asn_DEF_ProtocolIE_SingleContainer_1481P9 env) None"

definition asn_DEF_RANfunctionsID_List :: "env \<Rightarrow> asn_codec" where
  "asn_DEF_RANfunctionsID_List env = asn_OP_SEQUENCE_OF env (Some (size_only asn_PER_type_RANfunctionsID_List_constr)) (asn_MBR_RANfunctionsID_List env)"

definition asn_MBR_RICserviceUpdate_IEs__value :: "(string \<Rightarrow> asn_codec) \<Rightarrow> env \<Rightarrow> asn_codec asn_TYPE_member list" where
  "asn_MBR_RICserviceUpdate_IEs__value others env =
    [member_noflags (asn_DEF_RANfunctions_List others env) None,
     member_noflags (asn_DEF_RANfunctions_List others env) None,
     member_noflags (asn_DEF_RANfunctionsID_List env) None]"

definition asn_DEF_RICserviceUpdate_IEs__value :: "(string \<Rightarrow> asn_codec) \<Rightarrow> env \<Rightarrow> asn_codec" where
  "asn_DEF_RICserviceUpdate_IEs__value others env = asn_OP_OPEN_TYPE env (asn_MBR_RICserviceUpdate_IEs__value others env)"

definition asn_SPC_RICserviceUpdate_IEs_specs :: asn_SEQUENCE_specifics where
  "asn_SPC_RICserviceUpdate_IEs_specs = \<lparr>oms = [], roms_count = 0, aoms_count = 0, first_extension = - 1\<rparr>"

definition select_RICserviceUpdate_IEs_value_type :: "asn_value option list \<Rightarrow> nat" where
  "select_RICserviceUpdate_IEs_value_type = select_type (type_column 0 asn_IOS_RICserviceUpdate_IEs)"

definition select_RICserviceUpdate_IEs_criticality_type :: "asn_value option list \<Rightarrow> nat" where
  "select_RICserviceUpdate_IEs_criticality_type = select_type (criticality_column asn_IOS_RICserviceUpdate_IEs)"

definition asn_MBR_RICserviceUpdate_IEs :: "(string \<Rightarrow> asn_codec) \<Rightarrow> env \<Rightarrow> asn_codec asn_TYPE_member list" where
  "asn_MBR_RICserviceUpdate_IEs others env = class_fields (asn_DEF_ProtocolIE_ID env) (Some (value_only asn_PER_memb_id_constr)) (asn_DEF_Criticality env) (Some (value_only asn_PER_memb_criticality_constr)) select_RICserviceUpdate_IEs_criticality_type
    (asn_DEF_RICserviceUpdate_IEs__value others env) (Some unconstrained) select_RICserviceUpdate_IEs_value_type"

definition asn_DEF_RICserviceUpdate_IEs :: "(string \<Rightarrow> asn_codec) \<Rightarrow> env \<Rightarrow> asn_codec" where
  "asn_DEF_RICserviceUpdate_IEs others env = asn_OP_SEQUENCE env asn_SPC_RICserviceUpdate_IEs_specs (asn_MBR_RICserviceUpdate_IEs others env)"

definition asn_PER_type_ProtocolIE_Container_1479P27_constr :: asn_per_constraint where
  "asn_PER_type_ProtocolIE_Container_1479P27_constr =
    \<lparr>flags = APC_CONSTRAINED, range_bits = 16, effective_bits = 16, lower_bound = 0, upper_bound = 65535\<rparr>"

definition asn_MBR_ProtocolIE_Container_1479P27 :: "(string \<Rightarrow> asn_codec) \<Rightarrow> env \<Rightarrow> asn_codec asn_TYPE_member" where
  "asn_MBR_ProtocolIE_Container_1479P27 others env = member_pointer 0 (asn_DEF_RICserviceUpdate_IEs others env) None"

definition asn_DEF_ProtocolIE_Container_1479P27 :: "(string \<Rightarrow> asn_codec) \<Rightarrow> env \<Rightarrow> asn_codec" where
  "asn_DEF_ProtocolIE_Container_1479P27 others env = asn_OP_SEQUENCE_OF env (Some (size_only asn_PER_type_ProtocolIE_Container_1479P27_constr)) (asn_MBR_ProtocolIE_Container_1479P27 others env)"

definition asn_MBR_RICserviceUpdate :: "(string \<Rightarrow> asn_codec) \<Rightarrow> env \<Rightarrow> asn_codec asn_TYPE_member list" where
  "asn_MBR_RICserviceUpdate others env =
    [member_noflags (asn_DEF_ProtocolIE_Container_1479P27 others env) None]"

definition asn_SPC_RICserviceUpdate_specs :: asn_SEQUENCE_specifics where
  "asn_SPC_RICserviceUpdate_specs = \<lparr>oms = [], roms_count = 0, aoms_count = 0, first_extension = 1\<rparr>"

definition asn_DEF_RICserviceUpdate :: "(string \<Rightarrow> asn_codec) \<Rightarrow> env \<Rightarrow> asn_codec" where
  "asn_DEF_RICserviceUpdate others env = asn_OP_SEQUENCE env asn_SPC_RICserviceUpdate_specs (asn_MBR_RICserviceUpdate others env)"

definition asn_IOS_RICcontrolRequest_IEs :: "asn_ioc_object list" where
  "asn_IOS_RICcontrolRequest_IEs =
    [\<lparr>object_id = 29, object_criticality = 0, object_presence = Some 2, object_types = [True]\<rparr>,
     \<lparr>object_id = 5, object_criticality = 0, object_presence = Some 2, object_types = [True]\<rparr>,
     \<lparr>object_id = 20, object_criticality = 0, object_presence = Some 0, object_types = [True]\<rparr>,
     \<lparr>object_id = 22, object_criticality = 0, object_presence = Some 2, object_types = [True]\<rparr>,
     \<lparr>object_id = 23, object_criticality = 0, object_presence = Some 2, object_types = [True]\<rparr>,
     \<lparr>object_id = 21, object_criticality = 0, object_presence = Some 0, object_types = [True]\<rparr>]"

definition asn_DEF_RICcontrolAckRequest :: "env \<Rightarrow> asn_codec" where
  "asn_DEF_RICcontrolAckRequest env = asn_OP_NativeEnumerated env asn_SPC_RICcontrolAckRequest_specs (Some (value_only asn_PER_type_RICcontrolAckRequest_constr))"

definition asn_MBR_RICcontrolRequest_IEs__value :: "(string \<Rightarrow> asn_codec) \<Rightarrow> env \<Rightarrow> asn_codec asn_TYPE_member list" where
  "asn_MBR_RICcontrolRequest_IEs__value others env =
    [member_noflags (asn_DEF_RICrequestID env) None,
     member_noflags (asn_DEF_RANfunctionID env) None,
     member_noflags (others ''RICcallProcessID'') None,
     member_noflags (others ''RICcontrolHeader'') None,
     member_noflags (others ''RICcontrolMessage'') None,
     member_noflags (asn_DEF_RICcontrolAckRequest env) None]"

definition asn_DEF_RICcontrolRequest_IEs__value :: "(string \<Rightarrow> asn_codec) \<Rightarrow> env \<Rightarrow> asn_codec" where
  "asn_DEF_RICcontrolRequest_IEs__value others env = asn_OP_OPEN_TYPE env (asn_MBR_RICcontrolRequest_IEs__value others env)"

definition asn_SPC_RICcontrolRequest_IEs_specs :: asn_SEQUENCE_specifics where
  "asn_SPC_RICcontrolRequest_IEs_specs = \<lparr>oms = [], roms_count = 0, aoms_count = 0, first_extension = - 1\<rparr>"

definition select_RICcontrolRequest_IEs_value_type :: "asn_value option list \<Rightarrow> nat" where
  "select_RICcontrolRequest_IEs_value_type = select_type (type_column 0 asn_IOS_RICcontrolRequest_IEs)"

definition select_RICcontrolRequest_IEs_criticality_type :: "asn_value option list \<Rightarrow> nat" where
  "select_RICcontrolRequest_IEs_criticality_type = select_type (criticality_column asn_IOS_RICcontrolRequest_IEs)"

definition asn_MBR_RICcontrolRequest_IEs :: "(string \<Rightarrow> asn_codec) \<Rightarrow> env \<Rightarrow> asn_codec asn_TYPE_member list" where
  "asn_MBR_RICcontrolRequest_IEs others env = class_fields (asn_DEF_ProtocolIE_ID env) (Some (value_only asn_PER_memb_id_constr)) (asn_DEF_Criticality env) (Some (value_only asn_PER_memb_criticality_constr)) select_RICcontrolRequest_IEs_criticality_type
    (asn_DEF_RICcontrolRequest_IEs__value others env) (Some unconstrained) select_RICcontrolRequest_IEs_value_type"

definition asn_DEF_RICcontrolRequest_IEs :: "(string \<Rightarrow> asn_codec) \<Rightarrow> env \<Rightarrow> asn_codec" where
  "asn_DEF_RICcontrolRequest_IEs others env = asn_OP_SEQUENCE env asn_SPC_RICcontrolRequest_IEs_specs (asn_MBR_RICcontrolRequest_IEs others env)"

definition asn_PER_type_ProtocolIE_Container_1479P9_constr :: asn_per_constraint where
  "asn_PER_type_ProtocolIE_Container_1479P9_constr =
    \<lparr>flags = APC_CONSTRAINED, range_bits = 16, effective_bits = 16, lower_bound = 0, upper_bound = 65535\<rparr>"

definition asn_MBR_ProtocolIE_Container_1479P9 :: "(string \<Rightarrow> asn_codec) \<Rightarrow> env \<Rightarrow> asn_codec asn_TYPE_member" where
  "asn_MBR_ProtocolIE_Container_1479P9 others env = member_pointer 0 (asn_DEF_RICcontrolRequest_IEs others env) None"

definition asn_DEF_ProtocolIE_Container_1479P9 :: "(string \<Rightarrow> asn_codec) \<Rightarrow> env \<Rightarrow> asn_codec" where
  "asn_DEF_ProtocolIE_Container_1479P9 others env = asn_OP_SEQUENCE_OF env (Some (size_only asn_PER_type_ProtocolIE_Container_1479P9_constr)) (asn_MBR_ProtocolIE_Container_1479P9 others env)"

definition asn_MBR_RICcontrolRequest :: "(string \<Rightarrow> asn_codec) \<Rightarrow> env \<Rightarrow> asn_codec asn_TYPE_member list" where
  "asn_MBR_RICcontrolRequest others env =
    [member_noflags (asn_DEF_ProtocolIE_Container_1479P9 others env) None]"

definition asn_SPC_RICcontrolRequest_specs :: asn_SEQUENCE_specifics where
  "asn_SPC_RICcontrolRequest_specs = \<lparr>oms = [], roms_count = 0, aoms_count = 0, first_extension = 1\<rparr>"

definition asn_DEF_RICcontrolRequest :: "(string \<Rightarrow> asn_codec) \<Rightarrow> env \<Rightarrow> asn_codec" where
  "asn_DEF_RICcontrolRequest others env = asn_OP_SEQUENCE env asn_SPC_RICcontrolRequest_specs (asn_MBR_RICcontrolRequest others env)"

definition asn_IOS_E2setupRequestIEs :: "asn_ioc_object list" where
  "asn_IOS_E2setupRequestIEs =
    [\<lparr>object_id = 3, object_criticality = 0, object_presence = Some 2, object_types = [True]\<rparr>,
     \<lparr>object_id = 10, object_criticality = 0, object_presence = Some 0, object_types = [True]\<rparr>,
     \<lparr>object_id = 33, object_criticality = 0, object_presence = Some 0, object_types = [True]\<rparr>]"

definition asn_IOS_E2nodeComponentConfigUpdate_ItemIEs :: "asn_ioc_object list" where
  "asn_IOS_E2nodeComponentConfigUpdate_ItemIEs =
    [\<lparr>object_id = 34, object_criticality = 0, object_presence = Some 2, object_types = [True]\<rparr>]"

definition asn_DEF_E2nodeComponentType :: "env \<Rightarrow> asn_codec" where
  "asn_DEF_E2nodeComponentType env = asn_OP_NativeEnumerated env asn_SPC_E2nodeComponentType_specs (Some (value_only asn_PER_type_E2nodeComponentType_constr))"

definition asn_MBR_ProtocolIE_SingleContainer_1481P6__value :: "(string \<Rightarrow> asn_codec) \<Rightarrow> env \<Rightarrow> asn_codec asn_TYPE_member list" where
  "asn_MBR_ProtocolIE_SingleContainer_1481P6__value others env =
    [member_noflags (others ''E2nodeComponentConfigUpdate_Item'') None]"

definition asn_DEF_ProtocolIE_SingleContainer_1481P6__value :: "(string \<Rightarrow> asn_codec) \<Rightarrow> env \<Rightarrow> asn_codec" where
  "asn_DEF_ProtocolIE_SingleContainer_1481P6__value others env = asn_OP_OPEN_TYPE env (asn_MBR_ProtocolIE_SingleContainer_1481P6__value others env)"

definition asn_SPC_ProtocolIE_SingleContainer_1481P6_specs :: asn_SEQUENCE_specifics where
  "asn_SPC_ProtocolIE_SingleContainer_1481P6_specs = \<lparr>oms = [], roms_count = 0, aoms_count = 0, first_extension = - 1\<rparr>"

definition select_ProtocolIE_SingleContainer_1481P6_value_type :: "asn_value option list \<Rightarrow> nat" where
  "select_ProtocolIE_SingleContainer_1481P6_value_type = select_type (type_column 0 asn_IOS_E2nodeComponentConfigUpdate_ItemIEs)"

definition select_ProtocolIE_SingleContainer_1481P6_criticality_type :: "asn_value option list \<Rightarrow> nat" where
  "select_ProtocolIE_SingleContainer_1481P6_criticality_type = select_type (criticality_column asn_IOS_E2nodeComponentConfigUpdate_ItemIEs)"

definition asn_MBR_ProtocolIE_SingleContainer_1481P6 :: "(string \<Rightarrow> asn_codec) \<Rightarrow> env \<Rightarrow> asn_codec asn_TYPE_member list" where
  "asn_MBR_ProtocolIE_SingleContainer_1481P6 others env = class_fields (asn_DEF_ProtocolIE_ID env) (Some (value_only asn_PER_memb_id_constr)) (asn_DEF_Criticality env) (Some (value_only asn_PER_memb_criticality_constr)) select_ProtocolIE_SingleContainer_1481P6_criticality_type
    (asn_DEF_ProtocolIE_SingleContainer_1481P6__value others env) (Some unconstrained) select_ProtocolIE_SingleContainer_1481P6_value_type"

definition asn_DEF_ProtocolIE_SingleContainer_1481P6 :: "(string \<Rightarrow> asn_codec) \<Rightarrow> env \<Rightarrow> asn_codec" where
  "asn_DEF_ProtocolIE_SingleContainer_1481P6 others env = asn_OP_SEQUENCE env asn_SPC_ProtocolIE_SingleContainer_1481P6_specs (asn_MBR_ProtocolIE_SingleContainer_1481P6 others env)"

definition asn_PER_type_E2nodeComponentConfigUpdate_List_constr :: asn_per_constraint where
  "asn_PER_type_E2nodeComponentConfigUpdate_List_constr =
    \<lparr>flags = APC_CONSTRAINED, range_bits = 10, effective_bits = 10, lower_bound = 1, upper_bound = 1024\<rparr>"

definition asn_MBR_E2nodeComponentConfigUpdate_List :: "(string \<Rightarrow> asn_codec) \<Rightarrow> env \<Rightarrow> asn_codec asn_TYPE_member" where
  "asn_MBR_E2nodeComponentConfigUpdate_List others env = member_pointer 0 (asn_DEF_ProtocolIE_SingleContainer_1481P6 others env) None"

definition asn_DEF_E2nodeComponentConfigUpdate_List :: "(string \<Rightarrow> asn_codec) \<Rightarrow> env \<Rightarrow> asn_codec" where
  "asn_DEF_E2nodeComponentConfigUpdate_List others env = asn_OP_SEQUENCE_OF env (Some (size_only asn_PER_type_E2nodeComponentConfigUpdate_List_constr)) (asn_MBR_E2nodeComponentConfigUpdate_List others env)"

definition asn_MBR_E2setupRequestIEs__value :: "(string \<Rightarrow> asn_codec) \<Rightarrow> env \<Rightarrow> asn_codec asn_TYPE_member list" where
  "asn_MBR_E2setupRequestIEs__value others env =
    [member_noflags (others ''GlobalE2node_ID'') None,
     member_noflags (asn_DEF_RANfunctions_List others env) None,
     member_noflags (asn_DEF_E2nodeComponentConfigUpdate_List others env) None]"

definition asn_DEF_E2setupRequestIEs__value :: "(string \<Rightarrow> asn_codec) \<Rightarrow> env \<Rightarrow> asn_codec" where
  "asn_DEF_E2setupRequestIEs__value others env = asn_OP_OPEN_TYPE env (asn_MBR_E2setupRequestIEs__value others env)"

definition asn_SPC_E2setupRequestIEs_specs :: asn_SEQUENCE_specifics where
  "asn_SPC_E2setupRequestIEs_specs = \<lparr>oms = [], roms_count = 0, aoms_count = 0, first_extension = - 1\<rparr>"

definition select_E2setupRequestIEs_value_type :: "asn_value option list \<Rightarrow> nat" where
  "select_E2setupRequestIEs_value_type = select_type (type_column 0 asn_IOS_E2setupRequestIEs)"

definition select_E2setupRequestIEs_criticality_type :: "asn_value option list \<Rightarrow> nat" where
  "select_E2setupRequestIEs_criticality_type = select_type (criticality_column asn_IOS_E2setupRequestIEs)"

definition asn_MBR_E2setupRequestIEs :: "(string \<Rightarrow> asn_codec) \<Rightarrow> env \<Rightarrow> asn_codec asn_TYPE_member list" where
  "asn_MBR_E2setupRequestIEs others env = class_fields (asn_DEF_ProtocolIE_ID env) (Some (value_only asn_PER_memb_id_constr)) (asn_DEF_Criticality env) (Some (value_only asn_PER_memb_criticality_constr)) select_E2setupRequestIEs_criticality_type
    (asn_DEF_E2setupRequestIEs__value others env) (Some unconstrained) select_E2setupRequestIEs_value_type"

definition asn_DEF_E2setupRequestIEs :: "(string \<Rightarrow> asn_codec) \<Rightarrow> env \<Rightarrow> asn_codec" where
  "asn_DEF_E2setupRequestIEs others env = asn_OP_SEQUENCE env asn_SPC_E2setupRequestIEs_specs (asn_MBR_E2setupRequestIEs others env)"

definition asn_PER_type_ProtocolIE_Container_1479P14_constr :: asn_per_constraint where
  "asn_PER_type_ProtocolIE_Container_1479P14_constr =
    \<lparr>flags = APC_CONSTRAINED, range_bits = 16, effective_bits = 16, lower_bound = 0, upper_bound = 65535\<rparr>"

definition asn_MBR_ProtocolIE_Container_1479P14 :: "(string \<Rightarrow> asn_codec) \<Rightarrow> env \<Rightarrow> asn_codec asn_TYPE_member" where
  "asn_MBR_ProtocolIE_Container_1479P14 others env = member_pointer 0 (asn_DEF_E2setupRequestIEs others env) None"

definition asn_DEF_ProtocolIE_Container_1479P14 :: "(string \<Rightarrow> asn_codec) \<Rightarrow> env \<Rightarrow> asn_codec" where
  "asn_DEF_ProtocolIE_Container_1479P14 others env = asn_OP_SEQUENCE_OF env (Some (size_only asn_PER_type_ProtocolIE_Container_1479P14_constr)) (asn_MBR_ProtocolIE_Container_1479P14 others env)"

definition asn_MBR_E2setupRequest :: "(string \<Rightarrow> asn_codec) \<Rightarrow> env \<Rightarrow> asn_codec asn_TYPE_member list" where
  "asn_MBR_E2setupRequest others env =
    [member_noflags (asn_DEF_ProtocolIE_Container_1479P14 others env) None]"

definition asn_SPC_E2setupRequest_specs :: asn_SEQUENCE_specifics where
  "asn_SPC_E2setupRequest_specs = \<lparr>oms = [], roms_count = 0, aoms_count = 0, first_extension = 1\<rparr>"

definition asn_DEF_E2setupRequest :: "(string \<Rightarrow> asn_codec) \<Rightarrow> env \<Rightarrow> asn_codec" where
  "asn_DEF_E2setupRequest others env = asn_OP_SEQUENCE env asn_SPC_E2setupRequest_specs (asn_MBR_E2setupRequest others env)"

definition asn_IOS_E2nodeConfigurationUpdate_IEs :: "asn_ioc_object list" where
  "asn_IOS_E2nodeConfigurationUpdate_IEs =
    [\<lparr>object_id = 33, object_criticality = 0, object_presence = Some 0, object_types = [True]\<rparr>]"

definition asn_MBR_E2nodeConfigurationUpdate_IEs__value :: "(string \<Rightarrow> asn_codec) \<Rightarrow> env \<Rightarrow> asn_codec asn_TYPE_member list" where
  "asn_MBR_E2nodeConfigurationUpdate_IEs__value others env =
    [member_noflags (asn_DEF_E2nodeComponentConfigUpdate_List others env) None]"

definition asn_DEF_E2nodeConfigurationUpdate_IEs__value :: "(string \<Rightarrow> asn_codec) \<Rightarrow> env \<Rightarrow> asn_codec" where
  "asn_DEF_E2nodeConfigurationUpdate_IEs__value others env = asn_OP_OPEN_TYPE env (asn_MBR_E2nodeConfigurationUpdate_IEs__value others env)"

definition asn_SPC_E2nodeConfigurationUpdate_IEs_specs :: asn_SEQUENCE_specifics where
  "asn_SPC_E2nodeConfigurationUpdate_IEs_specs = \<lparr>oms = [], roms_count = 0, aoms_count = 0, first_extension = - 1\<rparr>"

definition select_E2nodeConfigurationUpdate_IEs_value_type :: "asn_value option list \<Rightarrow> nat" where
  "select_E2nodeConfigurationUpdate_IEs_value_type = select_type (type_column 0 asn_IOS_E2nodeConfigurationUpdate_IEs)"

definition select_E2nodeConfigurationUpdate_IEs_criticality_type :: "asn_value option list \<Rightarrow> nat" where
  "select_E2nodeConfigurationUpdate_IEs_criticality_type = select_type (criticality_column asn_IOS_E2nodeConfigurationUpdate_IEs)"

definition asn_MBR_E2nodeConfigurationUpdate_IEs :: "(string \<Rightarrow> asn_codec) \<Rightarrow> env \<Rightarrow> asn_codec asn_TYPE_member list" where
  "asn_MBR_E2nodeConfigurationUpdate_IEs others env = class_fields (asn_DEF_ProtocolIE_ID env) (Some (value_only asn_PER_memb_id_constr)) (asn_DEF_Criticality env) (Some (value_only asn_PER_memb_criticality_constr)) select_E2nodeConfigurationUpdate_IEs_criticality_type
    (asn_DEF_E2nodeConfigurationUpdate_IEs__value others env) (Some unconstrained) select_E2nodeConfigurationUpdate_IEs_value_type"

definition asn_DEF_E2nodeConfigurationUpdate_IEs :: "(string \<Rightarrow> asn_codec) \<Rightarrow> env \<Rightarrow> asn_codec" where
  "asn_DEF_E2nodeConfigurationUpdate_IEs others env = asn_OP_SEQUENCE env asn_SPC_E2nodeConfigurationUpdate_IEs_specs (asn_MBR_E2nodeConfigurationUpdate_IEs others env)"

definition asn_PER_type_ProtocolIE_Container_1479P22_constr :: asn_per_constraint where
  "asn_PER_type_ProtocolIE_Container_1479P22_constr =
    \<lparr>flags = APC_CONSTRAINED, range_bits = 16, effective_bits = 16, lower_bound = 0, upper_bound = 65535\<rparr>"

definition asn_MBR_ProtocolIE_Container_1479P22 :: "(string \<Rightarrow> asn_codec) \<Rightarrow> env \<Rightarrow> asn_codec asn_TYPE_member" where
  "asn_MBR_ProtocolIE_Container_1479P22 others env = member_pointer 0 (asn_DEF_E2nodeConfigurationUpdate_IEs others env) None"

definition asn_DEF_ProtocolIE_Container_1479P22 :: "(string \<Rightarrow> asn_codec) \<Rightarrow> env \<Rightarrow> asn_codec" where
  "asn_DEF_ProtocolIE_Container_1479P22 others env = asn_OP_SEQUENCE_OF env (Some (size_only asn_PER_type_ProtocolIE_Container_1479P22_constr)) (asn_MBR_ProtocolIE_Container_1479P22 others env)"

definition asn_MBR_E2nodeConfigurationUpdate :: "(string \<Rightarrow> asn_codec) \<Rightarrow> env \<Rightarrow> asn_codec asn_TYPE_member list" where
  "asn_MBR_E2nodeConfigurationUpdate others env =
    [member_noflags (asn_DEF_ProtocolIE_Container_1479P22 others env) None]"

definition asn_SPC_E2nodeConfigurationUpdate_specs :: asn_SEQUENCE_specifics where
  "asn_SPC_E2nodeConfigurationUpdate_specs = \<lparr>oms = [], roms_count = 0, aoms_count = 0, first_extension = 1\<rparr>"

definition asn_DEF_E2nodeConfigurationUpdate :: "(string \<Rightarrow> asn_codec) \<Rightarrow> env \<Rightarrow> asn_codec" where
  "asn_DEF_E2nodeConfigurationUpdate others env = asn_OP_SEQUENCE env asn_SPC_E2nodeConfigurationUpdate_specs (asn_MBR_E2nodeConfigurationUpdate others env)"

definition asn_IOS_E2connectionUpdate_IEs :: "asn_ioc_object list" where
  "asn_IOS_E2connectionUpdate_IEs =
    [\<lparr>object_id = 44, object_criticality = 0, object_presence = Some 0, object_types = [True]\<rparr>,
     \<lparr>object_id = 46, object_criticality = 0, object_presence = Some 0, object_types = [True]\<rparr>,
     \<lparr>object_id = 45, object_criticality = 0, object_presence = Some 0, object_types = [True]\<rparr>]"

definition asn_IOS_E2connectionUpdate_ItemIEs :: "asn_ioc_object list" where
  "asn_IOS_E2connectionUpdate_ItemIEs =
    [\<lparr>object_id = 43, object_criticality = 1, object_presence = Some 2, object_types = [True]\<rparr>]"

definition asn_MBR_ProtocolIE_SingleContainer_1481P3__value :: "(string \<Rightarrow> asn_codec) \<Rightarrow> env \<Rightarrow> asn_codec asn_TYPE_member list" where
  "asn_MBR_ProtocolIE_SingleContainer_1481P3__value others env =
    [member_noflags (others ''E2connectionUpdate_Item'') None]"

definition asn_DEF_ProtocolIE_SingleContainer_1481P3__value :: "(string \<Rightarrow> asn_codec) \<Rightarrow> env \<Rightarrow> asn_codec" where
  "asn_DEF_ProtocolIE_SingleContainer_1481P3__value others env = asn_OP_OPEN_TYPE env (asn_MBR_ProtocolIE_SingleContainer_1481P3__value others env)"

definition asn_SPC_ProtocolIE_SingleContainer_1481P3_specs :: asn_SEQUENCE_specifics where
  "asn_SPC_ProtocolIE_SingleContainer_1481P3_specs = \<lparr>oms = [], roms_count = 0, aoms_count = 0, first_extension = - 1\<rparr>"

definition select_ProtocolIE_SingleContainer_1481P3_value_type :: "asn_value option list \<Rightarrow> nat" where
  "select_ProtocolIE_SingleContainer_1481P3_value_type = select_type (type_column 0 asn_IOS_E2connectionUpdate_ItemIEs)"

definition select_ProtocolIE_SingleContainer_1481P3_criticality_type :: "asn_value option list \<Rightarrow> nat" where
  "select_ProtocolIE_SingleContainer_1481P3_criticality_type = select_type (criticality_column asn_IOS_E2connectionUpdate_ItemIEs)"

definition asn_MBR_ProtocolIE_SingleContainer_1481P3 :: "(string \<Rightarrow> asn_codec) \<Rightarrow> env \<Rightarrow> asn_codec asn_TYPE_member list" where
  "asn_MBR_ProtocolIE_SingleContainer_1481P3 others env = class_fields (asn_DEF_ProtocolIE_ID env) (Some (value_only asn_PER_memb_id_constr)) (asn_DEF_Criticality env) (Some (value_only asn_PER_memb_criticality_constr)) select_ProtocolIE_SingleContainer_1481P3_criticality_type
    (asn_DEF_ProtocolIE_SingleContainer_1481P3__value others env) (Some unconstrained) select_ProtocolIE_SingleContainer_1481P3_value_type"

definition asn_DEF_ProtocolIE_SingleContainer_1481P3 :: "(string \<Rightarrow> asn_codec) \<Rightarrow> env \<Rightarrow> asn_codec" where
  "asn_DEF_ProtocolIE_SingleContainer_1481P3 others env = asn_OP_SEQUENCE env asn_SPC_ProtocolIE_SingleContainer_1481P3_specs (asn_MBR_ProtocolIE_SingleContainer_1481P3 others env)"

definition asn_PER_type_E2connectionUpdate_List_constr :: asn_per_constraint where
  "asn_PER_type_E2connectionUpdate_List_constr =
    \<lparr>flags = APC_CONSTRAINED, range_bits = 5, effective_bits = 5, lower_bound = 1, upper_bound = 32\<rparr>"

definition asn_MBR_E2connectionUpdate_List :: "(string \<Rightarrow> asn_codec) \<Rightarrow> env \<Rightarrow> asn_codec asn_TYPE_member" where
  "asn_MBR_E2connectionUpdate_List others env = member_pointer 0 (asn_DEF_ProtocolIE_SingleContainer_1481P3 others env) None"

definition asn_DEF_E2connectionUpdate_List :: "(string \<Rightarrow> asn_codec) \<Rightarrow> env \<Rightarrow> asn_codec" where
  "asn_DEF_E2connectionUpdate_List others env = asn_OP_SEQUENCE_OF env (Some (size_only asn_PER_type_E2connectionUpdate_List_constr)) (asn_MBR_E2connectionUpdate_List others env)"

definition asn_IOS_E2connectionUpdateRemove_ItemIEs :: "asn_ioc_object list" where
  "asn_IOS_E2connectionUpdateRemove_ItemIEs =
    [\<lparr>object_id = 47, object_criticality = 1, object_presence = Some 2, object_types = [True]\<rparr>]"

definition asn_MBR_ProtocolIE_SingleContainer_1481P4__value :: "(string \<Rightarrow> asn_codec) \<Rightarrow> env \<Rightarrow> asn_codec asn_TYPE_member list" where
  "asn_MBR_ProtocolIE_SingleContainer_1481P4__value others env =
    [member_noflags (others ''E2connectionUpdateRemove_Item'') None]"

definition asn_DEF_ProtocolIE_SingleContainer_1481P4__value :: "(string \<Rightarrow> asn_codec) \<Rightarrow> env \<Rightarrow> asn_codec" where
  "asn_DEF_ProtocolIE_SingleContainer_1481P4__value others env = asn_OP_OPEN_TYPE env (asn_MBR_ProtocolIE_SingleContainer_1481P4__value others env)"

definition asn_SPC_ProtocolIE_SingleContainer_1481P4_specs :: asn_SEQUENCE_specifics where
  "asn_SPC_ProtocolIE_SingleContainer_1481P4_specs = \<lparr>oms = [], roms_count = 0, aoms_count = 0, first_extension = - 1\<rparr>"

definition select_ProtocolIE_SingleContainer_1481P4_value_type :: "asn_value option list \<Rightarrow> nat" where
  "select_ProtocolIE_SingleContainer_1481P4_value_type = select_type (type_column 0 asn_IOS_E2connectionUpdateRemove_ItemIEs)"

definition select_ProtocolIE_SingleContainer_1481P4_criticality_type :: "asn_value option list \<Rightarrow> nat" where
  "select_ProtocolIE_SingleContainer_1481P4_criticality_type = select_type (criticality_column asn_IOS_E2connectionUpdateRemove_ItemIEs)"

definition asn_MBR_ProtocolIE_SingleContainer_1481P4 :: "(string \<Rightarrow> asn_codec) \<Rightarrow> env \<Rightarrow> asn_codec asn_TYPE_member list" where
  "asn_MBR_ProtocolIE_SingleContainer_1481P4 others env = class_fields (asn_DEF_ProtocolIE_ID env) (Some (value_only asn_PER_memb_id_constr)) (asn_DEF_Criticality env) (Some (value_only asn_PER_memb_criticality_constr)) select_ProtocolIE_SingleContainer_1481P4_criticality_type
    (asn_DEF_ProtocolIE_SingleContainer_1481P4__value others env) (Some unconstrained) select_ProtocolIE_SingleContainer_1481P4_value_type"

definition asn_DEF_ProtocolIE_SingleContainer_1481P4 :: "(string \<Rightarrow> asn_codec) \<Rightarrow> env \<Rightarrow> asn_codec" where
  "asn_DEF_ProtocolIE_SingleContainer_1481P4 others env = asn_OP_SEQUENCE env asn_SPC_ProtocolIE_SingleContainer_1481P4_specs (asn_MBR_ProtocolIE_SingleContainer_1481P4 others env)"

definition asn_PER_type_E2connectionUpdateRemove_List_constr :: asn_per_constraint where
  "asn_PER_type_E2connectionUpdateRemove_List_constr =
    \<lparr>flags = APC_CONSTRAINED, range_bits = 5, effective_bits = 5, lower_bound = 1, upper_bound = 32\<rparr>"

definition asn_MBR_E2connectionUpdateRemove_List :: "(string \<Rightarrow> asn_codec) \<Rightarrow> env \<Rightarrow> asn_codec asn_TYPE_member" where
  "asn_MBR_E2connectionUpdateRemove_List others env = member_pointer 0 (asn_DEF_ProtocolIE_SingleContainer_1481P4 others env) None"

definition asn_DEF_E2connectionUpdateRemove_List :: "(string \<Rightarrow> asn_codec) \<Rightarrow> env \<Rightarrow> asn_codec" where
  "asn_DEF_E2connectionUpdateRemove_List others env = asn_OP_SEQUENCE_OF env (Some (size_only asn_PER_type_E2connectionUpdateRemove_List_constr)) (asn_MBR_E2connectionUpdateRemove_List others env)"

definition asn_MBR_E2connectionUpdate_IEs__value :: "(string \<Rightarrow> asn_codec) \<Rightarrow> env \<Rightarrow> asn_codec asn_TYPE_member list" where
  "asn_MBR_E2connectionUpdate_IEs__value others env =
    [member_noflags (asn_DEF_E2connectionUpdate_List others env) None,
     member_noflags (asn_DEF_E2connectionUpdateRemove_List others env) None,
     member_noflags (asn_DEF_E2connectionUpdate_List others env) None]"

definition asn_DEF_E2connectionUpdate_IEs__value :: "(string \<Rightarrow> asn_codec) \<Rightarrow> env \<Rightarrow> asn_codec" where
  "asn_DEF_E2connectionUpdate_IEs__value others env = asn_OP_OPEN_TYPE env (asn_MBR_E2connectionUpdate_IEs__value others env)"

definition asn_SPC_E2connectionUpdate_IEs_specs :: asn_SEQUENCE_specifics where
  "asn_SPC_E2connectionUpdate_IEs_specs = \<lparr>oms = [], roms_count = 0, aoms_count = 0, first_extension = - 1\<rparr>"

definition select_E2connectionUpdate_IEs_value_type :: "asn_value option list \<Rightarrow> nat" where
  "select_E2connectionUpdate_IEs_value_type = select_type (type_column 0 asn_IOS_E2connectionUpdate_IEs)"

definition select_E2connectionUpdate_IEs_criticality_type :: "asn_value option list \<Rightarrow> nat" where
  "select_E2connectionUpdate_IEs_criticality_type = select_type (criticality_column asn_IOS_E2connectionUpdate_IEs)"

definition asn_MBR_E2connectionUpdate_IEs :: "(string \<Rightarrow> asn_codec) \<Rightarrow> env \<Rightarrow> asn_codec asn_TYPE_member list" where
  "asn_MBR_E2connectionUpdate_IEs others env = class_fields (asn_DEF_ProtocolIE_ID env) (Some (value_only asn_PER_memb_id_constr)) (asn_DEF_Criticality env) (Some (value_only asn_PER_memb_criticality_constr)) select_E2connectionUpdate_IEs_criticality_type
    (asn_DEF_E2connectionUpdate_IEs__value others env) (Some unconstrained) select_E2connectionUpdate_IEs_value_type"

definition asn_DEF_E2connectionUpdate_IEs :: "(string \<Rightarrow> asn_codec) \<Rightarrow> env \<Rightarrow> asn_codec" where
  "asn_DEF_E2connectionUpdate_IEs others env = asn_OP_SEQUENCE env asn_SPC_E2connectionUpdate_IEs_specs (asn_MBR_E2connectionUpdate_IEs others env)"

definition asn_PER_type_ProtocolIE_Container_1479P19_constr :: asn_per_constraint where
  "asn_PER_type_ProtocolIE_Container_1479P19_constr =
    \<lparr>flags = APC_CONSTRAINED, range_bits = 16, effective_bits = 16, lower_bound = 0, upper_bound = 65535\<rparr>"

definition asn_MBR_ProtocolIE_Container_1479P19 :: "(string \<Rightarrow> asn_codec) \<Rightarrow> env \<Rightarrow> asn_codec asn_TYPE_member" where
  "asn_MBR_ProtocolIE_Container_1479P19 others env = member_pointer 0 (asn_DEF_E2connectionUpdate_IEs others env) None"

definition asn_DEF_ProtocolIE_Container_1479P19 :: "(string \<Rightarrow> asn_codec) \<Rightarrow> env \<Rightarrow> asn_codec" where
  "asn_DEF_ProtocolIE_Container_1479P19 others env = asn_OP_SEQUENCE_OF env (Some (size_only asn_PER_type_ProtocolIE_Container_1479P19_constr)) (asn_MBR_ProtocolIE_Container_1479P19 others env)"

definition asn_MBR_E2connectionUpdate :: "(string \<Rightarrow> asn_codec) \<Rightarrow> env \<Rightarrow> asn_codec asn_TYPE_member list" where
  "asn_MBR_E2connectionUpdate others env =
    [member_noflags (asn_DEF_ProtocolIE_Container_1479P19 others env) None]"

definition asn_SPC_E2connectionUpdate_specs :: asn_SEQUENCE_specifics where
  "asn_SPC_E2connectionUpdate_specs = \<lparr>oms = [], roms_count = 0, aoms_count = 0, first_extension = 1\<rparr>"

definition asn_DEF_E2connectionUpdate :: "(string \<Rightarrow> asn_codec) \<Rightarrow> env \<Rightarrow> asn_codec" where
  "asn_DEF_E2connectionUpdate others env = asn_OP_SEQUENCE env asn_SPC_E2connectionUpdate_specs (asn_MBR_E2connectionUpdate others env)"

definition asn_IOS_ResetRequestIEs :: "asn_ioc_object list" where
  "asn_IOS_ResetRequestIEs =
    [\<lparr>object_id = 1, object_criticality = 1, object_presence = Some 2, object_types = [True]\<rparr>]"

definition asn_DEF_CauseRIC :: "env \<Rightarrow> asn_codec" where
  "asn_DEF_CauseRIC env = asn_OP_NativeEnumerated env asn_SPC_CauseRIC_specs (Some (value_only asn_PER_type_CauseRIC_constr))"

definition asn_DEF_CauseRICservice :: "env \<Rightarrow> asn_codec" where
  "asn_DEF_CauseRICservice env = asn_OP_NativeEnumerated env asn_SPC_CauseRICservice_specs (Some (value_only asn_PER_type_CauseRICservice_constr))"

definition asn_DEF_CauseTransport :: "env \<Rightarrow> asn_codec" where
  "asn_DEF_CauseTransport env = asn_OP_NativeEnumerated env asn_SPC_CauseTransport_specs (Some (value_only asn_PER_type_CauseTransport_constr))"

definition asn_DEF_CauseProtocol :: "env \<Rightarrow> asn_codec" where
  "asn_DEF_CauseProtocol env = asn_OP_NativeEnumerated env asn_SPC_CauseProtocol_specs (Some (value_only asn_PER_type_CauseProtocol_constr))"

definition asn_DEF_CauseMisc :: "env \<Rightarrow> asn_codec" where
  "asn_DEF_CauseMisc env = asn_OP_NativeEnumerated env asn_SPC_CauseMisc_specs (Some (value_only asn_PER_type_CauseMisc_constr))"

definition asn_MBR_Cause :: "env \<Rightarrow> asn_codec asn_TYPE_member list" where
  "asn_MBR_Cause env =
    [member_noflags (asn_DEF_CauseRIC env) None,
     member_noflags (asn_DEF_CauseRICservice env) None,
     member_noflags (asn_DEF_CauseTransport env) None,
     member_noflags (asn_DEF_CauseProtocol env) None,
     member_noflags (asn_DEF_CauseMisc env) None]"

definition asn_PER_type_Cause_constr :: asn_per_constraint where
  "asn_PER_type_Cause_constr =
    \<lparr>flags = APC_CONSTRAINED OR APC_EXTENSIBLE, range_bits = 3, effective_bits = 3, lower_bound = 0, upper_bound = 4\<rparr>"

definition asn_SPC_Cause_specs :: asn_CHOICE_specifics where
  "asn_SPC_Cause_specs = \<lparr>tag2el_count = 5, to_canonical_order = None, from_canonical_order = None, ext_start = 5\<rparr>"

definition asn_DEF_Cause :: "env \<Rightarrow> asn_codec" where
  "asn_DEF_Cause env = asn_OP_CHOICE env asn_SPC_Cause_specs (Some (value_only asn_PER_type_Cause_constr)) (asn_MBR_Cause env)"

definition asn_MBR_ResetRequestIEs__value :: "env \<Rightarrow> asn_codec asn_TYPE_member list" where
  "asn_MBR_ResetRequestIEs__value env =
    [member_noflags (asn_DEF_Cause env) None]"

definition asn_DEF_ResetRequestIEs__value :: "env \<Rightarrow> asn_codec" where
  "asn_DEF_ResetRequestIEs__value env = asn_OP_OPEN_TYPE env (asn_MBR_ResetRequestIEs__value env)"

definition asn_SPC_ResetRequestIEs_specs :: asn_SEQUENCE_specifics where
  "asn_SPC_ResetRequestIEs_specs = \<lparr>oms = [], roms_count = 0, aoms_count = 0, first_extension = - 1\<rparr>"

definition select_ResetRequestIEs_value_type :: "asn_value option list \<Rightarrow> nat" where
  "select_ResetRequestIEs_value_type = select_type (type_column 0 asn_IOS_ResetRequestIEs)"

definition select_ResetRequestIEs_criticality_type :: "asn_value option list \<Rightarrow> nat" where
  "select_ResetRequestIEs_criticality_type = select_type (criticality_column asn_IOS_ResetRequestIEs)"

definition asn_MBR_ResetRequestIEs :: "env \<Rightarrow> asn_codec asn_TYPE_member list" where
  "asn_MBR_ResetRequestIEs env = class_fields (asn_DEF_ProtocolIE_ID env) (Some (value_only asn_PER_memb_id_constr)) (asn_DEF_Criticality env) (Some (value_only asn_PER_memb_criticality_constr)) select_ResetRequestIEs_criticality_type
    (asn_DEF_ResetRequestIEs__value env) (Some unconstrained) select_ResetRequestIEs_value_type"

definition asn_DEF_ResetRequestIEs :: "env \<Rightarrow> asn_codec" where
  "asn_DEF_ResetRequestIEs env = asn_OP_SEQUENCE env asn_SPC_ResetRequestIEs_specs (asn_MBR_ResetRequestIEs env)"

definition asn_PER_type_ProtocolIE_Container_1479P25_constr :: asn_per_constraint where
  "asn_PER_type_ProtocolIE_Container_1479P25_constr =
    \<lparr>flags = APC_CONSTRAINED, range_bits = 16, effective_bits = 16, lower_bound = 0, upper_bound = 65535\<rparr>"

definition asn_MBR_ProtocolIE_Container_1479P25 :: "env \<Rightarrow> asn_codec asn_TYPE_member" where
  "asn_MBR_ProtocolIE_Container_1479P25 env = member_pointer 0 (asn_DEF_ResetRequestIEs env) None"

definition asn_DEF_ProtocolIE_Container_1479P25 :: "env \<Rightarrow> asn_codec" where
  "asn_DEF_ProtocolIE_Container_1479P25 env = asn_OP_SEQUENCE_OF env (Some (size_only asn_PER_type_ProtocolIE_Container_1479P25_constr)) (asn_MBR_ProtocolIE_Container_1479P25 env)"

definition asn_MBR_ResetRequest :: "env \<Rightarrow> asn_codec asn_TYPE_member list" where
  "asn_MBR_ResetRequest env =
    [member_noflags (asn_DEF_ProtocolIE_Container_1479P25 env) None]"

definition asn_SPC_ResetRequest_specs :: asn_SEQUENCE_specifics where
  "asn_SPC_ResetRequest_specs = \<lparr>oms = [], roms_count = 0, aoms_count = 0, first_extension = 1\<rparr>"

definition asn_DEF_ResetRequest :: "env \<Rightarrow> asn_codec" where
  "asn_DEF_ResetRequest env = asn_OP_SEQUENCE env asn_SPC_ResetRequest_specs (asn_MBR_ResetRequest env)"

definition asn_IOS_E42setupRequestIEs :: "asn_ioc_object list" where
  "asn_IOS_E42setupRequestIEs =
    [\<lparr>object_id = 10, object_criticality = 0, object_presence = Some 2, object_types = [True]\<rparr>]"

definition asn_MBR_E42setupRequestIEs__value :: "(string \<Rightarrow> asn_codec) \<Rightarrow> env \<Rightarrow> asn_codec asn_TYPE_member list" where
  "asn_MBR_E42setupRequestIEs__value others env =
    [member_noflags (asn_DEF_RANfunctions_List others env) None]"

definition asn_DEF_E42setupRequestIEs__value :: "(string \<Rightarrow> asn_codec) \<Rightarrow> env \<Rightarrow> asn_codec" where
  "asn_DEF_E42setupRequestIEs__value others env = asn_OP_OPEN_TYPE env (asn_MBR_E42setupRequestIEs__value others env)"

definition asn_SPC_E42setupRequestIEs_specs :: asn_SEQUENCE_specifics where
  "asn_SPC_E42setupRequestIEs_specs = \<lparr>oms = [], roms_count = 0, aoms_count = 0, first_extension = - 1\<rparr>"

definition select_E42setupRequestIEs_value_type :: "asn_value option list \<Rightarrow> nat" where
  "select_E42setupRequestIEs_value_type = select_type (type_column 0 asn_IOS_E42setupRequestIEs)"

definition select_E42setupRequestIEs_criticality_type :: "asn_value option list \<Rightarrow> nat" where
  "select_E42setupRequestIEs_criticality_type = select_type (criticality_column asn_IOS_E42setupRequestIEs)"

definition asn_MBR_E42setupRequestIEs :: "(string \<Rightarrow> asn_codec) \<Rightarrow> env \<Rightarrow> asn_codec asn_TYPE_member list" where
  "asn_MBR_E42setupRequestIEs others env = class_fields (asn_DEF_ProtocolIE_ID env) (Some (value_only asn_PER_memb_id_constr)) (asn_DEF_Criticality env) (Some (value_only asn_PER_memb_criticality_constr)) select_E42setupRequestIEs_criticality_type
    (asn_DEF_E42setupRequestIEs__value others env) (Some unconstrained) select_E42setupRequestIEs_value_type"

definition asn_DEF_E42setupRequestIEs :: "(string \<Rightarrow> asn_codec) \<Rightarrow> env \<Rightarrow> asn_codec" where
  "asn_DEF_E42setupRequestIEs others env = asn_OP_SEQUENCE env asn_SPC_E42setupRequestIEs_specs (asn_MBR_E42setupRequestIEs others env)"

definition asn_PER_type_ProtocolIE_Container_1479P15_constr :: asn_per_constraint where
  "asn_PER_type_ProtocolIE_Container_1479P15_constr =
    \<lparr>flags = APC_CONSTRAINED, range_bits = 16, effective_bits = 16, lower_bound = 0, upper_bound = 65535\<rparr>"

definition asn_MBR_ProtocolIE_Container_1479P15 :: "(string \<Rightarrow> asn_codec) \<Rightarrow> env \<Rightarrow> asn_codec asn_TYPE_member" where
  "asn_MBR_ProtocolIE_Container_1479P15 others env = member_pointer 0 (asn_DEF_E42setupRequestIEs others env) None"

definition asn_DEF_ProtocolIE_Container_1479P15 :: "(string \<Rightarrow> asn_codec) \<Rightarrow> env \<Rightarrow> asn_codec" where
  "asn_DEF_ProtocolIE_Container_1479P15 others env = asn_OP_SEQUENCE_OF env (Some (size_only asn_PER_type_ProtocolIE_Container_1479P15_constr)) (asn_MBR_ProtocolIE_Container_1479P15 others env)"

definition asn_MBR_E42setupRequest :: "(string \<Rightarrow> asn_codec) \<Rightarrow> env \<Rightarrow> asn_codec asn_TYPE_member list" where
  "asn_MBR_E42setupRequest others env =
    [member_noflags (asn_DEF_ProtocolIE_Container_1479P15 others env) None]"

definition asn_SPC_E42setupRequest_specs :: asn_SEQUENCE_specifics where
  "asn_SPC_E42setupRequest_specs = \<lparr>oms = [], roms_count = 0, aoms_count = 0, first_extension = 1\<rparr>"

definition asn_DEF_E42setupRequest :: "(string \<Rightarrow> asn_codec) \<Rightarrow> env \<Rightarrow> asn_codec" where
  "asn_DEF_E42setupRequest others env = asn_OP_SEQUENCE env asn_SPC_E42setupRequest_specs (asn_MBR_E42setupRequest others env)"

definition asn_IOS_E42RICsubscriptionRequest_IEs :: "asn_ioc_object list" where
  "asn_IOS_E42RICsubscriptionRequest_IEs =
    [\<lparr>object_id = 49, object_criticality = 0, object_presence = Some 2, object_types = [True]\<rparr>,
     \<lparr>object_id = 3, object_criticality = 0, object_presence = Some 2, object_types = [True]\<rparr>,
     \<lparr>object_id = 29, object_criticality = 0, object_presence = Some 2, object_types = [True]\<rparr>,
     \<lparr>object_id = 5, object_criticality = 0, object_presence = Some 2, object_types = [True]\<rparr>,
     \<lparr>object_id = 30, object_criticality = 0, object_presence = Some 2, object_types = [True]\<rparr>]"

definition asn_PER_type_XAPP_ID_constr :: asn_per_constraint where
  "asn_PER_type_XAPP_ID_constr =
    \<lparr>flags = APC_CONSTRAINED, range_bits = 16, effective_bits = 16, lower_bound = 0, upper_bound = 65535\<rparr>"

definition asn_DEF_XAPP_ID :: "env \<Rightarrow> asn_codec" where
  "asn_DEF_XAPP_ID env = asn_OP_NativeInteger env None (Some (value_only asn_PER_type_XAPP_ID_constr))"

definition asn_MBR_E42RICsubscriptionRequest_IEs__value :: "(string \<Rightarrow> asn_codec) \<Rightarrow> env \<Rightarrow> asn_codec asn_TYPE_member list" where
  "asn_MBR_E42RICsubscriptionRequest_IEs__value others env =
    [member_noflags (asn_DEF_XAPP_ID env) None,
     member_noflags (others ''GlobalE2node_ID'') None,
     member_noflags (asn_DEF_RICrequestID env) None,
     member_noflags (asn_DEF_RANfunctionID env) None,
     member_noflags (others ''RICsubscriptionDetails'') None]"

definition asn_DEF_E42RICsubscriptionRequest_IEs__value :: "(string \<Rightarrow> asn_codec) \<Rightarrow> env \<Rightarrow> asn_codec" where
  "asn_DEF_E42RICsubscriptionRequest_IEs__value others env = asn_OP_OPEN_TYPE env (asn_MBR_E42RICsubscriptionRequest_IEs__value others env)"

definition asn_SPC_E42RICsubscriptionRequest_IEs_specs :: asn_SEQUENCE_specifics where
  "asn_SPC_E42RICsubscriptionRequest_IEs_specs = \<lparr>oms = [], roms_count = 0, aoms_count = 0, first_extension = - 1\<rparr>"

definition select_E42RICsubscriptionRequest_IEs_value_type :: "asn_value option list \<Rightarrow> nat" where
  "select_E42RICsubscriptionRequest_IEs_value_type = select_type (type_column 0 asn_IOS_E42RICsubscriptionRequest_IEs)"

definition select_E42RICsubscriptionRequest_IEs_criticality_type :: "asn_value option list \<Rightarrow> nat" where
  "select_E42RICsubscriptionRequest_IEs_criticality_type = select_type (criticality_column asn_IOS_E42RICsubscriptionRequest_IEs)"

definition asn_MBR_E42RICsubscriptionRequest_IEs :: "(string \<Rightarrow> asn_codec) \<Rightarrow> env \<Rightarrow> asn_codec asn_TYPE_member list" where
  "asn_MBR_E42RICsubscriptionRequest_IEs others env = class_fields (asn_DEF_ProtocolIE_ID env) (Some (value_only asn_PER_memb_id_constr)) (asn_DEF_Criticality env) (Some (value_only asn_PER_memb_criticality_constr)) select_E42RICsubscriptionRequest_IEs_criticality_type
    (asn_DEF_E42RICsubscriptionRequest_IEs__value others env) (Some unconstrained) select_E42RICsubscriptionRequest_IEs_value_type"

definition asn_DEF_E42RICsubscriptionRequest_IEs :: "(string \<Rightarrow> asn_codec) \<Rightarrow> env \<Rightarrow> asn_codec" where
  "asn_DEF_E42RICsubscriptionRequest_IEs others env = asn_OP_SEQUENCE env asn_SPC_E42RICsubscriptionRequest_IEs_specs (asn_MBR_E42RICsubscriptionRequest_IEs others env)"

definition asn_PER_type_ProtocolIE_Container_1479P3_constr :: asn_per_constraint where
  "asn_PER_type_ProtocolIE_Container_1479P3_constr =
    \<lparr>flags = APC_CONSTRAINED, range_bits = 16, effective_bits = 16, lower_bound = 0, upper_bound = 65535\<rparr>"

definition asn_MBR_ProtocolIE_Container_1479P3 :: "(string \<Rightarrow> asn_codec) \<Rightarrow> env \<Rightarrow> asn_codec asn_TYPE_member" where
  "asn_MBR_ProtocolIE_Container_1479P3 others env = member_pointer 0 (asn_DEF_E42RICsubscriptionRequest_IEs others env) None"

definition asn_DEF_ProtocolIE_Container_1479P3 :: "(string \<Rightarrow> asn_codec) \<Rightarrow> env \<Rightarrow> asn_codec" where
  "asn_DEF_ProtocolIE_Container_1479P3 others env = asn_OP_SEQUENCE_OF env (Some (size_only asn_PER_type_ProtocolIE_Container_1479P3_constr)) (asn_MBR_ProtocolIE_Container_1479P3 others env)"

definition asn_MBR_E42RICsubscriptionRequest :: "(string \<Rightarrow> asn_codec) \<Rightarrow> env \<Rightarrow> asn_codec asn_TYPE_member list" where
  "asn_MBR_E42RICsubscriptionRequest others env =
    [member_noflags (asn_DEF_ProtocolIE_Container_1479P3 others env) None]"

definition asn_SPC_E42RICsubscriptionRequest_specs :: asn_SEQUENCE_specifics where
  "asn_SPC_E42RICsubscriptionRequest_specs = \<lparr>oms = [], roms_count = 0, aoms_count = 0, first_extension = 1\<rparr>"

definition asn_DEF_E42RICsubscriptionRequest :: "(string \<Rightarrow> asn_codec) \<Rightarrow> env \<Rightarrow> asn_codec" where
  "asn_DEF_E42RICsubscriptionRequest others env = asn_OP_SEQUENCE env asn_SPC_E42RICsubscriptionRequest_specs (asn_MBR_E42RICsubscriptionRequest others env)"

definition asn_IOS_E42RICsubscriptionDeleteRequest_IEs :: "asn_ioc_object list" where
  "asn_IOS_E42RICsubscriptionDeleteRequest_IEs =
    [\<lparr>object_id = 49, object_criticality = 0, object_presence = Some 2, object_types = [True]\<rparr>,
     \<lparr>object_id = 29, object_criticality = 0, object_presence = Some 2, object_types = [True]\<rparr>,
     \<lparr>object_id = 5, object_criticality = 0, object_presence = Some 2, object_types = [True]\<rparr>]"

definition asn_MBR_E42RICsubscriptionDeleteRequest_IEs__value :: "env \<Rightarrow> asn_codec asn_TYPE_member list" where
  "asn_MBR_E42RICsubscriptionDeleteRequest_IEs__value env =
    [member_noflags (asn_DEF_XAPP_ID env) None,
     member_noflags (asn_DEF_RICrequestID env) None,
     member_noflags (asn_DEF_RANfunctionID env) None]"

definition asn_DEF_E42RICsubscriptionDeleteRequest_IEs__value :: "env \<Rightarrow> asn_codec" where
  "asn_DEF_E42RICsubscriptionDeleteRequest_IEs__value env = asn_OP_OPEN_TYPE env (asn_MBR_E42RICsubscriptionDeleteRequest_IEs__value env)"

definition asn_SPC_E42RICsubscriptionDeleteRequest_IEs_specs :: asn_SEQUENCE_specifics where
  "asn_SPC_E42RICsubscriptionDeleteRequest_IEs_specs = \<lparr>oms = [], roms_count = 0, aoms_count = 0, first_extension = - 1\<rparr>"

definition select_E42RICsubscriptionDeleteRequest_IEs_value_type :: "asn_value option list \<Rightarrow> nat" where
  "select_E42RICsubscriptionDeleteRequest_IEs_value_type = select_type (type_column 0 asn_IOS_E42RICsubscriptionDeleteRequest_IEs)"

definition select_E42RICsubscriptionDeleteRequest_IEs_criticality_type :: "asn_value option list \<Rightarrow> nat" where
  "select_E42RICsubscriptionDeleteRequest_IEs_criticality_type = select_type (criticality_column asn_IOS_E42RICsubscriptionDeleteRequest_IEs)"

definition asn_MBR_E42RICsubscriptionDeleteRequest_IEs :: "env \<Rightarrow> asn_codec asn_TYPE_member list" where
  "asn_MBR_E42RICsubscriptionDeleteRequest_IEs env = class_fields (asn_DEF_ProtocolIE_ID env) (Some (value_only asn_PER_memb_id_constr)) (asn_DEF_Criticality env) (Some (value_only asn_PER_memb_criticality_constr)) select_E42RICsubscriptionDeleteRequest_IEs_criticality_type
    (asn_DEF_E42RICsubscriptionDeleteRequest_IEs__value env) (Some unconstrained) select_E42RICsubscriptionDeleteRequest_IEs_value_type"

definition asn_DEF_E42RICsubscriptionDeleteRequest_IEs :: "env \<Rightarrow> asn_codec" where
  "asn_DEF_E42RICsubscriptionDeleteRequest_IEs env = asn_OP_SEQUENCE env asn_SPC_E42RICsubscriptionDeleteRequest_IEs_specs (asn_MBR_E42RICsubscriptionDeleteRequest_IEs env)"

definition asn_PER_type_ProtocolIE_Container_1479P4_constr :: asn_per_constraint where
  "asn_PER_type_ProtocolIE_Container_1479P4_constr =
    \<lparr>flags = APC_CONSTRAINED, range_bits = 16, effective_bits = 16, lower_bound = 0, upper_bound = 65535\<rparr>"

definition asn_MBR_ProtocolIE_Container_1479P4 :: "env \<Rightarrow> asn_codec asn_TYPE_member" where
  "asn_MBR_ProtocolIE_Container_1479P4 env = member_pointer 0 (asn_DEF_E42RICsubscriptionDeleteRequest_IEs env) None"

definition asn_DEF_ProtocolIE_Container_1479P4 :: "env \<Rightarrow> asn_codec" where
  "asn_DEF_ProtocolIE_Container_1479P4 env = asn_OP_SEQUENCE_OF env (Some (size_only asn_PER_type_ProtocolIE_Container_1479P4_constr)) (asn_MBR_ProtocolIE_Container_1479P4 env)"

definition asn_MBR_E42RICsubscriptionDeleteRequest :: "env \<Rightarrow> asn_codec asn_TYPE_member list" where
  "asn_MBR_E42RICsubscriptionDeleteRequest env =
    [member_noflags (asn_DEF_ProtocolIE_Container_1479P4 env) None]"

definition asn_SPC_E42RICsubscriptionDeleteRequest_specs :: asn_SEQUENCE_specifics where
  "asn_SPC_E42RICsubscriptionDeleteRequest_specs = \<lparr>oms = [], roms_count = 0, aoms_count = 0, first_extension = 1\<rparr>"

definition asn_DEF_E42RICsubscriptionDeleteRequest :: "env \<Rightarrow> asn_codec" where
  "asn_DEF_E42RICsubscriptionDeleteRequest env = asn_OP_SEQUENCE env asn_SPC_E42RICsubscriptionDeleteRequest_specs (asn_MBR_E42RICsubscriptionDeleteRequest env)"

definition asn_IOS_E42RICcontrolRequest_IEs :: "asn_ioc_object list" where
  "asn_IOS_E42RICcontrolRequest_IEs =
    [\<lparr>object_id = 49, object_criticality = 0, object_presence = Some 2, object_types = [True]\<rparr>,
     \<lparr>object_id = 3, object_criticality = 0, object_presence = Some 2, object_types = [True]\<rparr>,
     \<lparr>object_id = 29, object_criticality = 0, object_presence = Some 2, object_types = [True]\<rparr>,
     \<lparr>object_id = 5, object_criticality = 0, object_presence = Some 2, object_types = [True]\<rparr>,
     \<lparr>object_id = 20, object_criticality = 0, object_presence = Some 0, object_types = [True]\<rparr>,
     \<lparr>object_id = 22, object_criticality = 0, object_presence = Some 2, object_types = [True]\<rparr>,
     \<lparr>object_id = 23, object_criticality = 0, object_presence = Some 2, object_types = [True]\<rparr>,
     \<lparr>object_id = 21, object_criticality = 0, object_presence = Some 0, object_types = [True]\<rparr>]"

definition asn_MBR_E42RICcontrolRequest_IEs__value :: "(string \<Rightarrow> asn_codec) \<Rightarrow> env \<Rightarrow> asn_codec asn_TYPE_member list" where
  "asn_MBR_E42RICcontrolRequest_IEs__value others env =
    [member_noflags (asn_DEF_XAPP_ID env) None,
     member_noflags (others ''GlobalE2node_ID'') None,
     member_noflags (asn_DEF_RICrequestID env) None,
     member_noflags (asn_DEF_RANfunctionID env) None,
     member_noflags (others ''RICcallProcessID'') None,
     member_noflags (others ''RICcontrolHeader'') None,
     member_noflags (others ''RICcontrolMessage'') None,
     member_noflags (asn_DEF_RICcontrolAckRequest env) None]"

definition asn_DEF_E42RICcontrolRequest_IEs__value :: "(string \<Rightarrow> asn_codec) \<Rightarrow> env \<Rightarrow> asn_codec" where
  "asn_DEF_E42RICcontrolRequest_IEs__value others env = asn_OP_OPEN_TYPE env (asn_MBR_E42RICcontrolRequest_IEs__value others env)"

definition asn_SPC_E42RICcontrolRequest_IEs_specs :: asn_SEQUENCE_specifics where
  "asn_SPC_E42RICcontrolRequest_IEs_specs = \<lparr>oms = [], roms_count = 0, aoms_count = 0, first_extension = - 1\<rparr>"

definition select_E42RICcontrolRequest_IEs_value_type :: "asn_value option list \<Rightarrow> nat" where
  "select_E42RICcontrolRequest_IEs_value_type = select_type (type_column 0 asn_IOS_E42RICcontrolRequest_IEs)"

definition select_E42RICcontrolRequest_IEs_criticality_type :: "asn_value option list \<Rightarrow> nat" where
  "select_E42RICcontrolRequest_IEs_criticality_type = select_type (criticality_column asn_IOS_E42RICcontrolRequest_IEs)"

definition asn_MBR_E42RICcontrolRequest_IEs :: "(string \<Rightarrow> asn_codec) \<Rightarrow> env \<Rightarrow> asn_codec asn_TYPE_member list" where
  "asn_MBR_E42RICcontrolRequest_IEs others env = class_fields (asn_DEF_ProtocolIE_ID env) (Some (value_only asn_PER_memb_id_constr)) (asn_DEF_Criticality env) (Some (value_only asn_PER_memb_criticality_constr)) select_E42RICcontrolRequest_IEs_criticality_type
    (asn_DEF_E42RICcontrolRequest_IEs__value others env) (Some unconstrained) select_E42RICcontrolRequest_IEs_value_type"

definition asn_DEF_E42RICcontrolRequest_IEs :: "(string \<Rightarrow> asn_codec) \<Rightarrow> env \<Rightarrow> asn_codec" where
  "asn_DEF_E42RICcontrolRequest_IEs others env = asn_OP_SEQUENCE env asn_SPC_E42RICcontrolRequest_IEs_specs (asn_MBR_E42RICcontrolRequest_IEs others env)"

definition asn_PER_type_ProtocolIE_Container_1479P10_constr :: asn_per_constraint where
  "asn_PER_type_ProtocolIE_Container_1479P10_constr =
    \<lparr>flags = APC_CONSTRAINED, range_bits = 16, effective_bits = 16, lower_bound = 0, upper_bound = 65535\<rparr>"

definition asn_MBR_ProtocolIE_Container_1479P10 :: "(string \<Rightarrow> asn_codec) \<Rightarrow> env \<Rightarrow> asn_codec asn_TYPE_member" where
  "asn_MBR_ProtocolIE_Container_1479P10 others env = member_pointer 0 (asn_DEF_E42RICcontrolRequest_IEs others env) None"

definition asn_DEF_ProtocolIE_Container_1479P10 :: "(string \<Rightarrow> asn_codec) \<Rightarrow> env \<Rightarrow> asn_codec" where
  "asn_DEF_ProtocolIE_Container_1479P10 others env = asn_OP_SEQUENCE_OF env (Some (size_only asn_PER_type_ProtocolIE_Container_1479P10_constr)) (asn_MBR_ProtocolIE_Container_1479P10 others env)"

definition asn_MBR_E42RICcontrolRequest :: "(string \<Rightarrow> asn_codec) \<Rightarrow> env \<Rightarrow> asn_codec asn_TYPE_member list" where
  "asn_MBR_E42RICcontrolRequest others env =
    [member_noflags (asn_DEF_ProtocolIE_Container_1479P10 others env) None]"

definition asn_SPC_E42RICcontrolRequest_specs :: asn_SEQUENCE_specifics where
  "asn_SPC_E42RICcontrolRequest_specs = \<lparr>oms = [], roms_count = 0, aoms_count = 0, first_extension = 1\<rparr>"

definition asn_DEF_E42RICcontrolRequest :: "(string \<Rightarrow> asn_codec) \<Rightarrow> env \<Rightarrow> asn_codec" where
  "asn_DEF_E42RICcontrolRequest others env = asn_OP_SEQUENCE env asn_SPC_E42RICcontrolRequest_specs (asn_MBR_E42RICcontrolRequest others env)"

definition asn_IOS_RICindication_IEs :: "asn_ioc_object list" where
  "asn_IOS_RICindication_IEs =
    [\<lparr>object_id = 29, object_criticality = 0, object_presence = Some 2, object_types = [True]\<rparr>,
     \<lparr>object_id = 5, object_criticality = 0, object_presence = Some 2, object_types = [True]\<rparr>,
     \<lparr>object_id = 15, object_criticality = 0, object_presence = Some 2, object_types = [True]\<rparr>,
     \<lparr>object_id = 27, object_criticality = 0, object_presence = Some 0, object_types = [True]\<rparr>,
     \<lparr>object_id = 28, object_criticality = 0, object_presence = Some 2, object_types = [True]\<rparr>,
     \<lparr>object_id = 25, object_criticality = 0, object_presence = Some 2, object_types = [True]\<rparr>,
     \<lparr>object_id = 26, object_criticality = 0, object_presence = Some 2, object_types = [True]\<rparr>,
     \<lparr>object_id = 20, object_criticality = 0, object_presence = Some 0, object_types = [True]\<rparr>]"

definition asn_DEF_RICactionID :: "env \<Rightarrow> asn_codec" where
  "asn_DEF_RICactionID env = asn_OP_NativeInteger env None (Some (value_only asn_PER_type_RICactionID_constr))"

definition asn_DEF_RICindicationSN :: "env \<Rightarrow> asn_codec" where
  "asn_DEF_RICindicationSN env = asn_OP_NativeInteger env None (Some (value_only asn_PER_type_RICindicationSN_constr))"

definition asn_DEF_RICindicationType :: "env \<Rightarrow> asn_codec" where
  "asn_DEF_RICindicationType env = asn_OP_NativeEnumerated env asn_SPC_RICindicationType_specs (Some (value_only asn_PER_type_RICindicationType_constr))"

definition asn_MBR_RICindication_IEs__value :: "(string \<Rightarrow> asn_codec) \<Rightarrow> env \<Rightarrow> asn_codec asn_TYPE_member list" where
  "asn_MBR_RICindication_IEs__value others env =
    [member_noflags (asn_DEF_RICrequestID env) None,
     member_noflags (asn_DEF_RANfunctionID env) None,
     member_noflags (asn_DEF_RICactionID env) None,
     member_noflags (asn_DEF_RICindicationSN env) None,
     member_noflags (asn_DEF_RICindicationType env) None,
     member_noflags (others ''RICindicationHeader'') None,
     member_noflags (others ''RICindicationMessage'') None,
     member_noflags (others ''RICcallProcessID'') None]"

definition asn_DEF_RICindication_IEs__value :: "(string \<Rightarrow> asn_codec) \<Rightarrow> env \<Rightarrow> asn_codec" where
  "asn_DEF_RICindication_IEs__value others env = asn_OP_OPEN_TYPE env (asn_MBR_RICindication_IEs__value others env)"

definition asn_SPC_RICindication_IEs_specs :: asn_SEQUENCE_specifics where
  "asn_SPC_RICindication_IEs_specs = \<lparr>oms = [], roms_count = 0, aoms_count = 0, first_extension = - 1\<rparr>"

definition select_RICindication_IEs_value_type :: "asn_value option list \<Rightarrow> nat" where
  "select_RICindication_IEs_value_type = select_type (type_column 0 asn_IOS_RICindication_IEs)"

definition select_RICindication_IEs_criticality_type :: "asn_value option list \<Rightarrow> nat" where
  "select_RICindication_IEs_criticality_type = select_type (criticality_column asn_IOS_RICindication_IEs)"

definition asn_MBR_RICindication_IEs :: "(string \<Rightarrow> asn_codec) \<Rightarrow> env \<Rightarrow> asn_codec asn_TYPE_member list" where
  "asn_MBR_RICindication_IEs others env = class_fields (asn_DEF_ProtocolIE_ID env) (Some (value_only asn_PER_memb_id_constr)) (asn_DEF_Criticality env) (Some (value_only asn_PER_memb_criticality_constr)) select_RICindication_IEs_criticality_type
    (asn_DEF_RICindication_IEs__value others env) (Some unconstrained) select_RICindication_IEs_value_type"

definition asn_DEF_RICindication_IEs :: "(string \<Rightarrow> asn_codec) \<Rightarrow> env \<Rightarrow> asn_codec" where
  "asn_DEF_RICindication_IEs others env = asn_OP_SEQUENCE env asn_SPC_RICindication_IEs_specs (asn_MBR_RICindication_IEs others env)"

definition asn_PER_type_ProtocolIE_Container_1479P8_constr :: asn_per_constraint where
  "asn_PER_type_ProtocolIE_Container_1479P8_constr =
    \<lparr>flags = APC_CONSTRAINED, range_bits = 16, effective_bits = 16, lower_bound = 0, upper_bound = 65535\<rparr>"

definition asn_MBR_ProtocolIE_Container_1479P8 :: "(string \<Rightarrow> asn_codec) \<Rightarrow> env \<Rightarrow> asn_codec asn_TYPE_member" where
  "asn_MBR_ProtocolIE_Container_1479P8 others env = member_pointer 0 (asn_DEF_RICindication_IEs others env) None"

definition asn_DEF_ProtocolIE_Container_1479P8 :: "(string \<Rightarrow> asn_codec) \<Rightarrow> env \<Rightarrow> asn_codec" where
  "asn_DEF_ProtocolIE_Container_1479P8 others env = asn_OP_SEQUENCE_OF env (Some (size_only asn_PER_type_ProtocolIE_Container_1479P8_constr)) (asn_MBR_ProtocolIE_Container_1479P8 others env)"

definition asn_MBR_RICindication :: "(string \<Rightarrow> asn_codec) \<Rightarrow> env \<Rightarrow> asn_codec asn_TYPE_member list" where
  "asn_MBR_RICindication others env =
    [member_noflags (asn_DEF_ProtocolIE_Container_1479P8 others env) None]"

definition asn_SPC_RICindication_specs :: asn_SEQUENCE_specifics where
  "asn_SPC_RICindication_specs = \<lparr>oms = [], roms_count = 0, aoms_count = 0, first_extension = 1\<rparr>"

definition asn_DEF_RICindication :: "(string \<Rightarrow> asn_codec) \<Rightarrow> env \<Rightarrow> asn_codec" where
  "asn_DEF_RICindication others env = asn_OP_SEQUENCE env asn_SPC_RICindication_specs (asn_MBR_RICindication others env)"

definition asn_IOS_RICserviceQuery_IEs :: "asn_ioc_object list" where
  "asn_IOS_RICserviceQuery_IEs =
    [\<lparr>object_id = 9, object_criticality = 0, object_presence = Some 0, object_types = [True]\<rparr>]"

definition asn_MBR_RICserviceQuery_IEs__value :: "env \<Rightarrow> asn_codec asn_TYPE_member list" where
  "asn_MBR_RICserviceQuery_IEs__value env =
    [member_noflags (asn_DEF_RANfunctionsID_List env) None]"

definition asn_DEF_RICserviceQuery_IEs__value :: "env \<Rightarrow> asn_codec" where
  "asn_DEF_RICserviceQuery_IEs__value env = asn_OP_OPEN_TYPE env (asn_MBR_RICserviceQuery_IEs__value env)"

definition asn_SPC_RICserviceQuery_IEs_specs :: asn_SEQUENCE_specifics where
  "asn_SPC_RICserviceQuery_IEs_specs = \<lparr>oms = [], roms_count = 0, aoms_count = 0, first_extension = - 1\<rparr>"

definition select_RICserviceQuery_IEs_value_type :: "asn_value option list \<Rightarrow> nat" where
  "select_RICserviceQuery_IEs_value_type = select_type (type_column 0 asn_IOS_RICserviceQuery_IEs)"

definition select_RICserviceQuery_IEs_criticality_type :: "asn_value option list \<Rightarrow> nat" where
  "select_RICserviceQuery_IEs_criticality_type = select_type (criticality_column asn_IOS_RICserviceQuery_IEs)"

definition asn_MBR_RICserviceQuery_IEs :: "env \<Rightarrow> asn_codec asn_TYPE_member list" where
  "asn_MBR_RICserviceQuery_IEs env = class_fields (asn_DEF_ProtocolIE_ID env) (Some (value_only asn_PER_memb_id_constr)) (asn_DEF_Criticality env) (Some (value_only asn_PER_memb_criticality_constr)) select_RICserviceQuery_IEs_criticality_type
    (asn_DEF_RICserviceQuery_IEs__value env) (Some unconstrained) select_RICserviceQuery_IEs_value_type"

definition asn_DEF_RICserviceQuery_IEs :: "env \<Rightarrow> asn_codec" where
  "asn_DEF_RICserviceQuery_IEs env = asn_OP_SEQUENCE env asn_SPC_RICserviceQuery_IEs_specs (asn_MBR_RICserviceQuery_IEs env)"

definition asn_PER_type_ProtocolIE_Container_1479P31_constr :: asn_per_constraint where
  "asn_PER_type_ProtocolIE_Container_1479P31_constr =
    \<lparr>flags = APC_CONSTRAINED, range_bits = 16, effective_bits = 16, lower_bound = 0, upper_bound = 65535\<rparr>"

definition asn_MBR_ProtocolIE_Container_1479P31 :: "env \<Rightarrow> asn_codec asn_TYPE_member" where
  "asn_MBR_ProtocolIE_Container_1479P31 env = member_pointer 0 (asn_DEF_RICserviceQuery_IEs env) None"

definition asn_DEF_ProtocolIE_Container_1479P31 :: "env \<Rightarrow> asn_codec" where
  "asn_DEF_ProtocolIE_Container_1479P31 env = asn_OP_SEQUENCE_OF env (Some (size_only asn_PER_type_ProtocolIE_Container_1479P31_constr)) (asn_MBR_ProtocolIE_Container_1479P31 env)"

definition asn_MBR_RICserviceQuery :: "env \<Rightarrow> asn_codec asn_TYPE_member list" where
  "asn_MBR_RICserviceQuery env =
    [member_noflags (asn_DEF_ProtocolIE_Container_1479P31 env) None]"

definition asn_SPC_RICserviceQuery_specs :: asn_SEQUENCE_specifics where
  "asn_SPC_RICserviceQuery_specs = \<lparr>oms = [], roms_count = 0, aoms_count = 0, first_extension = 1\<rparr>"

definition asn_DEF_RICserviceQuery :: "env \<Rightarrow> asn_codec" where
  "asn_DEF_RICserviceQuery env = asn_OP_SEQUENCE env asn_SPC_RICserviceQuery_specs (asn_MBR_RICserviceQuery env)"

definition asn_IOS_ErrorIndication_IEs :: "asn_ioc_object list" where
  "asn_IOS_ErrorIndication_IEs =
    [\<lparr>object_id = 29, object_criticality = 0, object_presence = Some 0, object_types = [True]\<rparr>,
     \<lparr>object_id = 5, object_criticality = 0, object_presence = Some 0, object_types = [True]\<rparr>,
     \<lparr>object_id = 1, object_criticality = 1, object_presence = Some 0, object_types = [True]\<rparr>,
     \<lparr>object_id = 2, object_criticality = 1, object_presence = Some 0, object_types = [True]\<rparr>]"

definition asn_DEF_TriggeringMessage :: "env \<Rightarrow> asn_codec" where
  "asn_DEF_TriggeringMessage env = asn_OP_NativeEnumerated env asn_SPC_TriggeringMessage_specs (Some (value_only asn_PER_type_TriggeringMessage_constr))"

definition asn_DEF_TypeOfError :: "env \<Rightarrow> asn_codec" where
  "asn_DEF_TypeOfError env = asn_OP_NativeEnumerated env asn_SPC_TypeOfError_specs (Some (value_only asn_PER_type_TypeOfError_constr))"

definition asn_MBR_CriticalityDiagnostics_IE_Item :: "env \<Rightarrow> asn_codec asn_TYPE_member list" where
  "asn_MBR_CriticalityDiagnostics_IE_Item env =
    [member_noflags (asn_DEF_Criticality env) None,
     member_noflags (asn_DEF_ProtocolIE_ID env) None,
     member_noflags (asn_DEF_TypeOfError env) None]"

definition asn_SPC_CriticalityDiagnostics_IE_Item_specs :: asn_SEQUENCE_specifics where
  "asn_SPC_CriticalityDiagnostics_IE_Item_specs = \<lparr>oms = [], roms_count = 0, aoms_count = 0, first_extension = 3\<rparr>"

definition asn_DEF_CriticalityDiagnostics_IE_Item :: "env \<Rightarrow> asn_codec" where
  "asn_DEF_CriticalityDiagnostics_IE_Item env = asn_OP_SEQUENCE env asn_SPC_CriticalityDiagnostics_IE_Item_specs (asn_MBR_CriticalityDiagnostics_IE_Item env)"

definition asn_PER_type_CriticalityDiagnostics_IE_List_constr :: asn_per_constraint where
  "asn_PER_type_CriticalityDiagnostics_IE_List_constr =
    \<lparr>flags = APC_CONSTRAINED, range_bits = 8, effective_bits = 8, lower_bound = 1, upper_bound = 256\<rparr>"

definition asn_MBR_CriticalityDiagnostics_IE_List :: "env \<Rightarrow> asn_codec asn_TYPE_member" where
  "asn_MBR_CriticalityDiagnostics_IE_List env = member_pointer 0 (asn_DEF_CriticalityDiagnostics_IE_Item env) None"

definition asn_DEF_CriticalityDiagnostics_IE_List :: "env \<Rightarrow> asn_codec" where
  "asn_DEF_CriticalityDiagnostics_IE_List env = asn_OP_SEQUENCE_OF env (Some (size_only asn_PER_type_CriticalityDiagnostics_IE_List_constr)) (asn_MBR_CriticalityDiagnostics_IE_List env)"

definition asn_MBR_CriticalityDiagnostics :: "env \<Rightarrow> asn_codec asn_TYPE_member list" where
  "asn_MBR_CriticalityDiagnostics env =
    [member_pointer 5 (asn_DEF_ProcedureCode env) None,
     member_pointer 4 (asn_DEF_TriggeringMessage env) None,
     member_pointer 3 (asn_DEF_Criticality env) None,
     member_pointer 2 (asn_DEF_RICrequestID env) None,
     member_pointer 1 (asn_DEF_CriticalityDiagnostics_IE_List env) None]"

definition asn_SPC_CriticalityDiagnostics_specs :: asn_SEQUENCE_specifics where
  "asn_SPC_CriticalityDiagnostics_specs = \<lparr>oms = [0, 1, 2, 3, 4], roms_count = 5, aoms_count = 0, first_extension = 5\<rparr>"

definition asn_DEF_CriticalityDiagnostics :: "env \<Rightarrow> asn_codec" where
  "asn_DEF_CriticalityDiagnostics env = asn_OP_SEQUENCE env asn_SPC_CriticalityDiagnostics_specs (asn_MBR_CriticalityDiagnostics env)"

definition asn_MBR_ErrorIndication_IEs__value :: "env \<Rightarrow> asn_codec asn_TYPE_member list" where
  "asn_MBR_ErrorIndication_IEs__value env =
    [member_noflags (asn_DEF_RICrequestID env) None,
     member_noflags (asn_DEF_RANfunctionID env) None,
     member_noflags (asn_DEF_Cause env) None,
     member_noflags (asn_DEF_CriticalityDiagnostics env) None]"

definition asn_DEF_ErrorIndication_IEs__value :: "env \<Rightarrow> asn_codec" where
  "asn_DEF_ErrorIndication_IEs__value env = asn_OP_OPEN_TYPE env (asn_MBR_ErrorIndication_IEs__value env)"

definition asn_SPC_ErrorIndication_IEs_specs :: asn_SEQUENCE_specifics where
  "asn_SPC_ErrorIndication_IEs_specs = \<lparr>oms = [], roms_count = 0, aoms_count = 0, first_extension = - 1\<rparr>"

definition select_ErrorIndication_IEs_value_type :: "asn_value option list \<Rightarrow> nat" where
  "select_ErrorIndication_IEs_value_type = select_type (type_column 0 asn_IOS_ErrorIndication_IEs)"

definition select_ErrorIndication_IEs_criticality_type :: "asn_value option list \<Rightarrow> nat" where
  "select_ErrorIndication_IEs_criticality_type = select_type (criticality_column asn_IOS_ErrorIndication_IEs)"

definition asn_MBR_ErrorIndication_IEs :: "env \<Rightarrow> asn_codec asn_TYPE_member list" where
  "asn_MBR_ErrorIndication_IEs env = class_fields (asn_DEF_ProtocolIE_ID env) (Some (value_only asn_PER_memb_id_constr)) (asn_DEF_Criticality env) (Some (value_only asn_PER_memb_criticality_constr)) select_ErrorIndication_IEs_criticality_type
    (asn_DEF_ErrorIndication_IEs__value env) (Some unconstrained) select_ErrorIndication_IEs_value_type"

definition asn_DEF_ErrorIndication_IEs :: "env \<Rightarrow> asn_codec" where
  "asn_DEF_ErrorIndication_IEs env = asn_OP_SEQUENCE env asn_SPC_ErrorIndication_IEs_specs (asn_MBR_ErrorIndication_IEs env)"

definition asn_PER_type_ProtocolIE_Container_1479P13_constr :: asn_per_constraint where
  "asn_PER_type_ProtocolIE_Container_1479P13_constr =
    \<lparr>flags = APC_CONSTRAINED, range_bits = 16, effective_bits = 16, lower_bound = 0, upper_bound = 65535\<rparr>"

definition asn_MBR_ProtocolIE_Container_1479P13 :: "env \<Rightarrow> asn_codec asn_TYPE_member" where
  "asn_MBR_ProtocolIE_Container_1479P13 env = member_pointer 0 (asn_DEF_ErrorIndication_IEs env) None"

definition asn_DEF_ProtocolIE_Container_1479P13 :: "env \<Rightarrow> asn_codec" where
  "asn_DEF_ProtocolIE_Container_1479P13 env = asn_OP_SEQUENCE_OF env (Some (size_only asn_PER_type_ProtocolIE_Container_1479P13_constr)) (asn_MBR_ProtocolIE_Container_1479P13 env)"

definition asn_MBR_ErrorIndication :: "env \<Rightarrow> asn_codec asn_TYPE_member list" where
  "asn_MBR_ErrorIndication env =
    [member_noflags (asn_DEF_ProtocolIE_Container_1479P13 env) None]"

definition asn_SPC_ErrorIndication_specs :: asn_SEQUENCE_specifics where
  "asn_SPC_ErrorIndication_specs = \<lparr>oms = [], roms_count = 0, aoms_count = 0, first_extension = 1\<rparr>"

definition asn_DEF_ErrorIndication :: "env \<Rightarrow> asn_codec" where
  "asn_DEF_ErrorIndication env = asn_OP_SEQUENCE env asn_SPC_ErrorIndication_specs (asn_MBR_ErrorIndication env)"

definition asn_MBR_InitiatingMessage__value :: "(string \<Rightarrow> asn_codec) \<Rightarrow> env \<Rightarrow> asn_codec asn_TYPE_member list" where
  "asn_MBR_InitiatingMessage__value others env =
    [member_noflags (asn_DEF_RICsubscriptionRequest others env) None,
     member_noflags (asn_DEF_RICsubscriptionDeleteRequest env) None,
     member_noflags (asn_DEF_RICserviceUpdate others env) None,
     member_noflags (asn_DEF_RICcontrolRequest others env) None,
     member_noflags (asn_DEF_E2setupRequest others env) None,
     member_noflags (asn_DEF_E2nodeConfigurationUpdate others env) None,
     member_noflags (asn_DEF_E2connectionUpdate others env) None,
     member_noflags (asn_DEF_ResetRequest env) None,
     member_noflags (asn_DEF_E42setupRequest others env) None,
     member_noflags (asn_DEF_E42RICsubscriptionRequest others env) None,
     member_noflags (asn_DEF_E42RICsubscriptionDeleteRequest env) None,
     member_noflags (asn_DEF_E42RICcontrolRequest others env) None,
     member_noflags (asn_DEF_RICindication others env) None,
     member_noflags (asn_DEF_RICserviceQuery env) None,
     member_noflags (asn_DEF_ErrorIndication env) None]"

definition asn_DEF_InitiatingMessage__value :: "(string \<Rightarrow> asn_codec) \<Rightarrow> env \<Rightarrow> asn_codec" where
  "asn_DEF_InitiatingMessage__value others env = asn_OP_OPEN_TYPE env (asn_MBR_InitiatingMessage__value others env)"

definition asn_SPC_InitiatingMessage_specs :: asn_SEQUENCE_specifics where
  "asn_SPC_InitiatingMessage_specs = \<lparr>oms = [], roms_count = 0, aoms_count = 0, first_extension = - 1\<rparr>"

definition select_InitiatingMessage_value_type :: "asn_value option list \<Rightarrow> nat" where
  "select_InitiatingMessage_value_type = select_type (type_column 0 asn_IOS_E2AP_ELEMENTARY_PROCEDURES)"

definition select_InitiatingMessage_criticality_type :: "asn_value option list \<Rightarrow> nat" where
  "select_InitiatingMessage_criticality_type = select_type (criticality_column asn_IOS_E2AP_ELEMENTARY_PROCEDURES)"

definition asn_MBR_InitiatingMessage :: "(string \<Rightarrow> asn_codec) \<Rightarrow> env \<Rightarrow> asn_codec asn_TYPE_member list" where
  "asn_MBR_InitiatingMessage others env = class_fields (asn_DEF_ProcedureCode env) (Some (value_only asn_PER_memb_procedureCode_constr)) (asn_DEF_Criticality env) (Some (value_only asn_PER_memb_criticality_constr)) select_InitiatingMessage_criticality_type
    (asn_DEF_InitiatingMessage__value others env) (Some unconstrained) select_InitiatingMessage_value_type"

definition asn_DEF_InitiatingMessage :: "(string \<Rightarrow> asn_codec) \<Rightarrow> env \<Rightarrow> asn_codec" where
  "asn_DEF_InitiatingMessage others env = asn_OP_SEQUENCE env asn_SPC_InitiatingMessage_specs (asn_MBR_InitiatingMessage others env)"

definition asn_IOS_RICsubscriptionResponse_IEs :: "asn_ioc_object list" where
  "asn_IOS_RICsubscriptionResponse_IEs =
    [\<lparr>object_id = 29, object_criticality = 0, object_presence = Some 2, object_types = [True]\<rparr>,
     \<lparr>object_id = 5, object_criticality = 0, object_presence = Some 2, object_types = [True]\<rparr>,
     \<lparr>object_id = 17, object_criticality = 0, object_presence = Some 2, object_types = [True]\<rparr>,
     \<lparr>object_id = 18, object_criticality = 0, object_presence = Some 0, object_types = [True]\<rparr>]"

definition asn_IOS_RICaction_Admitted_ItemIEs :: "asn_ioc_object list" where
  "asn_IOS_RICaction_Admitted_ItemIEs =
    [\<lparr>object_id = 14, object_criticality = 1, object_presence = Some 2, object_types = [True]\<rparr>]"

definition asn_MBR_RICaction_Admitted_Item :: "env \<Rightarrow> asn_codec asn_TYPE_member list" where
  "asn_MBR_RICaction_Admitted_Item env =
    [member_noflags (asn_DEF_RICactionID env) None]"

definition asn_SPC_RICaction_Admitted_Item_specs :: asn_SEQUENCE_specifics where
  "asn_SPC_RICaction_Admitted_Item_specs = \<lparr>oms = [], roms_count = 0, aoms_count = 0, first_extension = 1\<rparr>"

definition asn_DEF_RICaction_Admitted_Item :: "env \<Rightarrow> asn_codec" where
  "asn_DEF_RICaction_Admitted_Item env = asn_OP_SEQUENCE env asn_SPC_RICaction_Admitted_Item_specs (asn_MBR_RICaction_Admitted_Item env)"

definition asn_MBR_ProtocolIE_SingleContainer_1481P1__value :: "env \<Rightarrow> asn_codec asn_TYPE_member list" where
  "asn_MBR_ProtocolIE_SingleContainer_1481P1__value env =
    [member_noflags (asn_DEF_RICaction_Admitted_Item env) None]"

definition asn_DEF_ProtocolIE_SingleContainer_1481P1__value :: "env \<Rightarrow> asn_codec" where
  "asn_DEF_ProtocolIE_SingleContainer_1481P1__value env = asn_OP_OPEN_TYPE env (asn_MBR_ProtocolIE_SingleContainer_1481P1__value env)"

definition asn_SPC_ProtocolIE_SingleContainer_1481P1_specs :: asn_SEQUENCE_specifics where
  "asn_SPC_ProtocolIE_SingleContainer_1481P1_specs = \<lparr>oms = [], roms_count = 0, aoms_count = 0, first_extension = - 1\<rparr>"

definition select_ProtocolIE_SingleContainer_1481P1_value_type :: "asn_value option list \<Rightarrow> nat" where
  "select_ProtocolIE_SingleContainer_1481P1_value_type = select_type (type_column 0 asn_IOS_RICaction_Admitted_ItemIEs)"

definition select_ProtocolIE_SingleContainer_1481P1_criticality_type :: "asn_value option list \<Rightarrow> nat" where
  "select_ProtocolIE_SingleContainer_1481P1_criticality_type = select_type (criticality_column asn_IOS_RICaction_Admitted_ItemIEs)"

definition asn_MBR_ProtocolIE_SingleContainer_1481P1 :: "env \<Rightarrow> asn_codec asn_TYPE_member list" where
  "asn_MBR_ProtocolIE_SingleContainer_1481P1 env = class_fields (asn_DEF_ProtocolIE_ID env) (Some (value_only asn_PER_memb_id_constr)) (asn_DEF_Criticality env) (Some (value_only asn_PER_memb_criticality_constr)) select_ProtocolIE_SingleContainer_1481P1_criticality_type
    (asn_DEF_ProtocolIE_SingleContainer_1481P1__value env) (Some unconstrained) select_ProtocolIE_SingleContainer_1481P1_value_type"

definition asn_DEF_ProtocolIE_SingleContainer_1481P1 :: "env \<Rightarrow> asn_codec" where
  "asn_DEF_ProtocolIE_SingleContainer_1481P1 env = asn_OP_SEQUENCE env asn_SPC_ProtocolIE_SingleContainer_1481P1_specs (asn_MBR_ProtocolIE_SingleContainer_1481P1 env)"

definition asn_PER_type_RICaction_Admitted_List_constr :: asn_per_constraint where
  "asn_PER_type_RICaction_Admitted_List_constr =
    \<lparr>flags = APC_CONSTRAINED, range_bits = 4, effective_bits = 4, lower_bound = 1, upper_bound = 16\<rparr>"

definition asn_MBR_RICaction_Admitted_List :: "env \<Rightarrow> asn_codec asn_TYPE_member" where
  "asn_MBR_RICaction_Admitted_List env = member_pointer 0 (asn_DEF_ProtocolIE_SingleContainer_1481P1 env) None"

definition asn_DEF_RICaction_Admitted_List :: "env \<Rightarrow> asn_codec" where
  "asn_DEF_RICaction_Admitted_List env = asn_OP_SEQUENCE_OF env (Some (size_only asn_PER_type_RICaction_Admitted_List_constr)) (asn_MBR_RICaction_Admitted_List env)"

definition asn_IOS_RICaction_NotAdmitted_ItemIEs :: "asn_ioc_object list" where
  "asn_IOS_RICaction_NotAdmitted_ItemIEs =
    [\<lparr>object_id = 16, object_criticality = 1, object_presence = Some 2, object_types = [True]\<rparr>]"

definition asn_MBR_RICaction_NotAdmitted_Item :: "env \<Rightarrow> asn_codec asn_TYPE_member list" where
  "asn_MBR_RICaction_NotAdmitted_Item env =
    [member_noflags (asn_DEF_RICactionID env) None,
     member_noflags (asn_DEF_Cause env) None]"

definition asn_SPC_RICaction_NotAdmitted_Item_specs :: asn_SEQUENCE_specifics where
  "asn_SPC_RICaction_NotAdmitted_Item_specs = \<lparr>oms = [], roms_count = 0, aoms_count = 0, first_extension = 2\<rparr>"

definition asn_DEF_RICaction_NotAdmitted_Item :: "env \<Rightarrow> asn_codec" where
  "asn_DEF_RICaction_NotAdmitted_Item env = asn_OP_SEQUENCE env asn_SPC_RICaction_NotAdmitted_Item_specs (asn_MBR_RICaction_NotAdmitted_Item env)"

definition asn_MBR_ProtocolIE_SingleContainer_1481P2__value :: "env \<Rightarrow> asn_codec asn_TYPE_member list" where
  "asn_MBR_ProtocolIE_SingleContainer_1481P2__value env =
    [member_noflags (asn_DEF_RICaction_NotAdmitted_Item env) None]"

definition asn_DEF_ProtocolIE_SingleContainer_1481P2__value :: "env \<Rightarrow> asn_codec" where
  "asn_DEF_ProtocolIE_SingleContainer_1481P2__value env = asn_OP_OPEN_TYPE env (asn_MBR_ProtocolIE_SingleContainer_1481P2__value env)"

definition asn_SPC_ProtocolIE_SingleContainer_1481P2_specs :: asn_SEQUENCE_specifics where
  "asn_SPC_ProtocolIE_SingleContainer_1481P2_specs = \<lparr>oms = [], roms_count = 0, aoms_count = 0, first_extension = - 1\<rparr>"

definition select_ProtocolIE_SingleContainer_1481P2_value_type :: "asn_value option list \<Rightarrow> nat" where
  "select_ProtocolIE_SingleContainer_1481P2_value_type = select_type (type_column 0 asn_IOS_RICaction_NotAdmitted_ItemIEs)"

definition select_ProtocolIE_SingleContainer_1481P2_criticality_type :: "asn_value option list \<Rightarrow> nat" where
  "select_ProtocolIE_SingleContainer_1481P2_criticality_type = select_type (criticality_column asn_IOS_RICaction_NotAdmitted_ItemIEs)"

definition asn_MBR_ProtocolIE_SingleContainer_1481P2 :: "env \<Rightarrow> asn_codec asn_TYPE_member list" where
  "asn_MBR_ProtocolIE_SingleContainer_1481P2 env = class_fields (asn_DEF_ProtocolIE_ID env) (Some (value_only asn_PER_memb_id_constr)) (asn_DEF_Criticality env) (Some (value_only asn_PER_memb_criticality_constr)) select_ProtocolIE_SingleContainer_1481P2_criticality_type
    (asn_DEF_ProtocolIE_SingleContainer_1481P2__value env) (Some unconstrained) select_ProtocolIE_SingleContainer_1481P2_value_type"

definition asn_DEF_ProtocolIE_SingleContainer_1481P2 :: "env \<Rightarrow> asn_codec" where
  "asn_DEF_ProtocolIE_SingleContainer_1481P2 env = asn_OP_SEQUENCE env asn_SPC_ProtocolIE_SingleContainer_1481P2_specs (asn_MBR_ProtocolIE_SingleContainer_1481P2 env)"

definition asn_PER_type_RICaction_NotAdmitted_List_constr :: asn_per_constraint where
  "asn_PER_type_RICaction_NotAdmitted_List_constr =
    \<lparr>flags = APC_CONSTRAINED, range_bits = 5, effective_bits = 5, lower_bound = 0, upper_bound = 16\<rparr>"

definition asn_MBR_RICaction_NotAdmitted_List :: "env \<Rightarrow> asn_codec asn_TYPE_member" where
  "asn_MBR_RICaction_NotAdmitted_List env = member_pointer 0 (asn_DEF_ProtocolIE_SingleContainer_1481P2 env) None"

definition asn_DEF_RICaction_NotAdmitted_List :: "env \<Rightarrow> asn_codec" where
  "asn_DEF_RICaction_NotAdmitted_List env = asn_OP_SEQUENCE_OF env (Some (size_only asn_PER_type_RICaction_NotAdmitted_List_constr)) (asn_MBR_RICaction_NotAdmitted_List env)"

definition asn_MBR_RICsubscriptionResponse_IEs__value :: "env \<Rightarrow> asn_codec asn_TYPE_member list" where
  "asn_MBR_RICsubscriptionResponse_IEs__value env =
    [member_noflags (asn_DEF_RICrequestID env) None,
     member_noflags (asn_DEF_RANfunctionID env) None,
     member_noflags (asn_DEF_RICaction_Admitted_List env) None,
     member_noflags (asn_DEF_RICaction_NotAdmitted_List env) None]"

definition asn_DEF_RICsubscriptionResponse_IEs__value :: "env \<Rightarrow> asn_codec" where
  "asn_DEF_RICsubscriptionResponse_IEs__value env = asn_OP_OPEN_TYPE env (asn_MBR_RICsubscriptionResponse_IEs__value env)"

definition asn_SPC_RICsubscriptionResponse_IEs_specs :: asn_SEQUENCE_specifics where
  "asn_SPC_RICsubscriptionResponse_IEs_specs = \<lparr>oms = [], roms_count = 0, aoms_count = 0, first_extension = - 1\<rparr>"

definition select_RICsubscriptionResponse_IEs_value_type :: "asn_value option list \<Rightarrow> nat" where
  "select_RICsubscriptionResponse_IEs_value_type = select_type (type_column 0 asn_IOS_RICsubscriptionResponse_IEs)"

definition select_RICsubscriptionResponse_IEs_criticality_type :: "asn_value option list \<Rightarrow> nat" where
  "select_RICsubscriptionResponse_IEs_criticality_type = select_type (criticality_column asn_IOS_RICsubscriptionResponse_IEs)"

definition asn_MBR_RICsubscriptionResponse_IEs :: "env \<Rightarrow> asn_codec asn_TYPE_member list" where
  "asn_MBR_RICsubscriptionResponse_IEs env = class_fields (asn_DEF_ProtocolIE_ID env) (Some (value_only asn_PER_memb_id_constr)) (asn_DEF_Criticality env) (Some (value_only asn_PER_memb_criticality_constr)) select_RICsubscriptionResponse_IEs_criticality_type
    (asn_DEF_RICsubscriptionResponse_IEs__value env) (Some unconstrained) select_RICsubscriptionResponse_IEs_value_type"

definition asn_DEF_RICsubscriptionResponse_IEs :: "env \<Rightarrow> asn_codec" where
  "asn_DEF_RICsubscriptionResponse_IEs env = asn_OP_SEQUENCE env asn_SPC_RICsubscriptionResponse_IEs_specs (asn_MBR_RICsubscriptionResponse_IEs env)"

definition asn_PER_type_ProtocolIE_Container_1479P1_constr :: asn_per_constraint where
  "asn_PER_type_ProtocolIE_Container_1479P1_constr =
    \<lparr>flags = APC_CONSTRAINED, range_bits = 16, effective_bits = 16, lower_bound = 0, upper_bound = 65535\<rparr>"

definition asn_MBR_ProtocolIE_Container_1479P1 :: "env \<Rightarrow> asn_codec asn_TYPE_member" where
  "asn_MBR_ProtocolIE_Container_1479P1 env = member_pointer 0 (asn_DEF_RICsubscriptionResponse_IEs env) None"

definition asn_DEF_ProtocolIE_Container_1479P1 :: "env \<Rightarrow> asn_codec" where
  "asn_DEF_ProtocolIE_Container_1479P1 env = asn_OP_SEQUENCE_OF env (Some (size_only asn_PER_type_ProtocolIE_Container_1479P1_constr)) (asn_MBR_ProtocolIE_Container_1479P1 env)"

definition asn_MBR_RICsubscriptionResponse :: "env \<Rightarrow> asn_codec asn_TYPE_member list" where
  "asn_MBR_RICsubscriptionResponse env =
    [member_noflags (asn_DEF_ProtocolIE_Container_1479P1 env) None]"

definition asn_SPC_RICsubscriptionResponse_specs :: asn_SEQUENCE_specifics where
  "asn_SPC_RICsubscriptionResponse_specs = \<lparr>oms = [], roms_count = 0, aoms_count = 0, first_extension = 1\<rparr>"

definition asn_DEF_RICsubscriptionResponse :: "env \<Rightarrow> asn_codec" where
  "asn_DEF_RICsubscriptionResponse env = asn_OP_SEQUENCE env asn_SPC_RICsubscriptionResponse_specs (asn_MBR_RICsubscriptionResponse env)"

definition asn_IOS_RICsubscriptionDeleteResponse_IEs :: "asn_ioc_object list" where
  "asn_IOS_RICsubscriptionDeleteResponse_IEs =
    [\<lparr>object_id = 29, object_criticality = 0, object_presence = Some 2, object_types = [True]\<rparr>,
     \<lparr>object_id = 5, object_criticality = 0, object_presence = Some 2, object_types = [True]\<rparr>]"

definition asn_MBR_RICsubscriptionDeleteResponse_IEs__value :: "env \<Rightarrow> asn_codec asn_TYPE_member list" where
  "asn_MBR_RICsubscriptionDeleteResponse_IEs__value env =
    [member_noflags (asn_DEF_RICrequestID env) None,
     member_noflags (asn_DEF_RANfunctionID env) None]"

definition asn_DEF_RICsubscriptionDeleteResponse_IEs__value :: "env \<Rightarrow> asn_codec" where
  "asn_DEF_RICsubscriptionDeleteResponse_IEs__value env = asn_OP_OPEN_TYPE env (asn_MBR_RICsubscriptionDeleteResponse_IEs__value env)"

definition asn_SPC_RICsubscriptionDeleteResponse_IEs_specs :: asn_SEQUENCE_specifics where
  "asn_SPC_RICsubscriptionDeleteResponse_IEs_specs = \<lparr>oms = [], roms_count = 0, aoms_count = 0, first_extension = - 1\<rparr>"

definition select_RICsubscriptionDeleteResponse_IEs_value_type :: "asn_value option list \<Rightarrow> nat" where
  "select_RICsubscriptionDeleteResponse_IEs_value_type = select_type (type_column 0 asn_IOS_RICsubscriptionDeleteResponse_IEs)"

definition select_RICsubscriptionDeleteResponse_IEs_criticality_type :: "asn_value option list \<Rightarrow> nat" where
  "select_RICsubscriptionDeleteResponse_IEs_criticality_type = select_type (criticality_column asn_IOS_RICsubscriptionDeleteResponse_IEs)"

definition asn_MBR_RICsubscriptionDeleteResponse_IEs :: "env \<Rightarrow> asn_codec asn_TYPE_member list" where
  "asn_MBR_RICsubscriptionDeleteResponse_IEs env = class_fields (asn_DEF_ProtocolIE_ID env) (Some (value_only asn_PER_memb_id_constr)) (asn_DEF_Criticality env) (Some (value_only asn_PER_memb_criticality_constr)) select_RICsubscriptionDeleteResponse_IEs_criticality_type
    (asn_DEF_RICsubscriptionDeleteResponse_IEs__value env) (Some unconstrained) select_RICsubscriptionDeleteResponse_IEs_value_type"

definition asn_DEF_RICsubscriptionDeleteResponse_IEs :: "env \<Rightarrow> asn_codec" where
  "asn_DEF_RICsubscriptionDeleteResponse_IEs env = asn_OP_SEQUENCE env asn_SPC_RICsubscriptionDeleteResponse_IEs_specs (asn_MBR_RICsubscriptionDeleteResponse_IEs env)"

definition asn_PER_type_ProtocolIE_Container_1479P6_constr :: asn_per_constraint where
  "asn_PER_type_ProtocolIE_Container_1479P6_constr =
    \<lparr>flags = APC_CONSTRAINED, range_bits = 16, effective_bits = 16, lower_bound = 0, upper_bound = 65535\<rparr>"

definition asn_MBR_ProtocolIE_Container_1479P6 :: "env \<Rightarrow> asn_codec asn_TYPE_member" where
  "asn_MBR_ProtocolIE_Container_1479P6 env = member_pointer 0 (asn_DEF_RICsubscriptionDeleteResponse_IEs env) None"

definition asn_DEF_ProtocolIE_Container_1479P6 :: "env \<Rightarrow> asn_codec" where
  "asn_DEF_ProtocolIE_Container_1479P6 env = asn_OP_SEQUENCE_OF env (Some (size_only asn_PER_type_ProtocolIE_Container_1479P6_constr)) (asn_MBR_ProtocolIE_Container_1479P6 env)"

definition asn_MBR_RICsubscriptionDeleteResponse :: "env \<Rightarrow> asn_codec asn_TYPE_member list" where
  "asn_MBR_RICsubscriptionDeleteResponse env =
    [member_noflags (asn_DEF_ProtocolIE_Container_1479P6 env) None]"

definition asn_SPC_RICsubscriptionDeleteResponse_specs :: asn_SEQUENCE_specifics where
  "asn_SPC_RICsubscriptionDeleteResponse_specs = \<lparr>oms = [], roms_count = 0, aoms_count = 0, first_extension = 1\<rparr>"

definition asn_DEF_RICsubscriptionDeleteResponse :: "env \<Rightarrow> asn_codec" where
  "asn_DEF_RICsubscriptionDeleteResponse env = asn_OP_SEQUENCE env asn_SPC_RICsubscriptionDeleteResponse_specs (asn_MBR_RICsubscriptionDeleteResponse env)"

definition asn_IOS_RICserviceUpdateAcknowledge_IEs :: "asn_ioc_object list" where
  "asn_IOS_RICserviceUpdateAcknowledge_IEs =
    [\<lparr>object_id = 9, object_criticality = 0, object_presence = Some 0, object_types = [True]\<rparr>,
     \<lparr>object_id = 13, object_criticality = 0, object_presence = Some 0, object_types = [True]\<rparr>]"

definition asn_IOS_RANfunctionIDcause_ItemIEs :: "asn_ioc_object list" where
  "asn_IOS_RANfunctionIDcause_ItemIEs =
    [\<lparr>object_id = 7, object_criticality = 1, object_presence = Some 2, object_types = [True]\<rparr>]"

definition asn_MBR_RANfunctionIDcause_Item :: "env \<Rightarrow> asn_codec asn_TYPE_member list" where
  "asn_MBR_RANfunctionIDcause_Item env =
    [member_noflags (asn_DEF_RANfunctionID env) None,
     member_noflags (asn_DEF_Cause env) None]"

definition asn_SPC_RANfunctionIDcause_Item_specs :: asn_SEQUENCE_specifics where
  "asn_SPC_RANfunctionIDcause_Item_specs = \<lparr>oms = [], roms_count = 0, aoms_count = 0, first_extension = 2\<rparr>"

definition asn_DEF_RANfunctionIDcause_Item :: "env \<Rightarrow> asn_codec" where
  "asn_DEF_RANfunctionIDcause_Item env = asn_OP_SEQUENCE env asn_SPC_RANfunctionIDcause_Item_specs (asn_MBR_RANfunctionIDcause_Item env)"

definition asn_MBR_ProtocolIE_SingleContainer_1481P10__value :: "env \<Rightarrow> asn_codec asn_TYPE_member list" where
  "asn_MBR_ProtocolIE_SingleContainer_1481P10__value env =
    [member_noflags (asn_DEF_RANfunctionIDcause_Item env) None]"

definition asn_DEF_ProtocolIE_SingleContainer_1481P10__value :: "env \<Rightarrow> asn_codec" where
  "asn_DEF_ProtocolIE_SingleContainer_1481P10__value env = asn_OP_OPEN_TYPE env (asn_MBR_ProtocolIE_SingleContainer_1481P10__value env)"

definition asn_SPC_ProtocolIE_SingleContainer_1481P10_specs :: asn_SEQUENCE_specifics where
  "asn_SPC_ProtocolIE_SingleContainer_1481P10_specs = \<lparr>oms = [], roms_count = 0, aoms_count = 0, first_extension = - 1\<rparr>"

definition select_ProtocolIE_SingleContainer_1481P10_value_type :: "asn_value option list \<Rightarrow> nat" where
  "select_ProtocolIE_SingleContainer_1481P10_value_type = select_type (type_column 0 asn_IOS_RANfunctionIDcause_ItemIEs)"

definition select_ProtocolIE_SingleContainer_1481P10_criticality_type :: "asn_value option list \<Rightarrow> nat" where
  "select_ProtocolIE_SingleContainer_1481P10_criticality_type = select_type (criticality_column asn_IOS_RANfunctionIDcause_ItemIEs)"

definition asn_MBR_ProtocolIE_SingleContainer_1481P10 :: "env \<Rightarrow> asn_codec asn_TYPE_member list" where
  "asn_MBR_ProtocolIE_SingleContainer_1481P10 env = class_fields (asn_DEF_ProtocolIE_ID env) (Some (value_only asn_PER_memb_id_constr)) (asn_DEF_Criticality env) (Some (value_only asn_PER_memb_criticality_constr)) select_ProtocolIE_SingleContainer_1481P10_criticality_type
    (asn_DEF_ProtocolIE_SingleContainer_1481P10__value env) (Some unconstrained) select_ProtocolIE_SingleContainer_1481P10_value_type"

definition asn_DEF_ProtocolIE_SingleContainer_1481P10 :: "env \<Rightarrow> asn_codec" where
  "asn_DEF_ProtocolIE_SingleContainer_1481P10 env = asn_OP_SEQUENCE env asn_SPC_ProtocolIE_SingleContainer_1481P10_specs (asn_MBR_ProtocolIE_SingleContainer_1481P10 env)"

definition asn_PER_type_RANfunctionsIDcause_List_constr :: asn_per_constraint where
  "asn_PER_type_RANfunctionsIDcause_List_constr =
    \<lparr>flags = APC_CONSTRAINED, range_bits = 9, effective_bits = 9, lower_bound = 0, upper_bound = 256\<rparr>"

definition asn_MBR_RANfunctionsIDcause_List :: "env \<Rightarrow> asn_codec asn_TYPE_member" where
  "asn_MBR_RANfunctionsIDcause_List env = member_pointer 0 (asn_DEF_ProtocolIE_SingleContainer_1481P10 env) None"

definition asn_DEF_RANfunctionsIDcause_List :: "env \<Rightarrow> asn_codec" where
  "asn_DEF_RANfunctionsIDcause_List env = asn_OP_SEQUENCE_OF env (Some (size_only asn_PER_type_RANfunctionsIDcause_List_constr)) (asn_MBR_RANfunctionsIDcause_List env)"

definition asn_MBR_RICserviceUpdateAcknowledge_IEs__value :: "env \<Rightarrow> asn_codec asn_TYPE_member list" where
  "asn_MBR_RICserviceUpdateAcknowledge_IEs__value env =
    [member_noflags (asn_DEF_RANfunctionsID_List env) None,
     member_noflags (asn_DEF_RANfunctionsIDcause_List env) None]"

definition asn_DEF_RICserviceUpdateAcknowledge_IEs__value :: "env \<Rightarrow> asn_codec" where
  "asn_DEF_RICserviceUpdateAcknowledge_IEs__value env = asn_OP_OPEN_TYPE env (asn_MBR_RICserviceUpdateAcknowledge_IEs__value env)"

definition asn_SPC_RICserviceUpdateAcknowledge_IEs_specs :: asn_SEQUENCE_specifics where
  "asn_SPC_RICserviceUpdateAcknowledge_IEs_specs = \<lparr>oms = [], roms_count = 0, aoms_count = 0, first_extension = - 1\<rparr>"

definition select_RICserviceUpdateAcknowledge_IEs_value_type :: "asn_value option list \<Rightarrow> nat" where
  "select_RICserviceUpdateAcknowledge_IEs_value_type = select_type (type_column 0 asn_IOS_RICserviceUpdateAcknowledge_IEs)"

definition select_RICserviceUpdateAcknowledge_IEs_criticality_type :: "asn_value option list \<Rightarrow> nat" where
  "select_RICserviceUpdateAcknowledge_IEs_criticality_type = select_type (criticality_column asn_IOS_RICserviceUpdateAcknowledge_IEs)"

definition asn_MBR_RICserviceUpdateAcknowledge_IEs :: "env \<Rightarrow> asn_codec asn_TYPE_member list" where
  "asn_MBR_RICserviceUpdateAcknowledge_IEs env = class_fields (asn_DEF_ProtocolIE_ID env) (Some (value_only asn_PER_memb_id_constr)) (asn_DEF_Criticality env) (Some (value_only asn_PER_memb_criticality_constr)) select_RICserviceUpdateAcknowledge_IEs_criticality_type
    (asn_DEF_RICserviceUpdateAcknowledge_IEs__value env) (Some unconstrained) select_RICserviceUpdateAcknowledge_IEs_value_type"

definition asn_DEF_RICserviceUpdateAcknowledge_IEs :: "env \<Rightarrow> asn_codec" where
  "asn_DEF_RICserviceUpdateAcknowledge_IEs env = asn_OP_SEQUENCE env asn_SPC_RICserviceUpdateAcknowledge_IEs_specs (asn_MBR_RICserviceUpdateAcknowledge_IEs env)"

definition asn_PER_type_ProtocolIE_Container_1479P29_constr :: asn_per_constraint where
  "asn_PER_type_ProtocolIE_Container_1479P29_constr =
    \<lparr>flags = APC_CONSTRAINED, range_bits = 16, effective_bits = 16, lower_bound = 0, upper_bound = 65535\<rparr>"

definition asn_MBR_ProtocolIE_Container_1479P29 :: "env \<Rightarrow> asn_codec asn_TYPE_member" where
  "asn_MBR_ProtocolIE_Container_1479P29 env = member_pointer 0 (asn_DEF_RICserviceUpdateAcknowledge_IEs env) None"

definition asn_DEF_ProtocolIE_Container_1479P29 :: "env \<Rightarrow> asn_codec" where
  "asn_DEF_ProtocolIE_Container_1479P29 env = asn_OP_SEQUENCE_OF env (Some (size_only asn_PER_type_ProtocolIE_Container_1479P29_constr)) (asn_MBR_ProtocolIE_Container_1479P29 env)"

definition asn_MBR_RICserviceUpdateAcknowledge :: "env \<Rightarrow> asn_codec asn_TYPE_member list" where
  "asn_MBR_RICserviceUpdateAcknowledge env =
    [member_noflags (asn_DEF_ProtocolIE_Container_1479P29 env) None]"

definition asn_SPC_RICserviceUpdateAcknowledge_specs :: asn_SEQUENCE_specifics where
  "asn_SPC_RICserviceUpdateAcknowledge_specs = \<lparr>oms = [], roms_count = 0, aoms_count = 0, first_extension = 1\<rparr>"

definition asn_DEF_RICserviceUpdateAcknowledge :: "env \<Rightarrow> asn_codec" where
  "asn_DEF_RICserviceUpdateAcknowledge env = asn_OP_SEQUENCE env asn_SPC_RICserviceUpdateAcknowledge_specs (asn_MBR_RICserviceUpdateAcknowledge env)"

definition asn_IOS_RICcontrolAcknowledge_IEs :: "asn_ioc_object list" where
  "asn_IOS_RICcontrolAcknowledge_IEs =
    [\<lparr>object_id = 29, object_criticality = 0, object_presence = Some 2, object_types = [True]\<rparr>,
     \<lparr>object_id = 5, object_criticality = 0, object_presence = Some 2, object_types = [True]\<rparr>,
     \<lparr>object_id = 20, object_criticality = 0, object_presence = Some 0, object_types = [True]\<rparr>,
     \<lparr>object_id = 24, object_criticality = 0, object_presence = Some 2, object_types = [True]\<rparr>,
     \<lparr>object_id = 32, object_criticality = 0, object_presence = Some 0, object_types = [True]\<rparr>]"

definition asn_DEF_RICcontrolStatus :: "env \<Rightarrow> asn_codec" where
  "asn_DEF_RICcontrolStatus env = asn_OP_NativeEnumerated env asn_SPC_RICcontrolStatus_specs (Some (value_only asn_PER_type_RICcontrolStatus_constr))"

definition asn_MBR_RICcontrolAcknowledge_IEs__value :: "(string \<Rightarrow> asn_codec) \<Rightarrow> env \<Rightarrow> asn_codec asn_TYPE_member list" where
  "asn_MBR_RICcontrolAcknowledge_IEs__value others env =
    [member_noflags (asn_DEF_RICrequestID env) None,
     member_noflags (asn_DEF_RANfunctionID env) None,
     member_noflags (others ''RICcallProcessID'') None,
     member_noflags (asn_DEF_RICcontrolStatus env) None,
     member_noflags (others ''RICcontrolOutcome'') None]"

definition asn_DEF_RICcontrolAcknowledge_IEs__value :: "(string \<Rightarrow> asn_codec) \<Rightarrow> env \<Rightarrow> asn_codec" where
  "asn_DEF_RICcontrolAcknowledge_IEs__value others env = asn_OP_OPEN_TYPE env (asn_MBR_RICcontrolAcknowledge_IEs__value others env)"

definition asn_SPC_RICcontrolAcknowledge_IEs_specs :: asn_SEQUENCE_specifics where
  "asn_SPC_RICcontrolAcknowledge_IEs_specs = \<lparr>oms = [], roms_count = 0, aoms_count = 0, first_extension = - 1\<rparr>"

definition select_RICcontrolAcknowledge_IEs_value_type :: "asn_value option list \<Rightarrow> nat" where
  "select_RICcontrolAcknowledge_IEs_value_type = select_type (type_column 0 asn_IOS_RICcontrolAcknowledge_IEs)"

definition select_RICcontrolAcknowledge_IEs_criticality_type :: "asn_value option list \<Rightarrow> nat" where
  "select_RICcontrolAcknowledge_IEs_criticality_type = select_type (criticality_column asn_IOS_RICcontrolAcknowledge_IEs)"

definition asn_MBR_RICcontrolAcknowledge_IEs :: "(string \<Rightarrow> asn_codec) \<Rightarrow> env \<Rightarrow> asn_codec asn_TYPE_member list" where
  "asn_MBR_RICcontrolAcknowledge_IEs others env = class_fields (asn_DEF_ProtocolIE_ID env) (Some (value_only asn_PER_memb_id_constr)) (asn_DEF_Criticality env) (Some (value_only asn_PER_memb_criticality_constr)) select_RICcontrolAcknowledge_IEs_criticality_type
    (asn_DEF_RICcontrolAcknowledge_IEs__value others env) (Some unconstrained) select_RICcontrolAcknowledge_IEs_value_type"

definition asn_DEF_RICcontrolAcknowledge_IEs :: "(string \<Rightarrow> asn_codec) \<Rightarrow> env \<Rightarrow> asn_codec" where
  "asn_DEF_RICcontrolAcknowledge_IEs others env = asn_OP_SEQUENCE env asn_SPC_RICcontrolAcknowledge_IEs_specs (asn_MBR_RICcontrolAcknowledge_IEs others env)"

definition asn_PER_type_ProtocolIE_Container_1479P11_constr :: asn_per_constraint where
  "asn_PER_type_ProtocolIE_Container_1479P11_constr =
    \<lparr>flags = APC_CONSTRAINED, range_bits = 16, effective_bits = 16, lower_bound = 0, upper_bound = 65535\<rparr>"

definition asn_MBR_ProtocolIE_Container_1479P11 :: "(string \<Rightarrow> asn_codec) \<Rightarrow> env \<Rightarrow> asn_codec asn_TYPE_member" where
  "asn_MBR_ProtocolIE_Container_1479P11 others env = member_pointer 0 (asn_DEF_RICcontrolAcknowledge_IEs others env) None"

definition asn_DEF_ProtocolIE_Container_1479P11 :: "(string \<Rightarrow> asn_codec) \<Rightarrow> env \<Rightarrow> asn_codec" where
  "asn_DEF_ProtocolIE_Container_1479P11 others env = asn_OP_SEQUENCE_OF env (Some (size_only asn_PER_type_ProtocolIE_Container_1479P11_constr)) (asn_MBR_ProtocolIE_Container_1479P11 others env)"

definition asn_MBR_RICcontrolAcknowledge :: "(string \<Rightarrow> asn_codec) \<Rightarrow> env \<Rightarrow> asn_codec asn_TYPE_member list" where
  "asn_MBR_RICcontrolAcknowledge others env =
    [member_noflags (asn_DEF_ProtocolIE_Container_1479P11 others env) None]"

definition asn_SPC_RICcontrolAcknowledge_specs :: asn_SEQUENCE_specifics where
  "asn_SPC_RICcontrolAcknowledge_specs = \<lparr>oms = [], roms_count = 0, aoms_count = 0, first_extension = 1\<rparr>"

definition asn_DEF_RICcontrolAcknowledge :: "(string \<Rightarrow> asn_codec) \<Rightarrow> env \<Rightarrow> asn_codec" where
  "asn_DEF_RICcontrolAcknowledge others env = asn_OP_SEQUENCE env asn_SPC_RICcontrolAcknowledge_specs (asn_MBR_RICcontrolAcknowledge others env)"

definition asn_IOS_E2setupResponseIEs :: "asn_ioc_object list" where
  "asn_IOS_E2setupResponseIEs =
    [\<lparr>object_id = 4, object_criticality = 0, object_presence = Some 2, object_types = [True]\<rparr>,
     \<lparr>object_id = 9, object_criticality = 0, object_presence = Some 0, object_types = [True]\<rparr>,
     \<lparr>object_id = 13, object_criticality = 0, object_presence = Some 0, object_types = [True]\<rparr>,
     \<lparr>object_id = 35, object_criticality = 0, object_presence = Some 0, object_types = [True]\<rparr>]"

definition asn_IOS_E2nodeComponentConfigUpdateAck_ItemIEs :: "asn_ioc_object list" where
  "asn_IOS_E2nodeComponentConfigUpdateAck_ItemIEs =
    [\<lparr>object_id = 36, object_criticality = 0, object_presence = Some 2, object_types = [True]\<rparr>]"

definition asn_MBR_ProtocolIE_SingleContainer_1481P7__value :: "(string \<Rightarrow> asn_codec) \<Rightarrow> env \<Rightarrow> asn_codec asn_TYPE_member list" where
  "asn_MBR_ProtocolIE_SingleContainer_1481P7__value others env =
    [member_noflags (others ''E2nodeComponentConfigUpdateAck_Item'') None]"

definition asn_DEF_ProtocolIE_SingleContainer_1481P7__value :: "(string \<Rightarrow> asn_codec) \<Rightarrow> env \<Rightarrow> asn_codec" where
  "asn_DEF_ProtocolIE_SingleContainer_1481P7__value others env = asn_OP_OPEN_TYPE env (asn_MBR_ProtocolIE_SingleContainer_1481P7__value others env)"

definition asn_SPC_ProtocolIE_SingleContainer_1481P7_specs :: asn_SEQUENCE_specifics where
  "asn_SPC_ProtocolIE_SingleContainer_1481P7_specs = \<lparr>oms = [], roms_count = 0, aoms_count = 0, first_extension = - 1\<rparr>"

definition select_ProtocolIE_SingleContainer_1481P7_value_type :: "asn_value option list \<Rightarrow> nat" where
  "select_ProtocolIE_SingleContainer_1481P7_value_type = select_type (type_column 0 asn_IOS_E2nodeComponentConfigUpdateAck_ItemIEs)"

definition select_ProtocolIE_SingleContainer_1481P7_criticality_type :: "asn_value option list \<Rightarrow> nat" where
  "select_ProtocolIE_SingleContainer_1481P7_criticality_type = select_type (criticality_column asn_IOS_E2nodeComponentConfigUpdateAck_ItemIEs)"

definition asn_MBR_ProtocolIE_SingleContainer_1481P7 :: "(string \<Rightarrow> asn_codec) \<Rightarrow> env \<Rightarrow> asn_codec asn_TYPE_member list" where
  "asn_MBR_ProtocolIE_SingleContainer_1481P7 others env = class_fields (asn_DEF_ProtocolIE_ID env) (Some (value_only asn_PER_memb_id_constr)) (asn_DEF_Criticality env) (Some (value_only asn_PER_memb_criticality_constr)) select_ProtocolIE_SingleContainer_1481P7_criticality_type
    (asn_DEF_ProtocolIE_SingleContainer_1481P7__value others env) (Some unconstrained) select_ProtocolIE_SingleContainer_1481P7_value_type"

definition asn_DEF_ProtocolIE_SingleContainer_1481P7 :: "(string \<Rightarrow> asn_codec) \<Rightarrow> env \<Rightarrow> asn_codec" where
  "asn_DEF_ProtocolIE_SingleContainer_1481P7 others env = asn_OP_SEQUENCE env asn_SPC_ProtocolIE_SingleContainer_1481P7_specs (asn_MBR_ProtocolIE_SingleContainer_1481P7 others env)"

definition asn_PER_type_E2nodeComponentConfigUpdateAck_List_constr :: asn_per_constraint where
  "asn_PER_type_E2nodeComponentConfigUpdateAck_List_constr =
    \<lparr>flags = APC_CONSTRAINED, range_bits = 10, effective_bits = 10, lower_bound = 1, upper_bound = 1024\<rparr>"

definition asn_MBR_E2nodeComponentConfigUpdateAck_List :: "(string \<Rightarrow> asn_codec) \<Rightarrow> env \<Rightarrow> asn_codec asn_TYPE_member" where
  "asn_MBR_E2nodeComponentConfigUpdateAck_List others env = member_pointer 0 (asn_DEF_ProtocolIE_SingleContainer_1481P7 others env) None"

definition asn_DEF_E2nodeComponentConfigUpdateAck_List :: "(string \<Rightarrow> asn_codec) \<Rightarrow> env \<Rightarrow> asn_codec" where
  "asn_DEF_E2nodeComponentConfigUpdateAck_List others env = asn_OP_SEQUENCE_OF env (Some (size_only asn_PER_type_E2nodeComponentConfigUpdateAck_List_constr)) (asn_MBR_E2nodeComponentConfigUpdateAck_List others env)"

definition asn_MBR_E2setupResponseIEs__value :: "(string \<Rightarrow> asn_codec) \<Rightarrow> env \<Rightarrow> asn_codec asn_TYPE_member list" where
  "asn_MBR_E2setupResponseIEs__value others env =
    [member_noflags (others ''GlobalRIC_ID'') None,
     member_noflags (asn_DEF_RANfunctionsID_List env) None,
     member_noflags (asn_DEF_RANfunctionsIDcause_List env) None,
     member_noflags (asn_DEF_E2nodeComponentConfigUpdateAck_List others env) None]"

definition asn_DEF_E2setupResponseIEs__value :: "(string \<Rightarrow> asn_codec) \<Rightarrow> env \<Rightarrow> asn_codec" where
  "asn_DEF_E2setupResponseIEs__value others env = asn_OP_OPEN_TYPE env (asn_MBR_E2setupResponseIEs__value others env)"

definition asn_SPC_E2setupResponseIEs_specs :: asn_SEQUENCE_specifics where
  "asn_SPC_E2setupResponseIEs_specs = \<lparr>oms = [], roms_count = 0, aoms_count = 0, first_extension = - 1\<rparr>"

definition select_E2setupResponseIEs_value_type :: "asn_value option list \<Rightarrow> nat" where
  "select_E2setupResponseIEs_value_type = select_type (type_column 0 asn_IOS_E2setupResponseIEs)"

definition select_E2setupResponseIEs_criticality_type :: "asn_value option list \<Rightarrow> nat" where
  "select_E2setupResponseIEs_criticality_type = select_type (criticality_column asn_IOS_E2setupResponseIEs)"

definition asn_MBR_E2setupResponseIEs :: "(string \<Rightarrow> asn_codec) \<Rightarrow> env \<Rightarrow> asn_codec asn_TYPE_member list" where
  "asn_MBR_E2setupResponseIEs others env = class_fields (asn_DEF_ProtocolIE_ID env) (Some (value_only asn_PER_memb_id_constr)) (asn_DEF_Criticality env) (Some (value_only asn_PER_memb_criticality_constr)) select_E2setupResponseIEs_criticality_type
    (asn_DEF_E2setupResponseIEs__value others env) (Some unconstrained) select_E2setupResponseIEs_value_type"

definition asn_DEF_E2setupResponseIEs :: "(string \<Rightarrow> asn_codec) \<Rightarrow> env \<Rightarrow> asn_codec" where
  "asn_DEF_E2setupResponseIEs others env = asn_OP_SEQUENCE env asn_SPC_E2setupResponseIEs_specs (asn_MBR_E2setupResponseIEs others env)"

definition asn_PER_type_ProtocolIE_Container_1479P16_constr :: asn_per_constraint where
  "asn_PER_type_ProtocolIE_Container_1479P16_constr =
    \<lparr>flags = APC_CONSTRAINED, range_bits = 16, effective_bits = 16, lower_bound = 0, upper_bound = 65535\<rparr>"

definition asn_MBR_ProtocolIE_Container_1479P16 :: "(string \<Rightarrow> asn_codec) \<Rightarrow> env \<Rightarrow> asn_codec asn_TYPE_member" where
  "asn_MBR_ProtocolIE_Container_1479P16 others env = member_pointer 0 (asn_DEF_E2setupResponseIEs others env) None"

definition asn_DEF_ProtocolIE_Container_1479P16 :: "(string \<Rightarrow> asn_codec) \<Rightarrow> env \<Rightarrow> asn_codec" where
  "asn_DEF_ProtocolIE_Container_1479P16 others env = asn_OP_SEQUENCE_OF env (Some (size_only asn_PER_type_ProtocolIE_Container_1479P16_constr)) (asn_MBR_ProtocolIE_Container_1479P16 others env)"

definition asn_MBR_E2setupResponse :: "(string \<Rightarrow> asn_codec) \<Rightarrow> env \<Rightarrow> asn_codec asn_TYPE_member list" where
  "asn_MBR_E2setupResponse others env =
    [member_noflags (asn_DEF_ProtocolIE_Container_1479P16 others env) None]"

definition asn_SPC_E2setupResponse_specs :: asn_SEQUENCE_specifics where
  "asn_SPC_E2setupResponse_specs = \<lparr>oms = [], roms_count = 0, aoms_count = 0, first_extension = 1\<rparr>"

definition asn_DEF_E2setupResponse :: "(string \<Rightarrow> asn_codec) \<Rightarrow> env \<Rightarrow> asn_codec" where
  "asn_DEF_E2setupResponse others env = asn_OP_SEQUENCE env asn_SPC_E2setupResponse_specs (asn_MBR_E2setupResponse others env)"

definition asn_IOS_E2nodeConfigurationUpdateAcknowledge_IEs :: "asn_ioc_object list" where
  "asn_IOS_E2nodeConfigurationUpdateAcknowledge_IEs =
    [\<lparr>object_id = 35, object_criticality = 0, object_presence = Some 0, object_types = [True]\<rparr>]"

definition asn_MBR_E2nodeConfigurationUpdateAcknowledge_IEs__value :: "(string \<Rightarrow> asn_codec) \<Rightarrow> env \<Rightarrow> asn_codec asn_TYPE_member list" where
  "asn_MBR_E2nodeConfigurationUpdateAcknowledge_IEs__value others env =
    [member_noflags (asn_DEF_E2nodeComponentConfigUpdateAck_List others env) None]"

definition asn_DEF_E2nodeConfigurationUpdateAcknowledge_IEs__value :: "(string \<Rightarrow> asn_codec) \<Rightarrow> env \<Rightarrow> asn_codec" where
  "asn_DEF_E2nodeConfigurationUpdateAcknowledge_IEs__value others env = asn_OP_OPEN_TYPE env (asn_MBR_E2nodeConfigurationUpdateAcknowledge_IEs__value others env)"

definition asn_SPC_E2nodeConfigurationUpdateAcknowledge_IEs_specs :: asn_SEQUENCE_specifics where
  "asn_SPC_E2nodeConfigurationUpdateAcknowledge_IEs_specs = \<lparr>oms = [], roms_count = 0, aoms_count = 0, first_extension = - 1\<rparr>"

definition select_E2nodeConfigurationUpdateAcknowledge_IEs_value_type :: "asn_value option list \<Rightarrow> nat" where
  "select_E2nodeConfigurationUpdateAcknowledge_IEs_value_type = select_type (type_column 0 asn_IOS_E2nodeConfigurationUpdateAcknowledge_IEs)"

definition select_E2nodeConfigurationUpdateAcknowledge_IEs_criticality_type :: "asn_value option list \<Rightarrow> nat" where
  "select_E2nodeConfigurationUpdateAcknowledge_IEs_criticality_type = select_type (criticality_column asn_IOS_E2nodeConfigurationUpdateAcknowledge_IEs)"

definition asn_MBR_E2nodeConfigurationUpdateAcknowledge_IEs :: "(string \<Rightarrow> asn_codec) \<Rightarrow> env \<Rightarrow> asn_codec asn_TYPE_member list" where
  "asn_MBR_E2nodeConfigurationUpdateAcknowledge_IEs others env = class_fields (asn_DEF_ProtocolIE_ID env) (Some (value_only asn_PER_memb_id_constr)) (asn_DEF_Criticality env) (Some (value_only asn_PER_memb_criticality_constr)) select_E2nodeConfigurationUpdateAcknowledge_IEs_criticality_type
    (asn_DEF_E2nodeConfigurationUpdateAcknowledge_IEs__value others env) (Some unconstrained) select_E2nodeConfigurationUpdateAcknowledge_IEs_value_type"

definition asn_DEF_E2nodeConfigurationUpdateAcknowledge_IEs :: "(string \<Rightarrow> asn_codec) \<Rightarrow> env \<Rightarrow> asn_codec" where
  "asn_DEF_E2nodeConfigurationUpdateAcknowledge_IEs others env = asn_OP_SEQUENCE env asn_SPC_E2nodeConfigurationUpdateAcknowledge_IEs_specs (asn_MBR_E2nodeConfigurationUpdateAcknowledge_IEs others env)"

definition asn_PER_type_ProtocolIE_Container_1479P23_constr :: asn_per_constraint where
  "asn_PER_type_ProtocolIE_Container_1479P23_constr =
    \<lparr>flags = APC_CONSTRAINED, range_bits = 16, effective_bits = 16, lower_bound = 0, upper_bound = 65535\<rparr>"

definition asn_MBR_ProtocolIE_Container_1479P23 :: "(string \<Rightarrow> asn_codec) \<Rightarrow> env \<Rightarrow> asn_codec asn_TYPE_member" where
  "asn_MBR_ProtocolIE_Container_1479P23 others env = member_pointer 0 (asn_DEF_E2nodeConfigurationUpdateAcknowledge_IEs others env) None"

definition asn_DEF_ProtocolIE_Container_1479P23 :: "(string \<Rightarrow> asn_codec) \<Rightarrow> env \<Rightarrow> asn_codec" where
  "asn_DEF_ProtocolIE_Container_1479P23 others env = asn_OP_SEQUENCE_OF env (Some (size_only asn_PER_type_ProtocolIE_Container_1479P23_constr)) (asn_MBR_ProtocolIE_Container_1479P23 others env)"

definition asn_MBR_E2nodeConfigurationUpdateAcknowledge :: "(string \<Rightarrow> asn_codec) \<Rightarrow> env \<Rightarrow> asn_codec asn_TYPE_member list" where
  "asn_MBR_E2nodeConfigurationUpdateAcknowledge others env =
    [member_noflags (asn_DEF_ProtocolIE_Container_1479P23 others env) None]"

definition asn_SPC_E2nodeConfigurationUpdateAcknowledge_specs :: asn_SEQUENCE_specifics where
  "asn_SPC_E2nodeConfigurationUpdateAcknowledge_specs = \<lparr>oms = [], roms_count = 0, aoms_count = 0, first_extension = 1\<rparr>"

definition asn_DEF_E2nodeConfigurationUpdateAcknowledge :: "(string \<Rightarrow> asn_codec) \<Rightarrow> env \<Rightarrow> asn_codec" where
  "asn_DEF_E2nodeConfigurationUpdateAcknowledge others env = asn_OP_SEQUENCE env asn_SPC_E2nodeConfigurationUpdateAcknowledge_specs (asn_MBR_E2nodeConfigurationUpdateAcknowledge others env)"

definition asn_IOS_E2connectionUpdateAck_IEs :: "asn_ioc_object list" where
  "asn_IOS_E2connectionUpdateAck_IEs =
    [\<lparr>object_id = 39, object_criticality = 0, object_presence = Some 0, object_types = [True]\<rparr>,
     \<lparr>object_id = 40, object_criticality = 0, object_presence = Some 0, object_types = [True]\<rparr>]"

definition asn_IOS_E2connectionSetupFailed_ItemIEs :: "asn_ioc_object list" where
  "asn_IOS_E2connectionSetupFailed_ItemIEs =
    [\<lparr>object_id = 41, object_criticality = 1, object_presence = Some 2, object_types = [True]\<rparr>]"

definition asn_MBR_ProtocolIE_SingleContainer_1481P5__value :: "(string \<Rightarrow> asn_codec) \<Rightarrow> env \<Rightarrow> asn_codec asn_TYPE_member list" where
  "asn_MBR_ProtocolIE_SingleContainer_1481P5__value others env =
    [member_noflags (others ''E2connectionSetupFailed_Item'') None]"

definition asn_DEF_ProtocolIE_SingleContainer_1481P5__value :: "(string \<Rightarrow> asn_codec) \<Rightarrow> env \<Rightarrow> asn_codec" where
  "asn_DEF_ProtocolIE_SingleContainer_1481P5__value others env = asn_OP_OPEN_TYPE env (asn_MBR_ProtocolIE_SingleContainer_1481P5__value others env)"

definition asn_SPC_ProtocolIE_SingleContainer_1481P5_specs :: asn_SEQUENCE_specifics where
  "asn_SPC_ProtocolIE_SingleContainer_1481P5_specs = \<lparr>oms = [], roms_count = 0, aoms_count = 0, first_extension = - 1\<rparr>"

definition select_ProtocolIE_SingleContainer_1481P5_value_type :: "asn_value option list \<Rightarrow> nat" where
  "select_ProtocolIE_SingleContainer_1481P5_value_type = select_type (type_column 0 asn_IOS_E2connectionSetupFailed_ItemIEs)"

definition select_ProtocolIE_SingleContainer_1481P5_criticality_type :: "asn_value option list \<Rightarrow> nat" where
  "select_ProtocolIE_SingleContainer_1481P5_criticality_type = select_type (criticality_column asn_IOS_E2connectionSetupFailed_ItemIEs)"

definition asn_MBR_ProtocolIE_SingleContainer_1481P5 :: "(string \<Rightarrow> asn_codec) \<Rightarrow> env \<Rightarrow> asn_codec asn_TYPE_member list" where
  "asn_MBR_ProtocolIE_SingleContainer_1481P5 others env = class_fields (asn_DEF_ProtocolIE_ID env) (Some (value_only asn_PER_memb_id_constr)) (asn_DEF_Criticality env) (Some (value_only asn_PER_memb_criticality_constr)) select_ProtocolIE_SingleContainer_1481P5_criticality_type
    (asn_DEF_ProtocolIE_SingleContainer_1481P5__value others env) (Some unconstrained) select_ProtocolIE_SingleContainer_1481P5_value_type"

definition asn_DEF_ProtocolIE_SingleContainer_1481P5 :: "(string \<Rightarrow> asn_codec) \<Rightarrow> env \<Rightarrow> asn_codec" where
  "asn_DEF_ProtocolIE_SingleContainer_1481P5 others env = asn_OP_SEQUENCE env asn_SPC_ProtocolIE_SingleContainer_1481P5_specs (asn_MBR_ProtocolIE_SingleContainer_1481P5 others env)"

definition asn_PER_type_E2connectionSetupFailed_List_constr :: asn_per_constraint where
  "asn_PER_type_E2connectionSetupFailed_List_constr =
    \<lparr>flags = APC_CONSTRAINED, range_bits = 5, effective_bits = 5, lower_bound = 1, upper_bound = 32\<rparr>"

definition asn_MBR_E2connectionSetupFailed_List :: "(string \<Rightarrow> asn_codec) \<Rightarrow> env \<Rightarrow> asn_codec asn_TYPE_member" where
  "asn_MBR_E2connectionSetupFailed_List others env = member_pointer 0 (asn_DEF_ProtocolIE_SingleContainer_1481P5 others env) None"

definition asn_DEF_E2connectionSetupFailed_List :: "(string \<Rightarrow> asn_codec) \<Rightarrow> env \<Rightarrow> asn_codec" where
  "asn_DEF_E2connectionSetupFailed_List others env = asn_OP_SEQUENCE_OF env (Some (size_only asn_PER_type_E2connectionSetupFailed_List_constr)) (asn_MBR_E2connectionSetupFailed_List others env)"

definition asn_MBR_E2connectionUpdateAck_IEs__value :: "(string \<Rightarrow> asn_codec) \<Rightarrow> env \<Rightarrow> asn_codec asn_TYPE_member list" where
  "asn_MBR_E2connectionUpdateAck_IEs__value others env =
    [member_noflags (asn_DEF_E2connectionUpdate_List others env) None,
     member_noflags (asn_DEF_E2connectionSetupFailed_List others env) None]"

definition asn_DEF_E2connectionUpdateAck_IEs__value :: "(string \<Rightarrow> asn_codec) \<Rightarrow> env \<Rightarrow> asn_codec" where
  "asn_DEF_E2connectionUpdateAck_IEs__value others env = asn_OP_OPEN_TYPE env (asn_MBR_E2connectionUpdateAck_IEs__value others env)"

definition asn_SPC_E2connectionUpdateAck_IEs_specs :: asn_SEQUENCE_specifics where
  "asn_SPC_E2connectionUpdateAck_IEs_specs = \<lparr>oms = [], roms_count = 0, aoms_count = 0, first_extension = - 1\<rparr>"

definition select_E2connectionUpdateAck_IEs_value_type :: "asn_value option list \<Rightarrow> nat" where
  "select_E2connectionUpdateAck_IEs_value_type = select_type (type_column 0 asn_IOS_E2connectionUpdateAck_IEs)"

definition select_E2connectionUpdateAck_IEs_criticality_type :: "asn_value option list \<Rightarrow> nat" where
  "select_E2connectionUpdateAck_IEs_criticality_type = select_type (criticality_column asn_IOS_E2connectionUpdateAck_IEs)"

definition asn_MBR_E2connectionUpdateAck_IEs :: "(string \<Rightarrow> asn_codec) \<Rightarrow> env \<Rightarrow> asn_codec asn_TYPE_member list" where
  "asn_MBR_E2connectionUpdateAck_IEs others env = class_fields (asn_DEF_ProtocolIE_ID env) (Some (value_only asn_PER_memb_id_constr)) (asn_DEF_Criticality env) (Some (value_only asn_PER_memb_criticality_constr)) select_E2connectionUpdateAck_IEs_criticality_type
    (asn_DEF_E2connectionUpdateAck_IEs__value others env) (Some unconstrained) select_E2connectionUpdateAck_IEs_value_type"

definition asn_DEF_E2connectionUpdateAck_IEs :: "(string \<Rightarrow> asn_codec) \<Rightarrow> env \<Rightarrow> asn_codec" where
  "asn_DEF_E2connectionUpdateAck_IEs others env = asn_OP_SEQUENCE env asn_SPC_E2connectionUpdateAck_IEs_specs (asn_MBR_E2connectionUpdateAck_IEs others env)"

definition asn_PER_type_ProtocolIE_Container_1479P20_constr :: asn_per_constraint where
  "asn_PER_type_ProtocolIE_Container_1479P20_constr =
    \<lparr>flags = APC_CONSTRAINED, range_bits = 16, effective_bits = 16, lower_bound = 0, upper_bound = 65535\<rparr>"

definition asn_MBR_ProtocolIE_Container_1479P20 :: "(string \<Rightarrow> asn_codec) \<Rightarrow> env \<Rightarrow> asn_codec asn_TYPE_member" where
  "asn_MBR_ProtocolIE_Container_1479P20 others env = member_pointer 0 (asn_DEF_E2connectionUpdateAck_IEs others env) None"

definition asn_DEF_ProtocolIE_Container_1479P20 :: "(string \<Rightarrow> asn_codec) \<Rightarrow> env \<Rightarrow> asn_codec" where
  "asn_DEF_ProtocolIE_Container_1479P20 others env = asn_OP_SEQUENCE_OF env (Some (size_only asn_PER_type_ProtocolIE_Container_1479P20_constr)) (asn_MBR_ProtocolIE_Container_1479P20 others env)"

definition asn_MBR_E2connectionUpdateAcknowledge :: "(string \<Rightarrow> asn_codec) \<Rightarrow> env \<Rightarrow> asn_codec asn_TYPE_member list" where
  "asn_MBR_E2connectionUpdateAcknowledge others env =
    [member_noflags (asn_DEF_ProtocolIE_Container_1479P20 others env) None]"

definition asn_SPC_E2connectionUpdateAcknowledge_specs :: asn_SEQUENCE_specifics where
  "asn_SPC_E2connectionUpdateAcknowledge_specs = \<lparr>oms = [], roms_count = 0, aoms_count = 0, first_extension = 1\<rparr>"

definition asn_DEF_E2connectionUpdateAcknowledge :: "(string \<Rightarrow> asn_codec) \<Rightarrow> env \<Rightarrow> asn_codec" where
  "asn_DEF_E2connectionUpdateAcknowledge others env = asn_OP_SEQUENCE env asn_SPC_E2connectionUpdateAcknowledge_specs (asn_MBR_E2connectionUpdateAcknowledge others env)"

definition asn_IOS_ResetResponseIEs :: "asn_ioc_object list" where
  "asn_IOS_ResetResponseIEs =
    [\<lparr>object_id = 2, object_criticality = 1, object_presence = Some 0, object_types = [True]\<rparr>]"

definition asn_MBR_ResetResponseIEs__value :: "env \<Rightarrow> asn_codec asn_TYPE_member list" where
  "asn_MBR_ResetResponseIEs__value env =
    [member_noflags (asn_DEF_CriticalityDiagnostics env) None]"

definition asn_DEF_ResetResponseIEs__value :: "env \<Rightarrow> asn_codec" where
  "asn_DEF_ResetResponseIEs__value env = asn_OP_OPEN_TYPE env (asn_MBR_ResetResponseIEs__value env)"

definition asn_SPC_ResetResponseIEs_specs :: asn_SEQUENCE_specifics where
  "asn_SPC_ResetResponseIEs_specs = \<lparr>oms = [], roms_count = 0, aoms_count = 0, first_extension = - 1\<rparr>"

definition select_ResetResponseIEs_value_type :: "asn_value option list \<Rightarrow> nat" where
  "select_ResetResponseIEs_value_type = select_type (type_column 0 asn_IOS_ResetResponseIEs)"

definition select_ResetResponseIEs_criticality_type :: "asn_value option list \<Rightarrow> nat" where
  "select_ResetResponseIEs_criticality_type = select_type (criticality_column asn_IOS_ResetResponseIEs)"

definition asn_MBR_ResetResponseIEs :: "env \<Rightarrow> asn_codec asn_TYPE_member list" where
  "asn_MBR_ResetResponseIEs env = class_fields (asn_DEF_ProtocolIE_ID env) (Some (value_only asn_PER_memb_id_constr)) (asn_DEF_Criticality env) (Some (value_only asn_PER_memb_criticality_constr)) select_ResetResponseIEs_criticality_type
    (asn_DEF_ResetResponseIEs__value env) (Some unconstrained) select_ResetResponseIEs_value_type"

definition asn_DEF_ResetResponseIEs :: "env \<Rightarrow> asn_codec" where
  "asn_DEF_ResetResponseIEs env = asn_OP_SEQUENCE env asn_SPC_ResetResponseIEs_specs (asn_MBR_ResetResponseIEs env)"

definition asn_PER_type_ProtocolIE_Container_1479P26_constr :: asn_per_constraint where
  "asn_PER_type_ProtocolIE_Container_1479P26_constr =
    \<lparr>flags = APC_CONSTRAINED, range_bits = 16, effective_bits = 16, lower_bound = 0, upper_bound = 65535\<rparr>"

definition asn_MBR_ProtocolIE_Container_1479P26 :: "env \<Rightarrow> asn_codec asn_TYPE_member" where
  "asn_MBR_ProtocolIE_Container_1479P26 env = member_pointer 0 (asn_DEF_ResetResponseIEs env) None"

definition asn_DEF_ProtocolIE_Container_1479P26 :: "env \<Rightarrow> asn_codec" where
  "asn_DEF_ProtocolIE_Container_1479P26 env = asn_OP_SEQUENCE_OF env (Some (size_only asn_PER_type_ProtocolIE_Container_1479P26_constr)) (asn_MBR_ProtocolIE_Container_1479P26 env)"

definition asn_MBR_ResetResponse :: "env \<Rightarrow> asn_codec asn_TYPE_member list" where
  "asn_MBR_ResetResponse env =
    [member_noflags (asn_DEF_ProtocolIE_Container_1479P26 env) None]"

definition asn_SPC_ResetResponse_specs :: asn_SEQUENCE_specifics where
  "asn_SPC_ResetResponse_specs = \<lparr>oms = [], roms_count = 0, aoms_count = 0, first_extension = 1\<rparr>"

definition asn_DEF_ResetResponse :: "env \<Rightarrow> asn_codec" where
  "asn_DEF_ResetResponse env = asn_OP_SEQUENCE env asn_SPC_ResetResponse_specs (asn_MBR_ResetResponse env)"

definition asn_IOS_E42setupResponseIEs :: "asn_ioc_object list" where
  "asn_IOS_E42setupResponseIEs =
    [\<lparr>object_id = 49, object_criticality = 0, object_presence = Some 2, object_types = [True]\<rparr>,
     \<lparr>object_id = 50, object_criticality = 0, object_presence = Some 2, object_types = [True]\<rparr>]"

definition asn_IOS_E2nodeConnected_ItemIEs :: "asn_ioc_object list" where
  "asn_IOS_E2nodeConnected_ItemIEs =
    [\<lparr>object_id = 3, object_criticality = 0, object_presence = Some 2, object_types = [True]\<rparr>,
     \<lparr>object_id = 10, object_criticality = 0, object_presence = Some 2, object_types = [True]\<rparr>]"

definition asn_MBR_E2nodeConnected_ItemIEs__value :: "(string \<Rightarrow> asn_codec) \<Rightarrow> env \<Rightarrow> asn_codec asn_TYPE_member list" where
  "asn_MBR_E2nodeConnected_ItemIEs__value others env =
    [member_noflags (others ''GlobalE2node_ID'') None,
     member_noflags (asn_DEF_RANfunctions_List others env) None]"

definition asn_DEF_E2nodeConnected_ItemIEs__value :: "(string \<Rightarrow> asn_codec) \<Rightarrow> env \<Rightarrow> asn_codec" where
  "asn_DEF_E2nodeConnected_ItemIEs__value others env = asn_OP_OPEN_TYPE env (asn_MBR_E2nodeConnected_ItemIEs__value others env)"

definition asn_SPC_E2nodeConnected_ItemIEs_specs :: asn_SEQUENCE_specifics where
  "asn_SPC_E2nodeConnected_ItemIEs_specs = \<lparr>oms = [], roms_count = 0, aoms_count = 0, first_extension = - 1\<rparr>"

definition select_E2nodeConnected_ItemIEs_value_type :: "asn_value option list \<Rightarrow> nat" where
  "select_E2nodeConnected_ItemIEs_value_type = select_type (type_column 0 asn_IOS_E2nodeConnected_ItemIEs)"

definition select_E2nodeConnected_ItemIEs_criticality_type :: "asn_value option list \<Rightarrow> nat" where
  "select_E2nodeConnected_ItemIEs_criticality_type = select_type (criticality_column asn_IOS_E2nodeConnected_ItemIEs)"

definition asn_MBR_E2nodeConnected_ItemIEs :: "(string \<Rightarrow> asn_codec) \<Rightarrow> env \<Rightarrow> asn_codec asn_TYPE_member list" where
  "asn_MBR_E2nodeConnected_ItemIEs others env = class_fields (asn_DEF_ProtocolIE_ID env) (Some (value_only asn_PER_memb_id_constr)) (asn_DEF_Criticality env) (Some (value_only asn_PER_memb_criticality_constr)) select_E2nodeConnected_ItemIEs_criticality_type
    (asn_DEF_E2nodeConnected_ItemIEs__value others env) (Some unconstrained) select_E2nodeConnected_ItemIEs_value_type"

definition asn_DEF_E2nodeConnected_ItemIEs :: "(string \<Rightarrow> asn_codec) \<Rightarrow> env \<Rightarrow> asn_codec" where
  "asn_DEF_E2nodeConnected_ItemIEs others env = asn_OP_SEQUENCE env asn_SPC_E2nodeConnected_ItemIEs_specs (asn_MBR_E2nodeConnected_ItemIEs others env)"

definition asn_PER_type_ProtocolIE_Container_1479P28_constr :: asn_per_constraint where
  "asn_PER_type_ProtocolIE_Container_1479P28_constr =
    \<lparr>flags = APC_CONSTRAINED, range_bits = 16, effective_bits = 16, lower_bound = 0, upper_bound = 65535\<rparr>"

definition asn_MBR_ProtocolIE_Container_1479P28 :: "(string \<Rightarrow> asn_codec) \<Rightarrow> env \<Rightarrow> asn_codec asn_TYPE_member" where
  "asn_MBR_ProtocolIE_Container_1479P28 others env = member_pointer 0 (asn_DEF_E2nodeConnected_ItemIEs others env) None"

definition asn_DEF_ProtocolIE_Container_1479P28 :: "(string \<Rightarrow> asn_codec) \<Rightarrow> env \<Rightarrow> asn_codec" where
  "asn_DEF_ProtocolIE_Container_1479P28 others env = asn_OP_SEQUENCE_OF env (Some (size_only asn_PER_type_ProtocolIE_Container_1479P28_constr)) (asn_MBR_ProtocolIE_Container_1479P28 others env)"

definition asn_MBR_E2nodeConnected_List :: "(string \<Rightarrow> asn_codec) \<Rightarrow> env \<Rightarrow> asn_codec asn_TYPE_member list" where
  "asn_MBR_E2nodeConnected_List others env =
    [member_noflags (asn_DEF_ProtocolIE_Container_1479P28 others env) None]"

definition asn_SPC_E2nodeConnected_List_specs :: asn_SEQUENCE_specifics where
  "asn_SPC_E2nodeConnected_List_specs = \<lparr>oms = [], roms_count = 0, aoms_count = 0, first_extension = - 1\<rparr>"

definition asn_DEF_E2nodeConnected_List :: "(string \<Rightarrow> asn_codec) \<Rightarrow> env \<Rightarrow> asn_codec" where
  "asn_DEF_E2nodeConnected_List others env = asn_OP_SEQUENCE env asn_SPC_E2nodeConnected_List_specs (asn_MBR_E2nodeConnected_List others env)"

definition asn_MBR_E42setupResponseIEs__value :: "(string \<Rightarrow> asn_codec) \<Rightarrow> env \<Rightarrow> asn_codec asn_TYPE_member list" where
  "asn_MBR_E42setupResponseIEs__value others env =
    [member_noflags (asn_DEF_XAPP_ID env) None,
     member_noflags (asn_DEF_E2nodeConnected_List others env) None]"

definition asn_DEF_E42setupResponseIEs__value :: "(string \<Rightarrow> asn_codec) \<Rightarrow> env \<Rightarrow> asn_codec" where
  "asn_DEF_E42setupResponseIEs__value others env = asn_OP_OPEN_TYPE env (asn_MBR_E42setupResponseIEs__value others env)"

definition asn_SPC_E42setupResponseIEs_specs :: asn_SEQUENCE_specifics where
  "asn_SPC_E42setupResponseIEs_specs = \<lparr>oms = [], roms_count = 0, aoms_count = 0, first_extension = - 1\<rparr>"

definition select_E42setupResponseIEs_value_type :: "asn_value option list \<Rightarrow> nat" where
  "select_E42setupResponseIEs_value_type = select_type (type_column 0 asn_IOS_E42setupResponseIEs)"

definition select_E42setupResponseIEs_criticality_type :: "asn_value option list \<Rightarrow> nat" where
  "select_E42setupResponseIEs_criticality_type = select_type (criticality_column asn_IOS_E42setupResponseIEs)"

definition asn_MBR_E42setupResponseIEs :: "(string \<Rightarrow> asn_codec) \<Rightarrow> env \<Rightarrow> asn_codec asn_TYPE_member list" where
  "asn_MBR_E42setupResponseIEs others env = class_fields (asn_DEF_ProtocolIE_ID env) (Some (value_only asn_PER_memb_id_constr)) (asn_DEF_Criticality env) (Some (value_only asn_PER_memb_criticality_constr)) select_E42setupResponseIEs_criticality_type
    (asn_DEF_E42setupResponseIEs__value others env) (Some unconstrained) select_E42setupResponseIEs_value_type"

definition asn_DEF_E42setupResponseIEs :: "(string \<Rightarrow> asn_codec) \<Rightarrow> env \<Rightarrow> asn_codec" where
  "asn_DEF_E42setupResponseIEs others env = asn_OP_SEQUENCE env asn_SPC_E42setupResponseIEs_specs (asn_MBR_E42setupResponseIEs others env)"

definition asn_PER_type_ProtocolIE_Container_1479P17_constr :: asn_per_constraint where
  "asn_PER_type_ProtocolIE_Container_1479P17_constr =
    \<lparr>flags = APC_CONSTRAINED, range_bits = 16, effective_bits = 16, lower_bound = 0, upper_bound = 65535\<rparr>"

definition asn_MBR_ProtocolIE_Container_1479P17 :: "(string \<Rightarrow> asn_codec) \<Rightarrow> env \<Rightarrow> asn_codec asn_TYPE_member" where
  "asn_MBR_ProtocolIE_Container_1479P17 others env = member_pointer 0 (asn_DEF_E42setupResponseIEs others env) None"

definition asn_DEF_ProtocolIE_Container_1479P17 :: "(string \<Rightarrow> asn_codec) \<Rightarrow> env \<Rightarrow> asn_codec" where
  "asn_DEF_ProtocolIE_Container_1479P17 others env = asn_OP_SEQUENCE_OF env (Some (size_only asn_PER_type_ProtocolIE_Container_1479P17_constr)) (asn_MBR_ProtocolIE_Container_1479P17 others env)"

definition asn_MBR_E42setupResponse :: "(string \<Rightarrow> asn_codec) \<Rightarrow> env \<Rightarrow> asn_codec asn_TYPE_member list" where
  "asn_MBR_E42setupResponse others env =
    [member_noflags (asn_DEF_ProtocolIE_Container_1479P17 others env) None]"

definition asn_SPC_E42setupResponse_specs :: asn_SEQUENCE_specifics where
  "asn_SPC_E42setupResponse_specs = \<lparr>oms = [], roms_count = 0, aoms_count = 0, first_extension = 1\<rparr>"

definition asn_DEF_E42setupResponse :: "(string \<Rightarrow> asn_codec) \<Rightarrow> env \<Rightarrow> asn_codec" where
  "asn_DEF_E42setupResponse others env = asn_OP_SEQUENCE env asn_SPC_E42setupResponse_specs (asn_MBR_E42setupResponse others env)"

definition asn_MBR_SuccessfulOutcome__value :: "(string \<Rightarrow> asn_codec) \<Rightarrow> env \<Rightarrow> asn_codec asn_TYPE_member list" where
  "asn_MBR_SuccessfulOutcome__value others env =
    [member_noflags (asn_DEF_RICsubscriptionResponse env) None,
     member_noflags (asn_DEF_RICsubscriptionDeleteResponse env) None,
     member_noflags (asn_DEF_RICserviceUpdateAcknowledge env) None,
     member_noflags (asn_DEF_RICcontrolAcknowledge others env) None,
     member_noflags (asn_DEF_E2setupResponse others env) None,
     member_noflags (asn_DEF_E2nodeConfigurationUpdateAcknowledge others env) None,
     member_noflags (asn_DEF_E2connectionUpdateAcknowledge others env) None,
     member_noflags (asn_DEF_ResetResponse env) None,
     member_noflags (asn_DEF_E42setupResponse others env) None,
     member_noflags (asn_DEF_RICsubscriptionResponse env) None,
     member_noflags (asn_DEF_RICsubscriptionDeleteResponse env) None,
     member_noflags (asn_DEF_RICcontrolAcknowledge others env) None]"

definition asn_DEF_SuccessfulOutcome__value :: "(string \<Rightarrow> asn_codec) \<Rightarrow> env \<Rightarrow> asn_codec" where
  "asn_DEF_SuccessfulOutcome__value others env = asn_OP_OPEN_TYPE env (asn_MBR_SuccessfulOutcome__value others env)"

definition asn_SPC_SuccessfulOutcome_specs :: asn_SEQUENCE_specifics where
  "asn_SPC_SuccessfulOutcome_specs = \<lparr>oms = [], roms_count = 0, aoms_count = 0, first_extension = - 1\<rparr>"

definition select_SuccessfulOutcome_value_type :: "asn_value option list \<Rightarrow> nat" where
  "select_SuccessfulOutcome_value_type = select_type (type_column 1 asn_IOS_E2AP_ELEMENTARY_PROCEDURES)"

definition select_SuccessfulOutcome_criticality_type :: "asn_value option list \<Rightarrow> nat" where
  "select_SuccessfulOutcome_criticality_type = select_type (criticality_column asn_IOS_E2AP_ELEMENTARY_PROCEDURES)"

definition asn_MBR_SuccessfulOutcome :: "(string \<Rightarrow> asn_codec) \<Rightarrow> env \<Rightarrow> asn_codec asn_TYPE_member list" where
  "asn_MBR_SuccessfulOutcome others env = class_fields (asn_DEF_ProcedureCode env) (Some (value_only asn_PER_memb_procedureCode_constr)) (asn_DEF_Criticality env) (Some (value_only asn_PER_memb_criticality_constr)) select_SuccessfulOutcome_criticality_type
    (asn_DEF_SuccessfulOutcome__value others env) (Some unconstrained) select_SuccessfulOutcome_value_type"

definition asn_DEF_SuccessfulOutcome :: "(string \<Rightarrow> asn_codec) \<Rightarrow> env \<Rightarrow> asn_codec" where
  "asn_DEF_SuccessfulOutcome others env = asn_OP_SEQUENCE env asn_SPC_SuccessfulOutcome_specs (asn_MBR_SuccessfulOutcome others env)"

definition asn_IOS_RICsubscriptionFailure_IEs :: "asn_ioc_object list" where
  "asn_IOS_RICsubscriptionFailure_IEs =
    [\<lparr>object_id = 29, object_criticality = 0, object_presence = Some 2, object_types = [True]\<rparr>,
     \<lparr>object_id = 5, object_criticality = 0, object_presence = Some 2, object_types = [True]\<rparr>,
     \<lparr>object_id = 18, object_criticality = 0, object_presence = Some 2, object_types = [True]\<rparr>,
     \<lparr>object_id = 2, object_criticality = 1, object_presence = Some 0, object_types = [True]\<rparr>]"

definition asn_MBR_RICsubscriptionFailure_IEs__value :: "env \<Rightarrow> asn_codec asn_TYPE_member list" where
  "asn_MBR_RICsubscriptionFailure_IEs__value env =
    [member_noflags (asn_DEF_RICrequestID env) None,
     member_noflags (asn_DEF_RANfunctionID env) None,
     member_noflags (asn_DEF_RICaction_NotAdmitted_List env) None,
     member_noflags (asn_DEF_CriticalityDiagnostics env) None]"

definition asn_DEF_RICsubscriptionFailure_IEs__value :: "env \<Rightarrow> asn_codec" where
  "asn_DEF_RICsubscriptionFailure_IEs__value env = asn_OP_OPEN_TYPE env (asn_MBR_RICsubscriptionFailure_IEs__value env)"

definition asn_SPC_RICsubscriptionFailure_IEs_specs :: asn_SEQUENCE_specifics where
  "asn_SPC_RICsubscriptionFailure_IEs_specs = \<lparr>oms = [], roms_count = 0, aoms_count = 0, first_extension = - 1\<rparr>"

definition select_RICsubscriptionFailure_IEs_value_type :: "asn_value option list \<Rightarrow> nat" where
  "select_RICsubscriptionFailure_IEs_value_type = select_type (type_column 0 asn_IOS_RICsubscriptionFailure_IEs)"

definition select_RICsubscriptionFailure_IEs_criticality_type :: "asn_value option list \<Rightarrow> nat" where
  "select_RICsubscriptionFailure_IEs_criticality_type = select_type (criticality_column asn_IOS_RICsubscriptionFailure_IEs)"

definition asn_MBR_RICsubscriptionFailure_IEs :: "env \<Rightarrow> asn_codec asn_TYPE_member list" where
  "asn_MBR_RICsubscriptionFailure_IEs env = class_fields (asn_DEF_ProtocolIE_ID env) (Some (value_only asn_PER_memb_id_constr)) (asn_DEF_Criticality env) (Some (value_only asn_PER_memb_criticality_constr)) select_RICsubscriptionFailure_IEs_criticality_type
    (asn_DEF_RICsubscriptionFailure_IEs__value env) (Some unconstrained) select_RICsubscriptionFailure_IEs_value_type"

definition asn_DEF_RICsubscriptionFailure_IEs :: "env \<Rightarrow> asn_codec" where
  "asn_DEF_RICsubscriptionFailure_IEs env = asn_OP_SEQUENCE env asn_SPC_RICsubscriptionFailure_IEs_specs (asn_MBR_RICsubscriptionFailure_IEs env)"

definition asn_PER_type_ProtocolIE_Container_1479P2_constr :: asn_per_constraint where
  "asn_PER_type_ProtocolIE_Container_1479P2_constr =
    \<lparr>flags = APC_CONSTRAINED, range_bits = 16, effective_bits = 16, lower_bound = 0, upper_bound = 65535\<rparr>"

definition asn_MBR_ProtocolIE_Container_1479P2 :: "env \<Rightarrow> asn_codec asn_TYPE_member" where
  "asn_MBR_ProtocolIE_Container_1479P2 env = member_pointer 0 (asn_DEF_RICsubscriptionFailure_IEs env) None"

definition asn_DEF_ProtocolIE_Container_1479P2 :: "env \<Rightarrow> asn_codec" where
  "asn_DEF_ProtocolIE_Container_1479P2 env = asn_OP_SEQUENCE_OF env (Some (size_only asn_PER_type_ProtocolIE_Container_1479P2_constr)) (asn_MBR_ProtocolIE_Container_1479P2 env)"

definition asn_MBR_RICsubscriptionFailure :: "env \<Rightarrow> asn_codec asn_TYPE_member list" where
  "asn_MBR_RICsubscriptionFailure env =
    [member_noflags (asn_DEF_ProtocolIE_Container_1479P2 env) None]"

definition asn_SPC_RICsubscriptionFailure_specs :: asn_SEQUENCE_specifics where
  "asn_SPC_RICsubscriptionFailure_specs = \<lparr>oms = [], roms_count = 0, aoms_count = 0, first_extension = 1\<rparr>"

definition asn_DEF_RICsubscriptionFailure :: "env \<Rightarrow> asn_codec" where
  "asn_DEF_RICsubscriptionFailure env = asn_OP_SEQUENCE env asn_SPC_RICsubscriptionFailure_specs (asn_MBR_RICsubscriptionFailure env)"

definition asn_IOS_RICsubscriptionDeleteFailure_IEs :: "asn_ioc_object list" where
  "asn_IOS_RICsubscriptionDeleteFailure_IEs =
    [\<lparr>object_id = 29, object_criticality = 0, object_presence = Some 2, object_types = [True]\<rparr>,
     \<lparr>object_id = 5, object_criticality = 0, object_presence = Some 2, object_types = [True]\<rparr>,
     \<lparr>object_id = 1, object_criticality = 1, object_presence = Some 2, object_types = [True]\<rparr>,
     \<lparr>object_id = 2, object_criticality = 1, object_presence = Some 0, object_types = [True]\<rparr>]"

definition asn_MBR_RICsubscriptionDeleteFailure_IEs__value :: "env \<Rightarrow> asn_codec asn_TYPE_member list" where
  "asn_MBR_RICsubscriptionDeleteFailure_IEs__value env =
    [member_noflags (asn_DEF_RICrequestID env) None,
     member_noflags (asn_DEF_RANfunctionID env) None,
     member_noflags (asn_DEF_Cause env) None,
     member_noflags (asn_DEF_CriticalityDiagnostics env) None]"

definition asn_DEF_RICsubscriptionDeleteFailure_IEs__value :: "env \<Rightarrow> asn_codec" where
  "asn_DEF_RICsubscriptionDeleteFailure_IEs__value env = asn_OP_OPEN_TYPE env (asn_MBR_RICsubscriptionDeleteFailure_IEs__value env)"

definition asn_SPC_RICsubscriptionDeleteFailure_IEs_specs :: asn_SEQUENCE_specifics where
  "asn_SPC_RICsubscriptionDeleteFailure_IEs_specs = \<lparr>oms = [], roms_count = 0, aoms_count = 0, first_extension = - 1\<rparr>"

definition select_RICsubscriptionDeleteFailure_IEs_value_type :: "asn_value option list \<Rightarrow> nat" where
  "select_RICsubscriptionDeleteFailure_IEs_value_type = select_type (type_column 0 asn_IOS_RICsubscriptionDeleteFailure_IEs)"

definition select_RICsubscriptionDeleteFailure_IEs_criticality_type :: "asn_value option list \<Rightarrow> nat" where
  "select_RICsubscriptionDeleteFailure_IEs_criticality_type = select_type (criticality_column asn_IOS_RICsubscriptionDeleteFailure_IEs)"

definition asn_MBR_RICsubscriptionDeleteFailure_IEs :: "env \<Rightarrow> asn_codec asn_TYPE_member list" where
  "asn_MBR_RICsubscriptionDeleteFailure_IEs env = class_fields (asn_DEF_ProtocolIE_ID env) (Some (value_only asn_PER_memb_id_constr)) (asn_DEF_Criticality env) (Some (value_only asn_PER_memb_criticality_constr)) select_RICsubscriptionDeleteFailure_IEs_criticality_type
    (asn_DEF_RICsubscriptionDeleteFailure_IEs__value env) (Some unconstrained) select_RICsubscriptionDeleteFailure_IEs_value_type"

definition asn_DEF_RICsubscriptionDeleteFailure_IEs :: "env \<Rightarrow> asn_codec" where
  "asn_DEF_RICsubscriptionDeleteFailure_IEs env = asn_OP_SEQUENCE env asn_SPC_RICsubscriptionDeleteFailure_IEs_specs (asn_MBR_RICsubscriptionDeleteFailure_IEs env)"

definition asn_PER_type_ProtocolIE_Container_1479P7_constr :: asn_per_constraint where
  "asn_PER_type_ProtocolIE_Container_1479P7_constr =
    \<lparr>flags = APC_CONSTRAINED, range_bits = 16, effective_bits = 16, lower_bound = 0, upper_bound = 65535\<rparr>"

definition asn_MBR_ProtocolIE_Container_1479P7 :: "env \<Rightarrow> asn_codec asn_TYPE_member" where
  "asn_MBR_ProtocolIE_Container_1479P7 env = member_pointer 0 (asn_DEF_RICsubscriptionDeleteFailure_IEs env) None"

definition asn_DEF_ProtocolIE_Container_1479P7 :: "env \<Rightarrow> asn_codec" where
  "asn_DEF_ProtocolIE_Container_1479P7 env = asn_OP_SEQUENCE_OF env (Some (size_only asn_PER_type_ProtocolIE_Container_1479P7_constr)) (asn_MBR_ProtocolIE_Container_1479P7 env)"

definition asn_MBR_RICsubscriptionDeleteFailure :: "env \<Rightarrow> asn_codec asn_TYPE_member list" where
  "asn_MBR_RICsubscriptionDeleteFailure env =
    [member_noflags (asn_DEF_ProtocolIE_Container_1479P7 env) None]"

definition asn_SPC_RICsubscriptionDeleteFailure_specs :: asn_SEQUENCE_specifics where
  "asn_SPC_RICsubscriptionDeleteFailure_specs = \<lparr>oms = [], roms_count = 0, aoms_count = 0, first_extension = 1\<rparr>"

definition asn_DEF_RICsubscriptionDeleteFailure :: "env \<Rightarrow> asn_codec" where
  "asn_DEF_RICsubscriptionDeleteFailure env = asn_OP_SEQUENCE env asn_SPC_RICsubscriptionDeleteFailure_specs (asn_MBR_RICsubscriptionDeleteFailure env)"

definition asn_IOS_RICserviceUpdateFailure_IEs :: "asn_ioc_object list" where
  "asn_IOS_RICserviceUpdateFailure_IEs =
    [\<lparr>object_id = 13, object_criticality = 1, object_presence = Some 0, object_types = [True]\<rparr>,
     \<lparr>object_id = 31, object_criticality = 1, object_presence = Some 0, object_types = [True]\<rparr>,
     \<lparr>object_id = 2, object_criticality = 1, object_presence = Some 0, object_types = [True]\<rparr>]"

definition asn_DEF_TimeToWait :: "env \<Rightarrow> asn_codec" where
  "asn_DEF_TimeToWait env = asn_OP_NativeEnumerated env asn_SPC_TimeToWait_specs (Some (value_only asn_PER_type_TimeToWait_constr))"

definition asn_MBR_RICserviceUpdateFailure_IEs__value :: "env \<Rightarrow> asn_codec asn_TYPE_member list" where
  "asn_MBR_RICserviceUpdateFailure_IEs__value env =
    [member_noflags (asn_DEF_RANfunctionsIDcause_List env) None,
     member_noflags (asn_DEF_TimeToWait env) None,
     member_noflags (asn_DEF_CriticalityDiagnostics env) None]"

definition asn_DEF_RICserviceUpdateFailure_IEs__value :: "env \<Rightarrow> asn_codec" where
  "asn_DEF_RICserviceUpdateFailure_IEs__value env = asn_OP_OPEN_TYPE env (asn_MBR_RICserviceUpdateFailure_IEs__value env)"

definition asn_SPC_RICserviceUpdateFailure_IEs_specs :: asn_SEQUENCE_specifics where
  "asn_SPC_RICserviceUpdateFailure_IEs_specs = \<lparr>oms = [], roms_count = 0, aoms_count = 0, first_extension = - 1\<rparr>"

definition select_RICserviceUpdateFailure_IEs_value_type :: "asn_value option list \<Rightarrow> nat" where
  "select_RICserviceUpdateFailure_IEs_value_type = select_type (type_column 0 asn_IOS_RICserviceUpdateFailure_IEs)"

definition select_RICserviceUpdateFailure_IEs_criticality_type :: "asn_value option list \<Rightarrow> nat" where
  "select_RICserviceUpdateFailure_IEs_criticality_type = select_type (criticality_column asn_IOS_RICserviceUpdateFailure_IEs)"

definition asn_MBR_RICserviceUpdateFailure_IEs :: "env \<Rightarrow> asn_codec asn_TYPE_member list" where
  "asn_MBR_RICserviceUpdateFailure_IEs env = class_fields (asn_DEF_ProtocolIE_ID env) (Some (value_only asn_PER_memb_id_constr)) (asn_DEF_Criticality env) (Some (value_only asn_PER_memb_criticality_constr)) select_RICserviceUpdateFailure_IEs_criticality_type
    (asn_DEF_RICserviceUpdateFailure_IEs__value env) (Some unconstrained) select_RICserviceUpdateFailure_IEs_value_type"

definition asn_DEF_RICserviceUpdateFailure_IEs :: "env \<Rightarrow> asn_codec" where
  "asn_DEF_RICserviceUpdateFailure_IEs env = asn_OP_SEQUENCE env asn_SPC_RICserviceUpdateFailure_IEs_specs (asn_MBR_RICserviceUpdateFailure_IEs env)"

definition asn_PER_type_ProtocolIE_Container_1479P30_constr :: asn_per_constraint where
  "asn_PER_type_ProtocolIE_Container_1479P30_constr =
    \<lparr>flags = APC_CONSTRAINED, range_bits = 16, effective_bits = 16, lower_bound = 0, upper_bound = 65535\<rparr>"

definition asn_MBR_ProtocolIE_Container_1479P30 :: "env \<Rightarrow> asn_codec asn_TYPE_member" where
  "asn_MBR_ProtocolIE_Container_1479P30 env = member_pointer 0 (asn_DEF_RICserviceUpdateFailure_IEs env) None"

definition asn_DEF_ProtocolIE_Container_1479P30 :: "env \<Rightarrow> asn_codec" where
  "asn_DEF_ProtocolIE_Container_1479P30 env = asn_OP_SEQUENCE_OF env (Some (size_only asn_PER_type_ProtocolIE_Container_1479P30_constr)) (asn_MBR_ProtocolIE_Container_1479P30 env)"

definition asn_MBR_RICserviceUpdateFailure :: "env \<Rightarrow> asn_codec asn_TYPE_member list" where
  "asn_MBR_RICserviceUpdateFailure env =
    [member_noflags (asn_DEF_ProtocolIE_Container_1479P30 env) None]"

definition asn_SPC_RICserviceUpdateFailure_specs :: asn_SEQUENCE_specifics where
  "asn_SPC_RICserviceUpdateFailure_specs = \<lparr>oms = [], roms_count = 0, aoms_count = 0, first_extension = 1\<rparr>"

definition asn_DEF_RICserviceUpdateFailure :: "env \<Rightarrow> asn_codec" where
  "asn_DEF_RICserviceUpdateFailure env = asn_OP_SEQUENCE env asn_SPC_RICserviceUpdateFailure_specs (asn_MBR_RICserviceUpdateFailure env)"

definition asn_IOS_RICcontrolFailure_IEs :: "asn_ioc_object list" where
  "asn_IOS_RICcontrolFailure_IEs =
    [\<lparr>object_id = 29, object_criticality = 0, object_presence = Some 2, object_types = [True]\<rparr>,
     \<lparr>object_id = 5, object_criticality = 0, object_presence = Some 2, object_types = [True]\<rparr>,
     \<lparr>object_id = 20, object_criticality = 0, object_presence = Some 0, object_types = [True]\<rparr>,
     \<lparr>object_id = 1, object_criticality = 1, object_presence = Some 2, object_types = [True]\<rparr>,
     \<lparr>object_id = 32, object_criticality = 0, object_presence = Some 0, object_types = [True]\<rparr>]"

definition asn_MBR_RICcontrolFailure_IEs__value :: "(string \<Rightarrow> asn_codec) \<Rightarrow> env \<Rightarrow> asn_codec asn_TYPE_member list" where
  "asn_MBR_RICcontrolFailure_IEs__value others env =
    [member_noflags (asn_DEF_RICrequestID env) None,
     member_noflags (asn_DEF_RANfunctionID env) None,
     member_noflags (others ''RICcallProcessID'') None,
     member_noflags (asn_DEF_Cause env) None,
     member_noflags (others ''RICcontrolOutcome'') None]"

definition asn_DEF_RICcontrolFailure_IEs__value :: "(string \<Rightarrow> asn_codec) \<Rightarrow> env \<Rightarrow> asn_codec" where
  "asn_DEF_RICcontrolFailure_IEs__value others env = asn_OP_OPEN_TYPE env (asn_MBR_RICcontrolFailure_IEs__value others env)"

definition asn_SPC_RICcontrolFailure_IEs_specs :: asn_SEQUENCE_specifics where
  "asn_SPC_RICcontrolFailure_IEs_specs = \<lparr>oms = [], roms_count = 0, aoms_count = 0, first_extension = - 1\<rparr>"

definition select_RICcontrolFailure_IEs_value_type :: "asn_value option list \<Rightarrow> nat" where
  "select_RICcontrolFailure_IEs_value_type = select_type (type_column 0 asn_IOS_RICcontrolFailure_IEs)"

definition select_RICcontrolFailure_IEs_criticality_type :: "asn_value option list \<Rightarrow> nat" where
  "select_RICcontrolFailure_IEs_criticality_type = select_type (criticality_column asn_IOS_RICcontrolFailure_IEs)"

definition asn_MBR_RICcontrolFailure_IEs :: "(string \<Rightarrow> asn_codec) \<Rightarrow> env \<Rightarrow> asn_codec asn_TYPE_member list" where
  "asn_MBR_RICcontrolFailure_IEs others env = class_fields (asn_DEF_ProtocolIE_ID env) (Some (value_only asn_PER_memb_id_constr)) (asn_DEF_Criticality env) (Some (value_only asn_PER_memb_criticality_constr)) select_RICcontrolFailure_IEs_criticality_type
    (asn_DEF_RICcontrolFailure_IEs__value others env) (Some unconstrained) select_RICcontrolFailure_IEs_value_type"

definition asn_DEF_RICcontrolFailure_IEs :: "(string \<Rightarrow> asn_codec) \<Rightarrow> env \<Rightarrow> asn_codec" where
  "asn_DEF_RICcontrolFailure_IEs others env = asn_OP_SEQUENCE env asn_SPC_RICcontrolFailure_IEs_specs (asn_MBR_RICcontrolFailure_IEs others env)"

definition asn_PER_type_ProtocolIE_Container_1479P12_constr :: asn_per_constraint where
  "asn_PER_type_ProtocolIE_Container_1479P12_constr =
    \<lparr>flags = APC_CONSTRAINED, range_bits = 16, effective_bits = 16, lower_bound = 0, upper_bound = 65535\<rparr>"

definition asn_MBR_ProtocolIE_Container_1479P12 :: "(string \<Rightarrow> asn_codec) \<Rightarrow> env \<Rightarrow> asn_codec asn_TYPE_member" where
  "asn_MBR_ProtocolIE_Container_1479P12 others env = member_pointer 0 (asn_DEF_RICcontrolFailure_IEs others env) None"

definition asn_DEF_ProtocolIE_Container_1479P12 :: "(string \<Rightarrow> asn_codec) \<Rightarrow> env \<Rightarrow> asn_codec" where
  "asn_DEF_ProtocolIE_Container_1479P12 others env = asn_OP_SEQUENCE_OF env (Some (size_only asn_PER_type_ProtocolIE_Container_1479P12_constr)) (asn_MBR_ProtocolIE_Container_1479P12 others env)"

definition asn_MBR_RICcontrolFailure :: "(string \<Rightarrow> asn_codec) \<Rightarrow> env \<Rightarrow> asn_codec asn_TYPE_member list" where
  "asn_MBR_RICcontrolFailure others env =
    [member_noflags (asn_DEF_ProtocolIE_Container_1479P12 others env) None]"

definition asn_SPC_RICcontrolFailure_specs :: asn_SEQUENCE_specifics where
  "asn_SPC_RICcontrolFailure_specs = \<lparr>oms = [], roms_count = 0, aoms_count = 0, first_extension = 1\<rparr>"

definition asn_DEF_RICcontrolFailure :: "(string \<Rightarrow> asn_codec) \<Rightarrow> env \<Rightarrow> asn_codec" where
  "asn_DEF_RICcontrolFailure others env = asn_OP_SEQUENCE env asn_SPC_RICcontrolFailure_specs (asn_MBR_RICcontrolFailure others env)"

definition asn_IOS_E2setupFailureIEs :: "asn_ioc_object list" where
  "asn_IOS_E2setupFailureIEs =
    [\<lparr>object_id = 1, object_criticality = 1, object_presence = Some 2, object_types = [True]\<rparr>,
     \<lparr>object_id = 31, object_criticality = 1, object_presence = Some 0, object_types = [True]\<rparr>,
     \<lparr>object_id = 2, object_criticality = 1, object_presence = Some 0, object_types = [True]\<rparr>,
     \<lparr>object_id = 48, object_criticality = 1, object_presence = Some 0, object_types = [True]\<rparr>]"

definition asn_MBR_E2setupFailureIEs__value :: "(string \<Rightarrow> asn_codec) \<Rightarrow> env \<Rightarrow> asn_codec asn_TYPE_member list" where
  "asn_MBR_E2setupFailureIEs__value others env =
    [member_noflags (asn_DEF_Cause env) None,
     member_noflags (asn_DEF_TimeToWait env) None,
     member_noflags (asn_DEF_CriticalityDiagnostics env) None,
     member_noflags (others ''TNLinformation'') None]"

definition asn_DEF_E2setupFailureIEs__value :: "(string \<Rightarrow> asn_codec) \<Rightarrow> env \<Rightarrow> asn_codec" where
  "asn_DEF_E2setupFailureIEs__value others env = asn_OP_OPEN_TYPE env (asn_MBR_E2setupFailureIEs__value others env)"

definition asn_SPC_E2setupFailureIEs_specs :: asn_SEQUENCE_specifics where
  "asn_SPC_E2setupFailureIEs_specs = \<lparr>oms = [], roms_count = 0, aoms_count = 0, first_extension = - 1\<rparr>"

definition select_E2setupFailureIEs_value_type :: "asn_value option list \<Rightarrow> nat" where
  "select_E2setupFailureIEs_value_type = select_type (type_column 0 asn_IOS_E2setupFailureIEs)"

definition select_E2setupFailureIEs_criticality_type :: "asn_value option list \<Rightarrow> nat" where
  "select_E2setupFailureIEs_criticality_type = select_type (criticality_column asn_IOS_E2setupFailureIEs)"

definition asn_MBR_E2setupFailureIEs :: "(string \<Rightarrow> asn_codec) \<Rightarrow> env \<Rightarrow> asn_codec asn_TYPE_member list" where
  "asn_MBR_E2setupFailureIEs others env = class_fields (asn_DEF_ProtocolIE_ID env) (Some (value_only asn_PER_memb_id_constr)) (asn_DEF_Criticality env) (Some (value_only asn_PER_memb_criticality_constr)) select_E2setupFailureIEs_criticality_type
    (asn_DEF_E2setupFailureIEs__value others env) (Some unconstrained) select_E2setupFailureIEs_value_type"

definition asn_DEF_E2setupFailureIEs :: "(string \<Rightarrow> asn_codec) \<Rightarrow> env \<Rightarrow> asn_codec" where
  "asn_DEF_E2setupFailureIEs others env = asn_OP_SEQUENCE env asn_SPC_E2setupFailureIEs_specs (asn_MBR_E2setupFailureIEs others env)"

definition asn_PER_type_ProtocolIE_Container_1479P18_constr :: asn_per_constraint where
  "asn_PER_type_ProtocolIE_Container_1479P18_constr =
    \<lparr>flags = APC_CONSTRAINED, range_bits = 16, effective_bits = 16, lower_bound = 0, upper_bound = 65535\<rparr>"

definition asn_MBR_ProtocolIE_Container_1479P18 :: "(string \<Rightarrow> asn_codec) \<Rightarrow> env \<Rightarrow> asn_codec asn_TYPE_member" where
  "asn_MBR_ProtocolIE_Container_1479P18 others env = member_pointer 0 (asn_DEF_E2setupFailureIEs others env) None"

definition asn_DEF_ProtocolIE_Container_1479P18 :: "(string \<Rightarrow> asn_codec) \<Rightarrow> env \<Rightarrow> asn_codec" where
  "asn_DEF_ProtocolIE_Container_1479P18 others env = asn_OP_SEQUENCE_OF env (Some (size_only asn_PER_type_ProtocolIE_Container_1479P18_constr)) (asn_MBR_ProtocolIE_Container_1479P18 others env)"

definition asn_MBR_E2setupFailure :: "(string \<Rightarrow> asn_codec) \<Rightarrow> env \<Rightarrow> asn_codec asn_TYPE_member list" where
  "asn_MBR_E2setupFailure others env =
    [member_noflags (asn_DEF_ProtocolIE_Container_1479P18 others env) None]"

definition asn_SPC_E2setupFailure_specs :: asn_SEQUENCE_specifics where
  "asn_SPC_E2setupFailure_specs = \<lparr>oms = [], roms_count = 0, aoms_count = 0, first_extension = 1\<rparr>"

definition asn_DEF_E2setupFailure :: "(string \<Rightarrow> asn_codec) \<Rightarrow> env \<Rightarrow> asn_codec" where
  "asn_DEF_E2setupFailure others env = asn_OP_SEQUENCE env asn_SPC_E2setupFailure_specs (asn_MBR_E2setupFailure others env)"

definition asn_IOS_E2nodeConfigurationUpdateFailure_IEs :: "asn_ioc_object list" where
  "asn_IOS_E2nodeConfigurationUpdateFailure_IEs =
    [\<lparr>object_id = 1, object_criticality = 1, object_presence = Some 2, object_types = [True]\<rparr>,
     \<lparr>object_id = 31, object_criticality = 1, object_presence = Some 0, object_types = [True]\<rparr>,
     \<lparr>object_id = 2, object_criticality = 1, object_presence = Some 0, object_types = [True]\<rparr>]"

definition asn_MBR_E2nodeConfigurationUpdateFailure_IEs__value :: "env \<Rightarrow> asn_codec asn_TYPE_member list" where
  "asn_MBR_E2nodeConfigurationUpdateFailure_IEs__value env =
    [member_noflags (asn_DEF_Cause env) None,
     member_noflags (asn_DEF_TimeToWait env) None,
     member_noflags (asn_DEF_CriticalityDiagnostics env) None]"

definition asn_DEF_E2nodeConfigurationUpdateFailure_IEs__value :: "env \<Rightarrow> asn_codec" where
  "asn_DEF_E2nodeConfigurationUpdateFailure_IEs__value env = asn_OP_OPEN_TYPE env (asn_MBR_E2nodeConfigurationUpdateFailure_IEs__value env)"

definition asn_SPC_E2nodeConfigurationUpdateFailure_IEs_specs :: asn_SEQUENCE_specifics where
  "asn_SPC_E2nodeConfigurationUpdateFailure_IEs_specs = \<lparr>oms = [], roms_count = 0, aoms_count = 0, first_extension = - 1\<rparr>"

definition select_E2nodeConfigurationUpdateFailure_IEs_value_type :: "asn_value option list \<Rightarrow> nat" where
  "select_E2nodeConfigurationUpdateFailure_IEs_value_type = select_type (type_column 0 asn_IOS_E2nodeConfigurationUpdateFailure_IEs)"

definition select_E2nodeConfigurationUpdateFailure_IEs_criticality_type :: "asn_value option list \<Rightarrow> nat" where
  "select_E2nodeConfigurationUpdateFailure_IEs_criticality_type = select_type (criticality_column asn_IOS_E2nodeConfigurationUpdateFailure_IEs)"

definition asn_MBR_E2nodeConfigurationUpdateFailure_IEs :: "env \<Rightarrow> asn_codec asn_TYPE_member list" where
  "asn_MBR_E2nodeConfigurationUpdateFailure_IEs env = class_fields (asn_DEF_ProtocolIE_ID env) (Some (value_only asn_PER_memb_id_constr)) (asn_DEF_Criticality env) (Some (value_only asn_PER_memb_criticality_constr)) select_E2nodeConfigurationUpdateFailure_IEs_criticality_type
    (asn_DEF_E2nodeConfigurationUpdateFailure_IEs__value env) (Some unconstrained) select_E2nodeConfigurationUpdateFailure_IEs_value_type"

definition asn_DEF_E2nodeConfigurationUpdateFailure_IEs :: "env \<Rightarrow> asn_codec" where
  "asn_DEF_E2nodeConfigurationUpdateFailure_IEs env = asn_OP_SEQUENCE env asn_SPC_E2nodeConfigurationUpdateFailure_IEs_specs (asn_MBR_E2nodeConfigurationUpdateFailure_IEs env)"

definition asn_PER_type_ProtocolIE_Container_1479P24_constr :: asn_per_constraint where
  "asn_PER_type_ProtocolIE_Container_1479P24_constr =
    \<lparr>flags = APC_CONSTRAINED, range_bits = 16, effective_bits = 16, lower_bound = 0, upper_bound = 65535\<rparr>"

definition asn_MBR_ProtocolIE_Container_1479P24 :: "env \<Rightarrow> asn_codec asn_TYPE_member" where
  "asn_MBR_ProtocolIE_Container_1479P24 env = member_pointer 0 (asn_DEF_E2nodeConfigurationUpdateFailure_IEs env) None"

definition asn_DEF_ProtocolIE_Container_1479P24 :: "env \<Rightarrow> asn_codec" where
  "asn_DEF_ProtocolIE_Container_1479P24 env = asn_OP_SEQUENCE_OF env (Some (size_only asn_PER_type_ProtocolIE_Container_1479P24_constr)) (asn_MBR_ProtocolIE_Container_1479P24 env)"

definition asn_MBR_E2nodeConfigurationUpdateFailure :: "env \<Rightarrow> asn_codec asn_TYPE_member list" where
  "asn_MBR_E2nodeConfigurationUpdateFailure env =
    [member_noflags (asn_DEF_ProtocolIE_Container_1479P24 env) None]"

definition asn_SPC_E2nodeConfigurationUpdateFailure_specs :: asn_SEQUENCE_specifics where
  "asn_SPC_E2nodeConfigurationUpdateFailure_specs = \<lparr>oms = [], roms_count = 0, aoms_count = 0, first_extension = 1\<rparr>"

definition asn_DEF_E2nodeConfigurationUpdateFailure :: "env \<Rightarrow> asn_codec" where
  "asn_DEF_E2nodeConfigurationUpdateFailure env = asn_OP_SEQUENCE env asn_SPC_E2nodeConfigurationUpdateFailure_specs (asn_MBR_E2nodeConfigurationUpdateFailure env)"

definition asn_IOS_E2connectionUpdateFailure_IEs :: "asn_ioc_object list" where
  "asn_IOS_E2connectionUpdateFailure_IEs =
    [\<lparr>object_id = 1, object_criticality = 0, object_presence = Some 0, object_types = [True]\<rparr>,
     \<lparr>object_id = 31, object_criticality = 1, object_presence = Some 0, object_types = [True]\<rparr>,
     \<lparr>object_id = 2, object_criticality = 1, object_presence = Some 0, object_types = [True]\<rparr>]"

definition asn_MBR_E2connectionUpdateFailure_IEs__value :: "env \<Rightarrow> asn_codec asn_TYPE_member list" where
  "asn_MBR_E2connectionUpdateFailure_IEs__value env =
    [member_noflags (asn_DEF_Cause env) None,
     member_noflags (asn_DEF_TimeToWait env) None,
     member_noflags (asn_DEF_CriticalityDiagnostics env) None]"

definition asn_DEF_E2connectionUpdateFailure_IEs__value :: "env \<Rightarrow> asn_codec" where
  "asn_DEF_E2connectionUpdateFailure_IEs__value env = asn_OP_OPEN_TYPE env (asn_MBR_E2connectionUpdateFailure_IEs__value env)"

definition asn_SPC_E2connectionUpdateFailure_IEs_specs :: asn_SEQUENCE_specifics where
  "asn_SPC_E2connectionUpdateFailure_IEs_specs = \<lparr>oms = [], roms_count = 0, aoms_count = 0, first_extension = - 1\<rparr>"

definition select_E2connectionUpdateFailure_IEs_value_type :: "asn_value option list \<Rightarrow> nat" where
  "select_E2connectionUpdateFailure_IEs_value_type = select_type (type_column 0 asn_IOS_E2connectionUpdateFailure_IEs)"

definition select_E2connectionUpdateFailure_IEs_criticality_type :: "asn_value option list \<Rightarrow> nat" where
  "select_E2connectionUpdateFailure_IEs_criticality_type = select_type (criticality_column asn_IOS_E2connectionUpdateFailure_IEs)"

definition asn_MBR_E2connectionUpdateFailure_IEs :: "env \<Rightarrow> asn_codec asn_TYPE_member list" where
  "asn_MBR_E2connectionUpdateFailure_IEs env = class_fields (asn_DEF_ProtocolIE_ID env) (Some (value_only asn_PER_memb_id_constr)) (asn_DEF_Criticality env) (Some (value_only asn_PER_memb_criticality_constr)) select_E2connectionUpdateFailure_IEs_criticality_type
    (asn_DEF_E2connectionUpdateFailure_IEs__value env) (Some unconstrained) select_E2connectionUpdateFailure_IEs_value_type"

definition asn_DEF_E2connectionUpdateFailure_IEs :: "env \<Rightarrow> asn_codec" where
  "asn_DEF_E2connectionUpdateFailure_IEs env = asn_OP_SEQUENCE env asn_SPC_E2connectionUpdateFailure_IEs_specs (asn_MBR_E2connectionUpdateFailure_IEs env)"

definition asn_PER_type_ProtocolIE_Container_1479P21_constr :: asn_per_constraint where
  "asn_PER_type_ProtocolIE_Container_1479P21_constr =
    \<lparr>flags = APC_CONSTRAINED, range_bits = 16, effective_bits = 16, lower_bound = 0, upper_bound = 65535\<rparr>"

definition asn_MBR_ProtocolIE_Container_1479P21 :: "env \<Rightarrow> asn_codec asn_TYPE_member" where
  "asn_MBR_ProtocolIE_Container_1479P21 env = member_pointer 0 (asn_DEF_E2connectionUpdateFailure_IEs env) None"

definition asn_DEF_ProtocolIE_Container_1479P21 :: "env \<Rightarrow> asn_codec" where
  "asn_DEF_ProtocolIE_Container_1479P21 env = asn_OP_SEQUENCE_OF env (Some (size_only asn_PER_type_ProtocolIE_Container_1479P21_constr)) (asn_MBR_ProtocolIE_Container_1479P21 env)"

definition asn_MBR_E2connectionUpdateFailure :: "env \<Rightarrow> asn_codec asn_TYPE_member list" where
  "asn_MBR_E2connectionUpdateFailure env =
    [member_noflags (asn_DEF_ProtocolIE_Container_1479P21 env) None]"

definition asn_SPC_E2connectionUpdateFailure_specs :: asn_SEQUENCE_specifics where
  "asn_SPC_E2connectionUpdateFailure_specs = \<lparr>oms = [], roms_count = 0, aoms_count = 0, first_extension = 1\<rparr>"

definition asn_DEF_E2connectionUpdateFailure :: "env \<Rightarrow> asn_codec" where
  "asn_DEF_E2connectionUpdateFailure env = asn_OP_SEQUENCE env asn_SPC_E2connectionUpdateFailure_specs (asn_MBR_E2connectionUpdateFailure env)"

definition asn_MBR_UnsuccessfulOutcome__value :: "(string \<Rightarrow> asn_codec) \<Rightarrow> env \<Rightarrow> asn_codec asn_TYPE_member list" where
  "asn_MBR_UnsuccessfulOutcome__value others env =
    [member_noflags (asn_DEF_RICsubscriptionFailure env) None,
     member_noflags (asn_DEF_RICsubscriptionDeleteFailure env) None,
     member_noflags (asn_DEF_RICserviceUpdateFailure env) None,
     member_noflags (asn_DEF_RICcontrolFailure others env) None,
     member_noflags (asn_DEF_E2setupFailure others env) None,
     member_noflags (asn_DEF_E2nodeConfigurationUpdateFailure env) None,
     member_noflags (asn_DEF_E2connectionUpdateFailure env) None,
     member_noflags (asn_DEF_E2setupFailure others env) None,
     member_noflags (asn_DEF_RICsubscriptionFailure env) None,
     member_noflags (asn_DEF_RICsubscriptionDeleteFailure env) None,
     member_noflags (asn_DEF_RICcontrolFailure others env) None]"

definition asn_DEF_UnsuccessfulOutcome__value :: "(string \<Rightarrow> asn_codec) \<Rightarrow> env \<Rightarrow> asn_codec" where
  "asn_DEF_UnsuccessfulOutcome__value others env = asn_OP_OPEN_TYPE env (asn_MBR_UnsuccessfulOutcome__value others env)"

definition asn_SPC_UnsuccessfulOutcome_specs :: asn_SEQUENCE_specifics where
  "asn_SPC_UnsuccessfulOutcome_specs = \<lparr>oms = [], roms_count = 0, aoms_count = 0, first_extension = - 1\<rparr>"

definition select_UnsuccessfulOutcome_value_type :: "asn_value option list \<Rightarrow> nat" where
  "select_UnsuccessfulOutcome_value_type = select_type (type_column 2 asn_IOS_E2AP_ELEMENTARY_PROCEDURES)"

definition select_UnsuccessfulOutcome_criticality_type :: "asn_value option list \<Rightarrow> nat" where
  "select_UnsuccessfulOutcome_criticality_type = select_type (criticality_column asn_IOS_E2AP_ELEMENTARY_PROCEDURES)"

definition asn_MBR_UnsuccessfulOutcome :: "(string \<Rightarrow> asn_codec) \<Rightarrow> env \<Rightarrow> asn_codec asn_TYPE_member list" where
  "asn_MBR_UnsuccessfulOutcome others env = class_fields (asn_DEF_ProcedureCode env) (Some (value_only asn_PER_memb_procedureCode_constr)) (asn_DEF_Criticality env) (Some (value_only asn_PER_memb_criticality_constr)) select_UnsuccessfulOutcome_criticality_type
    (asn_DEF_UnsuccessfulOutcome__value others env) (Some unconstrained) select_UnsuccessfulOutcome_value_type"

definition asn_DEF_UnsuccessfulOutcome :: "(string \<Rightarrow> asn_codec) \<Rightarrow> env \<Rightarrow> asn_codec" where
  "asn_DEF_UnsuccessfulOutcome others env = asn_OP_SEQUENCE env asn_SPC_UnsuccessfulOutcome_specs (asn_MBR_UnsuccessfulOutcome others env)"

definition asn_MBR_E2AP_PDU :: "(string \<Rightarrow> asn_codec) \<Rightarrow> env \<Rightarrow> asn_codec asn_TYPE_member list" where
  "asn_MBR_E2AP_PDU others env =
    [member_pointer 0 (asn_DEF_InitiatingMessage others env) None,
     member_pointer 0 (asn_DEF_SuccessfulOutcome others env) None,
     member_pointer 0 (asn_DEF_UnsuccessfulOutcome others env) None]"

definition asn_PER_type_E2AP_PDU_constr :: asn_per_constraint where
  "asn_PER_type_E2AP_PDU_constr =
    \<lparr>flags = APC_CONSTRAINED OR APC_EXTENSIBLE, range_bits = 2, effective_bits = 2, lower_bound = 0, upper_bound = 2\<rparr>"

definition asn_SPC_E2AP_PDU_specs :: asn_CHOICE_specifics where
  "asn_SPC_E2AP_PDU_specs = \<lparr>tag2el_count = 3, to_canonical_order = None, from_canonical_order = None, ext_start = 3\<rparr>"

definition asn_DEF_E2AP_PDU :: "(string \<Rightarrow> asn_codec) \<Rightarrow> env \<Rightarrow> asn_codec" where
  "asn_DEF_E2AP_PDU others env = asn_OP_CHOICE env asn_SPC_E2AP_PDU_specs (Some (value_only asn_PER_type_E2AP_PDU_constr)) (asn_MBR_E2AP_PDU others env)"

section \<open>All selectors\<close>

text \<open>The selector of every open type, with the alternatives it chooses from.\<close>

definition e2ap_selectors :: "(string \<Rightarrow> asn_codec) \<Rightarrow> env \<Rightarrow> ((asn_value option list \<Rightarrow> nat) \<times> asn_codec asn_TYPE_member list) list" where
  "e2ap_selectors others env =
    [(select_RICsubscriptionRequest_IEs_value_type, asn_MBR_RICsubscriptionRequest_IEs__value others env),
     (select_RICsubscriptionDeleteRequest_IEs_value_type, asn_MBR_RICsubscriptionDeleteRequest_IEs__value env),
     (select_ProtocolIE_SingleContainer_1481P8_value_type, asn_MBR_ProtocolIE_SingleContainer_1481P8__value others env),
     (select_ProtocolIE_SingleContainer_1481P9_value_type, asn_MBR_ProtocolIE_SingleContainer_1481P9__value env),
     (select_RICserviceUpdate_IEs_value_type, asn_MBR_RICserviceUpdate_IEs__value others env),
     (select_RICcontrolRequest_IEs_value_type, asn_MBR_RICcontrolRequest_IEs__value others env),
     (select_ProtocolIE_SingleContainer_1481P6_value_type, asn_MBR_ProtocolIE_SingleContainer_1481P6__value others env),
     (select_E2setupRequestIEs_value_type, asn_MBR_E2setupRequestIEs__value others env),
     (select_E2nodeConfigurationUpdate_IEs_value_type, asn_MBR_E2nodeConfigurationUpdate_IEs__value others env),
     (select_ProtocolIE_SingleContainer_1481P3_value_type, asn_MBR_ProtocolIE_SingleContainer_1481P3__value others env),
     (select_ProtocolIE_SingleContainer_1481P4_value_type, asn_MBR_ProtocolIE_SingleContainer_1481P4__value others env),
     (select_E2connectionUpdate_IEs_value_type, asn_MBR_E2connectionUpdate_IEs__value others env),
     (select_ResetRequestIEs_value_type, asn_MBR_ResetRequestIEs__value env),
     (select_E42setupRequestIEs_value_type, asn_MBR_E42setupRequestIEs__value others env),
     (select_E42RICsubscriptionRequest_IEs_value_type, asn_MBR_E42RICsubscriptionRequest_IEs__value others env),
     (select_E42RICsubscriptionDeleteRequest_IEs_value_type, asn_MBR_E42RICsubscriptionDeleteRequest_IEs__value env),
     (select_E42RICcontrolRequest_IEs_value_type, asn_MBR_E42RICcontrolRequest_IEs__value others env),
     (select_RICindication_IEs_value_type, asn_MBR_RICindication_IEs__value others env),
     (select_RICserviceQuery_IEs_value_type, asn_MBR_RICserviceQuery_IEs__value env),
     (select_ErrorIndication_IEs_value_type, asn_MBR_ErrorIndication_IEs__value env),
     (select_InitiatingMessage_value_type, asn_MBR_InitiatingMessage__value others env),
     (select_ProtocolIE_SingleContainer_1481P1_value_type, asn_MBR_ProtocolIE_SingleContainer_1481P1__value env),
     (select_ProtocolIE_SingleContainer_1481P2_value_type, asn_MBR_ProtocolIE_SingleContainer_1481P2__value env),
     (select_RICsubscriptionResponse_IEs_value_type, asn_MBR_RICsubscriptionResponse_IEs__value env),
     (select_RICsubscriptionDeleteResponse_IEs_value_type, asn_MBR_RICsubscriptionDeleteResponse_IEs__value env),
     (select_ProtocolIE_SingleContainer_1481P10_value_type, asn_MBR_ProtocolIE_SingleContainer_1481P10__value env),
     (select_RICserviceUpdateAcknowledge_IEs_value_type, asn_MBR_RICserviceUpdateAcknowledge_IEs__value env),
     (select_RICcontrolAcknowledge_IEs_value_type, asn_MBR_RICcontrolAcknowledge_IEs__value others env),
     (select_ProtocolIE_SingleContainer_1481P7_value_type, asn_MBR_ProtocolIE_SingleContainer_1481P7__value others env),
     (select_E2setupResponseIEs_value_type, asn_MBR_E2setupResponseIEs__value others env),
     (select_E2nodeConfigurationUpdateAcknowledge_IEs_value_type, asn_MBR_E2nodeConfigurationUpdateAcknowledge_IEs__value others env),
     (select_ProtocolIE_SingleContainer_1481P5_value_type, asn_MBR_ProtocolIE_SingleContainer_1481P5__value others env),
     (select_E2connectionUpdateAck_IEs_value_type, asn_MBR_E2connectionUpdateAck_IEs__value others env),
     (select_ResetResponseIEs_value_type, asn_MBR_ResetResponseIEs__value env),
     (select_E2nodeConnected_ItemIEs_value_type, asn_MBR_E2nodeConnected_ItemIEs__value others env),
     (select_E42setupResponseIEs_value_type, asn_MBR_E42setupResponseIEs__value others env),
     (select_SuccessfulOutcome_value_type, asn_MBR_SuccessfulOutcome__value others env),
     (select_RICsubscriptionFailure_IEs_value_type, asn_MBR_RICsubscriptionFailure_IEs__value env),
     (select_RICsubscriptionDeleteFailure_IEs_value_type, asn_MBR_RICsubscriptionDeleteFailure_IEs__value env),
     (select_RICserviceUpdateFailure_IEs_value_type, asn_MBR_RICserviceUpdateFailure_IEs__value env),
     (select_RICcontrolFailure_IEs_value_type, asn_MBR_RICcontrolFailure_IEs__value others env),
     (select_E2setupFailureIEs_value_type, asn_MBR_E2setupFailureIEs__value others env),
     (select_E2nodeConfigurationUpdateFailure_IEs_value_type, asn_MBR_E2nodeConfigurationUpdateFailure_IEs__value env),
     (select_E2connectionUpdateFailure_IEs_value_type, asn_MBR_E2connectionUpdateFailure_IEs__value env),
     (select_UnsuccessfulOutcome_value_type, asn_MBR_UnsuccessfulOutcome__value others env)]"

lemmas e2ap_selector_tables =
  select_RICsubscriptionRequest_IEs_value_type_def asn_MBR_RICsubscriptionRequest_IEs__value_def
  select_RICsubscriptionDeleteRequest_IEs_value_type_def asn_MBR_RICsubscriptionDeleteRequest_IEs__value_def
  select_ProtocolIE_SingleContainer_1481P8_value_type_def asn_MBR_ProtocolIE_SingleContainer_1481P8__value_def
  select_ProtocolIE_SingleContainer_1481P9_value_type_def asn_MBR_ProtocolIE_SingleContainer_1481P9__value_def
  select_RICserviceUpdate_IEs_value_type_def asn_MBR_RICserviceUpdate_IEs__value_def
  select_RICcontrolRequest_IEs_value_type_def asn_MBR_RICcontrolRequest_IEs__value_def
  select_ProtocolIE_SingleContainer_1481P6_value_type_def asn_MBR_ProtocolIE_SingleContainer_1481P6__value_def
  select_E2setupRequestIEs_value_type_def asn_MBR_E2setupRequestIEs__value_def
  select_E2nodeConfigurationUpdate_IEs_value_type_def asn_MBR_E2nodeConfigurationUpdate_IEs__value_def
  select_ProtocolIE_SingleContainer_1481P3_value_type_def asn_MBR_ProtocolIE_SingleContainer_1481P3__value_def
  select_ProtocolIE_SingleContainer_1481P4_value_type_def asn_MBR_ProtocolIE_SingleContainer_1481P4__value_def
  select_E2connectionUpdate_IEs_value_type_def asn_MBR_E2connectionUpdate_IEs__value_def
  select_ResetRequestIEs_value_type_def asn_MBR_ResetRequestIEs__value_def
  select_E42setupRequestIEs_value_type_def asn_MBR_E42setupRequestIEs__value_def
  select_E42RICsubscriptionRequest_IEs_value_type_def asn_MBR_E42RICsubscriptionRequest_IEs__value_def
  select_E42RICsubscriptionDeleteRequest_IEs_value_type_def asn_MBR_E42RICsubscriptionDeleteRequest_IEs__value_def
  select_E42RICcontrolRequest_IEs_value_type_def asn_MBR_E42RICcontrolRequest_IEs__value_def
  select_RICindication_IEs_value_type_def asn_MBR_RICindication_IEs__value_def
  select_RICserviceQuery_IEs_value_type_def asn_MBR_RICserviceQuery_IEs__value_def
  select_ErrorIndication_IEs_value_type_def asn_MBR_ErrorIndication_IEs__value_def
  select_InitiatingMessage_value_type_def asn_MBR_InitiatingMessage__value_def
  select_ProtocolIE_SingleContainer_1481P1_value_type_def asn_MBR_ProtocolIE_SingleContainer_1481P1__value_def
  select_ProtocolIE_SingleContainer_1481P2_value_type_def asn_MBR_ProtocolIE_SingleContainer_1481P2__value_def
  select_RICsubscriptionResponse_IEs_value_type_def asn_MBR_RICsubscriptionResponse_IEs__value_def
  select_RICsubscriptionDeleteResponse_IEs_value_type_def asn_MBR_RICsubscriptionDeleteResponse_IEs__value_def
  select_ProtocolIE_SingleContainer_1481P10_value_type_def asn_MBR_ProtocolIE_SingleContainer_1481P10__value_def
  select_RICserviceUpdateAcknowledge_IEs_value_type_def asn_MBR_RICserviceUpdateAcknowledge_IEs__value_def
  select_RICcontrolAcknowledge_IEs_value_type_def asn_MBR_RICcontrolAcknowledge_IEs__value_def
  select_ProtocolIE_SingleContainer_1481P7_value_type_def asn_MBR_ProtocolIE_SingleContainer_1481P7__value_def
  select_E2setupResponseIEs_value_type_def asn_MBR_E2setupResponseIEs__value_def
  select_E2nodeConfigurationUpdateAcknowledge_IEs_value_type_def asn_MBR_E2nodeConfigurationUpdateAcknowledge_IEs__value_def
  select_ProtocolIE_SingleContainer_1481P5_value_type_def asn_MBR_ProtocolIE_SingleContainer_1481P5__value_def
  select_E2connectionUpdateAck_IEs_value_type_def asn_MBR_E2connectionUpdateAck_IEs__value_def
  select_ResetResponseIEs_value_type_def asn_MBR_ResetResponseIEs__value_def
  select_E2nodeConnected_ItemIEs_value_type_def asn_MBR_E2nodeConnected_ItemIEs__value_def
  select_E42setupResponseIEs_value_type_def asn_MBR_E42setupResponseIEs__value_def
  select_SuccessfulOutcome_value_type_def asn_MBR_SuccessfulOutcome__value_def
  select_RICsubscriptionFailure_IEs_value_type_def asn_MBR_RICsubscriptionFailure_IEs__value_def
  select_RICsubscriptionDeleteFailure_IEs_value_type_def asn_MBR_RICsubscriptionDeleteFailure_IEs__value_def
  select_RICserviceUpdateFailure_IEs_value_type_def asn_MBR_RICserviceUpdateFailure_IEs__value_def
  select_RICcontrolFailure_IEs_value_type_def asn_MBR_RICcontrolFailure_IEs__value_def
  select_E2setupFailureIEs_value_type_def asn_MBR_E2setupFailureIEs__value_def
  select_E2nodeConfigurationUpdateFailure_IEs_value_type_def asn_MBR_E2nodeConfigurationUpdateFailure_IEs__value_def
  select_E2connectionUpdateFailure_IEs_value_type_def asn_MBR_E2connectionUpdateFailure_IEs__value_def
  select_UnsuccessfulOutcome_value_type_def asn_MBR_UnsuccessfulOutcome__value_def
  asn_IOS_E2AP_ELEMENTARY_PROCEDURES_def
  asn_IOS_RICsubscriptionRequest_IEs_def
  asn_IOS_RICsubscriptionDeleteRequest_IEs_def
  asn_IOS_RICserviceUpdate_IEs_def
  asn_IOS_RANfunction_ItemIEs_def
  asn_IOS_RANfunctionID_ItemIEs_def
  asn_IOS_RICcontrolRequest_IEs_def
  asn_IOS_E2setupRequestIEs_def
  asn_IOS_E2nodeComponentConfigUpdate_ItemIEs_def
  asn_IOS_E2nodeConfigurationUpdate_IEs_def
  asn_IOS_E2connectionUpdate_IEs_def
  asn_IOS_E2connectionUpdate_ItemIEs_def
  asn_IOS_E2connectionUpdateRemove_ItemIEs_def
  asn_IOS_ResetRequestIEs_def
  asn_IOS_E42setupRequestIEs_def
  asn_IOS_E42RICsubscriptionRequest_IEs_def
  asn_IOS_E42RICsubscriptionDeleteRequest_IEs_def
  asn_IOS_E42RICcontrolRequest_IEs_def
  asn_IOS_RICindication_IEs_def
  asn_IOS_RICserviceQuery_IEs_def
  asn_IOS_ErrorIndication_IEs_def
  asn_IOS_RICsubscriptionResponse_IEs_def
  asn_IOS_RICaction_Admitted_ItemIEs_def
  asn_IOS_RICaction_NotAdmitted_ItemIEs_def
  asn_IOS_RICsubscriptionDeleteResponse_IEs_def
  asn_IOS_RICserviceUpdateAcknowledge_IEs_def
  asn_IOS_RANfunctionIDcause_ItemIEs_def
  asn_IOS_RICcontrolAcknowledge_IEs_def
  asn_IOS_E2setupResponseIEs_def
  asn_IOS_E2nodeComponentConfigUpdateAck_ItemIEs_def
  asn_IOS_E2nodeConfigurationUpdateAcknowledge_IEs_def
  asn_IOS_E2connectionUpdateAck_IEs_def
  asn_IOS_E2connectionSetupFailed_ItemIEs_def
  asn_IOS_ResetResponseIEs_def
  asn_IOS_E42setupResponseIEs_def
  asn_IOS_E2nodeConnected_ItemIEs_def
  asn_IOS_RICsubscriptionFailure_IEs_def
  asn_IOS_RICsubscriptionDeleteFailure_IEs_def
  asn_IOS_RICserviceUpdateFailure_IEs_def
  asn_IOS_RICcontrolFailure_IEs_def
  asn_IOS_E2setupFailureIEs_def
  asn_IOS_E2nodeConfigurationUpdateFailure_IEs_def
  asn_IOS_E2connectionUpdateFailure_IEs_def

end
