(* ===== verification/Asn_Strtox.thy ===== *)
theory Asn_Strtox
  imports Prelude
begin

text \<open>
  Decimal numbers in text (\<open>asn_strtoimax_lim\<close> and its variants in \<open>INTEGER.c\<close>): up to a given end,
  with an optional sign, and with the range of the result checked digit by digit.

  The text between the string and its end is a list of octets. The result is the code, the
  number of octets after which the end is placed on return (0 where it is left alone), and the number
  where one is stored.
\<close>

datatype asn_strtox_result = ASN_STRTOX_ERROR_RANGE | ASN_STRTOX_ERROR_INVAL | ASN_STRTOX_EXPECT_MORE
  | ASN_STRTOX_EXTRA_DATA | ASN_STRTOX_OK

definition is_digit :: "u8 \<Rightarrow> bool" where
  "is_digit c \<longleftrightarrow> 0x30 \<le> c \<and> c \<le> 0x39"

definition digit_of :: "u8 \<Rightarrow> int" where
  "digit_of c = uint c - 48"

section \<open>Signed numbers\<close>

definition imax_boundary :: int where "imax_boundary = LLONG_MAX div 10"

text \<open>Multiplications, additions and the final change of sign are signed and must not overflow.\<close>

fun strtoimax_loop :: "u8 list \<Rightarrow> nat \<Rightarrow> int \<Rightarrow> int \<Rightarrow> int \<Rightarrow>
    (asn_strtox_result \<times> nat \<times> int option) option" where
  "strtoimax_loop [] pos sign last_digit_max v =
    Option.bind (s64 (sign * v)) (\<lambda>n. Some (ASN_STRTOX_OK, pos, Some n))" |
  "strtoimax_loop (c # str) pos sign last_digit_max v =
    (if is_digit c then
       let d = digit_of c in
       if v < imax_boundary then
         Option.bind (s64 (v * 10 + d)) (\<lambda>v. strtoimax_loop str (pos + 1) sign last_digit_max v)
       else if v = imax_boundary then
         if d \<le> last_digit_max then
           Option.bind (if 0 < sign then Option.bind (s64 (v * 10 + d)) (\<lambda>v. Some (sign, v))
                        else Option.bind (s64 (- v * 10 - d)) (\<lambda>v. Some (1, v))) (\<lambda>(sign, v).
             Option.bind (s64 (sign * v)) (\<lambda>n.
               case str of [] \<Rightarrow> Some (ASN_STRTOX_OK, pos + 1, Some n)
               | c # _ \<Rightarrow> if is_digit c then Some (ASN_STRTOX_ERROR_RANGE, pos + 1, None)
                          else Some (ASN_STRTOX_EXTRA_DATA, pos + 1, Some n)))
         else Some (ASN_STRTOX_ERROR_RANGE, pos, None)
       else Some (ASN_STRTOX_ERROR_RANGE, pos, None)
     else Option.bind (s64 (sign * v)) (\<lambda>n. Some (ASN_STRTOX_EXTRA_DATA, pos, Some n)))"

text \<open>An empty text leaves the end where it is.\<close>

definition asn_strtoimax_lim :: "u8 list \<Rightarrow> (asn_strtox_result \<times> nat \<times> int option) option" where
  "asn_strtoimax_lim str =
    (case str of [] \<Rightarrow> Some (ASN_STRTOX_ERROR_INVAL, 0, None)
     | c # rest \<Rightarrow>
         if c = 0x2D then
           if rest = [] then Some (ASN_STRTOX_EXPECT_MORE, 1, None)
           else strtoimax_loop rest 1 (- 1) (LLONG_MAX mod 10 + 1) 0
         else if c = 0x2B then
           if rest = [] then Some (ASN_STRTOX_EXPECT_MORE, 1, None)
           else strtoimax_loop rest 1 1 (LLONG_MAX mod 10) 0
         else strtoimax_loop str 0 1 (LLONG_MAX mod 10) 0)"

text \<open>The variant for \<open>long\<close>: the number is stored when it is in range.\<close>

definition asn_strtol_lim :: "u8 list \<Rightarrow> (asn_strtox_result \<times> nat \<times> int option) option" where
  "asn_strtol_lim str =
    Option.bind (asn_strtoimax_lim str) (\<lambda>(res, pos, v).
      case res of
        ASN_STRTOX_ERROR_RANGE \<Rightarrow> Some (ASN_STRTOX_ERROR_RANGE, pos, None)
      | ASN_STRTOX_ERROR_INVAL \<Rightarrow> Some (ASN_STRTOX_ERROR_INVAL, pos, None)
      | ASN_STRTOX_EXPECT_MORE \<Rightarrow> Some (ASN_STRTOX_EXPECT_MORE, pos, None)
      | ASN_STRTOX_OK \<Rightarrow> Option.bind v (\<lambda>n.
          if LLONG_MIN \<le> n \<and> n \<le> LLONG_MAX then Some (ASN_STRTOX_OK, pos, Some n)
          else Some (ASN_STRTOX_ERROR_RANGE, pos, None))
      | ASN_STRTOX_EXTRA_DATA \<Rightarrow> Option.bind v (\<lambda>n.
          if LLONG_MIN \<le> n \<and> n \<le> LLONG_MAX then Some (ASN_STRTOX_EXTRA_DATA, pos, Some n)
          else Some (ASN_STRTOX_ERROR_RANGE, pos, None)))"

section \<open>Unsigned numbers\<close>

definition umax_max :: int where "umax_max = 2 ^ 64 - 1"

fun strtoumax_loop :: "u8 list \<Rightarrow> nat \<Rightarrow> u64 \<Rightarrow> asn_strtox_result \<times> nat \<times> u64 option" where
  "strtoumax_loop [] pos v = (ASN_STRTOX_OK, pos, Some v)" |
  "strtoumax_loop (c # str) pos v =
    (if is_digit c then
       let d = word_of_int (digit_of c) :: u64 in
       if v < word_of_int (umax_max div 10) then strtoumax_loop str (pos + 1) (v * 10 + d)
       else if v = word_of_int (umax_max div 10) then
         if d \<le> word_of_int (umax_max mod 10) then
           let v = v * 10 + d in
           case str of [] \<Rightarrow> (ASN_STRTOX_OK, pos + 1, Some v)
           | c # _ \<Rightarrow> if is_digit c then (ASN_STRTOX_ERROR_RANGE, pos + 1, None)
                      else (ASN_STRTOX_EXTRA_DATA, pos + 1, Some v)
         else (ASN_STRTOX_ERROR_RANGE, pos, None)
       else (ASN_STRTOX_ERROR_RANGE, pos, None)
     else (ASN_STRTOX_EXTRA_DATA, pos, Some v))"

definition asn_strtoumax_lim :: "u8 list \<Rightarrow> asn_strtox_result \<times> nat \<times> u64 option" where
  "asn_strtoumax_lim str =
    (case str of [] \<Rightarrow> (ASN_STRTOX_ERROR_INVAL, 0, None)
     | c # rest \<Rightarrow>
         if c = 0x2D then (ASN_STRTOX_ERROR_INVAL, 0, None)
         else if c = 0x2B then
           if rest = [] then (ASN_STRTOX_EXPECT_MORE, 1, None) else strtoumax_loop rest 1 0
         else strtoumax_loop str 0 0)"

definition asn_strtoul_lim :: "u8 list \<Rightarrow> (asn_strtox_result \<times> nat \<times> u64 option) option" where
  "asn_strtoul_lim str =
    (let (res, pos, v) = asn_strtoumax_lim str in
     case res of
       ASN_STRTOX_ERROR_RANGE \<Rightarrow> Some (ASN_STRTOX_ERROR_RANGE, pos, None)
     | ASN_STRTOX_ERROR_INVAL \<Rightarrow> Some (ASN_STRTOX_ERROR_INVAL, pos, None)
     | ASN_STRTOX_EXPECT_MORE \<Rightarrow> Some (ASN_STRTOX_EXPECT_MORE, pos, None)
     | ASN_STRTOX_OK \<Rightarrow> Option.bind v (\<lambda>n.
         if n \<le> - 1 then Some (ASN_STRTOX_OK, pos, Some n) else Some (ASN_STRTOX_ERROR_RANGE, pos, None))
     | ASN_STRTOX_EXTRA_DATA \<Rightarrow> Option.bind v (\<lambda>n.
         if n \<le> - 1 then Some (ASN_STRTOX_EXTRA_DATA, pos, Some n)
         else Some (ASN_STRTOX_ERROR_RANGE, pos, None)))"

end
