(* ===== verification/Asn_Integer_Laws.thy ===== *)
theory Asn_Integer_Laws
  imports Asn_Integer Asn_Strtox
begin

unbundle bit_operations_syntax

text \<open>
  What the octets of an \<open>INTEGER_t\<close> stand for, and that the conversions compute it; what decimal
  text stands for, and that the parser computes it.
\<close>

section \<open>Decimal text\<close>

abbreviation decimal_step :: "int \<Rightarrow> u8 \<Rightarrow> int" where
  "decimal_step v c \<equiv> v * 10 + digit_of c"

definition decimal_value :: "u8 list \<Rightarrow> int" where
  "decimal_value ds = foldl decimal_step 0 ds"

lemma digit_of_bounds: "is_digit c \<Longrightarrow> 0 \<le> digit_of c \<and> digit_of c \<le> 9"
  by (simp add: is_digit_def digit_of_def word_le_def)

lemma decimal_step_le: "\<forall>c\<in>set ds. is_digit c \<Longrightarrow> 0 \<le> v \<Longrightarrow> v \<le> foldl decimal_step v ds"
proof (induction ds arbitrary: v)
  case (Cons c ds)
  then have d: "0 \<le> digit_of c" using digit_of_bounds by simp
  then have "decimal_step v c \<le> foldl decimal_step (decimal_step v c) ds" using Cons by (intro Cons.IH) auto
  then show ?case using Cons.prems d by simp
qed simp

text \<open>A decimal number, possibly followed by something that is not a digit.\<close>

lemma strtoimax_loop_value:
  assumes "sign = 1 \<and> ldm = LLONG_MAX mod 10 \<and> limit = LLONG_MAX \<or>
      sign = - 1 \<and> ldm = LLONG_MAX mod 10 + 1 \<and> limit = LLONG_MAX + 1"
    and "tail = [] \<or> \<not> is_digit (hd tail)"
  shows "\<forall>c\<in>set ds. is_digit c \<Longrightarrow> 0 \<le> v \<Longrightarrow> v \<le> LLONG_MAX \<Longrightarrow>
    (if foldl decimal_step v ds \<le> limit then
       strtoimax_loop (ds @ tail) pos sign ldm v =
         Some (if tail = [] then ASN_STRTOX_OK else ASN_STRTOX_EXTRA_DATA, pos + length ds,
           Some (sign * foldl decimal_step v ds))
     else \<exists>p. strtoimax_loop (ds @ tail) pos sign ldm v = Some (ASN_STRTOX_ERROR_RANGE, p, None))"
proof (induction ds arbitrary: v pos)
  case Nil
  then have "s64 (sign * v) = Some (sign * v)"
    using assms(1) by (intro s64_within) (auto simp: LLONG_MIN_def LLONG_MAX_def)
  then show ?case using Nil assms by (cases tail) (auto simp: LLONG_MAX_def)
next
  case (Cons c ds)
  have c: "is_digit c" "0 \<le> digit_of c" "digit_of c \<le> 9" using Cons.prems digit_of_bounds by auto
  have b: "LLONG_MAX = 10 * imax_boundary + 7" "LLONG_MAX mod 10 = 7" "0 < imax_boundary"
    by (simp_all add: imax_boundary_def LLONG_MAX_def)
  let ?w = "decimal_step v c"
  have grow: "?w \<le> foldl decimal_step ?w ds"
    using Cons.prems c by (intro decimal_step_le) auto
  consider "v < imax_boundary" | "v = imax_boundary" | "imax_boundary < v" by linarith
  then show ?case
  proof cases
    case 1
    have w: "s64 ?w = Some ?w" using 1 c Cons.prems(2) b by (intro s64_within) (simp_all add: LLONG_MIN_def)
    have "0 \<le> ?w" "?w \<le> LLONG_MAX" using 1 c Cons.prems(2) b by simp_all
    then show ?thesis using Cons.IH [of ?w "pos + 1"] Cons.prems(1) 1 c w by (auto simp: Let_def)
  next
    case 3
    then have "limit < ?w" using c b assms(1) by auto
    then show ?thesis using 3 c grow by auto
  next
    case 2
    show ?thesis
    proof (cases "digit_of c \<le> ldm")
      case False
      then have "limit < ?w" using 2 c b assms(1) by auto
      then show ?thesis using False 2 c grow by auto
    next
      case True
      have w: "?w \<le> limit" using True 2 b assms(1) by auto
      show ?thesis
      proof (cases "ds = []")
        case False
        then obtain e es where ds: "ds = e # es" by (cases ds) auto
        have e: "is_digit e" "0 \<le> digit_of e" using Cons.prems(1) digit_of_bounds by (auto simp: ds)
        have "10 * ?w + digit_of e \<le> foldl decimal_step (decimal_step ?w e) es"
          using decimal_step_le [of es "decimal_step ?w e"] Cons.prems c e ds by auto
        moreover have "limit < 10 * ?w" using 2 c b assms(1) by auto
        ultimately have "limit < foldl decimal_step ?w ds" using e by (simp add: ds)
        moreover have "s64 (v * 10 + digit_of c) = Some ?w" if "sign = 1"
          using that assms(1) w c Cons.prems(2) b by (intro s64_within) (auto simp: LLONG_MIN_def LLONG_MAX_def)
        moreover have "s64 (- v * 10 - digit_of c) = Some (- ?w)" "s64 (- ?w) = Some (- ?w)" if "sign = - 1"
          using that assms(1) w c Cons.prems(2) b by (auto simp: s64_def LLONG_MIN_def LLONG_MAX_def)
        ultimately show ?thesis using True 2 c e assms(1) unfolding ds by (auto simp: Let_def)
      next
        case Nil: True
        have "s64 (v * 10 + digit_of c) = Some ?w" if "sign = 1"
          using that assms(1) w c Cons.prems(2) b by (intro s64_within) (auto simp: LLONG_MIN_def LLONG_MAX_def)
        moreover have "s64 (- v * 10 - digit_of c) = Some (- ?w)" "s64 (- ?w) = Some (- ?w)" if "sign = - 1"
          using that assms(1) w c Cons.prems(2) b by (auto simp: s64_def LLONG_MIN_def LLONG_MAX_def)
        ultimately show ?thesis using True 2 c w assms unfolding Nil by (cases tail) (auto simp: Let_def)
      qed
    qed
  qed
qed

section \<open>Two's complement\<close>

fun twos :: "u8 list \<Rightarrow> int" where
  "twos [] = 0" |
  "twos (b # bs) = sint b * 2 ^ (8 * length bs) + bits_val (bytes_bits bs)"

definition unsigned_value :: "u8 list \<Rightarrow> int" where
  "unsigned_value bs = bits_val (bytes_bits bs)"

lemma bits_val_octets_Cons:
  "bits_val (bytes_bits (b # bs)) = uint b * 2 ^ (8 * length bs) + bits_val (bytes_bits bs)"
  by (simp add: bytes_bits_Cons bits_val_append bits_val_byte_bits)

lemma bits_val_octets_snoc: "bits_val (bytes_bits (bs @ [b])) = 256 * bits_val (bytes_bits bs) + uint b"
  by (simp add: bytes_bits_Cons bits_val_append bits_val_byte_bits)

lemma bits_val_octets_less: "bits_val (bytes_bits bs) < 2 ^ (8 * length bs)"
  using bits_val_less [of "bytes_bits bs"] by simp

lemma sint_octet: "sint (b :: u8) = (if bit b 7 then uint b - 256 else uint b)"
proof -
  have t8: "take_bit 8 (uint b) = uint b" using uint_lt2p [of b] by (simp add: take_bit_int_eq_self)
  then have "uint b = take_bit (Suc 7) (uint b)" by simp
  also have "\<dots> = 128 * of_bool (bit (uint b) 7) + take_bit 7 (uint b)" by (subst take_bit_Suc_from_most) simp
  finally have u: "uint b = 128 * of_bool (bit b 7) + take_bit 7 (uint b)" by (simp add: bit_uint_iff)
  have "sint b = signed_take_bit 7 (uint b)" by (simp add: sint_uint)
  also have "\<dots> = take_bit 7 (uint b) - 128 * of_bool (bit b 7)"
    by (subst signed_take_bit_eq_take_bit_minus) (use u t8 in \<open>auto simp: bit_uint_iff\<close>)
  finally show ?thesis using u by (cases "bit b 7") simp_all
qed

lemma sint_all_ones: "sint (0xFF :: u8) = - 1"
  by simp

lemma octet_high: "(y :: u8) AND 0x80 = 0 \<longleftrightarrow> \<not> bit y 7"
  using and_exp_eq_0_iff_not_bit [of y 7] by simp

lemma sint_octet_bounds: "- 128 \<le> sint (b :: u8)" "sint (b :: u8) \<le> 127"
  using sint_ge [of b] sint_lt [of b] by simp_all

lemma twos_bounds:
  assumes "bs \<noteq> []"
  shows "- (2 ^ (8 * length bs - 1)) \<le> twos bs" and "twos bs < 2 ^ (8 * length bs - 1)"
proof -
  obtain b cs where bs: "bs = b # cs" using assms by (cases bs) auto
  let ?p = "2 ^ (8 * length cs) :: int"
  have e: "(2::int) ^ (8 * length bs - 1) = 128 * ?p" by (simp add: bs power_add)
  have r: "0 \<le> bits_val (bytes_bits cs)" "bits_val (bytes_bits cs) < ?p" using bits_val_octets_less by simp_all
  have "- 128 * ?p \<le> sint b * ?p" "sint b * ?p \<le> 127 * ?p"
    using sint_octet_bounds [of b] by (intro mult_right_mono; simp)+
  then show "- (2 ^ (8 * length bs - 1)) \<le> twos bs" "twos bs < 2 ^ (8 * length bs - 1)"
    unfolding bs e [unfolded bs] twos.simps using r by linarith+
qed

lemma twos_step:
  "x = 0 \<and> \<not> bit y 7 \<or> x = 0xFF \<and> bit y 7 \<Longrightarrow> twos (x # y # b) = twos (y # b)"
proof (elim disjE conjE)
  let ?p = "2 ^ (8 * length b) :: int"
  have p: "(2::int) ^ (8 * length (y # b)) = 256 * ?p" by (simp add: power_add)
  show "twos (x # y # b) = twos (y # b)" if "x = 0" "\<not> bit y 7"
    using that by (simp add: bits_val_octets_Cons sint_octet)
  show "twos (x # y # b) = twos (y # b)" if "x = 0xFF" "bit y 7"
  proof -
    have "sint y = uint y - 256" using that(2) by (simp add: sint_octet)
    then have "sint y * ?p = uint y * ?p - 256 * ?p" by (simp only: left_diff_distrib)
    then show ?thesis
      unfolding that(1) twos.simps(2) [of "0xFF"] sint_all_ones p bits_val_octets_Cons twos.simps(2) [of y]
      by linarith
  qed
qed

lemma twos_skip: "twos (skip_insignificant b) = twos b"
proof (induction b rule: skip_insignificant.induct)
  case (1 x y b)
  then show ?case using twos_step [of x y b] by (auto simp: octet_high)
qed simp_all

text \<open>The shortest form: the first nine bits are not all equal.\<close>

definition shortest :: "u8 list \<Rightarrow> bool" where
  "shortest b \<longleftrightarrow> skip_insignificant b = b"

lemma skip_shortest: "shortest (skip_insignificant b)"
  by (induction b rule: skip_insignificant.induct) (auto simp: shortest_def)

lemma skip_length: "length (skip_insignificant b) \<le> length b" "skip_insignificant b = [] \<longleftrightarrow> b = []"
  by (induction b rule: skip_insignificant.induct) auto

lemma shortest_Cons:
  assumes "shortest (x # y # b)"
  shows "\<not> (x = 0 \<and> \<not> bit y 7 \<or> x = 0xFF \<and> bit y 7)"
proof
  assume "x = 0 \<and> \<not> bit y 7 \<or> x = 0xFF \<and> bit y 7"
  then have "skip_insignificant (x # y # b) = skip_insignificant (y # b)" by (auto simp: octet_high)
  then show False using assms skip_length(1) [of "y # b"] by (simp add: shortest_def)
qed

lemma shortest_bounds:
  assumes "shortest bs" and "2 \<le> length bs"
  shows "twos bs < - (2 ^ (8 * (length bs - 1) - 1)) \<or> 2 ^ (8 * (length bs - 1) - 1) \<le> twos bs"
proof -
  obtain x y b where bs: "bs = x # y # b" using assms(2) by (cases bs; cases "tl bs") auto
  let ?p = "2 ^ (8 * length b) :: int" and ?r = "bits_val (bytes_bits b)"
  have e: "(2::int) ^ (8 * (length bs - 1) - 1) = 128 * ?p" by (simp add: bs power_add)
  have p: "(2::int) ^ (8 * length (y # b)) = 256 * ?p" by (simp add: power_add)
  have r: "0 \<le> ?r" "?r < ?p" using bits_val_octets_less by simp_all
  have y: "0 \<le> uint y * ?p" "uint y * ?p \<le> 255 * ?p"
    using uint_lt2p [of y] by (simp, intro mult_right_mono) simp_all
  have t: "twos bs = sint x * (256 * ?p) + (uint y * ?p + ?r)"
    unfolding bs twos.simps(2) [of x] p bits_val_octets_Cons ..
  consider "x = 0" | "x = 0xFF" | "1 \<le> sint x" | "sint x \<le> - 2"
  proof -
    have "sint x = 0 \<Longrightarrow> x = 0" "sint x = - 1 \<Longrightarrow> x = 0xFF"
      by (metis sint_0 word_eq_iff_signed, metis sint_all_ones word_eq_iff_signed)
    moreover have "sint x = 0 \<or> sint x = - 1 \<or> 1 \<le> sint x \<or> sint x \<le> - 2" by linarith
    ultimately show thesis using that by blast
  qed
  then show ?thesis
  proof cases
    case 1
    then have "bit y 7" using shortest_Cons assms(1) bs by blast
    then have "128 \<le> uint y" using sint_octet_bounds [of y] by (simp add: sint_octet)
    then have "128 * ?p \<le> uint y * ?p" by (intro mult_right_mono) simp_all
    moreover have "twos bs = uint y * ?p + ?r" using t 1 by simp
    ultimately show ?thesis unfolding e using r by linarith
  next
    case 2
    then have "\<not> bit y 7" using shortest_Cons assms(1) bs by blast
    then have "uint y \<le> 127" using sint_octet_bounds [of y] by (simp add: sint_octet)
    then have "uint y * ?p \<le> 127 * ?p" by (intro mult_right_mono) simp_all
    moreover have "twos bs = uint y * ?p + ?r - 256 * ?p" using t 2 sint_all_ones by simp
    ultimately show ?thesis unfolding e using r by linarith
  next
    case 3
    then have "1 * (256 * ?p) \<le> sint x * (256 * ?p)" by (intro mult_right_mono) simp_all
    then show ?thesis unfolding e t using r y by linarith
  next
    case 4
    then have "sint x * (256 * ?p) \<le> - 2 * (256 * ?p)" by (intro mult_right_mono) simp_all
    then show ?thesis unfolding e t using r y by linarith
  qed
qed

section \<open>Native numbers\<close>

abbreviation push_octet :: "u64 \<Rightarrow> u8 \<Rightarrow> u64" where
  "push_octet v b \<equiv> push_bit 8 v OR ucast b"

lemma push_octet_value: "push_octet (word_of_int x) b = word_of_int (256 * x + uint b)"
proof -
  have "push_octet (word_of_int x) b = word_of_int (push_bit 8 x OR uint b)"
    by (rule bit_word_eqI) (auto simp: bit_simps)
  then show ?thesis using uint_lt2p [of b] by (simp add: octet_or)
qed

lemma foldl_push_octet:
  "foldl push_octet (word_of_int x) bs = word_of_int (x * 2 ^ (8 * length bs) + bits_val (bytes_bits bs))"
proof (induction bs rule: rev_induct)
  case (snoc b bs)
  have "foldl push_octet (word_of_int x) (bs @ [b]) =
      word_of_int (256 * (x * 2 ^ (8 * length bs) + bits_val (bytes_bits bs)) + uint b)"
    using snoc by (simp only: foldl_append foldl.simps push_octet_value)
  also have "256 * (x * 2 ^ (8 * length bs) + bits_val (bytes_bits bs)) + uint b =
      x * 2 ^ (8 * length (bs @ [b])) + bits_val (bytes_bits (bs @ [b]))"
    unfolding bits_val_octets_snoc by (simp add: power_add algebra_simps)
  finally show ?case .
qed simp

lemma high_bit_sign: "drop_bit 7 (b :: u8) \<noteq> 0 \<longleftrightarrow> bit b 7"
proof
  assume "bit b 7"
  then have "bit (drop_bit 7 b) 0" by (simp add: bit_drop_bit_eq)
  then show "drop_bit 7 b \<noteq> 0" by auto
next
  show "drop_bit 7 b \<noteq> 0 \<Longrightarrow> bit b 7"
  proof (rule ccontr)
    assume "drop_bit 7 b \<noteq> 0" and not: "\<not> bit b 7"
    moreover have "drop_bit 7 b = 0"
    proof (rule bit_word_eqI)
      fix n
      show "bit (drop_bit 7 b) n = bit 0 n"
        using not by (cases n) (auto simp: bit_drop_bit_eq dest: bit_imp_le_length)
    qed
    ultimately show False by simp
  qed
qed

lemma asn__integer_convert_value:
  assumes "bs \<noteq> []" and "length bs \<le> 8"
  shows "asn__integer_convert bs = Some (twos bs)"
proof -
  obtain b cs where bs: "bs = b # cs" using assms(1) by (cases bs) auto
  let ?p = "2 ^ (8 * length cs) :: int"
  define x where "x = (if bit b 7 then - 1 else 0 :: int)"
  have "x * 2 ^ (8 * length bs) + bits_val (bytes_bits bs) = (256 * x + uint b) * ?p + bits_val (bytes_bits cs)"
    unfolding bs bits_val_octets_Cons by (simp add: power_add algebra_simps)
  also have "256 * x + uint b = sint b" by (simp add: x_def sint_octet)
  finally have val: "x * 2 ^ (8 * length bs) + bits_val (bytes_bits bs) = twos bs" by (simp add: bs)
  have "(2::int) ^ (8 * length bs - 1) \<le> 2 ^ 63" using assms(2) by (intro power_increasing) auto
  then have range: "- (2 ^ 63) \<le> twos bs" "twos bs < 2 ^ 63" using twos_bounds [OF assms(1)] by linarith+
  have conv_back: "sint (word_of_int (twos bs) :: u64) = twos bs"
    unfolding sint_sbintrunc' using range by (simp add: signed_take_bit_int_eq_self)
  have start: "(if drop_bit 7 b \<noteq> 0 then - 1 else 0) = (word_of_int x :: u64)"
    by (simp add: high_bit_sign x_def)
  have conv: "foldl push_octet (word_of_int x) bs = word_of_int (twos bs)" by (simp only: foldl_push_octet val)
  have first: "nth_opt bs 0 = Some b" by (simp add: bs)
  show ?thesis by (simp only: asn__integer_convert_def first Option.bind.bind_lunit Let_def start conv conv_back)
qed

lemma asn_INTEGER2imax_twos:
  "asn_INTEGER2imax (Some (Some bs)) =
    Some (if LLONG_MIN \<le> twos bs \<and> twos bs \<le> LLONG_MAX then Inr (twos bs) else Inl ERANGE)"
proof -
  define cs where "cs = (if 8 < length bs then skip_insignificant bs else bs)"
  have t: "twos cs = twos bs" by (simp add: cs_def twos_skip)
  show ?thesis
  proof (cases "8 < length cs")
    case True
    then have "shortest cs" using skip_length(1) [of bs] by (auto simp: cs_def skip_shortest split: if_splits)
    moreover have "(2::int) ^ 63 \<le> 2 ^ (8 * (length cs - 1) - 1)" using True by (intro power_increasing) auto
    ultimately have "twos cs < - (2 ^ 63) \<or> 2 ^ 63 \<le> twos cs" using shortest_bounds [of cs] True by linarith
    then show ?thesis using True t
      by (auto simp: asn_INTEGER2imax_def cs_def [symmetric] Let_def LLONG_MIN_def LLONG_MAX_def)
  next
    case False
    have range: "LLONG_MIN \<le> twos cs" "twos cs \<le> LLONG_MAX"
    proof -
      have "(2::int) ^ (8 * length cs - 1) \<le> 2 ^ 63" using False by (intro power_increasing) auto
      then show "LLONG_MIN \<le> twos cs" "twos cs \<le> LLONG_MAX"
        using twos_bounds [of cs] by (cases "cs = []"; simp add: LLONG_MIN_def LLONG_MAX_def)+
    qed
    then show ?thesis
      using False t asn__integer_convert_value [of cs]
      by (cases "cs = []") (auto simp: asn_INTEGER2imax_def cs_def [symmetric] Let_def)
  qed
qed

lemma twos_be_octets:
  assumes "- (2 ^ (8 * k + 7)) \<le> v" and "v < 2 ^ (8 * k + 7)"
  shows "twos (be_octets (Suc k) v) = v"
proof -
  let ?h = "drop_bit (8 * k) v"
  have e: "(2::int) ^ (8 * k + 7) = 128 * 2 ^ (8 * k)" by (simp add: power_add)
  have v: "v = ?h * 2 ^ (8 * k) + take_bit (8 * k) v" using bits_ident [of "8 * k" v] by (simp add: push_bit_eq_mult)
  have t: "0 \<le> take_bit (8 * k) v" "take_bit (8 * k) v < 2 ^ (8 * k)" by simp_all
  have "?h < 128"
  proof (rule ccontr)
    assume "\<not> ?h < 128"
    then have "128 * 2 ^ (8 * k) \<le> ?h * 2 ^ (8 * k)" by (intro mult_right_mono) simp_all
    then show False using v t assms(2) e by linarith
  qed
  moreover have "- 128 \<le> ?h"
  proof (rule ccontr)
    assume "\<not> - 128 \<le> ?h"
    then have "?h * 2 ^ (8 * k) \<le> - 129 * 2 ^ (8 * k)" by (intro mult_right_mono) simp_all
    then show False using v t assms(1) e by linarith
  qed
  ultimately have "sint (word_of_int ?h :: u8) = ?h"
    unfolding sint_sbintrunc' by (simp add: signed_take_bit_int_eq_self)
  then show ?thesis
    using v by (simp add: bytes_bits_be_octets bits_val_val_bits)
qed

text \<open>The octets of a native number, in the shortest form.\<close>

definition imax_octets :: "int \<Rightarrow> u8 list" where
  "imax_octets v = skip_insignificant (be_octets 8 v)"

lemma imax_octets_simps:
  shows "shortest (imax_octets v)" and "imax_octets v \<noteq> []" and "length (imax_octets v) \<le> 8"
    and "LLONG_MIN \<le> v \<Longrightarrow> v \<le> LLONG_MAX \<Longrightarrow> twos (imax_octets v) = v"
proof -
  show "shortest (imax_octets v)" by (simp add: imax_octets_def skip_shortest)
  have "be_octets 8 v \<noteq> []" by (metis length_be_octets list.size(3) zero_neq_numeral)
  then show "imax_octets v \<noteq> []" by (simp add: imax_octets_def skip_length)
  show "length (imax_octets v) \<le> 8" using skip_length(1) [of "be_octets 8 v"] by (simp add: imax_octets_def)
  show "LLONG_MIN \<le> v \<Longrightarrow> v \<le> LLONG_MAX \<Longrightarrow> twos (imax_octets v) = v"
    using twos_be_octets [of 7 v] by (simp add: imax_octets_def twos_skip LLONG_MIN_def LLONG_MAX_def)
qed

lemma shortest_least:
  assumes "shortest as" and "bs \<noteq> []" and "twos bs = twos as"
  shows "length as \<le> length bs"
proof (rule ccontr)
  assume "\<not> length as \<le> length bs"
  then have l: "length bs \<le> length as - 1" "2 \<le> length as" using assms(2) by (cases bs; simp)+
  then have "(2::int) ^ (8 * length bs - 1) \<le> 2 ^ (8 * (length as - 1) - 1)" by (intro power_increasing) auto
  then show False using twos_bounds [OF assms(2)] shortest_bounds [OF assms(1) l(2)] assms(3) by linarith
qed

lemma asn_imax2INTEGER_octets: "asn_imax2INTEGER True (Some st) v = Inr (Some (imax_octets v))"
  by (simp add: asn_imax2INTEGER_def imax_octets_def)

section \<open>Unsigned numbers\<close>

lemma sint_u64: "sint (v :: u64) = (if uint v < 2 ^ 63 then uint v else uint v - 2 ^ 64)"
proof (cases "uint v < 2 ^ 63")
  case True
  have "- (2 ^ 63) \<le> uint v" by (rule order_trans [of _ 0]) simp_all
  with True show ?thesis by (simp add: sint_uint signed_take_bit_int_eq_self)
next
  case False
  have "uint v < 2 ^ 64" using uint_lt2p [of v] by simp
  then have r: "- (2 ^ 63) \<le> uint v - 2 ^ 64" "uint v - 2 ^ 64 < 2 ^ 63" using False by simp_all
  have "v = word_of_int (uint v - 2 ^ 64)" by simp
  then have "sint v = sint (word_of_int (uint v - 2 ^ 64) :: u64)" by (rule arg_cong)
  also have "\<dots> = uint v - 2 ^ 64"
    unfolding sint_sbintrunc' using r by (simp add: signed_take_bit_int_eq_self)
  finally show ?thesis using False by simp
qed

lemma drop_zeros_value:
  "(case drop_zeros bs of None \<Rightarrow> 2 ^ 64 \<le> bits_val (bytes_bits bs)
    | Some cs \<Rightarrow> length cs \<le> 8 \<and> bits_val (bytes_bits cs) = bits_val (bytes_bits bs))"
proof (induction bs)
  case (Cons x bs)
  show ?case
  proof (cases "8 < length (x # bs) \<and> x \<noteq> 0")
    case True
    have "1 \<le> uint x" using True by (metis int_one_le_iff_zero_less uint_ge_0 uint_0_iff order_le_less)
    then have "1 * 2 ^ (8 * length bs) \<le> uint x * 2 ^ (8 * length bs)" by (intro mult_right_mono) simp_all
    moreover have "(2::int) ^ 64 \<le> 2 ^ (8 * length bs)" using True by (intro power_increasing) auto
    ultimately have "2 ^ 64 \<le> bits_val (bytes_bits (x # bs))"
      unfolding bits_val_octets_Cons using bits_val_nonneg [of "bytes_bits bs"] by linarith
    then show ?thesis using True by simp
  next
    case False
    then show ?thesis using Cons by (cases "8 < length (x # bs)") (auto simp: bits_val_octets_Cons split: option.splits)
  qed
qed simp

lemma asn_INTEGER2umax_value:
  "asn_INTEGER2umax (Some (Some bs)) =
    (if unsigned_value bs < 2 ^ 64 then Inr (word_of_int (unsigned_value bs)) else Inl ERANGE)"
proof (cases "drop_zeros bs")
  case None
  then show ?thesis using drop_zeros_value [of bs] by (simp add: asn_INTEGER2umax_def unsigned_value_def)
next
  case (Some cs)
  then have c: "length cs \<le> 8" "bits_val (bytes_bits cs) = unsigned_value bs"
    using drop_zeros_value [of bs] by (auto simp: unsigned_value_def)
  have "(2::int) ^ (8 * length cs) \<le> 2 ^ 64" using c(1) by (intro power_increasing) auto
  then have "unsigned_value bs < 2 ^ 64" using bits_val_octets_less [of cs] c(2) by linarith
  moreover have "foldl push_octet 0 cs = word_of_int (unsigned_value bs)"
    using foldl_push_octet [of 0 cs] c(2) by simp
  ultimately show ?thesis using Some by (simp add: asn_INTEGER2umax_def)
qed

text \<open>A number that is not negative is the same in both readings.\<close>

lemma twos_unsigned:
  assumes "0 \<le> twos bs"
  shows "unsigned_value bs = twos bs"
proof (cases bs)
  case (Cons b cs)
  let ?p = "2 ^ (8 * length cs) :: int"
  have "0 \<le> sint b"
  proof (rule ccontr)
    assume "\<not> 0 \<le> sint b"
    then have "sint b * ?p \<le> - 1 * ?p" by (intro mult_right_mono) simp_all
    then show False using assms bits_val_octets_less [of cs] unfolding Cons twos.simps by linarith
  qed
  moreover have "uint b < 256" using uint_lt2p [of b] by simp
  ultimately have "sint b = uint b" by (auto simp: sint_octet split: if_splits)
  then show ?thesis by (simp add: Cons unsigned_value_def bits_val_octets_Cons)
qed (simp add: unsigned_value_def)

section \<open>Comparison\<close>

lemma octet_sign_sint: "octet_sign b = (if sint b < 0 then - 1 else 1)"
proof -
  have "uint b < 256" using uint_lt2p [of b] by simp
  moreover have "bit b 7 \<Longrightarrow> 128 \<le> uint b" using sint_octet_bounds [of b] by (simp add: sint_octet)
  ultimately show ?thesis by (auto simp: octet_sign_def octet_high sint_octet)
qed

lemma memcmp_sign_value:
  "length as = length bs \<Longrightarrow>
    memcmp_sign as bs = sgn (bits_val (bytes_bits as) - bits_val (bytes_bits bs))"
proof (induction as bs rule: memcmp_sign.induct)
  case (1 x a y b)
  let ?p = "2 ^ (8 * length b) :: int"
  have l: "length a = length b" using 1(2) by simp
  have r: "bits_val (bytes_bits a) < ?p" "bits_val (bytes_bits b) < ?p"
      "0 \<le> bits_val (bytes_bits a)" "0 \<le> bits_val (bytes_bits b)"
    using bits_val_octets_less [of a] bits_val_octets_less [of b] l by simp_all
  have step: "u < w \<Longrightarrow> u * ?p + ?p \<le> w * ?p" for u w :: int
    using mult_right_mono [of "u + 1" w ?p] by (simp add: distrib_right)
  consider "x < y" | "y < x" | "x = y" by fastforce
  then show ?case
  proof cases
    case a: 1
    then have "uint x * ?p + ?p \<le> uint y * ?p" by (intro step) (simp add: word_less_def)
    then have "bits_val (bytes_bits (x # a)) - bits_val (bytes_bits (y # b)) < 0"
      unfolding bits_val_octets_Cons l using r by linarith
    then show ?thesis using a by simp
  next
    case b: 2
    then have "uint y * ?p + ?p \<le> uint x * ?p" by (intro step) (simp add: word_less_def)
    then have "0 < bits_val (bytes_bits (x # a)) - bits_val (bytes_bits (y # b))"
      unfolding bits_val_octets_Cons l using r by linarith
    then show ?thesis using b by (simp add: not_less_iff_gr_or_eq)
  next
    case c: 3
    then show ?thesis using 1(1) l by (simp add: bits_val_octets_Cons)
  qed
qed simp_all

lemma twos_sign: "twos (b # bs) < 0 \<longleftrightarrow> sint b < 0"
proof
  show "twos (b # bs) < 0 \<Longrightarrow> sint b < 0"
  proof (rule ccontr)
    assume "twos (b # bs) < 0" and "\<not> sint b < 0"
    moreover from this have "0 \<le> sint b * 2 ^ (8 * length bs)" by (intro mult_nonneg_nonneg) simp_all
    ultimately show False using bits_val_nonneg [of "bytes_bits bs"] unfolding twos.simps by linarith
  qed
  assume "sint b < 0"
  then have "sint b * 2 ^ (8 * length bs) \<le> - 1 * 2 ^ (8 * length bs)" by (intro mult_right_mono) simp_all
  then show "twos (b # bs) < 0" using bits_val_octets_less [of bs] unfolding twos.simps by linarith
qed

lemma twos_unsigned_value:
  "twos (b # bs) = unsigned_value (b # bs) - (if sint b < 0 then 2 ^ (8 * Suc (length bs)) else 0)"
proof -
  have "uint b < 256" using uint_lt2p [of b] by simp
  then have "sint b = uint b - (if sint b < 0 then 256 else 0)" by (auto simp: sint_octet split: if_splits)
  then have "sint b * 2 ^ (8 * length bs) =
      uint b * 2 ^ (8 * length bs) - (if sint b < 0 then 256 else 0) * 2 ^ (8 * length bs)"
    by (metis left_diff_distrib)
  then show ?thesis by (auto simp: unsigned_value_def bits_val_octets_Cons power_add split: if_splits)
qed

lemma shorter_smaller:
  assumes "shortest as" and "shortest bs" and "as \<noteq> []" and "length as < length bs"
    and "(twos as < 0) = (twos bs < 0)"
  shows "if twos as < 0 then twos bs < twos as else twos as < twos bs"
proof -
  have "2 \<le> length bs" using assms(3,4) by (cases as) auto
  moreover have "(2::int) ^ (8 * length as - 1) \<le> 2 ^ (8 * (length bs - 1) - 1)"
    using assms(4) by (intro power_increasing) auto
  moreover have "(0::int) \<le> 2 ^ (8 * (length bs - 1) - 1)" by simp
  ultimately show ?thesis
    using twos_bounds [OF assms(3)] shortest_bounds [OF assms(2)] assms(5) by (smt (verit))
qed

end
