(* ===== verification/Integer_Uper_Laws.thy ===== *)
theory Integer_Uper_Laws
  imports Integer_Uper Asn_Integer_Laws
begin

unbundle bit_operations_syntax

text \<open>
  The fragments of X.691 11.9, that the encoder writes them and the decoder joins them, for every
  number of octets.
\<close>

section \<open>Fragments\<close>

text \<open>
  Up to 16383 octets are one fragment; more are preceded by fragments of one to four blocks of
  16384, and followed by an empty one where they are a multiple.
\<close>

function fragment_bits :: "u8 list \<Rightarrow> bool list" where
  "fragment_bits bs =
    (let n = length bs; m = length_units n in
     length_bits n @ bytes_bits (take m bs) @ (if 16384 \<le> n then fragment_bits (drop m bs) else []))"
  by pat_completeness auto
termination by (relation "measure length") (auto simp: length_units_def)

declare fragment_bits.simps [simp del]

lemma length_units_cases:
  "n < 16384 \<Longrightarrow> length_units n = n \<and> \<not> need_eom n"
  "need_eom n \<Longrightarrow> length_units n = n \<and> 16384 \<le> n"
  "16384 \<le> n \<Longrightarrow> \<not> need_eom n \<Longrightarrow> length_units n < n \<and> 0 < length_units n"
proof -
  show "n < 16384 \<Longrightarrow> length_units n = n \<and> \<not> need_eom n" by (simp add: length_units_def need_eom_def)
  show "need_eom n \<Longrightarrow> length_units n = n \<and> 16384 \<le> n"
    by (auto simp: length_units_def need_eom_def min_def)
  assume n: "16384 \<le> n" "\<not> need_eom n"
  obtain q r where qr: "n = 16384 * q + r" "r < 16384" "n div 16384 = q" "n mod 16384 = r"
    by (metis mult_div_mod_eq mod_less_divisor zero_less_numeral)
  then have "1 \<le> q" "r \<noteq> 0 \<or> 4 < q" using n by (auto simp: need_eom_def)
  then show "length_units n < n \<and> 0 < length_units n"
    using n(1) unfolding length_units_def qr(3) min_def by (cases "4 \<le> q") (use qr(1) in auto)
qed

lemma length_units_le: "length_units n \<le> n"
  using length_units_cases [of n] by (cases "n < 16384"; cases "need_eom n") auto

lemma fragment_bits_Nil: "fragment_bits [] = length_bits 0"
  by (subst fragment_bits.simps) (simp add: length_units_def)

lemma puts_len_then:
  assumes "puts_len V po as n res"
    and "\<And>po1. emits V po as po1 \<Longrightarrow> puts V po1 bs (f ((int (length_units n), need_eom n), po1))"
    and "\<And>eom po1. f ((- 1, eom), po1) = Some (- 1, po1)"
  shows "puts V po (as @ bs) (Option.bind res f)"
proof -
  obtain r eom po1 where res: "res = Some ((r, eom), po1)"
      "r = int (length_units n) \<and> eom = need_eom n \<and> emits V po as po1 \<or> r = - 1 \<and> overflows V po as"
    using assms(1) by (auto simp: puts_len_def)
  from res(2) show ?thesis
  proof
    assume ok: "r = int (length_units n) \<and> eom = need_eom n \<and> emits V po as po1"
    then have "puts V po1 bs (f ((r, eom), po1))" using assms(2) by simp
    then show ?thesis using puts_after ok res(1) by fastforce
  next
    assume "r = - 1 \<and> overflows V po as"
    then show ?thesis using res(1) assms(3) overflows_append by (auto simp: puts_def)
  qed
qed

section \<open>Writing fragments\<close>

text \<open>
  The loop over fragments is written once per packed encoding, over the length determinant of that
  encoding: a contract between the two. \<open>ready\<close> are the states in which the determinant takes no
  padding, \<open>failed\<close> is the test of the closing determinant.
\<close>

locale fragment_writer = byte_sink +
  fixes put_length :: "'k asn_bit_outp \<Rightarrow> nat \<Rightarrow> ((int \<times> bool) \<times> 'k asn_bit_outp) option"
    and put_fragments :: "'k asn_bit_outp \<Rightarrow> u8 list \<Rightarrow> (int \<times> 'k asn_bit_outp) option"
    and ready :: "'k asn_bit_outp \<Rightarrow> bool" and failed :: "int \<Rightarrow> bool"
  assumes put_fragments_unfold: "put_fragments po buf =
      (if buf = [] then Some (0, po)
       else Option.bind (put_length po (length buf)) (\<lambda>((may_encode, need_eom), po).
         if may_encode < 0 then Some (- 1, po)
         else Option.bind (asn_put_many_bits po buf (8 * nat may_encode)) (\<lambda>(r, po).
           if r \<noteq> 0 then Some (- 1, po)
           else Option.bind (if need_eom then Option.bind (put_length po 0) (\<lambda>((r, _), po). Some (failed r, po))
                             else Some (False, po)) (\<lambda>(failed, po).
             if failed then Some (- 1, po) else put_fragments po (drop (nat may_encode) buf)))))"
    and failed_iff: "failed 0 = False" "failed (- 1) = True"
    and puts_len_ready: "po_wf po \<Longrightarrow> po_output po = consume \<Longrightarrow> ready po \<Longrightarrow>
      puts_len view po (length_bits n) n (put_length po n)"
    and ready_emits: "po_wf po \<Longrightarrow> ready po \<Longrightarrow> emits view po bs po' \<Longrightarrow> 8 dvd length bs \<Longrightarrow> ready po'"
begin

lemma puts_fragments:
  "po_wf po \<Longrightarrow> po_output po = consume \<Longrightarrow> ready po \<Longrightarrow> buf \<noteq> [] \<Longrightarrow>
    puts view po (fragment_bits buf) (put_fragments po buf)"
proof (induction buf arbitrary: po rule: fragment_bits.induct)
  case (1 buf)
  let ?n = "length buf"
  let ?m = "length_units ?n"
  let ?tail = "if 16384 \<le> ?n then fragment_bits (drop ?m buf) else []"
  let ?rest = "\<lambda>need_eom po. Option.bind (if need_eom then Option.bind (put_length po 0) (\<lambda>((r, _), po). Some (failed r, po))
      else Some (False, po)) (\<lambda>(failed, po). if failed then Some (- 1, po) else put_fragments po (drop ?m buf))"
  have rest: "puts view po2 ?tail (?rest (need_eom ?n) po2)"
    if p: "po_wf po2" "po_output po2 = consume" "ready po2" for po2
  proof -
    consider "?n < 16384" | "need_eom ?n" | "16384 \<le> ?n" "\<not> need_eom ?n" by linarith
    then show ?thesis
    proof cases
      case 1
      then show ?thesis using length_units_cases(1) [OF 1] p
        by (simp add: put_fragments_unfold [of _ "[]"] puts_nothing)
    next
      case 2
      have "puts_len view po2 (length_bits 0) 0 (put_length po2 0)" using p by (rule puts_len_ready)
      then show ?thesis
        using length_units_cases(2) [OF 2] 2
        by (auto simp: puts_len_def puts_def fragment_bits_Nil length_units_def put_fragments_unfold [of _ "[]"] failed_iff)
    next
      case 3
      then have "drop ?m buf \<noteq> []" using length_units_cases(3) [OF 3] by simp
      then show ?thesis using 1(1) [OF refl refl 3(1) p] 3 by simp
    qed
  qed
  have many: "puts view po1 (bytes_bits (take ?m buf) @ ?tail) (Option.bind (asn_put_many_bits po1 buf (8 * ?m))
      (\<lambda>(r, po). if r \<noteq> 0 then Some (- 1, po) else ?rest (need_eom ?n) po))"
    if e: "emits view po (length_bits ?n) po1" for po1
  proof (rule puts_then)
    have p: "po_wf po1" "po_output po1 = consume" using e 1(3) by (simp_all add: emits_def)
    have r: "ready po1" by (rule ready_emits [OF 1(2,4) e]) (simp add: length_length_bits)
    show "puts view po1 (bytes_bits (take ?m buf)) (asn_put_many_bits po1 buf (8 * ?m))"
      using put_many [OF p, of "8 * ?m" buf] length_units_le [of ?n] by (simp add: take_bytes_bits)
    show "puts view po2 ?tail (?rest (need_eom ?n) po2)" if e2: "emits view po1 (bytes_bits (take ?m buf)) po2" for po2
      using e2 p ready_emits [OF p(1) r e2] by (intro rest) (simp_all add: emits_def)
  qed
  have bits: "fragment_bits buf = length_bits ?n @ bytes_bits (take ?m buf) @ ?tail"
    by (subst fragment_bits.simps) (simp add: Let_def)
  let ?put = "\<lambda>((may_encode, need_eom), po). if may_encode < 0 then Some (- 1, po)
    else Option.bind (asn_put_many_bits po buf (8 * nat may_encode)) (\<lambda>(r, po).
      if r \<noteq> 0 then Some (- 1, po)
      else Option.bind (if need_eom then Option.bind (put_length po 0) (\<lambda>((r, _), po). Some (failed r, po))
                        else Some (False, po)) (\<lambda>(failed, po).
        if failed then Some (- 1, po) else put_fragments po (drop (nat may_encode) buf)))"
  have eq: "put_fragments po buf = Option.bind (put_length po ?n) ?put"
    using 1(5) by (subst put_fragments_unfold) (simp only: if_False)
  show ?case
    unfolding bits eq
  proof (rule puts_len_then [OF puts_len_ready [OF 1(2-4)]])
    fix po1 assume "emits view po (length_bits ?n) po1"
    from many [OF this] show "puts view po1 (bytes_bits (take ?m buf) @ ?tail) (?put ((int ?m, need_eom ?n), po1))"
      by (simp only: prod.case nat_int of_nat_less_0_iff if_False)
  qed simp
qed

end

sublocale byte_sink < uper: fragment_writer consume view uper_put_length uper_put_fragments "\<lambda>_. True" "\<lambda>r. r \<noteq> 0"
  by (unfold_locales, rule uper_put_fragments.simps, simp_all add: puts_uper_length)

context byte_sink
begin

lemmas puts_uper_fragments = uper.puts_fragments [OF _ _ TrueI]

end

section \<open>Reading fragments\<close>

text \<open>Readers share what they need of the length determinant.\<close>

locale length_reader =
  fixes get_length :: "asn_bit_data \<Rightarrow> ((int \<times> bool) \<times> asn_bit_data) option"
    and ready :: "asn_bit_data \<Rightarrow> bool"
  assumes gets_len_ready: "ready pd \<Longrightarrow> pd_at pd (length_bits n) \<Longrightarrow>
      gets pd (length_bits n) (int (length_units n), 16384 \<le> n) (get_length pd)"
    and ready_took: "ready pd \<Longrightarrow> pd_took pd n pd' \<Longrightarrow> 8 dvd n \<Longrightarrow> ready pd'"

locale fragment_reader = length_reader +
  fixes get_fragments :: "(nat \<Rightarrow> bool) \<Rightarrow> nat \<Rightarrow> INTEGER_t \<Rightarrow> asn_bit_data \<Rightarrow>
      (asn_dec_rval_code \<times> INTEGER_t \<times> asn_bit_data) option"
  assumes get_fragments_unfold: "get_fragments alloc k st pd =
      Option.bind (get_length pd) (\<lambda>((len, repeat), pd).
        if len < 0 then Some (RC_WMORE, st, pd)
        else if \<not> alloc k then Some (RC_FAIL, st, pd)
        else
          let buf = (case st of None \<Rightarrow> [] | Some b \<Rightarrow> b) in
          Option.bind (asn_get_many_bits pd False (8 * nat len)) (\<lambda>(ret, octets, pd).
            if ret < 0 then Some (RC_WMORE, Some buf, pd)
            else if repeat then get_fragments alloc (k + 1) (Some (buf @ octets)) pd
            else Some (RC_OK, Some (buf @ octets), pd)))"
begin

lemma gets_fragments:
  "ready pd \<Longrightarrow> pd_at pd (fragment_bits bs) \<Longrightarrow> (\<And>j. alloc j) \<Longrightarrow>
    \<exists>pd'. get_fragments alloc k st pd = Some (RC_OK, Some ((case st of None \<Rightarrow> [] | Some b \<Rightarrow> b) @ bs), pd') \<and>
      pd_took pd (length (fragment_bits bs)) pd'"
proof (induction bs arbitrary: pd k st rule: fragment_bits.induct)
  case (1 bs)
  let ?n = "length bs"
  let ?m = "length_units ?n"
  let ?old = "case st of None \<Rightarrow> [] | Some b \<Rightarrow> b"
  let ?tail = "if 16384 \<le> ?n then fragment_bits (drop ?m bs) else []"
  have bits: "fragment_bits bs = length_bits ?n @ bytes_bits (take ?m bs) @ ?tail"
    by (subst fragment_bits.simps) (simp add: Let_def)
  have at: "pd_at pd (length_bits ?n @ bytes_bits (take ?m bs) @ ?tail)" using 1(3) unfolding bits .
  obtain pd1 where len: "get_length pd = Some ((int ?m, 16384 \<le> ?n), pd1)"
      and took1: "pd_took pd (length (length_bits ?n)) pd1"
    using gets_len_ready [OF 1(2) pd_at_prefix [OF at]] by (auto simp: gets_def)
  note at1 = pd_at_took [OF at took1]
  have l: "length (take ?m bs) = ?m" using length_units_le [of ?n] by simp
  then obtain pd2 where oct: "asn_get_many_bits pd1 False (8 * ?m) = Some (0, take ?m bs, pd2)"
      and took2: "pd_took pd1 (length (bytes_bits (take ?m bs))) pd2"
    using gets_many [OF pd_at_prefix [OF at1], of "8 * ?m"] by auto
  note at2 = pd_at_took [OF at1 took2]
  note took12 = pd_took_trans [OF took1 took2]
  have ready2: "ready pd2" by (rule ready_took [OF 1(2) took12]) (simp add: length_length_bits)
  show ?case
  proof (cases "16384 \<le> ?n")
    case False
    then have "take ?m bs = bs" using length_units_cases(1) [of ?n] by simp
    then show ?thesis
      using False len oct took12 1(4) unfolding bits
      by (subst get_fragments_unfold) (simp add: Let_def)
  next
    case True
    have "pd_at pd2 (fragment_bits (drop ?m bs))" using at2 True by simp
    then obtain pd3 where "get_fragments alloc (k + 1) (Some (?old @ take ?m bs)) pd2 =
        Some (RC_OK, Some ((?old @ take ?m bs) @ drop ?m bs), pd3)"
        "pd_took pd2 (length (fragment_bits (drop ?m bs))) pd3"
      using 1(1) [OF refl refl True ready2 _ 1(4)] by (metis option.simps(5))
    then show ?thesis
      using True len oct pd_took_trans [OF took12] 1(4) unfolding bits
      by (subst get_fragments_unfold) (simp add: Let_def add.assoc)
  qed
qed

end

interpretation uper: length_reader "\<lambda>pd. uper_get_length pd (- 1) 0" "\<lambda>_. True"
  by unfold_locales (simp_all add: gets_uper_length)

interpretation uper: fragment_reader "\<lambda>pd. uper_get_length pd (- 1) 0" "\<lambda>_. True" uper_get_fragments
  by (unfold_locales, rule uper_get_fragments.simps)

section \<open>Numbers with bounds\<close>

text \<open>The bits of the flags of a type with bounds and no extension.\<close>

lemma root_flags:
  assumes "flags c = APC_CONSTRAINED"
  shows "flags c AND APC_EXTENSIBLE = 0" "flags c AND APC_SEMI_CONSTRAINED = 0"
    "flags c AND APC_CONSTRAINED \<noteq> 0" "flags c \<noteq> APC_UNCONSTRAINED"
  by (simp_all add: assms APC_CONSTRAINED_def APC_SEMI_CONSTRAINED_def APC_EXTENSIBLE_def APC_UNCONSTRAINED_def)

text \<open>The constraint of a type with bounds whose offsets take \<open>n\<close> bits.\<close>

definition uper_bounded :: "asn_per_constraint \<Rightarrow> nat \<Rightarrow> bool" where
  "uper_bounded c n \<longleftrightarrow> range_bits c = int n \<and> n \<le> 64 \<and> imax_bounds (lower_bound c) (upper_bound c) \<and>
     upper_bound c - lower_bound c < 2 ^ n"

lemma INTEGER_encode_uper_bounded:
  assumes "flags c = APC_CONSTRAINED" and "uper_bounded c n" and "\<not> is_unsigned specs" and "bs \<noteq> []"
    and "asn_INTEGER2imax (Some (Some bs)) = Some (Inr v)"
  shows "INTEGER_encode_uper specs (Some c) None (Some (Some bs)) po =
    (if lower_bound c \<le> v \<and> v \<le> upper_bound c
     then Option.bind (uper_put_constrained_whole_number_u po (word_of_int (v - lower_bound c)) (int n))
       (\<lambda>(r, po). Some (if r \<noteq> 0 then - 1 else 0, po))
     else Some (- 1, po))"
  using assms(2-5) root_flags [OF assms(1)] rebase_value [of "lower_bound c" "upper_bound c" v]
  by (auto simp: uper_bounded_def INTEGER_encode_uper_def uper_root_check_def encode_uper_value_def)

lemma INTEGER_decode_uper_bounded:
  assumes "flags c = APC_CONSTRAINED" and "uper_bounded c n" and "\<not> is_unsigned specs"
    and v: "lower_bound c \<le> v" "v \<le> upper_bound c" and at: "pd_at pd (val_bits n (v - lower_bound c))"
  shows "\<exists>pd'. INTEGER_decode_uper (\<lambda>_. True) fresh specs (Some c) None sptr pd =
      Some (RC_OK, Some (Some (imax_octets v)), pd') \<and> pd_took pd n pd'"
proof -
  let ?off = "word_of_int (v - lower_bound c) :: u64"
  have n: "range_bits c = int n" "n \<le> 64" and b: "imax_bounds (lower_bound c) (upper_bound c)"
    and small: "take_bit n (v - lower_bound c) = v - lower_bound c"
    using assms(2) v by (simp_all add: uper_bounded_def take_bit_int_eq_self)
  obtain pd' where get: "uper_get_constrained_whole_number pd (int n) = Some ((0, ?off), pd')" "pd_took pd n pd'"
    using gets_uper_cwn [OF at n(2)] small by (auto simp: gets_def)
  have "decode_uper_value (\<lambda>_. True) fresh specs (Some c) pd = Some (RC_OK, Some (Some (imax_octets v)), pd')"
    using get(1) unrebase_value [OF b v] n assms(3) root_flags [OF assms(1)]
    by (simp add: decode_uper_value_def Let_def asn_imax2INTEGER_octets)
  then show ?thesis
    using get(2) root_flags [OF assms(1)] by (cases sptr) (simp_all add: INTEGER_decode_uper_def)
qed

end
