(* ===== verification/Integer_Aper_Laws.thy ===== *)
theory Integer_Aper_Laws
  imports Integer_Aper Integer_Uper_Laws
begin

unbundle bit_operations_syntax

text \<open>
  What \<open>INTEGER_aper.c\<close> computes: the widths of its fields are those of X.691, the encoder writes
  the bits of a constrained whole number and the decoder reads them, and its loops over fragments
  satisfy the contracts of \<open>Integer_Uper_Laws\<close>.
\<close>

section \<open>Widths\<close>

lemma bit_width_le: "0 \<le> v \<Longrightarrow> 1 \<le> n \<Longrightarrow> bit_width v \<le> n \<longleftrightarrow> v < 2 ^ n"
proof
  assume v: "0 \<le> v" "bit_width v \<le> n"
  then have "(2::int) ^ (1 * bit_width v) \<le> 2 ^ n" by (intro power_increasing) auto
  moreover have "v < 2 ^ (1 * bit_width v)" using digits_bounds [of 1 v] v(1) by simp
  ultimately show "v < 2 ^ n" by linarith
next
  assume v: "0 \<le> v" "1 \<le> n" "v < 2 ^ n"
  show "bit_width v \<le> n"
  proof (rule ccontr)
    assume n: "\<not> bit_width v \<le> n"
    then have "(2::int) ^ n \<le> 2 ^ (1 * (bit_width v - 1))" by (intro power_increasing) auto
    moreover have "2 ^ (1 * (bit_width v - 1)) \<le> v" using digits_bounds [of 1 v] v n by force
    ultimately show False using v(3) by linarith
  qed
qed

lemma length_width_count:
  "1 \<le> m \<Longrightarrow> m < 2 ^ 30 \<Longrightarrow> 1 \<le> i \<Longrightarrow> i \<le> 30 \<Longrightarrow> length_width (m + 1) i = Some (max i (bit_width m))"
proof (induction "m + 1" i rule: length_width.induct)
  case (1 i)
  show ?case
  proof (cases "m < 2 ^ i")
    case True
    with 1 bit_width_le [of m i] show ?thesis
      by (subst length_width.simps) (simp add: push_bit_eq_mult max_def)
  next
    case False
    then have "i < bit_width m" "bit_width m \<le> 30" using 1 bit_width_le [of m i] bit_width_le [of m 30] by linarith+
    then show ?thesis using 1 False
      by (subst length_width.simps) (simp add: push_bit_eq_mult max_def)
  qed
qed

lemma top_octet_count:
  "0 \<le> v \<Longrightarrow> v < 2 ^ (8 * Suc j) \<Longrightarrow> top_octet v j = octet_count v - 1"
proof (induction j)
  case 0
  then show ?case by (simp add: digits.simps)
next
  case (Suc j)
  show ?case
  proof (cases "v < 2 ^ (8 * Suc j)")
    case True
    then have "drop_bit (8 * Suc j) v = 0" using Suc(2) by (simp add: drop_bit_eq_div)
    with True Suc show ?thesis by simp
  next
    case False
    then have "drop_bit (8 * Suc j) v \<noteq> 0"
      using Suc(2) pos_imp_zdiv_pos_iff [of "2 ^ (8 * Suc j)" v] unfolding drop_bit_eq_div by auto
    moreover have "octet_count v = Suc (Suc j)"
      using Suc(2,3) False by (intro digits_unique) auto
    ultimately show ?thesis by simp
  qed
qed

lemma bit_width_octets:
  assumes "1 \<le> r"
  shows "max_range_bytes (int (bit_width r)) = int (octet_count r)"
proof -
  let ?w = "bit_width r"
  note w = digits_bounds [of 1 r, simplified]
  have pos: "1 \<le> ?w" "2 ^ (?w - 1) \<le> r" "r < 2 ^ ?w"
    using w assms by (auto simp: power_0)
  define q t where "q = (?w - 1) div 8" and "t = (?w - 1) mod 8"
  have wq: "?w = 8 * q + t + 1" "t < 8" using pos(1) by (auto simp: q_def t_def)
  have "octet_count r = q + 1"
  proof (rule digits_unique)
    have "(2::int) ^ ?w \<le> 2 ^ (8 * (q + 1))" using wq by (intro power_increasing) auto
    then show "r < 2 ^ (8 * (q + 1))" using pos(3) by linarith
    have "(2::int) ^ (8 * q) \<le> 2 ^ (?w - 1)" using wq by (intro power_increasing) auto
    then have "2 ^ (8 * q) \<le> r" using pos(2) by linarith
    then show "q + 1 = 1 \<or> 2 ^ (8 * (q + 1 - 1)) \<le> r" by simp
  qed (use assms in auto)
  moreover have "max_range_bytes (int ?w) = int q + 1"
  proof -
    have w: "int ?w = 8 * int q + (int t + 1)" using wq by simp
    show ?thesis
      unfolding max_range_bytes_def drop_bit_eq_div w using wq(2) by simp presburger
  qed
  ultimately show ?thesis by simp
qed

section \<open>Octets\<close>

lemma gets_octets:
  assumes "pd_at pd (val_bits (8 * n) v)" and "0 \<le> v" and "v < 2 ^ (8 * n)" and "n \<le> 8"
    and "0 \<le> acc" and "acc + v < 2 ^ 63"
  shows "gets pd (val_bits (8 * n) v) (Some (acc + v)) (aper_get_octets n acc pd)"
  using assms
proof (induction n arbitrary: v acc pd)
  case 0
  then have "v = 0" by simp
  with 0 show ?case by (simp add: gets_nothing pd_at_def)
next
  case (Suc n)
  let ?h = "drop_bit (8 * n) v" and ?t = "take_bit (8 * n) v"
  have h: "0 \<le> ?h" "?h < 2 ^ 8"
  proof -
    show "0 \<le> ?h" using Suc.prems(2) by simp
    have "v < 2 ^ (8 * n) * 2 ^ 8" using Suc.prems(3) by (simp add: power_add mult.commute)
    moreover have "2 ^ 8 * 2 ^ (8 * n) \<le> v" if "2 ^ 8 \<le> v div 2 ^ (8 * n)"
    proof -
      have "2 ^ 8 * 2 ^ (8 * n) \<le> v div 2 ^ (8 * n) * 2 ^ (8 * n)" using that by (rule mult_right_mono) simp
      moreover have "0 \<le> v mod 2 ^ (8 * n)" by simp
      ultimately show ?thesis using minus_mod_eq_div_mult [of v "2 ^ (8 * n)"] by linarith
    qed
    ultimately show "?h < 2 ^ 8" by (cases "?h < 2 ^ 8") (simp_all add: drop_bit_eq_div mult.commute)
  qed
  have sum: "push_bit (8 * n) ?h + ?t = v" by (simp add: bits_ident)
  have t: "0 \<le> ?t" "?t < 2 ^ (8 * n)" by simp_all
  have p: "0 \<le> push_bit (8 * n) ?h" using h(1) by simp
  have small: "push_bit (8 * n) ?h \<le> LLONG_MAX" "acc + push_bit (8 * n) ?h \<le> LLONG_MAX"
      "LLONG_MIN \<le> push_bit (8 * n) ?h" "LLONG_MIN \<le> acc + push_bit (8 * n) ?h"
    using sum t(1) p Suc.prems(5,6) unfolding LLONG_MAX_def LLONG_MIN_def by linarith+
  have bits: "val_bits (8 * Suc n) v = val_bits 8 ?h @ val_bits (8 * n) ?t"
    using val_bits_split [of 8 "8 * n" v] by simp
  note at = Suc.prems(1) [unfolded bits]
  show ?case
    unfolding bits aper_get_octets.simps
  proof (rule gets_then)
    show "gets pd (val_bits 8 ?h) ?h (asn_get_few_bits 8 pd)"
      using gets_few [OF pd_at_prefix [OF at]] h by simp
    fix pd1 assume took: "pd_took pd (length (val_bits 8 ?h)) pd1"
    have "gets pd1 (val_bits (8 * n) ?t) (Some ((acc + push_bit (8 * n) ?h) + ?t))
        (aper_get_octets n (acc + push_bit (8 * n) ?h) pd1)"
      using Suc.prems sum p t by (intro Suc.IH pd_at_took [OF at took]) linarith+
    moreover have "acc + push_bit (8 * n) ?h + ?t = acc + v" using sum by linarith
    ultimately show "gets pd1 (val_bits (8 * n) ?t) (Some (acc + v)) (case (?h, pd1) of (buf, pd) \<Rightarrow>
        if buf < 0 then Some (None, pd)
        else if 64 \<le> 8 * n then None
        else Option.bind (s64 (push_bit (8 * n) buf)) (\<lambda>d. Option.bind (s64 (acc + d)) (\<lambda>v.
          aper_get_octets n v pd)))"
      using h(1) small Suc.prems(4) by simp
  qed
qed

lemma word_octet: "word_of_int (drop_bit (8 * j) v AND 0xFF) = (word_of_int (take_bit 8 (drop_bit (8 * j) v)) :: u32)"
  using take_bit_eq_mask [of 8 "drop_bit (8 * j) v"] by (simp add: mask_eq_exp_minus_1)

context byte_sink
begin

lemma puts_octets:
  "po_wf po \<Longrightarrow> po_output po = consume \<Longrightarrow>
    puts view po (val_bits (8 * Suc j) v) (aper_put_octets po v j)"
proof (induction j arbitrary: po)
  case 0
  have "puts view po (val_bits 8 (take_bit 8 v)) (asn_put_few_bits po (word_of_int (take_bit 8 v)) (int 8))"
    using 0 by (intro puts_word) auto
  then have "puts view po (val_bits 8 (take_bit 8 v) @ []) (Option.bind
      (asn_put_few_bits po (word_of_int (take_bit 8 v)) (int 8)) (\<lambda>(r, po). if r \<noteq> 0 then Some (- 1, po) else Some (0, po)))"
    by (rule puts_then) (simp add: puts_nothing emits_def)
  then show ?case
    using word_octet [of 0 v] by (subst aper_put_octets.simps) (simp cong: if_cong)
next
  case (Suc j)
  let ?h = "take_bit 8 (drop_bit (8 * Suc j) v)"
  have bits: "val_bits (8 * Suc (Suc j)) v = val_bits 8 ?h @ val_bits (8 * Suc j) v"
    using val_bits_split [of 8 "8 * Suc j" v] by simp
  have "puts view po (val_bits 8 ?h) (asn_put_few_bits po (word_of_int ?h) (int 8))"
    using Suc.prems by (intro puts_word) auto
  then have "puts view po (val_bits 8 ?h @ val_bits (8 * Suc j) v) (Option.bind
      (asn_put_few_bits po (word_of_int ?h) (int 8)) (\<lambda>(r, po). if r \<noteq> 0 then Some (- 1, po) else aper_put_octets po v j))"
    by (rule puts_then) (use Suc in \<open>auto simp: emits_def\<close>)
  then show ?case
    unfolding bits by (subst aper_put_octets.simps) (simp add: word_octet [of "Suc j", simplified] cong: if_cong)
qed

end

section \<open>Offsets\<close>

text \<open>
  The constraint of a type with bounds, as the tables have it: the width of the range is that of
  its largest offset.
\<close>

definition bounded :: "asn_per_constraint \<Rightarrow> bool" where
  "bounded c \<longleftrightarrow> long_range (lower_bound c) (upper_bound c) \<and>
     range_bits c = (if lower_bound c = upper_bound c then 0 else int (bit_width (upper_bound c - lower_bound c)))"

text \<open>The bits of a large range, after its count of octets.\<close>

lemma cwn_bits_large:
  assumes "65536 \<le> ub - lb"
  shows "cwn_bits ph lb ub x =
    (let head = val_bits (bit_width (int (octet_count (ub - lb)) - 1)) (int (octet_count (x - lb)) - 1)
     in head @ align_pad (ph + length head) @ val_bits (8 * octet_count (x - lb)) (x - lb))"
  using assms by (simp add: cwn_bits_def Let_def)

lemma bounded_widths:
  assumes "bounded c" and "lb = lower_bound c" and "ub = upper_bound c" and "lb \<noteq> ub"
  shows "range_bits c = int (bit_width (ub - lb))"
    and "bit_width (ub - lb) \<le> 7 \<longleftrightarrow> ub - lb < 128" and "bit_width (ub - lb) \<le> 8 \<longleftrightarrow> ub - lb < 256"
    and "bit_width (ub - lb) \<le> 16 \<longleftrightarrow> ub - lb < 65536" and "ub - lb < 2 ^ bit_width (ub - lb)"
  using assms bit_width_le [of "ub - lb" 7] bit_width_le [of "ub - lb" 8] bit_width_le [of "ub - lb" 16]
    digits_bounds [of 1 "ub - lb"]
  by (auto simp: bounded_def long_range_def)

lemma large_range:
  assumes "long_range lb ub" and "65536 \<le> ub - lb" and "lb \<le> x" and "x \<le> ub"
  defines "m \<equiv> octet_count (ub - lb)" and "k \<equiv> octet_count (x - lb)"
  shows "3 \<le> m" "m \<le> 8" "1 \<le> k" "k \<le> m" "x - lb < 2 ^ (8 * k)" "int k - 1 < 2 ^ bit_width (int m - 1)"
    and "length_width (int m) 1 = Some (bit_width (int m - 1))"
    and "max_range_bytes (int (bit_width (ub - lb))) = int m" and "bit_width (int m - 1) \<le> 3"
proof -
  have r: "0 \<le> ub - lb" "ub - lb < 2 ^ 63" "0 \<le> x - lb" using assms by (auto simp: long_range_def LLONG_MAX_def)
  show m: "3 \<le> m" "m \<le> 8"
    using octet_count_le [of "ub - lb" 2] octet_count_le [of "ub - lb" 8] r assms(2) by (auto simp: m_def)
  show k: "1 \<le> k" using octet_count_pos by (simp add: k_def)
  have "ub - lb < 2 ^ (8 * m)" using octet_count_le [of "ub - lb" m] r m by (simp add: m_def)
  then have "x - lb < 2 ^ (8 * m)" using assms(4) by linarith
  then show km: "k \<le> m" using octet_count_le [of "x - lb" m] r m by (simp add: k_def)
  show "x - lb < 2 ^ (8 * k)" using octet_count_le [of "x - lb" k] r k by (simp add: k_def)
  show "int k - 1 < 2 ^ bit_width (int m - 1)"
    using digits_bounds [of 1 "int m - 1"] m km by simp
  show "length_width (int m) 1 = Some (bit_width (int m - 1))"
    using length_width_count [of "int m - 1" 1] m digits_bounds [of 1 "int m - 1"] by (simp add: max_def)
  show "max_range_bytes (int (bit_width (ub - lb))) = int m"
    using bit_width_octets [of "ub - lb"] assms(2) by (simp add: m_def)
  show "bit_width (int m - 1) \<le> 3" using bit_width_le [of "int m - 1" 3] m by simp
qed

lemma gets_starved:
  assumes "pd_at pd (val_bits n v)" and "n \<le> 31" and "0 \<le> v" and "v < 2 ^ n"
  shows "gets pd (val_bits n v) (Inr v) (Option.bind (asn_get_few_bits (int n) pd)
    (\<lambda>(v, pd). Some (if v < 0 then Inl code else Inr v, pd)))"
  using gets_few [OF assms] assms(3) by (auto simp: gets_def)

lemma gets_aligned_starved:
  assumes "pd_at pd (align_pad (pd_nboff pd) @ val_bits n v)" and "n \<le> 31" and "0 \<le> v" and "v < 2 ^ n"
  shows "gets pd (align_pad (pd_nboff pd) @ val_bits n v) (Inr v) (Option.bind (aper_get_align pd) (\<lambda>(r, pd).
    if r < 0 then Some (Inl code', pd)
    else Option.bind (asn_get_few_bits (int n) pd) (\<lambda>(v, pd). Some (if v < 0 then Inl code else Inr v, pd))))"
  using assms(2-4) by (intro gets_aligned [OF assms(1)] gets_starved) auto

lemma gets_offset:
  assumes c: "bounded c" and lb: "lb = lower_bound c" and ub: "ub = upper_bound c"
    and at: "pd_at pd (cwn_bits (pd_nboff pd) lb ub x)"
    and x: "lb \<le> x" "x \<le> ub"
    and phase: "range_bits c = 8 \<Longrightarrow> ub - lb = 255 \<or> pd_nboff pd mod 8 = 0"
  shows "gets pd (cwn_bits (pd_nboff pd) lb ub x) (Inr (x - lb)) (aper_get_offset (range_bits c) pd)"
proof -
  obtain v where v: "x = lb + v" "0 \<le> v" "v \<le> ub - lb" using x by (intro that [of "x - lb"]) auto
  have xv: "x - lb = v" using v(1) by simp
  have r: "long_range lb ub" using c lb ub by (simp add: bounded_def)
  note w = bounded_widths [OF c lb ub]
  consider "lb = ub" | "lb \<noteq> ub" "ub - lb < 128" | "128 \<le> ub - lb" "ub - lb < 256"
    | "256 \<le> ub - lb" "ub - lb < 65536" | "65536 \<le> ub - lb" by linarith
  then show ?thesis
  proof cases
    case 1
    then have "v = 0" "range_bits c = int 0" "cwn_bits (pd_nboff pd) lb ub x = val_bits 0 0"
      using v c lb ub by (auto simp: cwn_bits_def bounded_def)
    then show ?thesis
      using gets_starved [of pd 0 0] at xv by (simp add: aper_get_offset_def)
  next
    case 2
    let ?w = "bit_width (ub - lb)"
    have "?w \<le> 7" "v < 2 ^ ?w" "range_bits c = int ?w" using w 2 v by auto
    moreover have bits: "cwn_bits (pd_nboff pd) lb ub x = val_bits ?w v"
      using 2 x unfolding cwn_bits_def Let_def xv by simp
    ultimately show ?thesis
      using gets_starved [of pd ?w v] at v(2) unfolding bits xv by (simp add: aper_get_offset_def)
  next
    case 3
    then have rb: "bit_width (ub - lb) = 8" using w(2,3) by force
    then have rb': "range_bits c = int 8" using w(1) 3 by simp
    then have bits: "cwn_bits (pd_nboff pd) lb ub x = align_pad (pd_nboff pd) @ val_bits 8 v"
      using 3 phase rb unfolding cwn_bits_def Let_def xv by auto
    show ?thesis
      using gets_aligned_starved [OF at [unfolded bits]] v 3
      unfolding bits xv rb' by (simp add: aper_get_offset_def cong: if_cong)
  next
    case 4
    then have rb: "8 < range_bits c" "range_bits c \<le> 16" using w(1-4) by auto
    have bits: "cwn_bits (pd_nboff pd) lb ub x = align_pad (pd_nboff pd) @ val_bits 16 v"
      using 4 unfolding cwn_bits_def Let_def xv by simp
    show ?thesis
      using gets_aligned_starved [OF at [unfolded bits]] v 4 rb
      unfolding bits xv by (simp add: aper_get_offset_def cong: if_cong)
  next
    case 5
    define m k i where "m = octet_count (ub - lb)" and "k = octet_count v" and "i = bit_width (int m - 1)"
    note L = large_range [OF r 5 x, unfolded xv, folded m_def k_def, folded i_def]
    have rb: "16 < range_bits c" "max_range_bytes (range_bits c) = int m"
      using w(1,4) 5 L(8) by auto
    let ?head = "val_bits i (int k - 1)"
    let ?pad = "align_pad (pd_nboff pd + i)"
    have bits: "cwn_bits (pd_nboff pd) lb ub x = ?head @ ?pad @ val_bits (8 * k) v"
      using cwn_bits_large [OF 5, where x = x] unfolding xv by (simp add: Let_def m_def k_def i_def)
    note at' = at [unfolded bits]
    let ?octets = "\<lambda>len pd. Option.bind (aper_get_octets (nat (len + 1)) 0 pd) (\<lambda>(v, pd).
             Some (case v of None \<Rightarrow> Inl RC_FAIL | Some v \<Rightarrow> Inr v, pd))"
    have octets: "gets pd2 (val_bits (8 * k) v) (Inr v) (?octets (int k - 1) pd2)"
      if "pd_at pd2 (val_bits (8 * k) v)" for pd2
      using gets_octets [OF that, of 0] v L(2-5) r 5 by (auto simp: gets_def long_range_def LLONG_MAX_def)
    have "gets pd (?head @ ?pad @ val_bits (8 * k) v) (Inr v) (Option.bind (asn_get_few_bits (int i) pd) (\<lambda>(len, pd).
         if len < 0 then Some (Inl RC_FAIL, pd)
         else Option.bind (aper_get_align pd) (\<lambda>(r, pd).
           if r \<noteq> 0 then Some (Inl RC_FAIL, pd) else ?octets len pd)))"
    proof (rule gets_then)
      show "gets pd ?head (int k - 1) (asn_get_few_bits (int i) pd)"
        using gets_few [OF pd_at_prefix [OF at']] L(3,6,9) by simp
      fix pd1 assume took: "pd_took pd (length ?head) pd1"
      then have pad: "?pad = align_pad (pd_nboff pd1)" using pd_took_phase [OF took] by (metis align_pad_mod length_val_bits)
      note at1 = pd_at_took [OF at' took, unfolded pad]
      have "gets pd1 (align_pad (pd_nboff pd1) @ val_bits (8 * k) v) (Inr v) (Option.bind (aper_get_align pd1)
          (\<lambda>(r, pd). if r \<noteq> 0 then Some (Inl RC_FAIL, pd) else ?octets (int k - 1) pd))"
        by (rule gets_then [OF gets_align [OF pd_at_prefix [OF at1]]])
          (use octets pd_at_took [OF at1] in auto)
      then show "gets pd1 (?pad @ val_bits (8 * k) v) (Inr v) (case (int k - 1, pd1) of (len, pd) \<Rightarrow>
         if len < 0 then Some (Inl RC_FAIL, pd)
         else Option.bind (aper_get_align pd) (\<lambda>(r, pd).
           if r \<noteq> 0 then Some (Inl RC_FAIL, pd) else ?octets len pd))"
        unfolding pad using L(3) by simp
    qed
    then show ?thesis
      unfolding bits xv using rb L(7) by (simp add: aper_get_offset_def)
  qed
qed

context byte_sink
begin

lemma puts_aligned_neg:
  assumes "po_wf po" and "po_output po = consume"
    and "\<And>po1. po_wf po1 \<Longrightarrow> po_output po1 = consume \<Longrightarrow> po_nboff po1 mod 8 = 0 \<Longrightarrow> puts view po1 bs (k po1)"
  shows "puts view po (align_pad (po_nboff po) @ bs)
    (Option.bind (aper_put_align po) (\<lambda>(r, po). if r < 0 then Some (- 1, po) else k po))"
proof -
  have "Option.bind (aper_put_align po) (\<lambda>(r, po). if r < 0 then Some (- 1, po) else k po) =
      Option.bind (aper_put_align po) (\<lambda>(r, po). if r \<noteq> 0 then Some (- 1, po) else k po)"
  proof (cases "aper_put_align po")
    case (Some s)
    then show ?thesis using aper_put_align_result [of po "fst s" "snd s"] by (cases s) auto
  qed simp
  then show ?thesis using puts_aligned [where k = k and bs = bs, OF assms] by (simp only:)
qed

lemma puts_aligned_word:
  assumes "po_wf po" and "po_output po = consume" and "n \<le> 31"
  shows "puts view po (align_pad (po_nboff po) @ val_bits n v)
    (Option.bind (aper_put_align po) (\<lambda>(r, po). if r < 0 then Some (- 1, po)
      else Option.bind (asn_put_few_bits po (word_of_int v) (int n)) (\<lambda>(r, po). Some (if r \<noteq> 0 then - 1 else 0, po))))"
  by (rule puts_aligned_neg [OF assms(1,2)], rule puts_last, rule puts_word) (use assms(3) in simp_all)

lemma puts_offset:
  assumes wf: "po_wf po" and out: "po_output po = consume" and c: "bounded c"
    and lb: "lb = lower_bound c" and ub: "ub = upper_bound c" and x: "lb \<le> x" "x \<le> ub"
  shows "puts view po (cwn_bits (po_nboff po) lb ub x) (aper_put_offset po c x)"
proof -
  obtain v where v: "x = lb + v" "0 \<le> v" "v \<le> ub - lb" using x by (intro that [of "x - lb"]) auto
  have xv: "x - lb = v" using v(1) by simp
  have r: "long_range lb ub" using c lb ub by (simp add: bounded_def)
  have rng: "Option.bind (s64 (x - lb)) f = f v" "Option.bind (s64 (ub - lb)) g = g (ub - lb)"
      "Option.bind (s64 (ub - lb + 1)) g = g (ub - lb + 1)" for f g :: "int \<Rightarrow> (int \<times> 'k asn_bit_outp) option"
    using long_rangeD(1,2) [OF r] long_rangeD(3) [OF r x] by (simp_all only: xv)
  note w = bounded_widths [OF c lb ub]
  have int_range: "sint (word_of_int (ub - lb + 1) :: u32) = ub - lb + 1" if "ub - lb < 256"
    unfolding sint_sbintrunc' using that v by (simp add: signed_take_bit_int_eq_self)
  consider "lb = ub" | "lb \<noteq> ub" "ub - lb < 255" | "ub - lb = 255"
    | "256 \<le> ub - lb" "ub - lb < 65536" | "65536 \<le> ub - lb" by linarith
  then show ?thesis
  proof cases
    case 1
    then have "v = 0" "range_bits c = int 0" "cwn_bits (po_nboff po) lb ub x = val_bits 0 0"
      using v c lb ub by (auto simp: cwn_bits_def bounded_def)
    then show ?thesis
      using puts_last [OF puts_word [OF wf out, of 0 0]] rng by (simp add: aper_put_offset_def flip: lb ub)
  next
    case 2
    let ?w = "bit_width (ub - lb)"
    have w8: "?w \<le> 8" "range_bits c = int ?w" using w 2 by auto
    moreover have bits: "cwn_bits (po_nboff po) lb ub x = val_bits ?w v"
      using 2 x unfolding cwn_bits_def Let_def xv by simp
    ultimately show ?thesis
      using puts_last [OF puts_word [OF wf out, of ?w v]] rng int_range 2 unfolding bits
      by (auto simp: aper_put_offset_def simp flip: lb ub)
  next
    case 3
    then have "bit_width (ub - lb) = 8" using w(2,3) by force
    then have rb: "range_bits c = int 8" using w(1) 3 by simp
    have bits: "cwn_bits (po_nboff po) lb ub x = align_pad (po_nboff po) @ val_bits 8 v"
      using 3 unfolding cwn_bits_def Let_def xv by simp
    show ?thesis
      using puts_aligned_word [OF wf out, of 8 v] rng int_range 3 rb unfolding bits
      by (simp add: aper_put_offset_def flip: lb ub cong: if_cong)
  next
    case 4
    then have rb: "8 < range_bits c" "range_bits c \<le> 16" using w(1-4) by auto
    have bits: "cwn_bits (po_nboff po) lb ub x = align_pad (po_nboff po) @ val_bits 16 v"
      using 4 unfolding cwn_bits_def Let_def xv by simp
    show ?thesis
      using puts_aligned_word [OF wf out, of 16 v] rng 4 rb unfolding bits
      by (simp add: aper_put_offset_def flip: lb ub cong: if_cong)
  next
    case 5
    define m k i where "m = octet_count (ub - lb)" and "k = octet_count v" and "i = bit_width (int m - 1)"
    note L = large_range [OF r 5 x, unfolded xv, folded m_def k_def, folded i_def]
    have rb: "16 < range_bits c" "max_range_bytes (range_bits c) = int m"
      using w(1,4) 5 L(8) by auto
    let ?head = "val_bits i (int k - 1)"
    let ?pad = "align_pad (po_nboff po + i)"
    have bits: "cwn_bits (po_nboff po) lb ub x = ?head @ ?pad @ val_bits (8 * k) v"
      using cwn_bits_large [OF 5, where x = x] unfolding xv by (simp add: Let_def m_def k_def i_def)
    have top: "top_octet v 7 = k - 1"
      using top_octet_count [of v 7] v r by (simp add: k_def long_range_def LLONG_MAX_def)
    have "puts view po (?head @ ?pad @ val_bits (8 * k) v)
      (Option.bind (asn_put_few_bits po (word_of_int (int k - 1)) (int i)) (\<lambda>(r, po). if r \<noteq> 0 then Some (- 1, po)
        else Option.bind (aper_put_align po) (\<lambda>(r, po). if r < 0 then Some (- 1, po) else aper_put_octets po v (k - 1))))"
    proof (rule puts_then [OF puts_word [OF wf out]])
      show "i \<le> 31" using L(9) by simp
      fix po1 assume e: "emits view po ?head po1"
      then have p1: "po_wf po1" "po_output po1 = consume" using out by (auto simp: emits_def)
      have pad: "?pad = align_pad (po_nboff po1)" using emits_phase [OF wf e] by (metis align_pad_mod length_val_bits)
      have "val_bits (8 * k) v = val_bits (8 * Suc (k - 1)) v" using L(3) by simp
      then show "puts view po1 (?pad @ val_bits (8 * k) v) (Option.bind (aper_put_align po1)
          (\<lambda>(r, po). if r < 0 then Some (- 1, po) else aper_put_octets po v (k - 1)))"
        unfolding pad by (simp only:) (intro puts_aligned_neg p1 puts_octets)
    qed
    moreover have "word_of_int (int k - 1) = (of_nat (k - 1) :: u32)" using L(3) by (simp add: of_nat_diff)
    ultimately show ?thesis
      unfolding bits using rb L(7) rng top by (simp add: aper_put_offset_def Let_def flip: lb ub cong: if_cong)
  qed
qed

end

section \<open>Fragments\<close>

text \<open>
  At an octet boundary the determinant takes no padding, and the loops satisfy the contracts of
  the unaligned encoding. Elsewhere the first determinant aligns.
\<close>

sublocale byte_sink < aper: fragment_writer consume view "\<lambda>po. aper_put_length po (- 1) (- 1)" aper_put_fragments
    "\<lambda>po. po_nboff po mod 8 = 0" "\<lambda>r. r < 0"
proof (unfold_locales, rule aper_put_fragments.simps)
  show "puts_len view po (length_bits n) n (aper_put_length po (- 1) (- 1) n)"
    if "po_wf po" "po_output po = consume" "po_nboff po mod 8 = 0" for po n
    using puts_length [of po "- 1" "- 1" n] that by simp
  show "po_nboff po' mod 8 = 0"
    if "po_wf po" "po_nboff po mod 8 = 0" "emits view po bs po'" "8 dvd length bs" for po po' bs
    using emits_phase [OF that(1,3)] that(2,4) by (auto elim: dvdE)
qed simp_all

interpretation aper: length_reader "\<lambda>pd. aper_get_length pd (- 1) (- 1) (- 1)" "\<lambda>pd. pd_nboff pd mod 8 = 0"
proof
  show "gets pd (length_bits n) (int (length_units n), 16384 \<le> n) (aper_get_length pd (- 1) (- 1) (- 1))"
    if "pd_nboff pd mod 8 = 0" "pd_at pd (length_bits n)" for pd n
    using gets_length [of pd n "- 1" "- 1" "- 1"] that by simp
  show "pd_nboff pd' mod 8 = 0" if "pd_nboff pd mod 8 = 0" "pd_took pd n pd'" "8 dvd n" for pd pd' n
    using pd_took_phase [OF that(2)] that(1,3) by (auto elim: dvdE)
qed

interpretation aper: fragment_reader "\<lambda>pd. aper_get_length pd (- 1) (- 1) (- 1)" "\<lambda>pd. pd_nboff pd mod 8 = 0"
    aper_get_fragments
  by (unfold_locales, rule aper_get_fragments.simps)

text \<open>The first determinant of an encoding aligns; this only happens before the loop goes on.\<close>

lemma aper_get_length_align:
  assumes "aper_get_align pd = Some (0, pd1)" and "pd_nboff pd1 mod 8 = 0"
  shows "aper_get_length pd (- 1) (- 1) (- 1) = aper_get_length pd1 (- 1) (- 1) (- 1)"
  using assms by (simp add: aper_get_length_def aper_get_align_def)

lemma aper_put_length_align:
  assumes "aper_put_align po = Some (0, po1)" and "po_nboff po1 mod 8 = 0"
  shows "aper_put_length po (- 1) (- 1) n = aper_put_length po1 (- 1) (- 1) n"
  using assms by (simp add: aper_put_length_def aper_put_align_def Let_def)

lemma gets_aper_fragments:
  assumes at: "pd_at pd (align_pad (pd_nboff pd) @ fragment_bits bs)" and alloc: "\<And>j. alloc j"
  shows "\<exists>pd'. aper_get_fragments alloc k st pd = Some (RC_OK, Some ((case st of None \<Rightarrow> [] | Some b \<Rightarrow> b) @ bs), pd') \<and>
    pd_took pd (length (align_pad (pd_nboff pd) @ fragment_bits bs)) pd'"
proof -
  obtain pd1 where al: "aper_get_align pd = Some (0, pd1)" "pd_took pd (length (align_pad (pd_nboff pd))) pd1"
    using gets_align [OF pd_at_prefix [OF at]] by (auto simp: gets_def)
  have ph: "pd_nboff pd1 mod 8 = 0" using pd_took_phase [OF al(2)] align_pad_aligns by simp
  have "aper_get_fragments alloc k st pd = aper_get_fragments alloc k st pd1"
    using aper_get_length_align [OF al(1) ph]
    by (simp only: aper.get_fragments_unfold [of _ _ _ pd] aper.get_fragments_unfold [of _ _ _ pd1])
  then show ?thesis
    using aper.gets_fragments [OF ph pd_at_took [OF at al(2)], of alloc k st] alloc pd_took_trans [OF al(2)] by auto
qed

context byte_sink
begin

lemma puts_aper_fragments:
  assumes wf: "po_wf po" and out: "po_output po = consume" and bs: "bs \<noteq> []"
  shows "puts view po (align_pad (po_nboff po) @ fragment_bits bs) (aper_put_fragments po bs)"
proof -
  obtain r po1 where al: "aper_put_align po = Some (r, po1)"
      "r = 0 \<and> emits view po (align_pad (po_nboff po)) po1 \<or> r = - 1 \<and> overflows view po (align_pad (po_nboff po))"
    using puts_align [OF wf out] by (auto simp: puts_def)
  show ?thesis
  proof (cases "r = 0")
    case False
    then have "aper_put_length po (- 1) (- 1) n = Some ((- 1, False), po1)" for n
      using al by (auto simp: aper_put_length_def Let_def)
    then show ?thesis using False al(2) bs
      by (subst aper_put_fragments.simps) (auto simp: puts_def overflows_append)
  next
    case True
    with al(2) have e: "emits view po (align_pad (po_nboff po)) po1" by simp
    then have p1: "po_wf po1" "po_output po1 = consume" using out by (auto simp: emits_def)
    have ph: "po_nboff po1 mod 8 = 0" using emits_phase [OF wf e] align_pad_aligns by simp
    have "aper_put_fragments po bs = aper_put_fragments po1 bs"
      using bs aper_put_length_align [OF al(1) [unfolded True] ph]
      by (simp only: aper.put_fragments_unfold [of po] aper.put_fragments_unfold [of po1] if_False)
    then show ?thesis using puts_after [OF e aper.puts_fragments [OF p1 ph bs]] by simp
  qed
qed

end

section \<open>Numbers with bounds\<close>

lemma INTEGER_encode_aper_bounded:
  assumes "flags c = APC_CONSTRAINED" and "bounded c" and "\<not> is_unsigned specs" and "bs \<noteq> []"
    and "asn_INTEGER2imax (Some (Some bs)) = Some (Inr v)"
  shows "INTEGER_encode_aper specs (Some c) None (Some (Some bs)) po =
    (if lower_bound c \<le> v \<and> v \<le> upper_bound c then aper_put_offset po c v else Some (- 1, po))"
proof -
  have "0 \<le> range_bits c" using assms(2) by (simp add: bounded_def)
  then show ?thesis
    using assms(3-5) root_flags [OF assms(1)]
    by (auto simp: INTEGER_encode_aper_def aper_root_check_def encode_aper_value_def)
qed

lemma INTEGER_decode_aper_bounded:
  assumes "flags c = APC_CONSTRAINED" and "bounded c" and "\<not> is_unsigned specs"
    and "LLONG_MIN \<le> lower_bound c" and "upper_bound c \<le> LLONG_MAX" and v: "lower_bound c \<le> v" "v \<le> upper_bound c"
    and at: "pd_at pd (cwn_bits (pd_nboff pd) (lower_bound c) (upper_bound c) v)"
    and phase: "range_bits c = 8 \<Longrightarrow> upper_bound c - lower_bound c = 255 \<or> pd_nboff pd mod 8 = 0"
  shows "\<exists>pd'. INTEGER_decode_aper (\<lambda>_. True) fresh specs (Some c) None sptr pd =
      Some (RC_OK, Some (Some (imax_octets v)), pd') \<and>
    pd_took pd (length (cwn_bits (pd_nboff pd) (lower_bound c) (upper_bound c) v)) pd'"
proof -
  have rb: "0 \<le> range_bits c" using assms(2) by (simp add: bounded_def)
  obtain pd' where get: "aper_get_offset (range_bits c) pd = Some (Inr (v - lower_bound c), pd')"
      "pd_took pd (length (cwn_bits (pd_nboff pd) (lower_bound c) (upper_bound c) v)) pd'"
    using gets_offset [OF assms(2) refl refl at v phase] by (auto simp: gets_def)
  have "decode_aper_bounded (\<lambda>_. True) specs c st pd = Some (RC_OK, Some (Some (imax_octets v)), pd')" for st
    using get(1) rb v assms(3-5) by (simp add: decode_aper_bounded_def asn_imax2INTEGER_octets)
  then have "decode_aper_value (\<lambda>_. True) fresh specs (Some c) pd = Some (RC_OK, Some (Some (imax_octets v)), pd')"
    using rb root_flags [OF assms(1)] by (simp add: decode_aper_value_def Let_def)
  then show ?thesis
    using get(2) root_flags [OF assms(1)] by (cases sptr) (simp_all add: INTEGER_decode_aper_def)
qed

end
