(* ===== verification/Per_Type_Laws.thy ===== *)
theory Per_Type_Laws
  imports Per_Decoder Integer_Aper_Laws
begin

unbundle bit_operations_syntax

text \<open>
  The contract between a type and the code that encodes and decodes messages: the type's encoder
  appends the bits of a value and its decoder finds the value in these bits, whether it makes its
  target or is given one that fits. Under it a complete
  encoding is decoded to the value it was made from, and an open type carries the value across,
  and satisfies the contract again.
\<close>

section \<open>The growing buffer never refuses\<close>

text \<open>
  \<open>encode_dyn_cb\<close> with an allocator that does not fail accepts everything, so it keeps the contract of
  a sink for every number of octets as its capacity.
\<close>

definition grow_view :: "nat \<Rightarrow> enc_dyn_arg sink_view" where
  "grow_view n arg = (take (ed_length arg) (ed_buffer arg), n)"

interpretation grow: strict_sink "encode_dyn_cb (\<lambda>_. True)" "grow_view n" for n
  by unfold_locales (auto simp: encode_dyn_cb_def grow_view_def Let_def split: if_splits)

text \<open>The buffer has exactly the octets the encoding takes.\<close>

definition padded :: "bool list \<Rightarrow> bool list" where
  "padded bs = bs @ octet_pad (length bs)"

lemma length_padded: "length (padded bs) = 8 * ((length bs + 7) div 8)"
proof -
  let ?n = "length bs"
  obtain q r where n: "?n = 8 * q + r" "r < 8" by (metis mult_div_mod_eq mod_less_divisor zero_less_numeral)
  have "(?n + 7) div 8 = (if r = 0 then q else q + 1)"
  proof (cases "r = 0")
    case False
    then have "?n + 7 = 8 * (q + 1) + (r - 1)" using n(1) by simp
    then show ?thesis using False n(2) by (simp only: div_mult_self4 div_mult_self2) simp
  qed (simp add: n)
  with n show ?thesis by (simp add: padded_def octet_pad_def)
qed

lemma encodes_fits:
  assumes "\<And>n. encodes (grow_view n) (encode_dyn_cb (\<lambda>_. True)) enc bits" and tmp: "length tmp = 32"
  shows "\<exists>arg. aper_encode tmp (Some enc) (Some (encode_dyn_cb (\<lambda>_. True)))
      \<lparr>ed_buffer = [], ed_length = 0, ed_allocated = 0\<rparr> = Some (int (length (bits 0)), arg) \<and>
    bytes_bits (take (ed_length arg) (ed_buffer arg)) = padded (bits 0)"
proof -
  let ?n = "length (bits 0)"
  have "\<not> 8 * ?n < 8 * 0 + length (bits 0)" by simp
  then show ?thesis
    using grow.aper_encode_complete [OF assms(1) [of ?n] tmp, of "\<lparr>ed_buffer = [], ed_length = 0, ed_allocated = 0\<rparr>"]
    by (auto simp: grow_view_def padded_def)
qed

text \<open>The octets of a complete encoding; no bits become an octet of zeros.\<close>

definition complete_octets :: "bool list \<Rightarrow> u8 list" where
  "complete_octets bs = (if bs = [] then [0] else be_octets ((length bs + 7) div 8) (bits_val (padded bs)))"

lemma bytes_bits_complete_octets:
  "bytes_bits (complete_octets bs) = (if bs = [] then replicate 8 False else padded bs)"
proof (cases "bs = []")
  case False
  then show ?thesis
    using val_bits_bits_val [of "padded bs"] by (simp add: complete_octets_def bytes_bits_be_octets length_padded)
qed (simp add: complete_octets_def bytes_bits_Cons byte_bits_0)

lemma complete_octets_unique:
  "bytes_bits buf = (if bs = [] then replicate 8 False else padded bs) \<Longrightarrow> buf = complete_octets bs"
  by (simp only: bytes_bits_inject flip: bytes_bits_complete_octets)

lemma complete_octets_Nil_iff [simp]: "complete_octets bs \<noteq> []"
  using length_padded [of bs] arg_cong [OF bytes_bits_complete_octets [of bs], of length]
  by (cases "complete_octets bs") (auto simp: padded_def split: if_splits)

section \<open>The contract of a type\<close>

locale per_type =
  fixes encode :: "'v \<Rightarrow> enc_dyn_arg per_type_encoder"
    and decode :: "'v per_type_decoder"
    and bits :: "nat \<Rightarrow> 'v \<Rightarrow> bool list"
    and valid :: "'v \<Rightarrow> bool"
    and fits :: "'v \<Rightarrow> bool"
  assumes encodes_bits: "valid v \<Longrightarrow> encodes (grow_view n) (encode_dyn_cb (\<lambda>_. True)) (encode v) (\<lambda>ph. bits ph v)"
    and decodes_bits: "valid v \<Longrightarrow> pred_option fits sptr \<Longrightarrow> pd_at pd (bits (pd_nboff pd mod 8) v) \<Longrightarrow>
      \<exists>k pd'. decode sptr pd = Some ((RC_OK, k), Some v, pd') \<and> pd_took pd (length (bits (pd_nboff pd mod 8) v)) pd'"
begin

lemma new_buffer:
  assumes "valid v" and "length tmp = 32"
  defines "buf \<equiv> complete_octets (bits 0 v)"
  shows "\<exists>tail. aper_encode_to_new_buffer (\<lambda>_. True) True tmp (Some (encode v)) = Some (int (length buf), Some (buf @ tail))"
proof -
  obtain arg where enc: "aper_encode tmp (Some (encode v)) (Some (encode_dyn_cb (\<lambda>_. True)))
      \<lparr>ed_buffer = [], ed_length = 0, ed_allocated = 0\<rparr> = Some (int (length (bits 0 v)), arg)"
      "bytes_bits (take (ed_length arg) (ed_buffer arg)) = padded (bits 0 v)"
    using encodes_fits [OF encodes_bits [OF assms(1)] assms(2)] by blast
  show ?thesis
  proof (cases "bits 0 v = []")
    case True
    then show ?thesis using enc(1)
      by (intro exI [of _ "[]"]) (simp add: aper_encode_to_new_buffer_def buf_def complete_octets_def)
  next
    case False
    let ?tail = "drop (ed_length arg) (ed_buffer arg)"
    have buf: "take (ed_length arg) (ed_buffer arg) = buf"
      unfolding buf_def using enc(2) False by (intro complete_octets_unique) simp
    then have "8 * length buf = 8 * ((length (bits 0 v) + 7) div 8)"
      using arg_cong [OF enc(2), of length] unfolding length_padded by simp
    then have len: "(int (length (bits 0 v)) + 7) div 8 = int (length buf)" by (simp add: zdiv_int)
    have "ed_buffer arg = buf @ ?tail" using buf append_take_drop_id by metis
    then show ?thesis
      using enc(1) False len by (intro exI [of _ ?tail]) (simp add: aper_encode_to_new_buffer_def)
  qed
qed

text \<open>Decoding the octets of a complete encoding from their beginning.\<close>

lemma decode_buffer:
  assumes "valid v" and fits: "pred_option fits sptr" and buf: "bytes_bits buf = bits 0 v @ rest"
  defines "pd \<equiv> \<lparr>pd_buffer = buf, pd_nboff = 0, pd_nbits = 8 * length buf, pd_moved = 0\<rparr>"
  shows "\<exists>k pd'. decode sptr pd = Some ((RC_OK, k), Some v, pd') \<and> pd_rest pd' = rest \<and> pd_wf pd' \<and>
    pd_moved pd' = of_nat (length (bits 0 v)) \<and>
    8 * (int (length buf) - int (length (pd_buffer pd'))) + int (pd_nboff pd') = int (length (bits 0 v)) \<and>
    int (pd_nbits pd') - int (pd_nboff pd') = int (length rest) \<and> length (pd_buffer pd') \<le> length buf"
proof -
  have "pd_rest pd = bits 0 v @ rest" "pd_wf pd" "pd_nboff pd = 0"
    by (simp_all add: pd_def pd_rest_def pd_wf_def flip: buf)
  then have "pd_at pd (bits (pd_nboff pd mod 8) v)" by (simp add: pd_at_def)
  from decodes_bits [OF assms(1) fits this] obtain k pd' where d: "decode sptr pd = Some ((RC_OK, k), Some v, pd')"
      "pd_took pd (length (bits 0 v)) pd'" using \<open>pd_nboff pd = 0\<close> by auto
  have r: "pd_rest pd' = rest" "pd_wf pd'" "pd_moved pd' = of_nat (length (bits 0 v))"
      "8 * length (pd_buffer pd') + 8 * length buf = 8 * length buf + pd_nbits pd'"
      "length (pd_buffer pd') \<le> length buf"
    using d(2) \<open>pd_rest pd = bits 0 v @ rest\<close> by (simp_all add: pd_took_def) (simp_all add: pd_def)
  have "pd_nbits pd' - pd_nboff pd' = length rest" "pd_nboff pd' \<le> pd_nbits pd'"
    using length_pd_rest [OF r(2)] r(1,2) by (simp_all add: pd_wf_def)
  moreover have "8 * length buf = length (bits 0 v) + length rest" using arg_cong [OF buf, of length] by simp
  ultimately show ?thesis using d(1) r by (intro exI [of _ k] exI [of _ pd']) auto
qed

lemma octets_bits: "\<exists>n. bytes_bits (complete_octets (bits 0 v)) = bits 0 v @ replicate n False \<and> (n < 8 \<or> bits 0 v = [] \<and> n = 8)"
  by (cases "bits 0 v = []") (auto simp: bytes_bits_complete_octets padded_def octet_pad_def intro!: exI)

text \<open>
  What was encoded into a new buffer is decoded by \<open>aper_decode_complete\<close>, which consumes the
  whole buffer.
\<close>

lemma decode_complete:
  assumes "valid v" and "pred_option fits sptr" and "length (bits 0 v) < 2 ^ 64"
  defines "buf \<equiv> complete_octets (bits 0 v)"
  shows "aper_decode_complete (Some decode) sptr buf = Some ((RC_OK, length buf), Some v)"
proof -
  obtain n where rest: "bytes_bits buf = bits 0 v @ replicate n False"
    using octets_bits [of v] unfolding buf_def by blast
  obtain k pd' where d: "decode sptr \<lparr>pd_buffer = buf, pd_nboff = 0, pd_nbits = 8 * length buf, pd_moved = 0\<rparr> = Some ((RC_OK, k), Some v, pd')"
      "pd_moved pd' = of_nat (length (bits 0 v))"
      "8 * (int (length buf) - int (length (pd_buffer pd'))) + int (pd_nboff pd') = int (length (bits 0 v))"
    using decode_buffer [OF assms(1,2) rest] by blast
  have dec: "aper_decode (Some decode) sptr buf 0 0 = Some ((RC_OK, length (bits 0 v)), Some v)"
    using d(1,2) assms(3) arg_cong [OF d(3), of "word_of_int :: int \<Rightarrow> u64"]
    by (simp add: aper_decode_def Let_def unsigned_of_nat take_bit_nat_eq_self)
  show ?thesis
  proof (cases "bits 0 v = []")
    case True
    then have "buf = [0]" by (simp add: buf_def complete_octets_def)
    then show ?thesis using dec True by (simp add: aper_decode_complete_def)
  next
    case False
    then have "length buf = (length (bits 0 v) + 7) div 8" by (simp add: buf_def complete_octets_def)
    then show ?thesis using dec False by (simp add: aper_decode_complete_def)
  qed
qed

text \<open>The octets of an open type are decoded on their own; the padding is zero.\<close>

lemma open_type_decode_octets:
  assumes "valid v" and "pred_option fits sptr"
  shows "\<exists>k. open_type_decode decode sptr (complete_octets (bits 0 v)) = Some ((RC_OK, k), Some v)"
proof -
  let ?buf = "complete_octets (bits 0 v)"
  obtain n where n: "bytes_bits ?buf = bits 0 v @ replicate n False" "n < 8 \<or> bits 0 v = [] \<and> n = 8"
    using octets_bits by blast
  obtain k pd' where d: "decode sptr \<lparr>pd_buffer = ?buf, pd_nboff = 0, pd_nbits = 8 * length ?buf, pd_moved = 0\<rparr> = Some ((RC_OK, k), Some v, pd')"
      "pd_rest pd' = replicate n False" "pd_wf pd'" "int (pd_nbits pd') - int (pd_nboff pd') = int n"
      "8 * (int (length ?buf) - int (length (pd_buffer pd'))) + int (pd_nboff pd') = int (length (bits 0 v))"
      "length (pd_buffer pd') \<le> length ?buf"
    using decode_buffer [OF assms n(1)] by auto
  obtain pd2 where few: "asn_get_few_bits (int n) pd' = Some (0, pd2)"
    using asn_get_few_bits_ok [OF d(3), of n] d(2) n(2) by auto
  have "n = 8 \<Longrightarrow> pd_nboff pd' = 0 \<and> pd_nbits pd' = 8 \<and> length (pd_buffer pd') = length ?buf"
    using d(4-6) n(2) by (auto simp: complete_octets_def)
  then show ?thesis
    using d(1) few n(2) unfolding open_type_decode_def by (auto simp: Let_def d(4))
qed

end

section \<open>Open types\<close>

text \<open>The loops that collect the octets of an open type, over the length determinant of a variant.\<close>

locale chunk_reader = length_reader +
  fixes get_chunks :: "(nat \<Rightarrow> bool) \<Rightarrow> u8 list \<Rightarrow> nat \<Rightarrow> asn_bit_data \<Rightarrow>
      (asn_dec_rval_code \<times> u8 list \<times> asn_bit_data) option"
  assumes get_chunks_unfold: "get_chunks realloc_ok buf cap pd =
      Option.bind (get_length pd) (\<lambda>((chunk, repeat), pd).
        Option.bind (open_type_chunk realloc_ok buf cap chunk pd) (\<lambda>(code, (buf, cap), pd).
          if code = RC_OK \<and> repeat then get_chunks realloc_ok buf cap pd
          else Some (code, buf, pd)))"
begin

lemma gets_chunks:
  "ready pd \<Longrightarrow> pd_at pd (fragment_bits bs) \<Longrightarrow> (\<And>j. realloc_ok j) \<Longrightarrow> length buf \<le> cap \<Longrightarrow>
    \<exists>pd'. get_chunks realloc_ok buf cap pd = Some (RC_OK, buf @ bs, pd') \<and> pd_took pd (length (fragment_bits bs)) pd'"
proof (induction bs arbitrary: pd buf cap rule: fragment_bits.induct)
  case (1 bs)
  let ?n = "length bs"
  let ?m = "length_units ?n"
  let ?tail = "if 16384 \<le> ?n then fragment_bits (drop ?m bs) else []"
  let ?cap = "if cap < length buf + ?m then ?m + 4 * cap else cap"
  have bits: "fragment_bits bs = length_bits ?n @ bytes_bits (take ?m bs) @ ?tail"
    by (subst fragment_bits.simps) (simp add: Let_def)
  have at: "pd_at pd (length_bits ?n @ bytes_bits (take ?m bs) @ ?tail)" using 1(3) unfolding bits .
  obtain pd1 where len: "get_length pd = Some ((int ?m, 16384 \<le> ?n), pd1)"
      and took1: "pd_took pd (length (length_bits ?n)) pd1"
    using gets_len_ready [OF 1(2) pd_at_prefix [OF at]] by (auto simp: gets_def)
  note at1 = pd_at_took [OF at took1]
  have l: "length (take ?m bs) = ?m" using length_units_le [of ?n] by simp
  then obtain pd2 where oct: "asn_get_many_bits pd1 False (8 * ?m) = Some (0, take ?m bs, pd2)"
      and took2: "pd_took pd1 (length (bytes_bits (take ?m bs))) pd2"
    using gets_many [OF pd_at_prefix [OF at1], of "8 * ?m"] by auto
  note at2 = pd_at_took [OF at1 took2]
  note took12 = pd_took_trans [OF took1 took2]
  have ready2: "ready pd2" by (rule ready_took [OF 1(2) took12]) (simp add: length_length_bits)
  have cap: "length (buf @ take ?m bs) \<le> ?cap" using 1(5) l by simp
  have chunk: "open_type_chunk realloc_ok buf cap (int ?m) pd1 = Some (RC_OK, (buf @ take ?m bs, ?cap), pd2)"
    using oct 1(4,5) by (auto simp: open_type_chunk_def Let_def)
  show ?case
  proof (cases "16384 \<le> ?n")
    case False
    then have "take ?m bs = bs" using length_units_cases(1) [of ?n] by simp
    then show ?thesis
      using False len chunk took12 unfolding bits by (subst get_chunks_unfold) simp
  next
    case True
    have "pd_at pd2 (fragment_bits (drop ?m bs))" using at2 True by simp
    then obtain pd3 where "get_chunks realloc_ok (buf @ take ?m bs) ?cap pd2 =
        Some (RC_OK, (buf @ take ?m bs) @ drop ?m bs, pd3)"
        "pd_took pd2 (length (fragment_bits (drop ?m bs))) pd3"
      using 1(1) [OF refl refl True ready2 _ 1(4) cap] by blast
    then show ?thesis
      using True len chunk pd_took_trans [OF took12] unfolding bits
      by (subst get_chunks_unfold) (simp add: add.assoc)
  qed
qed

end

interpretation uper: chunk_reader "\<lambda>pd. uper_get_length pd (- 1) 0" "\<lambda>_. True" uper_open_chunks
  by (unfold_locales, rule uper_open_chunks.simps)

interpretation aper: chunk_reader "\<lambda>pd. aper_get_length pd (- 1) (- 1) (- 1)" "\<lambda>pd. pd_nboff pd mod 8 = 0" aper_open_chunks
  by (unfold_locales, rule aper_open_chunks.simps)

lemma gets_aper_chunks:
  assumes at: "pd_at pd (align_pad (pd_nboff pd) @ fragment_bits bs)" and alloc: "\<And>j. realloc_ok j"
  shows "\<exists>pd'. aper_open_chunks realloc_ok [] 0 pd = Some (RC_OK, bs, pd') \<and>
    pd_took pd (length (align_pad (pd_nboff pd) @ fragment_bits bs)) pd'"
proof -
  obtain pd1 where al: "aper_get_align pd = Some (0, pd1)" "pd_took pd (length (align_pad (pd_nboff pd))) pd1"
    using gets_align [OF pd_at_prefix [OF at]] by (auto simp: gets_def)
  have ph: "pd_nboff pd1 mod 8 = 0" using pd_took_phase [OF al(2)] align_pad_aligns by simp
  have "aper_open_chunks realloc_ok [] 0 pd = aper_open_chunks realloc_ok [] 0 pd1"
    using aper_get_length_align [OF al(1) ph]
    by (simp only: aper.get_chunks_unfold [of _ _ _ pd] aper.get_chunks_unfold [of _ _ _ pd1])
  then show ?thesis
    using aper.gets_chunks [OF ph pd_at_took [OF at al(2)], of realloc_ok "[]" 0] alloc pd_took_trans [OF al(2)] by auto
qed

text \<open>
  The bits of an open type, and that a type that keeps the contract can be put into open types and
  taken out again: with any sink for the message, the growing buffer among them, so that open types
  nest.
\<close>

definition aper_open_bits :: "nat \<Rightarrow> bool list \<Rightarrow> bool list" where
  "aper_open_bits ph bs = align_pad ph @ fragment_bits (complete_octets bs)"

definition uper_open_bits :: "bool list \<Rightarrow> bool list" where
  "uper_open_bits bs = fragment_bits (complete_octets bs)"

lemma aper_open_bits_mod [simp]: "aper_open_bits (ph mod 8) bs = aper_open_bits ph bs"
  by (simp add: aper_open_bits_def)

lemma encodes_of_puts:
  "(\<And>po. po_wf po \<Longrightarrow> po_output po = out \<Longrightarrow> puts V po (bits (po_nboff po mod 8)) (enc po)) \<Longrightarrow> encodes V out enc bits"
  unfolding encodes_def puts_def by fastforce

context per_type
begin

lemma aper_open_type_puts:
  assumes "byte_sink consume view" and "valid v" and "length tmp = 32"
    and "po_wf po" and "po_output po = consume"
  shows "puts view po (aper_open_bits (po_nboff po) (bits 0 v))
    (aper_open_type_put (\<lambda>_. True) True tmp (Some (encode v)) po)"
proof -
  let ?buf = "complete_octets (bits 0 v)"
  have "puts view po (align_pad (po_nboff po) @ fragment_bits ?buf) (aper_put_fragments po ?buf)"
    by (rule byte_sink.puts_aper_fragments [OF assms(1,4,5)]) simp
  then show ?thesis
    using new_buffer [OF assms(2,3)] by (auto simp: aper_open_type_put_def aper_open_bits_def c_slice_def)
qed

lemma uper_open_type_puts:
  assumes "byte_sink consume view" and "valid v" and "length tmp = 32"
    and "po_wf po" and "po_output po = consume"
  shows "puts view po (uper_open_bits (bits 0 v)) (uper_open_type_put (\<lambda>_. True) True tmp (Some (encode v)) po)"
proof -
  let ?buf = "complete_octets (bits 0 v)"
  have "puts view po (fragment_bits ?buf) (uper_put_fragments po ?buf)"
    by (rule byte_sink.puts_uper_fragments [OF assms(1,4,5)]) simp
  then show ?thesis
    using new_buffer [OF assms(2,3)]
    by (auto simp: uper_open_type_put_def uper_encode_to_new_buffer_def uper_open_bits_def c_slice_def)
qed

lemma aper_open_type_gets:
  assumes "valid v" and "pred_option fits sptr" and "pd_at pd (aper_open_bits (pd_nboff pd) (bits 0 v))"
  shows "\<exists>k pd'. aper_open_type_get (\<lambda>_. True) decode sptr pd = Some ((RC_OK, k), Some v, pd') \<and>
    pd_took pd (length (aper_open_bits (pd_nboff pd) (bits 0 v))) pd'"
proof -
  obtain pd' where c: "aper_open_chunks (\<lambda>_. True) [] 0 pd = Some (RC_OK, complete_octets (bits 0 v), pd')"
      "pd_took pd (length (aper_open_bits (pd_nboff pd) (bits 0 v))) pd'"
    using gets_aper_chunks [OF assms(3) [unfolded aper_open_bits_def], of "\<lambda>_. True"] unfolding aper_open_bits_def by auto
  then show ?thesis
    using open_type_decode_octets [OF assms(1,2)] by (auto simp: aper_open_type_get_def)
qed

lemma uper_open_type_gets:
  assumes "valid v" and "pred_option fits sptr" and "pd_at pd (uper_open_bits (bits 0 v))"
  shows "\<exists>k pd'. uper_open_type_get (\<lambda>_. True) decode sptr pd = Some ((RC_OK, k), Some v, pd') \<and>
    pd_took pd (length (uper_open_bits (bits 0 v))) pd'"
proof -
  obtain pd' where c: "uper_open_chunks (\<lambda>_. True) [] 0 pd = Some (RC_OK, complete_octets (bits 0 v), pd')"
      "pd_took pd (length (uper_open_bits (bits 0 v))) pd'"
    using uper.gets_chunks [OF TrueI, of pd "complete_octets (bits 0 v)" "\<lambda>_. True" "[]" 0] assms(3)
    unfolding uper_open_bits_def by auto
  then show ?thesis
    using open_type_decode_octets [OF assms(1,2)] by (auto simp: uper_open_type_get_def)
qed

lemma aper_open_type_keeps:
  assumes "length tmp = 32"
  shows "per_type (\<lambda>v. aper_open_type_put (\<lambda>_. True) True tmp (Some (encode v))) (aper_open_type_get (\<lambda>_. True) decode)
    (\<lambda>ph v. aper_open_bits ph (bits 0 v)) valid fits"
proof
  fix v n assume "valid v"
  then show "encodes (grow_view n) (encode_dyn_cb (\<lambda>_. True)) (aper_open_type_put (\<lambda>_. True) True tmp (Some (encode v)))
      (\<lambda>ph. aper_open_bits ph (bits 0 v))"
    using aper_open_type_puts [OF grow.byte_sink_axioms _ assms] by (intro encodes_of_puts) simp
next
  fix v pd sptr assume "valid v" "pred_option fits sptr" "pd_at pd (aper_open_bits (pd_nboff pd mod 8) (bits 0 v))"
  then show "\<exists>k pd'. aper_open_type_get (\<lambda>_. True) decode sptr pd = Some ((RC_OK, k), Some v, pd') \<and>
      pd_took pd (length (aper_open_bits (pd_nboff pd mod 8) (bits 0 v))) pd'"
    using aper_open_type_gets by simp
qed

lemma uper_open_type_keeps:
  assumes "length tmp = 32"
  shows "per_type (\<lambda>v. uper_open_type_put (\<lambda>_. True) True tmp (Some (encode v))) (uper_open_type_get (\<lambda>_. True) decode)
    (\<lambda>ph v. uper_open_bits (bits 0 v)) valid fits"
proof
  fix v n assume "valid v"
  then show "encodes (grow_view n) (encode_dyn_cb (\<lambda>_. True)) (uper_open_type_put (\<lambda>_. True) True tmp (Some (encode v)))
      (\<lambda>ph. uper_open_bits (bits 0 v))"
    using uper_open_type_puts [OF grow.byte_sink_axioms _ assms] by (intro encodes_of_puts) simp
qed (rule uper_open_type_gets)

end

end
