(* ===== verification/Per_Primitive_Laws.thy ===== *)
theory Per_Primitive_Laws
  imports Per_Primitive Per_Type_Laws
begin

unbundle bit_operations_syntax

text \<open>
  The primitive types keep the contract \<open>per_type\<close>: what their encoders append is what their
  decoders read, with the bits X.691 prescribes.
\<close>

section \<open>BOOLEAN\<close>

interpretation BOOLEAN: per_type "\<lambda>v. BOOLEAN_encode_aper (Some v)" "BOOLEAN_decode_aper True fresh"
  "\<lambda>_ v. [v \<noteq> 0]" "\<lambda>v. v = 0 \<or> v = 1" "\<lambda>_. True" for fresh
proof
  fix v :: u32 and n
  show "encodes (grow_view n) (encode_dyn_cb (\<lambda>_. True)) (BOOLEAN_encode_aper (Some v)) (\<lambda>_. [v \<noteq> 0])"
  proof (rule encodes_of_puts)
    fix po :: "enc_dyn_arg asn_bit_outp" assume "po_wf po" "po_output po = encode_dyn_cb (\<lambda>_. True)"
    then have "puts (grow_view n) po [v \<noteq> 0] (asn_put_few_bits po (if v \<noteq> 0 then 1 else 0) 1)"
      using grow.puts_bit by simp
    from puts_last [OF this] show "puts (grow_view n) po [v \<noteq> 0] (BOOLEAN_encode_aper (Some v) po)"
      by (simp add: BOOLEAN_encode_aper_def cong: if_cong)
  qed
next
  fix v :: u32 and pd sptr assume "v = 0 \<or> v = 1" "pd_at pd [v \<noteq> 0]"
  then show "\<exists>k pd'. BOOLEAN_decode_aper True fresh sptr pd = Some ((RC_OK, k), Some v, pd') \<and> pd_took pd (length [v \<noteq> 0]) pd'"
    using gets_bit [of pd "v \<noteq> 0"] by (cases sptr) (auto simp: BOOLEAN_decode_aper_def target_def gets_def)
qed

section \<open>NativeInteger\<close>

lemma native_of_octets:
  assumes "\<not> is_unsigned specs" and "LLONG_MIN \<le> v" and "v \<le> LLONG_MAX"
  shows "asn_INTEGER2imax (Some (Some (imax_octets v))) = Some (Inr v)"
    and "native_of_INTEGER specs (Some (imax_octets v)) = Some (Inr v)"
    and "INTEGER_of_native True specs v = Inr (Some (imax_octets v))"
proof -
  show imax: "asn_INTEGER2imax (Some (Some (imax_octets v))) = Some (Inr v)"
    using imax_octets_simps(4) [OF assms(2,3)] assms(2,3) by (simp add: asn_INTEGER2imax_twos)
  then show "native_of_INTEGER specs (Some (imax_octets v)) = Some (Inr v)"
    using assms by (simp add: native_of_INTEGER_def asn_INTEGER2long_def)
  show "INTEGER_of_native True specs v = Inr (Some (imax_octets v))"
    using assms(1) by (simp add: INTEGER_of_native_def asn_long2INTEGER_def asn_imax2INTEGER_octets)
qed

text \<open>
  A number within the bounds of a signed type without extension. Ranges of 129 to 255 values are
  left out in the aligned variant, where encoder and decoder differ.
\<close>

definition number_ok :: "asn_INTEGER_specifics option \<Rightarrow> asn_per_constraint \<Rightarrow> int \<Rightarrow> bool" where
  "number_ok specs c v \<longleftrightarrow> \<not> is_unsigned specs \<and> flags c = APC_CONSTRAINED \<and>
     LLONG_MIN \<le> lower_bound c \<and> upper_bound c \<le> LLONG_MAX \<and> lower_bound c \<le> v \<and> v \<le> upper_bound c"

definition aper_number_ok :: "asn_INTEGER_specifics option \<Rightarrow> asn_per_constraint \<Rightarrow> int \<Rightarrow> bool" where
  "aper_number_ok specs c v \<longleftrightarrow> number_ok specs c v \<and> bounded c \<and>
     (range_bits c = 8 \<longrightarrow> upper_bound c - lower_bound c = 255)"

lemma number_ok_native:
  assumes "number_ok specs c v"
  shows "asn_INTEGER2imax (Some (Some (imax_octets v))) = Some (Inr v)"
    and "native_of_INTEGER specs (Some (imax_octets v)) = Some (Inr v)"
    and "INTEGER_of_native True specs v = Inr (Some (imax_octets v))"
  using native_of_octets [of specs v] assms by (auto simp: number_ok_def)

context byte_sink
begin

lemma puts_native_aper:
  assumes "aper_number_ok specs c v" and "po_wf po" and "po_output po = consume"
  shows "puts view po (cwn_bits (po_nboff po) (lower_bound c) (upper_bound c) v)
    (NativeInteger_encode_aper True specs (Some c) None (Some v) po)"
proof -
  have ok: "number_ok specs c v" "bounded c" using assms(1) by (simp_all add: aper_number_ok_def)
  then have "NativeInteger_encode_aper True specs (Some c) None (Some v) po = aper_put_offset po c v"
    using number_ok_native [OF ok(1)] imax_octets_simps(2) [of v]
    by (simp add: NativeInteger_encode_aper_def INTEGER_encode_aper_bounded number_ok_def)
  then show ?thesis using puts_offset [OF assms(2,3) ok(2) refl refl, of v] ok(1) by (simp add: number_ok_def)
qed

lemma puts_native_uper:
  assumes "number_ok specs c v" and "uper_bounded c n" and "po_wf po" and "po_output po = consume"
  shows "puts view po (val_bits n (v - lower_bound c)) (NativeInteger_encode_uper True specs (Some c) None (Some v) po)"
proof -
  have v: "lower_bound c \<le> v" "v \<le> upper_bound c" and b: "imax_bounds (lower_bound c) (upper_bound c)"
    using assms(1,2) by (simp_all add: number_ok_def uper_bounded_def)
  let ?put = "uper_put_constrained_whole_number_u po (word_of_int (v - lower_bound c)) (int n)"
  have "NativeInteger_encode_uper True specs (Some c) None (Some v) po =
      INTEGER_encode_uper specs (Some c) None (Some (Some (imax_octets v))) po"
    using number_ok_native(3) [OF assms(1)] by (simp add: NativeInteger_encode_uper_def)
  also have "\<dots> = Option.bind ?put (\<lambda>(r, po). Some (if r \<noteq> 0 then - 1 else 0, po))"
    using number_ok_native(1) [OF assms(1)] imax_octets_simps(2) [of v] assms(1,2) v
    by (subst INTEGER_encode_uper_bounded) (auto simp: number_ok_def)
  finally show ?thesis
    using puts_last [OF puts_uper_cwn [OF assms(3,4), of n "word_of_int (v - lower_bound c)"]]
    by (simp only: uint_offset [OF b v])
qed

end

interpretation native_aper: per_type "\<lambda>v. NativeInteger_encode_aper True specs (Some c) None (Some v)"
  "NativeInteger_decode_aper True (\<lambda>_. True) fresh specs (Some c) None"
  "\<lambda>ph v. cwn_bits ph (lower_bound c) (upper_bound c) v" "aper_number_ok specs c" "\<lambda>_. True" for specs c fresh
proof
  fix v n assume "aper_number_ok specs c v"
  then show "encodes (grow_view n) (encode_dyn_cb (\<lambda>_. True)) (NativeInteger_encode_aper True specs (Some c) None (Some v))
      (\<lambda>ph. cwn_bits ph (lower_bound c) (upper_bound c) v)"
    using grow.puts_native_aper by (intro encodes_of_puts) simp
next
  fix v pd sptr
  let ?bits = "\<lambda>ph. cwn_bits ph (lower_bound c) (upper_bound c) v"
  assume ok: "aper_number_ok specs c v" and at: "pd_at pd (?bits (pd_nboff pd mod 8))"
  then have n: "number_ok specs c v" "bounded c" by (simp_all add: aper_number_ok_def)
  obtain pd' where "INTEGER_decode_aper (\<lambda>_. True) fresh specs (Some c) None (Some None) pd =
      Some (RC_OK, Some (Some (imax_octets v)), pd')" "pd_took pd (length (?bits (pd_nboff pd))) pd'"
    using INTEGER_decode_aper_bounded [of c specs v pd fresh "Some None"] ok n at
    by (auto simp: aper_number_ok_def number_ok_def)
  then show "\<exists>k pd'. NativeInteger_decode_aper True (\<lambda>_. True) fresh specs (Some c) None sptr pd =
      Some ((RC_OK, k), Some v, pd') \<and> pd_took pd (length (?bits (pd_nboff pd mod 8))) pd'"
    using number_ok_native [OF n(1)]
    by (cases sptr) (simp_all add: NativeInteger_decode_aper_def target_def store_native_def)
qed

interpretation native_uper: per_type "\<lambda>v. NativeInteger_encode_uper True specs (Some c) None (Some v)"
  "NativeInteger_decode_uper True (\<lambda>_. True) fresh specs (Some c) None"
  "\<lambda>_ v. val_bits n (v - lower_bound c)" "\<lambda>v. number_ok specs c v \<and> uper_bounded c n" "\<lambda>_. True" for specs c n fresh
proof
  fix v k assume "number_ok specs c v \<and> uper_bounded c n"
  then show "encodes (grow_view k) (encode_dyn_cb (\<lambda>_. True)) (NativeInteger_encode_uper True specs (Some c) None (Some v))
      (\<lambda>_. val_bits n (v - lower_bound c))"
    using grow.puts_native_uper by (intro encodes_of_puts) simp
next
  fix v pd sptr
  assume ok: "number_ok specs c v \<and> uper_bounded c n" and at: "pd_at pd (val_bits n (v - lower_bound c))"
  obtain pd' where "INTEGER_decode_uper (\<lambda>_. True) fresh specs (Some c) None (Some None) pd =
      Some (RC_OK, Some (Some (imax_octets v)), pd')" "pd_took pd n pd'"
    using INTEGER_decode_uper_bounded [of c n specs v pd fresh "Some None"] ok at by (auto simp: number_ok_def)
  then show "\<exists>k pd'. NativeInteger_decode_uper True (\<lambda>_. True) fresh specs (Some c) None sptr pd =
      Some ((RC_OK, k), Some v, pd') \<and> pd_took pd (length (val_bits n (v - lower_bound c))) pd'"
    using number_ok_native [of specs c v] ok
    by (cases sptr) (simp_all add: NativeInteger_decode_uper_def target_def store_native_def)
qed

section \<open>NativeEnumerated\<close>

lemma enum_index_found:
  "v \<in> nat_value ` set els \<Longrightarrow>
    \<exists>i. enum_index \<lparr>nat_value = v, enum_name = nm\<rparr> els = Some i \<and> i < length els \<and> nat_value (els ! i) = v"
  by (induction els) (auto simp: NativeEnumerated_compar_value2enum_def)

lemma enum_entry_at: "i < length (value2enum specs) \<Longrightarrow> enum_entry specs (int i) = Some (nat_value (value2enum specs ! i))"
  by (simp add: enum_entry_def nth_opt_def)

text \<open>
  A type as the tables have it: the indices of the root fit the bits of the range, and the indices
  beyond it are few enough for a normally small number.
\<close>

definition enum_type :: "asn_INTEGER_specifics \<Rightarrow> asn_per_constraint \<Rightarrow> bool" where
  "enum_type specs c \<longleftrightarrow> 0 \<le> range_bits c \<and> range_bits c \<le> 31 \<and> upper_bound c < 255 \<and>
     0 \<le> root_count specs \<and> root_count specs \<le> 2 ^ nat (range_bits c) \<and>
     root_count specs \<le> int (length (value2enum specs)) \<and> int (length (value2enum specs)) < 2 ^ 24"

text \<open>The position of a value, the values that can be sent, and the bits of a position.\<close>

definition enum_pos :: "asn_INTEGER_specifics \<Rightarrow> int \<Rightarrow> int" where
  "enum_pos specs v = (case enum_index \<lparr>nat_value = v, enum_name = []\<rparr> (value2enum specs) of None \<Rightarrow> - 1 | Some i \<Rightarrow> int i)"

definition enum_ok :: "asn_INTEGER_specifics \<Rightarrow> asn_per_constraint \<Rightarrow> int \<Rightarrow> bool" where
  "enum_ok specs c v \<longleftrightarrow> enum_type specs c \<and> 0 \<le> v \<and> v \<in> nat_value ` set (value2enum specs) \<and>
     (flags c AND APC_EXTENSIBLE \<noteq> 0 \<or> enum_pos specs v < root_count specs)"

definition enum_bits :: "asn_INTEGER_specifics \<Rightarrow> asn_per_constraint \<Rightarrow> nat \<Rightarrow> int \<Rightarrow> bool list" where
  "enum_bits specs c ph i =
    (let root = val_bits (nat (range_bits c)) i in
     if flags c AND APC_EXTENSIBLE = 0 then root
     else if i < root_count specs then False # root
     else True # nsnnwn_bits (ph + 1) (i - root_count specs))"

lemma enum_ok_index:
  assumes "enum_ok specs c v"
  obtains i where "enum_index \<lparr>nat_value = v, enum_name = []\<rparr> (value2enum specs) = Some i" "enum_pos specs v = int i"
    "i < length (value2enum specs)" "nat_value (value2enum specs ! i) = v"
  using enum_index_found [of v "value2enum specs" "[]"] assms by (auto simp: enum_ok_def enum_pos_def)

lemma enum_bits_mod [simp]: "enum_bits specs c (ph mod 8) i = enum_bits specs c ph i"
proof -
  have "nsnnwn_bits (ph mod 8 + 1) d = nsnnwn_bits (ph + 1) d" for d by (metis nsnnwn_bits_mod mod_add_left_eq)
  then show ?thesis by (simp only: enum_bits_def)
qed

lemma root_extension: "root_count specs < int (length (value2enum specs)) \<Longrightarrow> extension specs \<noteq> 0 \<and> root_count specs = extension specs - 1"
  by (auto simp: root_count_def split: if_splits)

context byte_sink
begin

lemma puts_enum_body:
  assumes "enum_type specs c" and "i < root_count specs" and "po_wf po" and "po_output po = consume"
  shows "puts view po (val_bits (nat (range_bits c)) i) (Option.bind (asn_put_few_bits po (word_of_int i) (range_bits c))
    (\<lambda>(r, po). Some (if r \<noteq> 0 then - 1 else 0, po)))"
  using puts_last [OF puts_word [OF assms(3,4), of "nat (range_bits c)" i]] assms(1)
  by (simp add: enum_type_def nat_le_iff)

lemma puts_enum:
  assumes ok: "enum_ok specs c v" and wf: "po_wf po" and out: "po_output po = consume"
  shows "puts view po (enum_bits specs c (po_nboff po) (enum_pos specs v))
    (NativeEnumerated_encode_aper (Some specs) (Some c) None (Some v) po)"
proof -
  obtain i where i: "enum_index \<lparr>nat_value = v, enum_name = []\<rparr> (value2enum specs) = Some i" "enum_pos specs v = int i"
    "i < length (value2enum specs)" using enum_ok_index [OF ok] by blast
  have t: "enum_type specs c" and v: "0 \<le> v" using ok by (simp_all add: enum_ok_def)
  then have rb: "0 \<le> range_bits c" and len: "int (length (value2enum specs)) < 2 ^ 24" "0 \<le> root_count specs" by (simp_all add: enum_type_def)
  have enc: "NativeEnumerated_encode_aper (Some specs) (Some c) None (Some v) po = enum_put aper_put_nsnnwn specs c (int i) po"
    using i v by (simp add: NativeEnumerated_encode_aper_def enum_constraint_def)
  consider (plain) "flags c AND APC_EXTENSIBLE = 0" "int i < root_count specs"
    | (root) "flags c AND APC_EXTENSIBLE \<noteq> 0" "int i < root_count specs"
    | (ext) "flags c AND APC_EXTENSIBLE \<noteq> 0" "root_count specs \<le> int i"
    using ok i(2) by (fastforce simp: enum_ok_def)
  then show ?thesis
  proof cases
    case plain
    then show ?thesis
      using puts_enum_body [OF t _ wf out, of "int i"] rb
      by (simp add: enc i(2) enum_bits_def enum_put_def Let_def)
  next
    case root
    have "puts view po ([False] @ val_bits (nat (range_bits c)) (int i)) (Option.bind (asn_put_few_bits po 0 1)
      (\<lambda>(r, po). if r \<noteq> 0 then Some (- 1, po) else Option.bind (asn_put_few_bits po (word_of_int (int i)) (range_bits c))
        (\<lambda>(r, po). Some (if r \<noteq> 0 then - 1 else 0, po))))"
      by (rule puts_then [OF puts_bit(1) [OF wf out]], rule puts_enum_body [OF t root(2)]) (auto simp: emits_def out)
    then show ?thesis using root rb by (simp add: enc i(2) enum_bits_def enum_put_def Let_def cong: if_cong)
  next
    case ext
    have e: "extension specs \<noteq> 0" "root_count specs = extension specs - 1"
      using root_extension [of specs] ext(2) i(3) by auto
    let ?d = "int i - root_count specs"
    have d: "0 \<le> ?d" "?d < 2 ^ 24" using ext(2) i(3) len by linarith+
    have "puts view po ([True] @ nsnnwn_bits (po_nboff po + 1) ?d) (Option.bind (asn_put_few_bits po 1 1)
      (\<lambda>(r, po). if r \<noteq> 0 then Some (- 1, po) else Option.bind (aper_put_nsnnwn po ?d)
        (\<lambda>(r, po). Some (if r \<noteq> 0 then - 1 else 0, po))))"
    proof (rule puts_then [OF puts_bit(2) [OF wf out]])
      fix po1 assume e1: "emits view po [True] po1"
      have "nsnnwn_bits (po_nboff po + 1) ?d = nsnnwn_bits (po_nboff po1) ?d"
        using emits_phase [OF wf e1] by (metis nsnnwn_bits_mod length_Cons list.size(3) One_nat_def)
      moreover have "po_wf po1" "po_output po1 = consume" using e1 out by (auto simp: emits_def)
      ultimately show "puts view po1 (nsnnwn_bits (po_nboff po + 1) ?d) (Option.bind (aper_put_nsnnwn po1 ?d)
        (\<lambda>(r, po). Some (if r \<noteq> 0 then - 1 else 0, po)))"
        using puts_last [OF puts_nsnnwn [OF _ _ d]] by simp
    qed
    then show ?thesis using ext e rb by (simp add: enc i(2) enum_bits_def enum_put_def Let_def cong: if_cong)
  qed
qed

end

lemma gets_enum_root:
  assumes "enum_type specs c" and "i < root_count specs" and "0 \<le> i" and "pd_at pd (val_bits (nat (range_bits c)) i)"
  shows "\<exists>pd'. enum_get_aper specs (Some c) pd = Some (Inr (nat_value (value2enum specs ! nat i)), pd') \<and>
    pd_took pd (nat (range_bits c)) pd'"
proof -
  have "gets pd (val_bits (nat (range_bits c)) i) i (asn_get_few_bits (int (nat (range_bits c))) pd)"
    using assms by (intro gets_few) (auto simp: enum_type_def)
  then obtain pd' where "asn_get_few_bits (range_bits c) pd = Some (i, pd')" "pd_took pd (nat (range_bits c)) pd'"
    using assms(1) by (auto simp: gets_def enum_type_def)
  moreover have "enum_entry specs i = Some (nat_value (value2enum specs ! nat i))"
    using enum_entry_at [of "nat i" specs] assms by (simp add: enum_type_def nat_less_iff)
  ultimately show ?thesis
    using assms(1-3) by (simp add: enum_get_aper_def enum_get_root_def enum_type_def Let_def)
qed

lemma gets_enum:
  assumes ok: "enum_ok specs c v" and at: "pd_at pd (enum_bits specs c (pd_nboff pd) (enum_pos specs v))"
  shows "\<exists>k pd'. NativeEnumerated_decode_aper True (Some specs) (Some c) None sptr pd = Some ((RC_OK, k), Some v, pd') \<and>
    pd_took pd (length (enum_bits specs c (pd_nboff pd) (enum_pos specs v))) pd'"
proof -
  obtain i where i: "enum_pos specs v = int i" "i < length (value2enum specs)" "nat_value (value2enum specs ! i) = v"
    using enum_ok_index [OF ok] by blast
  have t: "enum_type specs c" using ok by (simp add: enum_ok_def)
  have dec: "NativeEnumerated_decode_aper True (Some specs) (Some c) None sptr pd =
      enum_decode True (Some specs) (Some c) enum_get_aper sptr pd"
    by (simp add: NativeEnumerated_decode_aper_def enum_constraint_def)
  obtain native where tg: "target True 0 sptr = Some native" by (cases sptr) (simp_all add: target_def)
  note at' = at [unfolded enum_bits_def i(1) Let_def]
  consider (plain) "flags c AND APC_EXTENSIBLE = 0" "int i < root_count specs"
    | (root) "flags c AND APC_EXTENSIBLE \<noteq> 0" "int i < root_count specs"
    | (ext) "flags c AND APC_EXTENSIBLE \<noteq> 0" "root_count specs \<le> int i"
    using ok i(1) by (fastforce simp: enum_ok_def)
  then show ?thesis
  proof cases
    case plain
    then show ?thesis
      using gets_enum_root [OF t, of "int i" pd] at' i tg
      by (auto simp: dec enum_decode_def enum_bits_def)
  next
    case root
    then have "pd_at pd ([False] @ val_bits (nat (range_bits c)) (int i))" using at' by simp
    from pd_at_took [OF this] gets_bit [OF pd_at_prefix [OF this]] obtain pd1 where
      b: "asn_get_few_bits 1 pd = Some (0, pd1)" "pd_took pd 1 pd1" "pd_at pd1 (val_bits (nat (range_bits c)) (int i))"
      by (auto simp: gets_def)
    then show ?thesis
      using gets_enum_root [OF t root(2) _ b(3)] pd_took_trans [OF b(2)] root i tg
      by (auto simp: dec enum_decode_def enum_bits_def)
  next
    case ext
    let ?d = "int i - root_count specs"
    have e: "extension specs \<noteq> 0" "root_count specs = extension specs - 1"
      using root_extension [of specs] ext(2) i(2) by auto
    have d: "0 \<le> ?d" "?d < 2 ^ 24" using ext(2) i(2) t by (auto simp: enum_type_def)
    have "pd_at pd ([True] @ nsnnwn_bits (pd_nboff pd + 1) ?d)" using at' ext by simp
    from pd_at_took [OF this] gets_bit [OF pd_at_prefix [OF this]] obtain pd1 where
      b: "asn_get_few_bits 1 pd = Some (1, pd1)" "pd_took pd 1 pd1" "pd_at pd1 (nsnnwn_bits (pd_nboff pd + 1) ?d)"
      by (auto simp: gets_def)
    have ph: "nsnnwn_bits (pd_nboff pd + 1) ?d = nsnnwn_bits (pd_nboff pd1) ?d"
      using pd_took_phase [OF b(2)] by (metis nsnnwn_bits_mod)
    obtain pd2 where g: "aper_get_nsnnwn pd1 = Some (?d, pd2)" "pd_took pd1 (length (nsnnwn_bits (pd_nboff pd + 1) ?d)) pd2"
      using gets_nsnnwn [of pd1 ?d] b(3) d unfolding ph by (auto simp: gets_def)
    have "enum_get_aper specs None pd1 = Some (Inr v, pd2)"
      using g(1) e d i enum_entry_at [OF i(2)] by (simp add: enum_get_aper_def Let_def)
    then show ?thesis
      using b(1) ext pd_took_trans [OF b(2) g(2)] i(1) tg
      by (simp add: dec enum_decode_def enum_bits_def)
  qed
qed

interpretation enum_aper: per_type "\<lambda>v. NativeEnumerated_encode_aper (Some specs) (Some c) None (Some v)"
  "NativeEnumerated_decode_aper True (Some specs) (Some c) None"
  "\<lambda>ph v. enum_bits specs c ph (enum_pos specs v)" "enum_ok specs c" "\<lambda>_. True" for specs c
proof
  fix v n assume "enum_ok specs c v"
  then show "encodes (grow_view n) (encode_dyn_cb (\<lambda>_. True)) (NativeEnumerated_encode_aper (Some specs) (Some c) None (Some v))
      (\<lambda>ph. enum_bits specs c ph (enum_pos specs v))"
    using grow.puts_enum by (intro encodes_of_puts) simp
next
  fix v pd sptr assume "enum_ok specs c v" "pd_at pd (enum_bits specs c (pd_nboff pd mod 8) (enum_pos specs v))"
  then show "\<exists>k pd'. NativeEnumerated_decode_aper True (Some specs) (Some c) None sptr pd = Some ((RC_OK, k), Some v, pd') \<and>
      pd_took pd (length (enum_bits specs c (pd_nboff pd mod 8) (enum_pos specs v))) pd'"
    using gets_enum by simp
qed

section \<open>Reading arbitrary data\<close>

lemma reads_few_nonneg: "pd_wf pd \<Longrightarrow> reads pd (\<lambda>v. - 1 \<le> v) (asn_get_few_bits n pd)"
  by (rule reads_mono [OF reads_few]) auto

lemma reads_nsnnwn:
  assumes "pd_wf pd"
  shows "reads pd (\<lambda>v. - 1 \<le> v) (aper_get_nsnnwn pd)" and "reads pd (\<lambda>v. - 1 \<le> v) (uper_get_nsnnwn pd)"
  unfolding aper_get_nsnnwn_def uper_get_nsnnwn_def Let_def
   by (auto intro!: assms reads_then [OF reads_few_nonneg] reads_aligned reads_return reads_few_nonneg)

text \<open>
  Whatever the data, a decoder returns a value of the table or the code of a failure. A table
  satisfies \<open>enum_table\<close> when the root is a part of it.
\<close>

definition enum_table :: "asn_INTEGER_specifics \<Rightarrow> bool" where
  "enum_table specs \<longleftrightarrow> value2enum specs \<noteq> [] \<and> 0 \<le> root_count specs \<and> root_count specs \<le> int (length (value2enum specs))"

definition enum_result :: "asn_INTEGER_specifics \<Rightarrow> asn_dec_rval_code + int \<Rightarrow> bool" where
  "enum_result specs res \<longleftrightarrow> (case res of Inl code \<Rightarrow> code \<noteq> RC_OK | Inr v \<Rightarrow> v \<in> nat_value ` set (value2enum specs))"

lemma reads_entry:
  assumes "pd_wf pd" and "0 \<le> v" and "v < int (length (value2enum specs))"
  shows "reads pd (enum_result specs) (Option.bind (enum_entry specs v) (\<lambda>n. Some (Inr n, pd)))"
proof -
  have l: "nat v < length (value2enum specs)" using assms(2,3) by linarith
  then have "enum_entry specs v = Some (nat_value (value2enum specs ! nat v))"
    using enum_entry_at [OF l] assms(2) by simp
  then show ?thesis using l assms(1) by (simp add: reads_return enum_result_def)
qed

lemma reads_enum_root:
  assumes "pd_wf pd" and "enum_table specs"
  shows "reads pd (enum_result specs) (Option.bind (enum_get_root specs c pd)
    (\<lambda>(res, pd). case res of Inl code \<Rightarrow> Some (Inl code, pd) | Inr v \<Rightarrow> Option.bind (enum_entry specs v) (\<lambda>n. Some (Inr n, pd))))"
proof (rule reads_then)
  show "reads pd (\<lambda>res. case res of Inl code \<Rightarrow> code \<noteq> RC_OK | Inr v \<Rightarrow> 0 \<le> v \<and> v < int (length (value2enum specs)))
      (enum_get_root specs c pd)"
    unfolding enum_get_root_def
    by (rule reads_then [OF reads_few_nonneg [OF assms(1)]]) (use assms(2) in \<open>auto intro!: reads_return simp: enum_table_def\<close>)
qed (auto intro!: reads_return reads_entry simp: enum_result_def [of _ "Inl _"] split: sum.splits)

lemma reads_extended:
  assumes "enum_table specs" and "extension specs \<noteq> 0" and "reads pd (\<lambda>v. - 1 \<le> v) get"
    and "\<And>pd. pd_wf pd \<Longrightarrow> reads pd (enum_result specs) (beyond pd)"
  shows "reads pd (enum_result specs) (Option.bind get (\<lambda>(v, pd).
    if v < 0 then Some (Inl RC_WMORE, pd)
    else let v = v + (extension specs - 1) in
      if int (length (value2enum specs)) \<le> v then beyond pd else Option.bind (enum_entry specs v) (\<lambda>n. Some (Inr n, pd))))"
proof (rule reads_then [OF assms(3)])
  fix v pd1 assume "pd_wf pd1"
  moreover have "0 \<le> extension specs - 1" using assms(1,2) by (simp add: enum_table_def root_count_def)
  ultimately show "reads pd1 (enum_result specs) (case (v, pd1) of (v, pd) \<Rightarrow>
    if v < 0 then Some (Inl RC_WMORE, pd)
    else let v = v + (extension specs - 1) in
      if int (length (value2enum specs)) \<le> v then beyond pd else Option.bind (enum_entry specs v) (\<lambda>n. Some (Inr n, pd)))"
    using assms(4) by (auto simp: Let_def enum_result_def [of _ "Inl _"] intro!: reads_return reads_entry)
qed

lemma reads_enum_get:
  assumes wf: "pd_wf pd" and t: "enum_table specs"
  shows "reads pd (enum_result specs) (enum_get_aper specs ct pd)" and "reads pd (enum_result specs) (enum_get_uper specs ct pd)"
proof -
  have first: "reads pd (enum_result specs) (Option.bind (enum_entry specs 0) (\<lambda>n. Some (Inr n, pd)))" if "pd_wf pd" for pd
    using that t by (intro reads_entry) (simp_all add: enum_table_def)
  show "reads pd (enum_result specs) (enum_get_uper specs ct pd)"
    unfolding enum_get_uper_def Let_def
    using wf t by (auto intro!: reads_enum_root reads_extended [unfolded Let_def] reads_nsnnwn reads_return
      simp: enum_result_def [of _ "Inl _"] split: option.splits)
  let ?extended = "\<lambda>pd. if extension specs = 0 then Some (Inl RC_FAIL, pd)
     else Option.bind (aper_get_nsnnwn pd) (\<lambda>(v, pd). if v < 0 then Some (Inl RC_WMORE, pd)
       else let v = v + (extension specs - 1) in
         if int (length (value2enum specs)) \<le> v then Option.bind (enum_entry specs 0) (\<lambda>n. Some (Inr n, pd))
         else Option.bind (enum_entry specs v) (\<lambda>n. Some (Inr n, pd)))"
  have ext: "reads pd (enum_result specs) (?extended pd)" if "pd_wf pd" for pd
    using that t first by (auto intro!: reads_extended reads_nsnnwn reads_return simp: enum_result_def [of _ "Inl _"])
  let ?body = "\<lambda>c pd. if 0 \<le> range_bits c then Option.bind (enum_get_root specs c pd) (\<lambda>(res, pd).
      case res of Inl code \<Rightarrow> Some (Inl code, pd) | Inr v \<Rightarrow> Option.bind (enum_entry specs v) (\<lambda>n. Some (Inr n, pd)))
    else ?extended pd"
  have body: "reads pd (enum_result specs) (?body c pd)" if "pd_wf pd" for c pd
    using that t ext by (auto intro: reads_enum_root)
  show "reads pd (enum_result specs) (enum_get_aper specs ct pd)"
  proof (cases ct)
    case None
    then show ?thesis using ext [OF wf] by (simp add: enum_get_aper_def Let_def)
  next
    case (Some c)
    let ?padding = "(8 - uint (pd_moved pd) mod 8) mod 8"
    have get: "enum_get_aper specs ct pd = Option.bind (if 255 \<le> upper_bound c \<and> 0 < ?padding
        then Option.bind (asn_get_few_bits ?padding pd) (\<lambda>(_, pd). Some pd) else Some pd) (?body c)"
      unfolding enum_get_aper_def Let_def Some by simp
    obtain v pd1 n where few: "asn_get_few_bits ?padding pd = Some (v, pd1)" "pd_took pd n pd1"
      using reads_few [OF wf] unfolding reads_def by blast
    have after: "reads pd (enum_result specs) (?body c pd1)"
      using body [OF pd_took_wf [OF few(2)]] pd_took_trans [OF few(2)] unfolding reads_def by blast
    show ?thesis
    proof (cases "255 \<le> upper_bound c \<and> 0 < ?padding")
      case True
      then show ?thesis using after few(1) by (simp only: get if_True simp_thms bind.bind_lunit prod.case)
    next
      case False
      then show ?thesis using body [OF wf] by (simp only: get if_False bind.bind_lunit)
    qed
  qed
qed

lemma reads_enum_decode:
  assumes wf: "pd_wf pd" and cont: "\<And>ct pd. pd_wf pd \<Longrightarrow> reads pd (enum_result specs) (cont specs ct pd)"
    and tg: "target alloc 0 sptr = Some native"
  shows "\<exists>code v pd'. enum_decode alloc (Some specs) (Some c) cont sptr pd = Some ((code, 0), Some v, pd') \<and> pd_wf pd' \<and>
    (if code = RC_OK then v \<in> nat_value ` set (value2enum specs) else v = native)"
proof -
  let ?ext = "if flags c AND APC_EXTENSIBLE \<noteq> 0 then Option.bind (asn_get_few_bits 1 pd) (\<lambda>(inext, pd).
      Some (if inext < 0 then Inl RC_WMORE else Inr (if inext \<noteq> 0 then None else Some c), pd))
    else Some (Inr (Some c), pd)"
  let ?get = "Option.bind ?ext (\<lambda>(ct, pd). case ct of Inl code \<Rightarrow> Some (Inl code, pd) | Inr ct \<Rightarrow> cont specs ct pd)"
  have "reads pd (\<lambda>r. \<forall>code. r = Inl code \<longrightarrow> code \<noteq> RC_OK) ?ext"
    by (auto intro!: wf reads_return reads_then [OF reads_few])
  then have "reads pd (enum_result specs) ?get"
    by (rule reads_then) (auto intro!: cont reads_return simp: enum_result_def [of _ "Inl _"] split: sum.splits)
  then obtain r pd' where r: "?get = Some (r, pd')" "enum_result specs r" "pd_wf pd'"
    using pd_took_wf unfolding reads_def by blast
  have "enum_decode alloc (Some specs) (Some c) cont sptr pd = Option.bind ?get (\<lambda>(res, pd).
      Some (case res of Inl code \<Rightarrow> ((code, 0), Some native, pd) | Inr v \<Rightarrow> ((RC_OK, 0), Some v, pd)))"
    unfolding enum_decode_def prod.case option.case tg bind_assoc by (simp add: case_prod_unfold)
  also have "\<dots> = Some (case r of Inl code \<Rightarrow> ((code, 0), Some native, pd') | Inr v \<Rightarrow> ((RC_OK, 0), Some v, pd'))"
    by (simp only: r(1) bind.bind_lunit prod.case)
  finally show ?thesis using r(2,3) by (cases r) (auto simp: enum_result_def)
qed

end
