(* ===== verification/Constr_Sequence_Laws.thy ===== *)
theory Constr_Sequence_Laws
  imports Constr_Sequence Per_Primitive_Laws
begin

unbundle bit_operations_syntax

text \<open>
  SEQUENCE keeps the contract \<open>per_type\<close> when its members do: the encoder writes the bit of the
  extension, the bits of the optional members and the members in turn, and the decoder makes the
  same structure of them.
\<close>

section \<open>Encoders in sequence\<close>

text \<open>The outcome of an encoder that may return any number but \<open>- 1\<close> when it has written its bits.\<close>

definition puts_any :: "'k sink_view \<Rightarrow> 'k asn_bit_outp \<Rightarrow> bool list \<Rightarrow> (int \<times> 'k asn_bit_outp) option \<Rightarrow> bool" where
  "puts_any V po bs res \<longleftrightarrow> (\<exists>n po'. res = Some (n, po') \<and>
     (n \<noteq> - 1 \<and> emits V po bs po' \<or> n = - 1 \<and> overflows V po bs))"

lemma puts_any_of_puts: "puts V po bs res \<Longrightarrow> puts_any V po bs res"
  unfolding puts_def puts_any_def by fastforce

lemma encodesD:
  "encodes V out enc bits \<Longrightarrow> po_wf po \<Longrightarrow> po_output po = out \<Longrightarrow> puts_any V po (bits (po_nboff po mod 8)) (enc po)"
  unfolding encodes_def puts_any_def by blast

lemma encodesI:
  "(\<And>po. po_wf po \<Longrightarrow> po_output po = out \<Longrightarrow> puts_any V po (bits (po_nboff po mod 8)) (enc po)) \<Longrightarrow> encodes V out enc bits"
  unfolding encodes_def puts_any_def by blast

lemma puts_any_then:
  assumes "puts_any V po as res" and "\<And>po1. emits V po as po1 \<Longrightarrow> puts V po1 bs (f po1)"
  shows "puts V po (as @ bs) (Option.bind res (\<lambda>(r, po). if r = - 1 then Some (- 1, po) else f po))"
proof -
  from assms(1) obtain r po1 where res: "res = Some (r, po1)"
      "r \<noteq> - 1 \<and> emits V po as po1 \<or> r = - 1 \<and> overflows V po as"
    by (auto simp: puts_any_def)
  then show ?thesis
    using assms(2) [of po1] by (auto simp: puts_def overflows_append intro: emits_trans emits_overflows)
qed

lemma puts_any_after:
  assumes "puts V po as res" and "\<And>po1. emits V po as po1 \<Longrightarrow> puts_any V po1 bs (f po1)"
  shows "puts_any V po (as @ bs) (Option.bind res (\<lambda>(r, po). if r \<noteq> 0 then Some (- 1, po) else f po))"
proof -
  from assms(1) obtain r po1 where res: "res = Some (r, po1)"
      "r = 0 \<and> emits V po as po1 \<or> r = - 1 \<and> overflows V po as"
    by (auto simp: puts_def)
  then show ?thesis
    using assms(2) [of po1] by (fastforce simp: puts_any_def overflows_append intro: emits_trans emits_overflows)
qed

lemma emits_ready:
  assumes "emits (grow_view n) po bs po1" and "po_wf po" and "po_output po = out"
  shows "po_wf po1" "po_output po1 = out" "po_nboff po1 mod 8 = (po_nboff po + length bs) mod 8"
  using assms grow.emits_phase [OF assms(2,1)] by (auto simp: emits_def)

section \<open>The bits of the members\<close>

text \<open>The bits of each member depend on where in an octet they start.\<close>

fun body_bits :: "(nat \<Rightarrow> nat \<Rightarrow> asn_value \<Rightarrow> bool list) \<Rightarrow> nat \<Rightarrow> nat \<Rightarrow> asn_value option list \<Rightarrow> bool list" where
  "body_bits mb ph i [] = []" |
  "body_bits mb ph i (None # vs) = body_bits mb ph (i + 1) vs" |
  "body_bits mb ph i (Some v # vs) =
    mb i (ph mod 8) v @ body_bits mb (ph + length (mb i (ph mod 8) v)) (i + 1) vs"

lemma body_bits_mod: "ph mod 8 = ph' mod 8 \<Longrightarrow> body_bits mb ph i vs = body_bits mb ph' i vs"
proof (induction mb ph i vs arbitrary: ph' rule: body_bits.induct)
  case (3 mb ph i v vs)
  have "(ph + length (mb i (ph mod 8) v)) mod 8 = (ph' + length (mb i (ph mod 8) v)) mod 8"
    using 3(2) by (metis mod_add_left_eq)
  then show ?case using 3 by simp
qed simp_all

definition presence :: "asn_value option list \<Rightarrow> nat list \<Rightarrow> bool list" where
  "presence vs is = map (\<lambda>i. vs ! i \<noteq> None) is"

locale sequence_type =
  fixes env :: env and specs :: asn_SEQUENCE_specifics and elms :: "asn_codec asn_TYPE_member list"
    and mbits :: "nat \<Rightarrow> nat \<Rightarrow> asn_value \<Rightarrow> bool list" and valid :: "asn_value option list \<Rightarrow> bool"
    and root :: nat
  assumes env: "stack_ok env" "struct_ok env" "alloc_ok env = (\<lambda>_. True)" "length (scratch env) = 32"
    and root: "root = (if first_extension specs < 0 then length elms else nat (first_extension specs))" "root \<le> length elms"
    and optionals: "roms_count specs \<le> length (oms specs)"
      "take (roms_count specs) (oms specs) = filter (\<lambda>i. optional (elms ! i) \<noteq> 0) [0..<root]"
    and no_defaults: "elm \<in> set elms \<Longrightarrow> default_value_cmp elm = None \<and> default_value_set elm = None"
    and additions: "length elms \<ge> roms_count specs + aoms_count specs"
    and shape: "valid vs \<Longrightarrow> length vs = length elms"
      "valid vs \<Longrightarrow> i < root \<Longrightarrow> vs ! i = None \<Longrightarrow> atf_pointer (elms ! i) \<and> optional (elms ! i) \<noteq> 0"
      "valid vs \<Longrightarrow> root \<le> i \<Longrightarrow> i < length elms \<Longrightarrow> vs ! i = None \<and> atf_pointer (elms ! i)"
    and member_encodes: "valid vs \<Longrightarrow> i < root \<Longrightarrow> vs ! i = Some v \<Longrightarrow>
      encodes (grow_view n) (encode_dyn_cb (\<lambda>_. True))
        (aper_encoder (memb_type (elms ! i)) (memb_constraints (elms ! i)) (Some v)) (\<lambda>ph. mbits i ph v)"
    and member_decodes: "valid vs \<Longrightarrow> i < root \<Longrightarrow> vs ! i = Some v \<Longrightarrow> length st = length elms \<Longrightarrow> take i st = take i vs \<Longrightarrow>
      pd_at pd (mbits i (pd_nboff pd mod 8) v) \<Longrightarrow>
      \<exists>pd'. SEQUENCE_get_member env st (elms ! i) (blank (elms ! i)) pd = Some (None, Some v, pd') \<and>
        pd_took pd (length (mbits i (pd_nboff pd mod 8) v)) pd'"
begin

lemma in_extension: "i < length elms \<Longrightarrow> in_extension_group specs i \<longleftrightarrow> root \<le> i"
  using root by (auto simp: in_extension_group_def split: if_splits)

abbreviation (input) optional_from :: "nat \<Rightarrow> nat list" where
  "optional_from i \<equiv> filter (\<lambda>i. optional (elms ! i) \<noteq> 0) [i..<root]"

definition seq_bits :: "nat \<Rightarrow> asn_value option list \<Rightarrow> bool list" where
  "seq_bits ph vs =
    (let head = (if first_extension specs < 0 then [] else [False]) @ presence vs (optional_from 0)
     in head @ body_bits mbits (ph + length head) 0 (take root vs))"

text \<open>The decoder of the root.\<close>

lemma blank_beyond:
  assumes "valid vs" and "root \<le> i"
  shows "take i vs @ drop i (map blank elms) = vs"
proof (rule nth_equalityI)
  show "length (take i vs @ drop i (map blank elms)) = length vs" using shape(1) [OF assms(1)] by simp
  fix j assume "j < length (take i vs @ drop i (map blank elms))"
  then show "(take i vs @ drop i (map blank elms)) ! j = vs ! j"
    using shape(1,3) [OF assms(1)] assms(2) by (auto simp: nth_append blank_def min_def)
qed

lemma skip_beyond:
  "root \<le> i \<Longrightarrow> i \<le> length elms \<Longrightarrow> SEQUENCE_get_root env specs (drop i elms) i st opmd pd = Some (None, st, pd)"
proof (induction "length elms - i" arbitrary: i)
  case (Suc k)
  then have "drop i elms = elms ! i # drop (Suc i) elms" by (simp add: Cons_nth_drop_Suc)
  then show ?case using Suc in_extension [of i] by simp
qed simp

lemma gets_root:
  assumes v: "valid vs"
  shows "i \<le> root \<Longrightarrow> pd_at opmd (presence vs (optional_from i)) \<Longrightarrow> pd_wf pd \<Longrightarrow>
    pd_at pd (body_bits mbits (pd_nboff pd) i (drop i (take root vs))) \<Longrightarrow>
    \<exists>pd'. SEQUENCE_get_root env specs (drop i elms) i (take i vs @ drop i (map blank elms)) opmd pd = Some (None, vs, pd') \<and>
      pd_took pd (length (body_bits mbits (pd_nboff pd) i (drop i (take root vs)))) pd'"
proof (induction "root - i" arbitrary: i opmd pd)
  case 0
  then have i: "i = root" by simp
  then show ?case
    using skip_beyond [of root] blank_beyond [OF v order_refl] root(2) 0(4) by (auto simp: pd_took_refl)
next
  case (Suc k)
  let ?st = "take i vs @ drop i (map blank elms)" and ?elm = "elms ! i"
  have l: "length vs = length elms" using shape(1) [OF v] .
  have i: "i < root" "i < length elms" using Suc(2) root(2) by auto
  have E: "drop i elms = ?elm # drop (Suc i) elms" using i by (simp add: Cons_nth_drop_Suc)
  have V: "drop i (take root vs) = vs ! i # drop (Suc i) (take root vs)" using i l by (simp add: Cons_nth_drop_Suc [symmetric])
  have st: "nth_opt ?st i = Some (blank ?elm)" "length ?st = length elms" "take i ?st = take i vs"
    using i l by (simp_all add: nth_opt_def nth_append min_def)
  have next_st: "?st[i := vs ! i] = take (Suc i) vs @ drop (Suc i) (map blank elms)"
    using i l by (intro nth_equalityI) (auto simp: nth_append nth_list_update min_def not_less_eq less_Suc_eq)
  have nd: "default_value_set ?elm = None" using no_defaults [of ?elm] i(2) by simp
  have fld: "field ?elm ?st i = Some (blank ?elm)" using st(1) by (simp add: field_def blank_def)
  have bit: "\<exists>opmd'. (if optional ?elm \<noteq> 0 then asn_get_few_bits 1 opmd else Some (1, opmd)) =
      Some (if vs ! i = None then 0 else 1, opmd') \<and> pd_at opmd' (presence vs (optional_from (Suc i)))"
  proof (cases "optional ?elm \<noteq> 0")
    case True
    then have "presence vs (optional_from i) = [vs ! i \<noteq> None] @ presence vs (optional_from (Suc i))"
      using i(1) by (simp add: presence_def upt_rec [of i])
    note at = Suc(4) [unfolded this]
    show ?thesis
      using gets_bit [OF pd_at_prefix [OF at]] pd_at_took [OF at] True by (auto simp: gets_def)
  next
    case False
    then have "presence vs (optional_from i) = presence vs (optional_from (Suc i))" using i(1) by (simp add: upt_rec [of i])
    then show ?thesis using Suc(4) shape(2) [OF v i(1)] False by auto
  qed
  then obtain opmd' where b: "(if optional ?elm \<noteq> 0 then asn_get_few_bits 1 opmd else Some (1, opmd)) =
      Some (if vs ! i = None then 0 else 1, opmd')" "pd_at opmd' (presence vs (optional_from (Suc i)))" by blast
  show ?case
  proof (cases "vs ! i")
    case None
    then have "?st[i := vs ! i] = ?st" using shape(2) [OF v i(1)] st(1) by (simp add: blank_def nth_opt_def list_update_same_conv split: if_splits)
    then have same: "take (Suc i) vs @ drop (Suc i) (map blank elms) = ?st" using next_st by simp
    have "pd_at pd (body_bits mbits (pd_nboff pd) (Suc i) (drop (Suc i) (take root vs)))"
      using Suc(6) None unfolding V by simp
    moreover have "k = root - Suc i" "Suc i \<le> root" using Suc(2) i(1) by auto
    ultimately obtain pd' where
      r: "SEQUENCE_get_root env specs (drop (Suc i) elms) (Suc i) ?st opmd' pd = Some (None, vs, pd')"
        "pd_took pd (length (body_bits mbits (pd_nboff pd) (Suc i) (drop (Suc i) (take root vs)))) pd'"
      using Suc(1) [of "Suc i", OF _ _ b(2) Suc(5)] unfolding same by blast
    have "SEQUENCE_get_root env specs (drop i elms) i ?st opmd pd = Some (None, vs, pd')"
      unfolding E SEQUENCE_get_root.simps fld b(1) using r(1) in_extension [OF i(2)] i(1) None nd by simp
    then show ?thesis using r(2) None unfolding V by simp
  next
    case (Some v')
    let ?mb = "mbits i (pd_nboff pd mod 8) v'"
    let ?tail = "body_bits mbits (pd_nboff pd + length ?mb) (Suc i) (drop (Suc i) (take root vs))"
    have at: "pd_at pd (?mb @ ?tail)" using Suc(6) Some unfolding V by simp
    obtain pd1 where g: "SEQUENCE_get_member env ?st ?elm (blank ?elm) pd = Some (None, Some v', pd1)"
        "pd_took pd (length ?mb) pd1"
      using member_decodes [OF v i(1) Some st(2,3) pd_at_prefix [OF at]] by blast
    have ph: "?tail = body_bits mbits (pd_nboff pd1) (Suc i) (drop (Suc i) (take root vs))"
      using pd_took_phase [OF g(2)] by (intro body_bits_mod) simp
    have "k = root - Suc i" "Suc i \<le> root" using Suc(2) i(1) by auto
    then obtain pd' where
      r: "SEQUENCE_get_root env specs (drop (Suc i) elms) (Suc i) (?st[i := Some v']) opmd' pd1 = Some (None, vs, pd')"
        "pd_took pd1 (length ?tail) pd'"
      using Suc(1) [of "Suc i", OF _ _ b(2) pd_took_wf [OF g(2)]] pd_at_took [OF at g(2)]
      unfolding ph next_st [unfolded Some] by blast
    have "SEQUENCE_get_root env specs (drop i elms) i ?st opmd pd = Some (None, vs, pd')"
      unfolding E SEQUENCE_get_root.simps fld b(1) using r(1) in_extension [OF i(2)] i(1) Some g(1) by simp
    then show ?thesis using pd_took_trans [OF g(2) r(2)] Some unfolding V by simp
  qed
qed

lemma fill_nothing:
  assumes "length st = length elms"
  shows "(\<And>i. i \<in> set is \<Longrightarrow> i < length elms) \<Longrightarrow> SEQUENCE_fill_defaults elms is st = Some (True, st)"
proof (induction "is")
  case (Cons i "is")
  then have "default_value_set (elms ! i) = None" using no_defaults [of "elms ! i"] by simp
  then show ?case using Cons assms by (simp add: nth_opt_def)
qed simp

lemma length_presence: "length (presence vs (optional_from 0)) = roms_count specs"
proof -
  have "length (presence vs (optional_from 0)) = length (take (roms_count specs) (oms specs))"
    by (simp only: presence_def length_map optionals(2))
  then show ?thesis using optionals(1) by simp
qed

lemma gets_presence:
  assumes "pd_at pd (presence vs (optional_from 0))"
  shows "\<exists>opres pd'. (if roms_count specs \<noteq> 0 then asn_get_many_bits pd False (roms_count specs) else Some (0, [], pd)) = Some (0, opres, pd') \<and>
    pd_took pd (roms_count specs) pd' \<and> pd_at (bitmap_reader opres (roms_count specs)) (presence vs (optional_from 0))"
proof (cases "roms_count specs = 0")
  case True
  then have "presence vs (optional_from 0) = []" using length_presence [of vs] by simp
  then show ?thesis
    using True assms by (auto simp: pd_at_def pd_took_refl bitmap_reader_def pd_wf_def)
next
  case False
  let ?bs = "presence vs (optional_from 0)"
  obtain r where r: "pd_rest pd = ?bs @ r" "pd_wf pd" using assms by (auto simp: pd_at_def prefix_def)
  obtain ds pd' where g: "asn_get_many_bits pd False (roms_count specs) = Some (0, ds, pd')" "pd_took pd (roms_count specs) pd'"
      "bytes_bits ds = ?bs @ odd_pad (roms_count specs)"
    using asn_get_many_bits_ok [OF r(2), of "roms_count specs"] r(1) length_presence [of vs] by auto
  have "roms_count specs \<le> 8 * length ds" using arg_cong [OF g(3), of length] length_presence [of vs] by simp
  moreover have "take (roms_count specs) (bytes_bits ds) = ?bs" using g(3) length_presence [of vs] by simp
  ultimately have "pd_at (bitmap_reader ds (roms_count specs)) ?bs"
    by (simp add: pd_at_def bitmap_reader_def pd_wf_def pd_rest_def)
  then show ?thesis using g(1,2) False by auto
qed

lemma decodes:
  assumes v: "valid vs" and fits: "pred_option (\<lambda>t. t = Fields (map blank elms)) sptr"
    and at: "pd_at pd (seq_bits (pd_nboff pd mod 8) vs)"
  shows "\<exists>k pd'. SEQUENCE_decode_aper env specs elms sptr pd = Some ((RC_OK, k), Some (Fields vs), pd') \<and>
    pd_took pd (length (seq_bits (pd_nboff pd mod 8) vs)) pd'"
proof -
  let ?ext = "if first_extension specs < 0 then [] else [False]"
  let ?pres = "presence vs (optional_from 0)"
  define ph where "ph = pd_nboff pd mod 8 + length (?ext @ ?pres)"
  let ?body = "body_bits mbits ph 0 (take root vs)"
  have bits: "seq_bits (pd_nboff pd mod 8) vs = ?ext @ ?pres @ ?body"
    by (simp add: seq_bits_def Let_def ph_def)
  note at1 = at [unfolded bits]
  have tg: "target (struct_ok env) (Fields (map blank elms)) sptr = Some (Fields (map blank elms))"
    using fits env(2) by (cases sptr) (simp_all add: target_def)
  obtain pd1 where e: "(if first_extension specs < 0 then Some (0, pd) else asn_get_few_bits 1 pd) = Some (0, pd1)"
      "pd_took pd (length ?ext) pd1"
  proof (cases "first_extension specs < 0")
    case True
    then show ?thesis using that [of pd] at1 by (auto simp: pd_at_def pd_took_refl)
  next
    case False
    then have "gets pd [False] 0 (asn_get_few_bits 1 pd)" using gets_bit [of pd False] pd_at_prefix [OF at1] by simp
    then show ?thesis using that False by (auto simp: gets_def)
  qed
  note at2 = pd_at_took [OF at1 e(2)]
  obtain opres pd2 where p: "(if roms_count specs \<noteq> 0 then asn_get_many_bits pd1 False (roms_count specs) else Some (0, [], pd1)) = Some (0, opres, pd2)"
      "pd_took pd1 (length ?pres) pd2" "pd_at (bitmap_reader opres (roms_count specs)) ?pres"
    using gets_presence [OF pd_at_prefix [OF at2]] length_presence [of vs] by auto
  note at3 = pd_at_took [OF at2 p(2)]
  have "pd_nboff pd2 mod 8 = (pd_nboff pd + length (?ext @ ?pres)) mod 8"
    using pd_took_phase [OF pd_took_trans [OF e(2) p(2)]] by (simp only: length_append)
  then have "pd_nboff pd2 mod 8 = ph mod 8" by (simp only: ph_def mod_add_left_eq)
  then have body: "?body = body_bits mbits (pd_nboff pd2) 0 (take root vs)" by (intro body_bits_mod) simp
  obtain pd3 where r: "SEQUENCE_get_root env specs elms 0 (map blank elms) (bitmap_reader opres (roms_count specs)) pd2 = Some (None, vs, pd3)"
      "pd_took pd2 (length ?body) pd3"
    using gets_root [OF v le0 p(3) pd_at_wf [OF at3]] at3 unfolding body by auto
  have f: "SEQUENCE_fill_defaults elms [roms_count specs ..< roms_count specs + aoms_count specs] vs = Some (True, vs)"
    using additions shape(1) [OF v] by (intro fill_nothing) auto
  have alloc: "alloc_ok env n" for n using env(3) by simp
  have "SEQUENCE_decode_aper env specs elms sptr pd = Some ((RC_OK, 0), Some (Fields vs), pd3)"
    unfolding SEQUENCE_decode_aper_def tg using env(1) alloc e(1) p(1) r(1) f by (simp add: Let_def)
  moreover have "pd_took pd (length (?ext @ ?pres @ ?body)) pd3"
    using pd_took_trans [OF e(2) pd_took_trans [OF p(2) r(2)]] by (simp add: add.assoc)
  ultimately show ?thesis unfolding bits by auto
qed

text \<open>The encoder.\<close>

lemma field_root:
  assumes "valid vs" and "i < root"
  shows "field (elms ! i) vs i = Some (vs ! i)" and "default_value_cmp (elms ! i) = None"
proof -
  have "i < length elms" using assms(2) root(2) by simp
  then show "field (elms ! i) vs i = Some (vs ! i)" "default_value_cmp (elms ! i) = None"
    using shape(1) [OF assms(1)] shape(2) [OF assms] no_defaults [of "elms ! i"] by (auto simp: field_def nth_opt_def)
qed

lemma puts_presence:
  assumes v: "valid vs"
  shows "(\<And>i. i \<in> set is \<Longrightarrow> i < root) \<Longrightarrow> po_wf po \<Longrightarrow> po_output po = encode_dyn_cb (\<lambda>_. True) \<Longrightarrow>
    puts (grow_view n) po (presence vs is) (SEQUENCE_put_presence elms is vs po)"
proof (induction "is" arbitrary: po)
  case Nil
  then show ?case by (simp add: presence_def puts_nothing)
next
  case (Cons i "is")
  then have i: "i < root" by simp
  then have e: "nth_opt elms i = Some (elms ! i)" using root(2) by (simp add: nth_opt_def)
  have "puts (grow_view n) po [vs ! i \<noteq> None] (asn_put_few_bits po (of_bool (vs ! i \<noteq> None)) 1)"
    using grow.puts_bit [OF Cons.prems(2,3)] by simp
  then have "puts (grow_view n) po ([vs ! i \<noteq> None] @ presence vs is) (Option.bind (asn_put_few_bits po (of_bool (vs ! i \<noteq> None)) 1)
      (\<lambda>(r, po). if r \<noteq> 0 then Some (- 1, po) else SEQUENCE_put_presence elms is vs po))"
    by (rule puts_then) (use Cons.IH Cons.prems emits_ready in \<open>auto\<close>)
  then show ?case using field_root [OF v i] e by (simp add: presence_def cong: if_cong)
qed

lemma puts_root:
  assumes v: "valid vs"
  shows "i \<le> root \<Longrightarrow> po_wf po \<Longrightarrow> po_output po = encode_dyn_cb (\<lambda>_. True) \<Longrightarrow>
    puts (grow_view n) po (body_bits mbits (po_nboff po) i (drop i (take root vs))) (SEQUENCE_put_root specs (drop i elms) i vs po)"
proof (induction "root - i" arbitrary: i po)
  case 0
  then have i: "i = root" by simp
  have "SEQUENCE_put_root specs (drop root elms) root vs po = Some (0, po)"
  proof (cases "root < length elms")
    case True
    then have "drop root elms = elms ! root # drop (Suc root) elms" by (simp add: Cons_nth_drop_Suc)
    then show ?thesis using in_extension [OF True] by simp
  qed simp
  then show ?case using i 0(3) by (simp add: puts_nothing)
next
  case (Suc k)
  have i: "i < root" "i < length elms" using Suc(2) root(2) by auto
  have E: "drop i elms = elms ! i # drop (Suc i) elms" using i by (simp add: Cons_nth_drop_Suc)
  have V: "drop i (take root vs) = vs ! i # drop (Suc i) (take root vs)"
    using i shape(1) [OF v] by (simp add: Cons_nth_drop_Suc [symmetric])
  note f = field_root [OF v i(1)]
  have k: "k = root - Suc i" "Suc i \<le> root" using Suc(2) i(1) by auto
  show ?case
  proof (cases "vs ! i")
    case None
    then show ?thesis
      using Suc(1) [OF k Suc(4,5)] shape(2) [OF v i(1)] in_extension [OF i(2)] i(1) f(1) unfolding E V by simp
  next
    case (Some v')
    let ?enc = "aper_encoder (memb_type (elms ! i)) (memb_constraints (elms ! i)) (Some v')"
    let ?mb = "mbits i (po_nboff po mod 8) v'"
    let ?tail = "body_bits mbits (po_nboff po + length ?mb) (Suc i) (drop (Suc i) (take root vs))"
    have "puts_any (grow_view n) po ?mb (?enc po)"
      using encodesD [OF member_encodes [OF v i(1) Some] Suc(4,5)] .
    then have "puts (grow_view n) po (?mb @ ?tail) (Option.bind (?enc po) (\<lambda>(r, po).
        if r = - 1 then Some (- 1, po) else SEQUENCE_put_root specs (drop (Suc i) elms) (Suc i) vs po))"
    proof (rule puts_any_then)
      fix po1 assume "emits (grow_view n) po ?mb po1"
      note p1 = emits_ready [OF this Suc(4,5)]
      have "?tail = body_bits mbits (po_nboff po1) (Suc i) (drop (Suc i) (take root vs))"
        using p1(3) by (intro body_bits_mod) simp
      then show "puts (grow_view n) po1 ?tail (SEQUENCE_put_root specs (drop (Suc i) elms) (Suc i) vs po1)"
        using Suc(1) [OF k p1(1,2)] by simp
    qed
    then show ?thesis using in_extension [OF i(2)] i(1) f Some unfolding E V by (simp cong: if_cong)
  qed
qed

lemma no_additions:
  assumes v: "valid vs"
  shows "root \<le> i \<Longrightarrow> i \<le> length elms \<Longrightarrow>
    handle_additions env False False specs (drop i elms) i vs 0 c po = Some (0, po)"
proof (induction "length elms - i" arbitrary: i c)
  case (Suc k)
  then have i: "i < length elms" and k: "k = length elms - Suc i" "Suc i \<le> length elms" by auto
  have E: "drop i elms = elms ! i # drop (Suc i) elms" using i by (simp add: Cons_nth_drop_Suc)
  have "field (elms ! i) vs i = Some None"
    using shape(1) [OF v] shape(3) [OF v Suc(3) i] i by (simp add: field_def nth_opt_def)
  then show ?case using Suc(1) [OF k(1) _ k(2)] Suc(3) in_extension [OF i] unfolding E by simp
qed simp

lemma encodes_fields:
  assumes v: "valid vs"
  shows "encodes (grow_view n) (encode_dyn_cb (\<lambda>_. True)) (SEQUENCE_encode_aper env specs elms (Some (Fields vs))) (\<lambda>ph. seq_bits ph vs)"
proof (rule encodesI, rule puts_any_of_puts)
  fix po :: "enc_dyn_arg asn_bit_outp" assume wf: "po_wf po" and out: "po_output po = encode_dyn_cb (\<lambda>_. True)"
  let ?pres = "presence vs (optional_from 0)"
  let ?ext = "if first_extension specs < 0 then [] else [False]"
  let ?body = "\<lambda>ph. body_bits mbits ph 0 (take root vs)"
  let ?rest = "\<lambda>po. Option.bind (SEQUENCE_put_presence elms (take (roms_count specs) (oms specs)) vs po) (\<lambda>(r, po).
         if r \<noteq> 0 then Some (- 1, po)
         else Option.bind (SEQUENCE_put_root specs elms 0 vs po) (\<lambda>(r, po).
           if r = - 1 then Some (- 1, po) else Some (0, po)))"
  have body: "puts (grow_view n) po (?body (po_nboff po)) (Option.bind (SEQUENCE_put_root specs elms 0 vs po) (\<lambda>(r, po).
      if r = - 1 then Some (- 1, po) else Some (0, po)))"
    if "po_wf po" "po_output po = encode_dyn_cb (\<lambda>_. True)" for po
    using puts_any_then [OF puts_any_of_puts [OF puts_root [OF v le0 that]], where bs = "[]" and f = "\<lambda>po. Some (0, po)"]
    by (simp add: puts_nothing emits_wf)
  have rest: "puts (grow_view n) po (?pres @ ?body (po_nboff po + length ?pres)) (?rest po)"
    if p: "po_wf po" "po_output po = encode_dyn_cb (\<lambda>_. True)" for po
  proof (rule puts_then)
    show "puts (grow_view n) po ?pres (SEQUENCE_put_presence elms (take (roms_count specs) (oms specs)) vs po)"
      unfolding optionals(2) by (rule puts_presence [OF v _ p]) auto
    fix po1 assume "emits (grow_view n) po ?pres po1"
    note p1 = emits_ready [OF this p]
    have "?body (po_nboff po + length ?pres) = ?body (po_nboff po1)" using p1(3) by (intro body_bits_mod) simp
    then show "puts (grow_view n) po1 (?body (po_nboff po + length ?pres)) (Option.bind (SEQUENCE_put_root specs elms 0 vs po1) (\<lambda>(r, po).
        if r = - 1 then Some (- 1, po) else Some (0, po)))"
      using body [OF p1(1,2)] by simp
  qed
  have "?body (po_nboff po mod 8 + length (?ext @ ?pres)) = ?body (po_nboff po + length ?ext + length ?pres)"
    by (intro body_bits_mod) (simp only: length_append add.assoc mod_add_left_eq)
  then have seq: "seq_bits (po_nboff po mod 8) vs = ?ext @ ?pres @ ?body (po_nboff po + length ?ext + length ?pres)"
    by (simp only: seq_bits_def Let_def append_assoc)
  show "puts (grow_view n) po (seq_bits (po_nboff po mod 8) vs) (SEQUENCE_encode_aper env specs elms (Some (Fields vs)) po)"
  proof (cases "first_extension specs < 0")
    case True
    then show ?thesis using rest [OF wf out] unfolding seq by (simp add: SEQUENCE_encode_aper_def Let_def cong: if_cong)
  next
    case False
    then have first: "nat (first_extension specs) = root" using root(1) by simp
    have "SEQUENCE_handle_extensions_aper env False False specs elms vs po = Some (0, po)"
      using False no_additions [OF v order_refl root(2)] first by (simp add: SEQUENCE_handle_extensions_aper_def)
    then have enc: "SEQUENCE_encode_aper env specs elms (Some (Fields vs)) po =
        Option.bind (asn_put_few_bits po 0 1) (\<lambda>(r, po). if r \<noteq> 0 then Some (- 1, po) else ?rest po)"
      using False by (simp add: SEQUENCE_encode_aper_def Let_def case_prod_unfold cong: if_cong)
    have "puts (grow_view n) po ([False] @ ?pres @ ?body (po_nboff po + 1 + length ?pres)) \<dots>"
    proof (rule puts_then [OF grow.puts_bit(1) [OF wf out]])
      fix po1 assume "emits (grow_view n) po [False] po1"
      note p1 = emits_ready [OF this wf out]
      have "?body (po_nboff po + 1 + length ?pres) = ?body (po_nboff po1 + length ?pres)"
        using p1(3) by (intro body_bits_mod) (metis mod_add_left_eq length_Cons list.size(3) One_nat_def)
      then show "puts (grow_view n) po1 (?pres @ ?body (po_nboff po + 1 + length ?pres)) (?rest po1)"
        using rest [OF p1(1,2)] by simp
    qed
    then show ?thesis using False unfolding seq enc by simp
  qed
qed

lemma keeps:
  "per_type (\<lambda>v. SEQUENCE_encode_aper env specs elms (Some v)) (SEQUENCE_decode_aper env specs elms)
    (\<lambda>ph v. case v of Fields vs \<Rightarrow> seq_bits ph vs | _ \<Rightarrow> []) (\<lambda>v. \<exists>vs. v = Fields vs \<and> valid vs)
    (\<lambda>t. t = Fields (map blank elms))"
proof
  fix v n assume "\<exists>vs. v = Fields vs \<and> valid vs"
  then show "encodes (grow_view n) (encode_dyn_cb (\<lambda>_. True)) (SEQUENCE_encode_aper env specs elms (Some v))
      (\<lambda>ph. case v of Fields vs \<Rightarrow> seq_bits ph vs | _ \<Rightarrow> [])"
    using encodes_fields by auto
qed (use decodes in \<open>auto\<close>)

end

end
