(* ===== verification/Constr_Laws.thy ===== *)
theory Constr_Laws
  imports Constr_Sequence_Laws Constr_Choice Constr_Sequence_Of
begin

unbundle bit_operations_syntax

text \<open>
  SEQUENCE OF and CHOICE keep the contract \<open>per_type\<close> when the types they are made of
  do, so that a type composed of them does.
\<close>

text \<open>A descriptor that keeps the contract under the constraints its caller passes.\<close>

abbreviation codec_keeps ::
  "asn_codec \<Rightarrow> asn_per_constraints option \<Rightarrow> (nat \<Rightarrow> asn_value \<Rightarrow> bool list) \<Rightarrow> (asn_value \<Rightarrow> bool) \<Rightarrow> (asn_value \<Rightarrow> bool) \<Rightarrow> bool" where
  "codec_keeps td cs bits valid fits \<equiv> per_type (\<lambda>v. aper_encoder td cs (Some v)) (aper_decoder td cs) bits valid fits"

text \<open>An environment in which nothing fails.\<close>

definition ideal :: "env \<Rightarrow> bool" where
  "ideal env \<longleftrightarrow> stack_ok env \<and> struct_ok env \<and> alloc_ok env = (\<lambda>_. True) \<and> length (scratch env) = 32"

section \<open>SEQUENCE OF\<close>

locale sequence_of_type =
  fixes env :: env and c :: asn_per_constraint and elm :: "asn_codec asn_TYPE_member"
    and bits :: "nat \<Rightarrow> asn_value \<Rightarrow> bool list" and valid fits :: "asn_value \<Rightarrow> bool"
  assumes env: "ideal env"
    and size_bounds: "flags c = APC_CONSTRAINED" "0 \<le> effective_bits c" "0 \<le> lower_bound c" "lower_bound c \<le> upper_bound c"
      "upper_bound c < 65536"
    and keeps: "codec_keeps (memb_type elm) (memb_constraints elm) bits valid fits"
begin

definition of_bits :: "nat \<Rightarrow> asn_value list \<Rightarrow> bool list" where
  "of_bits ph vs =
    (let head = (if lower_bound c = upper_bound c then [] else cwn_bits ph (lower_bound c) (upper_bound c) (int (length vs)))
     in head @ body_bits (\<lambda>_. bits) (ph + length head) 0 (map Some vs))"

lemma gets_elements:
  "list_all valid vs \<Longrightarrow> pd_at pd (body_bits (\<lambda>_. bits) (pd_nboff pd) i (map Some vs)) \<Longrightarrow> length us + length vs < 2 ^ 30 \<Longrightarrow>
    \<exists>pd'. SET_OF_get_elements env elm (length vs) us pd = Some (None, us @ vs, pd') \<and>
      pd_took pd (length (body_bits (\<lambda>_. bits) (pd_nboff pd) i (map Some vs))) pd'"
proof (induction vs arbitrary: us pd i)
  case Nil
  then show ?case by (auto simp: pd_at_def pd_took_refl)
next
  case (Cons v vs)
  let ?mb = "bits (pd_nboff pd mod 8) v"
  let ?tail = "body_bits (\<lambda>_. bits) (pd_nboff pd + length ?mb) (i + 1) (map Some vs)"
  have at: "pd_at pd (?mb @ ?tail)" using Cons.prems(2) by simp
  obtain k pd1 where d: "aper_decoder (memb_type elm) (memb_constraints elm) None pd = Some ((RC_OK, k), Some v, pd1)"
      "pd_took pd (length ?mb) pd1"
    using per_type.decodes_bits [OF keeps, of v None pd] Cons.prems(1) pd_at_prefix [OF at] by auto
  have ph: "?tail = body_bits (\<lambda>_. bits) (pd_nboff pd1) (i + 1) (map Some vs)"
    using pd_took_phase [OF d(2)] by (intro body_bits_mod) simp
  obtain pd' where r: "SET_OF_get_elements env elm (length vs) (us @ [v]) pd1 = Some (None, (us @ [v]) @ vs, pd')"
      "pd_took pd1 (length ?tail) pd'"
    using Cons.IH [of pd1 "i + 1" "us @ [v]"] Cons.prems(1,3) pd_at_took [OF at d(2)] unfolding ph by auto
  then show ?case
    using d(1) env Cons.prems(3) pd_took_trans [OF d(2) r(2)] by (simp add: asn_set_add_def ideal_def)
qed

lemma size_range: "long_range (lower_bound c) (upper_bound c)"
  using size_bounds by (simp add: long_range_def LLONG_MAX_def)

lemma decodes:
  assumes v: "list_all valid vs" "lower_bound c \<le> int (length vs)" "int (length vs) \<le> upper_bound c"
    and fits: "pred_option (\<lambda>t. t = Elements []) sptr" and at: "pd_at pd (of_bits (pd_nboff pd mod 8) vs)"
  shows "\<exists>k pd'. SET_OF_decode_aper env None elm (Some \<lparr>on_value = any, on_size = c\<rparr>) sptr pd =
      Some ((RC_OK, k), Some (Elements vs), pd') \<and> pd_took pd (length (of_bits (pd_nboff pd mod 8) vs)) pd'"
proof -
  let ?head = "if lower_bound c = upper_bound c then [] else cwn_bits (pd_nboff pd) (lower_bound c) (upper_bound c) (int (length vs))"
  let ?body = "body_bits (\<lambda>_. bits) (pd_nboff pd + length ?head) 0 (map Some vs)"
  have "body_bits (\<lambda>_. bits) (pd_nboff pd mod 8 + length ?head) 0 (map Some vs) = ?body"
    by (intro body_bits_mod) (simp only: mod_add_left_eq)
  then have bits: "of_bits (pd_nboff pd mod 8) vs = ?head @ ?body" by (simp only: of_bits_def Let_def cwn_bits_mod)
  note at1 = at [unfolded bits]
  let ?nelems = "if 1 \<le> upper_bound c \<and> upper_bound c \<le> 65535 \<and> upper_bound c = lower_bound c then upper_bound c else - 1"
  obtain pd1 where h: "(if 0 \<le> ?nelems then Some ((?nelems, False), pd)
        else aper_get_length pd (lower_bound c) (upper_bound c) (effective_bits c)) = Some ((int (length vs), False), pd1)"
      "pd_took pd (length ?head) pd1"
  proof (cases "0 \<le> ?nelems")
    case True
    then have "?nelems = int (length vs)" "?head = []" using v size_bounds by (auto split: if_splits)
    then show ?thesis using that [of pd] True at1 by (simp add: pd_at_def pd_took_refl)
  next
    case False
    have "cwn_bits (pd_nboff pd) (lower_bound c) (upper_bound c) (int (length vs)) = ?head"
      using v by (simp add: cwn_bits_def)
    then have "gets pd ?head (int (length vs)) (aper_get_constrained_whole_number pd (lower_bound c) (upper_bound c))"
      using gets_cwn [OF _ size_range _ v(2,3), of pd] pd_at_prefix [OF at1] size_bounds by simp
    then show ?thesis
      using that False size_bounds by (auto simp: gets_def aper_get_length_def)
  qed
  have ph: "?body = body_bits (\<lambda>_. bits) (pd_nboff pd1) 0 (map Some vs)"
    using pd_took_phase [OF h(2)] by (intro body_bits_mod) simp
  obtain pd2 where e: "SET_OF_get_elements env elm (length vs) [] pd1 = Some (None, vs, pd2)" "pd_took pd1 (length ?body) pd2"
    using gets_elements [OF v(1), of pd1 0 "[]"] pd_at_took [OF at1 h(2)] v(3) size_bounds unfolding ph by auto
  have "SET_OF_get_fragments env elm (Some c) ?nelems [] pd = Some ((RC_OK, 0), vs, pd2)"
    by (subst SET_OF_get_fragments.simps) (simp only: option.case h(1), simp add: e(1))
  moreover have "flags c AND APC_EXTENSIBLE = 0" using root_flags(1) [OF size_bounds(1)] .
  moreover have "target True (Elements []) sptr = Some (Elements [])" using fits by (cases sptr) (simp_all add: target_def)
  ultimately have "SET_OF_decode_aper env None elm (Some \<lparr>on_value = any, on_size = c\<rparr>) sptr pd = Some ((RC_OK, 0), Some (Elements vs), pd2)"
    using env by (simp add: SET_OF_decode_aper_def size_constraint_def ideal_def Let_def)
  then show ?thesis unfolding bits using pd_took_trans [OF h(2) e(2)] by auto
qed

lemma puts_elements:
  "list_all valid vs \<Longrightarrow> po_wf po \<Longrightarrow> po_output po = encode_dyn_cb (\<lambda>_. True) \<Longrightarrow>
    puts (grow_view n) po (body_bits (\<lambda>_. bits) (po_nboff po) i (map Some vs)) (SEQUENCE_OF_put_elements elm vs po)"
proof (induction vs arbitrary: po i)
  case Nil
  then show ?case by (simp add: puts_nothing)
next
  case (Cons v vs)
  let ?mb = "bits (po_nboff po mod 8) v"
  let ?tail = "body_bits (\<lambda>_. bits) (po_nboff po + length ?mb) (i + 1) (map Some vs)"
  have "puts_any (grow_view n) po ?mb (aper_encoder (memb_type elm) (memb_constraints elm) (Some v) po)"
    using encodesD [OF per_type.encodes_bits [OF keeps] Cons.prems(2,3)] Cons.prems(1) by simp
  then have "puts (grow_view n) po (?mb @ ?tail) (Option.bind (aper_encoder (memb_type elm) (memb_constraints elm) (Some v) po)
      (\<lambda>(r, po). if r = - 1 then Some (- 1, po) else SEQUENCE_OF_put_elements elm vs po))"
  proof (rule puts_any_then)
    fix po1 assume "emits (grow_view n) po ?mb po1"
    note p1 = emits_ready [OF this Cons.prems(2,3)]
    have "?tail = body_bits (\<lambda>_. bits) (po_nboff po1) (i + 1) (map Some vs)"
      using p1(3) by (intro body_bits_mod) simp
    then show "puts (grow_view n) po1 ?tail (SEQUENCE_OF_put_elements elm vs po1)"
      using Cons.IH [OF _ p1(1,2)] Cons.prems(1) by simp
  qed
  then show ?case by simp
qed

lemma puts_count:
  assumes v: "lower_bound c \<le> int (length vs)" "int (length vs) \<le> upper_bound c" and "lower_bound c \<noteq> upper_bound c"
    and wf: "po_wf po" and out: "po_output po = encode_dyn_cb (\<lambda>_. True)"
  shows "puts (grow_view n) po (cwn_bits (po_nboff po) (lower_bound c) (upper_bound c) (int (length vs)))
    (Option.bind (aper_put_length po (lower_bound c) (upper_bound c) (nat (int (length vs) - lower_bound c)))
      (\<lambda>((r, _), po). Some (if r < 0 then - 1 else 0, po)))"
proof -
  have n: "int (nat (int (length vs) - lower_bound c)) + lower_bound c = int (length vs)" using v(1) by simp
  have small: "to_long (int (length vs)) = int (length vs)"
    unfolding to_long_def sint_sbintrunc' using v size_bounds by (simp add: signed_take_bit_int_eq_self)
  have "puts (grow_view n) po (cwn_bits (po_nboff po) (lower_bound c) (upper_bound c) (int (length vs)))
      (aper_put_constrained_whole_number po (lower_bound c) (upper_bound c) (int (length vs)))"
    using size_bounds by (intro grow.puts_cwn [OF wf out size_range _ v]) simp
  then show ?thesis
    using size_bounds unfolding aper_put_length_def n small by (auto simp: puts_def Let_def)
qed

lemma encodes_of:
  assumes v: "list_all valid vs" "lower_bound c \<le> int (length vs)" "int (length vs) \<le> upper_bound c"
  shows "encodes (grow_view n) (encode_dyn_cb (\<lambda>_. True))
    (SEQUENCE_OF_encode_aper None elm (Some \<lparr>on_value = any, on_size = c\<rparr>) (Some (Elements vs))) (\<lambda>ph. of_bits ph vs)"
proof (rule encodes_of_puts)
  fix po :: "enc_dyn_arg asn_bit_outp" assume po: "po_wf po" "po_output po = encode_dyn_cb (\<lambda>_. True)"
  let ?lb = "lower_bound c" and ?ub = "upper_bound c"
  let ?enc = "SEQUENCE_OF_encode_aper None elm (Some \<lparr>on_value = any, on_size = c\<rparr>) (Some (Elements vs)) po"
  let ?elements = "\<lambda>po. SEQUENCE_OF_put_elements elm vs po"
  let ?body = "\<lambda>ph. body_bits (\<lambda>_. bits) ph 0 (map Some vs)"
  have flag: "flags c AND APC_EXTENSIBLE = 0" using root_flags(1) [OF size_bounds(1)] .
  have "\<not> int (length vs) < ?lb" "\<not> ?ub < int (length vs)" using v by auto
  note enc = SEQUENCE_OF_encode_aper_def [of None elm "Some \<lparr>on_value = any, on_size = c\<rparr>" "Some (Elements vs)" po]
  show "puts (grow_view n) po (of_bits (po_nboff po mod 8) vs) ?enc"
  proof (cases "?lb = ?ub")
    case True
    then have "?enc = ?elements po"
      using v flag size_bounds unfolding enc by (simp add: size_constraint_def Let_def cong: if_cong)
    moreover have "of_bits (po_nboff po mod 8) vs = ?body (po_nboff po)"
      using True by (simp add: of_bits_def) (intro body_bits_mod, simp)
    ultimately show ?thesis using puts_elements [OF v(1) po] by simp
  next
    case False
    let ?head = "cwn_bits (po_nboff po) ?lb ?ub (int (length vs))"
    let ?count = "Option.bind (aper_put_length po ?lb ?ub (nat (int (length vs) - ?lb)))
      (\<lambda>((r, _), po). Some (if r < 0 then - 1 else 0 :: int, po))"
    have "?enc = Option.bind ?count (\<lambda>(r, po). if r \<noteq> 0 then Some (- 1, po) else ?elements po)"
      using v False flag size_bounds unfolding enc by (simp add: size_constraint_def Let_def cong: if_cong)
    moreover have "of_bits (po_nboff po mod 8) vs = ?head @ ?body (po_nboff po + length ?head)"
      using False by (simp add: of_bits_def Let_def) (intro body_bits_mod, simp only: mod_add_left_eq)
    moreover have "puts (grow_view n) po (?head @ ?body (po_nboff po + length ?head))
        (Option.bind ?count (\<lambda>(r, po). if r \<noteq> 0 then Some (- 1, po) else ?elements po))"
    proof (rule puts_then [OF puts_count [OF v(2,3) False po]])
      fix po1 assume "emits (grow_view n) po ?head po1"
      note p1 = emits_ready [OF this po]
      have "?body (po_nboff po + length ?head) = ?body (po_nboff po1)" using p1(3) by (intro body_bits_mod) simp
      then show "puts (grow_view n) po1 (?body (po_nboff po + length ?head)) (?elements po1)"
        using puts_elements [OF v(1) p1(1,2)] by simp
    qed
    ultimately show ?thesis by simp
  qed
qed

lemma keeps_of:
  "per_type (\<lambda>v. SEQUENCE_OF_encode_aper None elm (Some \<lparr>on_value = any, on_size = c\<rparr>) (Some v))
    (SET_OF_decode_aper env None elm (Some \<lparr>on_value = any, on_size = c\<rparr>))
    (\<lambda>ph v. case v of Elements vs \<Rightarrow> of_bits ph vs | _ \<Rightarrow> [])
    (\<lambda>v. \<exists>vs. v = Elements vs \<and> list_all valid vs \<and> lower_bound c \<le> int (length vs) \<and> int (length vs) \<le> upper_bound c)
    (\<lambda>t. t = Elements [])"
  by unfold_locales (use encodes_of decodes in auto)

end

section \<open>CHOICE\<close>

locale choice_type =
  fixes env :: env and specs :: asn_CHOICE_specifics and c :: asn_per_constraint
    and elms :: "asn_codec asn_TYPE_member list"
    and mbits :: "nat \<Rightarrow> nat \<Rightarrow> asn_value \<Rightarrow> bool list" and valid fits :: "nat \<Rightarrow> asn_value \<Rightarrow> bool"
  assumes env: "ideal env"
    and order: "to_canonical_order specs = None" "from_canonical_order specs = None"
    and bounds: "0 \<le> range_bits c" "range_bits c \<le> 31" "lower_bound c = 0" "upper_bound c = int (length elms) - 1"
      "upper_bound c < 2 ^ nat (range_bits c)"
    and keeps: "i < length elms \<Longrightarrow> codec_keeps (memb_type (elms ! i)) (memb_constraints (elms ! i)) (mbits i) (valid i) (fits i)"
    and blank_fits: "i < length elms \<Longrightarrow> pred_option (fits i) (blank (elms ! i))"
begin

definition choice_bits :: "nat \<Rightarrow> nat \<Rightarrow> asn_value \<Rightarrow> bool list" where
  "choice_bits ph i v =
    (let head = (if flags c AND APC_EXTENSIBLE \<noteq> 0 then [False] else []) @ val_bits (nat (range_bits c)) (int i)
     in head @ mbits i ((ph + length head) mod 8) v)"

lemma decodes_choice:
  assumes i: "i < length elms" and v: "valid i v" and fits: "pred_option (\<lambda>t. t = Choice 0 None) sptr"
    and at: "pd_at pd (choice_bits (pd_nboff pd mod 8) i v)"
  shows "\<exists>k pd'. CHOICE_decode_aper env specs (Some \<lparr>on_value = c, on_size = any\<rparr>) elms None sptr pd =
      Some ((RC_OK, k), Some (Choice (Suc i) (Some v)), pd') \<and> pd_took pd (length (choice_bits (pd_nboff pd mod 8) i v)) pd'"
proof -
  let ?elm = "elms ! i" and ?n = "nat (range_bits c)"
  let ?ext = "if flags c AND APC_EXTENSIBLE \<noteq> 0 then [False] else []" and ?idx = "val_bits (nat (range_bits c)) (int i)"
  let ?memb = "mbits i ((pd_nboff pd + length (?ext @ ?idx)) mod 8) v"
  have bits: "choice_bits (pd_nboff pd mod 8) i v = ?ext @ ?idx @ ?memb"
    unfolding choice_bits_def Let_def mod_add_left_eq by simp
  note at1 = at [unfolded bits]
  obtain pd1 where e: "(if flags c AND APC_EXTENSIBLE \<noteq> 0 then asn_get_few_bits 1 pd else Some (0, pd)) = Some (0, pd1)"
      "pd_took pd (length ?ext) pd1"
  proof (cases "flags c AND APC_EXTENSIBLE \<noteq> 0")
    case True
    then have "gets pd [False] 0 (asn_get_few_bits 1 pd)" using gets_bit [of pd False] pd_at_prefix [OF at1] by simp
    then show ?thesis using that True by (auto simp: gets_def)
  next
    case False
    then show ?thesis using that [of pd] at1 by (auto simp: pd_at_def pd_took_refl)
  qed
  note at2 = pd_at_took [OF at1 e(2)]
  have small: "int i < 2 ^ ?n" using bounds(4,5) i by linarith
  have "gets pd1 ?idx (int i) (asn_get_few_bits (int ?n) pd1)"
    using pd_at_prefix [OF at2] bounds(1,2) small by (intro gets_few) simp_all
  then obtain pd2 where g: "asn_get_few_bits (range_bits c) pd1 = Some (int i, pd2)" "pd_took pd1 (length ?idx) pd2"
    using bounds(1) by (auto simp: gets_def)
  note at3 = pd_at_took [OF at2 g(2)]
  have "pd_nboff pd2 mod 8 = (pd_nboff pd + length (?ext @ ?idx)) mod 8"
    using pd_took_phase [OF pd_took_trans [OF e(2) g(2)]] by (simp only: length_append)
  then have ph: "?memb = mbits i (pd_nboff pd2 mod 8) v" by simp
  obtain k pd3 where d: "aper_decoder (memb_type ?elm) (memb_constraints ?elm) (blank ?elm) pd2 = Some ((RC_OK, k), Some v, pd3)"
      "pd_took pd2 (length ?memb) pd3"
    using per_type.decodes_bits [OF keeps [OF i] v blank_fits [OF i]] at3 unfolding ph by blast
  have pos: "\<not> int (length elms) \<le> 0" using i by linarith
  have "CHOICE_get_index specs (length elms) (Some c) pd = Some (Inr (Some c, int i), pd2)"
  proof (cases "flags c AND APC_EXTENSIBLE \<noteq> 0")
    case True
    then show ?thesis using e(1) g(1) bounds(1,4) i by (auto simp: CHOICE_get_index_def)
  next
    case False
    then show ?thesis using e(1) g(1) bounds(1,4) i by (auto simp: CHOICE_get_index_def)
  qed
  moreover have "target True (Choice 0 None) sptr = Some (Choice 0 None)" using fits by (cases sptr) (simp_all add: target_def)
  ultimately have "CHOICE_decode_aper env specs (Some \<lparr>on_value = c, on_size = any\<rparr>) elms None sptr pd =
      Some ((RC_OK, k), Some (Choice (Suc i) (Some v)), pd3)"
    using env order(2) i d(1) bounds(1)
    by (simp add: CHOICE_decode_aper_def ideal_def value_constraint_def reorder_def nth_opt_def in_range_def Let_def)
  moreover have "pd_took pd (length (?ext @ ?idx @ ?memb)) pd3"
    using pd_took_trans [OF e(2) pd_took_trans [OF g(2) d(2)]] by (simp only: length_append)
  ultimately show ?thesis unfolding bits by auto
qed

lemma encodes_choice:
  assumes i: "i < length elms" and v: "valid i v"
  shows "encodes (grow_view n) (encode_dyn_cb (\<lambda>_. True))
    (CHOICE_encode_aper env specs (Some \<lparr>on_value = c, on_size = any\<rparr>) elms None (Some (Choice (Suc i) (Some v))))
    (\<lambda>ph. choice_bits ph i v)"
proof (rule encodesI)
  fix po :: "enc_dyn_arg asn_bit_outp" assume po: "po_wf po" "po_output po = encode_dyn_cb (\<lambda>_. True)"
  let ?elm = "elms ! i" and ?n = "nat (range_bits c)"
  let ?enc = "aper_encoder (memb_type ?elm) (memb_constraints ?elm) (Some v)"
  let ?ext = "if flags c AND APC_EXTENSIBLE \<noteq> 0 then [False] else []" and ?idx = "val_bits (nat (range_bits c)) (int i)"
  let ?memb = "\<lambda>ph. mbits i (ph mod 8) v"
  let ?index = "\<lambda>po. Option.bind (asn_put_few_bits po (of_nat i) (range_bits c)) (\<lambda>(r, po). if r \<noteq> 0 then Some (- 1, po) else ?enc po)"
  have inside: "\<not> upper_bound c < int i" "0 \<le> range_bits c" using bounds i by auto
  have index: "puts_any (grow_view n) po (?idx @ ?memb (po_nboff po + length ?idx)) (?index po)"
    if p: "po_wf po" "po_output po = encode_dyn_cb (\<lambda>_. True)" for po
  proof -
    have w: "puts (grow_view n) po ?idx (asn_put_few_bits po (of_nat i) (range_bits c))"
      using grow.puts_word [OF p, where n = ?n and v = "int i"] bounds(1,2) by (simp add: nat_le_iff)
    have memb: "puts_any (grow_view n) po1 (?memb (po_nboff po + length ?idx)) (?enc po1)"
      if "emits (grow_view n) po ?idx po1" for po1
    proof -
      note p1 = emits_ready [OF that p]
      show ?thesis using encodesD [OF per_type.encodes_bits [OF keeps [OF i] v] p1(1,2)] by (simp only: p1(3))
    qed
    show ?thesis using w memb by (rule puts_any_after)
  qed
  show "puts_any (grow_view n) po (choice_bits (po_nboff po mod 8) i v)
    (CHOICE_encode_aper env specs (Some \<lparr>on_value = c, on_size = any\<rparr>) elms None (Some (Choice (Suc i) (Some v))) po)"
  proof (cases "flags c AND APC_EXTENSIBLE \<noteq> 0")
    case False
    then have "choice_bits (po_nboff po mod 8) i v = ?idx @ ?memb (po_nboff po + length ?idx)"
      unfolding choice_bits_def Let_def mod_add_left_eq by simp
    then show ?thesis using index [OF po] False i inside bounds(3) order(1)
      by (simp add: CHOICE_encode_aper_def value_constraint_def reorder_def nth_opt_def Let_def cong: if_cong)
  next
    case True
    have "choice_bits (po_nboff po mod 8) i v = [False] @ ?idx @ ?memb (po_nboff po + 1 + length ?idx)"
      unfolding choice_bits_def Let_def mod_add_left_eq using True by (simp add: add.assoc)
    moreover have "puts_any (grow_view n) po ([False] @ ?idx @ ?memb (po_nboff po + 1 + length ?idx))
        (Option.bind (asn_put_few_bits po 0 1) (\<lambda>(r, po). if r \<noteq> 0 then Some (- 1, po) else ?index po))"
    proof (rule puts_any_after [OF grow.puts_bit(1) [OF po]])
      fix po1 assume "emits (grow_view n) po [False] po1"
      note p1 = emits_ready [OF this po]
      have "(po_nboff po + 1 + length ?idx) mod 8 = (po_nboff po1 + length ?idx) mod 8"
        using p1(3) by (metis mod_add_left_eq length_Cons list.size(3) One_nat_def)
      then show "puts_any (grow_view n) po1 (?idx @ ?memb (po_nboff po + 1 + length ?idx)) (?index po1)"
        using index [OF p1(1,2)] by simp
    qed
    ultimately show ?thesis using True i inside bounds(3) order(1)
      by (simp add: CHOICE_encode_aper_def value_constraint_def reorder_def nth_opt_def Let_def cong: if_cong)
  qed
qed

lemma keeps_choice:
  "per_type (\<lambda>v. CHOICE_encode_aper env specs (Some \<lparr>on_value = c, on_size = any\<rparr>) elms None (Some v))
    (CHOICE_decode_aper env specs (Some \<lparr>on_value = c, on_size = any\<rparr>) elms None)
    (\<lambda>ph v. case v of Choice (Suc i) (Some m) \<Rightarrow> choice_bits ph i m | _ \<Rightarrow> [])
    (\<lambda>v. \<exists>i m. v = Choice (Suc i) (Some m) \<and> i < length elms \<and> valid i m)
    (\<lambda>t. t = Choice 0 None)"
  by unfold_locales (use encodes_choice decodes_choice in auto)

end

end
