(* ===== verification/Constr_Codecs_Laws.thy ===== *)
theory Constr_Codecs_Laws
  imports Constr_Codecs Constr_Laws
begin

unbundle bit_operations_syntax

text \<open>
  The contract of descriptors. A descriptor keeps it when what its encoder writes is what its
  decoder reads, into a null pointer or into the zeroed structure of the type; the tables of
  operations keep it when their members do.
\<close>

type_synonym contract = "(nat \<Rightarrow> asn_value \<Rightarrow> bool list) \<times> (asn_value \<Rightarrow> bool)"

definition codec_ok :: "asn_codec \<Rightarrow> asn_per_constraints option \<Rightarrow> contract \<Rightarrow> bool" where
  "codec_ok td cs k \<longleftrightarrow> codec_keeps td cs (fst k) (snd k) (\<lambda>t. t = zeroed td)"

definition member_ok :: "asn_codec asn_TYPE_member \<Rightarrow> contract \<Rightarrow> bool" where
  "member_ok elm k \<longleftrightarrow> \<not> atf_open_type elm \<and> default_value_cmp elm = None \<and> default_value_set elm = None \<and>
     codec_ok (memb_type elm) (memb_constraints elm) k"

lemma member_ok_simps [simp]:
  "member_ok (member_noflags t cs) k \<longleftrightarrow> codec_ok t cs k"
  "member_ok (member_pointer opt t cs) k \<longleftrightarrow> codec_ok t cs k"
  by (simp_all add: member_ok_def member_noflags_def member_pointer_def)

lemma member_simps [simp]:
  "atf_pointer (member_noflags t cs) = False" "optional (member_noflags t cs) = 0"
  "memb_type (member_noflags t cs) = t" "memb_constraints (member_noflags t cs) = cs"
  "atf_pointer (member_pointer opt t cs) = True" "optional (member_pointer opt t cs) = opt"
  "memb_type (member_pointer opt t cs) = t" "memb_constraints (member_pointer opt t cs) = cs"
  by (simp_all add: member_noflags_def member_pointer_def)

lemma blank_fits: "pred_option (\<lambda>t. t = zeroed (memb_type elm)) (blank elm)"
  by (simp add: blank_def)

text \<open>The contract says nothing about a descriptor of which no value is claimed.\<close>

lemma codec_ok_none: "codec_ok td cs (bits, \<lambda>_. False)"
  unfolding codec_ok_def by unfold_locales simp_all

lemma codec_okI:
  assumes "per_type (\<lambda>v. aper_encoder td cs (Some v)) (aper_decoder td cs) bits valid fits" and "fits (zeroed td)"
  shows "codec_ok td cs (bits, valid)"
proof -
  have "pred_option fits sptr" if "pred_option (\<lambda>t. t = zeroed td) sptr" for sptr
    using that assms(2) by (cases sptr) simp_all
  then show ?thesis
    using assms(1) unfolding codec_ok_def per_type_def fst_conv snd_conv by blast
qed

lemma codec_ok_encodes:
  assumes "codec_ok td cs k" and "snd k v"
  shows "encodes (grow_view n) (encode_dyn_cb (\<lambda>_. True)) (aper_encoder td cs (Some v)) (\<lambda>ph. fst k ph v)"
  using per_type.encodes_bits [OF assms(1) [unfolded codec_ok_def] assms(2)] .

lemma codec_ok_decodes:
  assumes "codec_ok td cs k" and "snd k v" and "pred_option (\<lambda>t. t = zeroed td) sptr" and "pd_at pd (fst k (pd_nboff pd mod 8) v)"
  shows "\<exists>n pd'. aper_decoder td cs sptr pd = Some ((RC_OK, n), Some v, pd') \<and> pd_took pd (length (fst k (pd_nboff pd mod 8) v)) pd'"
  using per_type.decodes_bits [OF assms(1) [unfolded codec_ok_def] assms(2-4)] .

lemma asn_OP_simps [simp]:
  "zeroed (asn_OP_NativeInteger env isp td) = Native 0" "zeroed (asn_OP_NativeEnumerated env esp td) = Native 0"
  "zeroed (asn_OP_SEQUENCE env ssp elms) = Fields (map blank elms)"
  "aper_decoder (asn_OP_SEQUENCE env ssp elms) cs = SEQUENCE_decode_aper env ssp elms"
  "aper_encoder (asn_OP_SEQUENCE env ssp elms) cs = SEQUENCE_encode_aper env ssp elms"
  "zeroed (asn_OP_SEQUENCE_OF env td elm) = Elements []"
  "aper_decoder (asn_OP_SEQUENCE_OF env td elm) cs = SET_OF_decode_aper env td elm cs"
  "aper_encoder (asn_OP_SEQUENCE_OF env td elm) cs = SEQUENCE_OF_encode_aper td elm cs"
  "zeroed (asn_OP_CHOICE env csp td elms) = Choice 0 None"
  "aper_decoder (asn_OP_CHOICE env csp td elms) cs = CHOICE_decode_aper env csp td elms cs"
  "aper_encoder (asn_OP_CHOICE env csp td elms) cs = CHOICE_encode_aper env csp td elms cs"
  "zeroed (asn_OP_OPEN_TYPE env elms) = Choice 0 None" "elements (asn_OP_OPEN_TYPE env elms) = elms"
  "aper_encoder (asn_OP_OPEN_TYPE env elms) cs = OPEN_TYPE_encode_aper env elms"
  by (simp_all add: asn_OP_NativeInteger_def asn_OP_NativeEnumerated_def asn_OP_SEQUENCE_def asn_OP_SEQUENCE_OF_def
    asn_OP_CHOICE_def asn_OP_OPEN_TYPE_def)

section \<open>Primitive types\<close>

text \<open>The constraint of the caller, if it passes one, takes the place of the one of the type.\<close>

definition effective :: "asn_per_constraints option \<Rightarrow> asn_per_constraints option \<Rightarrow> asn_per_constraint option" where
  "effective td_constraints cs = map_option on_value (case cs of None \<Rightarrow> td_constraints | Some c \<Rightarrow> Some c)"

lemma native_Native [simp]: "native (Native n) = Some n" by (simp add: native_def)

lemma native_is_Some [simp]: "native v = Some n \<longleftrightarrow> v = Native n" by (cases v) (simp_all add: native_def)

definition native_contract :: "(nat \<Rightarrow> int \<Rightarrow> bool list) \<Rightarrow> (int \<Rightarrow> bool) \<Rightarrow> contract" where
  "native_contract bits ok = (\<lambda>ph v. bits ph (the (native v)), \<lambda>v. \<exists>n. v = Native n \<and> ok n)"

lemma lift_keeps:
  assumes "per_type (\<lambda>n. enc (Some n)) dec bits ok (\<lambda>_. True)"
  shows "per_type (\<lambda>v. lift_encoder native enc (Some v)) (lift_decoder native Native dec)
    (\<lambda>ph v. bits ph (the (native v))) (\<lambda>v. \<exists>n. v = Native n \<and> ok n) (\<lambda>v. \<exists>n. v = Native n)"
proof -
  note encodes_bits = per_type.encodes_bits [OF assms] and decodes_bits = per_type.decodes_bits [OF assms]
  have decode: "\<exists>k pd'. lift_decoder native Native dec sptr pd = Some ((RC_OK, k), Some (Native n), pd') \<and>
      pd_took pd (length (bits (pd_nboff pd mod 8) n)) pd'"
    if ok: "ok n" "pd_at pd (bits (pd_nboff pd mod 8) n)" and fits: "pred_option (\<lambda>v. \<exists>n. v = Native n) sptr" for n sptr pd
  proof -
    obtain s where "(case sptr of None \<Rightarrow> Some None | Some v \<Rightarrow> map_option Some (native v)) = Some s"
      using fits by (cases sptr) auto
    then show ?thesis using decodes_bits [of n s pd] ok by (auto simp: lift_decoder_def)
  qed
  have "lift_encoder native enc (Some (Native n)) = enc (Some n)" for n
    by (simp add: lift_encoder_def fun_eq_iff)
  then show ?thesis
    by unfold_locales (use encodes_bits decode in auto)
qed

lemma effective_constraint:
  "NativeInteger_encode_aper m specs (map_option on_value td) (map_option on_value cs) =
    NativeInteger_encode_aper m specs (effective td cs) None"
  "NativeInteger_decode_aper al alloc fresh specs (map_option on_value td) (map_option on_value cs) =
    NativeInteger_decode_aper al alloc fresh specs (effective td cs) None"
  "NativeEnumerated_encode_aper (Some sp) (map_option on_value td) (map_option on_value cs) =
    NativeEnumerated_encode_aper (Some sp) (effective td cs) None"
  "NativeEnumerated_decode_aper al (Some sp) (map_option on_value td) (map_option on_value cs) =
    NativeEnumerated_decode_aper al (Some sp) (effective td cs) None"
  by (intro ext; cases cs; simp only: effective_def NativeInteger_encode_aper_def INTEGER_encode_aper_def
    NativeInteger_decode_aper_def INTEGER_decode_aper_def NativeEnumerated_encode_aper_def
    NativeEnumerated_decode_aper_def enum_constraint_def option.map option.case)+

lemma number_codec:
  assumes "ideal env" and "effective td cs = Some c"
  shows "codec_ok (asn_OP_NativeInteger env specs td) cs
    (native_contract (\<lambda>ph. cwn_bits ph (lower_bound c) (upper_bound c)) (aper_number_ok specs c))"
proof -
  have "alloc_ok env = (\<lambda>_. True)" "struct_ok env" using assms(1) by (simp_all add: ideal_def)
  then have "per_type (\<lambda>v. aper_encoder (asn_OP_NativeInteger env specs td) cs (Some v)) (aper_decoder (asn_OP_NativeInteger env specs td) cs)
    (\<lambda>ph v. cwn_bits ph (lower_bound c) (upper_bound c) (the (native v))) (\<lambda>v. \<exists>n. v = Native n \<and> aper_number_ok specs c n)
    (\<lambda>v. \<exists>n. v = Native n)"
    using lift_keeps [OF native_aper.per_type_axioms [of specs c "garbage env"]]
    by (simp add: asn_OP_NativeInteger_def effective_constraint assms(2))
  then show ?thesis unfolding native_contract_def by (rule codec_okI) (simp add: asn_OP_NativeInteger_def)
qed

lemma enum_codec:
  assumes "ideal env" and "effective td cs = Some c"
  shows "codec_ok (asn_OP_NativeEnumerated env specs td) cs
    (native_contract (\<lambda>ph n. enum_bits specs c ph (enum_pos specs n)) (enum_ok specs c))"
proof -
  have "struct_ok env" using assms(1) by (simp add: ideal_def)
  then have "per_type (\<lambda>v. aper_encoder (asn_OP_NativeEnumerated env specs td) cs (Some v)) (aper_decoder (asn_OP_NativeEnumerated env specs td) cs)
    (\<lambda>ph v. enum_bits specs c ph (enum_pos specs (the (native v)))) (\<lambda>v. \<exists>n. v = Native n \<and> enum_ok specs c n)
    (\<lambda>v. \<exists>n. v = Native n)"
    using lift_keeps [OF enum_aper.per_type_axioms [of specs c]]
    by (simp add: asn_OP_NativeEnumerated_def effective_constraint assms(2))
  then show ?thesis unfolding native_contract_def by (rule codec_okI) (simp add: asn_OP_NativeEnumerated_def)
qed

section \<open>SEQUENCE, SEQUENCE OF and CHOICE\<close>

text \<open>
  The structures of a SEQUENCE whose members are not open types: a member that is not there is
  optional and a pointer.
\<close>

definition fields_valid :: "asn_codec asn_TYPE_member list \<Rightarrow> contract list \<Rightarrow> asn_value option list \<Rightarrow> bool" where
  "fields_valid elms ks vs \<longleftrightarrow> length vs = length elms \<and> list_all2 (\<lambda>(elm, k) m.
     case m of None \<Rightarrow> atf_pointer elm \<and> optional elm \<noteq> 0 | Some v \<Rightarrow> snd k v) (zip elms ks) vs"

lemma gets_member:
  assumes "member_ok elm k" and "snd k v" and "pd_at pd (fst k (pd_nboff pd mod 8) v)"
  shows "\<exists>pd'. SEQUENCE_get_member env st elm (blank elm) pd = Some (None, Some v, pd') \<and>
    pd_took pd (length (fst k (pd_nboff pd mod 8) v)) pd'"
proof -
  have "codec_ok (memb_type elm) (memb_constraints elm) k" "\<not> atf_open_type elm" using assms(1) by (simp_all add: member_ok_def)
  then show ?thesis
    using codec_ok_decodes [OF _ assms(2) blank_fits assms(3)] by (fastforce simp: SEQUENCE_get_member_def)
qed

locale plain_sequence =
  fixes env :: env and specs :: asn_SEQUENCE_specifics and elms :: "asn_codec asn_TYPE_member list" and ks :: "contract list"
  assumes environment: "ideal env"
    and no_extension: "first_extension specs < 0 \<or> first_extension specs = int (length elms)" "aoms_count specs = 0"
    and optional_members: "roms_count specs \<le> length (oms specs)"
      "take (roms_count specs) (oms specs) = filter (\<lambda>i. optional (elms ! i) \<noteq> 0) [0..<length elms]"
    and members: "list_all2 member_ok elms ks"
begin

lemma member: "i < length elms \<Longrightarrow> member_ok (elms ! i) (ks ! i)"
  using members by (simp add: list_all2_conv_all_nth)

lemma count: "roms_count specs \<le> length elms"
proof -
  have "length (take (roms_count specs) (oms specs)) \<le> length elms"
    unfolding optional_members(2) by (rule order_trans [OF length_filter_le]) simp
  then show ?thesis using optional_members(1) by simp
qed

lemma valid_nth:
  assumes "fields_valid elms ks vs" and "i < length elms"
  shows "case vs ! i of None \<Rightarrow> atf_pointer (elms ! i) \<and> optional (elms ! i) \<noteq> 0 | Some v \<Rightarrow> snd (ks ! i) v"
proof -
  have "length ks = length elms" using list_all2_lengthD [OF members] ..
  moreover have "list_all2 (\<lambda>(elm, k) m. case m of None \<Rightarrow> atf_pointer elm \<and> optional elm \<noteq> 0 | Some v \<Rightarrow> snd k v) (zip elms ks) vs"
    using assms(1) by (simp only: fields_valid_def)
  ultimately show ?thesis using list_all2_nthD [of _ "zip elms ks" vs i] assms(2) by fastforce
qed

sublocale sequence_type env specs elms "\<lambda>i. fst (ks ! i)" "fields_valid elms ks" "length elms"
proof
  fix elm assume "elm \<in> set elms"
  then show "default_value_cmp elm = None \<and> default_value_set elm = None"
    using member by (auto simp only: in_set_conv_nth member_ok_def)
next
  fix vs i v n assume "fields_valid elms ks vs" "i < length elms" "vs ! i = Some v"
  then have "snd (ks ! i) v" "codec_ok (memb_type (elms ! i)) (memb_constraints (elms ! i)) (ks ! i)"
    using valid_nth [of vs i] member [of i] unfolding member_ok_def by simp_all
  then show "encodes (grow_view n) (encode_dyn_cb (\<lambda>_. True))
      (aper_encoder (memb_type (elms ! i)) (memb_constraints (elms ! i)) (Some v)) (\<lambda>ph. fst (ks ! i) ph v)"
    by (rule codec_ok_encodes [rotated])
next
  fix vs i v st pd assume "fields_valid elms ks vs" "i < length elms" "vs ! i = Some v" "pd_at pd (fst (ks ! i) (pd_nboff pd mod 8) v)"
  then show "\<exists>pd'. SEQUENCE_get_member env st (elms ! i) (blank (elms ! i)) pd = Some (None, Some v, pd') \<and>
      pd_took pd (length (fst (ks ! i) (pd_nboff pd mod 8) v)) pd'"
    using valid_nth [of vs i] by (intro gets_member member) simp_all
next
  fix vs i assume "fields_valid elms ks vs" "i < length elms" "vs ! i = None"
  then show "atf_pointer (elms ! i) \<and> optional (elms ! i) \<noteq> 0" using valid_nth [of vs i] by simp
qed (use environment no_extension optional_members count in \<open>auto simp only: ideal_def fields_valid_def split: if_splits\<close>)

definition contract :: contract where
  "contract = (\<lambda>ph v. case v of Fields vs \<Rightarrow> seq_bits ph vs | _ \<Rightarrow> [], \<lambda>v. \<exists>vs. v = Fields vs \<and> fields_valid elms ks vs)"

lemma codec: "codec_ok (asn_OP_SEQUENCE env specs elms) cs contract"
  unfolding contract_def using keeps by (intro codec_okI [where fits = "\<lambda>t. t = Fields (map blank elms)"]) simp_all

end

context sequence_of_type
begin

definition contract :: contract where
  "contract = (\<lambda>ph v. case v of Elements vs \<Rightarrow> of_bits ph vs | _ \<Rightarrow> [],
     \<lambda>v. \<exists>vs. v = Elements vs \<and> list_all valid vs \<and> lower_bound c \<le> int (length vs) \<and> int (length vs) \<le> upper_bound c)"

lemma codec: "codec_ok (asn_OP_SEQUENCE_OF env (Some \<lparr>on_value = any, on_size = c\<rparr>) elm) None contract"
  unfolding contract_def
proof (rule codec_okI [where fits = "\<lambda>t. t = Elements []"])
  have "SET_OF_decode_aper env (Some cs) elm None = SET_OF_decode_aper env None elm (Some cs)"
    and "SEQUENCE_OF_encode_aper (Some cs) elm None = SEQUENCE_OF_encode_aper None elm (Some cs)" for cs
    by (intro ext; simp only: SET_OF_decode_aper_def SEQUENCE_OF_encode_aper_def size_constraint_def option.map option.case)+
  then show "per_type (\<lambda>v. aper_encoder (asn_OP_SEQUENCE_OF env (Some \<lparr>on_value = any, on_size = c\<rparr>) elm) None (Some v))
      (aper_decoder (asn_OP_SEQUENCE_OF env (Some \<lparr>on_value = any, on_size = c\<rparr>) elm) None)
      (\<lambda>ph v. case v of Elements vs \<Rightarrow> of_bits ph vs | _ \<Rightarrow> [])
      (\<lambda>v. \<exists>vs. v = Elements vs \<and> list_all valid vs \<and> lower_bound c \<le> int (length vs) \<and> int (length vs) \<le> upper_bound c)
      (\<lambda>t. t = Elements [])"
    using keeps_of [of any] by simp
qed simp

end

locale plain_choice =
  fixes env :: env and specs :: asn_CHOICE_specifics and c :: asn_per_constraint
    and elms :: "asn_codec asn_TYPE_member list" and ks :: "contract list"
  assumes environment: "ideal env"
    and orders: "to_canonical_order specs = None" "from_canonical_order specs = None"
    and indices: "0 \<le> range_bits c" "range_bits c \<le> 31" "lower_bound c = 0" "upper_bound c = int (length elms) - 1"
      "upper_bound c < 2 ^ nat (range_bits c)"
    and members: "list_all2 member_ok elms ks"
begin

lemma member: "i < length elms \<Longrightarrow> member_ok (elms ! i) (ks ! i)"
  using list_all2_nthD [OF members] .

sublocale choice_type env specs c elms "\<lambda>i. fst (ks ! i)" "\<lambda>i. snd (ks ! i)" "\<lambda>i t. t = zeroed (memb_type (elms ! i))"
proof (rule choice_type.intro)
  fix i assume "i < length elms"
  then show "codec_keeps (memb_type (elms ! i)) (memb_constraints (elms ! i)) (fst (ks ! i)) (snd (ks ! i))
      (\<lambda>t. t = zeroed (memb_type (elms ! i)))"
    using member [of i] by (simp add: member_ok_def codec_ok_def)
  show "pred_option (\<lambda>t. t = zeroed (memb_type (elms ! i))) (blank (elms ! i))" by (rule blank_fits)
qed (fact environment orders indices)+

definition contract :: contract where
  "contract = (\<lambda>ph v. case v of Choice (Suc i) (Some m) \<Rightarrow> choice_bits ph i m | _ \<Rightarrow> [],
     \<lambda>v. \<exists>i m. v = Choice (Suc i) (Some m) \<and> i < length elms \<and> snd (ks ! i) m)"

lemma codec: "codec_ok (asn_OP_CHOICE env specs (Some \<lparr>on_value = c, on_size = any\<rparr>) elms) None contract"
  unfolding contract_def
proof (rule codec_okI [where fits = "\<lambda>t. t = Choice 0 None"])
  show "per_type (\<lambda>v. aper_encoder (asn_OP_CHOICE env specs (Some \<lparr>on_value = c, on_size = any\<rparr>) elms) None (Some v))
      (aper_decoder (asn_OP_CHOICE env specs (Some \<lparr>on_value = c, on_size = any\<rparr>) elms) None)
      (\<lambda>ph v. case v of Choice (Suc i) (Some m) \<Rightarrow> choice_bits ph i m | _ \<Rightarrow> [])
      (\<lambda>v. \<exists>i m. v = Choice (Suc i) (Some m) \<and> i < length elms \<and> snd (ks ! i) m) (\<lambda>t. t = Choice 0 None)"
    using keeps_choice [of any] by simp
qed simp

end

section \<open>Open types\<close>

text \<open>An open type carries each of its alternatives in octets of their own.\<close>

locale alternatives =
  fixes env :: env and alts :: "asn_codec asn_TYPE_member list" and ks :: "contract list"
  assumes environment: "ideal env"
    and alts: "list_all2 member_ok alts ks" "list_all (\<lambda>alt. \<not> atf_pointer alt) alts"
begin

lemma alternative:
  assumes "i < length alts"
  shows "codec_ok (memb_type (alts ! i)) (memb_constraints (alts ! i)) (ks ! i)" and "\<not> atf_pointer (alts ! i)"
  using list_all2_nthD [OF alts(1) assms] alts(2) assms by (simp_all add: member_ok_def list_all_length)

definition open_bits :: "nat \<Rightarrow> asn_value \<Rightarrow> bool list" where
  "open_bits ph v = (case v of Choice (Suc i) (Some w) \<Rightarrow> aper_open_bits ph (fst (ks ! i) 0 w) | _ \<Rightarrow> [])"

lemma encodes_open:
  assumes "i < length alts" and "snd (ks ! i) v"
  shows "encodes (grow_view n) (encode_dyn_cb (\<lambda>_. True)) (OPEN_TYPE_encode_aper env alts (Some (Choice (Suc i) (Some v))))
    (\<lambda>ph. open_bits ph (Choice (Suc i) (Some v)))"
proof (rule encodes_of_puts)
  fix po :: "enc_dyn_arg asn_bit_outp" assume po: "po_wf po" "po_output po = encode_dyn_cb (\<lambda>_. True)"
  note keeps = alternative(1) [OF assms(1), unfolded codec_ok_def]
  from per_type.aper_open_type_puts [OF keeps grow.byte_sink_axioms assms(2) _ po] environment
  have "puts (grow_view n) po (aper_open_bits (po_nboff po) (fst (ks ! i) 0 v))
      (aper_open_type_put (alloc_ok env) (struct_ok env) (scratch env)
        (Some (aper_encoder (memb_type (alts ! i)) (memb_constraints (alts ! i)) (Some v))) po)"
    by (simp add: ideal_def)
  then show "puts (grow_view n) po (open_bits (po_nboff po mod 8) (Choice (Suc i) (Some v)))
      (OPEN_TYPE_encode_aper env alts (Some (Choice (Suc i) (Some v))) po)"
    using assms(1) by (auto simp: OPEN_TYPE_encode_aper_def nth_opt_def puts_def open_bits_def)
qed

lemma gets_open:
  assumes "i < length alts" and "snd (ks ! i) v" and at: "pd_at pd (open_bits (pd_nboff pd) (Choice (Suc i) (Some v)))"
    and elm: "atf_open_type elm" "\<not> atf_pointer elm" "type_selector elm = Some select" "select st = Suc i"
      "memb_type elm = asn_OP_OPEN_TYPE env alts"
  shows "\<exists>pd'. SEQUENCE_get_member env st elm (blank elm) pd = Some (None, Some (Choice (Suc i) (Some v)), pd') \<and>
    pd_took pd (length (open_bits (pd_nboff pd) (Choice (Suc i) (Some v)))) pd'"
proof -
  let ?alt = "alts ! i"
  note keeps = alternative(1) [OF assms(1), unfolded codec_ok_def]
  have fits: "pred_option (\<lambda>t. t = zeroed (memb_type ?alt)) (Some (zeroed (memb_type ?alt)))" by simp
  obtain k pd' where g: "aper_open_type_get (\<lambda>_. True) (aper_decoder (memb_type ?alt) (memb_constraints ?alt))
      (Some (zeroed (memb_type ?alt))) pd = Some ((RC_OK, k), Some v, pd')"
      "pd_took pd (length (open_bits (pd_nboff pd) (Choice (Suc i) (Some v)))) pd'"
    using per_type.aper_open_type_gets [OF keeps assms(2) fits, of pd] at by (fastforce simp: open_bits_def)
  have "nth_opt alts i = Some ?alt" using assms(1) by (simp add: nth_opt_def)
  then show ?thesis
    using g environment elm alternative(2) [OF assms(1)]
    by (simp add: SEQUENCE_get_member_def OPEN_TYPE_aper_is_unknown_type_def OPEN_TYPE_aper_get_def
      CHOICE_variant_set_presence_def blank_def ideal_def Let_def)
qed

end

text \<open>
  A structure over an information object class: the alternative that is stored is the one that the
  table has for the number.
\<close>

locale class_type = alternatives env alts ks
  for env :: env and alts :: "asn_codec asn_TYPE_member list" and ks :: "contract list" +
  fixes specs :: asn_SEQUENCE_specifics and id_type crit :: asn_codec and id_cs crit_cs val_cs :: "asn_per_constraints option"
    and rows :: "(int \<times> bool) list" and select_criticality :: "asn_value option list \<Rightarrow> nat" and id_bits :: "nat \<Rightarrow> int \<Rightarrow> bool list" and id_ok :: "int \<Rightarrow> bool" and crit_k :: contract
  assumes no_optionals: "roms_count specs = 0" "aoms_count specs = 0" "first_extension specs = - 1"
    and id: "codec_ok id_type id_cs (native_contract id_bits id_ok)"
    and criticality: "codec_ok crit crit_cs crit_k"
begin

abbreviation (input) fields :: "asn_codec asn_TYPE_member list" where
  "fields \<equiv> class_fields id_type id_cs crit crit_cs select_criticality (asn_OP_OPEN_TYPE env alts) val_cs (select_type rows)"

definition fields_bits :: "nat \<Rightarrow> nat \<Rightarrow> asn_value \<Rightarrow> bool list" where
  "fields_bits i = (if i = 0 then fst (native_contract id_bits id_ok) else if i = 1 then fst crit_k else open_bits)"

definition class_valid :: "asn_value option list \<Rightarrow> bool" where
  "class_valid vs \<longleftrightarrow> (\<exists>n cr i v. vs = [Some (Native n), Some cr, Some (Choice (Suc i) (Some v))] \<and>
     id_ok n \<and> snd crit_k cr \<and> select_row rows 0 n = Suc i \<and> i < length alts \<and> snd (ks ! i) v)"

lemma encodes_field:
  assumes "class_valid vs" and "i < 3" and "vs ! i = Some v"
  shows "encodes (grow_view n) (encode_dyn_cb (\<lambda>_. True))
    (aper_encoder (memb_type (fields ! i)) (memb_constraints (fields ! i)) (Some v)) (\<lambda>ph. fields_bits i ph v)"
proof -
  from assms(1) obtain m cr j w where vs: "vs = [Some (Native m), Some cr, Some (Choice (Suc j) (Some w))]" "id_ok m"
      "snd crit_k cr" "j < length alts" "snd (ks ! j) w" unfolding class_valid_def by blast
  have "snd (native_contract id_bits id_ok) (Native m)" using vs(2) by (simp add: native_contract_def)
  then have "snd (native_contract id_bits id_ok) (Native m)" and "i = 0 \<or> i = 1 \<or> i = 2" using assms(2) by auto
  then show ?thesis
    using codec_ok_encodes [OF id] codec_ok_encodes [OF criticality vs(3)] encodes_open [OF vs(4,5)] assms(3) vs(1)
    by (auto simp: class_fields_def fields_bits_def)
qed

lemma gets_field:
  assumes "class_valid vs" and "i < 3" and "vs ! i = Some v" and "take i st = take i vs" and "length st = 3"
    and "pd_at pd (fields_bits i (pd_nboff pd mod 8) v)"
  shows "\<exists>pd'. SEQUENCE_get_member env st (fields ! i) (blank (fields ! i)) pd = Some (None, Some v, pd') \<and>
    pd_took pd (length (fields_bits i (pd_nboff pd mod 8) v)) pd'"
proof -
  from assms(1) obtain m cr j w where vs: "vs = [Some (Native m), Some cr, Some (Choice (Suc j) (Some w))]" "id_ok m"
      "snd crit_k cr" "select_row rows 0 m = Suc j" "j < length alts" "snd (ks ! j) w" unfolding class_valid_def by blast
  consider "i = 0" | "i = 1" | "i = 2" using assms(2) by linarith
  then show ?thesis
  proof cases
    case 1
    then have "v = Native m" using vs(1) assms(3) by simp
    moreover have "snd (native_contract id_bits id_ok) (Native m)" using vs(2) by (simp add: native_contract_def)
    ultimately show ?thesis
      using gets_member [of "fields ! 0" "native_contract id_bits id_ok" v pd env st] 1 assms(6) id
      by (simp add: class_fields_def fields_bits_def)
  next
    case 2
    have "member_ok (fields ! 1) crit_k" using criticality by (simp add: class_fields_def member_ok_def)
    then show ?thesis
      using gets_member [of "fields ! 1" crit_k v pd env st] 2 assms(3,6) vs(1,3) by (simp add: fields_bits_def)
  next
    case 3
    then have v: "v = Choice (Suc j) (Some w)" using vs(1) assms(3) by (simp add: numeral_2_eq_2)
    obtain c where "st = [Some (Native m), Some cr, c]"
      using assms(4,5) vs(1) 3 by (cases st; cases "tl st"; cases "tl (tl st)") auto
    then have "select_type rows st = Suc j" using vs(4) by (simp add: select_type_def)
    moreover have at: "pd_at pd (open_bits (pd_nboff pd) (Choice (Suc j) (Some w)))"
      using assms(6) 3 v by (simp add: fields_bits_def open_bits_def)
    ultimately have "\<exists>pd'. SEQUENCE_get_member env st (fields ! 2) (blank (fields ! 2)) pd = Some (None, Some v, pd') \<and>
        pd_took pd (length (open_bits (pd_nboff pd) v)) pd'"
      unfolding v by (intro gets_open [OF vs(5,6) at, where select = "select_type rows"]) (simp_all add: class_fields_def numeral_2_eq_2)
    then show ?thesis using 3 v by (simp add: fields_bits_def open_bits_def)
  qed
qed

sublocale sequence_type env specs fields fields_bits class_valid 3
proof (rule sequence_type.intro)
  fix vs i v n assume "class_valid vs" "i < 3" "vs ! i = Some v"
  then show "encodes (grow_view n) (encode_dyn_cb (\<lambda>_. True))
      (aper_encoder (memb_type (fields ! i)) (memb_constraints (fields ! i)) (Some v)) (\<lambda>ph. fields_bits i ph v)"
    by (rule encodes_field)
next
  fix vs i v st pd assume "class_valid vs" "i < 3" "vs ! i = Some v" "length st = length fields" "take i st = take i vs"
    "pd_at pd (fields_bits i (pd_nboff pd mod 8) v)"
  then show "\<exists>pd'. SEQUENCE_get_member env st (fields ! i) (blank (fields ! i)) pd = Some (None, Some v, pd') \<and>
      pd_took pd (length (fields_bits i (pd_nboff pd mod 8) v)) pd'"
    by (intro gets_field) (simp_all add: class_fields_def)
next
  fix vs i assume "class_valid vs" "i < 3" "vs ! i = None"
  then have "i = 0 \<or> i = 1 \<or> i = 2" by linarith
  then show "atf_pointer (fields ! i) \<and> optional (fields ! i) \<noteq> 0" using \<open>class_valid vs\<close> \<open>vs ! i = None\<close>
    by (auto simp: class_valid_def)
qed (use environment no_optionals in \<open>auto simp: ideal_def class_fields_def class_valid_def member_noflags_def upt_rec\<close>)

definition contract :: contract where
  "contract = (\<lambda>ph v. case v of Fields vs \<Rightarrow> seq_bits ph vs | _ \<Rightarrow> [], \<lambda>v. \<exists>vs. v = Fields vs \<and> class_valid vs)"

lemma codec: "codec_ok (asn_OP_SEQUENCE env specs fields) cs contract"
  unfolding contract_def using keeps by (intro codec_okI [where fits = "\<lambda>t. t = Fields (map blank fields)"]) simp_all

end

section \<open>Contracts of generated types\<close>

text \<open>
  An environment in which nothing fails, over the contents of memory that is not cleared.
\<close>

type_synonym memory = "u8 list \<times> (nat \<Rightarrow> u8 list)"

definition ideal_env :: "memory \<Rightarrow> env" where
  "ideal_env m = \<lparr>stack_ok = True, struct_ok = True, alloc_ok = (\<lambda>_. True),
     scratch = take 32 (fst m @ replicate 32 0), garbage = snd m\<rparr>"

named_theorems codecs \<open>contracts of the descriptors\<close>

lemma ideal_ideal_env [codecs]: "ideal (ideal_env m)"
  by (simp add: ideal_def ideal_env_def)

definition number_contract :: "asn_per_constraint \<Rightarrow> contract" where
  "number_contract c = native_contract (\<lambda>ph. cwn_bits ph (lower_bound c) (upper_bound c)) (aper_number_ok None c)"

definition enum_contract :: "asn_INTEGER_specifics \<Rightarrow> asn_per_constraint \<Rightarrow> contract" where
  "enum_contract specs c = native_contract (\<lambda>ph n. enum_bits specs c ph (enum_pos specs n)) (enum_ok specs c)"

definition no_contract :: contract where
  "no_contract = (\<lambda>_ _. [], \<lambda>_. False)"

lemma effective_simps [simp]:
  "effective td (Some (value_only c)) = Some c" "effective (Some (value_only c)) None = Some c"
  by (simp_all add: effective_def value_only_def)

lemma codec_ok_no_contract [codecs]: "codec_ok td cs no_contract"
  unfolding no_contract_def by (rule codec_ok_none)

lemma number_codec_type: "codec_ok (asn_OP_NativeInteger (ideal_env m) None (Some (value_only c))) None (number_contract c)"
  unfolding number_contract_def by (rule number_codec) (simp_all add: codecs)

lemma number_codec_member: "codec_ok (asn_OP_NativeInteger (ideal_env m) None td) (Some (value_only c)) (number_contract c)"
  unfolding number_contract_def by (rule number_codec) (simp_all add: codecs)

lemma enum_codec_type: "codec_ok (asn_OP_NativeEnumerated (ideal_env m) specs (Some (value_only c))) None (enum_contract specs c)"
  unfolding enum_contract_def by (rule enum_codec) (simp_all add: codecs)

lemma enum_codec_member: "codec_ok (asn_OP_NativeEnumerated (ideal_env m) specs td) (Some (value_only c)) (enum_contract specs c)"
  unfolding enum_contract_def by (rule enum_codec) (simp_all add: codecs)

lemma sequence_of_codec:
  assumes "ideal env" and "flags c = APC_CONSTRAINED" "0 \<le> effective_bits c" "0 \<le> lower_bound c" "lower_bound c \<le> upper_bound c"
    "upper_bound c < 65536" and "member_ok elm k"
  shows "sequence_of_type env c elm (fst k) (snd k) (\<lambda>t. t = zeroed (memb_type elm))"
  using assms by (intro sequence_of_type.intro) (simp_all add: member_ok_def codec_ok_def)

end
