(* ===== verification/E2ap_Messages_Laws.thy ===== *)
theory E2ap_Messages_Laws
  imports E2ap_Messages Constr_Codecs_Laws
begin

unbundle bit_operations_syntax

text \<open>
  The types of the messages keep the contract: every constructed type interprets the locale of its
  kind on its own tables, and its descriptor has the contract that the interpretation gives it,
  which the types above it use.
\<close>

lemma ProcedureCode_codec [codecs]: "codec_ok (asn_DEF_ProcedureCode (ideal_env m)) None (number_contract asn_PER_type_ProcedureCode_constr)"
  by (simp add: asn_DEF_ProcedureCode_def number_codec_type)

lemma ProcedureCode_member_codec [codecs]: "codec_ok (asn_DEF_ProcedureCode (ideal_env m)) (Some (value_only c)) (number_contract c)"
  by (simp add: asn_DEF_ProcedureCode_def number_codec_member)

lemma Criticality_codec [codecs]: "codec_ok (asn_DEF_Criticality (ideal_env m)) None (enum_contract asn_SPC_Criticality_specs asn_PER_type_Criticality_constr)"
  by (simp add: asn_DEF_Criticality_def enum_codec_type)

lemma Criticality_member_codec [codecs]: "codec_ok (asn_DEF_Criticality (ideal_env m)) (Some (value_only c)) (enum_contract asn_SPC_Criticality_specs c)"
  by (simp add: asn_DEF_Criticality_def enum_codec_member)

lemma ProtocolIE_ID_codec [codecs]: "codec_ok (asn_DEF_ProtocolIE_ID (ideal_env m)) None (number_contract asn_PER_type_ProtocolIE_ID_constr)"
  by (simp add: asn_DEF_ProtocolIE_ID_def number_codec_type)

lemma ProtocolIE_ID_member_codec [codecs]: "codec_ok (asn_DEF_ProtocolIE_ID (ideal_env m)) (Some (value_only c)) (number_contract c)"
  by (simp add: asn_DEF_ProtocolIE_ID_def number_codec_member)

lemma NativeInteger_member_codec [codecs]: "codec_ok (asn_DEF_NativeInteger (ideal_env m)) (Some (value_only c)) (number_contract c)"
  by (simp add: asn_DEF_NativeInteger_def number_codec_member)

interpretation RICrequestID: plain_sequence "ideal_env m" asn_SPC_RICrequestID_specs "asn_MBR_RICrequestID (ideal_env m)"
  "[number_contract asn_PER_memb_RICrequestID_ricRequestorID_constr, number_contract asn_PER_memb_RICrequestID_ricInstanceID_constr]" for m
  by unfold_locales (simp_all add: asn_SPC_RICrequestID_specs_def asn_MBR_RICrequestID_def codecs upt_rec)

definition RICrequestID_contract :: "memory \<Rightarrow> contract" where
  "RICrequestID_contract m = RICrequestID.contract m"

lemma RICrequestID_codec [codecs]: "codec_ok (asn_DEF_RICrequestID (ideal_env m)) cs (RICrequestID_contract m)"
  unfolding asn_DEF_RICrequestID_def RICrequestID_contract_def by (rule RICrequestID.codec)

lemma RANfunctionID_codec [codecs]: "codec_ok (asn_DEF_RANfunctionID (ideal_env m)) None (number_contract asn_PER_type_RANfunctionID_constr)"
  by (simp add: asn_DEF_RANfunctionID_def number_codec_type)

lemma RANfunctionID_member_codec [codecs]: "codec_ok (asn_DEF_RANfunctionID (ideal_env m)) (Some (value_only c)) (number_contract c)"
  by (simp add: asn_DEF_RANfunctionID_def number_codec_member)

interpretation RICsubscriptionRequest_IEs: class_type "ideal_env m" "asn_MBR_RICsubscriptionRequest_IEs__value others (ideal_env m)"
  "[RICrequestID_contract m, number_contract asn_PER_type_RANfunctionID_constr, no_contract]"
  asn_SPC_RICsubscriptionRequest_IEs_specs "asn_DEF_ProtocolIE_ID (ideal_env m)" "asn_DEF_Criticality (ideal_env m)" "Some (value_only asn_PER_memb_id_constr)" "Some (value_only asn_PER_memb_criticality_constr)"
  "Some unconstrained" "type_column 0 asn_IOS_RICsubscriptionRequest_IEs" select_RICsubscriptionRequest_IEs_criticality_type
  "\<lambda>ph. cwn_bits ph (lower_bound asn_PER_memb_id_constr) (upper_bound asn_PER_memb_id_constr)" "aper_number_ok None asn_PER_memb_id_constr"
  "enum_contract asn_SPC_Criticality_specs asn_PER_memb_criticality_constr" for m others
  by unfold_locales (simp_all add: asn_MBR_RICsubscriptionRequest_IEs__value_def asn_SPC_RICsubscriptionRequest_IEs_specs_def codecs number_contract_def [symmetric])

definition RICsubscriptionRequest_IEs_contract :: "memory \<Rightarrow> (string \<Rightarrow> asn_codec) \<Rightarrow> contract" where
  "RICsubscriptionRequest_IEs_contract m others = RICsubscriptionRequest_IEs.contract m others"

lemma RICsubscriptionRequest_IEs_codec [codecs]: "codec_ok (asn_DEF_RICsubscriptionRequest_IEs others (ideal_env m)) cs (RICsubscriptionRequest_IEs_contract m others)"
  unfolding asn_DEF_RICsubscriptionRequest_IEs_def asn_MBR_RICsubscriptionRequest_IEs_def asn_DEF_RICsubscriptionRequest_IEs__value_def select_RICsubscriptionRequest_IEs_value_type_def RICsubscriptionRequest_IEs_contract_def by (rule RICsubscriptionRequest_IEs.codec)

interpretation ProtocolIE_Container_1479P0: sequence_of_type "ideal_env m" asn_PER_type_ProtocolIE_Container_1479P0_constr "asn_MBR_ProtocolIE_Container_1479P0 others (ideal_env m)"
  "fst (RICsubscriptionRequest_IEs_contract m others)" "snd (RICsubscriptionRequest_IEs_contract m others)" "\<lambda>t. t = zeroed (memb_type (asn_MBR_ProtocolIE_Container_1479P0 others (ideal_env m)))" for m others
  by (rule sequence_of_codec) (simp_all add: asn_MBR_ProtocolIE_Container_1479P0_def asn_PER_type_ProtocolIE_Container_1479P0_constr_def codecs)

definition ProtocolIE_Container_1479P0_contract :: "memory \<Rightarrow> (string \<Rightarrow> asn_codec) \<Rightarrow> contract" where
  "ProtocolIE_Container_1479P0_contract m others = ProtocolIE_Container_1479P0.contract m others"

lemma ProtocolIE_Container_1479P0_codec [codecs]: "codec_ok (asn_DEF_ProtocolIE_Container_1479P0 others (ideal_env m)) None (ProtocolIE_Container_1479P0_contract m others)"
  unfolding asn_DEF_ProtocolIE_Container_1479P0_def ProtocolIE_Container_1479P0_contract_def size_only_def by (rule ProtocolIE_Container_1479P0.codec)

interpretation RICsubscriptionRequest: plain_sequence "ideal_env m" asn_SPC_RICsubscriptionRequest_specs "asn_MBR_RICsubscriptionRequest others (ideal_env m)"
  "[ProtocolIE_Container_1479P0_contract m others]" for m others
  by unfold_locales (simp_all add: asn_SPC_RICsubscriptionRequest_specs_def asn_MBR_RICsubscriptionRequest_def codecs upt_rec)

definition RICsubscriptionRequest_contract :: "memory \<Rightarrow> (string \<Rightarrow> asn_codec) \<Rightarrow> contract" where
  "RICsubscriptionRequest_contract m others = RICsubscriptionRequest.contract others m"

lemma RICsubscriptionRequest_codec [codecs]: "codec_ok (asn_DEF_RICsubscriptionRequest others (ideal_env m)) cs (RICsubscriptionRequest_contract m others)"
  unfolding asn_DEF_RICsubscriptionRequest_def RICsubscriptionRequest_contract_def by (rule RICsubscriptionRequest.codec)

interpretation RICsubscriptionDeleteRequest_IEs: class_type "ideal_env m" "asn_MBR_RICsubscriptionDeleteRequest_IEs__value (ideal_env m)"
  "[RICrequestID_contract m, number_contract asn_PER_type_RANfunctionID_constr]"
  asn_SPC_RICsubscriptionDeleteRequest_IEs_specs "asn_DEF_ProtocolIE_ID (ideal_env m)" "asn_DEF_Criticality (ideal_env m)" "Some (value_only asn_PER_memb_id_constr)" "Some (value_only asn_PER_memb_criticality_constr)"
  "Some unconstrained" "type_column 0 asn_IOS_RICsubscriptionDeleteRequest_IEs" select_RICsubscriptionDeleteRequest_IEs_criticality_type
  "\<lambda>ph. cwn_bits ph (lower_bound asn_PER_memb_id_constr) (upper_bound asn_PER_memb_id_constr)" "aper_number_ok None asn_PER_memb_id_constr"
  "enum_contract asn_SPC_Criticality_specs asn_PER_memb_criticality_constr" for m
  by unfold_locales (simp_all add: asn_MBR_RICsubscriptionDeleteRequest_IEs__value_def asn_SPC_RICsubscriptionDeleteRequest_IEs_specs_def codecs number_contract_def [symmetric])

definition RICsubscriptionDeleteRequest_IEs_contract :: "memory \<Rightarrow> contract" where
  "RICsubscriptionDeleteRequest_IEs_contract m = RICsubscriptionDeleteRequest_IEs.contract m"

lemma RICsubscriptionDeleteRequest_IEs_codec [codecs]: "codec_ok (asn_DEF_RICsubscriptionDeleteRequest_IEs (ideal_env m)) cs (RICsubscriptionDeleteRequest_IEs_contract m)"
  unfolding asn_DEF_RICsubscriptionDeleteRequest_IEs_def asn_MBR_RICsubscriptionDeleteRequest_IEs_def asn_DEF_RICsubscriptionDeleteRequest_IEs__value_def select_RICsubscriptionDeleteRequest_IEs_value_type_def RICsubscriptionDeleteRequest_IEs_contract_def by (rule RICsubscriptionDeleteRequest_IEs.codec)

interpretation ProtocolIE_Container_1479P5: sequence_of_type "ideal_env m" asn_PER_type_ProtocolIE_Container_1479P5_constr "asn_MBR_ProtocolIE_Container_1479P5 (ideal_env m)"
  "fst (RICsubscriptionDeleteRequest_IEs_contract m)" "snd (RICsubscriptionDeleteRequest_IEs_contract m)" "\<lambda>t. t = zeroed (memb_type (asn_MBR_ProtocolIE_Container_1479P5 (ideal_env m)))" for m
  by (rule sequence_of_codec) (simp_all add: asn_MBR_ProtocolIE_Container_1479P5_def asn_PER_type_ProtocolIE_Container_1479P5_constr_def codecs)

definition ProtocolIE_Container_1479P5_contract :: "memory \<Rightarrow> contract" where
  "ProtocolIE_Container_1479P5_contract m = ProtocolIE_Container_1479P5.contract m"

lemma ProtocolIE_Container_1479P5_codec [codecs]: "codec_ok (asn_DEF_ProtocolIE_Container_1479P5 (ideal_env m)) None (ProtocolIE_Container_1479P5_contract m)"
  unfolding asn_DEF_ProtocolIE_Container_1479P5_def ProtocolIE_Container_1479P5_contract_def size_only_def by (rule ProtocolIE_Container_1479P5.codec)

interpretation RICsubscriptionDeleteRequest: plain_sequence "ideal_env m" asn_SPC_RICsubscriptionDeleteRequest_specs "asn_MBR_RICsubscriptionDeleteRequest (ideal_env m)"
  "[ProtocolIE_Container_1479P5_contract m]" for m
  by unfold_locales (simp_all add: asn_SPC_RICsubscriptionDeleteRequest_specs_def asn_MBR_RICsubscriptionDeleteRequest_def codecs upt_rec)

definition RICsubscriptionDeleteRequest_contract :: "memory \<Rightarrow> contract" where
  "RICsubscriptionDeleteRequest_contract m = RICsubscriptionDeleteRequest.contract m"

lemma RICsubscriptionDeleteRequest_codec [codecs]: "codec_ok (asn_DEF_RICsubscriptionDeleteRequest (ideal_env m)) cs (RICsubscriptionDeleteRequest_contract m)"
  unfolding asn_DEF_RICsubscriptionDeleteRequest_def RICsubscriptionDeleteRequest_contract_def by (rule RICsubscriptionDeleteRequest.codec)

interpretation ProtocolIE_SingleContainer_1481P8: class_type "ideal_env m" "asn_MBR_ProtocolIE_SingleContainer_1481P8__value others (ideal_env m)"
  "[no_contract]"
  asn_SPC_ProtocolIE_SingleContainer_1481P8_specs "asn_DEF_ProtocolIE_ID (ideal_env m)" "asn_DEF_Criticality (ideal_env m)" "Some (value_only asn_PER_memb_id_constr)" "Some (value_only asn_PER_memb_criticality_constr)"
  "Some unconstrained" "type_column 0 asn_IOS_RANfunction_ItemIEs" select_ProtocolIE_SingleContainer_1481P8_criticality_type
  "\<lambda>ph. cwn_bits ph (lower_bound asn_PER_memb_id_constr) (upper_bound asn_PER_memb_id_constr)" "aper_number_ok None asn_PER_memb_id_constr"
  "enum_contract asn_SPC_Criticality_specs asn_PER_memb_criticality_constr" for m others
  by unfold_locales (simp_all add: asn_MBR_ProtocolIE_SingleContainer_1481P8__value_def asn_SPC_ProtocolIE_SingleContainer_1481P8_specs_def codecs number_contract_def [symmetric])

definition ProtocolIE_SingleContainer_1481P8_contract :: "memory \<Rightarrow> (string \<Rightarrow> asn_codec) \<Rightarrow> contract" where
  "ProtocolIE_SingleContainer_1481P8_contract m others = ProtocolIE_SingleContainer_1481P8.contract m others"

lemma ProtocolIE_SingleContainer_1481P8_codec [codecs]: "codec_ok (asn_DEF_ProtocolIE_SingleContainer_1481P8 others (ideal_env m)) cs (ProtocolIE_SingleContainer_1481P8_contract m others)"
  unfolding asn_DEF_ProtocolIE_SingleContainer_1481P8_def asn_MBR_ProtocolIE_SingleContainer_1481P8_def asn_DEF_ProtocolIE_SingleContainer_1481P8__value_def select_ProtocolIE_SingleContainer_1481P8_value_type_def ProtocolIE_SingleContainer_1481P8_contract_def by (rule ProtocolIE_SingleContainer_1481P8.codec)

interpretation RANfunctions_List: sequence_of_type "ideal_env m" asn_PER_type_RANfunctions_List_constr "asn_MBR_RANfunctions_List others (ideal_env m)"
  "fst (ProtocolIE_SingleContainer_1481P8_contract m others)" "snd (ProtocolIE_SingleContainer_1481P8_contract m others)" "\<lambda>t. t = zeroed (memb_type (asn_MBR_RANfunctions_List others (ideal_env m)))" for m others
  by (rule sequence_of_codec) (simp_all add: asn_MBR_RANfunctions_List_def asn_PER_type_RANfunctions_List_constr_def codecs)

definition RANfunctions_List_contract :: "memory \<Rightarrow> (string \<Rightarrow> asn_codec) \<Rightarrow> contract" where
  "RANfunctions_List_contract m others = RANfunctions_List.contract m others"

lemma RANfunctions_List_codec [codecs]: "codec_ok (asn_DEF_RANfunctions_List others (ideal_env m)) None (RANfunctions_List_contract m others)"
  unfolding asn_DEF_RANfunctions_List_def RANfunctions_List_contract_def size_only_def by (rule RANfunctions_List.codec)

lemma RANfunctionRevision_codec [codecs]: "codec_ok (asn_DEF_RANfunctionRevision (ideal_env m)) None (number_contract asn_PER_type_RANfunctionRevision_constr)"
  by (simp add: asn_DEF_RANfunctionRevision_def number_codec_type)

lemma RANfunctionRevision_member_codec [codecs]: "codec_ok (asn_DEF_RANfunctionRevision (ideal_env m)) (Some (value_only c)) (number_contract c)"
  by (simp add: asn_DEF_RANfunctionRevision_def number_codec_member)

interpretation RANfunctionID_Item: plain_sequence "ideal_env m" asn_SPC_RANfunctionID_Item_specs "asn_MBR_RANfunctionID_Item (ideal_env m)"
  "[number_contract asn_PER_type_RANfunctionID_constr, number_contract asn_PER_type_RANfunctionRevision_constr]" for m
  by unfold_locales (simp_all add: asn_SPC_RANfunctionID_Item_specs_def asn_MBR_RANfunctionID_Item_def codecs upt_rec)

definition RANfunctionID_Item_contract :: "memory \<Rightarrow> contract" where
  "RANfunctionID_Item_contract m = RANfunctionID_Item.contract m"

lemma RANfunctionID_Item_codec [codecs]: "codec_ok (asn_DEF_RANfunctionID_Item (ideal_env m)) cs (RANfunctionID_Item_contract m)"
  unfolding asn_DEF_RANfunctionID_Item_def RANfunctionID_Item_contract_def by (rule RANfunctionID_Item.codec)

interpretation ProtocolIE_SingleContainer_1481P9: class_type "ideal_env m" "asn_MBR_ProtocolIE_SingleContainer_1481P9__value (ideal_env m)"
  "[RANfunctionID_Item_contract m]"
  asn_SPC_ProtocolIE_SingleContainer_1481P9_specs "asn_DEF_ProtocolIE_ID (ideal_env m)" "asn_DEF_Criticality (ideal_env m)" "Some (value_only asn_PER_memb_id_constr)" "Some (value_only asn_PER_memb_criticality_constr)"
  "Some unconstrained" "type_column 0 asn_IOS_RANfunctionID_ItemIEs" select_ProtocolIE_SingleContainer_1481P9_criticality_type
  "\<lambda>ph. cwn_bits ph (lower_bound asn_PER_memb_id_constr) (upper_bound asn_PER_memb_id_constr)" "aper_number_ok None asn_PER_memb_id_constr"
  "enum_contract asn_SPC_Criticality_specs asn_PER_memb_criticality_constr" for m
  by unfold_locales (simp_all add: asn_MBR_ProtocolIE_SingleContainer_1481P9__value_def asn_SPC_ProtocolIE_SingleContainer_1481P9_specs_def codecs number_contract_def [symmetric])

definition ProtocolIE_SingleContainer_1481P9_contract :: "memory \<Rightarrow> contract" where
  "ProtocolIE_SingleContainer_1481P9_contract m = ProtocolIE_SingleContainer_1481P9.contract m"

lemma ProtocolIE_SingleContainer_1481P9_codec [codecs]: "codec_ok (asn_DEF_ProtocolIE_SingleContainer_1481P9 (ideal_env m)) cs (ProtocolIE_SingleContainer_1481P9_contract m)"
  unfolding asn_DEF_ProtocolIE_SingleContainer_1481P9_def asn_MBR_ProtocolIE_SingleContainer_1481P9_def asn_DEF_ProtocolIE_SingleContainer_1481P9__value_def select_ProtocolIE_SingleContainer_1481P9_value_type_def ProtocolIE_SingleContainer_1481P9_contract_def by (rule ProtocolIE_SingleContainer_1481P9.codec)

interpretation RANfunctionsID_List: sequence_of_type "ideal_env m" asn_PER_type_RANfunctionsID_List_constr "asn_MBR_RANfunctionsID_List (ideal_env m)"
  "fst (ProtocolIE_SingleContainer_1481P9_contract m)" "snd (ProtocolIE_SingleContainer_1481P9_contract m)" "\<lambda>t. t = zeroed (memb_type (asn_MBR_RANfunctionsID_List (ideal_env m)))" for m
  by (rule sequence_of_codec) (simp_all add: asn_MBR_RANfunctionsID_List_def asn_PER_type_RANfunctionsID_List_constr_def codecs)

definition RANfunctionsID_List_contract :: "memory \<Rightarrow> contract" where
  "RANfunctionsID_List_contract m = RANfunctionsID_List.contract m"

lemma RANfunctionsID_List_codec [codecs]: "codec_ok (asn_DEF_RANfunctionsID_List (ideal_env m)) None (RANfunctionsID_List_contract m)"
  unfolding asn_DEF_RANfunctionsID_List_def RANfunctionsID_List_contract_def size_only_def by (rule RANfunctionsID_List.codec)

interpretation RICserviceUpdate_IEs: class_type "ideal_env m" "asn_MBR_RICserviceUpdate_IEs__value others (ideal_env m)"
  "[RANfunctions_List_contract m others, RANfunctions_List_contract m others, RANfunctionsID_List_contract m]"
  asn_SPC_RICserviceUpdate_IEs_specs "asn_DEF_ProtocolIE_ID (ideal_env m)" "asn_DEF_Criticality (ideal_env m)" "Some (value_only asn_PER_memb_id_constr)" "Some (value_only asn_PER_memb_criticality_constr)"
  "Some unconstrained" "type_column 0 asn_IOS_RICserviceUpdate_IEs" select_RICserviceUpdate_IEs_criticality_type
  "\<lambda>ph. cwn_bits ph (lower_bound asn_PER_memb_id_constr) (upper_bound asn_PER_memb_id_constr)" "aper_number_ok None asn_PER_memb_id_constr"
  "enum_contract asn_SPC_Criticality_specs asn_PER_memb_criticality_constr" for m others
  by unfold_locales (simp_all add: asn_MBR_RICserviceUpdate_IEs__value_def asn_SPC_RICserviceUpdate_IEs_specs_def codecs number_contract_def [symmetric])

definition RICserviceUpdate_IEs_contract :: "memory \<Rightarrow> (string \<Rightarrow> asn_codec) \<Rightarrow> contract" where
  "RICserviceUpdate_IEs_contract m others = RICserviceUpdate_IEs.contract m others"

lemma RICserviceUpdate_IEs_codec [codecs]: "codec_ok (asn_DEF_RICserviceUpdate_IEs others (ideal_env m)) cs (RICserviceUpdate_IEs_contract m others)"
  unfolding asn_DEF_RICserviceUpdate_IEs_def asn_MBR_RICserviceUpdate_IEs_def asn_DEF_RICserviceUpdate_IEs__value_def select_RICserviceUpdate_IEs_value_type_def RICserviceUpdate_IEs_contract_def by (rule RICserviceUpdate_IEs.codec)

interpretation ProtocolIE_Container_1479P27: sequence_of_type "ideal_env m" asn_PER_type_ProtocolIE_Container_1479P27_constr "asn_MBR_ProtocolIE_Container_1479P27 others (ideal_env m)"
  "fst (RICserviceUpdate_IEs_contract m others)" "snd (RICserviceUpdate_IEs_contract m others)" "\<lambda>t. t = zeroed (memb_type (asn_MBR_ProtocolIE_Container_1479P27 others (ideal_env m)))" for m others
  by (rule sequence_of_codec) (simp_all add: asn_MBR_ProtocolIE_Container_1479P27_def asn_PER_type_ProtocolIE_Container_1479P27_constr_def codecs)

definition ProtocolIE_Container_1479P27_contract :: "memory \<Rightarrow> (string \<Rightarrow> asn_codec) \<Rightarrow> contract" where
  "ProtocolIE_Container_1479P27_contract m others = ProtocolIE_Container_1479P27.contract m others"

lemma ProtocolIE_Container_1479P27_codec [codecs]: "codec_ok (asn_DEF_ProtocolIE_Container_1479P27 others (ideal_env m)) None (ProtocolIE_Container_1479P27_contract m others)"
  unfolding asn_DEF_ProtocolIE_Container_1479P27_def ProtocolIE_Container_1479P27_contract_def size_only_def by (rule ProtocolIE_Container_1479P27.codec)

interpretation RICserviceUpdate: plain_sequence "ideal_env m" asn_SPC_RICserviceUpdate_specs "asn_MBR_RICserviceUpdate others (ideal_env m)"
  "[ProtocolIE_Container_1479P27_contract m others]" for m others
  by unfold_locales (simp_all add: asn_SPC_RICserviceUpdate_specs_def asn_MBR_RICserviceUpdate_def codecs upt_rec)

definition RICserviceUpdate_contract :: "memory \<Rightarrow> (string \<Rightarrow> asn_codec) \<Rightarrow> contract" where
  "RICserviceUpdate_contract m others = RICserviceUpdate.contract others m"

lemma RICserviceUpdate_codec [codecs]: "codec_ok (asn_DEF_RICserviceUpdate others (ideal_env m)) cs (RICserviceUpdate_contract m others)"
  unfolding asn_DEF_RICserviceUpdate_def RICserviceUpdate_contract_def by (rule RICserviceUpdate.codec)

lemma RICcontrolAckRequest_codec [codecs]: "codec_ok (asn_DEF_RICcontrolAckRequest (ideal_env m)) None (enum_contract asn_SPC_RICcontrolAckRequest_specs asn_PER_type_RICcontrolAckRequest_constr)"
  by (simp add: asn_DEF_RICcontrolAckRequest_def enum_codec_type)

lemma RICcontrolAckRequest_member_codec [codecs]: "codec_ok (asn_DEF_RICcontrolAckRequest (ideal_env m)) (Some (value_only c)) (enum_contract asn_SPC_RICcontrolAckRequest_specs c)"
  by (simp add: asn_DEF_RICcontrolAckRequest_def enum_codec_member)

interpretation RICcontrolRequest_IEs: class_type "ideal_env m" "asn_MBR_RICcontrolRequest_IEs__value others (ideal_env m)"
  "[RICrequestID_contract m, number_contract asn_PER_type_RANfunctionID_constr, no_contract, no_contract, no_contract, enum_contract asn_SPC_RICcontrolAckRequest_specs asn_PER_type_RICcontrolAckRequest_constr]"
  asn_SPC_RICcontrolRequest_IEs_specs "asn_DEF_ProtocolIE_ID (ideal_env m)" "asn_DEF_Criticality (ideal_env m)" "Some (value_only asn_PER_memb_id_constr)" "Some (value_only asn_PER_memb_criticality_constr)"
  "Some unconstrained" "type_column 0 asn_IOS_RICcontrolRequest_IEs" select_RICcontrolRequest_IEs_criticality_type
  "\<lambda>ph. cwn_bits ph (lower_bound asn_PER_memb_id_constr) (upper_bound asn_PER_memb_id_constr)" "aper_number_ok None asn_PER_memb_id_constr"
  "enum_contract asn_SPC_Criticality_specs asn_PER_memb_criticality_constr" for m others
  by unfold_locales (simp_all add: asn_MBR_RICcontrolRequest_IEs__value_def asn_SPC_RICcontrolRequest_IEs_specs_def codecs number_contract_def [symmetric])

definition RICcontrolRequest_IEs_contract :: "memory \<Rightarrow> (string \<Rightarrow> asn_codec) \<Rightarrow> contract" where
  "RICcontrolRequest_IEs_contract m others = RICcontrolRequest_IEs.contract m others"

lemma RICcontrolRequest_IEs_codec [codecs]: "codec_ok (asn_DEF_RICcontrolRequest_IEs others (ideal_env m)) cs (RICcontrolRequest_IEs_contract m others)"
  unfolding asn_DEF_RICcontrolRequest_IEs_def asn_MBR_RICcontrolRequest_IEs_def asn_DEF_RICcontrolRequest_IEs__value_def select_RICcontrolRequest_IEs_value_type_def RICcontrolRequest_IEs_contract_def by (rule RICcontrolRequest_IEs.codec)

interpretation ProtocolIE_Container_1479P9: sequence_of_type "ideal_env m" asn_PER_type_ProtocolIE_Container_1479P9_constr "asn_MBR_ProtocolIE_Container_1479P9 others (ideal_env m)"
  "fst (RICcontrolRequest_IEs_contract m others)" "snd (RICcontrolRequest_IEs_contract m others)" "\<lambda>t. t = zeroed (memb_type (asn_MBR_ProtocolIE_Container_1479P9 others (ideal_env m)))" for m others
  by (rule sequence_of_codec) (simp_all add: asn_MBR_ProtocolIE_Container_1479P9_def asn_PER_type_ProtocolIE_Container_1479P9_constr_def codecs)

definition ProtocolIE_Container_1479P9_contract :: "memory \<Rightarrow> (string \<Rightarrow> asn_codec) \<Rightarrow> contract" where
  "ProtocolIE_Container_1479P9_contract m others = ProtocolIE_Container_1479P9.contract m others"

lemma ProtocolIE_Container_1479P9_codec [codecs]: "codec_ok (asn_DEF_ProtocolIE_Container_1479P9 others (ideal_env m)) None (ProtocolIE_Container_1479P9_contract m others)"
  unfolding asn_DEF_ProtocolIE_Container_1479P9_def ProtocolIE_Container_1479P9_contract_def size_only_def by (rule ProtocolIE_Container_1479P9.codec)

interpretation RICcontrolRequest: plain_sequence "ideal_env m" asn_SPC_RICcontrolRequest_specs "asn_MBR_RICcontrolRequest others (ideal_env m)"
  "[ProtocolIE_Container_1479P9_contract m others]" for m others
  by unfold_locales (simp_all add: asn_SPC_RICcontrolRequest_specs_def asn_MBR_RICcontrolRequest_def codecs upt_rec)

definition RICcontrolRequest_contract :: "memory \<Rightarrow> (string \<Rightarrow> asn_codec) \<Rightarrow> contract" where
  "RICcontrolRequest_contract m others = RICcontrolRequest.contract others m"

lemma RICcontrolRequest_codec [codecs]: "codec_ok (asn_DEF_RICcontrolRequest others (ideal_env m)) cs (RICcontrolRequest_contract m others)"
  unfolding asn_DEF_RICcontrolRequest_def RICcontrolRequest_contract_def by (rule RICcontrolRequest.codec)

lemma E2nodeComponentType_codec [codecs]: "codec_ok (asn_DEF_E2nodeComponentType (ideal_env m)) None (enum_contract asn_SPC_E2nodeComponentType_specs asn_PER_type_E2nodeComponentType_constr)"
  by (simp add: asn_DEF_E2nodeComponentType_def enum_codec_type)

lemma E2nodeComponentType_member_codec [codecs]: "codec_ok (asn_DEF_E2nodeComponentType (ideal_env m)) (Some (value_only c)) (enum_contract asn_SPC_E2nodeComponentType_specs c)"
  by (simp add: asn_DEF_E2nodeComponentType_def enum_codec_member)

interpretation ProtocolIE_SingleContainer_1481P6: class_type "ideal_env m" "asn_MBR_ProtocolIE_SingleContainer_1481P6__value others (ideal_env m)"
  "[no_contract]"
  asn_SPC_ProtocolIE_SingleContainer_1481P6_specs "asn_DEF_ProtocolIE_ID (ideal_env m)" "asn_DEF_Criticality (ideal_env m)" "Some (value_only asn_PER_memb_id_constr)" "Some (value_only asn_PER_memb_criticality_constr)"
  "Some unconstrained" "type_column 0 asn_IOS_E2nodeComponentConfigUpdate_ItemIEs" select_ProtocolIE_SingleContainer_1481P6_criticality_type
  "\<lambda>ph. cwn_bits ph (lower_bound asn_PER_memb_id_constr) (upper_bound asn_PER_memb_id_constr)" "aper_number_ok None asn_PER_memb_id_constr"
  "enum_contract asn_SPC_Criticality_specs asn_PER_memb_criticality_constr" for m others
  by unfold_locales (simp_all add: asn_MBR_ProtocolIE_SingleContainer_1481P6__value_def asn_SPC_ProtocolIE_SingleContainer_1481P6_specs_def codecs number_contract_def [symmetric])

definition ProtocolIE_SingleContainer_1481P6_contract :: "memory \<Rightarrow> (string \<Rightarrow> asn_codec) \<Rightarrow> contract" where
  "ProtocolIE_SingleContainer_1481P6_contract m others = ProtocolIE_SingleContainer_1481P6.contract m others"

lemma ProtocolIE_SingleContainer_1481P6_codec [codecs]: "codec_ok (asn_DEF_ProtocolIE_SingleContainer_1481P6 others (ideal_env m)) cs (ProtocolIE_SingleContainer_1481P6_contract m others)"
  unfolding asn_DEF_ProtocolIE_SingleContainer_1481P6_def asn_MBR_ProtocolIE_SingleContainer_1481P6_def asn_DEF_ProtocolIE_SingleContainer_1481P6__value_def select_ProtocolIE_SingleContainer_1481P6_value_type_def ProtocolIE_SingleContainer_1481P6_contract_def by (rule ProtocolIE_SingleContainer_1481P6.codec)

interpretation E2nodeComponentConfigUpdate_List: sequence_of_type "ideal_env m" asn_PER_type_E2nodeComponentConfigUpdate_List_constr "asn_MBR_E2nodeComponentConfigUpdate_List others (ideal_env m)"
  "fst (ProtocolIE_SingleContainer_1481P6_contract m others)" "snd (ProtocolIE_SingleContainer_1481P6_contract m others)" "\<lambda>t. t = zeroed (memb_type (asn_MBR_E2nodeComponentConfigUpdate_List others (ideal_env m)))" for m others
  by (rule sequence_of_codec) (simp_all add: asn_MBR_E2nodeComponentConfigUpdate_List_def asn_PER_type_E2nodeComponentConfigUpdate_List_constr_def codecs)

definition E2nodeComponentConfigUpdate_List_contract :: "memory \<Rightarrow> (string \<Rightarrow> asn_codec) \<Rightarrow> contract" where
  "E2nodeComponentConfigUpdate_List_contract m others = E2nodeComponentConfigUpdate_List.contract m others"

lemma E2nodeComponentConfigUpdate_List_codec [codecs]: "codec_ok (asn_DEF_E2nodeComponentConfigUpdate_List others (ideal_env m)) None (E2nodeComponentConfigUpdate_List_contract m others)"
  unfolding asn_DEF_E2nodeComponentConfigUpdate_List_def E2nodeComponentConfigUpdate_List_contract_def size_only_def by (rule E2nodeComponentConfigUpdate_List.codec)

interpretation E2setupRequestIEs: class_type "ideal_env m" "asn_MBR_E2setupRequestIEs__value others (ideal_env m)"
  "[no_contract, RANfunctions_List_contract m others, E2nodeComponentConfigUpdate_List_contract m others]"
  asn_SPC_E2setupRequestIEs_specs "asn_DEF_ProtocolIE_ID (ideal_env m)" "asn_DEF_Criticality (ideal_env m)" "Some (value_only asn_PER_memb_id_constr)" "Some (value_only asn_PER_memb_criticality_constr)"
  "Some unconstrained" "type_column 0 asn_IOS_E2setupRequestIEs" select_E2setupRequestIEs_criticality_type
  "\<lambda>ph. cwn_bits ph (lower_bound asn_PER_memb_id_constr) (upper_bound asn_PER_memb_id_constr)" "aper_number_ok None asn_PER_memb_id_constr"
  "enum_contract asn_SPC_Criticality_specs asn_PER_memb_criticality_constr" for m others
  by unfold_locales (simp_all add: asn_MBR_E2setupRequestIEs__value_def asn_SPC_E2setupRequestIEs_specs_def codecs number_contract_def [symmetric])

definition E2setupRequestIEs_contract :: "memory \<Rightarrow> (string \<Rightarrow> asn_codec) \<Rightarrow> contract" where
  "E2setupRequestIEs_contract m others = E2setupRequestIEs.contract m others"

lemma E2setupRequestIEs_codec [codecs]: "codec_ok (asn_DEF_E2setupRequestIEs others (ideal_env m)) cs (E2setupRequestIEs_contract m others)"
  unfolding asn_DEF_E2setupRequestIEs_def asn_MBR_E2setupRequestIEs_def asn_DEF_E2setupRequestIEs__value_def select_E2setupRequestIEs_value_type_def E2setupRequestIEs_contract_def by (rule E2setupRequestIEs.codec)

interpretation ProtocolIE_Container_1479P14: sequence_of_type "ideal_env m" asn_PER_type_ProtocolIE_Container_1479P14_constr "asn_MBR_ProtocolIE_Container_1479P14 others (ideal_env m)"
  "fst (E2setupRequestIEs_contract m others)" "snd (E2setupRequestIEs_contract m others)" "\<lambda>t. t = zeroed (memb_type (asn_MBR_ProtocolIE_Container_1479P14 others (ideal_env m)))" for m others
  by (rule sequence_of_codec) (simp_all add: asn_MBR_ProtocolIE_Container_1479P14_def asn_PER_type_ProtocolIE_Container_1479P14_constr_def codecs)

definition ProtocolIE_Container_1479P14_contract :: "memory \<Rightarrow> (string \<Rightarrow> asn_codec) \<Rightarrow> contract" where
  "ProtocolIE_Container_1479P14_contract m others = ProtocolIE_Container_1479P14.contract m others"

lemma ProtocolIE_Container_1479P14_codec [codecs]: "codec_ok (asn_DEF_ProtocolIE_Container_1479P14 others (ideal_env m)) None (ProtocolIE_Container_1479P14_contract m others)"
  unfolding asn_DEF_ProtocolIE_Container_1479P14_def ProtocolIE_Container_1479P14_contract_def size_only_def by (rule ProtocolIE_Container_1479P14.codec)

interpretation E2setupRequest: plain_sequence "ideal_env m" asn_SPC_E2setupRequest_specs "asn_MBR_E2setupRequest others (ideal_env m)"
  "[ProtocolIE_Container_1479P14_contract m others]" for m others
  by unfold_locales (simp_all add: asn_SPC_E2setupRequest_specs_def asn_MBR_E2setupRequest_def codecs upt_rec)

definition E2setupRequest_contract :: "memory \<Rightarrow> (string \<Rightarrow> asn_codec) \<Rightarrow> contract" where
  "E2setupRequest_contract m others = E2setupRequest.contract others m"

lemma E2setupRequest_codec [codecs]: "codec_ok (asn_DEF_E2setupRequest others (ideal_env m)) cs (E2setupRequest_contract m others)"
  unfolding asn_DEF_E2setupRequest_def E2setupRequest_contract_def by (rule E2setupRequest.codec)

interpretation E2nodeConfigurationUpdate_IEs: class_type "ideal_env m" "asn_MBR_E2nodeConfigurationUpdate_IEs__value others (ideal_env m)"
  "[E2nodeComponentConfigUpdate_List_contract m others]"
  asn_SPC_E2nodeConfigurationUpdate_IEs_specs "asn_DEF_ProtocolIE_ID (ideal_env m)" "asn_DEF_Criticality (ideal_env m)" "Some (value_only asn_PER_memb_id_constr)" "Some (value_only asn_PER_memb_criticality_constr)"
  "Some unconstrained" "type_column 0 asn_IOS_E2nodeConfigurationUpdate_IEs" select_E2nodeConfigurationUpdate_IEs_criticality_type
  "\<lambda>ph. cwn_bits ph (lower_bound asn_PER_memb_id_constr) (upper_bound asn_PER_memb_id_constr)" "aper_number_ok None asn_PER_memb_id_constr"
  "enum_contract asn_SPC_Criticality_specs asn_PER_memb_criticality_constr" for m others
  by unfold_locales (simp_all add: asn_MBR_E2nodeConfigurationUpdate_IEs__value_def asn_SPC_E2nodeConfigurationUpdate_IEs_specs_def codecs number_contract_def [symmetric])

definition E2nodeConfigurationUpdate_IEs_contract :: "memory \<Rightarrow> (string \<Rightarrow> asn_codec) \<Rightarrow> contract" where
  "E2nodeConfigurationUpdate_IEs_contract m others = E2nodeConfigurationUpdate_IEs.contract m others"

lemma E2nodeConfigurationUpdate_IEs_codec [codecs]: "codec_ok (asn_DEF_E2nodeConfigurationUpdate_IEs others (ideal_env m)) cs (E2nodeConfigurationUpdate_IEs_contract m others)"
  unfolding asn_DEF_E2nodeConfigurationUpdate_IEs_def asn_MBR_E2nodeConfigurationUpdate_IEs_def asn_DEF_E2nodeConfigurationUpdate_IEs__value_def select_E2nodeConfigurationUpdate_IEs_value_type_def E2nodeConfigurationUpdate_IEs_contract_def by (rule E2nodeConfigurationUpdate_IEs.codec)

interpretation ProtocolIE_Container_1479P22: sequence_of_type "ideal_env m" asn_PER_type_ProtocolIE_Container_1479P22_constr "asn_MBR_ProtocolIE_Container_1479P22 others (ideal_env m)"
  "fst (E2nodeConfigurationUpdate_IEs_contract m others)" "snd (E2nodeConfigurationUpdate_IEs_contract m others)" "\<lambda>t. t = zeroed (memb_type (asn_MBR_ProtocolIE_Container_1479P22 others (ideal_env m)))" for m others
  by (rule sequence_of_codec) (simp_all add: asn_MBR_ProtocolIE_Container_1479P22_def asn_PER_type_ProtocolIE_Container_1479P22_constr_def codecs)

definition ProtocolIE_Container_1479P22_contract :: "memory \<Rightarrow> (string \<Rightarrow> asn_codec) \<Rightarrow> contract" where
  "ProtocolIE_Container_1479P22_contract m others = ProtocolIE_Container_1479P22.contract m others"

lemma ProtocolIE_Container_1479P22_codec [codecs]: "codec_ok (asn_DEF_ProtocolIE_Container_1479P22 others (ideal_env m)) None (ProtocolIE_Container_1479P22_contract m others)"
  unfolding asn_DEF_ProtocolIE_Container_1479P22_def ProtocolIE_Container_1479P22_contract_def size_only_def by (rule ProtocolIE_Container_1479P22.codec)

interpretation E2nodeConfigurationUpdate: plain_sequence "ideal_env m" asn_SPC_E2nodeConfigurationUpdate_specs "asn_MBR_E2nodeConfigurationUpdate others (ideal_env m)"
  "[ProtocolIE_Container_1479P22_contract m others]" for m others
  by unfold_locales (simp_all add: asn_SPC_E2nodeConfigurationUpdate_specs_def asn_MBR_E2nodeConfigurationUpdate_def codecs upt_rec)

definition E2nodeConfigurationUpdate_contract :: "memory \<Rightarrow> (string \<Rightarrow> asn_codec) \<Rightarrow> contract" where
  "E2nodeConfigurationUpdate_contract m others = E2nodeConfigurationUpdate.contract others m"

lemma E2nodeConfigurationUpdate_codec [codecs]: "codec_ok (asn_DEF_E2nodeConfigurationUpdate others (ideal_env m)) cs (E2nodeConfigurationUpdate_contract m others)"
  unfolding asn_DEF_E2nodeConfigurationUpdate_def E2nodeConfigurationUpdate_contract_def by (rule E2nodeConfigurationUpdate.codec)

interpretation ProtocolIE_SingleContainer_1481P3: class_type "ideal_env m" "asn_MBR_ProtocolIE_SingleContainer_1481P3__value others (ideal_env m)"
  "[no_contract]"
  asn_SPC_ProtocolIE_SingleContainer_1481P3_specs "asn_DEF_ProtocolIE_ID (ideal_env m)" "asn_DEF_Criticality (ideal_env m)" "Some (value_only asn_PER_memb_id_constr)" "Some (value_only asn_PER_memb_criticality_constr)"
  "Some unconstrained" "type_column 0 asn_IOS_E2connectionUpdate_ItemIEs" select_ProtocolIE_SingleContainer_1481P3_criticality_type
  "\<lambda>ph. cwn_bits ph (lower_bound asn_PER_memb_id_constr) (upper_bound asn_PER_memb_id_constr)" "aper_number_ok None asn_PER_memb_id_constr"
  "enum_contract asn_SPC_Criticality_specs asn_PER_memb_criticality_constr" for m others
  by unfold_locales (simp_all add: asn_MBR_ProtocolIE_SingleContainer_1481P3__value_def asn_SPC_ProtocolIE_SingleContainer_1481P3_specs_def codecs number_contract_def [symmetric])

definition ProtocolIE_SingleContainer_1481P3_contract :: "memory \<Rightarrow> (string \<Rightarrow> asn_codec) \<Rightarrow> contract" where
  "ProtocolIE_SingleContainer_1481P3_contract m others = ProtocolIE_SingleContainer_1481P3.contract m others"

lemma ProtocolIE_SingleContainer_1481P3_codec [codecs]: "codec_ok (asn_DEF_ProtocolIE_SingleContainer_1481P3 others (ideal_env m)) cs (ProtocolIE_SingleContainer_1481P3_contract m others)"
  unfolding asn_DEF_ProtocolIE_SingleContainer_1481P3_def asn_MBR_ProtocolIE_SingleContainer_1481P3_def asn_DEF_ProtocolIE_SingleContainer_1481P3__value_def select_ProtocolIE_SingleContainer_1481P3_value_type_def ProtocolIE_SingleContainer_1481P3_contract_def by (rule ProtocolIE_SingleContainer_1481P3.codec)

interpretation E2connectionUpdate_List: sequence_of_type "ideal_env m" asn_PER_type_E2connectionUpdate_List_constr "asn_MBR_E2connectionUpdate_List others (ideal_env m)"
  "fst (ProtocolIE_SingleContainer_1481P3_contract m others)" "snd (ProtocolIE_SingleContainer_1481P3_contract m others)" "\<lambda>t. t = zeroed (memb_type (asn_MBR_E2connectionUpdate_List others (ideal_env m)))" for m others
  by (rule sequence_of_codec) (simp_all add: asn_MBR_E2connectionUpdate_List_def asn_PER_type_E2connectionUpdate_List_constr_def codecs)

definition E2connectionUpdate_List_contract :: "memory \<Rightarrow> (string \<Rightarrow> asn_codec) \<Rightarrow> contract" where
  "E2connectionUpdate_List_contract m others = E2connectionUpdate_List.contract m others"

lemma E2connectionUpdate_List_codec [codecs]: "codec_ok (asn_DEF_E2connectionUpdate_List others (ideal_env m)) None (E2connectionUpdate_List_contract m others)"
  unfolding asn_DEF_E2connectionUpdate_List_def E2connectionUpdate_List_contract_def size_only_def by (rule E2connectionUpdate_List.codec)

interpretation ProtocolIE_SingleContainer_1481P4: class_type "ideal_env m" "asn_MBR_ProtocolIE_SingleContainer_1481P4__value others (ideal_env m)"
  "[no_contract]"
  asn_SPC_ProtocolIE_SingleContainer_1481P4_specs "asn_DEF_ProtocolIE_ID (ideal_env m)" "asn_DEF_Criticality (ideal_env m)" "Some (value_only asn_PER_memb_id_constr)" "Some (value_only asn_PER_memb_criticality_constr)"
  "Some unconstrained" "type_column 0 asn_IOS_E2connectionUpdateRemove_ItemIEs" select_ProtocolIE_SingleContainer_1481P4_criticality_type
  "\<lambda>ph. cwn_bits ph (lower_bound asn_PER_memb_id_constr) (upper_bound asn_PER_memb_id_constr)" "aper_number_ok None asn_PER_memb_id_constr"
  "enum_contract asn_SPC_Criticality_specs asn_PER_memb_criticality_constr" for m others
  by unfold_locales (simp_all add: asn_MBR_ProtocolIE_SingleContainer_1481P4__value_def asn_SPC_ProtocolIE_SingleContainer_1481P4_specs_def codecs number_contract_def [symmetric])

definition ProtocolIE_SingleContainer_1481P4_contract :: "memory \<Rightarrow> (string \<Rightarrow> asn_codec) \<Rightarrow> contract" where
  "ProtocolIE_SingleContainer_1481P4_contract m others = ProtocolIE_SingleContainer_1481P4.contract m others"

lemma ProtocolIE_SingleContainer_1481P4_codec [codecs]: "codec_ok (asn_DEF_ProtocolIE_SingleContainer_1481P4 others (ideal_env m)) cs (ProtocolIE_SingleContainer_1481P4_contract m others)"
  unfolding asn_DEF_ProtocolIE_SingleContainer_1481P4_def asn_MBR_ProtocolIE_SingleContainer_1481P4_def asn_DEF_ProtocolIE_SingleContainer_1481P4__value_def select_ProtocolIE_SingleContainer_1481P4_value_type_def ProtocolIE_SingleContainer_1481P4_contract_def by (rule ProtocolIE_SingleContainer_1481P4.codec)

interpretation E2connectionUpdateRemove_List: sequence_of_type "ideal_env m" asn_PER_type_E2connectionUpdateRemove_List_constr "asn_MBR_E2connectionUpdateRemove_List others (ideal_env m)"
  "fst (ProtocolIE_SingleContainer_1481P4_contract m others)" "snd (ProtocolIE_SingleContainer_1481P4_contract m others)" "\<lambda>t. t = zeroed (memb_type (asn_MBR_E2connectionUpdateRemove_List others (ideal_env m)))" for m others
  by (rule sequence_of_codec) (simp_all add: asn_MBR_E2connectionUpdateRemove_List_def asn_PER_type_E2connectionUpdateRemove_List_constr_def codecs)

definition E2connectionUpdateRemove_List_contract :: "memory \<Rightarrow> (string \<Rightarrow> asn_codec) \<Rightarrow> contract" where
  "E2connectionUpdateRemove_List_contract m others = E2connectionUpdateRemove_List.contract m others"

lemma E2connectionUpdateRemove_List_codec [codecs]: "codec_ok (asn_DEF_E2connectionUpdateRemove_List others (ideal_env m)) None (E2connectionUpdateRemove_List_contract m others)"
  unfolding asn_DEF_E2connectionUpdateRemove_List_def E2connectionUpdateRemove_List_contract_def size_only_def by (rule E2connectionUpdateRemove_List.codec)

interpretation E2connectionUpdate_IEs: class_type "ideal_env m" "asn_MBR_E2connectionUpdate_IEs__value others (ideal_env m)"
  "[E2connectionUpdate_List_contract m others, E2connectionUpdateRemove_List_contract m others, E2connectionUpdate_List_contract m others]"
  asn_SPC_E2connectionUpdate_IEs_specs "asn_DEF_ProtocolIE_ID (ideal_env m)" "asn_DEF_Criticality (ideal_env m)" "Some (value_only asn_PER_memb_id_constr)" "Some (value_only asn_PER_memb_criticality_constr)"
  "Some unconstrained" "type_column 0 asn_IOS_E2connectionUpdate_IEs" select_E2connectionUpdate_IEs_criticality_type
  "\<lambda>ph. cwn_bits ph (lower_bound asn_PER_memb_id_constr) (upper_bound asn_PER_memb_id_constr)" "aper_number_ok None asn_PER_memb_id_constr"
  "enum_contract asn_SPC_Criticality_specs asn_PER_memb_criticality_constr" for m others
  by unfold_locales (simp_all add: asn_MBR_E2connectionUpdate_IEs__value_def asn_SPC_E2connectionUpdate_IEs_specs_def codecs number_contract_def [symmetric])

definition E2connectionUpdate_IEs_contract :: "memory \<Rightarrow> (string \<Rightarrow> asn_codec) \<Rightarrow> contract" where
  "E2connectionUpdate_IEs_contract m others = E2connectionUpdate_IEs.contract m others"

lemma E2connectionUpdate_IEs_codec [codecs]: "codec_ok (asn_DEF_E2connectionUpdate_IEs others (ideal_env m)) cs (E2connectionUpdate_IEs_contract m others)"
  unfolding asn_DEF_E2connectionUpdate_IEs_def asn_MBR_E2connectionUpdate_IEs_def asn_DEF_E2connectionUpdate_IEs__value_def select_E2connectionUpdate_IEs_value_type_def E2connectionUpdate_IEs_contract_def by (rule E2connectionUpdate_IEs.codec)

interpretation ProtocolIE_Container_1479P19: sequence_of_type "ideal_env m" asn_PER_type_ProtocolIE_Container_1479P19_constr "asn_MBR_ProtocolIE_Container_1479P19 others (ideal_env m)"
  "fst (E2connectionUpdate_IEs_contract m others)" "snd (E2connectionUpdate_IEs_contract m others)" "\<lambda>t. t = zeroed (memb_type (asn_MBR_ProtocolIE_Container_1479P19 others (ideal_env m)))" for m others
  by (rule sequence_of_codec) (simp_all add: asn_MBR_ProtocolIE_Container_1479P19_def asn_PER_type_ProtocolIE_Container_1479P19_constr_def codecs)

definition ProtocolIE_Container_1479P19_contract :: "memory \<Rightarrow> (string \<Rightarrow> asn_codec) \<Rightarrow> contract" where
  "ProtocolIE_Container_1479P19_contract m others = ProtocolIE_Container_1479P19.contract m others"

lemma ProtocolIE_Container_1479P19_codec [codecs]: "codec_ok (asn_DEF_ProtocolIE_Container_1479P19 others (ideal_env m)) None (ProtocolIE_Container_1479P19_contract m others)"
  unfolding asn_DEF_ProtocolIE_Container_1479P19_def ProtocolIE_Container_1479P19_contract_def size_only_def by (rule ProtocolIE_Container_1479P19.codec)

interpretation E2connectionUpdate: plain_sequence "ideal_env m" asn_SPC_E2connectionUpdate_specs "asn_MBR_E2connectionUpdate others (ideal_env m)"
  "[ProtocolIE_Container_1479P19_contract m others]" for m others
  by unfold_locales (simp_all add: asn_SPC_E2connectionUpdate_specs_def asn_MBR_E2connectionUpdate_def codecs upt_rec)

definition E2connectionUpdate_contract :: "memory \<Rightarrow> (string \<Rightarrow> asn_codec) \<Rightarrow> contract" where
  "E2connectionUpdate_contract m others = E2connectionUpdate.contract others m"

lemma E2connectionUpdate_codec [codecs]: "codec_ok (asn_DEF_E2connectionUpdate others (ideal_env m)) cs (E2connectionUpdate_contract m others)"
  unfolding asn_DEF_E2connectionUpdate_def E2connectionUpdate_contract_def by (rule E2connectionUpdate.codec)

lemma CauseRIC_codec [codecs]: "codec_ok (asn_DEF_CauseRIC (ideal_env m)) None (enum_contract asn_SPC_CauseRIC_specs asn_PER_type_CauseRIC_constr)"
  by (simp add: asn_DEF_CauseRIC_def enum_codec_type)

lemma CauseRIC_member_codec [codecs]: "codec_ok (asn_DEF_CauseRIC (ideal_env m)) (Some (value_only c)) (enum_contract asn_SPC_CauseRIC_specs c)"
  by (simp add: asn_DEF_CauseRIC_def enum_codec_member)

lemma CauseRICservice_codec [codecs]: "codec_ok (asn_DEF_CauseRICservice (ideal_env m)) None (enum_contract asn_SPC_CauseRICservice_specs asn_PER_type_CauseRICservice_constr)"
  by (simp add: asn_DEF_CauseRICservice_def enum_codec_type)

lemma CauseRICservice_member_codec [codecs]: "codec_ok (asn_DEF_CauseRICservice (ideal_env m)) (Some (value_only c)) (enum_contract asn_SPC_CauseRICservice_specs c)"
  by (simp add: asn_DEF_CauseRICservice_def enum_codec_member)

lemma CauseTransport_codec [codecs]: "codec_ok (asn_DEF_CauseTransport (ideal_env m)) None (enum_contract asn_SPC_CauseTransport_specs asn_PER_type_CauseTransport_constr)"
  by (simp add: asn_DEF_CauseTransport_def enum_codec_type)

lemma CauseTransport_member_codec [codecs]: "codec_ok (asn_DEF_CauseTransport (ideal_env m)) (Some (value_only c)) (enum_contract asn_SPC_CauseTransport_specs c)"
  by (simp add: asn_DEF_CauseTransport_def enum_codec_member)

lemma CauseProtocol_codec [codecs]: "codec_ok (asn_DEF_CauseProtocol (ideal_env m)) None (enum_contract asn_SPC_CauseProtocol_specs asn_PER_type_CauseProtocol_constr)"
  by (simp add: asn_DEF_CauseProtocol_def enum_codec_type)

lemma CauseProtocol_member_codec [codecs]: "codec_ok (asn_DEF_CauseProtocol (ideal_env m)) (Some (value_only c)) (enum_contract asn_SPC_CauseProtocol_specs c)"
  by (simp add: asn_DEF_CauseProtocol_def enum_codec_member)

lemma CauseMisc_codec [codecs]: "codec_ok (asn_DEF_CauseMisc (ideal_env m)) None (enum_contract asn_SPC_CauseMisc_specs asn_PER_type_CauseMisc_constr)"
  by (simp add: asn_DEF_CauseMisc_def enum_codec_type)

lemma CauseMisc_member_codec [codecs]: "codec_ok (asn_DEF_CauseMisc (ideal_env m)) (Some (value_only c)) (enum_contract asn_SPC_CauseMisc_specs c)"
  by (simp add: asn_DEF_CauseMisc_def enum_codec_member)

interpretation Cause: plain_choice "ideal_env m" asn_SPC_Cause_specs asn_PER_type_Cause_constr "asn_MBR_Cause (ideal_env m)"
  "[enum_contract asn_SPC_CauseRIC_specs asn_PER_type_CauseRIC_constr, enum_contract asn_SPC_CauseRICservice_specs asn_PER_type_CauseRICservice_constr, enum_contract asn_SPC_CauseTransport_specs asn_PER_type_CauseTransport_constr, enum_contract asn_SPC_CauseProtocol_specs asn_PER_type_CauseProtocol_constr, enum_contract asn_SPC_CauseMisc_specs asn_PER_type_CauseMisc_constr]" for m
  by unfold_locales (simp_all add: asn_SPC_Cause_specs_def asn_PER_type_Cause_constr_def asn_MBR_Cause_def codecs)

definition Cause_contract :: "memory \<Rightarrow> contract" where
  "Cause_contract m = Cause.contract m"

lemma Cause_codec [codecs]: "codec_ok (asn_DEF_Cause (ideal_env m)) None (Cause_contract m)"
  unfolding asn_DEF_Cause_def Cause_contract_def value_only_def by (rule Cause.codec)

interpretation ResetRequestIEs: class_type "ideal_env m" "asn_MBR_ResetRequestIEs__value (ideal_env m)"
  "[Cause_contract m]"
  asn_SPC_ResetRequestIEs_specs "asn_DEF_ProtocolIE_ID (ideal_env m)" "asn_DEF_Criticality (ideal_env m)" "Some (value_only asn_PER_memb_id_constr)" "Some (value_only asn_PER_memb_criticality_constr)"
  "Some unconstrained" "type_column 0 asn_IOS_ResetRequestIEs" select_ResetRequestIEs_criticality_type
  "\<lambda>ph. cwn_bits ph (lower_bound asn_PER_memb_id_constr) (upper_bound asn_PER_memb_id_constr)" "aper_number_ok None asn_PER_memb_id_constr"
  "enum_contract asn_SPC_Criticality_specs asn_PER_memb_criticality_constr" for m
  by unfold_locales (simp_all add: asn_MBR_ResetRequestIEs__value_def asn_SPC_ResetRequestIEs_specs_def codecs number_contract_def [symmetric])

definition ResetRequestIEs_contract :: "memory \<Rightarrow> contract" where
  "ResetRequestIEs_contract m = ResetRequestIEs.contract m"

lemma ResetRequestIEs_codec [codecs]: "codec_ok (asn_DEF_ResetRequestIEs (ideal_env m)) cs (ResetRequestIEs_contract m)"
  unfolding asn_DEF_ResetRequestIEs_def asn_MBR_ResetRequestIEs_def asn_DEF_ResetRequestIEs__value_def select_ResetRequestIEs_value_type_def ResetRequestIEs_contract_def by (rule ResetRequestIEs.codec)

interpretation ProtocolIE_Container_1479P25: sequence_of_type "ideal_env m" asn_PER_type_ProtocolIE_Container_1479P25_constr "asn_MBR_ProtocolIE_Container_1479P25 (ideal_env m)"
  "fst (ResetRequestIEs_contract m)" "snd (ResetRequestIEs_contract m)" "\<lambda>t. t = zeroed (memb_type (asn_MBR_ProtocolIE_Container_1479P25 (ideal_env m)))" for m
  by (rule sequence_of_codec) (simp_all add: asn_MBR_ProtocolIE_Container_1479P25_def asn_PER_type_ProtocolIE_Container_1479P25_constr_def codecs)

definition ProtocolIE_Container_1479P25_contract :: "memory \<Rightarrow> contract" where
  "ProtocolIE_Container_1479P25_contract m = ProtocolIE_Container_1479P25.contract m"

lemma ProtocolIE_Container_1479P25_codec [codecs]: "codec_ok (asn_DEF_ProtocolIE_Container_1479P25 (ideal_env m)) None (ProtocolIE_Container_1479P25_contract m)"
  unfolding asn_DEF_ProtocolIE_Container_1479P25_def ProtocolIE_Container_1479P25_contract_def size_only_def by (rule ProtocolIE_Container_1479P25.codec)

interpretation ResetRequest: plain_sequence "ideal_env m" asn_SPC_ResetRequest_specs "asn_MBR_ResetRequest (ideal_env m)"
  "[ProtocolIE_Container_1479P25_contract m]" for m
  by unfold_locales (simp_all add: asn_SPC_ResetRequest_specs_def asn_MBR_ResetRequest_def codecs upt_rec)

definition ResetRequest_contract :: "memory \<Rightarrow> contract" where
  "ResetRequest_contract m = ResetRequest.contract m"

lemma ResetRequest_codec [codecs]: "codec_ok (asn_DEF_ResetRequest (ideal_env m)) cs (ResetRequest_contract m)"
  unfolding asn_DEF_ResetRequest_def ResetRequest_contract_def by (rule ResetRequest.codec)

interpretation E42setupRequestIEs: class_type "ideal_env m" "asn_MBR_E42setupRequestIEs__value others (ideal_env m)"
  "[RANfunctions_List_contract m others]"
  asn_SPC_E42setupRequestIEs_specs "asn_DEF_ProtocolIE_ID (ideal_env m)" "asn_DEF_Criticality (ideal_env m)" "Some (value_only asn_PER_memb_id_constr)" "Some (value_only asn_PER_memb_criticality_constr)"
  "Some unconstrained" "type_column 0 asn_IOS_E42setupRequestIEs" select_E42setupRequestIEs_criticality_type
  "\<lambda>ph. cwn_bits ph (lower_bound asn_PER_memb_id_constr) (upper_bound asn_PER_memb_id_constr)" "aper_number_ok None asn_PER_memb_id_constr"
  "enum_contract asn_SPC_Criticality_specs asn_PER_memb_criticality_constr" for m others
  by unfold_locales (simp_all add: asn_MBR_E42setupRequestIEs__value_def asn_SPC_E42setupRequestIEs_specs_def codecs number_contract_def [symmetric])

definition E42setupRequestIEs_contract :: "memory \<Rightarrow> (string \<Rightarrow> asn_codec) \<Rightarrow> contract" where
  "E42setupRequestIEs_contract m others = E42setupRequestIEs.contract m others"

lemma E42setupRequestIEs_codec [codecs]: "codec_ok (asn_DEF_E42setupRequestIEs others (ideal_env m)) cs (E42setupRequestIEs_contract m others)"
  unfolding asn_DEF_E42setupRequestIEs_def asn_MBR_E42setupRequestIEs_def asn_DEF_E42setupRequestIEs__value_def select_E42setupRequestIEs_value_type_def E42setupRequestIEs_contract_def by (rule E42setupRequestIEs.codec)

interpretation ProtocolIE_Container_1479P15: sequence_of_type "ideal_env m" asn_PER_type_ProtocolIE_Container_1479P15_constr "asn_MBR_ProtocolIE_Container_1479P15 others (ideal_env m)"
  "fst (E42setupRequestIEs_contract m others)" "snd (E42setupRequestIEs_contract m others)" "\<lambda>t. t = zeroed (memb_type (asn_MBR_ProtocolIE_Container_1479P15 others (ideal_env m)))" for m others
  by (rule sequence_of_codec) (simp_all add: asn_MBR_ProtocolIE_Container_1479P15_def asn_PER_type_ProtocolIE_Container_1479P15_constr_def codecs)

definition ProtocolIE_Container_1479P15_contract :: "memory \<Rightarrow> (string \<Rightarrow> asn_codec) \<Rightarrow> contract" where
  "ProtocolIE_Container_1479P15_contract m others = ProtocolIE_Container_1479P15.contract m others"

lemma ProtocolIE_Container_1479P15_codec [codecs]: "codec_ok (asn_DEF_ProtocolIE_Container_1479P15 others (ideal_env m)) None (ProtocolIE_Container_1479P15_contract m others)"
  unfolding asn_DEF_ProtocolIE_Container_1479P15_def ProtocolIE_Container_1479P15_contract_def size_only_def by (rule ProtocolIE_Container_1479P15.codec)

interpretation E42setupRequest: plain_sequence "ideal_env m" asn_SPC_E42setupRequest_specs "asn_MBR_E42setupRequest others (ideal_env m)"
  "[ProtocolIE_Container_1479P15_contract m others]" for m others
  by unfold_locales (simp_all add: asn_SPC_E42setupRequest_specs_def asn_MBR_E42setupRequest_def codecs upt_rec)

definition E42setupRequest_contract :: "memory \<Rightarrow> (string \<Rightarrow> asn_codec) \<Rightarrow> contract" where
  "E42setupRequest_contract m others = E42setupRequest.contract others m"

lemma E42setupRequest_codec [codecs]: "codec_ok (asn_DEF_E42setupRequest others (ideal_env m)) cs (E42setupRequest_contract m others)"
  unfolding asn_DEF_E42setupRequest_def E42setupRequest_contract_def by (rule E42setupRequest.codec)

lemma XAPP_ID_codec [codecs]: "codec_ok (asn_DEF_XAPP_ID (ideal_env m)) None (number_contract asn_PER_type_XAPP_ID_constr)"
  by (simp add: asn_DEF_XAPP_ID_def number_codec_type)

lemma XAPP_ID_member_codec [codecs]: "codec_ok (asn_DEF_XAPP_ID (ideal_env m)) (Some (value_only c)) (number_contract c)"
  by (simp add: asn_DEF_XAPP_ID_def number_codec_member)

interpretation E42RICsubscriptionRequest_IEs: class_type "ideal_env m" "asn_MBR_E42RICsubscriptionRequest_IEs__value others (ideal_env m)"
  "[number_contract asn_PER_type_XAPP_ID_constr, no_contract, RICrequestID_contract m, number_contract asn_PER_type_RANfunctionID_constr, no_contract]"
  asn_SPC_E42RICsubscriptionRequest_IEs_specs "asn_DEF_ProtocolIE_ID (ideal_env m)" "asn_DEF_Criticality (ideal_env m)" "Some (value_only asn_PER_memb_id_constr)" "Some (value_only asn_PER_memb_criticality_constr)"
  "Some unconstrained" "type_column 0 asn_IOS_E42RICsubscriptionRequest_IEs" select_E42RICsubscriptionRequest_IEs_criticality_type
  "\<lambda>ph. cwn_bits ph (lower_bound asn_PER_memb_id_constr) (upper_bound asn_PER_memb_id_constr)" "aper_number_ok None asn_PER_memb_id_constr"
  "enum_contract asn_SPC_Criticality_specs asn_PER_memb_criticality_constr" for m others
  by unfold_locales (simp_all add: asn_MBR_E42RICsubscriptionRequest_IEs__value_def asn_SPC_E42RICsubscriptionRequest_IEs_specs_def codecs number_contract_def [symmetric])

definition E42RICsubscriptionRequest_IEs_contract :: "memory \<Rightarrow> (string \<Rightarrow> asn_codec) \<Rightarrow> contract" where
  "E42RICsubscriptionRequest_IEs_contract m others = E42RICsubscriptionRequest_IEs.contract m others"

lemma E42RICsubscriptionRequest_IEs_codec [codecs]: "codec_ok (asn_DEF_E42RICsubscriptionRequest_IEs others (ideal_env m)) cs (E42RICsubscriptionRequest_IEs_contract m others)"
  unfolding asn_DEF_E42RICsubscriptionRequest_IEs_def asn_MBR_E42RICsubscriptionRequest_IEs_def asn_DEF_E42RICsubscriptionRequest_IEs__value_def select_E42RICsubscriptionRequest_IEs_value_type_def E42RICsubscriptionRequest_IEs_contract_def by (rule E42RICsubscriptionRequest_IEs.codec)

interpretation ProtocolIE_Container_1479P3: sequence_of_type "ideal_env m" asn_PER_type_ProtocolIE_Container_1479P3_constr "asn_MBR_ProtocolIE_Container_1479P3 others (ideal_env m)"
  "fst (E42RICsubscriptionRequest_IEs_contract m others)" "snd (E42RICsubscriptionRequest_IEs_contract m others)" "\<lambda>t. t = zeroed (memb_type (asn_MBR_ProtocolIE_Container_1479P3 others (ideal_env m)))" for m others
  by (rule sequence_of_codec) (simp_all add: asn_MBR_ProtocolIE_Container_1479P3_def asn_PER_type_ProtocolIE_Container_1479P3_constr_def codecs)

definition ProtocolIE_Container_1479P3_contract :: "memory \<Rightarrow> (string \<Rightarrow> asn_codec) \<Rightarrow> contract" where
  "ProtocolIE_Container_1479P3_contract m others = ProtocolIE_Container_1479P3.contract m others"

lemma ProtocolIE_Container_1479P3_codec [codecs]: "codec_ok (asn_DEF_ProtocolIE_Container_1479P3 others (ideal_env m)) None (ProtocolIE_Container_1479P3_contract m others)"
  unfolding asn_DEF_ProtocolIE_Container_1479P3_def ProtocolIE_Container_1479P3_contract_def size_only_def by (rule ProtocolIE_Container_1479P3.codec)

interpretation E42RICsubscriptionRequest: plain_sequence "ideal_env m" asn_SPC_E42RICsubscriptionRequest_specs "asn_MBR_E42RICsubscriptionRequest others (ideal_env m)"
  "[ProtocolIE_Container_1479P3_contract m others]" for m others
  by unfold_locales (simp_all add: asn_SPC_E42RICsubscriptionRequest_specs_def asn_MBR_E42RICsubscriptionRequest_def codecs upt_rec)

definition E42RICsubscriptionRequest_contract :: "memory \<Rightarrow> (string \<Rightarrow> asn_codec) \<Rightarrow> contract" where
  "E42RICsubscriptionRequest_contract m others = E42RICsubscriptionRequest.contract others m"

lemma E42RICsubscriptionRequest_codec [codecs]: "codec_ok (asn_DEF_E42RICsubscriptionRequest others (ideal_env m)) cs (E42RICsubscriptionRequest_contract m others)"
  unfolding asn_DEF_E42RICsubscriptionRequest_def E42RICsubscriptionRequest_contract_def by (rule E42RICsubscriptionRequest.codec)

interpretation E42RICsubscriptionDeleteRequest_IEs: class_type "ideal_env m" "asn_MBR_E42RICsubscriptionDeleteRequest_IEs__value (ideal_env m)"
  "[number_contract asn_PER_type_XAPP_ID_constr, RICrequestID_contract m, number_contract asn_PER_type_RANfunctionID_constr]"
  asn_SPC_E42RICsubscriptionDeleteRequest_IEs_specs "asn_DEF_ProtocolIE_ID (ideal_env m)" "asn_DEF_Criticality (ideal_env m)" "Some (value_only asn_PER_memb_id_constr)" "Some (value_only asn_PER_memb_criticality_constr)"
  "Some unconstrained" "type_column 0 asn_IOS_E42RICsubscriptionDeleteRequest_IEs" select_E42RICsubscriptionDeleteRequest_IEs_criticality_type
  "\<lambda>ph. cwn_bits ph (lower_bound asn_PER_memb_id_constr) (upper_bound asn_PER_memb_id_constr)" "aper_number_ok None asn_PER_memb_id_constr"
  "enum_contract asn_SPC_Criticality_specs asn_PER_memb_criticality_constr" for m
  by unfold_locales (simp_all add: asn_MBR_E42RICsubscriptionDeleteRequest_IEs__value_def asn_SPC_E42RICsubscriptionDeleteRequest_IEs_specs_def codecs number_contract_def [symmetric])

definition E42RICsubscriptionDeleteRequest_IEs_contract :: "memory \<Rightarrow> contract" where
  "E42RICsubscriptionDeleteRequest_IEs_contract m = E42RICsubscriptionDeleteRequest_IEs.contract m"

lemma E42RICsubscriptionDeleteRequest_IEs_codec [codecs]: "codec_ok (asn_DEF_E42RICsubscriptionDeleteRequest_IEs (ideal_env m)) cs (E42RICsubscriptionDeleteRequest_IEs_contract m)"
  unfolding asn_DEF_E42RICsubscriptionDeleteRequest_IEs_def asn_MBR_E42RICsubscriptionDeleteRequest_IEs_def asn_DEF_E42RICsubscriptionDeleteRequest_IEs__value_def select_E42RICsubscriptionDeleteRequest_IEs_value_type_def E42RICsubscriptionDeleteRequest_IEs_contract_def by (rule E42RICsubscriptionDeleteRequest_IEs.codec)

interpretation ProtocolIE_Container_1479P4: sequence_of_type "ideal_env m" asn_PER_type_ProtocolIE_Container_1479P4_constr "asn_MBR_ProtocolIE_Container_1479P4 (ideal_env m)"
  "fst (E42RICsubscriptionDeleteRequest_IEs_contract m)" "snd (E42RICsubscriptionDeleteRequest_IEs_contract m)" "\<lambda>t. t = zeroed (memb_type (asn_MBR_ProtocolIE_Container_1479P4 (ideal_env m)))" for m
  by (rule sequence_of_codec) (simp_all add: asn_MBR_ProtocolIE_Container_1479P4_def asn_PER_type_ProtocolIE_Container_1479P4_constr_def codecs)

definition ProtocolIE_Container_1479P4_contract :: "memory \<Rightarrow> contract" where
  "ProtocolIE_Container_1479P4_contract m = ProtocolIE_Container_1479P4.contract m"

lemma ProtocolIE_Container_1479P4_codec [codecs]: "codec_ok (asn_DEF_ProtocolIE_Container_1479P4 (ideal_env m)) None (ProtocolIE_Container_1479P4_contract m)"
  unfolding asn_DEF_ProtocolIE_Container_1479P4_def ProtocolIE_Container_1479P4_contract_def size_only_def by (rule ProtocolIE_Container_1479P4.codec)

interpretation E42RICsubscriptionDeleteRequest: plain_sequence "ideal_env m" asn_SPC_E42RICsubscriptionDeleteRequest_specs "asn_MBR_E42RICsubscriptionDeleteRequest (ideal_env m)"
  "[ProtocolIE_Container_1479P4_contract m]" for m
  by unfold_locales (simp_all add: asn_SPC_E42RICsubscriptionDeleteRequest_specs_def asn_MBR_E42RICsubscriptionDeleteRequest_def codecs upt_rec)

definition E42RICsubscriptionDeleteRequest_contract :: "memory \<Rightarrow> contract" where
  "E42RICsubscriptionDeleteRequest_contract m = E42RICsubscriptionDeleteRequest.contract m"

lemma E42RICsubscriptionDeleteRequest_codec [codecs]: "codec_ok (asn_DEF_E42RICsubscriptionDeleteRequest (ideal_env m)) cs (E42RICsubscriptionDeleteRequest_contract m)"
  unfolding asn_DEF_E42RICsubscriptionDeleteRequest_def E42RICsubscriptionDeleteRequest_contract_def by (rule E42RICsubscriptionDeleteRequest.codec)

interpretation E42RICcontrolRequest_IEs: class_type "ideal_env m" "asn_MBR_E42RICcontrolRequest_IEs__value others (ideal_env m)"
  "[number_contract asn_PER_type_XAPP_ID_constr, no_contract, RICrequestID_contract m, number_contract asn_PER_type_RANfunctionID_constr, no_contract, no_contract, no_contract, enum_contract asn_SPC_RICcontrolAckRequest_specs asn_PER_type_RICcontrolAckRequest_constr]"
  asn_SPC_E42RICcontrolRequest_IEs_specs "asn_DEF_ProtocolIE_ID (ideal_env m)" "asn_DEF_Criticality (ideal_env m)" "Some (value_only asn_PER_memb_id_constr)" "Some (value_only asn_PER_memb_criticality_constr)"
  "Some unconstrained" "type_column 0 asn_IOS_E42RICcontrolRequest_IEs" select_E42RICcontrolRequest_IEs_criticality_type
  "\<lambda>ph. cwn_bits ph (lower_bound asn_PER_memb_id_constr) (upper_bound asn_PER_memb_id_constr)" "aper_number_ok None asn_PER_memb_id_constr"
  "enum_contract asn_SPC_Criticality_specs asn_PER_memb_criticality_constr" for m others
  by unfold_locales (simp_all add: asn_MBR_E42RICcontrolRequest_IEs__value_def asn_SPC_E42RICcontrolRequest_IEs_specs_def codecs number_contract_def [symmetric])

definition E42RICcontrolRequest_IEs_contract :: "memory \<Rightarrow> (string \<Rightarrow> asn_codec) \<Rightarrow> contract" where
  "E42RICcontrolRequest_IEs_contract m others = E42RICcontrolRequest_IEs.contract m others"

lemma E42RICcontrolRequest_IEs_codec [codecs]: "codec_ok (asn_DEF_E42RICcontrolRequest_IEs others (ideal_env m)) cs (E42RICcontrolRequest_IEs_contract m others)"
  unfolding asn_DEF_E42RICcontrolRequest_IEs_def asn_MBR_E42RICcontrolRequest_IEs_def asn_DEF_E42RICcontrolRequest_IEs__value_def select_E42RICcontrolRequest_IEs_value_type_def E42RICcontrolRequest_IEs_contract_def by (rule E42RICcontrolRequest_IEs.codec)

interpretation ProtocolIE_Container_1479P10: sequence_of_type "ideal_env m" asn_PER_type_ProtocolIE_Container_1479P10_constr "asn_MBR_ProtocolIE_Container_1479P10 others (ideal_env m)"
  "fst (E42RICcontrolRequest_IEs_contract m others)" "snd (E42RICcontrolRequest_IEs_contract m others)" "\<lambda>t. t = zeroed (memb_type (asn_MBR_ProtocolIE_Container_1479P10 others (ideal_env m)))" for m others
  by (rule sequence_of_codec) (simp_all add: asn_MBR_ProtocolIE_Container_1479P10_def asn_PER_type_ProtocolIE_Container_1479P10_constr_def codecs)

definition ProtocolIE_Container_1479P10_contract :: "memory \<Rightarrow> (string \<Rightarrow> asn_codec) \<Rightarrow> contract" where
  "ProtocolIE_Container_1479P10_contract m others = ProtocolIE_Container_1479P10.contract m others"

lemma ProtocolIE_Container_1479P10_codec [codecs]: "codec_ok (asn_DEF_ProtocolIE_Container_1479P10 others (ideal_env m)) None (ProtocolIE_Container_1479P10_contract m others)"
  unfolding asn_DEF_ProtocolIE_Container_1479P10_def ProtocolIE_Container_1479P10_contract_def size_only_def by (rule ProtocolIE_Container_1479P10.codec)

interpretation E42RICcontrolRequest: plain_sequence "ideal_env m" asn_SPC_E42RICcontrolRequest_specs "asn_MBR_E42RICcontrolRequest others (ideal_env m)"
  "[ProtocolIE_Container_1479P10_contract m others]" for m others
  by unfold_locales (simp_all add: asn_SPC_E42RICcontrolRequest_specs_def asn_MBR_E42RICcontrolRequest_def codecs upt_rec)

definition E42RICcontrolRequest_contract :: "memory \<Rightarrow> (string \<Rightarrow> asn_codec) \<Rightarrow> contract" where
  "E42RICcontrolRequest_contract m others = E42RICcontrolRequest.contract others m"

lemma E42RICcontrolRequest_codec [codecs]: "codec_ok (asn_DEF_E42RICcontrolRequest others (ideal_env m)) cs (E42RICcontrolRequest_contract m others)"
  unfolding asn_DEF_E42RICcontrolRequest_def E42RICcontrolRequest_contract_def by (rule E42RICcontrolRequest.codec)

lemma RICactionID_codec [codecs]: "codec_ok (asn_DEF_RICactionID (ideal_env m)) None (number_contract asn_PER_type_RICactionID_constr)"
  by (simp add: asn_DEF_RICactionID_def number_codec_type)

lemma RICactionID_member_codec [codecs]: "codec_ok (asn_DEF_RICactionID (ideal_env m)) (Some (value_only c)) (number_contract c)"
  by (simp add: asn_DEF_RICactionID_def number_codec_member)

lemma RICindicationSN_codec [codecs]: "codec_ok (asn_DEF_RICindicationSN (ideal_env m)) None (number_contract asn_PER_type_RICindicationSN_constr)"
  by (simp add: asn_DEF_RICindicationSN_def number_codec_type)

lemma RICindicationSN_member_codec [codecs]: "codec_ok (asn_DEF_RICindicationSN (ideal_env m)) (Some (value_only c)) (number_contract c)"
  by (simp add: asn_DEF_RICindicationSN_def number_codec_member)

lemma RICindicationType_codec [codecs]: "codec_ok (asn_DEF_RICindicationType (ideal_env m)) None (enum_contract asn_SPC_RICindicationType_specs asn_PER_type_RICindicationType_constr)"
  by (simp add: asn_DEF_RICindicationType_def enum_codec_type)

lemma RICindicationType_member_codec [codecs]: "codec_ok (asn_DEF_RICindicationType (ideal_env m)) (Some (value_only c)) (enum_contract asn_SPC_RICindicationType_specs c)"
  by (simp add: asn_DEF_RICindicationType_def enum_codec_member)

interpretation RICindication_IEs: class_type "ideal_env m" "asn_MBR_RICindication_IEs__value others (ideal_env m)"
  "[RICrequestID_contract m, number_contract asn_PER_type_RANfunctionID_constr, number_contract asn_PER_type_RICactionID_constr, number_contract asn_PER_type_RICindicationSN_constr, enum_contract asn_SPC_RICindicationType_specs asn_PER_type_RICindicationType_constr, no_contract, no_contract, no_contract]"
  asn_SPC_RICindication_IEs_specs "asn_DEF_ProtocolIE_ID (ideal_env m)" "asn_DEF_Criticality (ideal_env m)" "Some (value_only asn_PER_memb_id_constr)" "Some (value_only asn_PER_memb_criticality_constr)"
  "Some unconstrained" "type_column 0 asn_IOS_RICindication_IEs" select_RICindication_IEs_criticality_type
  "\<lambda>ph. cwn_bits ph (lower_bound asn_PER_memb_id_constr) (upper_bound asn_PER_memb_id_constr)" "aper_number_ok None asn_PER_memb_id_constr"
  "enum_contract asn_SPC_Criticality_specs asn_PER_memb_criticality_constr" for m others
  by unfold_locales (simp_all add: asn_MBR_RICindication_IEs__value_def asn_SPC_RICindication_IEs_specs_def codecs number_contract_def [symmetric])

definition RICindication_IEs_contract :: "memory \<Rightarrow> (string \<Rightarrow> asn_codec) \<Rightarrow> contract" where
  "RICindication_IEs_contract m others = RICindication_IEs.contract m others"

lemma RICindication_IEs_codec [codecs]: "codec_ok (asn_DEF_RICindication_IEs others (ideal_env m)) cs (RICindication_IEs_contract m others)"
  unfolding asn_DEF_RICindication_IEs_def asn_MBR_RICindication_IEs_def asn_DEF_RICindication_IEs__value_def select_RICindication_IEs_value_type_def RICindication_IEs_contract_def by (rule RICindication_IEs.codec)

interpretation ProtocolIE_Container_1479P8: sequence_of_type "ideal_env m" asn_PER_type_ProtocolIE_Container_1479P8_constr "asn_MBR_ProtocolIE_Container_1479P8 others (ideal_env m)"
  "fst (RICindication_IEs_contract m others)" "snd (RICindication_IEs_contract m others)" "\<lambda>t. t = zeroed (memb_type (asn_MBR_ProtocolIE_Container_1479P8 others (ideal_env m)))" for m others
  by (rule sequence_of_codec) (simp_all add: asn_MBR_ProtocolIE_Container_1479P8_def asn_PER_type_ProtocolIE_Container_1479P8_constr_def codecs)

definition ProtocolIE_Container_1479P8_contract :: "memory \<Rightarrow> (string \<Rightarrow> asn_codec) \<Rightarrow> contract" where
  "ProtocolIE_Container_1479P8_contract m others = ProtocolIE_Container_1479P8.contract m others"

lemma ProtocolIE_Container_1479P8_codec [codecs]: "codec_ok (asn_DEF_ProtocolIE_Container_1479P8 others (ideal_env m)) None (ProtocolIE_Container_1479P8_contract m others)"
  unfolding asn_DEF_ProtocolIE_Container_1479P8_def ProtocolIE_Container_1479P8_contract_def size_only_def by (rule ProtocolIE_Container_1479P8.codec)

interpretation RICindication: plain_sequence "ideal_env m" asn_SPC_RICindication_specs "asn_MBR_RICindication others (ideal_env m)"
  "[ProtocolIE_Container_1479P8_contract m others]" for m others
  by unfold_locales (simp_all add: asn_SPC_RICindication_specs_def asn_MBR_RICindication_def codecs upt_rec)

definition RICindication_contract :: "memory \<Rightarrow> (string \<Rightarrow> asn_codec) \<Rightarrow> contract" where
  "RICindication_contract m others = RICindication.contract others m"

lemma RICindication_codec [codecs]: "codec_ok (asn_DEF_RICindication others (ideal_env m)) cs (RICindication_contract m others)"
  unfolding asn_DEF_RICindication_def RICindication_contract_def by (rule RICindication.codec)

interpretation RICserviceQuery_IEs: class_type "ideal_env m" "asn_MBR_RICserviceQuery_IEs__value (ideal_env m)"
  "[RANfunctionsID_List_contract m]"
  asn_SPC_RICserviceQuery_IEs_specs "asn_DEF_ProtocolIE_ID (ideal_env m)" "asn_DEF_Criticality (ideal_env m)" "Some (value_only asn_PER_memb_id_constr)" "Some (value_only asn_PER_memb_criticality_constr)"
  "Some unconstrained" "type_column 0 asn_IOS_RICserviceQuery_IEs" select_RICserviceQuery_IEs_criticality_type
  "\<lambda>ph. cwn_bits ph (lower_bound asn_PER_memb_id_constr) (upper_bound asn_PER_memb_id_constr)" "aper_number_ok None asn_PER_memb_id_constr"
  "enum_contract asn_SPC_Criticality_specs asn_PER_memb_criticality_constr" for m
  by unfold_locales (simp_all add: asn_MBR_RICserviceQuery_IEs__value_def asn_SPC_RICserviceQuery_IEs_specs_def codecs number_contract_def [symmetric])

definition RICserviceQuery_IEs_contract :: "memory \<Rightarrow> contract" where
  "RICserviceQuery_IEs_contract m = RICserviceQuery_IEs.contract m"

lemma RICserviceQuery_IEs_codec [codecs]: "codec_ok (asn_DEF_RICserviceQuery_IEs (ideal_env m)) cs (RICserviceQuery_IEs_contract m)"
  unfolding asn_DEF_RICserviceQuery_IEs_def asn_MBR_RICserviceQuery_IEs_def asn_DEF_RICserviceQuery_IEs__value_def select_RICserviceQuery_IEs_value_type_def RICserviceQuery_IEs_contract_def by (rule RICserviceQuery_IEs.codec)

interpretation ProtocolIE_Container_1479P31: sequence_of_type "ideal_env m" asn_PER_type_ProtocolIE_Container_1479P31_constr "asn_MBR_ProtocolIE_Container_1479P31 (ideal_env m)"
  "fst (RICserviceQuery_IEs_contract m)" "snd (RICserviceQuery_IEs_contract m)" "\<lambda>t. t = zeroed (memb_type (asn_MBR_ProtocolIE_Container_1479P31 (ideal_env m)))" for m
  by (rule sequence_of_codec) (simp_all add: asn_MBR_ProtocolIE_Container_1479P31_def asn_PER_type_ProtocolIE_Container_1479P31_constr_def codecs)

definition ProtocolIE_Container_1479P31_contract :: "memory \<Rightarrow> contract" where
  "ProtocolIE_Container_1479P31_contract m = ProtocolIE_Container_1479P31.contract m"

lemma ProtocolIE_Container_1479P31_codec [codecs]: "codec_ok (asn_DEF_ProtocolIE_Container_1479P31 (ideal_env m)) None (ProtocolIE_Container_1479P31_contract m)"
  unfolding asn_DEF_ProtocolIE_Container_1479P31_def ProtocolIE_Container_1479P31_contract_def size_only_def by (rule ProtocolIE_Container_1479P31.codec)

interpretation RICserviceQuery: plain_sequence "ideal_env m" asn_SPC_RICserviceQuery_specs "asn_MBR_RICserviceQuery (ideal_env m)"
  "[ProtocolIE_Container_1479P31_contract m]" for m
  by unfold_locales (simp_all add: asn_SPC_RICserviceQuery_specs_def asn_MBR_RICserviceQuery_def codecs upt_rec)

definition RICserviceQuery_contract :: "memory \<Rightarrow> contract" where
  "RICserviceQuery_contract m = RICserviceQuery.contract m"

lemma RICserviceQuery_codec [codecs]: "codec_ok (asn_DEF_RICserviceQuery (ideal_env m)) cs (RICserviceQuery_contract m)"
  unfolding asn_DEF_RICserviceQuery_def RICserviceQuery_contract_def by (rule RICserviceQuery.codec)

lemma TriggeringMessage_codec [codecs]: "codec_ok (asn_DEF_TriggeringMessage (ideal_env m)) None (enum_contract asn_SPC_TriggeringMessage_specs asn_PER_type_TriggeringMessage_constr)"
  by (simp add: asn_DEF_TriggeringMessage_def enum_codec_type)

lemma TriggeringMessage_member_codec [codecs]: "codec_ok (asn_DEF_TriggeringMessage (ideal_env m)) (Some (value_only c)) (enum_contract asn_SPC_TriggeringMessage_specs c)"
  by (simp add: asn_DEF_TriggeringMessage_def enum_codec_member)

lemma TypeOfError_codec [codecs]: "codec_ok (asn_DEF_TypeOfError (ideal_env m)) None (enum_contract asn_SPC_TypeOfError_specs asn_PER_type_TypeOfError_constr)"
  by (simp add: asn_DEF_TypeOfError_def enum_codec_type)

lemma TypeOfError_member_codec [codecs]: "codec_ok (asn_DEF_TypeOfError (ideal_env m)) (Some (value_only c)) (enum_contract asn_SPC_TypeOfError_specs c)"
  by (simp add: asn_DEF_TypeOfError_def enum_codec_member)

interpretation CriticalityDiagnostics_IE_Item: plain_sequence "ideal_env m" asn_SPC_CriticalityDiagnostics_IE_Item_specs "asn_MBR_CriticalityDiagnostics_IE_Item (ideal_env m)"
  "[enum_contract asn_SPC_Criticality_specs asn_PER_type_Criticality_constr, number_contract asn_PER_type_ProtocolIE_ID_constr, enum_contract asn_SPC_TypeOfError_specs asn_PER_type_TypeOfError_constr]" for m
  by unfold_locales (simp_all add: asn_SPC_CriticalityDiagnostics_IE_Item_specs_def asn_MBR_CriticalityDiagnostics_IE_Item_def codecs upt_rec)

definition CriticalityDiagnostics_IE_Item_contract :: "memory \<Rightarrow> contract" where
  "CriticalityDiagnostics_IE_Item_contract m = CriticalityDiagnostics_IE_Item.contract m"

lemma CriticalityDiagnostics_IE_Item_codec [codecs]: "codec_ok (asn_DEF_CriticalityDiagnostics_IE_Item (ideal_env m)) cs (CriticalityDiagnostics_IE_Item_contract m)"
  unfolding asn_DEF_CriticalityDiagnostics_IE_Item_def CriticalityDiagnostics_IE_Item_contract_def by (rule CriticalityDiagnostics_IE_Item.codec)

interpretation CriticalityDiagnostics_IE_List: sequence_of_type "ideal_env m" asn_PER_type_CriticalityDiagnostics_IE_List_constr "asn_MBR_CriticalityDiagnostics_IE_List (ideal_env m)"
  "fst (CriticalityDiagnostics_IE_Item_contract m)" "snd (CriticalityDiagnostics_IE_Item_contract m)" "\<lambda>t. t = zeroed (memb_type (asn_MBR_CriticalityDiagnostics_IE_List (ideal_env m)))" for m
  by (rule sequence_of_codec) (simp_all add: asn_MBR_CriticalityDiagnostics_IE_List_def asn_PER_type_CriticalityDiagnostics_IE_List_constr_def codecs)

definition CriticalityDiagnostics_IE_List_contract :: "memory \<Rightarrow> contract" where
  "CriticalityDiagnostics_IE_List_contract m = CriticalityDiagnostics_IE_List.contract m"

lemma CriticalityDiagnostics_IE_List_codec [codecs]: "codec_ok (asn_DEF_CriticalityDiagnostics_IE_List (ideal_env m)) None (CriticalityDiagnostics_IE_List_contract m)"
  unfolding asn_DEF_CriticalityDiagnostics_IE_List_def CriticalityDiagnostics_IE_List_contract_def size_only_def by (rule CriticalityDiagnostics_IE_List.codec)

interpretation CriticalityDiagnostics: plain_sequence "ideal_env m" asn_SPC_CriticalityDiagnostics_specs "asn_MBR_CriticalityDiagnostics (ideal_env m)"
  "[number_contract asn_PER_type_ProcedureCode_constr, enum_contract asn_SPC_TriggeringMessage_specs asn_PER_type_TriggeringMessage_constr, enum_contract asn_SPC_Criticality_specs asn_PER_type_Criticality_constr, RICrequestID_contract m, CriticalityDiagnostics_IE_List_contract m]" for m
  by unfold_locales (simp_all add: asn_SPC_CriticalityDiagnostics_specs_def asn_MBR_CriticalityDiagnostics_def codecs upt_rec)

definition CriticalityDiagnostics_contract :: "memory \<Rightarrow> contract" where
  "CriticalityDiagnostics_contract m = CriticalityDiagnostics.contract m"

lemma CriticalityDiagnostics_codec [codecs]: "codec_ok (asn_DEF_CriticalityDiagnostics (ideal_env m)) cs (CriticalityDiagnostics_contract m)"
  unfolding asn_DEF_CriticalityDiagnostics_def CriticalityDiagnostics_contract_def by (rule CriticalityDiagnostics.codec)

interpretation ErrorIndication_IEs: class_type "ideal_env m" "asn_MBR_ErrorIndication_IEs__value (ideal_env m)"
  "[RICrequestID_contract m, number_contract asn_PER_type_RANfunctionID_constr, Cause_contract m, CriticalityDiagnostics_contract m]"
  asn_SPC_ErrorIndication_IEs_specs "asn_DEF_ProtocolIE_ID (ideal_env m)" "asn_DEF_Criticality (ideal_env m)" "Some (value_only asn_PER_memb_id_constr)" "Some (value_only asn_PER_memb_criticality_constr)"
  "Some unconstrained" "type_column 0 asn_IOS_ErrorIndication_IEs" select_ErrorIndication_IEs_criticality_type
  "\<lambda>ph. cwn_bits ph (lower_bound asn_PER_memb_id_constr) (upper_bound asn_PER_memb_id_constr)" "aper_number_ok None asn_PER_memb_id_constr"
  "enum_contract asn_SPC_Criticality_specs asn_PER_memb_criticality_constr" for m
  by unfold_locales (simp_all add: asn_MBR_ErrorIndication_IEs__value_def asn_SPC_ErrorIndication_IEs_specs_def codecs number_contract_def [symmetric])

definition ErrorIndication_IEs_contract :: "memory \<Rightarrow> contract" where
  "ErrorIndication_IEs_contract m = ErrorIndication_IEs.contract m"

lemma ErrorIndication_IEs_codec [codecs]: "codec_ok (asn_DEF_ErrorIndication_IEs (ideal_env m)) cs (ErrorIndication_IEs_contract m)"
  unfolding asn_DEF_ErrorIndication_IEs_def asn_MBR_ErrorIndication_IEs_def asn_DEF_ErrorIndication_IEs__value_def select_ErrorIndication_IEs_value_type_def ErrorIndication_IEs_contract_def by (rule ErrorIndication_IEs.codec)

interpretation ProtocolIE_Container_1479P13: sequence_of_type "ideal_env m" asn_PER_type_ProtocolIE_Container_1479P13_constr "asn_MBR_ProtocolIE_Container_1479P13 (ideal_env m)"
  "fst (ErrorIndication_IEs_contract m)" "snd (ErrorIndication_IEs_contract m)" "\<lambda>t. t = zeroed (memb_type (asn_MBR_ProtocolIE_Container_1479P13 (ideal_env m)))" for m
  by (rule sequence_of_codec) (simp_all add: asn_MBR_ProtocolIE_Container_1479P13_def asn_PER_type_ProtocolIE_Container_1479P13_constr_def codecs)

definition ProtocolIE_Container_1479P13_contract :: "memory \<Rightarrow> contract" where
  "ProtocolIE_Container_1479P13_contract m = ProtocolIE_Container_1479P13.contract m"

lemma ProtocolIE_Container_1479P13_codec [codecs]: "codec_ok (asn_DEF_ProtocolIE_Container_1479P13 (ideal_env m)) None (ProtocolIE_Container_1479P13_contract m)"
  unfolding asn_DEF_ProtocolIE_Container_1479P13_def ProtocolIE_Container_1479P13_contract_def size_only_def by (rule ProtocolIE_Container_1479P13.codec)

interpretation ErrorIndication: plain_sequence "ideal_env m" asn_SPC_ErrorIndication_specs "asn_MBR_ErrorIndication (ideal_env m)"
  "[ProtocolIE_Container_1479P13_contract m]" for m
  by unfold_locales (simp_all add: asn_SPC_ErrorIndication_specs_def asn_MBR_ErrorIndication_def codecs upt_rec)

definition ErrorIndication_contract :: "memory \<Rightarrow> contract" where
  "ErrorIndication_contract m = ErrorIndication.contract m"

lemma ErrorIndication_codec [codecs]: "codec_ok (asn_DEF_ErrorIndication (ideal_env m)) cs (ErrorIndication_contract m)"
  unfolding asn_DEF_ErrorIndication_def ErrorIndication_contract_def by (rule ErrorIndication.codec)

interpretation InitiatingMessage: class_type "ideal_env m" "asn_MBR_InitiatingMessage__value others (ideal_env m)"
  "[RICsubscriptionRequest_contract m others, RICsubscriptionDeleteRequest_contract m, RICserviceUpdate_contract m others, RICcontrolRequest_contract m others, E2setupRequest_contract m others, E2nodeConfigurationUpdate_contract m others, E2connectionUpdate_contract m others, ResetRequest_contract m, E42setupRequest_contract m others, E42RICsubscriptionRequest_contract m others, E42RICsubscriptionDeleteRequest_contract m, E42RICcontrolRequest_contract m others, RICindication_contract m others, RICserviceQuery_contract m, ErrorIndication_contract m]"
  asn_SPC_InitiatingMessage_specs "asn_DEF_ProcedureCode (ideal_env m)" "asn_DEF_Criticality (ideal_env m)" "Some (value_only asn_PER_memb_procedureCode_constr)" "Some (value_only asn_PER_memb_criticality_constr)"
  "Some unconstrained" "type_column 0 asn_IOS_E2AP_ELEMENTARY_PROCEDURES" select_InitiatingMessage_criticality_type
  "\<lambda>ph. cwn_bits ph (lower_bound asn_PER_memb_procedureCode_constr) (upper_bound asn_PER_memb_procedureCode_constr)" "aper_number_ok None asn_PER_memb_procedureCode_constr"
  "enum_contract asn_SPC_Criticality_specs asn_PER_memb_criticality_constr" for m others
  by unfold_locales (simp_all add: asn_MBR_InitiatingMessage__value_def asn_SPC_InitiatingMessage_specs_def codecs number_contract_def [symmetric])

definition InitiatingMessage_contract :: "memory \<Rightarrow> (string \<Rightarrow> asn_codec) \<Rightarrow> contract" where
  "InitiatingMessage_contract m others = InitiatingMessage.contract m others"

lemma InitiatingMessage_codec [codecs]: "codec_ok (asn_DEF_InitiatingMessage others (ideal_env m)) cs (InitiatingMessage_contract m others)"
  unfolding asn_DEF_InitiatingMessage_def asn_MBR_InitiatingMessage_def asn_DEF_InitiatingMessage__value_def select_InitiatingMessage_value_type_def InitiatingMessage_contract_def by (rule InitiatingMessage.codec)

interpretation RICaction_Admitted_Item: plain_sequence "ideal_env m" asn_SPC_RICaction_Admitted_Item_specs "asn_MBR_RICaction_Admitted_Item (ideal_env m)"
  "[number_contract asn_PER_type_RICactionID_constr]" for m
  by unfold_locales (simp_all add: asn_SPC_RICaction_Admitted_Item_specs_def asn_MBR_RICaction_Admitted_Item_def codecs upt_rec)

definition RICaction_Admitted_Item_contract :: "memory \<Rightarrow> contract" where
  "RICaction_Admitted_Item_contract m = RICaction_Admitted_Item.contract m"

lemma RICaction_Admitted_Item_codec [codecs]: "codec_ok (asn_DEF_RICaction_Admitted_Item (ideal_env m)) cs (RICaction_Admitted_Item_contract m)"
  unfolding asn_DEF_RICaction_Admitted_Item_def RICaction_Admitted_Item_contract_def by (rule RICaction_Admitted_Item.codec)

interpretation ProtocolIE_SingleContainer_1481P1: class_type "ideal_env m" "asn_MBR_ProtocolIE_SingleContainer_1481P1__value (ideal_env m)"
  "[RICaction_Admitted_Item_contract m]"
  asn_SPC_ProtocolIE_SingleContainer_1481P1_specs "asn_DEF_ProtocolIE_ID (ideal_env m)" "asn_DEF_Criticality (ideal_env m)" "Some (value_only asn_PER_memb_id_constr)" "Some (value_only asn_PER_memb_criticality_constr)"
  "Some unconstrained" "type_column 0 asn_IOS_RICaction_Admitted_ItemIEs" select_ProtocolIE_SingleContainer_1481P1_criticality_type
  "\<lambda>ph. cwn_bits ph (lower_bound asn_PER_memb_id_constr) (upper_bound asn_PER_memb_id_constr)" "aper_number_ok None asn_PER_memb_id_constr"
  "enum_contract asn_SPC_Criticality_specs asn_PER_memb_criticality_constr" for m
  by unfold_locales (simp_all add: asn_MBR_ProtocolIE_SingleContainer_1481P1__value_def asn_SPC_ProtocolIE_SingleContainer_1481P1_specs_def codecs number_contract_def [symmetric])

definition ProtocolIE_SingleContainer_1481P1_contract :: "memory \<Rightarrow> contract" where
  "ProtocolIE_SingleContainer_1481P1_contract m = ProtocolIE_SingleContainer_1481P1.contract m"

lemma ProtocolIE_SingleContainer_1481P1_codec [codecs]: "codec_ok (asn_DEF_ProtocolIE_SingleContainer_1481P1 (ideal_env m)) cs (ProtocolIE_SingleContainer_1481P1_contract m)"
  unfolding asn_DEF_ProtocolIE_SingleContainer_1481P1_def asn_MBR_ProtocolIE_SingleContainer_1481P1_def asn_DEF_ProtocolIE_SingleContainer_1481P1__value_def select_ProtocolIE_SingleContainer_1481P1_value_type_def ProtocolIE_SingleContainer_1481P1_contract_def by (rule ProtocolIE_SingleContainer_1481P1.codec)

interpretation RICaction_Admitted_List: sequence_of_type "ideal_env m" asn_PER_type_RICaction_Admitted_List_constr "asn_MBR_RICaction_Admitted_List (ideal_env m)"
  "fst (ProtocolIE_SingleContainer_1481P1_contract m)" "snd (ProtocolIE_SingleContainer_1481P1_contract m)" "\<lambda>t. t = zeroed (memb_type (asn_MBR_RICaction_Admitted_List (ideal_env m)))" for m
  by (rule sequence_of_codec) (simp_all add: asn_MBR_RICaction_Admitted_List_def asn_PER_type_RICaction_Admitted_List_constr_def codecs)

definition RICaction_Admitted_List_contract :: "memory \<Rightarrow> contract" where
  "RICaction_Admitted_List_contract m = RICaction_Admitted_List.contract m"

lemma RICaction_Admitted_List_codec [codecs]: "codec_ok (asn_DEF_RICaction_Admitted_List (ideal_env m)) None (RICaction_Admitted_List_contract m)"
  unfolding asn_DEF_RICaction_Admitted_List_def RICaction_Admitted_List_contract_def size_only_def by (rule RICaction_Admitted_List.codec)

interpretation RICaction_NotAdmitted_Item: plain_sequence "ideal_env m" asn_SPC_RICaction_NotAdmitted_Item_specs "asn_MBR_RICaction_NotAdmitted_Item (ideal_env m)"
  "[number_contract asn_PER_type_RICactionID_constr, Cause_contract m]" for m
  by unfold_locales (simp_all add: asn_SPC_RICaction_NotAdmitted_Item_specs_def asn_MBR_RICaction_NotAdmitted_Item_def codecs upt_rec)

definition RICaction_NotAdmitted_Item_contract :: "memory \<Rightarrow> contract" where
  "RICaction_NotAdmitted_Item_contract m = RICaction_NotAdmitted_Item.contract m"

lemma RICaction_NotAdmitted_Item_codec [codecs]: "codec_ok (asn_DEF_RICaction_NotAdmitted_Item (ideal_env m)) cs (RICaction_NotAdmitted_Item_contract m)"
  unfolding asn_DEF_RICaction_NotAdmitted_Item_def RICaction_NotAdmitted_Item_contract_def by (rule RICaction_NotAdmitted_Item.codec)

interpretation ProtocolIE_SingleContainer_1481P2: class_type "ideal_env m" "asn_MBR_ProtocolIE_SingleContainer_1481P2__value (ideal_env m)"
  "[RICaction_NotAdmitted_Item_contract m]"
  asn_SPC_ProtocolIE_SingleContainer_1481P2_specs "asn_DEF_ProtocolIE_ID (ideal_env m)" "asn_DEF_Criticality (ideal_env m)" "Some (value_only asn_PER_memb_id_constr)" "Some (value_only asn_PER_memb_criticality_constr)"
  "Some unconstrained" "type_column 0 asn_IOS_RICaction_NotAdmitted_ItemIEs" select_ProtocolIE_SingleContainer_1481P2_criticality_type
  "\<lambda>ph. cwn_bits ph (lower_bound asn_PER_memb_id_constr) (upper_bound asn_PER_memb_id_constr)" "aper_number_ok None asn_PER_memb_id_constr"
  "enum_contract asn_SPC_Criticality_specs asn_PER_memb_criticality_constr" for m
  by unfold_locales (simp_all add: asn_MBR_ProtocolIE_SingleContainer_1481P2__value_def asn_SPC_ProtocolIE_SingleContainer_1481P2_specs_def codecs number_contract_def [symmetric])

definition ProtocolIE_SingleContainer_1481P2_contract :: "memory \<Rightarrow> contract" where
  "ProtocolIE_SingleContainer_1481P2_contract m = ProtocolIE_SingleContainer_1481P2.contract m"

lemma ProtocolIE_SingleContainer_1481P2_codec [codecs]: "codec_ok (asn_DEF_ProtocolIE_SingleContainer_1481P2 (ideal_env m)) cs (ProtocolIE_SingleContainer_1481P2_contract m)"
  unfolding asn_DEF_ProtocolIE_SingleContainer_1481P2_def asn_MBR_ProtocolIE_SingleContainer_1481P2_def asn_DEF_ProtocolIE_SingleContainer_1481P2__value_def select_ProtocolIE_SingleContainer_1481P2_value_type_def ProtocolIE_SingleContainer_1481P2_contract_def by (rule ProtocolIE_SingleContainer_1481P2.codec)

interpretation RICaction_NotAdmitted_List: sequence_of_type "ideal_env m" asn_PER_type_RICaction_NotAdmitted_List_constr "asn_MBR_RICaction_NotAdmitted_List (ideal_env m)"
  "fst (ProtocolIE_SingleContainer_1481P2_contract m)" "snd (ProtocolIE_SingleContainer_1481P2_contract m)" "\<lambda>t. t = zeroed (memb_type (asn_MBR_RICaction_NotAdmitted_List (ideal_env m)))" for m
  by (rule sequence_of_codec) (simp_all add: asn_MBR_RICaction_NotAdmitted_List_def asn_PER_type_RICaction_NotAdmitted_List_constr_def codecs)

definition RICaction_NotAdmitted_List_contract :: "memory \<Rightarrow> contract" where
  "RICaction_NotAdmitted_List_contract m = RICaction_NotAdmitted_List.contract m"

lemma RICaction_NotAdmitted_List_codec [codecs]: "codec_ok (asn_DEF_RICaction_NotAdmitted_List (ideal_env m)) None (RICaction_NotAdmitted_List_contract m)"
  unfolding asn_DEF_RICaction_NotAdmitted_List_def RICaction_NotAdmitted_List_contract_def size_only_def by (rule RICaction_NotAdmitted_List.codec)

interpretation RICsubscriptionResponse_IEs: class_type "ideal_env m" "asn_MBR_RICsubscriptionResponse_IEs__value (ideal_env m)"
  "[RICrequestID_contract m, number_contract asn_PER_type_RANfunctionID_constr, RICaction_Admitted_List_contract m, RICaction_NotAdmitted_List_contract m]"
  asn_SPC_RICsubscriptionResponse_IEs_specs "asn_DEF_ProtocolIE_ID (ideal_env m)" "asn_DEF_Criticality (ideal_env m)" "Some (value_only asn_PER_memb_id_constr)" "Some (value_only asn_PER_memb_criticality_constr)"
  "Some unconstrained" "type_column 0 asn_IOS_RICsubscriptionResponse_IEs" select_RICsubscriptionResponse_IEs_criticality_type
  "\<lambda>ph. cwn_bits ph (lower_bound asn_PER_memb_id_constr) (upper_bound asn_PER_memb_id_constr)" "aper_number_ok None asn_PER_memb_id_constr"
  "enum_contract asn_SPC_Criticality_specs asn_PER_memb_criticality_constr" for m
  by unfold_locales (simp_all add: asn_MBR_RICsubscriptionResponse_IEs__value_def asn_SPC_RICsubscriptionResponse_IEs_specs_def codecs number_contract_def [symmetric])

definition RICsubscriptionResponse_IEs_contract :: "memory \<Rightarrow> contract" where
  "RICsubscriptionResponse_IEs_contract m = RICsubscriptionResponse_IEs.contract m"

lemma RICsubscriptionResponse_IEs_codec [codecs]: "codec_ok (asn_DEF_RICsubscriptionResponse_IEs (ideal_env m)) cs (RICsubscriptionResponse_IEs_contract m)"
  unfolding asn_DEF_RICsubscriptionResponse_IEs_def asn_MBR_RICsubscriptionResponse_IEs_def asn_DEF_RICsubscriptionResponse_IEs__value_def select_RICsubscriptionResponse_IEs_value_type_def RICsubscriptionResponse_IEs_contract_def by (rule RICsubscriptionResponse_IEs.codec)

interpretation ProtocolIE_Container_1479P1: sequence_of_type "ideal_env m" asn_PER_type_ProtocolIE_Container_1479P1_constr "asn_MBR_ProtocolIE_Container_1479P1 (ideal_env m)"
  "fst (RICsubscriptionResponse_IEs_contract m)" "snd (RICsubscriptionResponse_IEs_contract m)" "\<lambda>t. t = zeroed (memb_type (asn_MBR_ProtocolIE_Container_1479P1 (ideal_env m)))" for m
  by (rule sequence_of_codec) (simp_all add: asn_MBR_ProtocolIE_Container_1479P1_def asn_PER_type_ProtocolIE_Container_1479P1_constr_def codecs)

definition ProtocolIE_Container_1479P1_contract :: "memory \<Rightarrow> contract" where
  "ProtocolIE_Container_1479P1_contract m = ProtocolIE_Container_1479P1.contract m"

lemma ProtocolIE_Container_1479P1_codec [codecs]: "codec_ok (asn_DEF_ProtocolIE_Container_1479P1 (ideal_env m)) None (ProtocolIE_Container_1479P1_contract m)"
  unfolding asn_DEF_ProtocolIE_Container_1479P1_def ProtocolIE_Container_1479P1_contract_def size_only_def by (rule ProtocolIE_Container_1479P1.codec)

interpretation RICsubscriptionResponse: plain_sequence "ideal_env m" asn_SPC_RICsubscriptionResponse_specs "asn_MBR_RICsubscriptionResponse (ideal_env m)"
  "[ProtocolIE_Container_1479P1_contract m]" for m
  by unfold_locales (simp_all add: asn_SPC_RICsubscriptionResponse_specs_def asn_MBR_RICsubscriptionResponse_def codecs upt_rec)

definition RICsubscriptionResponse_contract :: "memory \<Rightarrow> contract" where
  "RICsubscriptionResponse_contract m = RICsubscriptionResponse.contract m"

lemma RICsubscriptionResponse_codec [codecs]: "codec_ok (asn_DEF_RICsubscriptionResponse (ideal_env m)) cs (RICsubscriptionResponse_contract m)"
  unfolding asn_DEF_RICsubscriptionResponse_def RICsubscriptionResponse_contract_def by (rule RICsubscriptionResponse.codec)

interpretation RICsubscriptionDeleteResponse_IEs: class_type "ideal_env m" "asn_MBR_RICsubscriptionDeleteResponse_IEs__value (ideal_env m)"
  "[RICrequestID_contract m, number_contract asn_PER_type_RANfunctionID_constr]"
  asn_SPC_RICsubscriptionDeleteResponse_IEs_specs "asn_DEF_ProtocolIE_ID (ideal_env m)" "asn_DEF_Criticality (ideal_env m)" "Some (value_only asn_PER_memb_id_constr)" "Some (value_only asn_PER_memb_criticality_constr)"
  "Some unconstrained" "type_column 0 asn_IOS_RICsubscriptionDeleteResponse_IEs" select_RICsubscriptionDeleteResponse_IEs_criticality_type
  "\<lambda>ph. cwn_bits ph (lower_bound asn_PER_memb_id_constr) (upper_bound asn_PER_memb_id_constr)" "aper_number_ok None asn_PER_memb_id_constr"
  "enum_contract asn_SPC_Criticality_specs asn_PER_memb_criticality_constr" for m
  by unfold_locales (simp_all add: asn_MBR_RICsubscriptionDeleteResponse_IEs__value_def asn_SPC_RICsubscriptionDeleteResponse_IEs_specs_def codecs number_contract_def [symmetric])

definition RICsubscriptionDeleteResponse_IEs_contract :: "memory \<Rightarrow> contract" where
  "RICsubscriptionDeleteResponse_IEs_contract m = RICsubscriptionDeleteResponse_IEs.contract m"

lemma RICsubscriptionDeleteResponse_IEs_codec [codecs]: "codec_ok (asn_DEF_RICsubscriptionDeleteResponse_IEs (ideal_env m)) cs (RICsubscriptionDeleteResponse_IEs_contract m)"
  unfolding asn_DEF_RICsubscriptionDeleteResponse_IEs_def asn_MBR_RICsubscriptionDeleteResponse_IEs_def asn_DEF_RICsubscriptionDeleteResponse_IEs__value_def select_RICsubscriptionDeleteResponse_IEs_value_type_def RICsubscriptionDeleteResponse_IEs_contract_def by (rule RICsubscriptionDeleteResponse_IEs.codec)

interpretation ProtocolIE_Container_1479P6: sequence_of_type "ideal_env m" asn_PER_type_ProtocolIE_Container_1479P6_constr "asn_MBR_ProtocolIE_Container_1479P6 (ideal_env m)"
  "fst (RICsubscriptionDeleteResponse_IEs_contract m)" "snd (RICsubscriptionDeleteResponse_IEs_contract m)" "\<lambda>t. t = zeroed (memb_type (asn_MBR_ProtocolIE_Container_1479P6 (ideal_env m)))" for m
  by (rule sequence_of_codec) (simp_all add: asn_MBR_ProtocolIE_Container_1479P6_def asn_PER_type_ProtocolIE_Container_1479P6_constr_def codecs)

definition ProtocolIE_Container_1479P6_contract :: "memory \<Rightarrow> contract" where
  "ProtocolIE_Container_1479P6_contract m = ProtocolIE_Container_1479P6.contract m"

lemma ProtocolIE_Container_1479P6_codec [codecs]: "codec_ok (asn_DEF_ProtocolIE_Container_1479P6 (ideal_env m)) None (ProtocolIE_Container_1479P6_contract m)"
  unfolding asn_DEF_ProtocolIE_Container_1479P6_def ProtocolIE_Container_1479P6_contract_def size_only_def by (rule ProtocolIE_Container_1479P6.codec)

interpretation RICsubscriptionDeleteResponse: plain_sequence "ideal_env m" asn_SPC_RICsubscriptionDeleteResponse_specs "asn_MBR_RICsubscriptionDeleteResponse (ideal_env m)"
  "[ProtocolIE_Container_1479P6_contract m]" for m
  by unfold_locales (simp_all add: asn_SPC_RICsubscriptionDeleteResponse_specs_def asn_MBR_RICsubscriptionDeleteResponse_def codecs upt_rec)

definition RICsubscriptionDeleteResponse_contract :: "memory \<Rightarrow> contract" where
  "RICsubscriptionDeleteResponse_contract m = RICsubscriptionDeleteResponse.contract m"

lemma RICsubscriptionDeleteResponse_codec [codecs]: "codec_ok (asn_DEF_RICsubscriptionDeleteResponse (ideal_env m)) cs (RICsubscriptionDeleteResponse_contract m)"
  unfolding asn_DEF_RICsubscriptionDeleteResponse_def RICsubscriptionDeleteResponse_contract_def by (rule RICsubscriptionDeleteResponse.codec)

interpretation RANfunctionIDcause_Item: plain_sequence "ideal_env m" asn_SPC_RANfunctionIDcause_Item_specs "asn_MBR_RANfunctionIDcause_Item (ideal_env m)"
  "[number_contract asn_PER_type_RANfunctionID_constr, Cause_contract m]" for m
  by unfold_locales (simp_all add: asn_SPC_RANfunctionIDcause_Item_specs_def asn_MBR_RANfunctionIDcause_Item_def codecs upt_rec)

definition RANfunctionIDcause_Item_contract :: "memory \<Rightarrow> contract" where
  "RANfunctionIDcause_Item_contract m = RANfunctionIDcause_Item.contract m"

lemma RANfunctionIDcause_Item_codec [codecs]: "codec_ok (asn_DEF_RANfunctionIDcause_Item (ideal_env m)) cs (RANfunctionIDcause_Item_contract m)"
  unfolding asn_DEF_RANfunctionIDcause_Item_def RANfunctionIDcause_Item_contract_def by (rule RANfunctionIDcause_Item.codec)

interpretation ProtocolIE_SingleContainer_1481P10: class_type "ideal_env m" "asn_MBR_ProtocolIE_SingleContainer_1481P10__value (ideal_env m)"
  "[RANfunctionIDcause_Item_contract m]"
  asn_SPC_ProtocolIE_SingleContainer_1481P10_specs "asn_DEF_ProtocolIE_ID (ideal_env m)" "asn_DEF_Criticality (ideal_env m)" "Some (value_only asn_PER_memb_id_constr)" "Some (value_only asn_PER_memb_criticality_constr)"
  "Some unconstrained" "type_column 0 asn_IOS_RANfunctionIDcause_ItemIEs" select_ProtocolIE_SingleContainer_1481P10_criticality_type
  "\<lambda>ph. cwn_bits ph (lower_bound asn_PER_memb_id_constr) (upper_bound asn_PER_memb_id_constr)" "aper_number_ok None asn_PER_memb_id_constr"
  "enum_contract asn_SPC_Criticality_specs asn_PER_memb_criticality_constr" for m
  by unfold_locales (simp_all add: asn_MBR_ProtocolIE_SingleContainer_1481P10__value_def asn_SPC_ProtocolIE_SingleContainer_1481P10_specs_def codecs number_contract_def [symmetric])

definition ProtocolIE_SingleContainer_1481P10_contract :: "memory \<Rightarrow> contract" where
  "ProtocolIE_SingleContainer_1481P10_contract m = ProtocolIE_SingleContainer_1481P10.contract m"

lemma ProtocolIE_SingleContainer_1481P10_codec [codecs]: "codec_ok (asn_DEF_ProtocolIE_SingleContainer_1481P10 (ideal_env m)) cs (ProtocolIE_SingleContainer_1481P10_contract m)"
  unfolding asn_DEF_ProtocolIE_SingleContainer_1481P10_def asn_MBR_ProtocolIE_SingleContainer_1481P10_def asn_DEF_ProtocolIE_SingleContainer_1481P10__value_def select_ProtocolIE_SingleContainer_1481P10_value_type_def ProtocolIE_SingleContainer_1481P10_contract_def by (rule ProtocolIE_SingleContainer_1481P10.codec)

interpretation RANfunctionsIDcause_List: sequence_of_type "ideal_env m" asn_PER_type_RANfunctionsIDcause_List_constr "asn_MBR_RANfunctionsIDcause_List (ideal_env m)"
  "fst (ProtocolIE_SingleContainer_1481P10_contract m)" "snd (ProtocolIE_SingleContainer_1481P10_contract m)" "\<lambda>t. t = zeroed (memb_type (asn_MBR_RANfunctionsIDcause_List (ideal_env m)))" for m
  by (rule sequence_of_codec) (simp_all add: asn_MBR_RANfunctionsIDcause_List_def asn_PER_type_RANfunctionsIDcause_List_constr_def codecs)

definition RANfunctionsIDcause_List_contract :: "memory \<Rightarrow> contract" where
  "RANfunctionsIDcause_List_contract m = RANfunctionsIDcause_List.contract m"

lemma RANfunctionsIDcause_List_codec [codecs]: "codec_ok (asn_DEF_RANfunctionsIDcause_List (ideal_env m)) None (RANfunctionsIDcause_List_contract m)"
  unfolding asn_DEF_RANfunctionsIDcause_List_def RANfunctionsIDcause_List_contract_def size_only_def by (rule RANfunctionsIDcause_List.codec)

interpretation RICserviceUpdateAcknowledge_IEs: class_type "ideal_env m" "asn_MBR_RICserviceUpdateAcknowledge_IEs__value (ideal_env m)"
  "[RANfunctionsID_List_contract m, RANfunctionsIDcause_List_contract m]"
  asn_SPC_RICserviceUpdateAcknowledge_IEs_specs "asn_DEF_ProtocolIE_ID (ideal_env m)" "asn_DEF_Criticality (ideal_env m)" "Some (value_only asn_PER_memb_id_constr)" "Some (value_only asn_PER_memb_criticality_constr)"
  "Some unconstrained" "type_column 0 asn_IOS_RICserviceUpdateAcknowledge_IEs" select_RICserviceUpdateAcknowledge_IEs_criticality_type
  "\<lambda>ph. cwn_bits ph (lower_bound asn_PER_memb_id_constr) (upper_bound asn_PER_memb_id_constr)" "aper_number_ok None asn_PER_memb_id_constr"
  "enum_contract asn_SPC_Criticality_specs asn_PER_memb_criticality_constr" for m
  by unfold_locales (simp_all add: asn_MBR_RICserviceUpdateAcknowledge_IEs__value_def asn_SPC_RICserviceUpdateAcknowledge_IEs_specs_def codecs number_contract_def [symmetric])

definition RICserviceUpdateAcknowledge_IEs_contract :: "memory \<Rightarrow> contract" where
  "RICserviceUpdateAcknowledge_IEs_contract m = RICserviceUpdateAcknowledge_IEs.contract m"

lemma RICserviceUpdateAcknowledge_IEs_codec [codecs]: "codec_ok (asn_DEF_RICserviceUpdateAcknowledge_IEs (ideal_env m)) cs (RICserviceUpdateAcknowledge_IEs_contract m)"
  unfolding asn_DEF_RICserviceUpdateAcknowledge_IEs_def asn_MBR_RICserviceUpdateAcknowledge_IEs_def asn_DEF_RICserviceUpdateAcknowledge_IEs__value_def select_RICserviceUpdateAcknowledge_IEs_value_type_def RICserviceUpdateAcknowledge_IEs_contract_def by (rule RICserviceUpdateAcknowledge_IEs.codec)

interpretation ProtocolIE_Container_1479P29: sequence_of_type "ideal_env m" asn_PER_type_ProtocolIE_Container_1479P29_constr "asn_MBR_ProtocolIE_Container_1479P29 (ideal_env m)"
  "fst (RICserviceUpdateAcknowledge_IEs_contract m)" "snd (RICserviceUpdateAcknowledge_IEs_contract m)" "\<lambda>t. t = zeroed (memb_type (asn_MBR_ProtocolIE_Container_1479P29 (ideal_env m)))" for m
  by (rule sequence_of_codec) (simp_all add: asn_MBR_ProtocolIE_Container_1479P29_def asn_PER_type_ProtocolIE_Container_1479P29_constr_def codecs)

definition ProtocolIE_Container_1479P29_contract :: "memory \<Rightarrow> contract" where
  "ProtocolIE_Container_1479P29_contract m = ProtocolIE_Container_1479P29.contract m"

lemma ProtocolIE_Container_1479P29_codec [codecs]: "codec_ok (asn_DEF_ProtocolIE_Container_1479P29 (ideal_env m)) None (ProtocolIE_Container_1479P29_contract m)"
  unfolding asn_DEF_ProtocolIE_Container_1479P29_def ProtocolIE_Container_1479P29_contract_def size_only_def by (rule ProtocolIE_Container_1479P29.codec)

interpretation RICserviceUpdateAcknowledge: plain_sequence "ideal_env m" asn_SPC_RICserviceUpdateAcknowledge_specs "asn_MBR_RICserviceUpdateAcknowledge (ideal_env m)"
  "[ProtocolIE_Container_1479P29_contract m]" for m
  by unfold_locales (simp_all add: asn_SPC_RICserviceUpdateAcknowledge_specs_def asn_MBR_RICserviceUpdateAcknowledge_def codecs upt_rec)

definition RICserviceUpdateAcknowledge_contract :: "memory \<Rightarrow> contract" where
  "RICserviceUpdateAcknowledge_contract m = RICserviceUpdateAcknowledge.contract m"

lemma RICserviceUpdateAcknowledge_codec [codecs]: "codec_ok (asn_DEF_RICserviceUpdateAcknowledge (ideal_env m)) cs (RICserviceUpdateAcknowledge_contract m)"
  unfolding asn_DEF_RICserviceUpdateAcknowledge_def RICserviceUpdateAcknowledge_contract_def by (rule RICserviceUpdateAcknowledge.codec)

lemma RICcontrolStatus_codec [codecs]: "codec_ok (asn_DEF_RICcontrolStatus (ideal_env m)) None (enum_contract asn_SPC_RICcontrolStatus_specs asn_PER_type_RICcontrolStatus_constr)"
  by (simp add: asn_DEF_RICcontrolStatus_def enum_codec_type)

lemma RICcontrolStatus_member_codec [codecs]: "codec_ok (asn_DEF_RICcontrolStatus (ideal_env m)) (Some (value_only c)) (enum_contract asn_SPC_RICcontrolStatus_specs c)"
  by (simp add: asn_DEF_RICcontrolStatus_def enum_codec_member)

interpretation RICcontrolAcknowledge_IEs: class_type "ideal_env m" "asn_MBR_RICcontrolAcknowledge_IEs__value others (ideal_env m)"
  "[RICrequestID_contract m, number_contract asn_PER_type_RANfunctionID_constr, no_contract, enum_contract asn_SPC_RICcontrolStatus_specs asn_PER_type_RICcontrolStatus_constr, no_contract]"
  asn_SPC_RICcontrolAcknowledge_IEs_specs "asn_DEF_ProtocolIE_ID (ideal_env m)" "asn_DEF_Criticality (ideal_env m)" "Some (value_only asn_PER_memb_id_constr)" "Some (value_only asn_PER_memb_criticality_constr)"
  "Some unconstrained" "type_column 0 asn_IOS_RICcontrolAcknowledge_IEs" select_RICcontrolAcknowledge_IEs_criticality_type
  "\<lambda>ph. cwn_bits ph (lower_bound asn_PER_memb_id_constr) (upper_bound asn_PER_memb_id_constr)" "aper_number_ok None asn_PER_memb_id_constr"
  "enum_contract asn_SPC_Criticality_specs asn_PER_memb_criticality_constr" for m others
  by unfold_locales (simp_all add: asn_MBR_RICcontrolAcknowledge_IEs__value_def asn_SPC_RICcontrolAcknowledge_IEs_specs_def codecs number_contract_def [symmetric])

definition RICcontrolAcknowledge_IEs_contract :: "memory \<Rightarrow> (string \<Rightarrow> asn_codec) \<Rightarrow> contract" where
  "RICcontrolAcknowledge_IEs_contract m others = RICcontrolAcknowledge_IEs.contract m others"

lemma RICcontrolAcknowledge_IEs_codec [codecs]: "codec_ok (asn_DEF_RICcontrolAcknowledge_IEs others (ideal_env m)) cs (RICcontrolAcknowledge_IEs_contract m others)"
  unfolding asn_DEF_RICcontrolAcknowledge_IEs_def asn_MBR_RICcontrolAcknowledge_IEs_def asn_DEF_RICcontrolAcknowledge_IEs__value_def select_RICcontrolAcknowledge_IEs_value_type_def RICcontrolAcknowledge_IEs_contract_def by (rule RICcontrolAcknowledge_IEs.codec)

interpretation ProtocolIE_Container_1479P11: sequence_of_type "ideal_env m" asn_PER_type_ProtocolIE_Container_1479P11_constr "asn_MBR_ProtocolIE_Container_1479P11 others (ideal_env m)"
  "fst (RICcontrolAcknowledge_IEs_contract m others)" "snd (RICcontrolAcknowledge_IEs_contract m others)" "\<lambda>t. t = zeroed (memb_type (asn_MBR_ProtocolIE_Container_1479P11 others (ideal_env m)))" for m others
  by (rule sequence_of_codec) (simp_all add: asn_MBR_ProtocolIE_Container_1479P11_def asn_PER_type_ProtocolIE_Container_1479P11_constr_def codecs)

definition ProtocolIE_Container_1479P11_contract :: "memory \<Rightarrow> (string \<Rightarrow> asn_codec) \<Rightarrow> contract" where
  "ProtocolIE_Container_1479P11_contract m others = ProtocolIE_Container_1479P11.contract m others"

lemma ProtocolIE_Container_1479P11_codec [codecs]: "codec_ok (asn_DEF_ProtocolIE_Container_1479P11 others (ideal_env m)) None (ProtocolIE_Container_1479P11_contract m others)"
  unfolding asn_DEF_ProtocolIE_Container_1479P11_def ProtocolIE_Container_1479P11_contract_def size_only_def by (rule ProtocolIE_Container_1479P11.codec)

interpretation RICcontrolAcknowledge: plain_sequence "ideal_env m" asn_SPC_RICcontrolAcknowledge_specs "asn_MBR_RICcontrolAcknowledge others (ideal_env m)"
  "[ProtocolIE_Container_1479P11_contract m others]" for m others
  by unfold_locales (simp_all add: asn_SPC_RICcontrolAcknowledge_specs_def asn_MBR_RICcontrolAcknowledge_def codecs upt_rec)

definition RICcontrolAcknowledge_contract :: "memory \<Rightarrow> (string \<Rightarrow> asn_codec) \<Rightarrow> contract" where
  "RICcontrolAcknowledge_contract m others = RICcontrolAcknowledge.contract others m"

lemma RICcontrolAcknowledge_codec [codecs]: "codec_ok (asn_DEF_RICcontrolAcknowledge others (ideal_env m)) cs (RICcontrolAcknowledge_contract m others)"
  unfolding asn_DEF_RICcontrolAcknowledge_def RICcontrolAcknowledge_contract_def by (rule RICcontrolAcknowledge.codec)

interpretation ProtocolIE_SingleContainer_1481P7: class_type "ideal_env m" "asn_MBR_ProtocolIE_SingleContainer_1481P7__value others (ideal_env m)"
  "[no_contract]"
  asn_SPC_ProtocolIE_SingleContainer_1481P7_specs "asn_DEF_ProtocolIE_ID (ideal_env m)" "asn_DEF_Criticality (ideal_env m)" "Some (value_only asn_PER_memb_id_constr)" "Some (value_only asn_PER_memb_criticality_constr)"
  "Some unconstrained" "type_column 0 asn_IOS_E2nodeComponentConfigUpdateAck_ItemIEs" select_ProtocolIE_SingleContainer_1481P7_criticality_type
  "\<lambda>ph. cwn_bits ph (lower_bound asn_PER_memb_id_constr) (upper_bound asn_PER_memb_id_constr)" "aper_number_ok None asn_PER_memb_id_constr"
  "enum_contract asn_SPC_Criticality_specs asn_PER_memb_criticality_constr" for m others
  by unfold_locales (simp_all add: asn_MBR_ProtocolIE_SingleContainer_1481P7__value_def asn_SPC_ProtocolIE_SingleContainer_1481P7_specs_def codecs number_contract_def [symmetric])

definition ProtocolIE_SingleContainer_1481P7_contract :: "memory \<Rightarrow> (string \<Rightarrow> asn_codec) \<Rightarrow> contract" where
  "ProtocolIE_SingleContainer_1481P7_contract m others = ProtocolIE_SingleContainer_1481P7.contract m others"

lemma ProtocolIE_SingleContainer_1481P7_codec [codecs]: "codec_ok (asn_DEF_ProtocolIE_SingleContainer_1481P7 others (ideal_env m)) cs (ProtocolIE_SingleContainer_1481P7_contract m others)"
  unfolding asn_DEF_ProtocolIE_SingleContainer_1481P7_def asn_MBR_ProtocolIE_SingleContainer_1481P7_def asn_DEF_ProtocolIE_SingleContainer_1481P7__value_def select_ProtocolIE_SingleContainer_1481P7_value_type_def ProtocolIE_SingleContainer_1481P7_contract_def by (rule ProtocolIE_SingleContainer_1481P7.codec)

interpretation E2nodeComponentConfigUpdateAck_List: sequence_of_type "ideal_env m" asn_PER_type_E2nodeComponentConfigUpdateAck_List_constr "asn_MBR_E2nodeComponentConfigUpdateAck_List others (ideal_env m)"
  "fst (ProtocolIE_SingleContainer_1481P7_contract m others)" "snd (ProtocolIE_SingleContainer_1481P7_contract m others)" "\<lambda>t. t = zeroed (memb_type (asn_MBR_E2nodeComponentConfigUpdateAck_List others (ideal_env m)))" for m others
  by (rule sequence_of_codec) (simp_all add: asn_MBR_E2nodeComponentConfigUpdateAck_List_def asn_PER_type_E2nodeComponentConfigUpdateAck_List_constr_def codecs)

definition E2nodeComponentConfigUpdateAck_List_contract :: "memory \<Rightarrow> (string \<Rightarrow> asn_codec) \<Rightarrow> contract" where
  "E2nodeComponentConfigUpdateAck_List_contract m others = E2nodeComponentConfigUpdateAck_List.contract m others"

lemma E2nodeComponentConfigUpdateAck_List_codec [codecs]: "codec_ok (asn_DEF_E2nodeComponentConfigUpdateAck_List others (ideal_env m)) None (E2nodeComponentConfigUpdateAck_List_contract m others)"
  unfolding asn_DEF_E2nodeComponentConfigUpdateAck_List_def E2nodeComponentConfigUpdateAck_List_contract_def size_only_def by (rule E2nodeComponentConfigUpdateAck_List.codec)

interpretation E2setupResponseIEs: class_type "ideal_env m" "asn_MBR_E2setupResponseIEs__value others (ideal_env m)"
  "[no_contract, RANfunctionsID_List_contract m, RANfunctionsIDcause_List_contract m, E2nodeComponentConfigUpdateAck_List_contract m others]"
  asn_SPC_E2setupResponseIEs_specs "asn_DEF_ProtocolIE_ID (ideal_env m)" "asn_DEF_Criticality (ideal_env m)" "Some (value_only asn_PER_memb_id_constr)" "Some (value_only asn_PER_memb_criticality_constr)"
  "Some unconstrained" "type_column 0 asn_IOS_E2setupResponseIEs" select_E2setupResponseIEs_criticality_type
  "\<lambda>ph. cwn_bits ph (lower_bound asn_PER_memb_id_constr) (upper_bound asn_PER_memb_id_constr)" "aper_number_ok None asn_PER_memb_id_constr"
  "enum_contract asn_SPC_Criticality_specs asn_PER_memb_criticality_constr" for m others
  by unfold_locales (simp_all add: asn_MBR_E2setupResponseIEs__value_def asn_SPC_E2setupResponseIEs_specs_def codecs number_contract_def [symmetric])

definition E2setupResponseIEs_contract :: "memory \<Rightarrow> (string \<Rightarrow> asn_codec) \<Rightarrow> contract" where
  "E2setupResponseIEs_contract m others = E2setupResponseIEs.contract m others"

lemma E2setupResponseIEs_codec [codecs]: "codec_ok (asn_DEF_E2setupResponseIEs others (ideal_env m)) cs (E2setupResponseIEs_contract m others)"
  unfolding asn_DEF_E2setupResponseIEs_def asn_MBR_E2setupResponseIEs_def asn_DEF_E2setupResponseIEs__value_def select_E2setupResponseIEs_value_type_def E2setupResponseIEs_contract_def by (rule E2setupResponseIEs.codec)

interpretation ProtocolIE_Container_1479P16: sequence_of_type "ideal_env m" asn_PER_type_ProtocolIE_Container_1479P16_constr "asn_MBR_ProtocolIE_Container_1479P16 others (ideal_env m)"
  "fst (E2setupResponseIEs_contract m others)" "snd (E2setupResponseIEs_contract m others)" "\<lambda>t. t = zeroed (memb_type (asn_MBR_ProtocolIE_Container_1479P16 others (ideal_env m)))" for m others
  by (rule sequence_of_codec) (simp_all add: asn_MBR_ProtocolIE_Container_1479P16_def asn_PER_type_ProtocolIE_Container_1479P16_constr_def codecs)

definition ProtocolIE_Container_1479P16_contract :: "memory \<Rightarrow> (string \<Rightarrow> asn_codec) \<Rightarrow> contract" where
  "ProtocolIE_Container_1479P16_contract m others = ProtocolIE_Container_1479P16.contract m others"

lemma ProtocolIE_Container_1479P16_codec [codecs]: "codec_ok (asn_DEF_ProtocolIE_Container_1479P16 others (ideal_env m)) None (ProtocolIE_Container_1479P16_contract m others)"
  unfolding asn_DEF_ProtocolIE_Container_1479P16_def ProtocolIE_Container_1479P16_contract_def size_only_def by (rule ProtocolIE_Container_1479P16.codec)

interpretation E2setupResponse: plain_sequence "ideal_env m" asn_SPC_E2setupResponse_specs "asn_MBR_E2setupResponse others (ideal_env m)"
  "[ProtocolIE_Container_1479P16_contract m others]" for m others
  by unfold_locales (simp_all add: asn_SPC_E2setupResponse_specs_def asn_MBR_E2setupResponse_def codecs upt_rec)

definition E2setupResponse_contract :: "memory \<Rightarrow> (string \<Rightarrow> asn_codec) \<Rightarrow> contract" where
  "E2setupResponse_contract m others = E2setupResponse.contract others m"

lemma E2setupResponse_codec [codecs]: "codec_ok (asn_DEF_E2setupResponse others (ideal_env m)) cs (E2setupResponse_contract m others)"
  unfolding asn_DEF_E2setupResponse_def E2setupResponse_contract_def by (rule E2setupResponse.codec)

interpretation E2nodeConfigurationUpdateAcknowledge_IEs: class_type "ideal_env m" "asn_MBR_E2nodeConfigurationUpdateAcknowledge_IEs__value others (ideal_env m)"
  "[E2nodeComponentConfigUpdateAck_List_contract m others]"
  asn_SPC_E2nodeConfigurationUpdateAcknowledge_IEs_specs "asn_DEF_ProtocolIE_ID (ideal_env m)" "asn_DEF_Criticality (ideal_env m)" "Some (value_only asn_PER_memb_id_constr)" "Some (value_only asn_PER_memb_criticality_constr)"
  "Some unconstrained" "type_column 0 asn_IOS_E2nodeConfigurationUpdateAcknowledge_IEs" select_E2nodeConfigurationUpdateAcknowledge_IEs_criticality_type
  "\<lambda>ph. cwn_bits ph (lower_bound asn_PER_memb_id_constr) (upper_bound asn_PER_memb_id_constr)" "aper_number_ok None asn_PER_memb_id_constr"
  "enum_contract asn_SPC_Criticality_specs asn_PER_memb_criticality_constr" for m others
  by unfold_locales (simp_all add: asn_MBR_E2nodeConfigurationUpdateAcknowledge_IEs__value_def asn_SPC_E2nodeConfigurationUpdateAcknowledge_IEs_specs_def codecs number_contract_def [symmetric])

definition E2nodeConfigurationUpdateAcknowledge_IEs_contract :: "memory \<Rightarrow> (string \<Rightarrow> asn_codec) \<Rightarrow> contract" where
  "E2nodeConfigurationUpdateAcknowledge_IEs_contract m others = E2nodeConfigurationUpdateAcknowledge_IEs.contract m others"

lemma E2nodeConfigurationUpdateAcknowledge_IEs_codec [codecs]: "codec_ok (asn_DEF_E2nodeConfigurationUpdateAcknowledge_IEs others (ideal_env m)) cs (E2nodeConfigurationUpdateAcknowledge_IEs_contract m others)"
  unfolding asn_DEF_E2nodeConfigurationUpdateAcknowledge_IEs_def asn_MBR_E2nodeConfigurationUpdateAcknowledge_IEs_def asn_DEF_E2nodeConfigurationUpdateAcknowledge_IEs__value_def select_E2nodeConfigurationUpdateAcknowledge_IEs_value_type_def E2nodeConfigurationUpdateAcknowledge_IEs_contract_def by (rule E2nodeConfigurationUpdateAcknowledge_IEs.codec)

interpretation ProtocolIE_Container_1479P23: sequence_of_type "ideal_env m" asn_PER_type_ProtocolIE_Container_1479P23_constr "asn_MBR_ProtocolIE_Container_1479P23 others (ideal_env m)"
  "fst (E2nodeConfigurationUpdateAcknowledge_IEs_contract m others)" "snd (E2nodeConfigurationUpdateAcknowledge_IEs_contract m others)" "\<lambda>t. t = zeroed (memb_type (asn_MBR_ProtocolIE_Container_1479P23 others (ideal_env m)))" for m others
  by (rule sequence_of_codec) (simp_all add: asn_MBR_ProtocolIE_Container_1479P23_def asn_PER_type_ProtocolIE_Container_1479P23_constr_def codecs)

definition ProtocolIE_Container_1479P23_contract :: "memory \<Rightarrow> (string \<Rightarrow> asn_codec) \<Rightarrow> contract" where
  "ProtocolIE_Container_1479P23_contract m others = ProtocolIE_Container_1479P23.contract m others"

lemma ProtocolIE_Container_1479P23_codec [codecs]: "codec_ok (asn_DEF_ProtocolIE_Container_1479P23 others (ideal_env m)) None (ProtocolIE_Container_1479P23_contract m others)"
  unfolding asn_DEF_ProtocolIE_Container_1479P23_def ProtocolIE_Container_1479P23_contract_def size_only_def by (rule ProtocolIE_Container_1479P23.codec)

interpretation E2nodeConfigurationUpdateAcknowledge: plain_sequence "ideal_env m" asn_SPC_E2nodeConfigurationUpdateAcknowledge_specs "asn_MBR_E2nodeConfigurationUpdateAcknowledge others (ideal_env m)"
  "[ProtocolIE_Container_1479P23_contract m others]" for m others
  by unfold_locales (simp_all add: asn_SPC_E2nodeConfigurationUpdateAcknowledge_specs_def asn_MBR_E2nodeConfigurationUpdateAcknowledge_def codecs upt_rec)

definition E2nodeConfigurationUpdateAcknowledge_contract :: "memory \<Rightarrow> (string \<Rightarrow> asn_codec) \<Rightarrow> contract" where
  "E2nodeConfigurationUpdateAcknowledge_contract m others = E2nodeConfigurationUpdateAcknowledge.contract others m"

lemma E2nodeConfigurationUpdateAcknowledge_codec [codecs]: "codec_ok (asn_DEF_E2nodeConfigurationUpdateAcknowledge others (ideal_env m)) cs (E2nodeConfigurationUpdateAcknowledge_contract m others)"
  unfolding asn_DEF_E2nodeConfigurationUpdateAcknowledge_def E2nodeConfigurationUpdateAcknowledge_contract_def by (rule E2nodeConfigurationUpdateAcknowledge.codec)

interpretation ProtocolIE_SingleContainer_1481P5: class_type "ideal_env m" "asn_MBR_ProtocolIE_SingleContainer_1481P5__value others (ideal_env m)"
  "[no_contract]"
  asn_SPC_ProtocolIE_SingleContainer_1481P5_specs "asn_DEF_ProtocolIE_ID (ideal_env m)" "asn_DEF_Criticality (ideal_env m)" "Some (value_only asn_PER_memb_id_constr)" "Some (value_only asn_PER_memb_criticality_constr)"
  "Some unconstrained" "type_column 0 asn_IOS_E2connectionSetupFailed_ItemIEs" select_ProtocolIE_SingleContainer_1481P5_criticality_type
  "\<lambda>ph. cwn_bits ph (lower_bound asn_PER_memb_id_constr) (upper_bound asn_PER_memb_id_constr)" "aper_number_ok None asn_PER_memb_id_constr"
  "enum_contract asn_SPC_Criticality_specs asn_PER_memb_criticality_constr" for m others
  by unfold_locales (simp_all add: asn_MBR_ProtocolIE_SingleContainer_1481P5__value_def asn_SPC_ProtocolIE_SingleContainer_1481P5_specs_def codecs number_contract_def [symmetric])

definition ProtocolIE_SingleContainer_1481P5_contract :: "memory \<Rightarrow> (string \<Rightarrow> asn_codec) \<Rightarrow> contract" where
  "ProtocolIE_SingleContainer_1481P5_contract m others = ProtocolIE_SingleContainer_1481P5.contract m others"

lemma ProtocolIE_SingleContainer_1481P5_codec [codecs]: "codec_ok (asn_DEF_ProtocolIE_SingleContainer_1481P5 others (ideal_env m)) cs (ProtocolIE_SingleContainer_1481P5_contract m others)"
  unfolding asn_DEF_ProtocolIE_SingleContainer_1481P5_def asn_MBR_ProtocolIE_SingleContainer_1481P5_def asn_DEF_ProtocolIE_SingleContainer_1481P5__value_def select_ProtocolIE_SingleContainer_1481P5_value_type_def ProtocolIE_SingleContainer_1481P5_contract_def by (rule ProtocolIE_SingleContainer_1481P5.codec)

interpretation E2connectionSetupFailed_List: sequence_of_type "ideal_env m" asn_PER_type_E2connectionSetupFailed_List_constr "asn_MBR_E2connectionSetupFailed_List others (ideal_env m)"
  "fst (ProtocolIE_SingleContainer_1481P5_contract m others)" "snd (ProtocolIE_SingleContainer_1481P5_contract m others)" "\<lambda>t. t = zeroed (memb_type (asn_MBR_E2connectionSetupFailed_List others (ideal_env m)))" for m others
  by (rule sequence_of_codec) (simp_all add: asn_MBR_E2connectionSetupFailed_List_def asn_PER_type_E2connectionSetupFailed_List_constr_def codecs)

definition E2connectionSetupFailed_List_contract :: "memory \<Rightarrow> (string \<Rightarrow> asn_codec) \<Rightarrow> contract" where
  "E2connectionSetupFailed_List_contract m others = E2connectionSetupFailed_List.contract m others"

lemma E2connectionSetupFailed_List_codec [codecs]: "codec_ok (asn_DEF_E2connectionSetupFailed_List others (ideal_env m)) None (E2connectionSetupFailed_List_contract m others)"
  unfolding asn_DEF_E2connectionSetupFailed_List_def E2connectionSetupFailed_List_contract_def size_only_def by (rule E2connectionSetupFailed_List.codec)

interpretation E2connectionUpdateAck_IEs: class_type "ideal_env m" "asn_MBR_E2connectionUpdateAck_IEs__value others (ideal_env m)"
  "[E2connectionUpdate_List_contract m others, E2connectionSetupFailed_List_contract m others]"
  asn_SPC_E2connectionUpdateAck_IEs_specs "asn_DEF_ProtocolIE_ID (ideal_env m)" "asn_DEF_Criticality (ideal_env m)" "Some (value_only asn_PER_memb_id_constr)" "Some (value_only asn_PER_memb_criticality_constr)"
  "Some unconstrained" "type_column 0 asn_IOS_E2connectionUpdateAck_IEs" select_E2connectionUpdateAck_IEs_criticality_type
  "\<lambda>ph. cwn_bits ph (lower_bound asn_PER_memb_id_constr) (upper_bound asn_PER_memb_id_constr)" "aper_number_ok None asn_PER_memb_id_constr"
  "enum_contract asn_SPC_Criticality_specs asn_PER_memb_criticality_constr" for m others
  by unfold_locales (simp_all add: asn_MBR_E2connectionUpdateAck_IEs__value_def asn_SPC_E2connectionUpdateAck_IEs_specs_def codecs number_contract_def [symmetric])

definition E2connectionUpdateAck_IEs_contract :: "memory \<Rightarrow> (string \<Rightarrow> asn_codec) \<Rightarrow> contract" where
  "E2connectionUpdateAck_IEs_contract m others = E2connectionUpdateAck_IEs.contract m others"

lemma E2connectionUpdateAck_IEs_codec [codecs]: "codec_ok (asn_DEF_E2connectionUpdateAck_IEs others (ideal_env m)) cs (E2connectionUpdateAck_IEs_contract m others)"
  unfolding asn_DEF_E2connectionUpdateAck_IEs_def asn_MBR_E2connectionUpdateAck_IEs_def asn_DEF_E2connectionUpdateAck_IEs__value_def select_E2connectionUpdateAck_IEs_value_type_def E2connectionUpdateAck_IEs_contract_def by (rule E2connectionUpdateAck_IEs.codec)

interpretation ProtocolIE_Container_1479P20: sequence_of_type "ideal_env m" asn_PER_type_ProtocolIE_Container_1479P20_constr "asn_MBR_ProtocolIE_Container_1479P20 others (ideal_env m)"
  "fst (E2connectionUpdateAck_IEs_contract m others)" "snd (E2connectionUpdateAck_IEs_contract m others)" "\<lambda>t. t = zeroed (memb_type (asn_MBR_ProtocolIE_Container_1479P20 others (ideal_env m)))" for m others
  by (rule sequence_of_codec) (simp_all add: asn_MBR_ProtocolIE_Container_1479P20_def asn_PER_type_ProtocolIE_Container_1479P20_constr_def codecs)

definition ProtocolIE_Container_1479P20_contract :: "memory \<Rightarrow> (string \<Rightarrow> asn_codec) \<Rightarrow> contract" where
  "ProtocolIE_Container_1479P20_contract m others = ProtocolIE_Container_1479P20.contract m others"

lemma ProtocolIE_Container_1479P20_codec [codecs]: "codec_ok (asn_DEF_ProtocolIE_Container_1479P20 others (ideal_env m)) None (ProtocolIE_Container_1479P20_contract m others)"
  unfolding asn_DEF_ProtocolIE_Container_1479P20_def ProtocolIE_Container_1479P20_contract_def size_only_def by (rule ProtocolIE_Container_1479P20.codec)

interpretation E2connectionUpdateAcknowledge: plain_sequence "ideal_env m" asn_SPC_E2connectionUpdateAcknowledge_specs "asn_MBR_E2connectionUpdateAcknowledge others (ideal_env m)"
  "[ProtocolIE_Container_1479P20_contract m others]" for m others
  by unfold_locales (simp_all add: asn_SPC_E2connectionUpdateAcknowledge_specs_def asn_MBR_E2connectionUpdateAcknowledge_def codecs upt_rec)

definition E2connectionUpdateAcknowledge_contract :: "memory \<Rightarrow> (string \<Rightarrow> asn_codec) \<Rightarrow> contract" where
  "E2connectionUpdateAcknowledge_contract m others = E2connectionUpdateAcknowledge.contract others m"

lemma E2connectionUpdateAcknowledge_codec [codecs]: "codec_ok (asn_DEF_E2connectionUpdateAcknowledge others (ideal_env m)) cs (E2connectionUpdateAcknowledge_contract m others)"
  unfolding asn_DEF_E2connectionUpdateAcknowledge_def E2connectionUpdateAcknowledge_contract_def by (rule E2connectionUpdateAcknowledge.codec)

interpretation ResetResponseIEs: class_type "ideal_env m" "asn_MBR_ResetResponseIEs__value (ideal_env m)"
  "[CriticalityDiagnostics_contract m]"
  asn_SPC_ResetResponseIEs_specs "asn_DEF_ProtocolIE_ID (ideal_env m)" "asn_DEF_Criticality (ideal_env m)" "Some (value_only asn_PER_memb_id_constr)" "Some (value_only asn_PER_memb_criticality_constr)"
  "Some unconstrained" "type_column 0 asn_IOS_ResetResponseIEs" select_ResetResponseIEs_criticality_type
  "\<lambda>ph. cwn_bits ph (lower_bound asn_PER_memb_id_constr) (upper_bound asn_PER_memb_id_constr)" "aper_number_ok None asn_PER_memb_id_constr"
  "enum_contract asn_SPC_Criticality_specs asn_PER_memb_criticality_constr" for m
  by unfold_locales (simp_all add: asn_MBR_ResetResponseIEs__value_def asn_SPC_ResetResponseIEs_specs_def codecs number_contract_def [symmetric])

definition ResetResponseIEs_contract :: "memory \<Rightarrow> contract" where
  "ResetResponseIEs_contract m = ResetResponseIEs.contract m"

lemma ResetResponseIEs_codec [codecs]: "codec_ok (asn_DEF_ResetResponseIEs (ideal_env m)) cs (ResetResponseIEs_contract m)"
  unfolding asn_DEF_ResetResponseIEs_def asn_MBR_ResetResponseIEs_def asn_DEF_ResetResponseIEs__value_def select_ResetResponseIEs_value_type_def ResetResponseIEs_contract_def by (rule ResetResponseIEs.codec)

interpretation ProtocolIE_Container_1479P26: sequence_of_type "ideal_env m" asn_PER_type_ProtocolIE_Container_1479P26_constr "asn_MBR_ProtocolIE_Container_1479P26 (ideal_env m)"
  "fst (ResetResponseIEs_contract m)" "snd (ResetResponseIEs_contract m)" "\<lambda>t. t = zeroed (memb_type (asn_MBR_ProtocolIE_Container_1479P26 (ideal_env m)))" for m
  by (rule sequence_of_codec) (simp_all add: asn_MBR_ProtocolIE_Container_1479P26_def asn_PER_type_ProtocolIE_Container_1479P26_constr_def codecs)

definition ProtocolIE_Container_1479P26_contract :: "memory \<Rightarrow> contract" where
  "ProtocolIE_Container_1479P26_contract m = ProtocolIE_Container_1479P26.contract m"

lemma ProtocolIE_Container_1479P26_codec [codecs]: "codec_ok (asn_DEF_ProtocolIE_Container_1479P26 (ideal_env m)) None (ProtocolIE_Container_1479P26_contract m)"
  unfolding asn_DEF_ProtocolIE_Container_1479P26_def ProtocolIE_Container_1479P26_contract_def size_only_def by (rule ProtocolIE_Container_1479P26.codec)

interpretation ResetResponse: plain_sequence "ideal_env m" asn_SPC_ResetResponse_specs "asn_MBR_ResetResponse (ideal_env m)"
  "[ProtocolIE_Container_1479P26_contract m]" for m
  by unfold_locales (simp_all add: asn_SPC_ResetResponse_specs_def asn_MBR_ResetResponse_def codecs upt_rec)

definition ResetResponse_contract :: "memory \<Rightarrow> contract" where
  "ResetResponse_contract m = ResetResponse.contract m"

lemma ResetResponse_codec [codecs]: "codec_ok (asn_DEF_ResetResponse (ideal_env m)) cs (ResetResponse_contract m)"
  unfolding asn_DEF_ResetResponse_def ResetResponse_contract_def by (rule ResetResponse.codec)

interpretation E2nodeConnected_ItemIEs: class_type "ideal_env m" "asn_MBR_E2nodeConnected_ItemIEs__value others (ideal_env m)"
  "[no_contract, RANfunctions_List_contract m others]"
  asn_SPC_E2nodeConnected_ItemIEs_specs "asn_DEF_ProtocolIE_ID (ideal_env m)" "asn_DEF_Criticality (ideal_env m)" "Some (value_only asn_PER_memb_id_constr)" "Some (value_only asn_PER_memb_criticality_constr)"
  "Some unconstrained" "type_column 0 asn_IOS_E2nodeConnected_ItemIEs" select_E2nodeConnected_ItemIEs_criticality_type
  "\<lambda>ph. cwn_bits ph (lower_bound asn_PER_memb_id_constr) (upper_bound asn_PER_memb_id_constr)" "aper_number_ok None asn_PER_memb_id_constr"
  "enum_contract asn_SPC_Criticality_specs asn_PER_memb_criticality_constr" for m others
  by unfold_locales (simp_all add: asn_MBR_E2nodeConnected_ItemIEs__value_def asn_SPC_E2nodeConnected_ItemIEs_specs_def codecs number_contract_def [symmetric])

definition E2nodeConnected_ItemIEs_contract :: "memory \<Rightarrow> (string \<Rightarrow> asn_codec) \<Rightarrow> contract" where
  "E2nodeConnected_ItemIEs_contract m others = E2nodeConnected_ItemIEs.contract m others"

lemma E2nodeConnected_ItemIEs_codec [codecs]: "codec_ok (asn_DEF_E2nodeConnected_ItemIEs others (ideal_env m)) cs (E2nodeConnected_ItemIEs_contract m others)"
  unfolding asn_DEF_E2nodeConnected_ItemIEs_def asn_MBR_E2nodeConnected_ItemIEs_def asn_DEF_E2nodeConnected_ItemIEs__value_def select_E2nodeConnected_ItemIEs_value_type_def E2nodeConnected_ItemIEs_contract_def by (rule E2nodeConnected_ItemIEs.codec)

interpretation ProtocolIE_Container_1479P28: sequence_of_type "ideal_env m" asn_PER_type_ProtocolIE_Container_1479P28_constr "asn_MBR_ProtocolIE_Container_1479P28 others (ideal_env m)"
  "fst (E2nodeConnected_ItemIEs_contract m others)" "snd (E2nodeConnected_ItemIEs_contract m others)" "\<lambda>t. t = zeroed (memb_type (asn_MBR_ProtocolIE_Container_1479P28 others (ideal_env m)))" for m others
  by (rule sequence_of_codec) (simp_all add: asn_MBR_ProtocolIE_Container_1479P28_def asn_PER_type_ProtocolIE_Container_1479P28_constr_def codecs)

definition ProtocolIE_Container_1479P28_contract :: "memory \<Rightarrow> (string \<Rightarrow> asn_codec) \<Rightarrow> contract" where
  "ProtocolIE_Container_1479P28_contract m others = ProtocolIE_Container_1479P28.contract m others"

lemma ProtocolIE_Container_1479P28_codec [codecs]: "codec_ok (asn_DEF_ProtocolIE_Container_1479P28 others (ideal_env m)) None (ProtocolIE_Container_1479P28_contract m others)"
  unfolding asn_DEF_ProtocolIE_Container_1479P28_def ProtocolIE_Container_1479P28_contract_def size_only_def by (rule ProtocolIE_Container_1479P28.codec)

interpretation E2nodeConnected_List: plain_sequence "ideal_env m" asn_SPC_E2nodeConnected_List_specs "asn_MBR_E2nodeConnected_List others (ideal_env m)"
  "[ProtocolIE_Container_1479P28_contract m others]" for m others
  by unfold_locales (simp_all add: asn_SPC_E2nodeConnected_List_specs_def asn_MBR_E2nodeConnected_List_def codecs upt_rec)

definition E2nodeConnected_List_contract :: "memory \<Rightarrow> (string \<Rightarrow> asn_codec) \<Rightarrow> contract" where
  "E2nodeConnected_List_contract m others = E2nodeConnected_List.contract others m"

lemma E2nodeConnected_List_codec [codecs]: "codec_ok (asn_DEF_E2nodeConnected_List others (ideal_env m)) cs (E2nodeConnected_List_contract m others)"
  unfolding asn_DEF_E2nodeConnected_List_def E2nodeConnected_List_contract_def by (rule E2nodeConnected_List.codec)

interpretation E42setupResponseIEs: class_type "ideal_env m" "asn_MBR_E42setupResponseIEs__value others (ideal_env m)"
  "[number_contract asn_PER_type_XAPP_ID_constr, E2nodeConnected_List_contract m others]"
  asn_SPC_E42setupResponseIEs_specs "asn_DEF_ProtocolIE_ID (ideal_env m)" "asn_DEF_Criticality (ideal_env m)" "Some (value_only asn_PER_memb_id_constr)" "Some (value_only asn_PER_memb_criticality_constr)"
  "Some unconstrained" "type_column 0 asn_IOS_E42setupResponseIEs" select_E42setupResponseIEs_criticality_type
  "\<lambda>ph. cwn_bits ph (lower_bound asn_PER_memb_id_constr) (upper_bound asn_PER_memb_id_constr)" "aper_number_ok None asn_PER_memb_id_constr"
  "enum_contract asn_SPC_Criticality_specs asn_PER_memb_criticality_constr" for m others
  by unfold_locales (simp_all add: asn_MBR_E42setupResponseIEs__value_def asn_SPC_E42setupResponseIEs_specs_def codecs number_contract_def [symmetric])

definition E42setupResponseIEs_contract :: "memory \<Rightarrow> (string \<Rightarrow> asn_codec) \<Rightarrow> contract" where
  "E42setupResponseIEs_contract m others = E42setupResponseIEs.contract m others"

lemma E42setupResponseIEs_codec [codecs]: "codec_ok (asn_DEF_E42setupResponseIEs others (ideal_env m)) cs (E42setupResponseIEs_contract m others)"
  unfolding asn_DEF_E42setupResponseIEs_def asn_MBR_E42setupResponseIEs_def asn_DEF_E42setupResponseIEs__value_def select_E42setupResponseIEs_value_type_def E42setupResponseIEs_contract_def by (rule E42setupResponseIEs.codec)

interpretation ProtocolIE_Container_1479P17: sequence_of_type "ideal_env m" asn_PER_type_ProtocolIE_Container_1479P17_constr "asn_MBR_ProtocolIE_Container_1479P17 others (ideal_env m)"
  "fst (E42setupResponseIEs_contract m others)" "snd (E42setupResponseIEs_contract m others)" "\<lambda>t. t = zeroed (memb_type (asn_MBR_ProtocolIE_Container_1479P17 others (ideal_env m)))" for m others
  by (rule sequence_of_codec) (simp_all add: asn_MBR_ProtocolIE_Container_1479P17_def asn_PER_type_ProtocolIE_Container_1479P17_constr_def codecs)

definition ProtocolIE_Container_1479P17_contract :: "memory \<Rightarrow> (string \<Rightarrow> asn_codec) \<Rightarrow> contract" where
  "ProtocolIE_Container_1479P17_contract m others = ProtocolIE_Container_1479P17.contract m others"

lemma ProtocolIE_Container_1479P17_codec [codecs]: "codec_ok (asn_DEF_ProtocolIE_Container_1479P17 others (ideal_env m)) None (ProtocolIE_Container_1479P17_contract m others)"
  unfolding asn_DEF_ProtocolIE_Container_1479P17_def ProtocolIE_Container_1479P17_contract_def size_only_def by (rule ProtocolIE_Container_1479P17.codec)

interpretation E42setupResponse: plain_sequence "ideal_env m" asn_SPC_E42setupResponse_specs "asn_MBR_E42setupResponse others (ideal_env m)"
  "[ProtocolIE_Container_1479P17_contract m others]" for m others
  by unfold_locales (simp_all add: asn_SPC_E42setupResponse_specs_def asn_MBR_E42setupResponse_def codecs upt_rec)

definition E42setupResponse_contract :: "memory \<Rightarrow> (string \<Rightarrow> asn_codec) \<Rightarrow> contract" where
  "E42setupResponse_contract m others = E42setupResponse.contract others m"

lemma E42setupResponse_codec [codecs]: "codec_ok (asn_DEF_E42setupResponse others (ideal_env m)) cs (E42setupResponse_contract m others)"
  unfolding asn_DEF_E42setupResponse_def E42setupResponse_contract_def by (rule E42setupResponse.codec)

interpretation SuccessfulOutcome: class_type "ideal_env m" "asn_MBR_SuccessfulOutcome__value others (ideal_env m)"
  "[RICsubscriptionResponse_contract m, RICsubscriptionDeleteResponse_contract m, RICserviceUpdateAcknowledge_contract m, RICcontrolAcknowledge_contract m others, E2setupResponse_contract m others, E2nodeConfigurationUpdateAcknowledge_contract m others, E2connectionUpdateAcknowledge_contract m others, ResetResponse_contract m, E42setupResponse_contract m others, RICsubscriptionResponse_contract m, RICsubscriptionDeleteResponse_contract m, RICcontrolAcknowledge_contract m others]"
  asn_SPC_SuccessfulOutcome_specs "asn_DEF_ProcedureCode (ideal_env m)" "asn_DEF_Criticality (ideal_env m)" "Some (value_only asn_PER_memb_procedureCode_constr)" "Some (value_only asn_PER_memb_criticality_constr)"
  "Some unconstrained" "type_column 1 asn_IOS_E2AP_ELEMENTARY_PROCEDURES" select_SuccessfulOutcome_criticality_type
  "\<lambda>ph. cwn_bits ph (lower_bound asn_PER_memb_procedureCode_constr) (upper_bound asn_PER_memb_procedureCode_constr)" "aper_number_ok None asn_PER_memb_procedureCode_constr"
  "enum_contract asn_SPC_Criticality_specs asn_PER_memb_criticality_constr" for m others
  by unfold_locales (simp_all add: asn_MBR_SuccessfulOutcome__value_def asn_SPC_SuccessfulOutcome_specs_def codecs number_contract_def [symmetric])

definition SuccessfulOutcome_contract :: "memory \<Rightarrow> (string \<Rightarrow> asn_codec) \<Rightarrow> contract" where
  "SuccessfulOutcome_contract m others = SuccessfulOutcome.contract m others"

lemma SuccessfulOutcome_codec [codecs]: "codec_ok (asn_DEF_SuccessfulOutcome others (ideal_env m)) cs (SuccessfulOutcome_contract m others)"
  unfolding asn_DEF_SuccessfulOutcome_def asn_MBR_SuccessfulOutcome_def asn_DEF_SuccessfulOutcome__value_def select_SuccessfulOutcome_value_type_def SuccessfulOutcome_contract_def by (rule SuccessfulOutcome.codec)

interpretation RICsubscriptionFailure_IEs: class_type "ideal_env m" "asn_MBR_RICsubscriptionFailure_IEs__value (ideal_env m)"
  "[RICrequestID_contract m, number_contract asn_PER_type_RANfunctionID_constr, RICaction_NotAdmitted_List_contract m, CriticalityDiagnostics_contract m]"
  asn_SPC_RICsubscriptionFailure_IEs_specs "asn_DEF_ProtocolIE_ID (ideal_env m)" "asn_DEF_Criticality (ideal_env m)" "Some (value_only asn_PER_memb_id_constr)" "Some (value_only asn_PER_memb_criticality_constr)"
  "Some unconstrained" "type_column 0 asn_IOS_RICsubscriptionFailure_IEs" select_RICsubscriptionFailure_IEs_criticality_type
  "\<lambda>ph. cwn_bits ph (lower_bound asn_PER_memb_id_constr) (upper_bound asn_PER_memb_id_constr)" "aper_number_ok None asn_PER_memb_id_constr"
  "enum_contract asn_SPC_Criticality_specs asn_PER_memb_criticality_constr" for m
  by unfold_locales (simp_all add: asn_MBR_RICsubscriptionFailure_IEs__value_def asn_SPC_RICsubscriptionFailure_IEs_specs_def codecs number_contract_def [symmetric])

definition RICsubscriptionFailure_IEs_contract :: "memory \<Rightarrow> contract" where
  "RICsubscriptionFailure_IEs_contract m = RICsubscriptionFailure_IEs.contract m"

lemma RICsubscriptionFailure_IEs_codec [codecs]: "codec_ok (asn_DEF_RICsubscriptionFailure_IEs (ideal_env m)) cs (RICsubscriptionFailure_IEs_contract m)"
  unfolding asn_DEF_RICsubscriptionFailure_IEs_def asn_MBR_RICsubscriptionFailure_IEs_def asn_DEF_RICsubscriptionFailure_IEs__value_def select_RICsubscriptionFailure_IEs_value_type_def RICsubscriptionFailure_IEs_contract_def by (rule RICsubscriptionFailure_IEs.codec)

interpretation ProtocolIE_Container_1479P2: sequence_of_type "ideal_env m" asn_PER_type_ProtocolIE_Container_1479P2_constr "asn_MBR_ProtocolIE_Container_1479P2 (ideal_env m)"
  "fst (RICsubscriptionFailure_IEs_contract m)" "snd (RICsubscriptionFailure_IEs_contract m)" "\<lambda>t. t = zeroed (memb_type (asn_MBR_ProtocolIE_Container_1479P2 (ideal_env m)))" for m
  by (rule sequence_of_codec) (simp_all add: asn_MBR_ProtocolIE_Container_1479P2_def asn_PER_type_ProtocolIE_Container_1479P2_constr_def codecs)

definition ProtocolIE_Container_1479P2_contract :: "memory \<Rightarrow> contract" where
  "ProtocolIE_Container_1479P2_contract m = ProtocolIE_Container_1479P2.contract m"

lemma ProtocolIE_Container_1479P2_codec [codecs]: "codec_ok (asn_DEF_ProtocolIE_Container_1479P2 (ideal_env m)) None (ProtocolIE_Container_1479P2_contract m)"
  unfolding asn_DEF_ProtocolIE_Container_1479P2_def ProtocolIE_Container_1479P2_contract_def size_only_def by (rule ProtocolIE_Container_1479P2.codec)

interpretation RICsubscriptionFailure: plain_sequence "ideal_env m" asn_SPC_RICsubscriptionFailure_specs "asn_MBR_RICsubscriptionFailure (ideal_env m)"
  "[ProtocolIE_Container_1479P2_contract m]" for m
  by unfold_locales (simp_all add: asn_SPC_RICsubscriptionFailure_specs_def asn_MBR_RICsubscriptionFailure_def codecs upt_rec)

definition RICsubscriptionFailure_contract :: "memory \<Rightarrow> contract" where
  "RICsubscriptionFailure_contract m = RICsubscriptionFailure.contract m"

lemma RICsubscriptionFailure_codec [codecs]: "codec_ok (asn_DEF_RICsubscriptionFailure (ideal_env m)) cs (RICsubscriptionFailure_contract m)"
  unfolding asn_DEF_RICsubscriptionFailure_def RICsubscriptionFailure_contract_def by (rule RICsubscriptionFailure.codec)

interpretation RICsubscriptionDeleteFailure_IEs: class_type "ideal_env m" "asn_MBR_RICsubscriptionDeleteFailure_IEs__value (ideal_env m)"
  "[RICrequestID_contract m, number_contract asn_PER_type_RANfunctionID_constr, Cause_contract m, CriticalityDiagnostics_contract m]"
  asn_SPC_RICsubscriptionDeleteFailure_IEs_specs "asn_DEF_ProtocolIE_ID (ideal_env m)" "asn_DEF_Criticality (ideal_env m)" "Some (value_only asn_PER_memb_id_constr)" "Some (value_only asn_PER_memb_criticality_constr)"
  "Some unconstrained" "type_column 0 asn_IOS_RICsubscriptionDeleteFailure_IEs" select_RICsubscriptionDeleteFailure_IEs_criticality_type
  "\<lambda>ph. cwn_bits ph (lower_bound asn_PER_memb_id_constr) (upper_bound asn_PER_memb_id_constr)" "aper_number_ok None asn_PER_memb_id_constr"
  "enum_contract asn_SPC_Criticality_specs asn_PER_memb_criticality_constr" for m
  by unfold_locales (simp_all add: asn_MBR_RICsubscriptionDeleteFailure_IEs__value_def asn_SPC_RICsubscriptionDeleteFailure_IEs_specs_def codecs number_contract_def [symmetric])

definition RICsubscriptionDeleteFailure_IEs_contract :: "memory \<Rightarrow> contract" where
  "RICsubscriptionDeleteFailure_IEs_contract m = RICsubscriptionDeleteFailure_IEs.contract m"

lemma RICsubscriptionDeleteFailure_IEs_codec [codecs]: "codec_ok (asn_DEF_RICsubscriptionDeleteFailure_IEs (ideal_env m)) cs (RICsubscriptionDeleteFailure_IEs_contract m)"
  unfolding asn_DEF_RICsubscriptionDeleteFailure_IEs_def asn_MBR_RICsubscriptionDeleteFailure_IEs_def asn_DEF_RICsubscriptionDeleteFailure_IEs__value_def select_RICsubscriptionDeleteFailure_IEs_value_type_def RICsubscriptionDeleteFailure_IEs_contract_def by (rule RICsubscriptionDeleteFailure_IEs.codec)

interpretation ProtocolIE_Container_1479P7: sequence_of_type "ideal_env m" asn_PER_type_ProtocolIE_Container_1479P7_constr "asn_MBR_ProtocolIE_Container_1479P7 (ideal_env m)"
  "fst (RICsubscriptionDeleteFailure_IEs_contract m)" "snd (RICsubscriptionDeleteFailure_IEs_contract m)" "\<lambda>t. t = zeroed (memb_type (asn_MBR_ProtocolIE_Container_1479P7 (ideal_env m)))" for m
  by (rule sequence_of_codec) (simp_all add: asn_MBR_ProtocolIE_Container_1479P7_def asn_PER_type_ProtocolIE_Container_1479P7_constr_def codecs)

definition ProtocolIE_Container_1479P7_contract :: "memory \<Rightarrow> contract" where
  "ProtocolIE_Container_1479P7_contract m = ProtocolIE_Container_1479P7.contract m"

lemma ProtocolIE_Container_1479P7_codec [codecs]: "codec_ok (asn_DEF_ProtocolIE_Container_1479P7 (ideal_env m)) None (ProtocolIE_Container_1479P7_contract m)"
  unfolding asn_DEF_ProtocolIE_Container_1479P7_def ProtocolIE_Container_1479P7_contract_def size_only_def by (rule ProtocolIE_Container_1479P7.codec)

interpretation RICsubscriptionDeleteFailure: plain_sequence "ideal_env m" asn_SPC_RICsubscriptionDeleteFailure_specs "asn_MBR_RICsubscriptionDeleteFailure (ideal_env m)"
  "[ProtocolIE_Container_1479P7_contract m]" for m
  by unfold_locales (simp_all add: asn_SPC_RICsubscriptionDeleteFailure_specs_def asn_MBR_RICsubscriptionDeleteFailure_def codecs upt_rec)

definition RICsubscriptionDeleteFailure_contract :: "memory \<Rightarrow> contract" where
  "RICsubscriptionDeleteFailure_contract m = RICsubscriptionDeleteFailure.contract m"

lemma RICsubscriptionDeleteFailure_codec [codecs]: "codec_ok (asn_DEF_RICsubscriptionDeleteFailure (ideal_env m)) cs (RICsubscriptionDeleteFailure_contract m)"
  unfolding asn_DEF_RICsubscriptionDeleteFailure_def RICsubscriptionDeleteFailure_contract_def by (rule RICsubscriptionDeleteFailure.codec)

lemma TimeToWait_codec [codecs]: "codec_ok (asn_DEF_TimeToWait (ideal_env m)) None (enum_contract asn_SPC_TimeToWait_specs asn_PER_type_TimeToWait_constr)"
  by (simp add: asn_DEF_TimeToWait_def enum_codec_type)

lemma TimeToWait_member_codec [codecs]: "codec_ok (asn_DEF_TimeToWait (ideal_env m)) (Some (value_only c)) (enum_contract asn_SPC_TimeToWait_specs c)"
  by (simp add: asn_DEF_TimeToWait_def enum_codec_member)

interpretation RICserviceUpdateFailure_IEs: class_type "ideal_env m" "asn_MBR_RICserviceUpdateFailure_IEs__value (ideal_env m)"
  "[RANfunctionsIDcause_List_contract m, enum_contract asn_SPC_TimeToWait_specs asn_PER_type_TimeToWait_constr, CriticalityDiagnostics_contract m]"
  asn_SPC_RICserviceUpdateFailure_IEs_specs "asn_DEF_ProtocolIE_ID (ideal_env m)" "asn_DEF_Criticality (ideal_env m)" "Some (value_only asn_PER_memb_id_constr)" "Some (value_only asn_PER_memb_criticality_constr)"
  "Some unconstrained" "type_column 0 asn_IOS_RICserviceUpdateFailure_IEs" select_RICserviceUpdateFailure_IEs_criticality_type
  "\<lambda>ph. cwn_bits ph (lower_bound asn_PER_memb_id_constr) (upper_bound asn_PER_memb_id_constr)" "aper_number_ok None asn_PER_memb_id_constr"
  "enum_contract asn_SPC_Criticality_specs asn_PER_memb_criticality_constr" for m
  by unfold_locales (simp_all add: asn_MBR_RICserviceUpdateFailure_IEs__value_def asn_SPC_RICserviceUpdateFailure_IEs_specs_def codecs number_contract_def [symmetric])

definition RICserviceUpdateFailure_IEs_contract :: "memory \<Rightarrow> contract" where
  "RICserviceUpdateFailure_IEs_contract m = RICserviceUpdateFailure_IEs.contract m"

lemma RICserviceUpdateFailure_IEs_codec [codecs]: "codec_ok (asn_DEF_RICserviceUpdateFailure_IEs (ideal_env m)) cs (RICserviceUpdateFailure_IEs_contract m)"
  unfolding asn_DEF_RICserviceUpdateFailure_IEs_def asn_MBR_RICserviceUpdateFailure_IEs_def asn_DEF_RICserviceUpdateFailure_IEs__value_def select_RICserviceUpdateFailure_IEs_value_type_def RICserviceUpdateFailure_IEs_contract_def by (rule RICserviceUpdateFailure_IEs.codec)

interpretation ProtocolIE_Container_1479P30: sequence_of_type "ideal_env m" asn_PER_type_ProtocolIE_Container_1479P30_constr "asn_MBR_ProtocolIE_Container_1479P30 (ideal_env m)"
  "fst (RICserviceUpdateFailure_IEs_contract m)" "snd (RICserviceUpdateFailure_IEs_contract m)" "\<lambda>t. t = zeroed (memb_type (asn_MBR_ProtocolIE_Container_1479P30 (ideal_env m)))" for m
  by (rule sequence_of_codec) (simp_all add: asn_MBR_ProtocolIE_Container_1479P30_def asn_PER_type_ProtocolIE_Container_1479P30_constr_def codecs)

definition ProtocolIE_Container_1479P30_contract :: "memory \<Rightarrow> contract" where
  "ProtocolIE_Container_1479P30_contract m = ProtocolIE_Container_1479P30.contract m"

lemma ProtocolIE_Container_1479P30_codec [codecs]: "codec_ok (asn_DEF_ProtocolIE_Container_1479P30 (ideal_env m)) None (ProtocolIE_Container_1479P30_contract m)"
  unfolding asn_DEF_ProtocolIE_Container_1479P30_def ProtocolIE_Container_1479P30_contract_def size_only_def by (rule ProtocolIE_Container_1479P30.codec)

interpretation RICserviceUpdateFailure: plain_sequence "ideal_env m" asn_SPC_RICserviceUpdateFailure_specs "asn_MBR_RICserviceUpdateFailure (ideal_env m)"
  "[ProtocolIE_Container_1479P30_contract m]" for m
  by unfold_locales (simp_all add: asn_SPC_RICserviceUpdateFailure_specs_def asn_MBR_RICserviceUpdateFailure_def codecs upt_rec)

definition RICserviceUpdateFailure_contract :: "memory \<Rightarrow> contract" where
  "RICserviceUpdateFailure_contract m = RICserviceUpdateFailure.contract m"

lemma RICserviceUpdateFailure_codec [codecs]: "codec_ok (asn_DEF_RICserviceUpdateFailure (ideal_env m)) cs (RICserviceUpdateFailure_contract m)"
  unfolding asn_DEF_RICserviceUpdateFailure_def RICserviceUpdateFailure_contract_def by (rule RICserviceUpdateFailure.codec)

interpretation RICcontrolFailure_IEs: class_type "ideal_env m" "asn_MBR_RICcontrolFailure_IEs__value others (ideal_env m)"
  "[RICrequestID_contract m, number_contract asn_PER_type_RANfunctionID_constr, no_contract, Cause_contract m, no_contract]"
  asn_SPC_RICcontrolFailure_IEs_specs "asn_DEF_ProtocolIE_ID (ideal_env m)" "asn_DEF_Criticality (ideal_env m)" "Some (value_only asn_PER_memb_id_constr)" "Some (value_only asn_PER_memb_criticality_constr)"
  "Some unconstrained" "type_column 0 asn_IOS_RICcontrolFailure_IEs" select_RICcontrolFailure_IEs_criticality_type
  "\<lambda>ph. cwn_bits ph (lower_bound asn_PER_memb_id_constr) (upper_bound asn_PER_memb_id_constr)" "aper_number_ok None asn_PER_memb_id_constr"
  "enum_contract asn_SPC_Criticality_specs asn_PER_memb_criticality_constr" for m others
  by unfold_locales (simp_all add: asn_MBR_RICcontrolFailure_IEs__value_def asn_SPC_RICcontrolFailure_IEs_specs_def codecs number_contract_def [symmetric])

definition RICcontrolFailure_IEs_contract :: "memory \<Rightarrow> (string \<Rightarrow> asn_codec) \<Rightarrow> contract" where
  "RICcontrolFailure_IEs_contract m others = RICcontrolFailure_IEs.contract m others"

lemma RICcontrolFailure_IEs_codec [codecs]: "codec_ok (asn_DEF_RICcontrolFailure_IEs others (ideal_env m)) cs (RICcontrolFailure_IEs_contract m others)"
  unfolding asn_DEF_RICcontrolFailure_IEs_def asn_MBR_RICcontrolFailure_IEs_def asn_DEF_RICcontrolFailure_IEs__value_def select_RICcontrolFailure_IEs_value_type_def RICcontrolFailure_IEs_contract_def by (rule RICcontrolFailure_IEs.codec)

interpretation ProtocolIE_Container_1479P12: sequence_of_type "ideal_env m" asn_PER_type_ProtocolIE_Container_1479P12_constr "asn_MBR_ProtocolIE_Container_1479P12 others (ideal_env m)"
  "fst (RICcontrolFailure_IEs_contract m others)" "snd (RICcontrolFailure_IEs_contract m others)" "\<lambda>t. t = zeroed (memb_type (asn_MBR_ProtocolIE_Container_1479P12 others (ideal_env m)))" for m others
  by (rule sequence_of_codec) (simp_all add: asn_MBR_ProtocolIE_Container_1479P12_def asn_PER_type_ProtocolIE_Container_1479P12_constr_def codecs)

definition ProtocolIE_Container_1479P12_contract :: "memory \<Rightarrow> (string \<Rightarrow> asn_codec) \<Rightarrow> contract" where
  "ProtocolIE_Container_1479P12_contract m others = ProtocolIE_Container_1479P12.contract m others"

lemma ProtocolIE_Container_1479P12_codec [codecs]: "codec_ok (asn_DEF_ProtocolIE_Container_1479P12 others (ideal_env m)) None (ProtocolIE_Container_1479P12_contract m others)"
  unfolding asn_DEF_ProtocolIE_Container_1479P12_def ProtocolIE_Container_1479P12_contract_def size_only_def by (rule ProtocolIE_Container_1479P12.codec)

interpretation RICcontrolFailure: plain_sequence "ideal_env m" asn_SPC_RICcontrolFailure_specs "asn_MBR_RICcontrolFailure others (ideal_env m)"
  "[ProtocolIE_Container_1479P12_contract m others]" for m others
  by unfold_locales (simp_all add: asn_SPC_RICcontrolFailure_specs_def asn_MBR_RICcontrolFailure_def codecs upt_rec)

definition RICcontrolFailure_contract :: "memory \<Rightarrow> (string \<Rightarrow> asn_codec) \<Rightarrow> contract" where
  "RICcontrolFailure_contract m others = RICcontrolFailure.contract others m"

lemma RICcontrolFailure_codec [codecs]: "codec_ok (asn_DEF_RICcontrolFailure others (ideal_env m)) cs (RICcontrolFailure_contract m others)"
  unfolding asn_DEF_RICcontrolFailure_def RICcontrolFailure_contract_def by (rule RICcontrolFailure.codec)

interpretation E2setupFailureIEs: class_type "ideal_env m" "asn_MBR_E2setupFailureIEs__value others (ideal_env m)"
  "[Cause_contract m, enum_contract asn_SPC_TimeToWait_specs asn_PER_type_TimeToWait_constr, CriticalityDiagnostics_contract m, no_contract]"
  asn_SPC_E2setupFailureIEs_specs "asn_DEF_ProtocolIE_ID (ideal_env m)" "asn_DEF_Criticality (ideal_env m)" "Some (value_only asn_PER_memb_id_constr)" "Some (value_only asn_PER_memb_criticality_constr)"
  "Some unconstrained" "type_column 0 asn_IOS_E2setupFailureIEs" select_E2setupFailureIEs_criticality_type
  "\<lambda>ph. cwn_bits ph (lower_bound asn_PER_memb_id_constr) (upper_bound asn_PER_memb_id_constr)" "aper_number_ok None asn_PER_memb_id_constr"
  "enum_contract asn_SPC_Criticality_specs asn_PER_memb_criticality_constr" for m others
  by unfold_locales (simp_all add: asn_MBR_E2setupFailureIEs__value_def asn_SPC_E2setupFailureIEs_specs_def codecs number_contract_def [symmetric])

definition E2setupFailureIEs_contract :: "memory \<Rightarrow> (string \<Rightarrow> asn_codec) \<Rightarrow> contract" where
  "E2setupFailureIEs_contract m others = E2setupFailureIEs.contract m others"

lemma E2setupFailureIEs_codec [codecs]: "codec_ok (asn_DEF_E2setupFailureIEs others (ideal_env m)) cs (E2setupFailureIEs_contract m others)"
  unfolding asn_DEF_E2setupFailureIEs_def asn_MBR_E2setupFailureIEs_def asn_DEF_E2setupFailureIEs__value_def select_E2setupFailureIEs_value_type_def E2setupFailureIEs_contract_def by (rule E2setupFailureIEs.codec)

interpretation ProtocolIE_Container_1479P18: sequence_of_type "ideal_env m" asn_PER_type_ProtocolIE_Container_1479P18_constr "asn_MBR_ProtocolIE_Container_1479P18 others (ideal_env m)"
  "fst (E2setupFailureIEs_contract m others)" "snd (E2setupFailureIEs_contract m others)" "\<lambda>t. t = zeroed (memb_type (asn_MBR_ProtocolIE_Container_1479P18 others (ideal_env m)))" for m others
  by (rule sequence_of_codec) (simp_all add: asn_MBR_ProtocolIE_Container_1479P18_def asn_PER_type_ProtocolIE_Container_1479P18_constr_def codecs)

definition ProtocolIE_Container_1479P18_contract :: "memory \<Rightarrow> (string \<Rightarrow> asn_codec) \<Rightarrow> contract" where
  "ProtocolIE_Container_1479P18_contract m others = ProtocolIE_Container_1479P18.contract m others"

lemma ProtocolIE_Container_1479P18_codec [codecs]: "codec_ok (asn_DEF_ProtocolIE_Container_1479P18 others (ideal_env m)) None (ProtocolIE_Container_1479P18_contract m others)"
  unfolding asn_DEF_ProtocolIE_Container_1479P18_def ProtocolIE_Container_1479P18_contract_def size_only_def by (rule ProtocolIE_Container_1479P18.codec)

interpretation E2setupFailure: plain_sequence "ideal_env m" asn_SPC_E2setupFailure_specs "asn_MBR_E2setupFailure others (ideal_env m)"
  "[ProtocolIE_Container_1479P18_contract m others]" for m others
  by unfold_locales (simp_all add: asn_SPC_E2setupFailure_specs_def asn_MBR_E2setupFailure_def codecs upt_rec)

definition E2setupFailure_contract :: "memory \<Rightarrow> (string \<Rightarrow> asn_codec) \<Rightarrow> contract" where
  "E2setupFailure_contract m others = E2setupFailure.contract others m"

lemma E2setupFailure_codec [codecs]: "codec_ok (asn_DEF_E2setupFailure others (ideal_env m)) cs (E2setupFailure_contract m others)"
  unfolding asn_DEF_E2setupFailure_def E2setupFailure_contract_def by (rule E2setupFailure.codec)

interpretation E2nodeConfigurationUpdateFailure_IEs: class_type "ideal_env m" "asn_MBR_E2nodeConfigurationUpdateFailure_IEs__value (ideal_env m)"
  "[Cause_contract m, enum_contract asn_SPC_TimeToWait_specs asn_PER_type_TimeToWait_constr, CriticalityDiagnostics_contract m]"
  asn_SPC_E2nodeConfigurationUpdateFailure_IEs_specs "asn_DEF_ProtocolIE_ID (ideal_env m)" "asn_DEF_Criticality (ideal_env m)" "Some (value_only asn_PER_memb_id_constr)" "Some (value_only asn_PER_memb_criticality_constr)"
  "Some unconstrained" "type_column 0 asn_IOS_E2nodeConfigurationUpdateFailure_IEs" select_E2nodeConfigurationUpdateFailure_IEs_criticality_type
  "\<lambda>ph. cwn_bits ph (lower_bound asn_PER_memb_id_constr) (upper_bound asn_PER_memb_id_constr)" "aper_number_ok None asn_PER_memb_id_constr"
  "enum_contract asn_SPC_Criticality_specs asn_PER_memb_criticality_constr" for m
  by unfold_locales (simp_all add: asn_MBR_E2nodeConfigurationUpdateFailure_IEs__value_def asn_SPC_E2nodeConfigurationUpdateFailure_IEs_specs_def codecs number_contract_def [symmetric])

definition E2nodeConfigurationUpdateFailure_IEs_contract :: "memory \<Rightarrow> contract" where
  "E2nodeConfigurationUpdateFailure_IEs_contract m = E2nodeConfigurationUpdateFailure_IEs.contract m"

lemma E2nodeConfigurationUpdateFailure_IEs_codec [codecs]: "codec_ok (asn_DEF_E2nodeConfigurationUpdateFailure_IEs (ideal_env m)) cs (E2nodeConfigurationUpdateFailure_IEs_contract m)"
  unfolding asn_DEF_E2nodeConfigurationUpdateFailure_IEs_def asn_MBR_E2nodeConfigurationUpdateFailure_IEs_def asn_DEF_E2nodeConfigurationUpdateFailure_IEs__value_def select_E2nodeConfigurationUpdateFailure_IEs_value_type_def E2nodeConfigurationUpdateFailure_IEs_contract_def by (rule E2nodeConfigurationUpdateFailure_IEs.codec)

interpretation ProtocolIE_Container_1479P24: sequence_of_type "ideal_env m" asn_PER_type_ProtocolIE_Container_1479P24_constr "asn_MBR_ProtocolIE_Container_1479P24 (ideal_env m)"
  "fst (E2nodeConfigurationUpdateFailure_IEs_contract m)" "snd (E2nodeConfigurationUpdateFailure_IEs_contract m)" "\<lambda>t. t = zeroed (memb_type (asn_MBR_ProtocolIE_Container_1479P24 (ideal_env m)))" for m
  by (rule sequence_of_codec) (simp_all add: asn_MBR_ProtocolIE_Container_1479P24_def asn_PER_type_ProtocolIE_Container_1479P24_constr_def codecs)

definition ProtocolIE_Container_1479P24_contract :: "memory \<Rightarrow> contract" where
  "ProtocolIE_Container_1479P24_contract m = ProtocolIE_Container_1479P24.contract m"

lemma ProtocolIE_Container_1479P24_codec [codecs]: "codec_ok (asn_DEF_ProtocolIE_Container_1479P24 (ideal_env m)) None (ProtocolIE_Container_1479P24_contract m)"
  unfolding asn_DEF_ProtocolIE_Container_1479P24_def ProtocolIE_Container_1479P24_contract_def size_only_def by (rule ProtocolIE_Container_1479P24.codec)

interpretation E2nodeConfigurationUpdateFailure: plain_sequence "ideal_env m" asn_SPC_E2nodeConfigurationUpdateFailure_specs "asn_MBR_E2nodeConfigurationUpdateFailure (ideal_env m)"
  "[ProtocolIE_Container_1479P24_contract m]" for m
  by unfold_locales (simp_all add: asn_SPC_E2nodeConfigurationUpdateFailure_specs_def asn_MBR_E2nodeConfigurationUpdateFailure_def codecs upt_rec)

definition E2nodeConfigurationUpdateFailure_contract :: "memory \<Rightarrow> contract" where
  "E2nodeConfigurationUpdateFailure_contract m = E2nodeConfigurationUpdateFailure.contract m"

lemma E2nodeConfigurationUpdateFailure_codec [codecs]: "codec_ok (asn_DEF_E2nodeConfigurationUpdateFailure (ideal_env m)) cs (E2nodeConfigurationUpdateFailure_contract m)"
  unfolding asn_DEF_E2nodeConfigurationUpdateFailure_def E2nodeConfigurationUpdateFailure_contract_def by (rule E2nodeConfigurationUpdateFailure.codec)

interpretation E2connectionUpdateFailure_IEs: class_type "ideal_env m" "asn_MBR_E2connectionUpdateFailure_IEs__value (ideal_env m)"
  "[Cause_contract m, enum_contract asn_SPC_TimeToWait_specs asn_PER_type_TimeToWait_constr, CriticalityDiagnostics_contract m]"
  asn_SPC_E2connectionUpdateFailure_IEs_specs "asn_DEF_ProtocolIE_ID (ideal_env m)" "asn_DEF_Criticality (ideal_env m)" "Some (value_only asn_PER_memb_id_constr)" "Some (value_only asn_PER_memb_criticality_constr)"
  "Some unconstrained" "type_column 0 asn_IOS_E2connectionUpdateFailure_IEs" select_E2connectionUpdateFailure_IEs_criticality_type
  "\<lambda>ph. cwn_bits ph (lower_bound asn_PER_memb_id_constr) (upper_bound asn_PER_memb_id_constr)" "aper_number_ok None asn_PER_memb_id_constr"
  "enum_contract asn_SPC_Criticality_specs asn_PER_memb_criticality_constr" for m
  by unfold_locales (simp_all add: asn_MBR_E2connectionUpdateFailure_IEs__value_def asn_SPC_E2connectionUpdateFailure_IEs_specs_def codecs number_contract_def [symmetric])

definition E2connectionUpdateFailure_IEs_contract :: "memory \<Rightarrow> contract" where
  "E2connectionUpdateFailure_IEs_contract m = E2connectionUpdateFailure_IEs.contract m"

lemma E2connectionUpdateFailure_IEs_codec [codecs]: "codec_ok (asn_DEF_E2connectionUpdateFailure_IEs (ideal_env m)) cs (E2connectionUpdateFailure_IEs_contract m)"
  unfolding asn_DEF_E2connectionUpdateFailure_IEs_def asn_MBR_E2connectionUpdateFailure_IEs_def asn_DEF_E2connectionUpdateFailure_IEs__value_def select_E2connectionUpdateFailure_IEs_value_type_def E2connectionUpdateFailure_IEs_contract_def by (rule E2connectionUpdateFailure_IEs.codec)

interpretation ProtocolIE_Container_1479P21: sequence_of_type "ideal_env m" asn_PER_type_ProtocolIE_Container_1479P21_constr "asn_MBR_ProtocolIE_Container_1479P21 (ideal_env m)"
  "fst (E2connectionUpdateFailure_IEs_contract m)" "snd (E2connectionUpdateFailure_IEs_contract m)" "\<lambda>t. t = zeroed (memb_type (asn_MBR_ProtocolIE_Container_1479P21 (ideal_env m)))" for m
  by (rule sequence_of_codec) (simp_all add: asn_MBR_ProtocolIE_Container_1479P21_def asn_PER_type_ProtocolIE_Container_1479P21_constr_def codecs)

definition ProtocolIE_Container_1479P21_contract :: "memory \<Rightarrow> contract" where
  "ProtocolIE_Container_1479P21_contract m = ProtocolIE_Container_1479P21.contract m"

lemma ProtocolIE_Container_1479P21_codec [codecs]: "codec_ok (asn_DEF_ProtocolIE_Container_1479P21 (ideal_env m)) None (ProtocolIE_Container_1479P21_contract m)"
  unfolding asn_DEF_ProtocolIE_Container_1479P21_def ProtocolIE_Container_1479P21_contract_def size_only_def by (rule ProtocolIE_Container_1479P21.codec)

interpretation E2connectionUpdateFailure: plain_sequence "ideal_env m" asn_SPC_E2connectionUpdateFailure_specs "asn_MBR_E2connectionUpdateFailure (ideal_env m)"
  "[ProtocolIE_Container_1479P21_contract m]" for m
  by unfold_locales (simp_all add: asn_SPC_E2connectionUpdateFailure_specs_def asn_MBR_E2connectionUpdateFailure_def codecs upt_rec)

definition E2connectionUpdateFailure_contract :: "memory \<Rightarrow> contract" where
  "E2connectionUpdateFailure_contract m = E2connectionUpdateFailure.contract m"

lemma E2connectionUpdateFailure_codec [codecs]: "codec_ok (asn_DEF_E2connectionUpdateFailure (ideal_env m)) cs (E2connectionUpdateFailure_contract m)"
  unfolding asn_DEF_E2connectionUpdateFailure_def E2connectionUpdateFailure_contract_def by (rule E2connectionUpdateFailure.codec)

interpretation UnsuccessfulOutcome: class_type "ideal_env m" "asn_MBR_UnsuccessfulOutcome__value others (ideal_env m)"
  "[RICsubscriptionFailure_contract m, RICsubscriptionDeleteFailure_contract m, RICserviceUpdateFailure_contract m, RICcontrolFailure_contract m others, E2setupFailure_contract m others, E2nodeConfigurationUpdateFailure_contract m, E2connectionUpdateFailure_contract m, E2setupFailure_contract m others, RICsubscriptionFailure_contract m, RICsubscriptionDeleteFailure_contract m, RICcontrolFailure_contract m others]"
  asn_SPC_UnsuccessfulOutcome_specs "asn_DEF_ProcedureCode (ideal_env m)" "asn_DEF_Criticality (ideal_env m)" "Some (value_only asn_PER_memb_procedureCode_constr)" "Some (value_only asn_PER_memb_criticality_constr)"
  "Some unconstrained" "type_column 2 asn_IOS_E2AP_ELEMENTARY_PROCEDURES" select_UnsuccessfulOutcome_criticality_type
  "\<lambda>ph. cwn_bits ph (lower_bound asn_PER_memb_procedureCode_constr) (upper_bound asn_PER_memb_procedureCode_constr)" "aper_number_ok None asn_PER_memb_procedureCode_constr"
  "enum_contract asn_SPC_Criticality_specs asn_PER_memb_criticality_constr" for m others
  by unfold_locales (simp_all add: asn_MBR_UnsuccessfulOutcome__value_def asn_SPC_UnsuccessfulOutcome_specs_def codecs number_contract_def [symmetric])

definition UnsuccessfulOutcome_contract :: "memory \<Rightarrow> (string \<Rightarrow> asn_codec) \<Rightarrow> contract" where
  "UnsuccessfulOutcome_contract m others = UnsuccessfulOutcome.contract m others"

lemma UnsuccessfulOutcome_codec [codecs]: "codec_ok (asn_DEF_UnsuccessfulOutcome others (ideal_env m)) cs (UnsuccessfulOutcome_contract m others)"
  unfolding asn_DEF_UnsuccessfulOutcome_def asn_MBR_UnsuccessfulOutcome_def asn_DEF_UnsuccessfulOutcome__value_def select_UnsuccessfulOutcome_value_type_def UnsuccessfulOutcome_contract_def by (rule UnsuccessfulOutcome.codec)

interpretation E2AP_PDU: plain_choice "ideal_env m" asn_SPC_E2AP_PDU_specs asn_PER_type_E2AP_PDU_constr "asn_MBR_E2AP_PDU others (ideal_env m)"
  "[InitiatingMessage_contract m others, SuccessfulOutcome_contract m others, UnsuccessfulOutcome_contract m others]" for m others
  by unfold_locales (simp_all add: asn_SPC_E2AP_PDU_specs_def asn_PER_type_E2AP_PDU_constr_def asn_MBR_E2AP_PDU_def codecs)

definition E2AP_PDU_contract :: "memory \<Rightarrow> (string \<Rightarrow> asn_codec) \<Rightarrow> contract" where
  "E2AP_PDU_contract m others = E2AP_PDU.contract others m"

lemma E2AP_PDU_codec [codecs]: "codec_ok (asn_DEF_E2AP_PDU others (ideal_env m)) None (E2AP_PDU_contract m others)"
  unfolding asn_DEF_E2AP_PDU_def E2AP_PDU_contract_def value_only_def by (rule E2AP_PDU.codec)

end
