(* ===== verification/Asn_Integer_Properties.thy ===== *)
theory Asn_Integer_Properties
  imports Asn_Integer_Laws
begin

unbundle bit_operations_syntax

text \<open>
  The properties of \<open>INTEGER_t\<close>: its octets and native numbers convert into each other, decimal
  text is parsed with an exact range check, and how two values compare.
\<close>

text \<open>
  C34. The octets of an \<open>INTEGER_t\<close>, any number of them and in any form, are converted to the signed
  number they stand for in two's complement when that is a 64-bit number, and refused with
  \<open>ERANGE\<close> otherwise; the conversion reads no octet outside the buffer.
\<close>
theorem asn_INTEGER2imax_value:
  "asn_INTEGER2imax (Some (Some bs)) =
    Some (if LLONG_MIN \<le> twos bs \<and> twos bs \<le> LLONG_MAX then Inr (twos bs) else Inl ERANGE)"
  by (rule asn_INTEGER2imax_twos)

text \<open>
  C35. A native number is stored as octets that convert back to it, at most eight of them, and no
  other octets that stand for the number are fewer.
\<close>
theorem asn_imax2INTEGER_roundtrip:
  assumes "LLONG_MIN \<le> v" and "v \<le> LLONG_MAX"
  shows "\<exists>bs. asn_imax2INTEGER True (Some st) v = Inr (Some bs) \<and> bs \<noteq> [] \<and> length bs \<le> 8 \<and>
    asn_INTEGER2imax (Some (Some bs)) = Some (Inr v) \<and>
    (\<forall>as. as \<noteq> [] \<and> asn_INTEGER2imax (Some (Some as)) = Some (Inr v) \<longrightarrow> length bs \<le> length as)"
proof -
  note o = imax_octets_simps(4) [OF assms]
  have "length (imax_octets v) \<le> length as"
    if "as \<noteq> []" "asn_INTEGER2imax (Some (Some as)) = Some (Inr v)" for as
  proof (rule shortest_least [OF imax_octets_simps(1) that(1)])
    show "twos as = twos (imax_octets v)" using that(2) o by (auto simp: asn_INTEGER2imax_twos split: if_splits)
  qed
  then show ?thesis
    using assms o imax_octets_simps(2,3) [of v] by (auto simp: asn_imax2INTEGER_octets asn_INTEGER2imax_twos)
qed

lemma asn_imax2INTEGER_roundtrip_witness:
  "\<exists>bs. asn_imax2INTEGER True (Some None) (- 300) = Inr (Some bs) \<and>
    asn_INTEGER2imax (Some (Some bs)) = Some (Inr (- 300))"
  using asn_imax2INTEGER_roundtrip [of "- 300" None] by (auto simp: LLONG_MIN_def LLONG_MAX_def)

text \<open>
  C36. Every unsigned 64-bit number survives \<open>asn_umax2INTEGER\<close> and \<open>asn_INTEGER2umax\<close>. The
  variant \<open>asn_ulong2INTEGER\<close> stores it as a signed one: the numbers of the last \<open>2 ^ 55\<close> lose octets
  and do not come back.
\<close>
theorem asn_umax2INTEGER_roundtrip:
  "\<exists>bs. asn_umax2INTEGER True (Some st) v = Some (Inr (Some bs)) \<and>
    asn_INTEGER2umax (Some (Some bs)) = Inr v \<and>
    (2 ^ 64 - 2 ^ 55 \<le> uint v \<longrightarrow>
      (\<exists>cs. asn_ulong2INTEGER True (Some st) v = Inr (Some cs) \<and> asn_INTEGER2ulong (Some (Some cs)) \<noteq> Inr v))"
proof -
  have u: "0 \<le> uint v" "uint v < 2 ^ 64" using uint_lt2p [of v] by simp_all
  have max: "v \<le> drop_bit 1 (- 1) \<longleftrightarrow> uint v < 2 ^ 63"
  proof -
    have "uint (drop_bit 1 (- 1 :: u64)) = 2 ^ 63 - 1" by (simp add: unsigned_drop_bit_eq unsigned_minus_1_eq_mask mask_eq_exp_minus_1)
    then show ?thesis unfolding word_le_def by linarith
  qed
  note sint = sint_u64 [of v]
  have "\<exists>bs. asn_umax2INTEGER True (Some st) v = Some (Inr (Some bs)) \<and> asn_INTEGER2umax (Some (Some bs)) = Inr v"
  proof (cases "uint v < 2 ^ 63")
    case True
    have "twos (imax_octets (uint v)) = uint v"
      by (rule imax_octets_simps(4)) (use True uint_ge_0 [of v] in \<open>simp_all add: LLONG_MIN_def LLONG_MAX_def order_trans [of _ 0]\<close>)
    then have "unsigned_value (imax_octets (uint v)) = uint v" using twos_unsigned [of "imax_octets (uint v)"] u by simp
    then show ?thesis
      using True u max sint by (simp add: asn_umax2INTEGER_def asn_imax2INTEGER_octets asn_INTEGER2umax_value)
  next
    case False
    have "unsigned_value (0 # be_octets 8 (uint v)) = uint v"
      using u by (simp only: unsigned_value_def bits_val_octets_Cons bytes_bits_be_octets bits_val_val_bits)
        (simp add: take_bit_int_eq_self)
    then show ?thesis using False u max by (simp add: asn_umax2INTEGER_def asn_INTEGER2umax_value)
  qed
  moreover have "\<exists>cs. asn_ulong2INTEGER True (Some st) v = Inr (Some cs) \<and> asn_INTEGER2ulong (Some (Some cs)) \<noteq> Inr v"
    if big: "2 ^ 64 - 2 ^ 55 \<le> uint v"
  proof -
    let ?cs = "imax_octets (sint v)"
    have neg: "sint v = uint v - 2 ^ 64" using sint big by simp
    have t: "twos ?cs = sint v"
      using neg big u by (intro imax_octets_simps(4)) (simp_all add: LLONG_MIN_def LLONG_MAX_def)
    have "length ?cs \<le> 7"
    proof (rule ccontr)
      assume "\<not> length ?cs \<le> 7"
      then have "length ?cs = 8" using imax_octets_simps(3) [of "sint v"] by simp
      then show False using shortest_bounds [OF imax_octets_simps(1), of "sint v"] t neg big u by simp
    qed
    then have "(2::int) ^ (8 * length ?cs) \<le> 2 ^ 56" by (intro power_increasing) auto
    then have less: "unsigned_value ?cs < 2 ^ 56"
      using bits_val_octets_less [of ?cs] unfolding unsigned_value_def by linarith
    moreover have "0 \<le> unsigned_value ?cs" by (simp add: unsigned_value_def)
    ultimately have "uint (word_of_int (unsigned_value ?cs) :: u64) = unsigned_value ?cs"
      by (simp add: unsigned_of_int take_bit_int_eq_self)
    then have "word_of_int (unsigned_value ?cs) \<noteq> v" using less big by auto
    moreover have "asn_INTEGER2ulong (Some (Some ?cs)) = Inr (word_of_int (unsigned_value ?cs))"
      using less by (simp add: asn_INTEGER2ulong_def asn_INTEGER2umax_value not_less)
    ultimately show ?thesis by (simp add: asn_ulong2INTEGER_def asn_imax2INTEGER_octets)
  qed
  ultimately show ?thesis by blast
qed

lemma asn_umax2INTEGER_roundtrip_witness:
  "\<exists>cs. asn_ulong2INTEGER True (Some None) (- 1) = Inr (Some cs) \<and> asn_INTEGER2ulong (Some (Some cs)) \<noteq> Inr (- 1)"
  using asn_umax2INTEGER_roundtrip [of None "- 1"] by (auto simp: unsigned_minus_1_eq_mask mask_eq_exp_minus_1)

text \<open>
  C37. A decimal number with an optional sign, followed by the end of the text or by something that
  is not a digit, is parsed to its value exactly when that is a 64-bit number, leading zeros and
  both ends of the range included, and reported as out of range otherwise. No step overflows.
\<close>
theorem asn_strtoimax_lim_decimal:
  assumes "sg = [] \<or> sg = [0x2B] \<or> sg = [0x2D]" and "ds \<noteq> []" and "\<forall>c\<in>set ds. is_digit c"
    and "tail = [] \<or> \<not> is_digit (hd tail)"
    and "n = (if sg = [0x2D] then - decimal_value ds else decimal_value ds)"
  shows "if LLONG_MIN \<le> n \<and> n \<le> LLONG_MAX
    then asn_strtoimax_lim (sg @ ds @ tail) =
      Some (if tail = [] then ASN_STRTOX_OK else ASN_STRTOX_EXTRA_DATA, length sg + length ds, Some n)
    else \<exists>pos. asn_strtoimax_lim (sg @ ds @ tail) = Some (ASN_STRTOX_ERROR_RANGE, pos, None)"
proof -
  define sign :: int where "sign = (if sg = [0x2D] then - 1 else 1)"
  define ldm where "ldm = (if sg = [0x2D] then LLONG_MAX mod 10 + 1 else LLONG_MAX mod 10)"
  define limit where "limit = (if sg = [0x2D] then LLONG_MAX + 1 else LLONG_MAX)"
  have n: "n = sign * decimal_value ds" using assms(5) by (simp add: sign_def)
  have pos: "0 \<le> decimal_value ds" using decimal_step_le [OF assms(3), of 0] by (simp add: decimal_value_def)
  have range: "LLONG_MIN \<le> n \<and> n \<le> LLONG_MAX \<longleftrightarrow> decimal_value ds \<le> limit"
    using pos by (auto simp: n sign_def limit_def LLONG_MIN_def LLONG_MAX_def)
  obtain c cs where ds: "ds = c # cs" using assms(2) by (cases ds) auto
  have "is_digit c" using assms(3) ds by simp
  then have c: "c \<noteq> 0x2D" "c \<noteq> 0x2B" by (auto simp: is_digit_def)
  have start: "asn_strtoimax_lim (sg @ ds @ tail) = strtoimax_loop (ds @ tail) (length sg) sign ldm 0"
    using assms(1) c by (auto simp: asn_strtoimax_lim_def sign_def ldm_def ds simp del: strtoimax_loop.simps)
  have "sign = 1 \<and> ldm = LLONG_MAX mod 10 \<and> limit = LLONG_MAX \<or>
      sign = - 1 \<and> ldm = LLONG_MAX mod 10 + 1 \<and> limit = LLONG_MAX + 1"
    by (simp add: sign_def ldm_def limit_def)
  from strtoimax_loop_value [OF this assms(4,3), of 0 "length sg"] show ?thesis
    unfolding start range unfolding n decimal_value_def by (simp add: LLONG_MAX_def)
qed

lemma asn_strtoimax_lim_decimal_witness:
  "asn_strtoimax_lim [0x2D, 0x34, 0x32, 0x20] = Some (ASN_STRTOX_EXTRA_DATA, 3, Some (- 42))"
  using asn_strtoimax_lim_decimal [of "[0x2D]" "[0x34, 0x32]" "[0x20]" "- 42"]
  by (simp add: is_digit_def decimal_value_def digit_of_def LLONG_MIN_def LLONG_MAX_def)

text \<open>
  C38. Two values in their shortest form compare by size, except that negative numbers of the same
  number of octets compare the wrong way round.
\<close>
theorem INTEGER_compare_shortest:
  assumes "shortest as" and "shortest bs" and "as \<noteq> []" and "bs \<noteq> []"
  shows "\<exists>r. INTEGER_compare (Some (Some as)) (Some (Some bs)) = Some r \<and>
    (if twos as < 0 \<and> twos bs < 0 \<and> length as = length bs then sgn r = sgn (twos bs - twos as)
     else sgn r = sgn (twos as - twos bs))"
proof -
  obtain a as' b bs' where ab: "as = a # as'" "bs = b # bs'" using assms(3,4) by (cases as; cases bs) auto
  have signs: "octet_sign a = (if twos as < 0 then - 1 else 1)" "octet_sign b = (if twos bs < 0 then - 1 else 1)"
    by (simp_all add: ab octet_sign_sint twos_sign del: twos.simps)
  consider (differ) "(twos as < 0) \<noteq> (twos bs < 0)" | (short) "(twos as < 0) = (twos bs < 0)" "length as < length bs"
    | (long) "(twos as < 0) = (twos bs < 0)" "length bs < length as"
    | (same) "(twos as < 0) = (twos bs < 0)" "length as = length bs" by linarith
  then show ?thesis
  proof cases
    case differ
    then show ?thesis using signs
      by (auto simp: INTEGER_compare_def INTEGER_size_def INTEGER_first_def ab sgn_if simp del: twos.simps)
  next
    case short
    then show ?thesis using signs shorter_smaller [OF assms(1,2,3) short(2,1)]
      by (auto simp: INTEGER_compare_def INTEGER_size_def INTEGER_first_def ab sgn_if simp del: twos.simps split: if_splits)
  next
    case long
    then show ?thesis using signs shorter_smaller [OF assms(2,1,4) long(2)]
      by (auto simp: INTEGER_compare_def INTEGER_size_def INTEGER_first_def ab sgn_if simp del: twos.simps split: if_splits)
  next
    case same
    have "twos as = unsigned_value as - (if twos as < 0 then 2 ^ (8 * length as) else 0)"
        "twos bs = unsigned_value bs - (if twos bs < 0 then 2 ^ (8 * length bs) else 0)"
      by (simp_all only: ab twos_unsigned_value [symmetric] twos_sign list.size add_0_right add_Suc_right)
    then have "twos as - twos bs = unsigned_value as - unsigned_value bs"
      unfolding same(2) using same(1) by presburger
    then have "memcmp_sign as bs = sgn (twos as - twos bs)"
      using memcmp_sign_value [OF same(2)] by (simp add: unsigned_value_def)
    moreover have "- sgn (x - y) = sgn (y - x)" for x y :: int by (simp add: sgn_if)
    ultimately show ?thesis using signs same
      by (auto simp: INTEGER_compare_def INTEGER_size_def INTEGER_first_def ab simp del: twos.simps memcmp_sign.simps)
  qed
qed

lemma INTEGER_compare_shortest_witness:
  "\<exists>r. INTEGER_compare (Some (Some [0xFF])) (Some (Some [0xFE])) = Some r \<and> sgn r = - 1"
  using INTEGER_compare_shortest [of "[0xFF]" "[0xFE]"] by (auto simp: shortest_def)

end
