(* ===== verification/Integer_Uper_Properties.thy ===== *)
theory Integer_Uper_Properties
  imports Integer_Uper_Laws Uper_Support_Properties Asn_Integer_Properties
begin

unbundle bit_operations_syntax

text \<open>
  \<open>INTEGER\<close> in the unaligned packed encoding, from value to octets and back: with bounds, where
  the offset takes a fixed number of bits, and without, where any number of octets is sent in
  fragments.
\<close>

text \<open>
  C39. A signed \<open>INTEGER\<close> with bounds and no extension: a value between the bounds is encoded as
  its offset in the bits of the range, and decoded as the shortest octets of the same number; a
  value outside the bounds is refused and nothing is written.
\<close>
theorem INTEGER_uper_constrained_roundtrip:
  assumes "flags c = APC_CONSTRAINED" and "range_bits c = int n" and "n \<le> 64"
    and "imax_bounds (lower_bound c) (upper_bound c)" and "upper_bound c - lower_bound c < 2 ^ n"
    and "\<not> is_unsigned specs" and "bs \<noteq> []" and "asn_INTEGER2imax (Some (Some bs)) = Some (Inr v)"
    and "po_wf po" and "po_output po = encode_to_buffer_cb"
    and "\<not> overflows buffer_view po (val_bits n (v - lower_bound c))"
  shows "if lower_bound c \<le> v \<and> v \<le> upper_bound c
    then (\<exists>po'. INTEGER_encode_uper specs (Some c) None (Some (Some bs)) po = Some (0, po') \<and>
        emits buffer_view po (val_bits n (v - lower_bound c)) po') \<and>
      (\<forall>pd fresh sptr. pd_at pd (val_bits n (v - lower_bound c)) \<longrightarrow>
        (\<exists>pd'. INTEGER_decode_uper (\<lambda>_. True) fresh specs (Some c) None sptr pd =
            Some (RC_OK, Some (Some (imax_octets v)), pd') \<and> pd_took pd n pd'))
    else INTEGER_encode_uper specs (Some c) None (Some (Some bs)) po = Some (- 1, po)"
proof -
  have b: "uper_bounded c n" using assms(2-5) by (simp add: uper_bounded_def)
  note enc = INTEGER_encode_uper_bounded [OF assms(1) b assms(6-8)]
  show ?thesis
  proof (cases "lower_bound c \<le> v \<and> v \<le> upper_bound c")
    case False
    then show ?thesis by (simp only: enc if_False)
  next
    case True
    let ?bits = "val_bits n (v - lower_bound c)"
    have v: "lower_bound c \<le> v" "v \<le> upper_bound c" using True by auto
    have "puts buffer_view po ?bits (uper_put_constrained_whole_number_u po (word_of_int (v - lower_bound c)) (int n))"
      using buffer.puts_uper_cwn [OF assms(9,10), of n "word_of_int (v - lower_bound c)"]
      by (simp only: uint_offset [OF assms(4) v])
    then have "puts buffer_view po ?bits (INTEGER_encode_uper specs (Some c) None (Some (Some bs)) po)"
      using v by (simp only: enc simp_thms if_True puts_last)
    then show ?thesis
      using INTEGER_decode_uper_bounded [OF assms(1) b assms(6) v] True assms(11) by (auto simp: puts_def)
  qed
qed

definition example_constraint :: asn_per_constraint where
  "example_constraint = \<lparr>flags = APC_CONSTRAINED, range_bits = 12, effective_bits = 12,
    lower_bound = - 5, upper_bound = 4000\<rparr>"

lemma INTEGER_uper_constrained_roundtrip_witness:
  "\<exists>po'. INTEGER_encode_uper None (Some example_constraint) None (Some (Some [0x01, 0x00])) (fresh_writer 2) = Some (0, po') \<and>
    emits buffer_view (fresh_writer 2) (val_bits 12 261) po'"
proof -
  have v: "asn_INTEGER2imax (Some (Some [0x01, 0x00])) = Some (Inr 256)"
    by (simp add: asn_INTEGER2imax_twos bytes_bits_Cons bits_val_byte_bits LLONG_MIN_def LLONG_MAX_def)
  show ?thesis
    using INTEGER_uper_constrained_roundtrip [of example_constraint 12 None "[0x01, 0x00]" 256 "fresh_writer 2"] v
    by (auto simp: example_constraint_def is_unsigned_def imax_bounds_def LLONG_MIN_def LLONG_MAX_def)
qed

text \<open>
  C40. An \<open>INTEGER\<close> without constraints: the octets of any value, however many, are encoded in the
  fragments of X.691 and decoded as the same octets, also at the multiples of 16384 octets where an
  empty fragment closes the encoding; the decoder ends.
\<close>
theorem INTEGER_uper_unconstrained_roundtrip:
  assumes "bs \<noteq> []" and "po_wf po" and "po_output po = encode_to_buffer_cb"
    and "\<not> overflows buffer_view po (fragment_bits bs)"
  shows "(\<exists>po'. INTEGER_encode_uper specs None None (Some (Some bs)) po = Some (0, po') \<and>
      emits buffer_view po (fragment_bits bs) po') \<and>
    (\<forall>pd fresh sptr. pd_at pd (fragment_bits bs) \<longrightarrow>
      (\<exists>pd'. INTEGER_decode_uper (\<lambda>_. True) fresh specs None None sptr pd = Some (RC_OK, Some (Some bs), pd') \<and>
        pd_took pd (length (fragment_bits bs)) pd'))"
proof -
  have "puts buffer_view po (fragment_bits bs) (uper_put_fragments po bs)"
    using buffer.uper.puts_fragments assms(1-3) by blast
  then have enc: "\<exists>po'. INTEGER_encode_uper specs None None (Some (Some bs)) po = Some (0, po') \<and>
      emits buffer_view po (fragment_bits bs) po'"
    using assms(1,4) by (auto simp: INTEGER_encode_uper_def encode_uper_value_def puts_def)
  have "\<exists>pd'. INTEGER_decode_uper (\<lambda>_. True) fresh specs None None sptr pd = Some (RC_OK, Some (Some bs), pd') \<and>
      pd_took pd (length (fragment_bits bs)) pd'"
    if "pd_at pd (fragment_bits bs)" for pd fresh sptr
    using uper.gets_fragments [OF TrueI that, of "\<lambda>_. True" 3 None]
    by (cases sptr) (auto simp: INTEGER_decode_uper_def decode_uper_value_def Let_def)
  with enc show ?thesis by blast
qed

lemma INTEGER_uper_unconstrained_roundtrip_witness:
  "\<exists>po'. INTEGER_encode_uper None None None (Some (Some [1, 2, 3])) (fresh_writer 4) = Some (0, po') \<and>
    emits buffer_view (fresh_writer 4) (fragment_bits [1, 2, 3]) po'"
  using INTEGER_uper_unconstrained_roundtrip [of "[1, 2, 3]" "fresh_writer 4" None]
  by (auto simp: fragment_bits.simps length_length_bits length_units_def)

end
