(* ===== verification/Integer_Aper_Properties.thy ===== *)
theory Integer_Aper_Properties
  imports Integer_Aper_Laws Integer_Uper_Properties
begin

unbundle bit_operations_syntax

text \<open>
  \<open>INTEGER\<close> in the aligned packed encoding, which is the one E2AP uses: with bounds, where the
  offset is a constrained whole number, and without, where any number of octets is sent in
  fragments; and the constraints under which encoder and decoder do not agree.
\<close>

text \<open>
  C8. A signed \<open>INTEGER\<close> with bounds and no extension: a value between the bounds is encoded as
  X.691 prescribes for a constrained whole number and decoded as the shortest octets of the same
  number, for every range a \<open>long\<close> can hold; a value outside the bounds is refused and nothing is
  written. Ranges of 129 to 255 values are decoded only at an octet boundary.
\<close>
theorem INTEGER_aper_constrained_roundtrip:
  assumes "flags c = APC_CONSTRAINED" and "bounded c"
    and "LLONG_MIN \<le> lower_bound c" and "upper_bound c \<le> LLONG_MAX"
    and "\<not> is_unsigned specs" and "bs \<noteq> []" and "asn_INTEGER2imax (Some (Some bs)) = Some (Inr v)"
    and "po_wf po" and "po_output po = encode_to_buffer_cb"
    and "\<not> overflows buffer_view po (cwn_bits (po_nboff po) (lower_bound c) (upper_bound c) v)"
  shows "if lower_bound c \<le> v \<and> v \<le> upper_bound c
    then (\<exists>po'. INTEGER_encode_aper specs (Some c) None (Some (Some bs)) po = Some (0, po') \<and>
        emits buffer_view po (cwn_bits (po_nboff po) (lower_bound c) (upper_bound c) v) po') \<and>
      (\<forall>pd fresh sptr. pd_at pd (cwn_bits (po_nboff po) (lower_bound c) (upper_bound c) v) \<and>
          pd_nboff pd mod 8 = po_nboff po mod 8 \<and>
          (range_bits c = 8 \<longrightarrow> upper_bound c - lower_bound c = 255 \<or> pd_nboff pd mod 8 = 0) \<longrightarrow>
        (\<exists>pd'. INTEGER_decode_aper (\<lambda>_. True) fresh specs (Some c) None sptr pd =
            Some (RC_OK, Some (Some (imax_octets v)), pd') \<and>
          pd_took pd (length (cwn_bits (po_nboff po) (lower_bound c) (upper_bound c) v)) pd'))
    else INTEGER_encode_aper specs (Some c) None (Some (Some bs)) po = Some (- 1, po)"
proof (cases "lower_bound c \<le> v \<and> v \<le> upper_bound c")
  case False
  then show ?thesis using INTEGER_encode_aper_bounded [OF assms(1,2,5,6,7)] by (simp only: if_False)
next
  case True
  let ?bits = "cwn_bits (po_nboff po) (lower_bound c) (upper_bound c) v"
  have v: "lower_bound c \<le> v" "v \<le> upper_bound c" using True by auto
  have "puts buffer_view po ?bits (INTEGER_encode_aper specs (Some c) None (Some (Some bs)) po)"
    using buffer.puts_offset [OF assms(8,9,2) refl refl v] v
    by (simp only: INTEGER_encode_aper_bounded [OF assms(1,2,5,6,7)] simp_thms if_True)
  moreover have "\<exists>pd'. INTEGER_decode_aper (\<lambda>_. True) fresh specs (Some c) None sptr pd =
      Some (RC_OK, Some (Some (imax_octets v)), pd') \<and> pd_took pd (length ?bits) pd'"
    if at: "pd_at pd ?bits" "pd_nboff pd mod 8 = po_nboff po mod 8"
      "range_bits c = 8 \<longrightarrow> upper_bound c - lower_bound c = 255 \<or> pd_nboff pd mod 8 = 0" for pd fresh sptr
  proof -
    have "cwn_bits (pd_nboff pd) (lower_bound c) (upper_bound c) v = ?bits" using at(2) by (metis cwn_bits_mod)
    then show ?thesis using INTEGER_decode_aper_bounded [OF assms(1,2,5,3,4) v, of pd] at(1,3) by simp
  qed
  ultimately show ?thesis using True assms(10) by (auto simp: puts_def)
qed

lemma bounded_example: "bounded example_constraint"
  using digits_unique [of 1 4005 12]
  by (simp add: bounded_def example_constraint_def long_range_def LLONG_MAX_def)

lemma INTEGER_aper_constrained_roundtrip_witness:
  "\<exists>po'. INTEGER_encode_aper None (Some example_constraint) None (Some (Some [0x01, 0x00])) (fresh_writer 2) = Some (0, po') \<and>
    emits buffer_view (fresh_writer 2) (val_bits 16 261) po'"
proof -
  have v: "asn_INTEGER2imax (Some (Some [0x01, 0x00])) = Some (Inr 256)"
    by (simp add: asn_INTEGER2imax_twos bytes_bits_Cons bits_val_byte_bits LLONG_MIN_def LLONG_MAX_def)
  have bits: "cwn_bits (po_nboff (fresh_writer 2)) (- 5) 4000 256 = val_bits 16 261"
    by (simp add: cwn_bits_def)
  show ?thesis
    using INTEGER_aper_constrained_roundtrip [of example_constraint None "[0x01, 0x00]" 256 "fresh_writer 2"] v
      bounded_example bits
    by (auto simp: example_constraint_def is_unsigned_def LLONG_MIN_def LLONG_MAX_def)
qed

text \<open>
  C23. An \<open>INTEGER\<close> without constraints: after alignment the octets of any value, however many,
  are encoded in the fragments of X.691 and decoded as the same octets; the decoder ends.
\<close>
theorem INTEGER_aper_unconstrained_roundtrip:
  assumes "bs \<noteq> []" and "po_wf po" and "po_output po = encode_to_buffer_cb"
    and "\<not> overflows buffer_view po (align_pad (po_nboff po) @ fragment_bits bs)"
  shows "(\<exists>po'. INTEGER_encode_aper specs None None (Some (Some bs)) po = Some (0, po') \<and>
      emits buffer_view po (align_pad (po_nboff po) @ fragment_bits bs) po') \<and>
    (\<forall>pd fresh sptr. pd_at pd (align_pad (pd_nboff pd) @ fragment_bits bs) \<longrightarrow>
      (\<exists>pd'. INTEGER_decode_aper (\<lambda>_. True) fresh specs None None sptr pd = Some (RC_OK, Some (Some bs), pd') \<and>
        pd_took pd (length (align_pad (pd_nboff pd) @ fragment_bits bs)) pd'))"
proof -
  have "puts buffer_view po (align_pad (po_nboff po) @ fragment_bits bs) (aper_put_fragments po bs)"
    using buffer.puts_aper_fragments assms(1-3) by blast
  then have enc: "\<exists>po'. INTEGER_encode_aper specs None None (Some (Some bs)) po = Some (0, po') \<and>
      emits buffer_view po (align_pad (po_nboff po) @ fragment_bits bs) po'"
    using assms(1,4) by (auto simp: INTEGER_encode_aper_def encode_aper_value_def puts_def)
  have "\<exists>pd'. INTEGER_decode_aper (\<lambda>_. True) fresh specs None None sptr pd = Some (RC_OK, Some (Some bs), pd') \<and>
      pd_took pd (length (align_pad (pd_nboff pd) @ fragment_bits bs)) pd'"
    if "pd_at pd (align_pad (pd_nboff pd) @ fragment_bits bs)" for pd fresh sptr
    using gets_aper_fragments [OF that, of "\<lambda>_. True" 3 None]
    by (cases sptr) (auto simp: INTEGER_decode_aper_def decode_aper_value_def decode_aper_unbounded_def Let_def)
  with enc show ?thesis by blast
qed

lemma INTEGER_aper_unconstrained_roundtrip_witness:
  "\<exists>po'. INTEGER_encode_aper None None None (Some (Some [1, 2, 3])) (fresh_writer 4) = Some (0, po') \<and>
    emits buffer_view (fresh_writer 4) (fragment_bits [1, 2, 3]) po'"
  using INTEGER_aper_unconstrained_roundtrip [of "[1, 2, 3]" "fresh_writer 4" None]
  by (auto simp: fragment_bits.simps length_length_bits length_units_def)

text \<open>
  Ranges of 129 to 255 values: the encoder writes the eight bits where it stands, as X.691 says, and
  the decoder aligns first. Away from an octet boundary it skips a part of the field and runs out of
  data, or reads bits of the next field.
\<close>

lemma INTEGER_aper_eight_bits_starved:
  assumes "flags c = APC_CONSTRAINED" and "range_bits c = 8" and "pd_wf pd"
    and phase: "pd_nboff pd mod 8 \<noteq> 0" and rest: "pd_rest pd = val_bits 8 v"
  shows "\<exists>pd'. INTEGER_decode_aper (\<lambda>_. True) fresh specs (Some c) None sptr pd =
    Some (RC_WMORE, Some (Some (fresh 1)), pd')"
proof -
  let ?n = "8 - pd_nboff pd mod 8"
  have n: "int ?n = 8 - int (pd_nboff pd mod 8)" "?n \<le> 7" "1 \<le> ?n" using phase by (simp_all add: of_nat_diff less_imp_le)
  obtain pd1 where al: "aper_get_align pd = Some (bits_val (take ?n (val_bits 8 v)), pd1)" "pd_took pd ?n pd1"
    using asn_get_few_bits_ok [of pd ?n] assms(3) n phase rest by (auto simp: aper_get_align_def)
  have "pd_wf pd1" "length (pd_rest pd1) < 8" using al(2) rest n(3) by (auto simp: pd_took_def)
  then have "asn_get_few_bits (int 8) pd1 = Some (- 1, pd1)" by (intro asn_get_few_bits_eof) simp_all
  then have "aper_get_offset 8 pd = Some (Inl RC_WMORE, pd1)"
    using al(1) by (simp add: aper_get_offset_def)
  then show ?thesis
    using assms(1,2) by (cases sptr) (auto simp: INTEGER_decode_aper_def decode_aper_value_def decode_aper_bounded_def
      Let_def APC_SEMI_CONSTRAINED_def APC_CONSTRAINED_def APC_EXTENSIBLE_def APC_UNCONSTRAINED_def)
qed

text \<open>
  A type with a lower bound only is refused by the decoder whatever the data, and accepted by the
  encoder when the bound is zero: the decoder takes every constraint for one with a range.
\<close>

lemma INTEGER_aper_semi_constrained_refused:
  assumes "flags c = APC_SEMI_CONSTRAINED" and "range_bits c = - 1" and "lower_bound c = 0"
  shows "INTEGER_decode_aper (\<lambda>_. True) fresh specs (Some c) None sptr pd = Some (RC_FAIL, Some (Some [0]), pd)"
    and "bs \<noteq> [] \<Longrightarrow> \<not> is_unsigned specs \<Longrightarrow> asn_INTEGER2imax (Some (Some bs)) = Some (Inr v) \<Longrightarrow> 0 \<le> v \<Longrightarrow>
      INTEGER_encode_aper specs (Some c) None (Some (Some bs)) po = aper_put_fragments po bs"
  using assms by (auto simp: INTEGER_decode_aper_def decode_aper_value_def decode_aper_bounded_def Let_def
      INTEGER_encode_aper_def encode_aper_value_def aper_root_check_def
      APC_SEMI_CONSTRAINED_def APC_EXTENSIBLE_def APC_UNCONSTRAINED_def split: option.splits)

end
