(* ===== verification/Per_Primitive_Properties.thy ===== *)
theory Per_Primitive_Properties
  imports E2ap_Tables Per_Primitive_Laws Integer_Aper_Properties
begin

unbundle bit_operations_syntax

text \<open>
  Values of the primitive types on their way through the packed encodings: in a message, in an
  open type, and as a complete encoding.
\<close>

section \<open>Enumerations\<close>

text \<open>
  C17. The decoders of a native \<open>ENUMERATED\<close> return a value of the type: on any data, with any
  constraint, in either variant, they end without undefined behaviour, and the number they store
  when they succeed is in the table; when they fail the target is what it was.
\<close>
theorem NativeEnumerated_decodes_table_values:
  assumes "pd_wf pd" and "enum_table specs" and "enum_constraint td_constraints constraints = Some c"
    and "target alloc 0 sptr = Some native"
  shows "(\<exists>code v pd'. NativeEnumerated_decode_aper alloc (Some specs) td_constraints constraints sptr pd =
      Some ((code, 0), Some v, pd') \<and> pd_wf pd' \<and>
      (if code = RC_OK then v \<in> nat_value ` set (value2enum specs) else v = native)) \<and>
    (\<exists>code v pd'. NativeEnumerated_decode_uper alloc (Some specs) td_constraints constraints sptr pd =
      Some ((code, 0), Some v, pd') \<and> pd_wf pd' \<and>
      (if code = RC_OK then v \<in> nat_value ` set (value2enum specs) else v = native))"
  using reads_enum_decode [where cont = enum_get_aper and c = c, OF assms(1) reads_enum_get(1) [OF _ assms(2)] assms(4)]
    reads_enum_decode [where cont = enum_get_uper and c = c, OF assms(1) reads_enum_get(2) [OF _ assms(2)] assms(4)]
  by (simp add: NativeEnumerated_decode_aper_def NativeEnumerated_decode_uper_def assms(3))

lemma NativeEnumerated_decodes_table_values_witness:
  "(\<exists>code v pd'. NativeEnumerated_decode_aper True (Some asn_SPC_CauseRIC_specs) (Some asn_PER_type_CauseRIC_constr) None None
      \<lparr>pd_buffer = [0xFF, 0xFF], pd_nboff = 3, pd_nbits = 16, pd_moved = 3\<rparr> = Some ((code, 0), Some v, pd') \<and> pd_wf pd' \<and>
      (if code = RC_OK then v \<in> nat_value ` set (value2enum asn_SPC_CauseRIC_specs) else v = 0)) \<and>
    (\<exists>code v pd'. NativeEnumerated_decode_uper True (Some asn_SPC_CauseRIC_specs) (Some asn_PER_type_CauseRIC_constr) None None
      \<lparr>pd_buffer = [0xFF, 0xFF], pd_nboff = 3, pd_nbits = 16, pd_moved = 3\<rparr> = Some ((code, 0), Some v, pd') \<and> pd_wf pd' \<and>
      (if code = RC_OK then v \<in> nat_value ` set (value2enum asn_SPC_CauseRIC_specs) else v = 0))"
  by (rule NativeEnumerated_decodes_table_values)
    (simp_all add: pd_wf_def enum_table_def root_count_def asn_SPC_CauseRIC_specs_def asn_MAP_CauseRIC_value2enum_def
      enum_constraint_def target_def)

text \<open>Every enumeration of the tables satisfies what the codecs rely on.\<close>

lemma e2ap_enumerations_types:
  "list_all (\<lambda>(specs, c). enum_type specs c \<and> root_count specs = int (length (value2enum specs)) \<and>
    list_all (\<lambda>el. 0 \<le> nat_value el) (value2enum specs)) e2ap_enumerations"
  by (simp add: e2ap_enumerations_def enum_type_def root_count_def e2ap_specifics e2ap_constraints)

lemma e2ap_enumerations_ok:
  assumes "(specs, c) \<in> set e2ap_enumerations" and "v \<in> nat_value ` set (value2enum specs)"
  shows "enum_ok specs c v"
proof -
  have t: "enum_type specs c" "root_count specs = int (length (value2enum specs))" "list_all (\<lambda>el. 0 \<le> nat_value el) (value2enum specs)"
    using e2ap_enumerations_types assms(1) by (auto simp: list_all_iff)
  moreover have "0 \<le> v" using t(3) assms(2) by (auto simp: list_all_iff)
  moreover have "enum_pos specs v < root_count specs"
    using enum_index_found [OF assms(2), of "[]"] t(2) by (auto simp: enum_pos_def)
  ultimately show ?thesis using assms(2) by (simp add: enum_ok_def)
qed

text \<open>
  C28. The enumerations of E2AP in the aligned variant: every value of every one of the eighteen
  types is encoded as the bits X.691 prescribes, the bit of the extension first where the type has
  one, and decoded as the same value, wherever in an octet the field starts.
\<close>
theorem e2ap_enumerations_roundtrip:
  assumes "(specs, c) \<in> set e2ap_enumerations" and "v \<in> nat_value ` set (value2enum specs)"
    and "po_wf po" and "po_output po = encode_to_buffer_cb"
    and "\<not> overflows buffer_view po (enum_bits specs c (po_nboff po) (enum_pos specs v))"
  shows "(\<exists>po'. NativeEnumerated_encode_aper (Some specs) (Some c) None (Some v) po = Some (0, po') \<and>
      emits buffer_view po (enum_bits specs c (po_nboff po) (enum_pos specs v)) po') \<and>
    (\<forall>pd sptr. pd_at pd (enum_bits specs c (pd_nboff pd) (enum_pos specs v)) \<longrightarrow>
      (\<exists>k pd'. NativeEnumerated_decode_aper True (Some specs) (Some c) None sptr pd = Some ((RC_OK, k), Some v, pd') \<and>
        pd_took pd (length (enum_bits specs c (pd_nboff pd) (enum_pos specs v))) pd'))"
  using buffer.puts_enum [OF e2ap_enumerations_ok [OF assms(1,2)] assms(3,4)] assms(5)
    gets_enum [OF e2ap_enumerations_ok [OF assms(1,2)]]
  by (simp add: puts_def)

lemma e2ap_enumerations_roundtrip_witness:
  "\<exists>po'. NativeEnumerated_encode_aper (Some asn_SPC_RICtimeToWait_specs) (Some asn_PER_type_RICtimeToWait_constr) None
      (Some 17) (fresh_writer 1) = Some (0, po') \<and>
    emits buffer_view (fresh_writer 1) [False, True, False, False, False, True] po'"
proof -
  have mem: "(asn_SPC_RICtimeToWait_specs, asn_PER_type_RICtimeToWait_constr) \<in> set e2ap_enumerations"
    by (simp add: e2ap_enumerations_def)
  have v: "17 \<in> nat_value ` set (value2enum asn_SPC_RICtimeToWait_specs)"
    by (simp add: asn_SPC_RICtimeToWait_specs_def asn_MAP_RICtimeToWait_value2enum_def)
  have bits: "enum_bits asn_SPC_RICtimeToWait_specs asn_PER_type_RICtimeToWait_constr 0 (enum_pos asn_SPC_RICtimeToWait_specs 17) =
      [False, True, False, False, False, True]"
    by (simp add: enum_bits_def enum_pos_def root_count_def NativeEnumerated_compar_value2enum_def asn_SPC_RICtimeToWait_specs_def
      asn_MAP_RICtimeToWait_value2enum_def asn_PER_type_RICtimeToWait_constr_def APC_CONSTRAINED_def APC_EXTENSIBLE_def
      val_bits_def upt_rec)
  show ?thesis
    using e2ap_enumerations_roundtrip [OF mem v, of "fresh_writer 1"] by (simp add: bits)
qed

section \<open>Numbers as complete encodings\<close>

lemma length_cwn_bits:
  assumes "long_range lb ub" and "lb \<le> x" and "x \<le> ub"
  shows "length (cwn_bits ph lb ub x) < 2 ^ 64"
proof (cases "65536 \<le> ub - lb")
  case True
  note L = large_range [OF assms(1) True assms(2,3)]
  have "(8 - (ph + n) mod 8) mod 8 < (8::nat)" for n by simp
  then have "length (cwn_bits ph lb ub x) < 3 + 8 + 8 * 8"
    unfolding cwn_bits_large [OF True] Let_def using L(2,4,9) by (simp add: add_le_less_mono add_less_le_mono)
  then show ?thesis by simp
next
  case False
  have "(8 - ph mod 8) mod 8 < (8::nat)" by simp
  moreover have "ub - lb < 255 \<Longrightarrow> bit_width (ub - lb) \<le> 8" using bit_width_le [of "ub - lb" 8] assms(2,3) by simp
  ultimately have "length (cwn_bits ph lb ub x) \<le> 24" using False assms(2,3) by (auto simp: cwn_bits_def Let_def)
  then show ?thesis by simp
qed

text \<open>
  C19. A number as a complete encoding, from the encoder to a new buffer and back. The number is one
  that \<open>aper_number_ok\<close> describes: of a signed type whose constraint has both bounds and no
  extension, within these bounds, the number of values being a \<open>long\<close>, and with a field as wide as
  the range needs, of eight bits only where the range has exactly 256 values (all the numbers of E2AP
  are such). Then, when no allocation fails, the buffer is as long as reported, and \<open>aper_decode_complete\<close> finds the same number in it and consumes
  all of it.
\<close>
theorem aper_complete_number_roundtrip:
  assumes "aper_number_ok specs c v" and "length tmp = 32"
  shows "\<exists>buf tail. aper_encode_to_new_buffer (\<lambda>_. True) True tmp
        (Some (NativeInteger_encode_aper True specs (Some c) None (Some v))) = Some (int (length buf), Some (buf @ tail)) \<and>
      aper_decode_complete (Some (NativeInteger_decode_aper True (\<lambda>_. True) fresh specs (Some c) None)) sptr buf =
        Some ((RC_OK, length buf), Some v)"
proof -
  have "long_range (lower_bound c) (upper_bound c)" "lower_bound c \<le> v" "v \<le> upper_bound c"
    using assms(1) by (simp_all add: aper_number_ok_def number_ok_def bounded_def)
  then show ?thesis
    using native_aper.new_buffer [OF assms] native_aper.decode_complete [OF assms(1) _ length_cwn_bits] by simp blast
qed

text \<open>The numbers of E2AP are of this kind.\<close>

lemma e2ap_numbers_ok:
  assumes "c \<in> set e2ap_numbers" and "lower_bound c \<le> v" and "v \<le> upper_bound c"
  shows "aper_number_ok None c v"
proof -
  have "list_all (\<lambda>c. flags c = APC_CONSTRAINED \<and> LLONG_MIN \<le> lower_bound c \<and> upper_bound c \<le> LLONG_MAX \<and>
      (range_bits c = 8 \<longrightarrow> upper_bound c - lower_bound c = 255) \<and> bounded c) e2ap_numbers"
    using digits_unique [of 1 255 8] digits_unique [of 1 4095 12] digits_unique [of 1 65535 16]
    by (simp add: e2ap_numbers_def e2ap_constraints bounded_def long_range_def LLONG_MIN_def LLONG_MAX_def)
  then show ?thesis using assms by (auto simp: list_all_iff aper_number_ok_def number_ok_def is_unsigned_def)
qed

lemma aper_complete_number_roundtrip_witness:
  "\<exists>buf tail. aper_encode_to_new_buffer (\<lambda>_. True) True (replicate 32 0)
      (Some (NativeInteger_encode_aper True None (Some asn_PER_type_ProtocolIE_ID_constr) None (Some 29))) =
      Some (int (length buf), Some (buf @ tail)) \<and>
    aper_decode_complete (Some (NativeInteger_decode_aper True (\<lambda>_. True) (\<lambda>_. []) None (Some asn_PER_type_ProtocolIE_ID_constr) None))
      None buf = Some ((RC_OK, length buf), Some 29)"
  by (rule aper_complete_number_roundtrip, rule e2ap_numbers_ok)
    (simp_all add: e2ap_numbers_def asn_PER_type_ProtocolIE_ID_constr_def)

section \<open>Open types\<close>

text \<open>
  C25. Open types in both variants, for a number that \<open>aper_number_ok\<close> and \<open>uper_bounded\<close> describe:
  of a signed type whose constraint has both bounds and no extension, within these bounds, the
  number of values being a \<open>long\<close>, with a field as wide as the range needs, of eight bits only for
  exactly 256 values. When no allocation fails, the number is encoded on its own, its octets are written with
  their length, after alignment in the aligned variant, or \<open>-1\<close> is returned because they do not
  fit; and reading takes the same number out and stops behind it.
\<close>
theorem open_type_roundtrip:
  assumes "aper_number_ok specs c v" and "uper_bounded c n" and "length tmp = 32"
    and "po_wf po" and "po_output po = encode_to_buffer_cb"
  defines "abits \<equiv> aper_open_bits (po_nboff po) (cwn_bits 0 (lower_bound c) (upper_bound c) v)"
    and "ubits \<equiv> uper_open_bits (val_bits n (v - lower_bound c))"
  shows "puts buffer_view po abits (aper_open_type_put (\<lambda>_. True) True tmp
        (Some (NativeInteger_encode_aper True specs (Some c) None (Some v))) po) \<and>
      puts buffer_view po ubits (uper_open_type_put (\<lambda>_. True) True tmp
        (Some (NativeInteger_encode_uper True specs (Some c) None (Some v))) po) \<and>
      (\<forall>pd sptr. pd_at pd abits \<and> pd_nboff pd mod 8 = po_nboff po mod 8 \<longrightarrow>
        (\<exists>k pd'. aper_open_type_get (\<lambda>_. True) (NativeInteger_decode_aper True (\<lambda>_. True) fresh specs (Some c) None) sptr pd =
          Some ((RC_OK, k), Some v, pd') \<and> pd_took pd (length abits) pd')) \<and>
      (\<forall>pd sptr. pd_at pd ubits \<longrightarrow>
        (\<exists>k pd'. uper_open_type_get (\<lambda>_. True) (NativeInteger_decode_uper True (\<lambda>_. True) fresh specs (Some c) None) sptr pd =
          Some ((RC_OK, k), Some v, pd') \<and> pd_took pd (length ubits) pd'))"
proof -
  have u: "number_ok specs c v \<and> uper_bounded c n" using assms(1,2) by (simp add: aper_number_ok_def)
  have aligned: "\<exists>k pd'. aper_open_type_get (\<lambda>_. True) (NativeInteger_decode_aper True (\<lambda>_. True) fresh specs (Some c) None) sptr pd =
      Some ((RC_OK, k), Some v, pd') \<and> pd_took pd (length abits) pd'"
    if "pd_at pd abits" "pd_nboff pd mod 8 = po_nboff po mod 8" for pd sptr
  proof -
    have "abits = aper_open_bits (pd_nboff pd) (cwn_bits 0 (lower_bound c) (upper_bound c) v)"
      unfolding abits_def using that(2) by (metis aper_open_bits_mod)
    then show ?thesis using native_aper.aper_open_type_gets [OF assms(1), where pd = pd] that(1) by simp
  qed
  show ?thesis
    using native_aper.aper_open_type_puts [OF buffer.byte_sink_axioms assms(1,3,4,5)]
      native_uper.uper_open_type_puts [OF buffer.byte_sink_axioms u assms(3,4,5)]
      aligned native_uper.uper_open_type_gets [OF u, where fresh = fresh]
    unfolding abits_def ubits_def by simp
qed

lemma open_type_roundtrip_witness:
  "puts buffer_view (fresh_writer 3) (val_bits 24 (0x02 * 65536 + 29)) (aper_open_type_put (\<lambda>_. True) True (replicate 32 0)
    (Some (NativeInteger_encode_aper True None (Some asn_PER_type_ProtocolIE_ID_constr) None (Some 29))) (fresh_writer 3))"
proof -
  have ok: "aper_number_ok None asn_PER_type_ProtocolIE_ID_constr 29"
    by (rule e2ap_numbers_ok) (simp_all add: e2ap_numbers_def asn_PER_type_ProtocolIE_ID_constr_def)
  have u: "uper_bounded asn_PER_type_ProtocolIE_ID_constr 16"
    by (simp add: uper_bounded_def asn_PER_type_ProtocolIE_ID_constr_def imax_bounds_def LLONG_MIN_def LLONG_MAX_def)
  have octets: "complete_octets (val_bits 16 29) = [0, 29]"
    by (rule complete_octets_unique [symmetric])
      (simp add: padded_def octet_pad_def bytes_bits_Cons byte_bits_def val_bits_def upt_rec)
  have field: "cwn_bits 0 0 65535 29 = val_bits 16 29" by (simp add: cwn_bits_def)
  have "aper_open_bits 0 (cwn_bits 0 0 65535 29) = fragment_bits [0, 29]"
    by (simp only: aper_open_bits_def field octets) simp
  also have "\<dots> = val_bits 24 (0x02 * 65536 + 29)"
    by (simp add: fragment_bits.simps length_bits_def length_units_def bytes_bits_Cons byte_bits_def val_bits_def upt_rec)
  finally have bits: "aper_open_bits 0 (cwn_bits 0 0 65535 29) = val_bits 24 (0x02 * 65536 + 29)" .
  show ?thesis
    using open_type_roundtrip [OF ok u, of "replicate 32 0" "fresh_writer 3"]
    by (simp add: asn_PER_type_ProtocolIE_ID_constr_def bits)
qed

text \<open>
  The padding behind a value in an open type is read and not used: bits that are not zero are no
  error, although the code says that it checks them.
\<close>

lemma open_type_padding_not_checked:
  "open_type_decode (BOOLEAN_decode_aper True 0) None [0xFF] = Some ((RC_OK, 1), Some 1)"
  by code_simp

end
