(* ===== verification/E2ap_Messages_Properties.thy ===== *)
theory E2ap_Messages_Properties
  imports E2ap_Messages_Laws Per_Primitive_Properties
begin

unbundle bit_operations_syntax

text \<open>
  Messages of E2AP from end to end: the contract of the PDU as a property of complete encodings, and
  the octets of a subscription delete request.
\<close>

section \<open>Any message\<close>

lemma codec_ok_complete:
  assumes "codec_ok td cs k" and "snd k v" and "length tmp = 32" and "length (fst k 0 v) < 2 ^ 64"
  shows "\<exists>tail. aper_encode_to_new_buffer (\<lambda>_. True) True tmp (Some (aper_encoder td cs (Some v))) =
      Some (int (length (complete_octets (fst k 0 v))), Some (complete_octets (fst k 0 v) @ tail))"
    and "aper_decode_complete (Some (aper_decoder td cs)) None (complete_octets (fst k 0 v)) =
      Some ((RC_OK, length (complete_octets (fst k 0 v))), Some v)"
  using per_type.new_buffer [OF assms(1) [unfolded codec_ok_def] assms(2,3)]
    per_type.decode_complete [OF assms(1) [unfolded codec_ok_def] assms(2) _ assms(4), of None] by simp_all

section \<open>A subscription delete request\<close>

text \<open>The structures, as the connector fills them.\<close>

definition request_id :: "int \<Rightarrow> int \<Rightarrow> asn_value" where
  "request_id requestor inst = Fields [Some (Native requestor), Some (Native inst)]"

definition class_field :: "int \<Rightarrow> int \<Rightarrow> nat \<Rightarrow> asn_value \<Rightarrow> asn_value" where
  "class_field n criticality present v = Fields [Some (Native n), Some (Native criticality), Some (Choice present (Some v))]"

definition delete_request :: "int \<Rightarrow> int \<Rightarrow> int \<Rightarrow> asn_value" where
  "delete_request requestor inst function_id =
    Fields [Some (Elements [class_field 29 0 1 (request_id requestor inst), class_field 5 0 2 (Native function_id)])]"

definition delete_request_pdu :: "int \<Rightarrow> int \<Rightarrow> int \<Rightarrow> asn_value" where
  "delete_request_pdu requestor inst function_id =
    Choice 1 (Some (class_field 9 0 2 (delete_request requestor inst function_id)))"

definition octets_of :: "int \<Rightarrow> u8 list" where
  "octets_of n = [word_of_int (n div 256), word_of_int n]"

definition delete_request_octets :: "int \<Rightarrow> int \<Rightarrow> int \<Rightarrow> u8 list" where
  "delete_request_octets requestor inst function_id =
    [0x00, 0x00, 0x02,
     0x00, 0x1D, 0x00, 0x05, 0x00] @ octets_of requestor @ octets_of inst @
    [0x00, 0x05, 0x00, 0x02] @ octets_of function_id"

lemma bytes_bits_octets_of: "bytes_bits (octets_of n) = val_bits 16 n"
proof -
  have "octets_of n = be_octets 2 n"
    by (simp add: octets_of_def numeral_2_eq_2 drop_bit_eq_div)
  then show ?thesis by (simp add: bytes_bits_be_octets)
qed

lemma complete_octets_bytes: "bs \<noteq> [] \<Longrightarrow> complete_octets (bytes_bits bs) = bs"
  by (rule complete_octets_unique [symmetric]) (cases bs; simp add: padded_def octet_pad_def bytes_bits_Cons byte_bits_def upt_rec)

lemma number_simps [simp]:
  "snd (number_contract c) (Native n) = aper_number_ok None c n"
  "fst (number_contract c) ph (Native n) = cwn_bits ph (lower_bound c) (upper_bound c) n"
  "snd (enum_contract specs c) (Native n) = enum_ok specs c n"
  "fst (enum_contract specs c) ph (Native n) = enum_bits specs c ph (enum_pos specs n)"
  by (simp_all add: number_contract_def enum_contract_def native_contract_def)

lemma cwn_bits_16: "cwn_bits ph 0 65535 n = align_pad ph @ val_bits 16 n" "cwn_bits ph 0 4095 n = align_pad ph @ val_bits 16 n"
  by (simp_all add: cwn_bits_def)

lemma short_fragment:
  assumes "length bs \<le> 127"
  shows "fragment_bits bs = bytes_bits (word_of_nat (length bs) # bs)"
proof -
  let ?n = "int (length bs)"
  have "\<not> bit ?n 7" using assms by (simp add: bit_iff_odd)
  then have "val_bits 8 ?n = False # val_bits 7 ?n" by (simp add: val_bits_def upt_rec)
  then have "byte_bits (word_of_nat (length bs)) = False # val_bits 7 ?n"
    using byte_bits_word_of_int [of ?n] by simp
  then show ?thesis
    using assms by (subst fragment_bits.simps) (simp add: length_bits_def length_units_def bytes_bits_Cons)
qed

lemma request_id_bits:
  "fst (RICrequestID_contract m) 0 (request_id a b) = bytes_bits (0x00 # octets_of a @ octets_of b)"
proof -
  have "RICrequestID.seq_bits m 0 [Some (Native a), Some (Native b)] = [False] @ align_pad 1 @ val_bits 16 a @ val_bits 16 b"
    unfolding RICrequestID.seq_bits_def Let_def
    by (simp add: asn_SPC_RICrequestID_specs_def asn_MBR_RICrequestID_def presence_def upt_rec
      asn_PER_memb_RICrequestID_ricRequestorID_constr_def asn_PER_memb_RICrequestID_ricInstanceID_constr_def cwn_bits_16 align_pad_def)
  moreover have "replicate 8 False = False # replicate 7 False" by (simp add: numeral_eq_Suc)
  ultimately show ?thesis
    by (simp add: RICrequestID_contract_def RICrequestID.contract_def request_id_def bytes_bits_Cons bytes_bits_octets_of
      byte_bits_0 align_pad_def)
qed

context class_type
begin

lemma class_octets:
  assumes ph: "(ph + length (id_bits (ph mod 8) n)) mod 8 = 0" and crit: "fst crit_k 0 (Native 0) = [False, False]"
    and w: "fst (ks ! i) 0 w = bytes_bits bs" "bs \<noteq> []" "length bs \<le> 127"
  shows "seq_bits ph [Some (Native n), Some (Native 0), Some (Choice (Suc i) (Some w))] =
    id_bits (ph mod 8) n @ bytes_bits ([0x00, word_of_nat (length bs)] @ bs)"
proof -
  have opt: "filter (\<lambda>i. optional (fields ! i) \<noteq> 0) [0..<3] = []"
    by (simp add: class_fields_def upt_rec numeral_3_eq_3)
  have "open_bits (2::nat) (Choice (Suc i) (Some w)) = replicate 6 False @ bytes_bits (word_of_nat (length bs) # bs)"
    using w by (simp add: open_bits_def aper_open_bits_def complete_octets_bytes short_fragment align_pad_def)
  moreover have "(ph + length (id_bits (ph mod 8) n) + 2) mod 8 = 2" using ph by (metis mod_add_left_eq add_0 mod_less numeral_less_iff semiring_norm(76) semiring_norm(78))
  moreover have "replicate 8 False = False # False # replicate 6 False" by (simp add: numeral_eq_Suc)
  ultimately show ?thesis
    unfolding seq_bits_def Let_def opt
    using ph crit by (simp add: no_optionals presence_def fields_bits_def native_contract_def bytes_bits_Cons byte_bits_0 numeral_3_eq_3)
qed

end

lemma criticality_reject: "enum_bits asn_SPC_Criticality_specs asn_PER_memb_criticality_constr 0 (enum_pos asn_SPC_Criticality_specs 0) = [False, False]"
  by (simp add: enum_bits_def enum_pos_def root_count_def NativeEnumerated_compar_value2enum_def asn_SPC_Criticality_specs_def
    asn_MAP_Criticality_value2enum_def asn_PER_memb_criticality_constr_def APC_CONSTRAINED_def APC_EXTENSIBLE_def val_bits_def upt_rec)

lemma id_bits: "cwn_bits ph (lower_bound asn_PER_memb_id_constr) (upper_bound asn_PER_memb_id_constr) n = align_pad ph @ val_bits 16 n"
  by (simp add: asn_PER_memb_id_constr_def cwn_bits_16)

lemma request_id_field_bits:
  "fst (RICsubscriptionDeleteRequest_IEs_contract m) 0 (class_field 29 0 1 (request_id a b)) =
    bytes_bits ([0x00, 0x1D, 0x00, 0x05, 0x00] @ octets_of a @ octets_of b)"
proof -
  let ?id = "cwn_bits (0 mod 8) (lower_bound asn_PER_memb_id_constr) (upper_bound asn_PER_memb_id_constr) 29"
  let ?octets = "0x00 # octets_of a @ octets_of b"
  have "RICsubscriptionDeleteRequest_IEs.seq_bits m 0 [Some (Native 29), Some (Native 0), Some (Choice (Suc 0) (Some (request_id a b)))] =
      ?id @ bytes_bits ([0x00, word_of_nat (length ?octets)] @ ?octets)"
    by (rule RICsubscriptionDeleteRequest_IEs.class_octets)
      (simp_all add: criticality_reject request_id_bits id_bits align_pad_def octets_of_def)
  then show ?thesis
    using bytes_bits_octets_of [of 29]
    by (simp add: RICsubscriptionDeleteRequest_IEs_contract_def RICsubscriptionDeleteRequest_IEs.contract_def class_field_def
      id_bits align_pad_def octets_of_def bytes_bits_Cons)
qed

lemma function_id_field_bits:
  "fst (RICsubscriptionDeleteRequest_IEs_contract m) 0 (class_field 5 0 2 (Native f)) =
    bytes_bits ([0x00, 0x05, 0x00, 0x02] @ octets_of f)"
proof -
  let ?id = "cwn_bits (0 mod 8) (lower_bound asn_PER_memb_id_constr) (upper_bound asn_PER_memb_id_constr) 5"
  have "RICsubscriptionDeleteRequest_IEs.seq_bits m 0 [Some (Native 5), Some (Native 0), Some (Choice (Suc 1) (Some (Native f)))] =
      ?id @ bytes_bits ([0x00, word_of_nat (length (octets_of f))] @ octets_of f)"
    by (rule RICsubscriptionDeleteRequest_IEs.class_octets)
      (simp_all add: criticality_reject id_bits align_pad_def bytes_bits_octets_of asn_PER_type_RANfunctionID_constr_def cwn_bits_16,
       simp_all add: octets_of_def)
  then show ?thesis
    using bytes_bits_octets_of [of 5]
    by (simp add: RICsubscriptionDeleteRequest_IEs_contract_def RICsubscriptionDeleteRequest_IEs.contract_def class_field_def
      id_bits align_pad_def octets_of_def bytes_bits_Cons numeral_2_eq_2)
qed

lemma delete_request_bits:
  "fst (RICsubscriptionDeleteRequest_contract m) 0 (delete_request a b f) = bytes_bits (delete_request_octets a b f)"
proof -
  let ?ie = "fst (RICsubscriptionDeleteRequest_IEs_contract m)"
  let ?vs = "[class_field 29 0 1 (request_id a b), class_field 5 0 2 (Native f)]"
  have body: "body_bits (\<lambda>_. ?ie) ph 0 (map Some ?vs) = bytes_bits ([0x00, 0x1D, 0x00, 0x05, 0x00] @ octets_of a @ octets_of b) @
      bytes_bits ([0x00, 0x05, 0x00, 0x02] @ octets_of f)" if "ph mod 8 = 0" for ph
    using that by (simp add: request_id_field_bits [unfolded One_nat_def] function_id_field_bits mod_add_left_eq [symmetric] octets_of_def)
  have of_bits: "ProtocolIE_Container_1479P5.of_bits m 1 ?vs = align_pad 1 @ val_bits 16 2 @
      bytes_bits ([0x00, 0x1D, 0x00, 0x05, 0x00] @ octets_of a @ octets_of b) @ bytes_bits ([0x00, 0x05, 0x00, 0x02] @ octets_of f)"
    unfolding ProtocolIE_Container_1479P5.of_bits_def Let_def
    using body [of 24] by (simp add: asn_PER_type_ProtocolIE_Container_1479P5_constr_def cwn_bits_16 align_pad_def del: body_bits.simps)
  have "RICsubscriptionDeleteRequest.seq_bits m 0 [Some (Elements ?vs)] = False # ProtocolIE_Container_1479P5.of_bits m 1 ?vs"
    unfolding RICsubscriptionDeleteRequest.seq_bits_def Let_def
    by (simp add: asn_SPC_RICsubscriptionDeleteRequest_specs_def asn_MBR_RICsubscriptionDeleteRequest_def presence_def
      ProtocolIE_Container_1479P5_contract_def ProtocolIE_Container_1479P5.contract_def)
  moreover have "replicate 8 False = False # replicate 7 False" by (simp add: numeral_eq_Suc)
  ultimately show ?thesis
    using bytes_bits_octets_of [of 2]
    by (simp add: RICsubscriptionDeleteRequest_contract_def RICsubscriptionDeleteRequest.contract_def delete_request_def of_bits [unfolded One_nat_def]
      align_pad_def delete_request_octets_def bytes_bits_Cons byte_bits_0 octets_of_def)
qed

lemma delete_request_pdu_bits:
  "fst (E2AP_PDU_contract m others) 0 (delete_request_pdu a b f) =
    bytes_bits ([0x00, 0x09, 0x00, 0x12] @ delete_request_octets a b f)"
proof -
  let ?msg = "delete_request a b f" and ?octets = "delete_request_octets a b f"
  let ?id = "cwn_bits (3 mod 8) (lower_bound asn_PER_memb_procedureCode_constr) (upper_bound asn_PER_memb_procedureCode_constr) 9"
  have id: "cwn_bits 3 (lower_bound asn_PER_memb_procedureCode_constr) (upper_bound asn_PER_memb_procedureCode_constr) 9 =
      replicate 5 False @ val_bits 8 9"
    by (simp add: asn_PER_memb_procedureCode_constr_def cwn_bits_def align_pad_def)
  have len: "length ?octets = 18" by (simp add: delete_request_octets_def octets_of_def)
  have "class_field 9 0 2 ?msg = Fields [Some (Native 9), Some (Native 0), Some (Choice (Suc 1) (Some ?msg))]"
    by (simp add: class_field_def numeral_2_eq_2)
  moreover have "InitiatingMessage.seq_bits m others 3 [Some (Native 9), Some (Native 0), Some (Choice (Suc 1) (Some ?msg))] =
      ?id @ bytes_bits ([0x00, word_of_nat (length ?octets)] @ ?octets)"
    by (rule InitiatingMessage.class_octets) (simp_all add: criticality_reject id delete_request_bits len, simp add: delete_request_octets_def)
  ultimately have msg: "fst (InitiatingMessage_contract m others) 3 (class_field 9 0 2 ?msg) =
      replicate 5 False @ val_bits 8 9 @ bytes_bits ([0x00, 0x12] @ ?octets)"
    by (simp add: InitiatingMessage_contract_def InitiatingMessage.contract_def id len)
  have "E2AP_PDU.choice_bits m others 0 0 v = [False, False, False] @ fst (InitiatingMessage_contract m others) 3 v" for v
    unfolding E2AP_PDU.choice_bits_def Let_def
    by (simp add: asn_PER_type_E2AP_PDU_constr_def APC_CONSTRAINED_def APC_EXTENSIBLE_def val_bits_def upt_rec)
  moreover have "byte_bits 0 = [False, False, False] @ replicate 5 False" "byte_bits 9 = val_bits 8 9"
    using byte_bits_word_of_int [of 9] by (simp_all add: byte_bits_0 numeral_eq_Suc)
  ultimately show ?thesis
    unfolding E2AP_PDU_contract_def E2AP_PDU.contract_def delete_request_pdu_def by (simp add: msg bytes_bits_Cons)
qed

lemma number_16_ok: "0 \<le> n \<Longrightarrow> n \<le> 65535 \<Longrightarrow>
    aper_number_ok None \<lparr>flags = APC_CONSTRAINED, range_bits = 16, effective_bits = 16, lower_bound = 0, upper_bound = 65535\<rparr> n"
  using e2ap_numbers_ok [of asn_PER_type_ProtocolIE_ID_constr n] by (simp add: e2ap_numbers_def asn_PER_type_ProtocolIE_ID_constr_def)

lemma delete_request_pdu_valid:
  assumes "0 \<le> a" "a \<le> 65535" "0 \<le> b" "b \<le> 65535" "0 \<le> f" "f \<le> 4095"
  shows "snd (E2AP_PDU_contract m others) (delete_request_pdu a b f)"
proof -
  have crit: "enum_ok asn_SPC_Criticality_specs asn_PER_memb_criticality_constr 0"
    by (simp add: enum_ok_def enum_type_def enum_pos_def root_count_def NativeEnumerated_compar_value2enum_def asn_SPC_Criticality_specs_def
      asn_MAP_Criticality_value2enum_def asn_PER_memb_criticality_constr_def APC_CONSTRAINED_def APC_EXTENSIBLE_def)
  have rid: "snd (RICrequestID_contract m) (request_id a b)"
    unfolding RICrequestID_contract_def RICrequestID.contract_def request_id_def snd_conv
    using assms number_16_ok
    by (simp add: fields_valid_def asn_MBR_RICrequestID_def asn_PER_memb_RICrequestID_ricRequestorID_constr_def
      asn_PER_memb_RICrequestID_ricInstanceID_constr_def)
  have ie: "snd (RICsubscriptionDeleteRequest_IEs_contract m) (class_field 29 0 1 (request_id a b))"
      "snd (RICsubscriptionDeleteRequest_IEs_contract m) (class_field 5 0 2 (Native f))"
    unfolding RICsubscriptionDeleteRequest_IEs_contract_def RICsubscriptionDeleteRequest_IEs.contract_def snd_conv
      RICsubscriptionDeleteRequest_IEs.class_valid_def class_field_def
    using rid crit number_16_ok e2ap_numbers_ok [of asn_PER_type_RANfunctionID_constr f] assms
    by (simp_all add: asn_PER_memb_id_constr_def NativeInteger_compare_def is_unsigned_def type_column_def asn_IOS_RICsubscriptionDeleteRequest_IEs_def
      asn_MBR_RICsubscriptionDeleteRequest_IEs__value_def e2ap_numbers_def asn_PER_type_RANfunctionID_constr_def numeral_2_eq_2)
  have "snd (ProtocolIE_Container_1479P5_contract m) (Elements [class_field 29 0 1 (request_id a b), class_field 5 0 2 (Native f)])"
    unfolding ProtocolIE_Container_1479P5_contract_def ProtocolIE_Container_1479P5.contract_def
    using ie by (simp add: asn_PER_type_ProtocolIE_Container_1479P5_constr_def)
  then have msg: "snd (RICsubscriptionDeleteRequest_contract m) (delete_request a b f)"
    unfolding RICsubscriptionDeleteRequest_contract_def RICsubscriptionDeleteRequest.contract_def snd_conv delete_request_def
    by (simp add: fields_valid_def asn_MBR_RICsubscriptionDeleteRequest_def)
  have "aper_number_ok None asn_PER_memb_procedureCode_constr 9"
    using e2ap_numbers_ok [of asn_PER_type_ProcedureCode_constr 9]
    by (simp add: e2ap_numbers_def asn_PER_type_ProcedureCode_constr_def asn_PER_memb_procedureCode_constr_def)
  then have "snd (InitiatingMessage_contract m others) (class_field 9 0 2 (delete_request a b f))"
    unfolding InitiatingMessage_contract_def InitiatingMessage.contract_def snd_conv InitiatingMessage.class_valid_def class_field_def
    using crit msg
    by (simp add: NativeInteger_compare_def is_unsigned_def type_column_def asn_IOS_E2AP_ELEMENTARY_PROCEDURES_def asn_MBR_InitiatingMessage__value_def numeral_2_eq_2)
  then show ?thesis
    unfolding E2AP_PDU_contract_def E2AP_PDU.contract_def snd_conv delete_request_pdu_def by (simp add: asn_MBR_E2AP_PDU_def)
qed

text \<open>
  C1. Every message of E2AP that the library models, from end to end: what the encoder of the PDU puts
  into a new buffer, whatever uncleared memory holds, is decoded as the same structure and consumed
  to the end. The contract says which structures are meant: every member within the bounds of its type,
  optional members or none, lists within their size, and in every open type the alternative
  that the object set has for the number of the field.
\<close>
theorem E2AP_PDU_complete_roundtrip:
  assumes "snd (E2AP_PDU_contract m others) v" and "length tmp = 32" and "length (fst (E2AP_PDU_contract m others) 0 v) < 2 ^ 64"
  shows "\<exists>buf tail. aper_encode_to_new_buffer (\<lambda>_. True) True tmp
        (Some (aper_encoder (asn_DEF_E2AP_PDU others (ideal_env m)) None (Some v))) = Some (int (length buf), Some (buf @ tail)) \<and>
      aper_decode_complete (Some (aper_decoder (asn_DEF_E2AP_PDU others (ideal_env m)) None)) None buf =
        Some ((RC_OK, length buf), Some v)"
  using codec_ok_complete [OF E2AP_PDU_codec assms] by blast

lemma E2AP_PDU_complete_roundtrip_witness:
  "\<exists>buf tail. aper_encode_to_new_buffer (\<lambda>_. True) True (replicate 32 0)
      (Some (aper_encoder (asn_DEF_E2AP_PDU (\<lambda>_. asn_codec (Native 0) (\<lambda>_ _ _. None) (\<lambda>_ _ _. None) []) (ideal_env ([], \<lambda>_. []))) None
        (Some (delete_request_pdu 123 0 2)))) = Some (int (length buf), Some (buf @ tail)) \<and>
    aper_decode_complete (Some (aper_decoder (asn_DEF_E2AP_PDU (\<lambda>_. asn_codec (Native 0) (\<lambda>_ _ _. None) (\<lambda>_ _ _. None) [])
      (ideal_env ([], \<lambda>_. []))) None)) None buf = Some ((RC_OK, length buf), Some (delete_request_pdu 123 0 2))"
  by (rule E2AP_PDU_complete_roundtrip)
    (simp_all add: delete_request_pdu_valid delete_request_pdu_bits delete_request_octets_def octets_of_def)

text \<open>
  C2. The octets of a subscription delete request: for every requestor, instance and function the buffer
  has exactly these 22 octets, and they are decoded as the request.
\<close>
theorem delete_request_encoded_as:
  assumes "0 \<le> requestor" "requestor \<le> 65535" "0 \<le> inst" "inst \<le> 65535" "0 \<le> fn" "fn \<le> 4095" and "length tmp = 32"
  defines "buf \<equiv> [0x00, 0x09, 0x00, 0x12, 0x00, 0x00, 0x02,
      0x00, 0x1D, 0x00, 0x05, 0x00] @ octets_of requestor @ octets_of inst @
      [0x00, 0x05, 0x00, 0x02] @ octets_of fn"
  shows "(\<exists>tail. aper_encode_to_new_buffer (\<lambda>_. True) True tmp (Some (aper_encoder (asn_DEF_E2AP_PDU others (ideal_env m)) None
        (Some (delete_request_pdu requestor inst fn)))) = Some (22, Some (buf @ tail))) \<and>
    aper_decode_complete (Some (aper_decoder (asn_DEF_E2AP_PDU others (ideal_env m)) None)) None buf =
      Some ((RC_OK, 22), Some (delete_request_pdu requestor inst fn))"
proof -
  have buf: "buf = [0x00, 0x09, 0x00, 0x12] @ delete_request_octets requestor inst fn" "length buf = 22"
    by (simp_all add: buf_def delete_request_octets_def octets_of_def)
  then have "complete_octets (fst (E2AP_PDU_contract m others) 0 (delete_request_pdu requestor inst fn)) = buf"
    unfolding delete_request_pdu_bits buf(1) [symmetric] using buf(2) by (intro complete_octets_bytes) auto
  moreover have "length (fst (E2AP_PDU_contract m others) 0 (delete_request_pdu requestor inst fn)) < 2 ^ 64"
    unfolding delete_request_pdu_bits buf(1) [symmetric] using buf(2) by simp
  ultimately show ?thesis
    using codec_ok_complete [OF E2AP_PDU_codec delete_request_pdu_valid [OF assms(1-6)] assms(7), of m others] buf(2) by simp
qed

lemma delete_request_encoded_as_witness:
  "\<exists>tail. aper_encode_to_new_buffer (\<lambda>_. True) True (replicate 32 0)
      (Some (aper_encoder (asn_DEF_E2AP_PDU (\<lambda>_. asn_codec (Native 0) (\<lambda>_ _ _. None) (\<lambda>_ _ _. None) []) (ideal_env ([], \<lambda>_. []))) None
        (Some (delete_request_pdu 123 0 2)))) =
    Some (22, Some ([0x00, 0x09, 0x00, 0x12, 0x00, 0x00, 0x02, 0x00, 0x1D, 0x00, 0x05, 0x00, 0x00, 0x7B, 0x00, 0x00,
      0x00, 0x05, 0x00, 0x02, 0x00, 0x02] @ tail))"
  using delete_request_encoded_as [of 123 0 2 "replicate 32 0" "\<lambda>_. asn_codec (Native 0) (\<lambda>_ _ _. None) (\<lambda>_ _ _. None) []" "([], \<lambda>_. [])"]
  by (simp add: octets_of_def)

section \<open>Selectors\<close>

lemma select_row_le: "select_row rows k n \<le> k + length (filter snd rows)"
proof (induction rows k n rule: select_row.induct)
  case (2 cell defined rows k n)
  then show ?case by (cases defined) simp_all
qed simp

lemma select_row_nth:
  "distinct (map fst (filter snd rows)) \<Longrightarrow> i < length (filter snd rows) \<Longrightarrow>
    select_row rows k (fst (filter snd rows ! i)) = k + Suc i"
proof (induction rows arbitrary: i k)
  case (Cons row rows)
  then show ?case
    by (cases row; cases i) (auto simp: NativeInteger_compare_def is_unsigned_def dest: nth_mem split: if_splits)
qed simp

lemma select_type_range:
  assumes "distinct (map fst (filter snd rows))" and "length (filter snd rows) = n"
  shows "(\<forall>st. select_type rows st \<le> n) \<and> (\<forall>i<n. \<exists>v. select_type rows [Some (Native v)] = Suc i)"
proof -
  have "select_type rows st \<le> n" for st
    using select_row_le [of rows 0] assms(2) by (auto simp: select_type_def split: list.splits option.splits asn_value.splits)
  moreover have "\<exists>v. select_type rows [Some (Native v)] = Suc i" if "i < n" for i
    using select_row_nth [OF assms(1), of i 0] assms(2) that by (auto simp: select_type_def)
  ultimately show ?thesis by blast
qed

text \<open>
  C3. The selectors of the open types: whatever a structure holds, the alternative they choose is
  one that the union has, and every alternative is chosen for some number.
\<close>
theorem e2ap_selectors_total:
  "list_all (\<lambda>(select, alts). (\<forall>st. select st \<le> length alts) \<and> (\<forall>i<length alts. \<exists>v. select [Some (Native v)] = Suc i))
    (e2ap_selectors others env)"
  by (simp add: e2ap_selectors_def e2ap_selector_tables type_column_def select_type_range)

lemma e2ap_selectors_total_witness:
  "(\<exists>v. select_InitiatingMessage_value_type [Some (Native v)] = 15) \<and> select_InitiatingMessage_value_type [] \<le> 15"
proof -
  let ?others = "\<lambda>_. asn_codec (Native 0) (\<lambda>_ _ _. None) (\<lambda>_ _ _. None) []" and ?env = "ideal_env ([], \<lambda>_. [])"
  let ?alts = "asn_MBR_InitiatingMessage__value ?others ?env"
  have "(select_InitiatingMessage_value_type, ?alts) \<in> set (e2ap_selectors ?others ?env)"
    unfolding e2ap_selectors_def by simp
  moreover have "length ?alts = 15" by (simp add: asn_MBR_InitiatingMessage__value_def)
  ultimately show ?thesis
    using e2ap_selectors_total [of ?others ?env] by (fastforce simp: list_all_iff numeral_eq_Suc)
qed

end
