(* ===== verification/Constr_Properties.thy ===== *)
theory Constr_Properties
  imports Constr_Codecs_Laws
begin

unbundle bit_operations_syntax

text \<open>
  What the decoders of the constructed types do with data that no encoder of this version makes:
  open types without a known alternative, additions that the type does not have, and extensions of
  a choice without any.
\<close>

definition octets_data :: "u8 list \<Rightarrow> asn_bit_data" where
  "octets_data buf = \<lparr>pd_buffer = buf, pd_nboff = 0, pd_nbits = 8 * length buf, pd_moved = 0\<rparr>"

section \<open>Unknown open types\<close>

text \<open>
  The octets of an unknown alternative need not be there: the announced length is five, one octet
  follows, and the decoder reports success.
\<close>

lemma unknown_type_truncated:
  "map_option fst (OPEN_TYPE_aper_unknown_type_discard_bytes (\<lambda>_. True) (octets_data [0x05, 0xAA])) = Some (RC_OK, 0)"
  by code_simp

section \<open>Additions\<close>

text \<open>
  Two additions that this version does not have: the first is skipped, the second, two octets with
  their length, is left in the stream.
\<close>

lemma second_unknown_addition_left:
  "map_option (\<lambda>(rv, st, pd). (rv, st, pd_rest pd)) (SEQUENCE_decode_aper (ideal_env ([], \<lambda>_. [])) \<lparr>oms = [], roms_count = 0, aoms_count = 0, first_extension = 0\<rparr> [] None
    (octets_data [0x81, 0xC0, 0x01, 0xAA, 0x02, 0xBB, 0xCC])) =
    Some ((RC_OK, 0), Some (Fields []), bytes_bits [0x02, 0xBB, 0xCC])"
  by code_simp

section \<open>Extensions of a choice\<close>

text \<open>
  A choice that is extensible and has no extension yet: the bit of the extension is taken for the
  index, and the second alternative is decoded from an open type, here with the value one.
\<close>

definition two_numbers :: "asn_codec asn_TYPE_member list" where
  "two_numbers =
    (let t = asn_OP_NativeInteger (ideal_env ([], \<lambda>_. [])) None (Some (value_only
        \<lparr>flags = APC_CONSTRAINED, range_bits = 8, effective_bits = 8, lower_bound = 0, upper_bound = 255\<rparr>))
     in [member_noflags t None, member_noflags t None])"

lemma extension_taken_for_index:
  "map_option (\<lambda>(rv, st, pd). (rv, st, pd_rest pd)) (CHOICE_decode_aper (ideal_env ([], \<lambda>_. []))
      \<lparr>tag2el_count = 2, to_canonical_order = None, from_canonical_order = None, ext_start = 2\<rparr>
      (Some (value_only \<lparr>flags = APC_CONSTRAINED OR APC_EXTENSIBLE, range_bits = 1, effective_bits = 1, lower_bound = 0, upper_bound = 1\<rparr>))
      two_numbers None None (octets_data [0x80, 0x01, 0x07])) =
    Some ((RC_OK, 0), Some (Choice 2 (Some (Native 7))), [])"
  by code_simp

end
