(* ===== verification/Spec2Isabelle.thy ===== *)
theory Spec2Isabelle
  imports Exstrings_Scan_Properties Uper_Support_Properties Ber_Tlv_Properties E2ap_Messages_Properties Constr_Properties
begin

text \<open>
  A verification library for the near-real-time RAN controller of this repository.

  \<^bold>\<open>The program.\<close>  The controller is a set of services.  Base stations talk to the E2 termination
  (\<open>setup/e2\<close>), which forwards their messages to xApps.  The xApp connector
  (\<open>setup/xapp-sm-connector\<close>) decodes and encodes these messages, which are ASN.1 values in the
  packed encoding rules: the code that does so is the ASN.1 runtime in \<open>asn1c_defs/\<close>, driven by
  generated tables.  Services share state through the shared data layer (\<open>setup/dbaas\<close>), a Redis
  server with a module, \<open>redismodule/src/exstrings.c\<close>, that adds conditional and publishing
  commands.  The library covers the two parts with logic of their own in C: the Redis module, and
  the ASN.1 runtime from its bit streams up to whole messages of E2AP.

  \<^bold>\<open>Conventions.\<close>  A C function is a HOL function of its arguments and the state it reads and
  writes.  Undefined behaviour (an access out of bounds, signed overflow, a shift beyond the width,
  a failed assertion, the use of freed memory) is \<open>None\<close>; a theorem that concludes \<open>Some\<close> says that
  the code is free of it.  Errors the code reports are values: \<open>- 1\<close>, an error reply, \<open>Inl\<close> of an
  \<open>errno\<close>, or one of the constructors of a result type.  Unsigned machine integers are words;
  signed ones are \<open>int\<close> with the overflow check written out.  Bytes are words of 8 bits, except in
  the Redis module, whose strings are HOL strings that may contain NUL.  Loops whose end is not
  visible in the code (over the fragments of a stream) are partial functions, and the theorems about
  them prove that they return.

  \<^bold>\<open>The Redis module.\<close>
  \<^item> \<open>C_Strings\<close>: \<open>strncmp\<close>, \<open>strcasecmp\<close>, \<open>strtoll\<close> and \<open>strtol\<close> on bytes.
  \<^item> \<open>Redis_Module\<close>: the interface between the module and the server.  The server is not in the
    repository: it is the record \<open>redis_api\<close>, a parameter of every command, and what the properties
    assume of it are the laws stated there (\<open>get_law\<close>, \<open>set_law\<close>, \<open>publish_law\<close> and so on).
    \<open>rctx\<close> is the state of one command: the data, the handles with their frees, the replies sent,
    the lock.  \<open>Redis_Reference\<close> is an executable server that satisfies the laws; the witnesses run
    on it.
  \<^item> \<open>Exstrings\<close>: the commands SETIE, SETNE, DELIE, DELNE, their publishing variants, MSETPUB,
    MSETMPUB, DELPUB and DELMPUB.  \<open>Exstrings_Scan\<close>: NGET and NDEL with the cursor loop over SCAN,
    the background thread, its lock, and the command table with its arity checks.  The loops of NGET
    and NDEL end only if the server ends its scan, so they take fuel; the liveness properties say
    how much is enough.
  \<^item> \<open>Exstrings_Properties\<close> and \<open>Exstrings_Scan_Properties\<close>: compare-and-set and
    compare-and-delete against the map of the data, publication exactly when a write happened, no
    access outside the argument vector, the answers of the pattern commands and of the background
    thread with the lock it takes for every page, and what happens on errors.  What a thread sees of
    other clients is a list of rounds (\<open>served\<close>), one for every acquisition of the lock.

  \<^bold>\<open>Bit streams.\<close>
  \<^item> \<open>Bit_Lists\<close>: bit strings, the language of the specifications: \<open>val_bits n v\<close> is the low \<open>n\<close> bits
    of \<open>v\<close>, \<open>bits_val\<close> reads them back, \<open>octet_count\<close> and \<open>be_octets\<close> are base 256.
  \<^item> \<open>Asn_Bit_Data\<close> models the reader of \<open>asn_bit_data.c\<close> (record \<open>asn_bit_data\<close> is the structure of
    that name; a position stands for its buffer pointer); \<open>Asn_Bit_Outp\<close> the writer with its scratch
    area of 32 bytes.  The specification of a read is \<open>gets\<close>, of a write \<open>emits\<close> and \<open>overflows\<close>.
    The interface between the writer and whatever takes its bytes is the locale \<open>byte_sink\<close>: a
    callback and a view of what it has received.  What the code writes is proved once inside it.
  \<^item> \<open>Per_Encoder\<close>: the callbacks of \<open>per_encoder.c\<close>, \<open>aper_encoder.c\<close> and \<open>asn_application.c\<close> and
    the top of the encoder, \<open>aper_encode\<close>.  \<open>byte_sink\<close> is interpreted for the caller's buffer
    (\<open>encode_to_buffer_cb\<close>) and for the growing buffer (\<open>encode_dyn_cb\<close>); the extension
    \<open>strict_sink\<close> adds what the final flush needs.  The encoder of the type is a parameter.
  \<^item> \<open>Bit_Stream_Properties\<close>: reads are safe on arbitrary data, written bits are read
    back, a complete encoding arrives in the caller's buffer.

  \<^bold>\<open>Fields of the packed encodings.\<close>
  \<^item> \<open>Aper_Support\<close> and \<open>Uper_Support\<close> model \<open>aper_support.c\<close> and \<open>uper_support.c\<close>, each function under
    its C name.  \<open>Aper_Support_Laws\<close> and \<open>Uper_Support_Laws\<close> state the bits of every field as X.691
    has them (\<open>cwn_bits\<close>, \<open>length_bits\<close>) and prove that the writers emit and the readers accept
    exactly these.  \<open>Aper_Support_Properties\<close> and \<open>Uper_Support_Properties\<close>
    have the round trips, the bounds, the agreement of the two variants on lengths, and the fields
    that do not survive.
  \<^item> \<open>Integer_Uper\<close> and \<open>Integer_Aper\<close>: decoder and encoder of \<open>INTEGER_uper.c\<close> and \<open>INTEGER_aper.c\<close> with
    the constraints of \<open>per_support.h\<close>.  The loops over fragments are the same in both variants up to
    the length determinant, and so are
    their lemmas: they are proved in the locales \<open>fragment_writer\<close> and \<open>fragment_reader\<close> of
    \<open>Integer_Uper_Laws\<close>, of which both variants are instances (\<open>uper\<close> and \<open>aper\<close>; for the writers as
    sublocales of \<open>byte_sink\<close>, that is, for every sink).  \<open>Integer_Aper_Laws\<close> proves that the
    encoder's bit fields are those of X.691 and that the decoder reads them.  The round trips are in
    \<open>Integer_Uper_Properties\<close> and \<open>Integer_Aper_Properties\<close>.

  \<^bold>\<open>Tags, lengths and integers.\<close>
  \<^item> \<open>Ber_Tlv\<close>: \<open>ber_tlv_tag.c\<close> and \<open>ber_tlv_length.c\<close>.  The stack check of \<open>ber_skip_length\<close> depends on
    addresses and is a parameter.  \<open>Ber_Tlv_Laws\<close> has the octets of tags and lengths
    and, as inductive predicates \<open>ber_lv\<close> and \<open>ber_elements\<close>, the well-formed elements;
    \<open>Ber_Tlv_Properties\<close> the round trips, safety and the skipping of elements.
  \<^item> \<open>Asn_Integer\<close> and \<open>Asn_Strtox\<close>: \<open>INTEGER.c\<close>.  A block that \<open>CALLOC\<close> or \<open>MALLOC\<close> may fail to
    deliver is a Boolean argument.  \<open>Asn_Integer_Laws\<close> defines the number that octets stand for
    (\<open>twos\<close>), the shortest octets of a number and the value of decimal digits;
    \<open>Asn_Integer_Properties\<close> has the conversions, the parsing of decimals and the comparison.

  \<^bold>\<open>Types.\<close>
  \<^item> \<open>Per_Decoder\<close>: the top of both decoders (\<open>aper_decoder.c\<close>, \<open>uper_decoder.c\<close>), the unaligned encoder,
    and open types (\<open>aper_opentype.c\<close>, \<open>uper_opentype.c\<close>).  A decoder of a type is a function of the target
    structure and the stream, an encoder one of the value and the writer.
  \<^item> \<open>Per_Type_Laws\<close>: the contract between the types and what uses them, the locale \<open>per_type\<close>: an
    encoder that writes the bits of a value, and a decoder that reads them from a structure that
    fits.  Inside it: a complete encoding is decoded again, in both directions through an open
    type; \<open>length_reader\<close> and \<open>chunk_reader\<close> share what the two variants of open types have in
    common.
  \<^item> \<open>Per_Primitive\<close>: BOOLEAN, NULL, NativeInteger and NativeEnumerated in both variants.
    \<open>Per_Primitive_Laws\<close> interprets \<open>per_type\<close> for them.  \<open>E2ap_Tables\<close> are the constants and the
    enumerations of E2AP as the generated files have them; \<open>Per_Primitive_Properties\<close> the
    round trips for all of these, and what the decoder delivers on arbitrary data.
  \<^item> \<open>Constr_Types\<close>: structures (\<open>asn_value\<close>), descriptors with their operations (\<open>asn_codec\<close>), members, and open types that another
    member selects (\<open>OPEN_TYPE_aper.c\<close>).  \<open>Constr_Sequence\<close>, \<open>Constr_Choice\<close> and \<open>Constr_Sequence_Of\<close>: SEQUENCE with optional members, defaults and
    extensions, CHOICE, SEQUENCE OF (\<open>constr_*_aper.c\<close>).  The record \<open>env\<close> has what the code cannot decide: the
    stack check, allocations, the contents of memory that is not cleared.  \<open>Constr_Codecs\<close>: the tables
    of operations \<open>asn_OP_*\<close>, object sets and the selectors over them.
  \<^item> \<open>Constr_Sequence_Laws\<close> and \<open>Constr_Laws\<close>: the locales \<open>sequence_type\<close>, \<open>sequence_of_type\<close> and
    \<open>choice_type\<close> prove that a constructed type keeps \<open>per_type\<close> when its members do.
    \<open>Constr_Codecs_Laws\<close> puts these into one form, a contract (the bits of every structure, and which
    structures are valid) that a descriptor keeps (\<open>codec_ok\<close>), and has a locale for every shape
    of generated type: \<open>plain_sequence\<close>, \<open>plain_choice\<close>, \<open>alternatives\<close> and \<open>class_type\<close>, the first,
    second and last as sublocales of the locales before.
  \<^item> \<open>E2ap_Messages\<close>: the generated descriptors of E2AP, from \<open>E2AP_PDU\<close> down, each table under its C
    name.  \<open>E2ap_Messages_Laws\<close> has an interpretation for every one of them and ends with the contract of the PDU.
    \<open>E2ap_Messages_Properties\<close>: the round trip of every message, the octets of
    a subscription delete request, and the safety of the selectors.  \<open>Constr_Properties\<close> has the
    findings about constructed types as lemmas on concrete streams.

  \<^bold>\<open>Groups of lemmas.\<close>  For each component: preservation of the well-formedness of its state
  (\<open>pd_wf\<close>, \<open>po_wf\<close>, \<open>handles_ok\<close>), the effect of each operation on every branch, equivalence with a
  reference on bit strings or on the map of the data, and the composition of writer and reader.
  Where the code does not do what its counterpart expects a theorem states what it does, for instance
  \<open>setie_ignores_bytes_after_NUL\<close>, \<open>nget_out_of_memory\<close>, \<open>aper_nslength_long_form_misread\<close>, \<open>uper_nsnnwn_only_small_numbers\<close>,
  \<open>INTEGER_compare_shortest\<close>, \<open>setmpub_count_overflow\<close>,
  \<open>aper_put_constrained_whole_number_undefined\<close>, \<open>INTEGER_aper_eight_bits_starved\<close>,
  \<open>INTEGER_aper_semi_constrained_refused\<close> and \<open>second_unknown_addition_left\<close>.

  \<^bold>\<open>Not modelled.\<close>  Debugging output; \<open>INTEGER__dump\<close>; the dispatch of \<open>asn_encode\<close> over transfer
  syntaxes; the other codecs of the runtime (BER beyond tags and lengths, OER, XER, JER), which the
  connector uses for debugging output only; the unaligned variant of constructed types.  The tables of the service models.  The E2
  termination, the connector's C++ code and the Go and Python services, which are layers over
  sockets, RMR and other libraries.
\<close>

end
